(* ===== verification/Prelude.thy ===== *)
theory Prelude
  imports Main "HOL-Library.AList" "HOL-Library.Char_ord" "HOL-Library.List_Lexorder"
    "HOL-Library.Product_Lexorder" "HOL-Library.Word"
begin

text \<open>
  Shared vocabulary of the development: identifiers and times, the exceptions the code raises,
  fallible results, stateful operations that keep their effects when they raise, and Python
  dictionaries as insertion-ordered association lists.
\<close>

named_theorems monad_simps \<open>unfolding rules of the result and service combinators\<close>
named_theorems code_defs \<open>definitions of the model unfolded by component proofs\<close>

section \<open>Identifiers, times, exceptions\<close>

text \<open>
  A UUID is a 128-bit value. \<open>str\<close> of a UUID is a fixed-width lower-case hexadecimal
  text, so sorting by \<open>str(uuid)\<close> is sorting by the unsigned value of the word.
  A \<open>datetime\<close> of the code is always timezone-aware UTC; it is modelled by its number of
  microseconds since the epoch.
\<close>

type_synonym uuid = "128 word"
type_synonym timestamp = int

text \<open>
  \<open>BiaiceError code\<close> is the exception of \<open>core/errors.py\<close> by its stable code (its
  human-readable detail is not modelled). The others are the Python or pydantic exceptions that
  the modelled code can raise.
\<close>

datatype exc =
    BiaiceError string
  | ValidationError
  | ValueError
  | TypeError
  | RuntimeError
  | AssertionError
  | AttributeError
  | InvalidOperation
  | KeyError

type_synonym 'a res = "exc + 'a"

definition bindE :: "'a res \<Rightarrow> ('a \<Rightarrow> 'b res) \<Rightarrow> 'b res" where
  "bindE m f = (case m of Inl e \<Rightarrow> Inl e | Inr x \<Rightarrow> f x)"

definition guardE :: "bool \<Rightarrow> exc \<Rightarrow> unit res" where
  "guardE ok e = (if ok then Inr () else Inl e)"

lemma bindE_Inl [simp]: "bindE (Inl e) f = Inl e"
  by (simp add: bindE_def)

lemma bindE_Inr [simp]: "bindE (Inr x) f = f x"
  by (simp add: bindE_def)

lemma bindE_eq_Inr: "bindE m f = Inr y \<longleftrightarrow> (\<exists>x. m = Inr x \<and> f x = Inr y)"
  by (cases m) auto

lemma guardE_eq_Inr [simp]: "guardE ok e = Inr u \<longleftrightarrow> ok"
  by (simp add: guardE_def)

lemma guardE_eq_Inl [simp]: "guardE ok e = Inl e' \<longleftrightarrow> \<not> ok \<and> e' = e"
  by (auto simp: guardE_def)

text \<open>\<open>mapE f xs\<close> applies a fallible function to each element and stops at the first error.\<close>

fun mapE :: "('a \<Rightarrow> 'b res) \<Rightarrow> 'a list \<Rightarrow> 'b list res" where
  "mapE f [] = Inr []"
| "mapE f (x # xs) = bindE (f x) (\<lambda>y. bindE (mapE f xs) (\<lambda>ys. Inr (y # ys)))"

section \<open>Stateful operations\<close>

text \<open>
  A Python method that mutates shared state and may raise: it returns its outcome together with
  the state it leaves. An exception does not undo what was written before it.
\<close>

type_synonym ('s, 'a) svc = "'s \<Rightarrow> 'a res \<times> 's"

definition ret :: "'a \<Rightarrow> ('s, 'a) svc" where
  "ret x = (\<lambda>s. (Inr x, s))"

definition throw :: "exc \<Rightarrow> ('s, 'a) svc" where
  "throw e = (\<lambda>s. (Inl e, s))"

definition bindS :: "('s, 'a) svc \<Rightarrow> ('a \<Rightarrow> ('s, 'b) svc) \<Rightarrow> ('s, 'b) svc" where
  "bindS m f = (\<lambda>s. case m s of (Inl e, s') \<Rightarrow> (Inl e, s') | (Inr x, s') \<Rightarrow> f x s')"

definition liftE :: "'a res \<Rightarrow> ('s, 'a) svc" where
  "liftE r = (\<lambda>s. (r, s))"

definition gets :: "('s \<Rightarrow> 'a) \<Rightarrow> ('s, 'a) svc" where
  "gets f = (\<lambda>s. (Inr (f s), s))"

definition modify :: "('s \<Rightarrow> 's) \<Rightarrow> ('s, unit) svc" where
  "modify f = (\<lambda>s. (Inr (), f s))"

definition checkS :: "bool \<Rightarrow> exc \<Rightarrow> ('s, unit) svc" where
  "checkS ok e = (\<lambda>s. (if ok then Inr () else Inl e, s))"

fun forS :: "'a list \<Rightarrow> ('a \<Rightarrow> ('s, 'b) svc) \<Rightarrow> ('s, 'b list) svc" where
  "forS [] f = ret []"
| "forS (x # xs) f = bindS (f x) (\<lambda>y. bindS (forS xs f) (\<lambda>ys. ret (y # ys)))"

lemma ret_apply [simp, monad_simps]: "ret x s = (Inr x, s)"
  by (simp add: ret_def)

lemma throw_apply [simp, monad_simps]: "throw e s = (Inl e, s)"
  by (simp add: throw_def)

lemma liftE_apply [simp, monad_simps]: "liftE r s = (r, s)"
  by (simp add: liftE_def)

lemma gets_apply [simp, monad_simps]: "gets f s = (Inr (f s), s)"
  by (simp add: gets_def)

lemma modify_apply [simp, monad_simps]: "modify f s = (Inr (), f s)"
  by (simp add: modify_def)

lemma checkS_apply [monad_simps]: "checkS ok e s = (if ok then Inr () else Inl e, s)"
  by (simp add: checkS_def)

lemma bindS_apply [monad_simps]:
  "bindS m f s = (case m s of (Inl e, s') \<Rightarrow> (Inl e, s') | (Inr x, s') \<Rightarrow> f x s')"
  by (simp add: bindS_def)

lemma bindS_Inr: "bindS m f s = (Inr y, t) \<longleftrightarrow> (\<exists>x s'. m s = (Inr x, s') \<and> f x s' = (Inr y, t))"
  by (auto simp: bindS_def split: prod.splits sum.splits)

text \<open>What every successful turn of a loop establishes.\<close>

lemma forS_Inr_all:
  assumes "forS xs f s = (Inr ys, t)"
    and "\<And>x s y t. x \<in> set xs \<Longrightarrow> f x s = (Inr y, t) \<Longrightarrow> Q y"
  shows "\<forall>y \<in> set ys. Q y"
  using assms
proof (induction xs arbitrary: s ys)
  case Nil
  then show ?case by simp
next
  case (Cons x xs)
  from Cons.prems(1) obtain y s' ys' s'' where
    step: "f x s = (Inr y, s')" and rest: "forS xs f s' = (Inr ys', s'')" and eq: "ys = y # ys'"
    by (auto simp: bindS_Inr)
  have "Q y" by (rule Cons.prems(2) [OF _ step]) simp
  moreover have "\<forall>y \<in> set ys'. Q y"
  proof -
    from rest eq Cons.prems(1) step have "forS xs f s' = (Inr ys', t)" by (auto simp: bindS_Inr)
    then show ?thesis by (rule Cons.IH) (erule Cons.prems(2) [rotated], simp)
  qed
  ultimately show ?case by (simp add: eq)
qed

text \<open>
  A predicate on states kept by an operation whatever its outcome, and its rules: the service
  invariants are proved by these without unfolding the combinators.
\<close>

definition preserves :: "('s \<Rightarrow> bool) \<Rightarrow> ('s, 'a) svc \<Rightarrow> bool" where
  "preserves P m \<longleftrightarrow> (\<forall>s. P s \<longrightarrow> P (snd (m s)))"

lemma preservesI: "(\<And>s. P s \<Longrightarrow> P (snd (m s))) \<Longrightarrow> preserves P m"
  by (simp add: preserves_def)

lemma preservesD: "preserves P m \<Longrightarrow> P s \<Longrightarrow> P (snd (m s))"
  by (simp add: preserves_def)

lemma preserves_ret [intro!, simp]: "preserves P (ret x)"
  by (simp add: preserves_def)

lemma preserves_throw [intro!, simp]: "preserves P (throw e)"
  by (simp add: preserves_def)

lemma preserves_liftE [intro!, simp]: "preserves P (liftE r)"
  by (simp add: preserves_def)

lemma preserves_gets [intro!, simp]: "preserves P (gets f)"
  by (simp add: preserves_def)

lemma preserves_checkS [intro!, simp]: "preserves P (checkS ok e)"
  by (simp add: preserves_def checkS_def)

lemma preserves_modify [intro]: "(\<And>s. P s \<Longrightarrow> P (f s)) \<Longrightarrow> preserves P (modify f)"
  by (simp add: preserves_def)

lemma preserves_bindS [intro]:
  "preserves P m \<Longrightarrow> (\<And>x. preserves P (f x)) \<Longrightarrow> preserves P (bindS m f)"
  unfolding preserves_def bindS_def
  by (auto split: prod.splits sum.splits)

text \<open>What follows a check may rely on it.\<close>

lemma preserves_check:
  "(ok \<Longrightarrow> preserves P m) \<Longrightarrow> preserves P (bindS (checkS ok e) (\<lambda>_. m))"
  by (auto simp: preserves_def bindS_def checkS_def)

lemma preserves_if [intro]:
  "(c \<Longrightarrow> preserves P m) \<Longrightarrow> (\<not> c \<Longrightarrow> preserves P n) \<Longrightarrow> preserves P (if c then m else n)"
  by simp

lemma preserves_case_option [intro]:
  "(x = None \<Longrightarrow> preserves P m) \<Longrightarrow> (\<And>y. x = Some y \<Longrightarrow> preserves P (f y)) \<Longrightarrow>
   preserves P (case x of None \<Rightarrow> m | Some y \<Rightarrow> f y)"
  by (cases x) simp_all

lemma preserves_case_prod [intro]: "(\<And>a b. x = (a, b) \<Longrightarrow> preserves P (f a b)) \<Longrightarrow> preserves P (case x of (a, b) \<Rightarrow> f a b)"
  by (cases x) simp

lemma preserves_forS [intro]:
  "(\<And>x. x \<in> set xs \<Longrightarrow> preserves P (f x)) \<Longrightarrow> preserves P (forS xs f)"
  by (induction xs) auto

text \<open>
  The weakest precondition of an operation for a postcondition \<open>Q\<close> on success and \<open>E\<close>
  on the state an exception leaves, with one rule per combinator.
\<close>

definition wp :: "('s, 'a) svc \<Rightarrow> ('a \<Rightarrow> 's \<Rightarrow> bool) \<Rightarrow> ('s \<Rightarrow> bool) \<Rightarrow> 's \<Rightarrow> bool" where
  "wp m Q E s = (case m s of (Inl e, t) \<Rightarrow> E t | (Inr x, t) \<Rightarrow> Q x t)"

named_theorems wp_rules \<open>introduction rules for weakest preconditions\<close>

lemma wp_bindS [wp_rules]: "wp m (\<lambda>x. wp (f x) Q E) E s \<Longrightarrow> wp (bindS m f) Q E s"
  by (auto simp: wp_def bindS_def split: prod.splits sum.splits)

lemma wp_ret [wp_rules]: "Q x s \<Longrightarrow> wp (ret x) Q E s"
  by (simp add: wp_def)

lemma wp_throw [wp_rules]: "E s \<Longrightarrow> wp (throw e) Q E s"
  by (simp add: wp_def)

lemma wp_gets [wp_rules]: "Q (f s) s \<Longrightarrow> wp (gets f) Q E s"
  by (simp add: wp_def)

lemma wp_modify [wp_rules]: "Q () (f s) \<Longrightarrow> wp (modify f) Q E s"
  by (simp add: wp_def)

lemma wp_liftE [wp_rules]: "(\<And>x. r = Inr x \<Longrightarrow> Q x s) \<Longrightarrow> E s \<Longrightarrow> wp (liftE r) Q E s"
  by (auto simp: wp_def split: sum.splits)

lemma wp_checkS [wp_rules]: "(ok \<Longrightarrow> Q () s) \<Longrightarrow> E s \<Longrightarrow> wp (checkS ok e) Q E s"
  by (simp add: wp_def checkS_def)

lemma wp_if [wp_rules]: "(c \<Longrightarrow> wp m Q E s) \<Longrightarrow> (\<not> c \<Longrightarrow> wp n Q E s) \<Longrightarrow> wp (if c then m else n) Q E s"
  by simp

lemma wp_case_option [wp_rules]:
  "(x = None \<Longrightarrow> wp m Q E s) \<Longrightarrow> (\<And>y. x = Some y \<Longrightarrow> wp (f y) Q E s) \<Longrightarrow>
   wp (case x of None \<Rightarrow> m | Some y \<Rightarrow> f y) Q E s"
  by (cases x) simp_all

lemma wp_weaken: "wp m Q E s \<Longrightarrow> (\<And>x t. Q x t \<Longrightarrow> Q' x t) \<Longrightarrow> (\<And>t. E t \<Longrightarrow> E' t) \<Longrightarrow> wp m Q' E' s"
  by (auto simp: wp_def split: prod.splits sum.splits)

lemma wp_snd: "wp m (\<lambda>_. P) P s \<longleftrightarrow> P (snd (m s))"
  by (auto simp: wp_def split: prod.splits sum.splits)

lemma preserves_wp: "preserves P m \<longleftrightarrow> (\<forall>s. P s \<longrightarrow> wp m (\<lambda>_. P) P s)"
  by (simp add: preserves_def wp_snd)

section \<open>Python dictionaries\<close>

text \<open>
  A \<open>dict\<close> iterates in insertion order; assigning to a key that is present keeps its
  place. \<open>AList.update\<close> does the same on association lists.
\<close>

type_synonym ('k, 'v) dict = "('k \<times> 'v) list"

abbreviation dict_get :: "('k, 'v) dict \<Rightarrow> 'k \<Rightarrow> 'v option" where
  "dict_get \<equiv> map_of"

abbreviation dict_set :: "'k \<Rightarrow> 'v \<Rightarrow> ('k, 'v) dict \<Rightarrow> ('k, 'v) dict" where
  "dict_set \<equiv> AList.update"

definition dict_values :: "('k, 'v) dict \<Rightarrow> 'v list" where
  "dict_values d = map snd d"

definition dict_ok :: "('k, 'v) dict \<Rightarrow> bool" where
  "dict_ok d \<longleftrightarrow> distinct (map fst d)"

lemma dict_get_set [simp]: "dict_get (dict_set k v d) k' = (if k' = k then Some v else dict_get d k')"
  by (simp add: update_conv')

lemma dict_ok_set [simp]: "dict_ok d \<Longrightarrow> dict_ok (dict_set k v d)"
  by (simp add: dict_ok_def distinct_update)

lemma dict_ok_Nil [simp]: "dict_ok []"
  by (simp add: dict_ok_def)

lemma dict_values_get: "dict_ok d \<Longrightarrow> v \<in> set (dict_values d) \<longleftrightarrow> (\<exists>k. dict_get d k = Some v)"
  by (force simp: dict_ok_def dict_values_def)

text \<open>
  A comprehension \<open>{key(x): x for x in xs}\<close>: later entries win, the first occurrence of a
  key keeps its place.
\<close>

definition dict_of :: "('a \<Rightarrow> 'k) \<Rightarrow> ('a \<Rightarrow> 'v) \<Rightarrow> 'a list \<Rightarrow> ('k, 'v) dict" where
  "dict_of key val xs = foldl (\<lambda>d x. dict_set (key x) (val x) d) [] xs"

lemma dict_of_snoc: "dict_of key val (xs @ [x]) = dict_set (key x) (val x) (dict_of key val xs)"
  by (simp add: dict_of_def)

lemma dict_of_Nil [simp]: "dict_of key val [] = []"
  by (simp add: dict_of_def)

lemma dict_of_ok [simp]: "dict_ok (dict_of key val xs)"
  by (induction xs rule: rev_induct) (simp_all add: dict_of_snoc)

lemma dict_of_get_SomeD:
  "dict_get (dict_of key val xs) k = Some v \<Longrightarrow> \<exists>x \<in> set xs. key x = k \<and> val x = v"
  by (induction xs arbitrary: v rule: rev_induct) (auto simp: dict_of_snoc split: if_splits)

lemma dict_of_memD:
  assumes "(k, v) \<in> set (dict_of key val xs)"
  shows "\<exists>x \<in> set xs. key x = k \<and> val x = v"
proof -
  have "dict_get (dict_of key val xs) k = Some v"
    using assms dict_of_ok [of key val xs] by (simp add: dict_ok_def)
  then show ?thesis by (rule dict_of_get_SomeD)
qed

lemma dict_of_get_None: "dict_get (dict_of key val xs) k = None \<longleftrightarrow> (\<forall>x \<in> set xs. key x \<noteq> k)"
  by (induction xs rule: rev_induct) (auto simp: dict_of_snoc)

lemma dict_of_get_append:
  "dict_get (dict_of key val (xs @ ys)) k =
   (case dict_get (dict_of key val ys) k of None \<Rightarrow> dict_get (dict_of key val xs) k | Some v \<Rightarrow> Some v)"
  by (induction ys rule: rev_induct) (simp_all add: dict_of_snoc append_assoc [symmetric] del: append_assoc)

text \<open>With distinct keys the comprehension is a plain index.\<close>

lemma dict_of_get_distinct:
  "distinct (map key xs) \<Longrightarrow> x \<in> set xs \<Longrightarrow> dict_get (dict_of key val xs) (key x) = Some (val x)"
  by (induction xs rule: rev_induct) (auto simp: dict_of_snoc, metis image_eqI)

text \<open>\<open>tuple(dict.fromkeys(xs))\<close>: the distinct elements in order of first occurrence.\<close>

fun fromkeys :: "'a list \<Rightarrow> 'a list" where
  "fromkeys [] = []"
| "fromkeys (x # xs) = x # filter (\<lambda>y. y \<noteq> x) (fromkeys xs)"

lemma set_fromkeys [simp]: "set (fromkeys xs) = set xs"
  by (induction xs) auto

lemma distinct_fromkeys [simp]: "distinct (fromkeys xs)"
  by (induction xs) auto

lemma fromkeys_Nil_iff [simp]: "fromkeys xs = [] \<longleftrightarrow> xs = []"
  by (cases xs) auto

section \<open>Text\<close>

definition startswith :: "string \<Rightarrow> string \<Rightarrow> bool" where
  "startswith p s \<longleftrightarrow> take (length p) s = p"

fun join :: "string \<Rightarrow> string list \<Rightarrow> string" where
  "join sep [] = []"
| "join sep [x] = x"
| "join sep (x # xs) = x @ sep @ join sep xs"

text \<open>
  \<open>str.upper\<close>, \<open>str.lower\<close> and \<open>str.strip\<close> on ASCII text (letters
  outside ASCII are left alone).
\<close>

definition upper_char :: "char \<Rightarrow> char" where
  "upper_char c = (if 97 \<le> (of_char c :: nat) \<and> (of_char c :: nat) \<le> 122 then char_of ((of_char c :: nat) - 32) else c)"

definition lower_char :: "char \<Rightarrow> char" where
  "lower_char c = (if 65 \<le> (of_char c :: nat) \<and> (of_char c :: nat) \<le> 90 then char_of ((of_char c :: nat) + 32) else c)"

definition upper :: "string \<Rightarrow> string" where
  "upper s = map upper_char s"

definition lower :: "string \<Rightarrow> string" where
  "lower s = map lower_char s"

definition is_space :: "char \<Rightarrow> bool" where
  "is_space c \<longleftrightarrow> (9 \<le> (of_char c :: nat) \<and> (of_char c :: nat) \<le> 13) \<or> (28 \<le> (of_char c :: nat) \<and> (of_char c :: nat) \<le> 32)"

definition strip :: "string \<Rightarrow> string" where
  "strip s = rev (dropWhile is_space (rev (dropWhile is_space s)))"

text \<open>Decimal digits of a natural number, as \<open>str\<close> of a non-negative integer prints them.\<close>

definition digit_char :: "nat \<Rightarrow> char" where
  "digit_char d = char_of (48 + d)"

definition digit_val :: "char \<Rightarrow> nat" where
  "digit_val c = of_char c - 48"

definition is_digit :: "char \<Rightarrow> bool" where
  "is_digit c \<longleftrightarrow> 48 \<le> (of_char c :: nat) \<and> (of_char c :: nat) \<le> 57"

fun digits_of :: "nat \<Rightarrow> string" where
  "digits_of n = (if n < 10 then [digit_char n] else digits_of (n div 10) @ [digit_char (n mod 10)])"

declare digits_of.simps [simp del]

definition nat_of_digits :: "string \<Rightarrow> nat" where
  "nat_of_digits s = foldl (\<lambda>n c. 10 * n + digit_val c) 0 s"

lemma is_digit_digit_char: "d < 10 \<Longrightarrow> is_digit (digit_char d)"
  by (simp add: is_digit_def digit_char_def)

lemma digit_val_digit_char [simp]: "d < 10 \<Longrightarrow> digit_val (digit_char d) = d"
  by (simp add: digit_val_def digit_char_def)

lemma digits_of_digit: "c \<in> set (digits_of n) \<Longrightarrow> is_digit c"
proof (induction n rule: digits_of.induct)
  case (1 n)
  then show ?case
    by (cases "n < 10") (auto simp: digits_of.simps [of n] is_digit_digit_char)
qed

lemma digits_of_not_Nil [simp]: "digits_of n \<noteq> []"
  by (subst digits_of.simps) simp

lemma nat_of_digits_snoc [simp]: "nat_of_digits (s @ [c]) = 10 * nat_of_digits s + digit_val c"
  by (simp add: nat_of_digits_def)

lemma nat_of_digits_Nil [simp]: "nat_of_digits [] = 0"
  by (simp add: nat_of_digits_def)

lemma nat_of_digits_of [simp]: "nat_of_digits (digits_of n) = n"
proof (induction n rule: digits_of.induct)
  case (1 n)
  show ?case
  proof (cases "n < 10")
    case True
    then show ?thesis
      using nat_of_digits_snoc [of "[]"] by (simp add: digits_of.simps [of n])
  next
    case False
    with 1 show ?thesis by (simp add: digits_of.simps [of n])
  qed
qed

lemma digits_of_inject [simp]: "digits_of m = digits_of n \<longleftrightarrow> m = n"
  by (metis nat_of_digits_of)

lemma digits_of_zero: "digits_of 0 = ''0''"
  by code_simp

text \<open>
  A maximal run of digits followed by something that is no digit splits in one way only.
\<close>

lemma digit_run_unique:
  assumes "u @ x = v @ y" and "\<forall>c \<in> set u. is_digit c" and "\<forall>c \<in> set v. is_digit c"
    and "x = [] \<or> \<not> is_digit (hd x)" and "y = [] \<or> \<not> is_digit (hd y)"
  shows "u = v \<and> x = y"
proof -
  have run: "takeWhile is_digit (w @ z) = w"
    if "\<forall>c \<in> set w. is_digit c" and "z = [] \<or> \<not> is_digit (hd z)" for w z
    using that by (cases z) (auto simp: takeWhile_append)
  have "u = v"
    using run [of u x] run [of v y] assms by simp
  with assms(1) show ?thesis by simp
qed

section \<open>Lengths of texts\<close>

text \<open>
  The number of characters of a text, which is kept as its UTF-8 bytes: continuation bytes do
  not count.
\<close>

definition char_count :: "string \<Rightarrow> nat" where
  "char_count s = length (filter (\<lambda>c. (of_char c :: nat) div 64 \<noteq> 2) s)"

definition text_between :: "nat \<Rightarrow> nat \<Rightarrow> string \<Rightarrow> bool" where
  "text_between lo hi s \<longleftrightarrow> lo \<le> char_count s \<and> char_count s \<le> hi"

definition optional :: "('a \<Rightarrow> bool) \<Rightarrow> 'a option \<Rightarrow> bool" where
  "optional P x = (case x of None \<Rightarrow> True | Some y \<Rightarrow> P y)"

lemma char_count_le: "char_count s \<le> length s"
  by (simp add: char_count_def)

lemma text_between_ascii:
  assumes "s \<noteq> []" and "(of_char (hd s) :: nat) < 128" and "length s \<le> hi"
  shows "text_between 1 hi s"
proof -
  have "1 \<le> char_count s"
    using assms(1,2) by (cases s) (auto simp: char_count_def)
  then show ?thesis using char_count_le [of s] assms(3) by (simp add: text_between_def)
qed

end
