(* ===== verification/Auth.thy ===== *)
theory Auth
  imports Prelude
begin

text \<open>
  Identity, scope and permissions: \<open>core/auth.py\<close>. Roles and permissions are the code's
  enumerations, the two role tables are functions on roles, and a \<open>frozenset\<close> whose
  iteration order the code can observe is the list of its elements in that order.
\<close>

section \<open>Roles and permissions\<close>

datatype (plugins only: code) role =
    SYSTEM_ADMIN | GOVERNANCE_ADMIN | PROJECT_MANAGER | RULE_EDITOR | DOCUMENT_STEWARD | COMMERCIAL_ANALYST
  | TENANT_ADMIN | TENANT_AI_ADMIN | PRIVACY_OFFICER | SIMULATION_ANALYST | REPORT_MANAGER
  | BID_MANAGER | DOCUMENT_SPECIALIST | TECHNICAL_LEAD | FINANCE_AUTHOR | FINANCE_APPROVER
  | LEGAL_PRIVACY | APPROVER | AUDITOR

datatype (plugins only: code) permission =
    PROFILE_READ | JOB_READ | JOB_COMMAND | GATE_READ | GATE_ASSESS | GATE_WAIVER_REQUEST | GATE_WAIVER_DECIDE
  | MANUAL_OVERRIDE_APPEND | GOVERNANCE_READ | GOVERNANCE_WRITE | LEGAL_HOLD_MANAGE | LEGAL_HOLD_RELEASE
  | DELETION_MANAGE | AUDIT_READ | AUDIT_INTEGRITY_RUN | SENSITIVE_CONTENT_READ | COST_READ
  | FR01_READ | FR01_CREATE | FR01_UPDATE | FR01_ARCHIVE | FR01_PUBLISH | FR01_SUPERSEDE | FR01_TRANSITION
  | FR01_CONFIRM | FR01_SUBMIT | FR03_READ | FR03_CREATE | FR03_UPDATE | FR03_PUBLISH | FR03_SUPERSEDE
  | FR03_REVIEW | FR03_REVOKE | FR03_SATISFY | FR03_WAIVE | FR03_FAIL | FR03_EXPIRE | FR04_READ
  | FR04_CREATE | FR04_APPROVE | FR04_PUBLISH | APPROVALS_RISK_READ | APPROVALS_RISK_CREATE
  | APPROVALS_RISK_REVOKE | DOCUMENTS_READ | DOCUMENTS_CREATE | DOCUMENTS_PUT | DOCUMENTS_COMPLETE
  | DOCUMENTS_CANCEL | DOCUMENTS_REVIEW | DOCUMENTS_RELEASE | DOCUMENTS_QUARANTINE | DOCUMENTS_INHERIT
  | DOCUMENTS_OVERRIDE | DOCUMENTS_RESOLVE | DOCUMENTS_DETACH | DOCUMENTS_RETRY | SIMULATION_BASELINE_FREEZE
  | SIMULATION_BASELINE_READ | SIMULATION_BATCH_RUN | SIMULATION_BATCH_READ | SIMULATION_OPTIMIZATION_RUN
  | SIMULATION_PLAN_PUBLISH | SIMULATION_ELIGIBILITY_ASSESS | SIMULATION_SNAPSHOT_CREATE | SIMULATION_AUDIT_READ

primrec role_value :: "role \<Rightarrow> string" where
  "role_value SYSTEM_ADMIN = ''SYSTEM_ADMIN''"
| "role_value GOVERNANCE_ADMIN = ''GOVERNANCE_ADMIN''"
| "role_value PROJECT_MANAGER = ''PROJECT_MANAGER''"
| "role_value RULE_EDITOR = ''RULE_EDITOR''"
| "role_value DOCUMENT_STEWARD = ''DOCUMENT_STEWARD''"
| "role_value COMMERCIAL_ANALYST = ''COMMERCIAL_ANALYST''"
| "role_value TENANT_ADMIN = ''TENANT_ADMIN''"
| "role_value TENANT_AI_ADMIN = ''TENANT_AI_ADMIN''"
| "role_value PRIVACY_OFFICER = ''PRIVACY_OFFICER''"
| "role_value SIMULATION_ANALYST = ''SIMULATION_ANALYST''"
| "role_value REPORT_MANAGER = ''REPORT_MANAGER''"
| "role_value BID_MANAGER = ''BID_MANAGER''"
| "role_value DOCUMENT_SPECIALIST = ''DOCUMENT_SPECIALIST''"
| "role_value TECHNICAL_LEAD = ''TECHNICAL_LEAD''"
| "role_value FINANCE_AUTHOR = ''FINANCE_AUTHOR''"
| "role_value FINANCE_APPROVER = ''FINANCE_APPROVER''"
| "role_value LEGAL_PRIVACY = ''LEGAL_PRIVACY''"
| "role_value APPROVER = ''APPROVER''"
| "role_value AUDITOR = ''AUDITOR''"

primrec role_permissions :: "role \<Rightarrow> permission set" where
  "role_permissions SYSTEM_ADMIN =
     {PROFILE_READ, JOB_READ, GATE_READ}"
| "role_permissions GOVERNANCE_ADMIN =
     {PROFILE_READ, JOB_READ, JOB_COMMAND, GATE_READ, GOVERNANCE_READ, GOVERNANCE_WRITE,
      LEGAL_HOLD_MANAGE, DELETION_MANAGE, AUDIT_READ, AUDIT_INTEGRITY_RUN}"
| "role_permissions PROJECT_MANAGER =
     {PROFILE_READ, JOB_READ, JOB_COMMAND, GATE_READ, GATE_WAIVER_REQUEST, GOVERNANCE_READ,
      DOCUMENTS_READ}"
| "role_permissions RULE_EDITOR =
     {PROFILE_READ, JOB_READ, JOB_COMMAND, GOVERNANCE_READ}"
| "role_permissions DOCUMENT_STEWARD =
     {PROFILE_READ, JOB_READ, JOB_COMMAND, GOVERNANCE_READ, DOCUMENTS_READ, DOCUMENTS_CREATE,
      DOCUMENTS_PUT, DOCUMENTS_COMPLETE, DOCUMENTS_CANCEL, DOCUMENTS_REVIEW, DOCUMENTS_RELEASE,
      DOCUMENTS_QUARANTINE, DOCUMENTS_INHERIT, DOCUMENTS_OVERRIDE, DOCUMENTS_RESOLVE, DOCUMENTS_DETACH,
      DOCUMENTS_RETRY}"
| "role_permissions COMMERCIAL_ANALYST =
     {PROFILE_READ, JOB_READ, JOB_COMMAND, COST_READ}"
| "role_permissions TENANT_ADMIN =
     {PROFILE_READ, JOB_READ, JOB_COMMAND, GATE_READ, GATE_WAIVER_REQUEST, GOVERNANCE_READ}"
| "role_permissions TENANT_AI_ADMIN =
     {PROFILE_READ, JOB_READ, JOB_COMMAND, GATE_READ}"
| "role_permissions PRIVACY_OFFICER =
     {PROFILE_READ, JOB_READ, GATE_READ, GATE_ASSESS, GATE_WAIVER_DECIDE, GOVERNANCE_READ,
      LEGAL_HOLD_RELEASE, AUDIT_READ, SENSITIVE_CONTENT_READ, DOCUMENTS_READ, DOCUMENTS_REVIEW,
      DOCUMENTS_RELEASE, DOCUMENTS_QUARANTINE, DOCUMENTS_RESOLVE}"
| "role_permissions SIMULATION_ANALYST =
     {PROFILE_READ, JOB_READ, JOB_COMMAND, SIMULATION_BASELINE_READ, SIMULATION_BASELINE_FREEZE,
      SIMULATION_BATCH_RUN, SIMULATION_BATCH_READ, SIMULATION_OPTIMIZATION_RUN, SIMULATION_PLAN_PUBLISH,
      SIMULATION_ELIGIBILITY_ASSESS, SIMULATION_SNAPSHOT_CREATE, SIMULATION_AUDIT_READ}"
| "role_permissions REPORT_MANAGER =
     {PROFILE_READ, JOB_READ, JOB_COMMAND, GATE_READ, APPROVALS_RISK_READ, APPROVALS_RISK_CREATE,
      APPROVALS_RISK_REVOKE}"
| "role_permissions BID_MANAGER =
     {PROFILE_READ, JOB_READ, JOB_COMMAND, GATE_READ, GATE_WAIVER_REQUEST, GOVERNANCE_READ,
      APPROVALS_RISK_READ, APPROVALS_RISK_REVOKE, DOCUMENTS_READ, SIMULATION_BASELINE_READ,
      SIMULATION_BATCH_READ, SIMULATION_OPTIMIZATION_RUN, SIMULATION_PLAN_PUBLISH, SIMULATION_ELIGIBILITY_ASSESS,
      SIMULATION_AUDIT_READ}"
| "role_permissions DOCUMENT_SPECIALIST =
     {PROFILE_READ, JOB_READ, JOB_COMMAND, GOVERNANCE_READ, DOCUMENTS_READ, DOCUMENTS_CREATE,
      DOCUMENTS_PUT, DOCUMENTS_COMPLETE, DOCUMENTS_CANCEL, DOCUMENTS_REVIEW, DOCUMENTS_INHERIT,
      DOCUMENTS_OVERRIDE, DOCUMENTS_DETACH, DOCUMENTS_RETRY}"
| "role_permissions TECHNICAL_LEAD =
     {PROFILE_READ, JOB_READ, JOB_COMMAND, GOVERNANCE_READ, DOCUMENTS_READ, DOCUMENTS_CREATE,
      DOCUMENTS_PUT, DOCUMENTS_COMPLETE, DOCUMENTS_CANCEL, DOCUMENTS_REVIEW, DOCUMENTS_INHERIT,
      DOCUMENTS_OVERRIDE, DOCUMENTS_DETACH, DOCUMENTS_RETRY}"
| "role_permissions FINANCE_AUTHOR =
     {PROFILE_READ, JOB_READ, COST_READ}"
| "role_permissions FINANCE_APPROVER =
     {PROFILE_READ, JOB_READ, COST_READ, GATE_WAIVER_DECIDE}"
| "role_permissions LEGAL_PRIVACY =
     {PROFILE_READ, JOB_READ, GATE_READ, GATE_ASSESS, GATE_WAIVER_DECIDE, GOVERNANCE_READ,
      GOVERNANCE_WRITE, LEGAL_HOLD_MANAGE, LEGAL_HOLD_RELEASE, DELETION_MANAGE, AUDIT_READ,
      AUDIT_INTEGRITY_RUN, SENSITIVE_CONTENT_READ}"
| "role_permissions APPROVER =
     {PROFILE_READ, JOB_READ, GATE_READ, APPROVALS_RISK_READ, APPROVALS_RISK_REVOKE}"
| "role_permissions AUDITOR =
     {PROFILE_READ, GATE_READ, GOVERNANCE_READ, AUDIT_READ}"

definition FR01_WRITE_PERMISSIONS :: "permission set" where
  "FR01_WRITE_PERMISSIONS =
     {FR01_CREATE, FR01_UPDATE, FR01_ARCHIVE, FR01_SUPERSEDE, FR01_TRANSITION, FR01_CONFIRM,
      FR01_SUBMIT}"

definition FR03_AUTHOR_PERMISSIONS :: "permission set" where
  "FR03_AUTHOR_PERMISSIONS =
     {FR03_CREATE, FR03_UPDATE, FR03_PUBLISH, FR03_SUPERSEDE}"

definition FR03_REVIEW_PERMISSIONS :: "permission set" where
  "FR03_REVIEW_PERMISSIONS =
     {FR03_REVIEW, FR03_REVOKE}"

definition FR03_CONDITION_PERMISSIONS :: "permission set" where
  "FR03_CONDITION_PERMISSIONS =
     {FR03_SATISFY, FR03_WAIVE, FR03_FAIL, FR03_EXPIRE}"

primrec domain_role_permissions :: "role \<Rightarrow> permission set" where
  "domain_role_permissions SYSTEM_ADMIN =
     {}"
| "domain_role_permissions GOVERNANCE_ADMIN =
     {}"
| "domain_role_permissions PROJECT_MANAGER =
     {FR01_READ, FR01_PUBLISH, FR03_READ, FR04_READ} \<union> FR01_WRITE_PERMISSIONS"
| "domain_role_permissions RULE_EDITOR =
     {FR01_READ, FR01_PUBLISH} \<union> FR01_WRITE_PERMISSIONS"
| "domain_role_permissions DOCUMENT_STEWARD =
     {FR01_READ, FR03_READ} \<union> FR03_REVIEW_PERMISSIONS"
| "domain_role_permissions COMMERCIAL_ANALYST =
     {FR03_READ, FR04_READ, FR04_CREATE}"
| "domain_role_permissions TENANT_ADMIN =
     {FR01_READ} \<union> FR01_WRITE_PERMISSIONS"
| "domain_role_permissions TENANT_AI_ADMIN =
     {}"
| "domain_role_permissions PRIVACY_OFFICER =
     {FR03_READ, FR04_READ} \<union> FR03_CONDITION_PERMISSIONS"
| "domain_role_permissions SIMULATION_ANALYST =
     {}"
| "domain_role_permissions REPORT_MANAGER =
     {}"
| "domain_role_permissions BID_MANAGER =
     {FR01_READ, FR01_PUBLISH, FR03_READ, FR04_READ} \<union> FR01_WRITE_PERMISSIONS \<union> FR03_CONDITION_PERMISSIONS"
| "domain_role_permissions DOCUMENT_SPECIALIST =
     {FR03_READ} \<union> FR03_AUTHOR_PERMISSIONS"
| "domain_role_permissions TECHNICAL_LEAD =
     {FR03_READ} \<union> FR03_AUTHOR_PERMISSIONS"
| "domain_role_permissions FINANCE_AUTHOR =
     {FR04_READ, FR04_CREATE}"
| "domain_role_permissions FINANCE_APPROVER =
     {FR04_READ, FR04_APPROVE, FR04_PUBLISH}"
| "domain_role_permissions LEGAL_PRIVACY =
     {FR01_READ, FR01_PUBLISH}"
| "domain_role_permissions APPROVER =
     {FR01_READ, FR03_READ} \<union> FR03_CONDITION_PERMISSIONS"
| "domain_role_permissions AUDITOR =
     {FR01_READ}"

section \<open>Tenant scope\<close>

record tenant_scope =
  sc_tenant_id :: uuid
  sc_data_domain_id :: uuid
  sc_project_ids :: "uuid list"
  sc_decision_unit_ids :: "uuid list"
  sc_all_projects :: bool
  sc_all_decision_units :: bool

text \<open>
  \<open>TenantScope.assert_allows\<close>: a mismatch of tenant, domain, project or decision unit is one
  and the same error, which looks like a missing resource.
\<close>

definition assert_allows ::
  "tenant_scope \<Rightarrow> uuid \<Rightarrow> uuid \<Rightarrow> uuid option \<Rightarrow> uuid option \<Rightarrow> unit res" where
  "assert_allows scope tid did pid uid =
     (if tid \<noteq> sc_tenant_id scope \<or> did \<noteq> sc_data_domain_id scope
      then Inl (BiaiceError ''TENANT_SCOPE_VIOLATION'')
      else if pid \<noteq> None \<and> \<not> sc_all_projects scope \<and> the pid \<notin> set (sc_project_ids scope)
      then Inl (BiaiceError ''TENANT_SCOPE_VIOLATION'')
      else if uid \<noteq> None \<and> \<not> sc_all_decision_units scope \<and> the uid \<notin> set (sc_decision_unit_ids scope)
      then Inl (BiaiceError ''TENANT_SCOPE_VIOLATION'')
      else Inr ())"

text \<open>What a scope covers, as a predicate: the specification of the check above.\<close>

definition scope_covers ::
  "tenant_scope \<Rightarrow> uuid \<Rightarrow> uuid \<Rightarrow> uuid option \<Rightarrow> uuid option \<Rightarrow> bool" where
  "scope_covers scope tid did pid uid \<longleftrightarrow>
     tid = sc_tenant_id scope \<and> did = sc_data_domain_id scope \<and>
     (\<forall>p. pid = Some p \<longrightarrow> sc_all_projects scope \<or> p \<in> set (sc_project_ids scope)) \<and>
     (\<forall>u. uid = Some u \<longrightarrow> sc_all_decision_units scope \<or> u \<in> set (sc_decision_unit_ids scope))"

lemma assert_allows_Inr [simp]:
  "assert_allows scope tid did pid uid = Inr u \<longleftrightarrow> scope_covers scope tid did pid uid"
  by (cases pid; cases uid) (auto simp: assert_allows_def scope_covers_def)

lemma assert_allows_covered:
  "scope_covers scope tid did pid uid \<Longrightarrow> assert_allows scope tid did pid uid = Inr ()"
  by simp

lemma assert_allows_Inl:
  "assert_allows scope tid did pid uid = Inl e \<Longrightarrow>
   e = BiaiceError ''TENANT_SCOPE_VIOLATION'' \<and> \<not> scope_covers scope tid did pid uid"
  by (cases pid; cases uid) (auto simp: assert_allows_def scope_covers_def split: if_splits)

lemma assert_allows_cases:
  "assert_allows scope tid did pid uid =
     (if scope_covers scope tid did pid uid then Inr () else Inl (BiaiceError ''TENANT_SCOPE_VIOLATION''))"
  by (cases pid; cases uid) (auto simp: assert_allows_def scope_covers_def)

section \<open>Identities\<close>

record identity_context =
  ic_subject_id :: uuid
  ic_username :: string
  ic_display_name :: "string option"
  ic_roles :: "role list"
  ic_scope :: tenant_scope
  ic_mfa_verified :: bool
  ic_authenticated_at :: timestamp
  ic_session_id :: "string option"

definition permissions :: "identity_context \<Rightarrow> permission set" where
  "permissions identity =
     foldl (\<lambda>ps role. ps \<union> role_permissions role \<union> domain_role_permissions role) {} (ic_roles identity)"

lemma permissions_foldl:
  "foldl (\<lambda>ps role. ps \<union> role_permissions role \<union> domain_role_permissions role) S rs =
     S \<union> (\<Union>r \<in> set rs. role_permissions r \<union> domain_role_permissions r)"
  by (induction rs arbitrary: S) auto

lemma permissions_Union:
  "permissions identity = (\<Union>r \<in> set (ic_roles identity). role_permissions r \<union> domain_role_permissions r)"
  by (simp add: permissions_def permissions_foldl)

text \<open>
  \<open>OidcJwtAuthenticator.authenticate\<close>. The verified claims of a token are what the JWT
  library returns (\<open>None\<close> when it rejects the token); \<open>parse_uuid\<close> is the constructor
  \<open>UUID(text)\<close>, \<open>None\<close> when it raises. Claims the code indexes are options: a
  missing one raises, and every exception but \<open>BiaiceError\<close> becomes \<open>TOKEN_INVALID\<close>.
\<close>

record jwt_claims =
  realm_roles :: "string list"
  amr :: "string list"
  claim_sub :: "string option"
  preferred_username :: "string option"
  claim_name :: "string option"
  claim_tenant_id :: "string option"
  claim_data_domain_id :: "string option"
  claim_project_ids :: "string list"
  claim_decision_unit_ids :: "string list"
  claim_all_projects :: bool
  claim_all_decision_units :: bool
  claim_iat :: "int option"
  claim_sid :: "string option"

definition all_roles :: "role list" where
  "all_roles = [SYSTEM_ADMIN, GOVERNANCE_ADMIN, PROJECT_MANAGER, RULE_EDITOR, DOCUMENT_STEWARD,
     COMMERCIAL_ANALYST, TENANT_ADMIN, TENANT_AI_ADMIN, PRIVACY_OFFICER, SIMULATION_ANALYST,
     REPORT_MANAGER, BID_MANAGER, DOCUMENT_SPECIALIST, TECHNICAL_LEAD, FINANCE_AUTHOR,
     FINANCE_APPROVER, LEGAL_PRIVACY, APPROVER, AUDITOR]"

definition role_of_value :: "string \<Rightarrow> role option" where
  "role_of_value v = map_of (map (\<lambda>r. (role_value r, r)) all_roles) v"

definition known_roles :: "string list \<Rightarrow> role list" where
  "known_roles vs = remdups (List.map_filter role_of_value vs)"

definition token_invalid :: "'a option \<Rightarrow> 'a res" where
  "token_invalid x = (case x of None \<Rightarrow> Inl (BiaiceError ''TOKEN_INVALID'') | Some y \<Rightarrow> Inr y)"

definition claim_uuid :: "(string \<Rightarrow> uuid option) \<Rightarrow> string option \<Rightarrow> uuid res" where
  "claim_uuid parse_uuid c = bindE (token_invalid c) (\<lambda>text. token_invalid (parse_uuid text))"

definition authenticate ::
  "(string \<Rightarrow> jwt_claims option) \<Rightarrow> (string \<Rightarrow> uuid option) \<Rightarrow> string \<Rightarrow> identity_context res" where
  "authenticate decode_jwt parse_uuid token =
     bindE (token_invalid (decode_jwt token)) (\<lambda>claims.
     (let rs = known_roles (realm_roles claims) in
      if rs = [] then Inl (BiaiceError ''PERMISSION_DENIED'')
      else
        bindE (claim_uuid parse_uuid (claim_sub claims)) (\<lambda>sub.
        bindE (claim_uuid parse_uuid (claim_tenant_id claims)) (\<lambda>tid.
        bindE (claim_uuid parse_uuid (claim_data_domain_id claims)) (\<lambda>did.
        bindE (mapE (\<lambda>t. token_invalid (parse_uuid t)) (claim_project_ids claims)) (\<lambda>pids.
        bindE (mapE (\<lambda>t. token_invalid (parse_uuid t)) (claim_decision_unit_ids claims)) (\<lambda>uids.
        bindE (token_invalid (claim_iat claims)) (\<lambda>iat.
        Inr \<lparr>ic_subject_id = sub,
             ic_username = (case preferred_username claims of Some u \<Rightarrow> u | None \<Rightarrow> the (claim_sub claims)),
             ic_display_name = claim_name claims,
             ic_roles = rs,
             ic_scope = \<lparr>sc_tenant_id = tid, sc_data_domain_id = did,
                      sc_project_ids = remdups pids, sc_decision_unit_ids = remdups uids,
                      sc_all_projects = claim_all_projects claims,
                      sc_all_decision_units = claim_all_decision_units claims\<rparr>,
             ic_mfa_verified = (set [''mfa'', ''otp'', ''webauthn''] \<inter> set (amr claims) \<noteq> {}),
             ic_authenticated_at = iat * 1000000,
             ic_session_id = claim_sid claims\<rparr>))))))))"

text \<open>
  \<open>get_identity\<close>: a middleware-authenticated identity, or the bearer credentials
  (scheme in lower case, token).
\<close>

definition get_identity ::
  "(string \<Rightarrow> identity_context res) \<Rightarrow> identity_context option \<Rightarrow> (string \<times> string) option \<Rightarrow> identity_context res" where
  "get_identity authenticator pre_authenticated credentials =
     (case pre_authenticated of
        Some identity \<Rightarrow> Inr identity
      | None \<Rightarrow>
          (case credentials of
             None \<Rightarrow> Inl (BiaiceError ''AUTH_REQUIRED'')
           | Some (scheme, token) \<Rightarrow>
               if scheme \<noteq> ''bearer'' then Inl (BiaiceError ''AUTH_REQUIRED'')
               else authenticator token))"

text \<open>\<open>PermissionGuard.__call__\<close>.\<close>

definition permission_guard :: "permission set \<Rightarrow> bool \<Rightarrow> identity_context \<Rightarrow> identity_context res" where
  "permission_guard required mfa identity =
     (if mfa \<and> \<not> ic_mfa_verified identity then Inl (BiaiceError ''MFA_REQUIRED'')
      else if \<not> required \<subseteq> permissions identity then Inl (BiaiceError ''PERMISSION_DENIED'')
      else Inr identity)"

section \<open>Facts\<close>

lemma permission_guard_Inr:
  "permission_guard required mfa identity = Inr i \<longleftrightarrow>
     i = identity \<and> (mfa \<longrightarrow> ic_mfa_verified identity) \<and> required \<subseteq> permissions identity"
  by (auto simp: permission_guard_def)

lemma role_of_value_role_value [simp]: "role_of_value (role_value r) = Some r"
  by (cases r) (simp_all add: role_of_value_def all_roles_def)

lemma role_of_value_SomeD: "role_of_value v = Some r \<Longrightarrow> v = role_value r"
  by (auto simp: role_of_value_def dest!: map_of_SomeD)

lemma known_roles_iff: "r \<in> set (known_roles vs) \<longleftrightarrow> role_value r \<in> set vs"
  by (force simp: known_roles_def map_filter_def dest: role_of_value_SomeD)

lemmas duty_tables = FR01_WRITE_PERMISSIONS_def FR03_AUTHOR_PERMISSIONS_def
  FR03_REVIEW_PERMISSIONS_def FR03_CONDITION_PERMISSIONS_def

section \<open>Sample values\<close>

definition sample_scope :: tenant_scope where
  "sample_scope = \<lparr>sc_tenant_id = 1, sc_data_domain_id = 2, sc_project_ids = [7],
     sc_decision_unit_ids = [9], sc_all_projects = False, sc_all_decision_units = False\<rparr>"

definition sample_identity :: identity_context where
  "sample_identity = \<lparr>ic_subject_id = 5, ic_username = ''ana'', ic_display_name = None,
     ic_roles = [SIMULATION_ANALYST], ic_scope = sample_scope, ic_mfa_verified = True,
     ic_authenticated_at = 0, ic_session_id = None\<rparr>"

section \<open>Guarantees\<close>

lemma known_roles_Nil: "known_roles vs = [] \<longleftrightarrow> (\<forall>r. role_value r \<notin> set vs)"
  by (metis known_roles_iff list.set_intros(1) neq_Nil_conv set_empty empty_iff)

lemma token_invalid_cases: "token_invalid x = (case x of None \<Rightarrow> Inl (BiaiceError ''TOKEN_INVALID'') | Some y \<Rightarrow> Inr y)"
  by (simp add: token_invalid_def)

lemma claim_uuid_Inr: "claim_uuid parse c = Inr u \<longleftrightarrow> (\<exists>text. c = Some text \<and> parse text = Some u)"
  by (auto simp: claim_uuid_def token_invalid_def split: option.splits)

lemma claim_uuid_Inl: "claim_uuid parse c = Inl e \<Longrightarrow> e = BiaiceError ''TOKEN_INVALID''"
  by (auto simp: claim_uuid_def token_invalid_def split: option.splits)

lemma mapE_Inl: "mapE f xs = Inl e \<Longrightarrow> \<exists>x \<in> set xs. f x = Inl e"
proof (induction xs)
  case Nil
  then show ?case by simp
next
  case (Cons x xs)
  then show ?case by (cases "f x"; cases "mapE f xs") auto
qed

text \<open>Which roles grant a permission, read off the two tables.\<close>

definition grants :: "role \<Rightarrow> permission \<Rightarrow> bool" where
  "grants r p \<longleftrightarrow> p \<in> role_permissions r \<union> domain_role_permissions r"

lemma permissions_iff: "p \<in> permissions i \<longleftrightarrow> (\<exists>r \<in> set (ic_roles i). grants r p)"
  by (auto simp: permissions_Union grants_def)

lemma grants_FR04_APPROVE: "grants r FR04_APPROVE \<longleftrightarrow> r = FINANCE_APPROVER"
  by (cases r) (simp_all add: grants_def duty_tables)

lemma grants_FR04_PUBLISH: "grants r FR04_PUBLISH \<longleftrightarrow> r = FINANCE_APPROVER"
  by (cases r) (simp_all add: grants_def duty_tables)

lemma grants_FR04_CREATE: "grants r FR04_CREATE \<longleftrightarrow> r = COMMERCIAL_ANALYST \<or> r = FINANCE_AUTHOR"
  by (cases r) (simp_all add: grants_def duty_tables)

lemma grants_GATE_WAIVER_DECIDE: "grants r GATE_WAIVER_DECIDE \<longleftrightarrow> r = PRIVACY_OFFICER \<or> r = FINANCE_APPROVER \<or> r = LEGAL_PRIVACY"
  by (cases r) (simp_all add: grants_def duty_tables)

lemma grants_GATE_WAIVER_REQUEST: "grants r GATE_WAIVER_REQUEST \<longleftrightarrow> r = PROJECT_MANAGER \<or> r = TENANT_ADMIN \<or> r = BID_MANAGER"
  by (cases r) (simp_all add: grants_def duty_tables)

lemma grants_MANUAL_OVERRIDE_APPEND: "\<not> grants r MANUAL_OVERRIDE_APPEND"
  by (cases r) (simp_all add: grants_def duty_tables)

text \<open>
  C8. Authentication fails closed: whatever the token library and the UUID parser do, the result
  is an identity whose subject, tenant and domain are those of accepted claims, which has at
  least one role and exactly the known roles the claims name, or one of the two refusals.
\<close>

theorem authenticate_fails_closed:
  "case authenticate decode_jwt parse_uuid token of
     Inl e \<Rightarrow> e \<in> {BiaiceError ''TOKEN_INVALID'', BiaiceError ''PERMISSION_DENIED''}
   | Inr i \<Rightarrow> \<exists>claims sub tid did. decode_jwt token = Some claims \<and>
       claim_sub claims = Some sub \<and> parse_uuid sub = Some (ic_subject_id i) \<and>
       claim_tenant_id claims = Some tid \<and> parse_uuid tid = Some (sc_tenant_id (ic_scope i)) \<and>
       claim_data_domain_id claims = Some did \<and> parse_uuid did = Some (sc_data_domain_id (ic_scope i)) \<and>
       ic_roles i \<noteq> [] \<and> (\<forall>r. r \<in> set (ic_roles i) \<longleftrightarrow> role_value r \<in> set (realm_roles claims))"
proof (cases "authenticate decode_jwt parse_uuid token")
  case (Inl e)
  then show ?thesis
    by (auto simp: authenticate_def bindE_def Let_def token_invalid_def
        split: option.splits sum.splits if_splits dest!: claim_uuid_Inl mapE_Inl)
next
  case (Inr i)
  then obtain claims where claims: "decode_jwt token = Some claims"
    by (cases "decode_jwt token") (auto simp: authenticate_def token_invalid_def)
  with Inr show ?thesis
    by (auto simp: authenticate_def bindE_eq_Inr Let_def token_invalid_def claim_uuid_Inr known_roles_iff
        split: if_splits)
qed

text \<open>
  Separation of duties in the permission tables, as the guards enforce it: a cost is approved
  or published by a finance approver only and created by an analyst or a finance author only, so
  with any one role nobody both creates and approves; a gate waiver is decided only by the
  privacy officer, the finance approver or the legal-privacy role, none of which may request
  one; and nobody at all passes a guard for a manual override.
\<close>

theorem duties_are_separated:
  "(permission_guard {FR04_APPROVE} True i = Inr i \<longleftrightarrow> ic_mfa_verified i \<and> FINANCE_APPROVER \<in> set (ic_roles i)) \<and>
   (permission_guard {FR04_PUBLISH} True i = Inr i \<longleftrightarrow> ic_mfa_verified i \<and> FINANCE_APPROVER \<in> set (ic_roles i)) \<and>
   (permission_guard {FR04_CREATE} False i = Inr i \<longleftrightarrow>
      COMMERCIAL_ANALYST \<in> set (ic_roles i) \<or> FINANCE_AUTHOR \<in> set (ic_roles i)) \<and>
   (permission_guard {GATE_WAIVER_DECIDE} False i = Inr i \<longleftrightarrow>
      {PRIVACY_OFFICER, FINANCE_APPROVER, LEGAL_PRIVACY} \<inter> set (ic_roles i) \<noteq> {}) \<and>
   (permission_guard {GATE_WAIVER_REQUEST} False i = Inr i \<longleftrightarrow>
      {PROJECT_MANAGER, TENANT_ADMIN, BID_MANAGER} \<inter> set (ic_roles i) \<noteq> {}) \<and>
   permission_guard {MANUAL_OVERRIDE_APPEND} False i = Inl (BiaiceError ''PERMISSION_DENIED'')"
  unfolding permission_guard_Inr
  by (auto simp: permission_guard_def permissions_iff grants_FR04_APPROVE grants_FR04_PUBLISH grants_FR04_CREATE
      grants_GATE_WAIVER_DECIDE grants_GATE_WAIVER_REQUEST grants_MANUAL_OVERRIDE_APPEND)

end
