(* ===== verification/Canonical_Json.thy ===== *)
theory Canonical_Json
  imports Prelude
begin

text \<open>
  The canonical JSON text that every content hash of the code is computed over:
  \<open>json.dumps(payload, sort_keys=True, separators=(",", ":"), ensure_ascii=False)\<close>, encoded
  as UTF-8. A string is the list of its UTF-8 bytes. The main fact is that the text determines
  the value up to the order of object fields, so equal hash inputs are equal contents.
\<close>

section \<open>Values and printing\<close>

datatype json =
    JNull
  | JBool bool
  | JInt int
  | JStr string
  | JArr "json list"
  | JObj "(string \<times> json) list"

definition hex_char :: "nat \<Rightarrow> char" where
  "hex_char d = (if d < 10 then char_of (48 + d) else char_of (87 + d))"

definition json_escape :: "char \<Rightarrow> string" where
  "json_escape c =
     (if c = CHR 0x22 then [CHR 0x5C, CHR 0x22]
      else if c = CHR 0x5C then [CHR 0x5C, CHR 0x5C]
      else if c = CHR 0x0A then [CHR 0x5C, CHR ''n'']
      else if c = CHR 0x0D then [CHR 0x5C, CHR ''r'']
      else if c = CHR 0x09 then [CHR 0x5C, CHR ''t'']
      else if c = CHR 0x08 then [CHR 0x5C, CHR ''b'']
      else if c = CHR 0x0C then [CHR 0x5C, CHR ''f'']
      else if (of_char c :: nat) < 32
      then [CHR 0x5C, CHR ''u'', CHR ''0'', CHR ''0'', hex_char (of_char c div 16), hex_char (of_char c mod 16)]
      else [c])"

definition print_string :: "string \<Rightarrow> string" where
  "print_string s = CHR 0x22 # concat (map json_escape s) @ [CHR 0x22]"

definition print_int :: "int \<Rightarrow> string" where
  "print_int i = (if i < 0 then CHR ''-'' # digits_of (nat (- i)) else digits_of (nat i))"

fun json_print :: "json \<Rightarrow> string" where
  "json_print JNull = ''null''"
| "json_print (JBool b) = (if b then ''true'' else ''false'')"
| "json_print (JInt i) = print_int i"
| "json_print (JStr s) = print_string s"
| "json_print (JArr xs) = ''['' @ join '','' (map json_print xs) @ '']''"
| "json_print (JObj fs) =
     CHR 0x7B # join '','' (map (\<lambda>(k, v). print_string k @ '':'' @ json_print v) fs) @ [CHR 0x7D]"

text \<open>\<open>sort_keys=True\<close> sorts the fields of every object; keys of a \<open>dict\<close> are distinct.\<close>

fun json_canon :: "json \<Rightarrow> json" where
  "json_canon (JArr xs) = JArr (map json_canon xs)"
| "json_canon (JObj fs) = JObj (sort_key fst (map (\<lambda>(k, v). (k, json_canon v)) fs))"
| "json_canon j = j"

definition dumps :: "json \<Rightarrow> string" where
  "dumps j = json_print (json_canon j)"

section \<open>The text determines the value\<close>

text \<open>Reading one escaped character back.\<close>

definition hex_val :: "char \<Rightarrow> nat" where
  "hex_val c = (if (of_char c :: nat) < 58 then of_char c - 48 else of_char c - 87)"

fun unescape1 :: "string \<Rightarrow> (char \<times> string) option" where
  "unescape1 [] = None"
| "unescape1 (c # u) =
     (if c \<noteq> CHR 0x5C then Some (c, u)
      else
        (case u of
           [] \<Rightarrow> None
         | k # w \<Rightarrow>
             if k = CHR ''n'' then Some (CHR 0x0A, w)
             else if k = CHR ''r'' then Some (CHR 0x0D, w)
             else if k = CHR ''t'' then Some (CHR 0x09, w)
             else if k = CHR ''b'' then Some (CHR 0x08, w)
             else if k = CHR ''f'' then Some (CHR 0x0C, w)
             else if k = CHR ''u''
             then (case w of _ # _ # h # l # r \<Rightarrow> Some (char_of (16 * hex_val h + hex_val l), r) | _ \<Rightarrow> None)
             else Some (k, w)))"

lemma hex_val_hex_char [simp]: "d < 16 \<Longrightarrow> hex_val (hex_char d) = d"
  by (auto simp: hex_val_def hex_char_def)

lemma json_escape_not_Nil [simp]: "json_escape c \<noteq> []"
  by (simp add: json_escape_def)

lemma json_escape_hd: "json_escape c @ u \<noteq> CHR 0x22 # v"
  by (auto simp: json_escape_def)

lemma of_char_div_16 [simp]: "(of_char c :: nat) div 16 < 16"
  by (simp add: less_mult_imp_div_less)

lemma unescape1_escape [simp]: "unescape1 (json_escape c @ u) = Some (c, u)"
  by (simp add: json_escape_def)

lemma json_escape_prefix: "json_escape c @ u = json_escape d @ v \<Longrightarrow> c = d \<and> u = v"
  by (drule arg_cong [where f = unescape1]) simp

lemma escaped_unique:
  "concat (map json_escape s) @ CHR 0x22 # x = concat (map json_escape t) @ CHR 0x22 # y \<Longrightarrow>
   s = t \<and> x = y"
proof (induction s arbitrary: t)
  case Nil
  show ?case
  proof (cases t)
    case (Cons d t')
    with Nil json_escape_hd [of d "concat (map json_escape t') @ CHR 0x22 # y" x] show ?thesis
      by simp
  qed (use Nil in simp)
next
  case (Cons c s)
  show ?case
  proof (cases t)
    case Nil
    with Cons.prems json_escape_hd [of c "concat (map json_escape s) @ CHR 0x22 # x" y] show ?thesis
      by simp
  next
    case t: (Cons d t')
    with Cons.prems have "json_escape c @ (concat (map json_escape s) @ CHR 0x22 # x) =
        json_escape d @ (concat (map json_escape t') @ CHR 0x22 # y)"
      by simp
    from json_escape_prefix [OF this] Cons.IH [of t'] t show ?thesis by simp
  qed
qed

lemma print_string_unique: "print_string s @ x = print_string t @ y \<Longrightarrow> s = t \<and> x = y"
  by (rule escaped_unique) (simp add: print_string_def)

lemma print_string_inject [simp]: "print_string s = print_string t \<longleftrightarrow> s = t"
  using print_string_unique [of s "[]" t "[]"] by auto

text \<open>What may follow a value inside a document: nothing, a comma or a closing bracket.\<close>

definition tail_ok :: "string \<Rightarrow> bool" where
  "tail_ok x \<longleftrightarrow> x = [] \<or> hd x \<in> set '',]'' \<or> hd x = CHR 0x7D"

lemma tail_ok_simps [simp]:
  "tail_ok []" "tail_ok (CHR '','' # x)" "tail_ok (CHR '']'' # x)" "tail_ok (CHR 0x7D # x)"
  by (simp_all add: tail_ok_def)

lemma tail_ok_not_digit: "tail_ok x \<Longrightarrow> x = [] \<or> \<not> is_digit (hd x)"
  by (auto simp: tail_ok_def is_digit_def)

lemma digits_of_hd: "digits_of n @ x \<noteq> CHR ''-'' # y"
  using digits_of_digit [of "hd (digits_of n)" n]
  by (cases "digits_of n") (auto simp: is_digit_def)

lemma print_int_unique:
  assumes "print_int i @ x = print_int j @ y" and "tail_ok x" and "tail_ok y"
  shows "i = j \<and> x = y"
proof -
  have digits: "m = n \<and> x = y" if "digits_of m @ x = digits_of n @ y" for m n
    using digit_run_unique [OF that] digits_of_digit assms(2,3) tail_ok_not_digit by auto
  consider (neg) "i < 0" "j < 0" | (pos) "0 \<le> i" "0 \<le> j" | (mixed) "(i < 0) \<noteq> (j < 0)"
    by linarith
  then show ?thesis
  proof cases
    case neg
    with assms(1) digits [of "nat (- i)" "nat (- j)"] show ?thesis
      by (auto simp: print_int_def)
  next
    case pos
    with assms(1) digits [of "nat i" "nat j"] show ?thesis
      by (auto simp: print_int_def)
  next
    case mixed
    then show ?thesis
      using assms(1) digits_of_hd [of "nat i" x] digits_of_hd [of "nat j" y]
      by (cases "i < 0") (auto simp: print_int_def dest: sym)
  qed
qed

lemma join_Cons: "join sep (x # xs) = x @ concat (map ((@) sep) xs)"
proof (induction xs arbitrary: x)
  case (Cons y ys)
  then show ?case by simp
qed simp

text \<open>The first character of a text gives the kind of its value.\<close>

datatype json_kind = KNull | KBool | KInt | KStr | KArr | KObj

fun kind_of :: "json \<Rightarrow> json_kind" where
  "kind_of JNull = KNull"
| "kind_of (JBool _) = KBool"
| "kind_of (JInt _) = KInt"
| "kind_of (JStr _) = KStr"
| "kind_of (JArr _) = KArr"
| "kind_of (JObj _) = KObj"

definition char_kind :: "char \<Rightarrow> json_kind" where
  "char_kind c =
     (if c = CHR ''n'' then KNull else if c = CHR ''t'' \<or> c = CHR ''f'' then KBool
      else if c = CHR 0x22 then KStr else if c = CHR ''['' then KArr
      else if c = CHR 0x7B then KObj else KInt)"

lemma digit_char_kind: "is_digit c \<Longrightarrow> char_kind c = KInt"
  by (auto simp: is_digit_def char_kind_def)

lemma digit_not_closing: "is_digit c \<Longrightarrow> c \<noteq> CHR '']'' \<and> c \<noteq> CHR 0x7D"
  by (auto simp: is_digit_def)

lemma print_int_first: "\<exists>c u. print_int i = c # u \<and> (c = CHR ''-'' \<or> is_digit c)"
  using digits_of_digit [of "hd (digits_of (nat i))" "nat i"]
  by (cases "digits_of (nat i)") (auto simp: print_int_def)

lemma print_first:
  "\<exists>c u. json_print j = c # u \<and> char_kind c = kind_of j \<and> c \<noteq> CHR '']'' \<and> c \<noteq> CHR 0x7D"
proof (cases j)
  case (JInt i)
  obtain c u where "print_int i = c # u" "c = CHR ''-'' \<or> is_digit c"
    using print_int_first by blast
  with JInt show ?thesis
    by (auto simp: digit_char_kind dest: digit_not_closing) (simp add: char_kind_def)
qed (auto simp: print_string_def char_kind_def)

lemma print_same_kind: "json_print a @ x = json_print b @ y \<Longrightarrow> kind_of a = kind_of b"
  using print_first [of a] print_first [of b] by auto

text \<open>Two sequences of comma-separated items that end at a closing bracket agree item by item.\<close>

lemma items_unique:
  assumes step: "\<And>a b x y. a \<in> set as \<Longrightarrow> pr a @ x = pr b @ y \<Longrightarrow> tail_ok x \<Longrightarrow> tail_ok y \<Longrightarrow> a = b \<and> x = y"
    and close: "c = CHR '']'' \<or> c = CHR 0x7D"
    and first: "\<And>a. \<exists>d u. pr a = d # u \<and> d \<noteq> CHR '']'' \<and> d \<noteq> CHR 0x7D"
    and eq: "join '','' (map pr as) @ c # x = join '','' (map pr bs) @ c # y"
  shows "as = bs \<and> x = y"
proof -
  have rest: "as' = bs' \<and> x = y"
    if "concat (map (\<lambda>a. CHR '','' # pr a) as') @ c # x = concat (map (\<lambda>a. CHR '','' # pr a) bs') @ c # y"
      and "set as' \<subseteq> set as" for as' bs'
    using that
  proof (induction as' arbitrary: bs')
    case Nil
    then show ?case using close by (cases bs') auto
  next
    case (Cons a as')
    then obtain b bs'' where bs': "bs' = b # bs''"
      using close by (cases bs') auto
    have tl: "tail_ok (concat (map (\<lambda>a. CHR '','' # pr a) zs) @ c # z)" for zs z
      using close by (cases zs) auto
    have "a = b \<and> concat (map (\<lambda>a. CHR '','' # pr a) as') @ c # x =
        concat (map (\<lambda>a. CHR '','' # pr a) bs'') @ c # y"
      using Cons.prems bs' tl by (intro step) auto
    with Cons.IH Cons.prems(2) bs' show ?case by simp
  qed
  have comp: "map ((@) '','') (map pr zs) = map (\<lambda>a. CHR '','' # pr a) zs" for zs
    by simp
  show ?thesis
  proof (cases as)
    case Nil
    then show ?thesis
      using eq first close by (cases bs) (auto simp: join_Cons, (metis append_Cons list.inject)+)
  next
    case as: (Cons a as')
    show ?thesis
    proof (cases bs)
      case Nil
      with as eq first [of a] close show ?thesis by (auto simp: join_Cons)
    next
      case (Cons b bs')
      have tl: "tail_ok (concat (map (\<lambda>a. CHR '','' # pr a) zs) @ c # z)" for zs z
        using close by (cases zs) auto
      have "a = b \<and> concat (map (\<lambda>a. CHR '','' # pr a) as') @ c # x =
          concat (map (\<lambda>a. CHR '','' # pr a) bs') @ c # y"
        using eq as Cons tl by (intro step) (auto simp: join_Cons comp o_def)
      with rest [of as' bs'] as Cons show ?thesis by auto
    qed
  qed
qed

lemma json_print_unique:
  "json_print a @ x = json_print b @ y \<Longrightarrow> tail_ok x \<Longrightarrow> tail_ok y \<Longrightarrow> a = b \<and> x = y"
proof (induction a arbitrary: b x y)
  case JNull
  with print_same_kind [OF JNull.prems(1)] show ?case by (cases b) auto
next
  case (JBool v)
  with print_same_kind [OF JBool.prems(1)] show ?case by (cases b) (auto split: if_splits)
next
  case (JInt i)
  from print_same_kind [OF JInt.prems(1)] obtain j where b: "b = JInt j" by (cases b) auto
  with print_int_unique [of i x j y] JInt.prems show ?case by simp
next
  case (JStr s)
  from print_same_kind [OF JStr.prems(1)] obtain t where b: "b = JStr t" by (cases b) auto
  with print_string_unique [of s x t y] JStr.prems show ?case by simp
next
  case (JArr xs)
  from print_same_kind [OF JArr.prems(1)] obtain ys where b: "b = JArr ys" by (cases b) auto
  have "xs = ys \<and> x = y"
  proof (rule items_unique [where pr = json_print and c = "CHR '']''"])
    show "\<exists>d u. json_print a = d # u \<and> d \<noteq> CHR '']'' \<and> d \<noteq> CHR 0x7D" for a
      using print_first [of a] by blast
  qed (use JArr b in auto)
  with b show ?case by simp
next
  case (JObj fs)
  from print_same_kind [OF JObj.prems(1)] obtain gs where b: "b = JObj gs" by (cases b) auto
  let ?pr = "\<lambda>(k, v). print_string k @ '':'' @ json_print v"
  have "fs = gs \<and> x = y"
  proof (rule items_unique [where pr = ?pr and c = "CHR 0x7D"])
    fix p q u v
    assume p: "p \<in> set fs" and eq: "?pr p @ u = ?pr q @ v" and tl: "tail_ok u" "tail_ok v"
    obtain k w k' w' where pq: "p = (k, w)" "q = (k', w')" by (cases p; cases q)
    with eq have "k = k' \<and> '':'' @ json_print w @ u = '':'' @ json_print w' @ v"
      by (intro print_string_unique) simp
    moreover have "w \<in> Basic_BNFs.snds p" using pq by simp
    ultimately show "p = q \<and> u = v"
      using JObj.IH [OF p, of w] pq tl by auto
  next
    show "\<exists>d u. ?pr p = d # u \<and> d \<noteq> CHR '']'' \<and> d \<noteq> CHR 0x7D" for p
      by (cases p) (simp add: print_string_def)
  qed (use JObj.prems b in auto)
  with b show ?case by simp
qed

text \<open>Equal canonical texts come from values with the same canonical form.\<close>

lemma dumps_inject: "dumps a = dumps b \<longleftrightarrow> json_canon a = json_canon b"
  using json_print_unique [of "json_canon a" "[]" "json_canon b" "[]"] by (auto simp: dumps_def)

text \<open>
  An object is determined by its canonical form once its field names, in the order the code
  writes them, are known and distinct.
\<close>

lemma sort_key_fst_inject:
  assumes "sort_key fst fs = sort_key fst gs" and "map fst fs = map fst gs" and "distinct (map fst fs)"
  shows "fs = gs"
proof -
  have "set fs = set gs"
    by (metis assms(1) set_sort)
  then have "map_of fs = map_of gs"
    using assms by (metis map_of_is_SomeI map_of_SomeD not_Some_eq ext)
  show ?thesis
  proof (rule nth_equalityI)
    show len: "length fs = length gs" using assms(2) by (metis length_map)
    fix i assume i: "i < length fs"
    have "fst (fs ! i) = fst (gs ! i)"
      using assms(2) i len by (metis nth_map)
    moreover have "map_of fs (fst (fs ! i)) = Some (snd (fs ! i))"
      using assms(3) i by (simp add: map_of_is_SomeI)
    moreover have "map_of gs (fst (gs ! i)) = Some (snd (gs ! i))"
      using assms(2,3) i len by (simp add: map_of_is_SomeI)
    ultimately show "fs ! i = gs ! i"
      using \<open>map_of fs = map_of gs\<close> by (simp add: prod_eq_iff)
  qed
qed

section \<open>Identifiers and digests as text\<close>

text \<open>
  \<open>str(uuid)\<close>: 32 hexadecimal digits in groups of 8, 4, 4, 4 and 12.
\<close>

fun hex_digits :: "nat \<Rightarrow> nat \<Rightarrow> string" where
  "hex_digits 0 n = []"
| "hex_digits (Suc w) n = hex_digits w (n div 16) @ [hex_char (n mod 16)]"

definition uuid_str :: "uuid \<Rightarrow> string" where
  "uuid_str u =
     (let h = hex_digits 32 (unat u) in
      take 8 h @ ''-'' @ take 4 (drop 8 h) @ ''-'' @ take 4 (drop 12 h) @ ''-'' @
      take 4 (drop 16 h) @ ''-'' @ drop 20 h)"

lemma hex_char_inject: "a < 16 \<Longrightarrow> b < 16 \<Longrightarrow> hex_char a = hex_char b \<longleftrightarrow> a = b"
  by (metis hex_val_hex_char)

lemma length_hex_digits [simp]: "length (hex_digits w n) = w"
  by (induction w arbitrary: n) auto

lemma hex_digits_inject: "m < 16 ^ w \<Longrightarrow> n < 16 ^ w \<Longrightarrow> hex_digits w m = hex_digits w n \<Longrightarrow> m = n"
proof (induction w arbitrary: m n)
  case (Suc w)
  from Suc.prems have "hex_digits w (m div 16) = hex_digits w (n div 16)" and "m mod 16 = n mod 16"
    by (auto simp: hex_char_inject)
  moreover from this Suc.prems have "m div 16 = n div 16"
    by (intro Suc.IH) (auto simp: less_mult_imp_div_less mult.commute)
  ultimately show ?case by (metis div_mult_mod_eq)
qed simp

lemma uuid_str_inject [simp]: "uuid_str u = uuid_str v \<longleftrightarrow> u = v"
proof
  let ?h = "hex_digits 32 (unat u)" and ?k = "hex_digits 32 (unat v)"
  assume "uuid_str u = uuid_str v"
  then have eqs: "take 8 ?h = take 8 ?k" "take 4 (drop 8 ?h) = take 4 (drop 8 ?k)"
    "take 4 (drop 12 ?h) = take 4 (drop 12 ?k)" "take 4 (drop 16 ?h) = take 4 (drop 16 ?k)"
    "drop 20 ?h = drop 20 ?k"
    by (simp_all add: uuid_str_def Let_def)
  have split: "h = take 8 h @ take 4 (drop 8 h) @ take 4 (drop 12 h) @ take 4 (drop 16 h) @ drop 20 h"
    for h :: string
    using append_take_drop_id [of 8 h] append_take_drop_id [of 4 "drop 8 h"]
      append_take_drop_id [of 4 "drop 12 h"] append_take_drop_id [of 4 "drop 16 h"]
    by simp
  have "?h = ?k"
    by (subst split [of ?h], subst split [of ?k]) (simp only: eqs)
  moreover have "unat w < 16 ^ 32" for w :: uuid
    using unsigned_less [of w, where ?'a = nat] by simp
  ultimately have "unat u = unat v" by (metis hex_digits_inject)
  then show "u = v" by (rule unsigned_word_eqI)
qed simp

text \<open>
  A hexadecimal SHA-256 digest: the pattern \<open>^[a-f0-9]{64}$\<close> of the models. The digest
  function itself is a parameter \<open>sha\<close> of the definitions that hash; \<open>digest_ok\<close> is
  the documented form of \<open>hexdigest()\<close>.
\<close>

definition is_hash :: "string \<Rightarrow> bool" where
  "is_hash h \<longleftrightarrow> length h = 64 \<and> (\<forall>c \<in> set h. c \<in> set ''0123456789abcdef'')"

definition digest_ok :: "(string \<Rightarrow> string) \<Rightarrow> bool" where
  "digest_ok sha \<longleftrightarrow> (\<forall>x. is_hash (sha x))"

lemma digest_okD [simp]: "digest_ok sha \<Longrightarrow> is_hash (sha x)"
  by (simp add: digest_ok_def)

lemma is_hash_not_Nil: "is_hash h \<Longrightarrow> h \<noteq> []"
  by (rule notI) (simp add: is_hash_def)

text \<open>A constant digest, for concrete evaluations.\<close>

definition sample_sha :: "string \<Rightarrow> string" where
  "sample_sha = (\<lambda>_. replicate 64 (CHR ''a''))"

lemma sample_sha_ok [simp]: "digest_ok sample_sha"
  by (simp add: digest_ok_def sample_sha_def is_hash_def)

end
