(* ===== verification/Audit_Log.thy ===== *)
theory Audit_Log
  imports Auth Canonical_Json
begin

text \<open>
  The append-only audit log of \<open>core/audit.py\<close>: events, the sink interface with its
  in-memory implementation, the hash-chaining writer and the chain verifier. The sink is an
  interface (locale \<open>audit_log\<close>); the writer's facts are proved against the interface and
  interpreted on the in-memory sink.
\<close>

section \<open>Events and the sink\<close>

record audit_event =
  ae_audit_id :: uuid
  ae_tenant_id :: uuid
  ae_data_domain_id :: uuid
  ae_actor_id :: uuid
  ae_actor_roles :: "string list"
  ae_action :: string
  ae_object_type :: string
  ae_object_id :: uuid
  ae_object_version_id :: "uuid option"
  ae_request_id :: string
  ae_reason_code :: string
  ae_outcome :: string
  ae_trusted_at :: timestamp
  ae_previous_hash :: string
  ae_event_hash :: string

text \<open>The methods a sink offers (the \<open>AuditSink\<close> protocol), over a state of its own.\<close>

record 's sink_ops =
  sink_available :: "'s \<Rightarrow> bool"
  sink_latest_hash :: "'s \<Rightarrow> tenant_scope \<Rightarrow> string option"
  sink_append :: "audit_event \<Rightarrow> ('s, unit) svc"
  sink_list_events :: "'s \<Rightarrow> tenant_scope \<Rightarrow> audit_event list"

definition event_in_scope :: "tenant_scope \<Rightarrow> audit_event \<Rightarrow> bool" where
  "event_in_scope scope e \<longleftrightarrow>
     ae_tenant_id e = sc_tenant_id scope \<and> ae_data_domain_id e = sc_data_domain_id scope"

record memory_sink =
  ms_events :: "audit_event list"
  ms_available :: bool

definition memory_latest_hash :: "memory_sink \<Rightarrow> tenant_scope \<Rightarrow> string option" where
  "memory_latest_hash s scope =
     (let matches = filter (event_in_scope scope) (ms_events s)
      in if matches = [] then None else Some (ae_event_hash (last matches)))"

definition memory_append :: "audit_event \<Rightarrow> (memory_sink, unit) svc" where
  "memory_append e =
     bindS (gets ms_available) (\<lambda>ok.
     bindS (checkS ok (BiaiceError ''AUDIT_UNAVAILABLE'')) (\<lambda>_.
     modify (\<lambda>s. s\<lparr>ms_events := ms_events s @ [e]\<rparr>)))"

definition memory_list_events :: "memory_sink \<Rightarrow> tenant_scope \<Rightarrow> audit_event list" where
  "memory_list_events s scope = filter (event_in_scope scope) (ms_events s)"

definition memory_ops :: "memory_sink sink_ops" where
  "memory_ops =
     \<lparr>sink_available = ms_available, sink_latest_hash = memory_latest_hash,
      sink_append = memory_append, sink_list_events = memory_list_events\<rparr>"

section \<open>The hash-chaining writer\<close>

text \<open>
  The dictionary that is hashed: all fields but the hash itself. \<open>isofmt\<close> is
  \<open>datetime.isoformat\<close>.
\<close>

definition unsigned_fields :: "(timestamp \<Rightarrow> string) \<Rightarrow> audit_event \<Rightarrow> (string \<times> json) list" where
  "unsigned_fields isofmt e =
     [(''audit_id'', JStr (uuid_str (ae_audit_id e))),
      (''tenant_id'', JStr (uuid_str (ae_tenant_id e))),
      (''data_domain_id'', JStr (uuid_str (ae_data_domain_id e))),
      (''actor_id'', JStr (uuid_str (ae_actor_id e))),
      (''actor_roles'', JArr (map JStr (ae_actor_roles e))),
      (''action'', JStr (ae_action e)),
      (''object_type'', JStr (ae_object_type e)),
      (''object_id'', JStr (uuid_str (ae_object_id e))),
      (''object_version_id'',
         (case ae_object_version_id e of None \<Rightarrow> JNull | Some v \<Rightarrow> JStr (uuid_str v))),
      (''request_id'', JStr (ae_request_id e)),
      (''reason_code'', JStr (ae_reason_code e)),
      (''outcome'', JStr (ae_outcome e)),
      (''trusted_at'', JStr (isofmt (ae_trusted_at e))),
      (''previous_hash'', JStr (ae_previous_hash e))]"

definition unsigned_text :: "(timestamp \<Rightarrow> string) \<Rightarrow> audit_event \<Rightarrow> string" where
  "unsigned_text isofmt e = dumps (JObj (unsigned_fields isofmt e))"

definition GENESIS_HASH :: string where
  "GENESIS_HASH = replicate 64 (CHR ''0'')"

record audit_request =
  ar_identity :: identity_context
  ar_action :: string
  ar_object_type :: string
  ar_object_id :: uuid
  ar_request_id :: string
  ar_reason_code :: string
  ar_outcome :: string
  ar_object_version_id :: "uuid option"

text \<open>
  The event built from a request, an audit id, the time and the previous hash; the model's
  field patterns are checked when the event is constructed.
\<close>

definition sign_event ::
  "(string \<Rightarrow> string) \<Rightarrow> (timestamp \<Rightarrow> string) \<Rightarrow> uuid \<Rightarrow> timestamp \<Rightarrow> string \<Rightarrow> audit_request \<Rightarrow> audit_event" where
  "sign_event sha isofmt new_id now previous_hash r =
     (let unsigned =
        \<lparr>ae_audit_id = new_id,
         ae_tenant_id = sc_tenant_id (ic_scope (ar_identity r)),
         ae_data_domain_id = sc_data_domain_id (ic_scope (ar_identity r)),
         ae_actor_id = ic_subject_id (ar_identity r),
         ae_actor_roles = sort (map role_value (ic_roles (ar_identity r))),
         ae_action = ar_action r,
         ae_object_type = ar_object_type r,
         ae_object_id = ar_object_id r,
         ae_object_version_id = ar_object_version_id r,
         ae_request_id = ar_request_id r,
         ae_reason_code = ar_reason_code r,
         ae_outcome = ar_outcome r,
         ae_trusted_at = now,
         ae_previous_hash = previous_hash,
         ae_event_hash = []\<rparr>
      in unsigned\<lparr>ae_event_hash := sha (unsigned_text isofmt unsigned)\<rparr>)"

definition audit_write ::
  "(string \<Rightarrow> string) \<Rightarrow> (timestamp \<Rightarrow> string) \<Rightarrow> 's sink_ops \<Rightarrow> uuid \<Rightarrow> timestamp \<Rightarrow> audit_request \<Rightarrow> ('s, audit_event) svc" where
  "audit_write sha isofmt sink new_id now r =
     bindS (gets (sink_available sink)) (\<lambda>ok.
     bindS (checkS ok (BiaiceError ''AUDIT_UNAVAILABLE'')) (\<lambda>_.
     bindS (gets (\<lambda>s. sink_latest_hash sink s (ic_scope (ar_identity r)))) (\<lambda>latest.
     let previous_hash = (case latest of None \<Rightarrow> GENESIS_HASH | Some h \<Rightarrow> if h = [] then GENESIS_HASH else h);
         event = sign_event sha isofmt new_id now previous_hash r
     in bindS (checkS (is_hash (ae_previous_hash event) \<and> is_hash (ae_event_hash event)) ValidationError) (\<lambda>_.
        bindS (sink_append sink event) (\<lambda>_. ret event)))))"

text \<open>\<open>require_audit\<close>.\<close>

definition require_audit :: "bool \<Rightarrow> unit res" where
  "require_audit available = guardE available (BiaiceError ''AUDIT_UNAVAILABLE'')"

section \<open>The verifier\<close>

text \<open>
  The loop of \<open>verify_hash_chain\<close>, with its two loop variables: the scope fixed by the first
  event and the hash of the event before.
\<close>

fun verify_from ::
  "(string \<Rightarrow> string) \<Rightarrow> (timestamp \<Rightarrow> string) \<Rightarrow> (uuid \<times> uuid) option \<Rightarrow> string \<Rightarrow> audit_event list \<Rightarrow> string res" where
  "verify_from sha isofmt expected previous_hash [] = Inr previous_hash"
| "verify_from sha isofmt expected previous_hash (e # es) =
     (let sc = (ae_tenant_id e, ae_data_domain_id e);
          expected' = (case expected of None \<Rightarrow> sc | Some x \<Rightarrow> x)
      in if sc \<noteq> expected' \<or> ae_previous_hash e \<noteq> previous_hash
         then Inl (BiaiceError ''AUDIT_INTEGRITY_FAILED'')
         else if sha (unsigned_text isofmt e) \<noteq> ae_event_hash e
         then Inl (BiaiceError ''AUDIT_INTEGRITY_FAILED'')
         else verify_from sha isofmt (Some expected') (ae_event_hash e) es)"

definition verify_hash_chain ::
  "(string \<Rightarrow> string) \<Rightarrow> (timestamp \<Rightarrow> string) \<Rightarrow> audit_event list \<Rightarrow> string res" where
  "verify_hash_chain sha isofmt es = verify_from sha isofmt None GENESIS_HASH es"

section \<open>Facts on signing and verifying\<close>

lemma GENESIS_is_hash [simp]: "is_hash GENESIS_HASH"
  by (simp add: is_hash_def GENESIS_HASH_def)

lemma sign_event_fields [simp]:
  "ae_previous_hash (sign_event sha isofmt i now p r) = p"
  "ae_tenant_id (sign_event sha isofmt i now p r) = sc_tenant_id (ic_scope (ar_identity r))"
  "ae_data_domain_id (sign_event sha isofmt i now p r) = sc_data_domain_id (ic_scope (ar_identity r))"
  by (simp_all add: sign_event_def Let_def)

lemma in_scope_sign_event [simp]:
  "event_in_scope scope (sign_event sha isofmt i now p r) \<longleftrightarrow>
     sc_tenant_id (ic_scope (ar_identity r)) = sc_tenant_id scope \<and>
     sc_data_domain_id (ic_scope (ar_identity r)) = sc_data_domain_id scope"
  by (simp add: event_in_scope_def)

text \<open>The hashed text does not depend on the hash field.\<close>

lemma unsigned_text_hash_irrelevant [simp]: "unsigned_text isofmt (e\<lparr>ae_event_hash := h\<rparr>) = unsigned_text isofmt e"
  by (simp add: unsigned_text_def unsigned_fields_def)

lemma sign_event_hash [simp]:
  "ae_event_hash (sign_event sha isofmt i now p r) = sha (unsigned_text isofmt (sign_event sha isofmt i now p r))"
  by (simp add: sign_event_def unsigned_text_def unsigned_fields_def Let_def)

lemma verify_from_append:
  "verify_from sha isofmt ex p (xs @ [e]) = Inr h \<longleftrightarrow>
     (\<exists>q. verify_from sha isofmt ex p xs = Inr q \<and> ae_previous_hash e = q \<and>
          (\<forall>x \<in> set xs. (ae_tenant_id x, ae_data_domain_id x) = (ae_tenant_id e, ae_data_domain_id e)) \<and>
          (\<forall>sc. ex = Some sc \<longrightarrow> sc = (ae_tenant_id e, ae_data_domain_id e)) \<and>
          sha (unsigned_text isofmt e) = ae_event_hash e \<and> h = ae_event_hash e)"
proof (induction xs arbitrary: ex p)
  case Nil
  then show ?case by (auto simp: Let_def split: option.splits)
next
  case (Cons x xs)
  then show ?case by (auto simp: Let_def split: option.splits)
qed

lemma verify_from_hash:
  "verify_from sha isofmt ex p es = Inr h \<Longrightarrow> h = (if es = [] then p else ae_event_hash (last es))"
  by (induction es arbitrary: ex p) (auto simp: Let_def split: if_splits)

lemma verify_from_error:
  "verify_from sha isofmt ex p es = Inl x \<Longrightarrow> x = BiaiceError ''AUDIT_INTEGRITY_FAILED''"
  by (induction es arbitrary: ex p) (auto simp: Let_def split: if_splits)

text \<open>
  The hashed text determines every field of the event but the hash, when \<open>isoformat\<close> tells
  different times apart.
\<close>

lemma map_JStr_inject [simp]: "map JStr xs = map JStr ys \<longleftrightarrow> xs = ys"
  by (simp add: inj_map_eq_map inj_def)

lemma canon_unsigned:
  "json_canon (JObj (unsigned_fields isofmt e)) = JObj (sort_key fst (unsigned_fields isofmt e))"
  by (simp add: unsigned_fields_def o_def split: option.splits)

lemma unsigned_text_inject:
  assumes "inj isofmt" and "unsigned_text isofmt e = unsigned_text isofmt e'"
  shows "e\<lparr>ae_event_hash := h\<rparr> = e'\<lparr>ae_event_hash := h\<rparr>"
proof -
  have "sort_key fst (unsigned_fields isofmt e) = sort_key fst (unsigned_fields isofmt e')"
    using assms(2) by (simp add: unsigned_text_def dumps_inject canon_unsigned del: json_canon.simps)
  then have "unsigned_fields isofmt e = unsigned_fields isofmt e'"
    by (rule sort_key_fst_inject) (simp_all add: unsigned_fields_def)
  with assms(1) show ?thesis
    by (cases e; cases e') (auto simp: unsigned_fields_def inj_eq split: option.splits)
qed

text \<open>
  Two chains that verify to the same final hash are the same chain, unless the digest collides
  on their texts or produces the genesis value.
\<close>

lemma verify_from_same_hash:
  assumes "inj isofmt"
    and "\<And>e e'. e \<in> set es \<Longrightarrow> e' \<in> set es' \<Longrightarrow> sha (unsigned_text isofmt e) = sha (unsigned_text isofmt e') \<Longrightarrow>
         unsigned_text isofmt e = unsigned_text isofmt e'"
    and "\<And>e. e \<in> set es \<union> set es' \<Longrightarrow> sha (unsigned_text isofmt e) \<noteq> GENESIS_HASH"
    and "verify_from sha isofmt None GENESIS_HASH es = Inr h"
    and "verify_from sha isofmt None GENESIS_HASH es' = Inr h"
  shows "es = es'"
  using assms(2-)
proof (induction es arbitrary: es' h rule: rev_induct)
  case Nil
  then show ?case
    by (cases es' rule: rev_cases) (auto simp: verify_from_append)
next
  case (snoc e es)
  show ?case
  proof (cases es' rule: rev_cases)
    case Nil
    with snoc.prems show ?thesis by (auto simp: verify_from_append)
  next
    case es': (snoc ys e')
    from snoc.prems(3,4) es' have
      he: "sha (unsigned_text isofmt e) = h" "ae_event_hash e = h"
      and he': "sha (unsigned_text isofmt e') = h" "ae_event_hash e' = h"
      and v: "verify_from sha isofmt None GENESIS_HASH es = Inr (ae_previous_hash e)"
      and v': "verify_from sha isofmt None GENESIS_HASH ys = Inr (ae_previous_hash e')"
      by (auto simp: verify_from_append)
    have "unsigned_text isofmt e = unsigned_text isofmt e'"
      using snoc.prems(1) [of e e'] he he' es' by simp
    then have "e\<lparr>ae_event_hash := h\<rparr> = e'\<lparr>ae_event_hash := h\<rparr>"
      by (rule unsigned_text_inject [OF assms(1)])
    with he(2) he'(2) have "e = e'"
      by (cases e; cases e') simp
    moreover from this v v' have "es = ys"
      using snoc.prems(1,2) es' by (intro snoc.IH) auto
    ultimately show ?thesis using es' by simp
  qed
qed

section \<open>The sink as an interface\<close>

definition chains_verify ::
  "(string \<Rightarrow> string) \<Rightarrow> (timestamp \<Rightarrow> string) \<Rightarrow> 's sink_ops \<Rightarrow> 's \<Rightarrow> bool" where
  "chains_verify sha isofmt sink s \<longleftrightarrow>
     (\<forall>sc. \<exists>h. verify_hash_chain sha isofmt (sink_list_events sink s sc) = Inr h)"

text \<open>A batch of writes, each with its audit id, time and request, whatever their outcomes.\<close>

fun run_writes ::
  "(string \<Rightarrow> string) \<Rightarrow> (timestamp \<Rightarrow> string) \<Rightarrow> 's sink_ops \<Rightarrow> (uuid \<times> timestamp \<times> audit_request) list \<Rightarrow> 's \<Rightarrow> 's" where
  "run_writes sha isofmt sink [] s = s"
| "run_writes sha isofmt sink ((i, t, r) # ws) s =
     run_writes sha isofmt sink ws (snd (audit_write sha isofmt sink i t r s))"

locale audit_log =
  fixes sink :: "'s sink_ops"
  assumes latest:
    "sink_latest_hash sink s sc =
       (if sink_list_events sink s sc = [] then None
        else Some (ae_event_hash (last (sink_list_events sink s sc))))"
    and append_available:
    "sink_available sink s \<Longrightarrow>
       \<exists>s'. sink_append sink e s = (Inr (), s') \<and> sink_available sink s' \<and>
         (\<forall>sc. sink_list_events sink s' sc =
                sink_list_events sink s sc @ (if event_in_scope sc e then [e] else []))"
    and append_unavailable:
    "\<not> sink_available sink s \<Longrightarrow> sink_append sink e s = (Inl (BiaiceError ''AUDIT_UNAVAILABLE''), s)"
    and list_by_tenant:
    "sc_tenant_id sc = sc_tenant_id sc' \<Longrightarrow> sc_data_domain_id sc = sc_data_domain_id sc' \<Longrightarrow>
       sink_list_events sink s sc = sink_list_events sink s sc'"
    and listed_in_scope: "e \<in> set (sink_list_events sink s sc) \<Longrightarrow> event_in_scope sc e"
begin

lemma write_unavailable:
  "\<not> sink_available sink s \<Longrightarrow>
   audit_write sha isofmt sink i t r s = (Inl (BiaiceError ''AUDIT_UNAVAILABLE''), s)"
  by (simp add: audit_write_def monad_simps)

text \<open>The previous hash the writer uses is the one the verifier computes for the stored chain.\<close>

lemma previous_hash_is_chain_hash:
  assumes "digest_ok sha" and "verify_hash_chain sha isofmt (sink_list_events sink s sc) = Inr h"
  shows "(case sink_latest_hash sink s sc of None \<Rightarrow> GENESIS_HASH | Some h \<Rightarrow> if h = [] then GENESIS_HASH else h) = h"
    and "is_hash h"
proof -
  have h: "h = (if sink_list_events sink s sc = [] then GENESIS_HASH
      else ae_event_hash (last (sink_list_events sink s sc)))"
    using assms(2) unfolding verify_hash_chain_def by (rule verify_from_hash)
  have "\<exists>x. ae_event_hash (last (sink_list_events sink s sc)) = sha x"
    if "sink_list_events sink s sc \<noteq> []"
  proof -
    from that obtain es e where "sink_list_events sink s sc = es @ [e]"
      by (cases "sink_list_events sink s sc" rule: rev_cases) auto
    with assms(2) show ?thesis
      by (auto simp: verify_hash_chain_def verify_from_append) metis
  qed
  with h assms(1) have "is_hash h" by (auto split: if_splits)
  then show "is_hash h" .
  from h \<open>is_hash h\<close> show "(case sink_latest_hash sink s sc of None \<Rightarrow> GENESIS_HASH
      | Some h \<Rightarrow> if h = [] then GENESIS_HASH else h) = h"
    by (auto simp: latest dest: is_hash_not_Nil)
qed

lemma write_extends_chain:
  assumes avail: "sink_available sink s" and sha: "digest_ok sha"
    and ok: "verify_hash_chain sha isofmt (sink_list_events sink s (ic_scope (ar_identity r))) = Inr h"
  shows "\<exists>e s'. audit_write sha isofmt sink i t r s = (Inr e, s') \<and> sink_available sink s' \<and>
    e = sign_event sha isofmt i t h r \<and>
    (\<forall>sc. sink_list_events sink s' sc =
           sink_list_events sink s sc @ (if event_in_scope sc e then [e] else []))"
proof -
  let ?e = "sign_event sha isofmt i t h r"
  note prev = previous_hash_is_chain_hash [OF sha ok]
  obtain s' where s': "sink_append sink ?e s = (Inr (), s')" "sink_available sink s'"
    "\<forall>sc. sink_list_events sink s' sc =
       sink_list_events sink s sc @ (if event_in_scope sc ?e then [?e] else [])"
    using append_available [OF avail] by blast
  have "audit_write sha isofmt sink i t r s = (Inr ?e, s')"
    using avail sha s'(1) prev by (simp add: audit_write_def monad_simps Let_def)
  with s' show ?thesis by blast
qed

lemma extended_chain_verifies:
  assumes "verify_hash_chain sha isofmt (sink_list_events sink s sc) = Inr h"
    and "event_in_scope sc e" and "e = sign_event sha isofmt i t h r"
  shows "verify_hash_chain sha isofmt (sink_list_events sink s sc @ [e]) = Inr (ae_event_hash e)"
  using assms listed_in_scope
  by (fastforce simp: verify_hash_chain_def verify_from_append event_in_scope_def)

text \<open>
  Writing keeps every chain verifiable, whether the sink is available or not, and so does a
  batch of writes.
\<close>

lemma write_chains_verify:
  assumes sha: "digest_ok sha" and ok: "chains_verify sha isofmt sink s"
  shows "chains_verify sha isofmt sink (snd (audit_write sha isofmt sink i t r s))"
proof (cases "sink_available sink s")
  case False
  with ok show ?thesis by (simp add: write_unavailable)
next
  case True
  let ?sc = "ic_scope (ar_identity r)"
  obtain h where h: "verify_hash_chain sha isofmt (sink_list_events sink s ?sc) = Inr h"
    using ok by (auto simp: chains_verify_def)
  from write_extends_chain [OF True sha h, of i t] obtain e s' where
    w: "audit_write sha isofmt sink i t r s = (Inr e, s')" and e: "e = sign_event sha isofmt i t h r"
    and l: "\<And>sc. sink_list_events sink s' sc =
      sink_list_events sink s sc @ (if event_in_scope sc e then [e] else [])"
    by blast
  have "\<exists>q. verify_hash_chain sha isofmt (sink_list_events sink s' sc) = Inr q" for sc
  proof (cases "event_in_scope sc e")
    case True
    with e have "sink_list_events sink s sc = sink_list_events sink s ?sc"
      by (intro list_by_tenant) simp_all
    with h True e l [of sc] extended_chain_verifies [of sha isofmt s sc h e i t r] show ?thesis
      by auto
  next
    case False
    with ok l [of sc] show ?thesis by (auto simp: chains_verify_def)
  qed
  with w show ?thesis by (simp add: chains_verify_def)
qed

lemma run_chains_verify:
  "digest_ok sha \<Longrightarrow> chains_verify sha isofmt sink s \<Longrightarrow>
   chains_verify sha isofmt sink (run_writes sha isofmt sink ws s)"
  by (induction ws arbitrary: s) (auto simp: write_chains_verify)

end

text \<open>The in-memory sink provides the interface.\<close>

lemma event_in_scope_cong:
  "sc_tenant_id sc = sc_tenant_id sc' \<Longrightarrow> sc_data_domain_id sc = sc_data_domain_id sc' \<Longrightarrow>
   event_in_scope sc = event_in_scope sc'"
  by (simp add: event_in_scope_def fun_eq_iff)

interpretation memory: audit_log memory_ops
proof unfold_locales
  fix s :: memory_sink and e
  assume "sink_available memory_ops s"
  then show "\<exists>s'. sink_append memory_ops e s = (Inr (), s') \<and> sink_available memory_ops s' \<and>
      (\<forall>sc. sink_list_events memory_ops s' sc =
        sink_list_events memory_ops s sc @ (if event_in_scope sc e then [e] else []))"
    by (simp add: memory_ops_def memory_append_def memory_list_events_def monad_simps)
qed (auto simp: memory_ops_def memory_latest_hash_def memory_list_events_def memory_append_def
    monad_simps Let_def dest: event_in_scope_cong)

lemma fresh_chains_verify: "ms_events s = [] \<Longrightarrow> chains_verify sha isofmt memory_ops s"
  by (simp add: chains_verify_def memory_ops_def memory_list_events_def verify_hash_chain_def)

section \<open>Properties\<close>

text \<open>
  C3. Whatever is written, in whatever order and by whatever tenants, starting from an empty
  in-memory sink and whether or not the sink is available, the stored chain of every
  tenant and data domain verifies.
\<close>

theorem audit_chains_always_verify:
  assumes "digest_ok sha" and "ms_events s = []"
  shows "\<exists>h. verify_hash_chain sha isofmt
    (memory_list_events (run_writes sha isofmt memory_ops ws s) sc) = Inr h"
proof -
  have "chains_verify sha isofmt memory_ops (run_writes sha isofmt memory_ops ws s)"
    using assms by (intro memory.run_chains_verify fresh_chains_verify)
  then show ?thesis by (simp add: chains_verify_def memory_ops_def)
qed

text \<open>
  C4. The log is tamper-evident: a list of events that verifies to the same final hash as the
  stored chain is the stored chain, field for field, provided the digest neither collides on
  the texts of the two lists nor yields the genesis value, and \<open>isoformat\<close> is injective.
\<close>

theorem audit_tamper_evident:
  assumes "inj isofmt"
    and "\<forall>e \<in> set es. \<forall>e' \<in> set es'. sha (unsigned_text isofmt e) = sha (unsigned_text isofmt e') \<longrightarrow>
           unsigned_text isofmt e = unsigned_text isofmt e'"
    and "\<forall>e \<in> set es \<union> set es'. sha (unsigned_text isofmt e) \<noteq> GENESIS_HASH"
    and "verify_hash_chain sha isofmt es = Inr h"
    and "verify_hash_chain sha isofmt es' = Inr h"
  shows "es = es'"
  using assms unfolding verify_hash_chain_def
  by (intro verify_from_same_hash [of isofmt es es' sha h]) auto

text \<open>
  A write to an available sink whose chain verifies to \<open>h\<close> returns the event signed
  over \<open>h\<close>, appends it to the chain of its own tenant and domain, whose verification then
  yields the new event's hash, and leaves every other tenant's chain as it was.
\<close>

theorem audit_write_appends:
  assumes "ms_available s" and "digest_ok sha"
    and "verify_hash_chain sha isofmt (memory_list_events s (ic_scope (ar_identity r))) = Inr h"
  shows "\<exists>e s'. audit_write sha isofmt memory_ops i t r s = (Inr e, s') \<and>
    e = sign_event sha isofmt i t h r \<and>
    verify_hash_chain sha isofmt (memory_list_events s' (ic_scope (ar_identity r))) = Inr (ae_event_hash e) \<and>
    (\<forall>sc. \<not> event_in_scope sc e \<longrightarrow> memory_list_events s' sc = memory_list_events s sc)"
proof -
  from assms memory.write_extends_chain [of s sha isofmt r h i t] obtain e s' where
    w: "audit_write sha isofmt memory_ops i t r s = (Inr e, s')" and e: "e = sign_event sha isofmt i t h r"
    and l: "\<And>sc. memory_list_events s' sc =
      memory_list_events s sc @ (if event_in_scope sc e then [e] else [])"
    by (auto simp: memory_ops_def)
  moreover from memory.extended_chain_verifies [of sha isofmt s "ic_scope (ar_identity r)" h e i t r]
  have "verify_hash_chain sha isofmt (memory_list_events s' (ic_scope (ar_identity r))) = Inr (ae_event_hash e)"
    using assms(3) e l by (simp add: memory_ops_def)
  ultimately show ?thesis by auto
qed

section \<open>Witnesses\<close>

definition sample_request :: audit_request where
  "sample_request = \<lparr>ar_identity = sample_identity, ar_action = ''simulation.batch.create'',
     ar_object_type = ''SimulationBatch'', ar_object_id = 11, ar_request_id = ''req-1'',
     ar_reason_code = ''SIMULATION_BATCH_QUEUED'', ar_outcome = ''ACCEPTED'',
     ar_object_version_id = Some 12\<rparr>"

lemma inj_print_int: "inj print_int"
proof (rule injI)
  fix i j assume "print_int i = print_int j"
  then have "print_int i @ [] = print_int j @ []" by simp
  then have "i = j \<and> ([] :: string) = []" by (rule print_int_unique) simp_all
  then show "i = j" by simp
qed

definition sample_event :: audit_event where
  "sample_event = sign_event sample_sha print_int 100 0 GENESIS_HASH sample_request"

lemma sample_event_verifies:
  "verify_hash_chain sample_sha print_int [sample_event] = Inr (ae_event_hash sample_event)"
  using verify_from_append [of sample_sha print_int None GENESIS_HASH "[]" sample_event]
  by (simp add: verify_hash_chain_def sample_event_def)

theorem audit_chains_always_verify_witness:
  "digest_ok sample_sha \<and>
   (\<exists>h. verify_hash_chain sample_sha print_int
     (memory_list_events (run_writes sample_sha print_int memory_ops
        [(100, 0, sample_request), (101, 1, sample_request)] \<lparr>ms_events = [], ms_available = True\<rparr>)
      sample_scope) = Inr h)"
  by (intro conjI audit_chains_always_verify sample_sha_ok) simp

theorem audit_tamper_evident_witness:
  "verify_hash_chain sample_sha print_int [sample_event] = Inr (ae_event_hash sample_event) \<and>
   [sample_event] = [sample_event]"
  using audit_tamper_evident [OF inj_print_int _ _ sample_event_verifies sample_event_verifies]
    sample_event_verifies
  by (simp add: sample_sha_def GENESIS_HASH_def)

theorem audit_write_appends_witness:
  "\<exists>e s'. audit_write sample_sha print_int memory_ops 100 0 sample_request
      \<lparr>ms_events = [], ms_available = True\<rparr> = (Inr e, s') \<and>
    e = sign_event sample_sha print_int 100 0 GENESIS_HASH sample_request \<and>
    verify_hash_chain sample_sha print_int (memory_list_events s' (ic_scope (ar_identity sample_request))) =
      Inr (ae_event_hash e) \<and>
    (\<forall>sc. \<not> event_in_scope sc e \<longrightarrow>
       memory_list_events s' sc = memory_list_events \<lparr>ms_events = [], ms_available = True\<rparr> sc)"
  by (rule audit_write_appends)
    (simp_all add: memory_list_events_def verify_hash_chain_def)

end
