(* ===== verification/Governance.thy ===== *)
theory Governance
  imports Auth Canonical_Json
begin

text \<open>
  The governance domain of \<open>modules/governance\<close>: its immutable models with their
  validators, the event by dependency invalidation matrix with \<open>propagate_change\<close>, and
  the retention-expiry transition. The deletion coordinator is in theory \<open>Deletion\<close>.
\<close>

section \<open>Models\<close>

record scoped_object_ref =
  so_tenant_id :: uuid
  so_data_domain_id :: uuid
  so_project_id :: "uuid option"
  so_decision_unit_id :: "uuid option"
  so_object_type :: string
  so_object_id :: uuid
  so_version_id :: "uuid option"

datatype dependency_type = COMPUTATIONAL | EVIDENTIAL | POLICY | AUTHORIZATION | PRESENTATIONAL

datatype upstream_change_type =
    DRAFT_CREATED | SNAPSHOT_FROZEN | PUBLISH_EFFECTIVE | REVOKE | DELETE | RETENTION_EXPIRED
  | AUTHORIZATION_WITHDRAWN | PURPOSE_ENDED | PROVIDER_POLICY_EXPIRED | MODEL_POLICY_EFFECTIVE

datatype invalidation_effect = EFFECT_STALE | EFFECT_INVALIDATED

primrec change_value :: "upstream_change_type \<Rightarrow> string" where
  "change_value DRAFT_CREATED = ''DRAFT_CREATED''"
| "change_value SNAPSHOT_FROZEN = ''SNAPSHOT_FROZEN''"
| "change_value PUBLISH_EFFECTIVE = ''PUBLISH_EFFECTIVE''"
| "change_value REVOKE = ''REVOKE''"
| "change_value DELETE = ''DELETE''"
| "change_value RETENTION_EXPIRED = ''RETENTION_EXPIRED''"
| "change_value AUTHORIZATION_WITHDRAWN = ''AUTHORIZATION_WITHDRAWN''"
| "change_value PURPOSE_ENDED = ''PURPOSE_ENDED''"
| "change_value PROVIDER_POLICY_EXPIRED = ''PROVIDER_POLICY_EXPIRED''"
| "change_value MODEL_POLICY_EFFECTIVE = ''MODEL_POLICY_EFFECTIVE''"

primrec effect_value :: "invalidation_effect \<Rightarrow> string" where
  "effect_value EFFECT_STALE = ''STALE''"
| "effect_value EFFECT_INVALIDATED = ''INVALIDATED''"

record lineage_edge =
  le_edge_id :: uuid
  le_tenant_id :: uuid
  le_data_domain_id :: uuid
  le_project_id :: "uuid option"
  le_decision_unit_id :: "uuid option"
  le_upstream_type :: string
  le_upstream_id :: uuid
  le_upstream_version_id :: uuid
  le_downstream_type :: string
  le_downstream_id :: uuid
  le_downstream_version_id :: "uuid option"
  le_dependency_type :: dependency_type
  le_affected_fields :: "string list"
  le_created_at :: timestamp

text \<open>
  The validators of \<open>DataLineageEdge\<close>: at least one affected field, no self-edge.
\<close>

definition lineage_edge_valid :: "lineage_edge \<Rightarrow> bool" where
  "lineage_edge_valid e \<longleftrightarrow>
     le_affected_fields e \<noteq> [] \<and>
     \<not> (le_upstream_type e = le_downstream_type e \<and> le_upstream_id e = le_downstream_id e)"

record invalidation_event =
  ie_invalidation_id :: uuid
  ie_tenant_id :: uuid
  ie_data_domain_id :: uuid
  ie_source_event_id :: uuid
  ie_lineage_edge_id :: uuid
  ie_downstream_type :: string
  ie_downstream_id :: uuid
  ie_downstream_version_id :: "uuid option"
  ie_effect :: invalidation_effect
  ie_reason_code :: string
  ie_occurred_at :: timestamp
  ie_idempotency_fingerprint :: string

record supersession_event =
  se_supersession_id :: uuid
  se_tenant_id :: uuid
  se_data_domain_id :: uuid
  se_object_type :: string
  se_superseded_version_id :: uuid
  se_successor_version_id :: uuid
  se_reason_code :: string
  se_occurred_at :: timestamp
  se_actor_id :: uuid

definition supersession_valid :: "supersession_event \<Rightarrow> bool" where
  "supersession_valid e \<longleftrightarrow> se_superseded_version_id e \<noteq> se_successor_version_id e"

datatype legal_hold_state = HOLD_ACTIVE | HOLD_RELEASED

record legal_hold =
  lh_legal_hold_id :: uuid
  lh_target :: scoped_object_ref
  lh_state :: legal_hold_state
  lh_reason_code :: string
  lh_authority_reference_hash :: string
  lh_placed_by :: uuid
  lh_placed_at :: timestamp
  lh_released_by :: "uuid option"
  lh_release_checked_by :: "uuid option"
  lh_released_at :: "timestamp option"

text \<open>
  \<open>LegalHoldRecord.enforce_release_dual_control\<close>, with the hash pattern of the reference.
\<close>

definition legal_hold_valid :: "legal_hold \<Rightarrow> bool" where
  "legal_hold_valid h \<longleftrightarrow>
     is_hash (lh_authority_reference_hash h) \<and>
     (if lh_state h = HOLD_RELEASED
      then lh_released_by h \<noteq> None \<and> lh_release_checked_by h \<noteq> None \<and> lh_released_at h \<noteq> None \<and>
           lh_released_by h \<noteq> lh_release_checked_by h
      else True)"

section \<open>Invalidation\<close>

text \<open>
  \<open>INVALIDATION_MATRIX[change].get(dependency)\<close>.
\<close>

fun invalidation_matrix :: "upstream_change_type \<Rightarrow> dependency_type \<Rightarrow> invalidation_effect option" where
  "invalidation_matrix DRAFT_CREATED _ = None"
| "invalidation_matrix SNAPSHOT_FROZEN _ = None"
| "invalidation_matrix PUBLISH_EFFECTIVE _ = Some EFFECT_STALE"
| "invalidation_matrix REVOKE _ = Some EFFECT_INVALIDATED"
| "invalidation_matrix DELETE _ = Some EFFECT_INVALIDATED"
| "invalidation_matrix RETENTION_EXPIRED _ = Some EFFECT_INVALIDATED"
| "invalidation_matrix AUTHORIZATION_WITHDRAWN d =
     (if d = AUTHORIZATION then Some EFFECT_INVALIDATED else None)"
| "invalidation_matrix PURPOSE_ENDED d =
     (if d = AUTHORIZATION then Some EFFECT_INVALIDATED else None)"
| "invalidation_matrix PROVIDER_POLICY_EXPIRED d =
     (if d = POLICY \<or> d = AUTHORIZATION then Some EFFECT_INVALIDATED else None)"
| "invalidation_matrix MODEL_POLICY_EFFECTIVE d =
     (if d = POLICY \<or> d = COMPUTATIONAL then Some EFFECT_STALE else None)"

definition fingerprint_text :: "uuid \<Rightarrow> uuid \<Rightarrow> invalidation_effect \<Rightarrow> string" where
  "fingerprint_text source_event_id edge_id effect =
     uuid_str source_event_id @ '':'' @ uuid_str edge_id @ '':'' @ effect_value effect"

definition fingerprint :: "(string \<Rightarrow> string) \<Rightarrow> uuid \<Rightarrow> uuid \<Rightarrow> invalidation_effect \<Rightarrow> string" where
  "fingerprint sha source_event_id edge_id effect =
     sha (fingerprint_text source_event_id edge_id effect)"

text \<open>
  The loop of \<open>propagate_change\<close>; \<open>new_id n\<close> is the value of the \<open>uuid4()\<close>
  call for the \<open>n\<close>-th emitted event, and \<open>n\<close> counts the events emitted so far.
\<close>

fun propagate_from ::
  "(string \<Rightarrow> string) \<Rightarrow> (nat \<Rightarrow> uuid) \<Rightarrow> uuid \<Rightarrow> upstream_change_type \<Rightarrow> string list \<Rightarrow> timestamp \<Rightarrow>
   nat \<Rightarrow> lineage_edge list \<Rightarrow> invalidation_event list" where
  "propagate_from sha new_id source change changed now n [] = []"
| "propagate_from sha new_id source change changed now n (e # es) =
     (case invalidation_matrix change (le_dependency_type e) of
        None \<Rightarrow> propagate_from sha new_id source change changed now n es
      | Some effect \<Rightarrow>
          if changed \<noteq> [] \<and> set (le_affected_fields e) \<inter> set changed = {}
          then propagate_from sha new_id source change changed now n es
          else
            \<lparr>ie_invalidation_id = new_id n,
             ie_tenant_id = le_tenant_id e,
             ie_data_domain_id = le_data_domain_id e,
             ie_source_event_id = source,
             ie_lineage_edge_id = le_edge_id e,
             ie_downstream_type = le_downstream_type e,
             ie_downstream_id = le_downstream_id e,
             ie_downstream_version_id = le_downstream_version_id e,
             ie_effect = effect,
             ie_reason_code = ''UPSTREAM_'' @ change_value change,
             ie_occurred_at = now,
             ie_idempotency_fingerprint = fingerprint sha source (le_edge_id e) effect\<rparr>
            # propagate_from sha new_id source change changed now (Suc n) es)"

definition propagate_change ::
  "(string \<Rightarrow> string) \<Rightarrow> (nat \<Rightarrow> uuid) \<Rightarrow> uuid \<Rightarrow> upstream_change_type \<Rightarrow> lineage_edge list \<Rightarrow> string list \<Rightarrow>
   timestamp \<Rightarrow> invalidation_event list" where
  "propagate_change sha new_id source change edges changed now =
     propagate_from sha new_id source change changed now 0 edges"

text \<open>The edges an upstream change affects: the specification of the loop.\<close>

definition affected :: "upstream_change_type \<Rightarrow> string list \<Rightarrow> lineage_edge \<Rightarrow> bool" where
  "affected change changed e \<longleftrightarrow>
     invalidation_matrix change (le_dependency_type e) \<noteq> None \<and>
     (changed = [] \<or> (\<exists>f \<in> set changed. f \<in> set (le_affected_fields e)))"

lemma propagate_from_edges:
  "map (\<lambda>v. (ie_lineage_edge_id v, ie_downstream_id v, Some (ie_effect v), ie_idempotency_fingerprint v))
     (propagate_from sha new_id source change changed now n edges) =
   map (\<lambda>e. (le_edge_id e, le_downstream_id e, invalidation_matrix change (le_dependency_type e),
             fingerprint sha source (le_edge_id e) (the (invalidation_matrix change (le_dependency_type e)))))
     (filter (affected change changed) edges)"
  by (induction edges arbitrary: n) (auto simp: affected_def split: option.splits)

lemma propagate_from_ids:
  "map ie_invalidation_id (propagate_from sha new_id source change changed now n edges) =
   map new_id [n ..< n + length (filter (affected change changed) edges)]"
proof (induction edges arbitrary: n)
  case (Cons e es)
  have "map new_id [n ..< n + Suc k] = new_id n # map new_id [Suc n ..< Suc n + k]" for k
    by (simp add: upt_conv_Cons del: upt_Suc)
  with Cons show ?case
    by (auto simp: affected_def split: option.splits simp del: upt_Suc)
qed simp

lemma length_uuid_str [simp]: "length (uuid_str u) = 36"
  by (simp add: uuid_str_def Let_def)

lemma fingerprint_text_inject: "fingerprint_text s a f = fingerprint_text s b g \<Longrightarrow> a = b"
  by (simp add: fingerprint_text_def append_eq_append_conv)

text \<open>The text hashed for an edge under a change.\<close>

definition edge_text :: "uuid \<Rightarrow> upstream_change_type \<Rightarrow> lineage_edge \<Rightarrow> string" where
  "edge_text source change e =
     fingerprint_text source (le_edge_id e) (the (invalidation_matrix change (le_dependency_type e)))"

section \<open>Retention\<close>

datatype retention_action = RA_DELETE | RA_CRYPTO_ERASE | RA_ARCHIVE | RA_REVIEW

datatype retention_job_state =
    RJ_SCHEDULED | RJ_FORMAL_USE_BLOCKED | RJ_WAITING_FOR_HOLD_RELEASE | RJ_DISPOSITION_RUNNING
  | RJ_COMPLETED | RJ_FAILED_RETRYABLE | RJ_ESCALATED

record retention_job =
  rj_retention_job_id :: uuid
  rj_target :: scoped_object_ref
  rj_retention_expires_at :: timestamp
  rj_action :: retention_action
  rj_state :: retention_job_state
  rj_formal_use_blocked_at :: "timestamp option"
  rj_legal_hold_count :: int
  rj_attempt :: nat
  rj_next_attempt_at :: "timestamp option"

record retention_transition =
  rt_job :: retention_job
  rt_emit_retention_expired :: bool
  rt_request_physical_disposition :: bool

text \<open>
  \<open>evaluate_retention_expiry\<close>. \<open>model_validate\<close> rejects a negative hold count. The
  falsy \<open>or\<close> on a time is a test for \<open>None\<close>.
\<close>

definition evaluate_retention_expiry :: "retention_job \<Rightarrow> timestamp \<Rightarrow> int \<Rightarrow> retention_transition res" where
  "evaluate_retention_expiry job now holds =
     (if now < rj_retention_expires_at job
      then Inr \<lparr>rt_job = job, rt_emit_retention_expired = False, rt_request_physical_disposition = False\<rparr>
      else
        let first_block = (rj_formal_use_blocked_at job = None);
            blocked_at = (case rj_formal_use_blocked_at job of Some t \<Rightarrow> t | None \<Rightarrow> now);
            state = (if holds > 0 then RJ_WAITING_FOR_HOLD_RELEASE else RJ_DISPOSITION_RUNNING);
            updated = job\<lparr>rj_state := state, rj_formal_use_blocked_at := Some blocked_at,
                          rj_legal_hold_count := holds\<rparr>
        in bindE (guardE (holds \<ge> 0) ValidationError) (\<lambda>_.
           Inr \<lparr>rt_job = updated, rt_emit_retention_expired = first_block,
                rt_request_physical_disposition = (holds = 0)\<rparr>))"

text \<open>
  A schedule evaluates the same job again and again; the list of what each evaluation emitted.
\<close>

fun retention_run :: "retention_job \<Rightarrow> (timestamp \<times> nat) list \<Rightarrow> (bool \<times> bool) list" where
  "retention_run job [] = []"
| "retention_run job ((now, holds) # rest) =
     (case evaluate_retention_expiry job now (int holds) of
        Inl _ \<Rightarrow> []
      | Inr t \<Rightarrow>
          (rt_emit_retention_expired t, rt_request_physical_disposition t) # retention_run (rt_job t) rest)"

lemma evaluate_retention_nat:
  "evaluate_retention_expiry job now (int holds) =
     (if now < rj_retention_expires_at job
      then Inr \<lparr>rt_job = job, rt_emit_retention_expired = False, rt_request_physical_disposition = False\<rparr>
      else Inr \<lparr>rt_job = job\<lparr>rj_state := (if holds > 0 then RJ_WAITING_FOR_HOLD_RELEASE else RJ_DISPOSITION_RUNNING),
                 rj_formal_use_blocked_at := Some (case rj_formal_use_blocked_at job of Some t \<Rightarrow> t | None \<Rightarrow> now),
                 rj_legal_hold_count := int holds\<rparr>,
               rt_emit_retention_expired = (rj_formal_use_blocked_at job = None),
               rt_request_physical_disposition = (holds = 0)\<rparr>)"
  by (simp add: evaluate_retention_expiry_def Let_def guardE_def split: option.splits)

lemma retention_run_blocked:
  "rj_formal_use_blocked_at job \<noteq> None \<Longrightarrow> filter fst (retention_run job evs) = []"
  by (induction job evs rule: retention_run.induct)
    (auto simp: evaluate_retention_nat split: if_splits)

lemma retention_run_count:
  "rj_formal_use_blocked_at job = None \<Longrightarrow>
   length (filter fst (retention_run job evs)) =
     (if \<exists>(now, holds) \<in> set evs. rj_retention_expires_at job \<le> now then 1 else 0)"
proof (induction evs arbitrary: job)
  case (Cons ev evs)
  obtain now holds where ev: "ev = (now, holds)" by (cases ev)
  show ?case
  proof (cases "now < rj_retention_expires_at job")
    case True
    with Cons ev show ?thesis by (auto simp: evaluate_retention_nat)
  next
    case False
    let ?j = "rt_job (projr (evaluate_retention_expiry job now (int holds)))"
    have "filter fst (retention_run ?j evs) = []"
      using False by (intro retention_run_blocked) (simp add: evaluate_retention_nat)
    with False Cons.prems ev show ?thesis by (auto simp: evaluate_retention_nat)
  qed
qed simp

section \<open>Properties\<close>

text \<open>
  C5. An upstream change invalidates exactly the edges the matrix and the changed fields
  select, in the order of the edges, each with the matrix's effect and its fingerprint;
  draft creation and snapshot freezing invalidate nothing.
\<close>

theorem propagate_change_exact:
  "map (\<lambda>v. (ie_lineage_edge_id v, ie_downstream_id v, Some (ie_effect v), ie_idempotency_fingerprint v))
     (propagate_change sha new_id source change edges changed now) =
   map (\<lambda>e. (le_edge_id e, le_downstream_id e, invalidation_matrix change (le_dependency_type e),
             fingerprint sha source (le_edge_id e) (the (invalidation_matrix change (le_dependency_type e)))))
     (filter (affected change changed) edges) \<and>
   propagate_change sha new_id source DRAFT_CREATED edges changed now = [] \<and>
   propagate_change sha new_id source SNAPSHOT_FROZEN edges changed now = []"
proof -
  have "propagate_from sha new_id source c changed now n edges = []"
    if "c = DRAFT_CREATED \<or> c = SNAPSHOT_FROZEN" for c n
    using that by (induction edges arbitrary: n) auto
  then show ?thesis by (simp add: propagate_change_def propagate_from_edges)
qed

text \<open>
  Redelivery is recognisable: whatever ids and times the second delivery draws, it carries
  the fingerprints of the first, and distinct edges have distinct fingerprints when the digest
  has no collision, so a unique key on the fingerprint stores each invalidation once.
\<close>

theorem propagate_change_redelivery:
  assumes "inj_on sha (edge_text source change ` set edges)" and "distinct (map le_edge_id edges)"
  shows "map ie_idempotency_fingerprint (propagate_change sha ids source change edges changed now) =
      map ie_idempotency_fingerprint (propagate_change sha ids' source change edges changed now') \<and>
    distinct (map ie_idempotency_fingerprint (propagate_change sha ids source change edges changed now))"
proof -
  have fps: "map ie_idempotency_fingerprint (propagate_change sha i source change edges changed t) =
      map (\<lambda>e. sha (edge_text source change e)) (filter (affected change changed) edges)" for i t
    using arg_cong [OF propagate_from_edges [of sha i source change changed t 0 edges], of "map (snd \<circ> snd \<circ> snd)"]
    by (simp add: propagate_change_def o_def fingerprint_def edge_text_def)
  have "inj_on (\<lambda>e. sha (edge_text source change e)) (set edges)"
  proof (rule inj_onI)
    fix x y
    assume xy: "x \<in> set edges" "y \<in> set edges"
      and "sha (edge_text source change x) = sha (edge_text source change y)"
    with assms(1) have "edge_text source change x = edge_text source change y"
      by (auto dest: inj_onD)
    then have "le_edge_id x = le_edge_id y"
      by (auto simp: edge_text_def dest: fingerprint_text_inject)
    with xy assms(2) show "x = y" by (auto simp: distinct_map dest: inj_onD)
  qed
  then have "distinct (map (\<lambda>e. sha (edge_text source change e)) (filter (affected change changed) edges))"
    using assms(2) by (auto simp: distinct_map intro: inj_on_subset)
  with fps show ?thesis by simp
qed

text \<open>
  Over any schedule of evaluations of a retention job whose formal use is not yet blocked,
  the retention-expired event is emitted exactly once if some evaluation happens at or after
  the expiry, and never otherwise; and physical disposition is never requested by an evaluation
  that saw a legal hold.
\<close>

theorem retention_expired_emitted_once:
  assumes "rj_formal_use_blocked_at job = None"
  shows "length (filter fst (retention_run job evs)) =
      (if \<exists>(now, holds) \<in> set evs. rj_retention_expires_at job \<le> now then 1 else 0) \<and>
    (\<forall>i < length evs. snd (evs ! i) > 0 \<longrightarrow> \<not> snd (retention_run job evs ! i))"
proof -
  have "\<forall>i < length evs. snd (evs ! i) > 0 \<longrightarrow> \<not> snd (retention_run job evs ! i)" for job
  proof (induction job evs rule: retention_run.induct)
    case (2 job now holds rest)
    then show ?case
      by (auto simp: evaluate_retention_nat nth_Cons split: nat.splits)
  qed simp
  with retention_run_count [OF assms] show ?thesis by simp
qed

section \<open>Witnesses\<close>

definition sample_ref :: scoped_object_ref where
  "sample_ref = \<lparr>so_tenant_id = 1, so_data_domain_id = 2, so_project_id = None,
     so_decision_unit_id = None, so_object_type = ''SourceDocumentVersion'', so_object_id = 99,
     so_version_id = None\<rparr>"

definition sample_edge :: "uuid \<Rightarrow> dependency_type \<Rightarrow> lineage_edge" where
  "sample_edge i d = \<lparr>le_edge_id = i, le_tenant_id = 1, le_data_domain_id = 2, le_project_id = None,
     le_decision_unit_id = None, le_upstream_type = ''RuleSet'', le_upstream_id = 3,
     le_upstream_version_id = 4, le_downstream_type = ''DecisionBaseline'', le_downstream_id = 5,
     le_downstream_version_id = None, le_dependency_type = d, le_affected_fields = [''price''],
     le_created_at = 0\<rparr>"

theorem propagate_change_redelivery_witness:
  "distinct (map ie_idempotency_fingerprint
     (propagate_change id of_nat 8 REVOKE [sample_edge 20 POLICY, sample_edge 21 EVIDENTIAL] [''price''] 0))"
  using propagate_change_redelivery
    [where sha = id and source = 8 and change = REVOKE and ids = of_nat and ids' = of_nat
      and edges = "[sample_edge 20 POLICY, sample_edge 21 EVIDENTIAL]" and changed = "[''price'']"
      and now = 0 and now' = 0]
  by (simp add: sample_edge_def)

definition sample_retention :: retention_job where
  "sample_retention = \<lparr>rj_retention_job_id = 1, rj_target = sample_ref, rj_retention_expires_at = 10,
     rj_action = RA_DELETE, rj_state = RJ_SCHEDULED, rj_formal_use_blocked_at = None,
     rj_legal_hold_count = 0, rj_attempt = 0, rj_next_attempt_at = None\<rparr>"

theorem retention_expired_emitted_once_witness:
  "length (filter fst (retention_run sample_retention [(5, 0), (12, 1), (14, 0)])) = 1"
  using retention_expired_emitted_once [of sample_retention "[(5, 0), (12, 1), (14, 0)]"]
  by (simp add: sample_retention_def)

end
