(* ===== verification/Deletion.thy ===== *)
theory Deletion
  imports Governance
begin

text \<open>
  The all-replica deletion coordinator, \<open>modules/governance/application/deletion.py\<close>, over
  the ports it is given: repository, replica adapters, receipt verifier, clock and
  \<open>uuid4\<close>. The ports are arbitrary operations on a state, so the coordinator's safety
  is proved for every behaviour of its environment. The in-memory repository, adapter and
  verifier of \<open>tests/security/test_deletion.py\<close>, the only implementation in the
  repository, provide the interface \<open>deletion_environment\<close>.
\<close>

section \<open>Models\<close>

datatype replica_kind =
    RK_DATABASE | RK_OBJECT_STORAGE | RK_SEARCH_INDEX | RK_VECTOR_INDEX | RK_CACHE
  | RK_TEMPORARY_FILE | RK_PROVIDER_EXTERNAL | RK_BACKUP | RK_AUDIT_DERIVED

datatype adapter_owner = MEMBER_1_GOVERNANCE | MEMBER_3_LOCAL_REPLICA | MEMBER_5_PROVIDER_REPLICA

record replica_location =
  rl_replica_id :: uuid
  rl_target :: scoped_object_ref
  rl_kind :: replica_kind
  rl_adapter_name :: string
  rl_adapter_owner :: adapter_owner
  rl_locator_hash :: string
  rl_required_for_completion :: bool
  rl_deletion_sla_seconds :: nat
  rl_retention_expires_at :: "timestamp option"

datatype deletion_job_state =
    DJ_REQUESTED | DJ_LOGICAL_ACCESS_BLOCKED | DJ_WAITING_FOR_HOLD_RELEASE | DJ_DISPATCHING
  | DJ_WAITING_FOR_RECEIPTS | DJ_PARTIALLY_FAILED | DJ_ESCALATED | DJ_COMPLETED

datatype receipt_outcome = RO_SUCCEEDED | RO_FAILED_RETRYABLE | RO_FAILED_TERMINAL | RO_UNSUPPORTED

record deletion_receipt =
  dr_receipt_id :: uuid
  dr_deletion_job_id :: uuid
  dr_replica_id :: uuid
  dr_tenant_id :: uuid
  dr_data_domain_id :: uuid
  dr_adapter_name :: string
  dr_outcome :: receipt_outcome
  dr_attempted_at :: timestamp
  dr_completed_at :: "timestamp option"
  dr_evidence_hash :: string
  dr_adapter_signature :: string
  dr_verified :: bool
  dr_stable_error_code :: "string option"
  dr_retry_after :: "timestamp option"

definition satisfies_completion :: "deletion_receipt \<Rightarrow> bool" where
  "satisfies_completion r \<longleftrightarrow>
     dr_outcome r = RO_SUCCEEDED \<and> dr_verified r \<and> dr_completed_at r \<noteq> None"

record deletion_job =
  dj_deletion_job_id :: uuid
  dj_target :: scoped_object_ref
  dj_state :: deletion_job_state
  dj_reason_code :: string
  dj_requested_by :: uuid
  dj_requested_at :: timestamp
  dj_idempotency_key :: string
  dj_logical_access_blocked_at :: "timestamp option"
  dj_required_replica_ids :: "uuid set"
  dj_receipts :: "deletion_receipt list"
  dj_legal_hold_count :: nat
  dj_attempt :: nat
  dj_completed_at :: "timestamp option"
  dj_tombstone_id :: "uuid option"

text \<open>\<open>DeletionJob.completion_is_evidence_bound\<close>, run by \<open>model_validate\<close> only.\<close>

definition completion_is_evidence_bound :: "deletion_job \<Rightarrow> bool" where
  "completion_is_evidence_bound job \<longleftrightarrow>
     (dj_state job = DJ_COMPLETED \<longrightarrow>
        dj_logical_access_blocked_at job \<noteq> None \<and> dj_legal_hold_count job = 0 \<and>
        dj_required_replica_ids job \<subseteq> set (map dr_replica_id (filter satisfies_completion (dj_receipts job))) \<and>
        dj_completed_at job \<noteq> None \<and> dj_tombstone_id job \<noteq> None)"

record deletion_command =
  dc_command_id :: uuid
  dc_deletion_job_id :: uuid
  dc_replica :: replica_location
  dc_issued_at :: timestamp
  dc_deadline_at :: timestamp
  dc_attempt :: nat
  dc_idempotency_key :: string

record tombstone_record =
  ts_tombstone_id :: uuid
  ts_tenant_id :: uuid
  ts_data_domain_id :: uuid
  ts_deleted_object_type :: string
  ts_deleted_object_id :: uuid
  ts_deleted_version_id :: "uuid option"
  ts_deletion_job_id :: uuid
  ts_deleted_at :: timestamp
  ts_reason_code :: string
  ts_minimal_reference_hash :: string

section \<open>Ports\<close>

text \<open>
  The protocols of \<open>application/ports.py\<close>, with the clock and the source of identifiers,
  as operations over one state.
\<close>

record 's replica_adapter =
  ra_supported_kinds :: "replica_kind list"
  ra_delete :: "tenant_scope \<Rightarrow> deletion_command \<Rightarrow> ('s, deletion_receipt) svc"

record 's deletion_ports =
  dp_create_and_block :: "tenant_scope \<Rightarrow> scoped_object_ref \<Rightarrow> uuid \<Rightarrow> string \<Rightarrow> string \<Rightarrow> ('s, deletion_job) svc"
  dp_lock_job :: "tenant_scope \<Rightarrow> uuid \<Rightarrow> ('s, deletion_job option) svc"
  dp_save_job :: "tenant_scope \<Rightarrow> deletion_job \<Rightarrow> ('s, unit) svc"
  dp_list_replicas :: "tenant_scope \<Rightarrow> scoped_object_ref \<Rightarrow> ('s, replica_location list) svc"
  dp_list_active_holds :: "tenant_scope \<Rightarrow> scoped_object_ref \<Rightarrow> ('s, legal_hold list) svc"
  dp_append_receipt :: "tenant_scope \<Rightarrow> deletion_receipt \<Rightarrow> ('s, unit) svc"
  dp_complete :: "tenant_scope \<Rightarrow> deletion_job \<Rightarrow> tombstone_record \<Rightarrow> ('s, unit) svc"
  dp_adapters :: "(string, 's replica_adapter) dict"
  dp_verify :: "tenant_scope \<Rightarrow> deletion_command \<Rightarrow> deletion_receipt \<Rightarrow> ('s, deletion_receipt) svc"
  dp_now :: "('s, timestamp) svc"
  dp_uuid4 :: "('s, uuid) svc"

section \<open>The coordinator\<close>

text \<open>\<open>DeletionCoordinator.request\<close>.\<close>

definition request_deletion ::
  "'s deletion_ports \<Rightarrow> identity_context \<Rightarrow> scoped_object_ref \<Rightarrow> string \<Rightarrow> string \<Rightarrow> ('s, deletion_job) svc" where
  "request_deletion ports identity target reason_code idempotency_key =
     bindS (liftE (assert_allows (ic_scope identity) (so_tenant_id target) (so_data_domain_id target)
              (so_project_id target) (so_decision_unit_id target))) (\<lambda>_.
     bindS (dp_create_and_block ports (ic_scope identity) target (ic_subject_id identity)
              reason_code idempotency_key) (\<lambda>job.
     if dj_logical_access_blocked_at job = None then throw RuntimeError else ret job))"

text \<open>\<open>_assert_receipt_binding\<close>.\<close>

definition receipt_bound :: "tenant_scope \<Rightarrow> deletion_job \<Rightarrow> replica_location \<Rightarrow> deletion_receipt \<Rightarrow> bool" where
  "receipt_bound scope job replica r \<longleftrightarrow>
     dr_deletion_job_id r = dj_deletion_job_id job \<and>
     dr_replica_id r = rl_replica_id replica \<and>
     dr_tenant_id r = sc_tenant_id scope \<and>
     dr_data_domain_id r = sc_data_domain_id scope \<and>
     dr_adapter_name r = rl_adapter_name replica"

text \<open>The receipt of a replica whose adapter is unknown or does not support its kind.\<close>

definition unsupported_receipt ::
  "(string \<Rightarrow> string) \<Rightarrow> 's deletion_ports \<Rightarrow> tenant_scope \<Rightarrow> deletion_job \<Rightarrow> replica_location \<Rightarrow>
   ('s, deletion_receipt list) svc" where
  "unsupported_receipt sha ports scope job replica =
     bindS (dp_uuid4 ports) (\<lambda>receipt_id.
     bindS (dp_now ports) (\<lambda>attempted_at.
     let unsupported =
       \<lparr>dr_receipt_id = receipt_id, dr_deletion_job_id = dj_deletion_job_id job,
        dr_replica_id = rl_replica_id replica, dr_tenant_id = sc_tenant_id scope,
        dr_data_domain_id = sc_data_domain_id scope, dr_adapter_name = rl_adapter_name replica,
        dr_outcome = RO_UNSUPPORTED, dr_attempted_at = attempted_at, dr_completed_at = None,
        dr_evidence_hash = sha ''adapter-unavailable'', dr_adapter_signature = ''UNVERIFIED'',
        dr_verified = False, dr_stable_error_code = Some ''DELETION_ADAPTER_UNAVAILABLE'',
        dr_retry_after = None\<rparr>
     in bindS (dp_append_receipt ports scope unsupported) (\<lambda>_. ret [unsupported])))"

text \<open>
  One turn of the loop over the replicas: the receipt it appends, if any. A replica with a
  completed receipt is skipped; one whose adapter is missing or does not support its kind gets
  an unsupported receipt; any other is deleted through its adapter and its receipt verified.
\<close>

definition dispatch_replica ::
  "(string \<Rightarrow> string) \<Rightarrow> 's deletion_ports \<Rightarrow> tenant_scope \<Rightarrow> deletion_job \<Rightarrow> nat \<Rightarrow>
   (uuid, deletion_receipt) dict \<Rightarrow> replica_location \<Rightarrow> ('s, deletion_receipt list) svc" where
  "dispatch_replica sha ports scope job attempt existing_by_replica replica =
     (if (case dict_get existing_by_replica (rl_replica_id replica) of
            None \<Rightarrow> False | Some prior \<Rightarrow> satisfies_completion prior)
      then ret []
      else
        case dict_get (dp_adapters ports) (rl_adapter_name replica) of
          Some adapter \<Rightarrow>
            if rl_kind replica \<in> set (ra_supported_kinds adapter)
            then
              bindS (dp_uuid4 ports) (\<lambda>command_id.
              bindS (dp_now ports) (\<lambda>issued_at.
              bindS (dp_now ports) (\<lambda>t.
              let command =
                \<lparr>dc_command_id = command_id, dc_deletion_job_id = dj_deletion_job_id job,
                 dc_replica = replica, dc_issued_at = issued_at,
                 dc_deadline_at = t + int (rl_deletion_sla_seconds replica) * 1000000,
                 dc_attempt = attempt,
                 dc_idempotency_key =
                   uuid_str (dj_deletion_job_id job) @ '':'' @ uuid_str (rl_replica_id replica)\<rparr>
              in
              bindS (ra_delete adapter scope command) (\<lambda>raw_receipt.
              bindS (checkS (receipt_bound scope job replica raw_receipt)
                       (BiaiceError ''DELETION_RECEIPT_INVALID'')) (\<lambda>_.
              bindS (dp_verify ports scope command raw_receipt) (\<lambda>receipt.
              bindS (checkS (receipt_bound scope job replica receipt)
                       (BiaiceError ''DELETION_RECEIPT_INVALID'')) (\<lambda>_.
              bindS (dp_append_receipt ports scope receipt) (\<lambda>_.
              ret [receipt]))))))))
            else unsupported_receipt sha ports scope job replica
        | None \<Rightarrow> unsupported_receipt sha ports scope job replica)"

text \<open>
  The end of \<open>run_once\<close>: the latest receipt of each replica decides between waiting,
  escalation and completion.
\<close>

definition finish_run ::
  "(string \<Rightarrow> string) \<Rightarrow> 's deletion_ports \<Rightarrow> tenant_scope \<Rightarrow> deletion_job \<Rightarrow> deletion_receipt list \<Rightarrow>
   ('s, deletion_job) svc" where
  "finish_run sha ports scope attempted all_receipts =
     (let latest_by_replica = dict_of dr_replica_id id all_receipts;
          latest = dict_values latest_by_replica;
          successful_ids = set (map fst (filter (\<lambda>(i, r). satisfies_completion r) latest_by_replica))
      in if \<not> dj_required_replica_ids attempted \<subseteq> successful_ids
         then
           let failed = (\<exists>r \<in> set latest. dr_outcome r \<in> {RO_FAILED_TERMINAL, RO_UNSUPPORTED});
               waiting = attempted\<lparr>dj_state := (if failed then DJ_ESCALATED else DJ_PARTIALLY_FAILED),
                                   dj_receipts := latest\<rparr>
           in bindS (dp_save_job ports scope waiting) (\<lambda>_. ret waiting)
         else
           bindS (dp_now ports) (\<lambda>completed_at.
           bindS (dp_uuid4 ports) (\<lambda>tombstone_id.
           let target = dj_target attempted;
               tombstone =
                 \<lparr>ts_tombstone_id = tombstone_id, ts_tenant_id = sc_tenant_id scope,
                  ts_data_domain_id = sc_data_domain_id scope,
                  ts_deleted_object_type = so_object_type target,
                  ts_deleted_object_id = so_object_id target,
                  ts_deleted_version_id = so_version_id target,
                  ts_deletion_job_id = dj_deletion_job_id attempted,
                  ts_deleted_at = completed_at,
                  ts_reason_code = dj_reason_code attempted,
                  ts_minimal_reference_hash =
                    sha (so_object_type target @ '':'' @ uuid_str (so_object_id target) @ '':'' @
                         (case so_version_id target of None \<Rightarrow> [] | Some v \<Rightarrow> uuid_str v))\<rparr>;
               completed = attempted\<lparr>dj_state := DJ_COMPLETED, dj_receipts := latest,
                                     dj_completed_at := Some completed_at,
                                     dj_tombstone_id := Some tombstone_id\<rparr>
           in bindS (checkS (completion_is_evidence_bound completed) ValidationError) (\<lambda>_.
              bindS (dp_complete ports scope completed tombstone) (\<lambda>_. ret completed)))))"

text \<open>The part of \<open>run_once\<close> reached when no legal hold is active.\<close>

definition required_ids :: "replica_location list \<Rightarrow> uuid set" where
  "required_ids replicas = set (map rl_replica_id (filter rl_required_for_completion replicas))"

definition dispatch_all ::
  "(string \<Rightarrow> string) \<Rightarrow> 's deletion_ports \<Rightarrow> tenant_scope \<Rightarrow> deletion_job \<Rightarrow> ('s, deletion_job) svc" where
  "dispatch_all sha ports scope job =
     bindS (dp_list_replicas ports scope (dj_target job)) (\<lambda>replicas.
     let required_replica_ids = required_ids replicas in
     if required_replica_ids = {} then
       let escalated = job\<lparr>dj_state := DJ_ESCALATED, dj_legal_hold_count := 0,
                           dj_attempt := dj_attempt job + 1\<rparr>
       in bindS (dp_save_job ports scope escalated) (\<lambda>_. ret escalated)
     else
       let existing_by_replica = dict_of dr_replica_id id (dj_receipts job);
           attempted = job\<lparr>dj_state := DJ_DISPATCHING,
                           dj_required_replica_ids := required_replica_ids,
                           dj_legal_hold_count := 0, dj_attempt := dj_attempt job + 1\<rparr>
       in bindS (dp_save_job ports scope attempted) (\<lambda>_.
          bindS (forS replicas (dispatch_replica sha ports scope job (dj_attempt attempted) existing_by_replica)) (\<lambda>new.
          finish_run sha ports scope attempted (dj_receipts job @ concat new))))"

lemma required_ids_simps [simp]:
  "required_ids [] = {}"
  "required_ids (x # xs) = (if rl_required_for_completion x then insert (rl_replica_id x) (required_ids xs) else required_ids xs)"
  by (simp_all add: required_ids_def)

text \<open>\<open>DeletionCoordinator.run_once\<close> on the locked job, and as a whole.\<close>

definition run_locked ::
  "(string \<Rightarrow> string) \<Rightarrow> 's deletion_ports \<Rightarrow> tenant_scope \<Rightarrow> deletion_job \<Rightarrow> ('s, deletion_job) svc" where
  "run_locked sha ports scope job =
     (let target = dj_target job in
      bindS (liftE (assert_allows scope (so_tenant_id target) (so_data_domain_id target)
               (so_project_id target) (so_decision_unit_id target))) (\<lambda>_.
      if dj_state job = DJ_COMPLETED then ret job
      else if dj_logical_access_blocked_at job = None then throw RuntimeError
      else
        bindS (dp_list_active_holds ports scope target) (\<lambda>holds.
        if holds \<noteq> [] then
          let blocked = job\<lparr>dj_state := DJ_WAITING_FOR_HOLD_RELEASE, dj_legal_hold_count := length holds\<rparr>
          in bindS (dp_save_job ports scope blocked) (\<lambda>_. ret blocked)
        else dispatch_all sha ports scope job)))"

definition run_once ::
  "(string \<Rightarrow> string) \<Rightarrow> 's deletion_ports \<Rightarrow> tenant_scope \<Rightarrow> uuid \<Rightarrow> ('s, deletion_job) svc" where
  "run_once sha ports scope deletion_job_id =
     bindS (dp_lock_job ports scope deletion_job_id) (\<lambda>found.
     case found of None \<Rightarrow> throw (BiaiceError ''RESOURCE_NOT_FOUND'')
     | Some job \<Rightarrow> run_locked sha ports scope job)"

section \<open>Safety for every environment\<close>

lemma dispatch_replica_bound:
  assumes "dispatch_replica sha ports scope job n existing replica s = (Inr rs, t)"
  shows "\<forall>r \<in> set rs. receipt_bound scope job replica r"
  using assms
  unfolding dispatch_replica_def unsupported_receipt_def
  by (auto simp: bindS_Inr checkS_def Let_def receipt_bound_def
      split: if_splits option.splits)

lemma finish_run_completed:
  assumes "finish_run sha ports scope attempted receipts s = (Inr job', t)"
    and "dj_state job' = DJ_COMPLETED"
  shows "dj_target job' = dj_target attempted \<and>
    dj_required_replica_ids job' = dj_required_replica_ids attempted \<and>
    set (dj_receipts job') \<subseteq> set receipts \<and>
    (\<forall>i \<in> dj_required_replica_ids job'. \<exists>r \<in> set (dj_receipts job'). dr_replica_id r = i \<and> satisfies_completion r) \<and>
    dj_completed_at job' \<noteq> None \<and> dj_tombstone_id job' \<noteq> None \<and> completion_is_evidence_bound job'"
proof -
  let ?d = "dict_of dr_replica_id id receipts"
  have mem: "dr_replica_id r = i \<and> r \<in> set receipts" if "(i, r) \<in> set ?d" for i r
    using dict_of_memD [OF that] by auto
  from assms have ok: "dj_required_replica_ids attempted \<subseteq> set (map fst (filter (\<lambda>(i, r). satisfies_completion r) ?d))"
    and eq: "dj_target job' = dj_target attempted" "dj_required_replica_ids job' = dj_required_replica_ids attempted"
      "dj_receipts job' = dict_values ?d" "dj_completed_at job' \<noteq> None" "dj_tombstone_id job' \<noteq> None"
      "completion_is_evidence_bound job'"
    unfolding finish_run_def
    by (auto simp: bindS_Inr checkS_def Let_def split: if_splits)
  have "\<exists>r \<in> set (dj_receipts job'). dr_replica_id r = i \<and> satisfies_completion r"
    if "i \<in> dj_required_replica_ids job'" for i
  proof -
    from that ok eq obtain r where "(i, r) \<in> set ?d" "satisfies_completion r" by auto
    with mem eq(3) show ?thesis by (force simp: dict_values_def)
  qed
  moreover have "set (dj_receipts job') \<subseteq> set receipts"
    using mem eq(3) by (auto simp: dict_values_def)
  ultimately show ?thesis using eq by simp
qed

lemma dispatch_all_completed:
  assumes run: "dispatch_all sha ports scope job s2 = (Inr job', t)" and fin: "dj_state job' = DJ_COMPLETED"
  shows "\<exists>s3 replicas. dp_list_replicas ports scope (dj_target job) s2 = (Inr replicas, s3) \<and>
       dj_required_replica_ids job' = required_ids replicas \<and>
       dj_required_replica_ids job' \<noteq> {} \<and>
       (\<forall>i \<in> dj_required_replica_ids job'. \<exists>r \<in> set (dj_receipts job'). dr_replica_id r = i \<and> satisfies_completion r) \<and>
       (\<forall>r \<in> set (dj_receipts job'). r \<in> set (dj_receipts job) \<or>
          (\<exists>replica \<in> set replicas. receipt_bound scope job replica r)) \<and>
       dj_completed_at job' \<noteq> None \<and> dj_tombstone_id job' \<noteq> None"
proof -
  define attempted where "attempted replicas = job\<lparr>dj_state := DJ_DISPATCHING,
      dj_required_replica_ids := required_ids replicas, dj_legal_hold_count := 0,
      dj_attempt := dj_attempt job + 1\<rparr>" for replicas
  from run obtain replicas s3 where reps: "dp_list_replicas ports scope (dj_target job) s2 = (Inr replicas, s3)"
    by (auto simp: dispatch_all_def bindS_Inr)
  have ne: "required_ids replicas \<noteq> {}"
    using run fin reps by (auto simp: dispatch_all_def bindS_Inr Let_def)
  from run reps ne obtain s4 s5 new where
    loop: "forS replicas (dispatch_replica sha ports scope job (dj_attempt (attempted replicas))
        (dict_of dr_replica_id id (dj_receipts job))) s4 = (Inr new, s5)"
    and last: "finish_run sha ports scope (attempted replicas) (dj_receipts job @ concat new) s5 = (Inr job', t)"
    by (auto simp: dispatch_all_def bindS_Inr Let_def attempted_def)
  have "\<forall>rs \<in> set new. \<forall>r \<in> set rs. \<exists>replica \<in> set replicas. receipt_bound scope job replica r"
    using loop by (rule forS_Inr_all) (blast dest: dispatch_replica_bound)
  moreover have "dj_required_replica_ids job' = required_ids replicas"
    using finish_run_completed [OF last fin] by (simp add: attempted_def)
  ultimately show ?thesis
    using finish_run_completed [OF last fin] reps ne by (auto dest!: subsetD)
qed

text \<open>
  C1. Deletion never completes without evidence, whatever the repository, the adapters and the
  verifier do: if a run turns a job that was not complete into a completed one, the caller's
  scope covers the target, access had been blocked, the repository listed no active hold, the
  set of required replicas is not empty, and every required replica has, among the receipts of
  the job, a successful, verified, timed receipt; receipts gathered by this run are bound to the
  job, the tenant, the domain and a listed replica.
\<close>

theorem deletion_completes_only_with_evidence:
  assumes lock: "dp_lock_job ports scope jid s = (Inr (Some job), s1)"
    and run: "run_once sha ports scope jid s = (Inr job', t)"
    and open_before: "dj_state job \<noteq> DJ_COMPLETED" and now_complete: "dj_state job' = DJ_COMPLETED"
  shows "scope_covers scope (so_tenant_id (dj_target job)) (so_data_domain_id (dj_target job))
      (so_project_id (dj_target job)) (so_decision_unit_id (dj_target job)) \<and>
    dj_logical_access_blocked_at job \<noteq> None \<and>
    (\<exists>s2 s3 replicas. dp_list_active_holds ports scope (dj_target job) s1 = (Inr [], s2) \<and>
       dp_list_replicas ports scope (dj_target job) s2 = (Inr replicas, s3) \<and>
       dj_required_replica_ids job' = required_ids replicas \<and>
       dj_required_replica_ids job' \<noteq> {} \<and>
       (\<forall>i \<in> dj_required_replica_ids job'. \<exists>r \<in> set (dj_receipts job'). dr_replica_id r = i \<and> satisfies_completion r) \<and>
       (\<forall>r \<in> set (dj_receipts job'). r \<in> set (dj_receipts job) \<or>
          (\<exists>replica \<in> set replicas. receipt_bound scope job replica r))) \<and>
    dj_completed_at job' \<noteq> None \<and> dj_tombstone_id job' \<noteq> None"
proof -
  from run lock have r: "run_locked sha ports scope job s1 = (Inr job', t)"
    by (simp add: run_once_def bindS_apply)
  then have cov: "scope_covers scope (so_tenant_id (dj_target job)) (so_data_domain_id (dj_target job))
      (so_project_id (dj_target job)) (so_decision_unit_id (dj_target job))"
    by (auto simp: run_locked_def bindS_Inr Let_def)
  from r open_before have blocked: "dj_logical_access_blocked_at job \<noteq> None"
    by (auto simp: run_locked_def bindS_Inr Let_def split: if_splits)
  from r open_before now_complete blocked obtain s2 where
    holds: "dp_list_active_holds ports scope (dj_target job) s1 = (Inr [], s2)"
    and d: "dispatch_all sha ports scope job s2 = (Inr job', t)"
    by (auto simp: run_locked_def bindS_Inr Let_def split: if_splits)
  from cov blocked holds dispatch_all_completed [OF d now_complete] show ?thesis by blast
qed

section \<open>The environment as an interface\<close>

text \<open>
  What the coordinator relies on: the repository holds one job, locking reads it, saving and
  completing replace it, and nothing else touches it; in particular an adapter returns a receipt
  and never changes the job.
\<close>

definition on_job :: "('s \<Rightarrow> deletion_job option) \<Rightarrow> (deletion_job option \<Rightarrow> bool) \<Rightarrow> 's \<Rightarrow> bool" where
  "on_job stored Q s \<longleftrightarrow> Q (stored s)"

locale deletion_environment =
  fixes ports :: "'s deletion_ports" and stored :: "'s \<Rightarrow> deletion_job option"
  assumes lock_reads: "dp_lock_job ports scope jid s = (Inr found, t) \<Longrightarrow> found = stored s"
    and lock_keeps: "snd (dp_lock_job ports scope jid s) = s"
    and save_stores: "dp_save_job ports scope job s = (Inr (), t) \<Longrightarrow> stored t = Some job"
    and save_fails: "dp_save_job ports scope job s = (Inl e, t) \<Longrightarrow> stored t = stored s"
    and complete_stores: "dp_complete ports scope job ts s = (Inr (), t) \<Longrightarrow> stored t = Some job"
    and complete_fails: "dp_complete ports scope job ts s = (Inl e, t) \<Longrightarrow> stored t = stored s"
    and replicas_keep: "stored (snd (dp_list_replicas ports scope target s)) = stored s"
    and holds_keep: "stored (snd (dp_list_active_holds ports scope target s)) = stored s"
    and receipt_keeps: "stored (snd (dp_append_receipt ports scope r s)) = stored s"
    and verify_keeps: "stored (snd (dp_verify ports scope c r s)) = stored s"
    and now_keeps: "stored (snd (dp_now ports s)) = stored s"
    and uuid4_keeps: "stored (snd (dp_uuid4 ports s)) = stored s"
    and adapters_keep: "adapter \<in> snd ` set (dp_adapters ports) \<Longrightarrow> stored (snd (ra_delete adapter scope c s)) = stored s"
begin

text \<open>A property of the stored job is kept by every port, and by a save of a job that has it.\<close>

lemma port_preserves:
  "preserves (on_job stored Q) (dp_list_replicas ports scope target)"
  "preserves (on_job stored Q) (dp_list_active_holds ports scope target)"
  "preserves (on_job stored Q) (dp_append_receipt ports scope r)"
  "preserves (on_job stored Q) (dp_verify ports scope c r)"
  "preserves (on_job stored Q) (dp_now ports)"
  "preserves (on_job stored Q) (dp_uuid4 ports)"
  by (simp_all add: preserves_def on_job_def replicas_keep holds_keep receipt_keeps verify_keeps now_keeps uuid4_keeps)

lemma save_preserves: "Q (Some job) \<Longrightarrow> preserves (on_job stored Q) (dp_save_job ports scope job)"
proof (rule preservesI)
  fix s assume "Q (Some job)" "on_job stored Q s"
  then show "on_job stored Q (snd (dp_save_job ports scope job s))"
    using save_stores [of scope job s] save_fails [of scope job s]
    by (cases "dp_save_job ports scope job s"; cases "fst (dp_save_job ports scope job s)") (auto simp: on_job_def)
qed

lemma complete_preserves: "Q (Some job) \<Longrightarrow> preserves (on_job stored Q) (dp_complete ports scope job ts)"
proof (rule preservesI)
  fix s assume "Q (Some job)" "on_job stored Q s"
  then show "on_job stored Q (snd (dp_complete ports scope job ts s))"
    using complete_stores [of scope job ts s] complete_fails [of scope job ts s]
    by (cases "dp_complete ports scope job ts s"; cases "fst (dp_complete ports scope job ts s)") (auto simp: on_job_def)
qed

lemma adapter_preserves:
  "dict_get (dp_adapters ports) name = Some adapter \<Longrightarrow>
   preserves (on_job stored Q) (ra_delete adapter scope c)"
  using adapters_keep by (force simp: preserves_def on_job_def dest: map_of_SomeD)

lemma dispatch_preserves:
  "preserves (on_job stored Q) (dispatch_replica sha ports scope job n existing replica)"
  unfolding dispatch_replica_def unsupported_receipt_def Let_def
  by (auto intro!: preserves_bindS port_preserves adapter_preserves split: option.splits)

lemma lock_preserves: "preserves (on_job stored Q) (dp_lock_job ports scope jid)"
  by (simp add: preserves_def on_job_def lock_keeps)

lemma finish_preserves:
  assumes "dj_state attempted \<noteq> DJ_COMPLETED"
    and "\<And>job. completion_is_evidence_bound job \<Longrightarrow> Q (Some job)"
  shows "preserves (on_job stored Q) (finish_run sha ports scope attempted receipts)"
  unfolding finish_run_def Let_def
  by (intro preserves_bindS preserves_check port_preserves save_preserves complete_preserves assms
      preserves_if preserves_ret) (simp_all add: completion_is_evidence_bound_def [of "attempted\<lparr>dj_state := DJ_ESCALATED, dj_receipts := x\<rparr>" for x]
        completion_is_evidence_bound_def [of "attempted\<lparr>dj_state := DJ_PARTIALLY_FAILED, dj_receipts := x\<rparr>" for x] completion_is_evidence_bound_def)

text \<open>
  Every property that holds of all evidence-bound jobs holds of the stored job after a run,
  whatever the outcome of the run, if it held before.
\<close>

lemma dispatch_all_preserves:
  assumes Q: "\<And>job. completion_is_evidence_bound job \<Longrightarrow> Q (Some job)"
  shows "preserves (on_job stored Q) (dispatch_all sha ports scope job)"
proof -
  have open_job: "Q (Some job)" if "dj_state job \<noteq> DJ_COMPLETED" for job
    using Q that by (simp add: completion_is_evidence_bound_def)
  show ?thesis
    unfolding dispatch_all_def Let_def
    by (intro preserves_bindS preserves_forS port_preserves save_preserves dispatch_preserves
        finish_preserves Q open_job preserves_if preserves_ret) simp_all
qed

lemma run_once_preserves:
  assumes Q: "\<And>job. completion_is_evidence_bound job \<Longrightarrow> Q (Some job)"
  shows "preserves (on_job stored Q) (run_once sha ports scope jid)"
proof -
  have open_job: "Q (Some job)" if "dj_state job \<noteq> DJ_COMPLETED" for job
    using Q that by (simp add: completion_is_evidence_bound_def)
  have locked: "preserves (on_job stored Q) (run_locked sha ports scope job)" for job
    unfolding run_locked_def Let_def
    by (intro preserves_bindS port_preserves save_preserves dispatch_all_preserves Q open_job
        preserves_if preserves_ret preserves_liftE preserves_throw) simp_all
  show ?thesis
    unfolding run_once_def
    by (intro preserves_bindS lock_preserves preserves_case_option preserves_throw locked)
qed

text \<open>A run that returns a job has stored it.\<close>

lemma finish_stores: "finish_run sha ports scope attempted receipts s = (Inr job', t) \<Longrightarrow> stored t = Some job'"
  unfolding finish_run_def Let_def
  by (auto simp: bindS_Inr checkS_apply dest: save_stores complete_stores split: if_splits)

lemma dispatch_stores: "dispatch_all sha ports scope job s = (Inr job', t) \<Longrightarrow> stored t = Some job'"
  unfolding dispatch_all_def Let_def
  by (auto simp: bindS_Inr dest: save_stores finish_stores split: if_splits)

lemma run_once_stores:
  assumes "run_once sha ports scope jid s = (Inr job', t)"
  shows "stored t = Some job'"
proof -
  from assms obtain job s1 where lock: "dp_lock_job ports scope jid s = (Inr (Some job), s1)"
    and run: "run_locked sha ports scope job s1 = (Inr job', t)"
    unfolding run_once_def by (auto simp: bindS_Inr split: option.splits)
  from lock have "stored s1 = Some job"
    using lock_keeps [of scope jid s] lock_reads [of scope jid s] by auto
  with run show ?thesis
    unfolding run_locked_def Let_def
    by (auto simp: bindS_Inr dest: save_stores dispatch_stores split: if_splits)
qed

text \<open>A completed job is final: a later run returns it unchanged or refuses.\<close>

lemma run_once_completed:
  assumes "stored s = Some job" and "dj_state job = DJ_COMPLETED"
  shows "snd (run_once sha ports scope jid s) = s"
    and "fst (run_once sha ports scope jid s) = Inr job' \<Longrightarrow> job' = job"
  using assms lock_reads [of scope jid s] lock_keeps [of scope jid s]
  unfolding run_once_def run_locked_def Let_def
  by (cases "dp_lock_job ports scope jid s"; auto simp: bindS_apply split: sum.splits option.splits)+

end

section \<open>The in-memory environment\<close>

text \<open>
  \<open>FakeRepository\<close>, \<open>Adapter\<close>, \<open>Verifier\<close> and \<open>FixedClock\<close> of
  \<open>tests/security/test_deletion.py\<close>; identifiers are taken from a counter.
\<close>

record fake_repository =
  fr_replicas :: "replica_location list"
  fr_holds :: "legal_hold list"
  fr_job :: "deletion_job option"
  fr_receipts :: "deletion_receipt list"
  fr_tombstone :: "tombstone_record option"
  fr_completed_event_count :: nat
  fr_next_uuid :: uuid

definition fake_uuid4 :: "(fake_repository, uuid) svc" where
  "fake_uuid4 = (\<lambda>s. (Inr (fr_next_uuid s), s\<lparr>fr_next_uuid := fr_next_uuid s + 1\<rparr>))"

definition fake_create_and_block ::
  "timestamp \<Rightarrow> tenant_scope \<Rightarrow> scoped_object_ref \<Rightarrow> uuid \<Rightarrow> string \<Rightarrow> string \<Rightarrow> (fake_repository, deletion_job) svc" where
  "fake_create_and_block now scope target requested_by reason_code idempotency_key = (\<lambda>s.
     case fr_job s of
       Some job \<Rightarrow> (Inr job, s)
     | None \<Rightarrow>
         let job = \<lparr>dj_deletion_job_id = fr_next_uuid s, dj_target = target,
                    dj_state = DJ_LOGICAL_ACCESS_BLOCKED, dj_reason_code = reason_code,
                    dj_requested_by = requested_by, dj_requested_at = now,
                    dj_idempotency_key = idempotency_key, dj_logical_access_blocked_at = Some now,
                    dj_required_replica_ids = {}, dj_receipts = [], dj_legal_hold_count = 0,
                    dj_attempt = 0, dj_completed_at = None, dj_tombstone_id = None\<rparr>
         in (Inr job, s\<lparr>fr_job := Some job, fr_next_uuid := fr_next_uuid s + 1\<rparr>))"

definition fake_lock_job :: "tenant_scope \<Rightarrow> uuid \<Rightarrow> (fake_repository, deletion_job option) svc" where
  "fake_lock_job scope jid = (\<lambda>s.
     case fr_job s of
       None \<Rightarrow> (Inr None, s)
     | Some job \<Rightarrow> if dj_deletion_job_id job = jid then (Inr (Some job), s) else (Inl AssertionError, s))"

definition fake_complete :: "tenant_scope \<Rightarrow> deletion_job \<Rightarrow> tombstone_record \<Rightarrow> (fake_repository, unit) svc" where
  "fake_complete scope job tombstone = (\<lambda>s.
     if dj_state job = DJ_COMPLETED
     then (Inr (), s\<lparr>fr_job := Some job, fr_tombstone := Some tombstone,
                     fr_completed_event_count := fr_completed_event_count s + 1\<rparr>)
     else (Inl AssertionError, s))"

definition outcome_value :: "receipt_outcome \<Rightarrow> string" where
  "outcome_value outcome = (case outcome of RO_SUCCEEDED \<Rightarrow> ''SUCCEEDED''
     | RO_FAILED_RETRYABLE \<Rightarrow> ''FAILED_RETRYABLE'' | RO_FAILED_TERMINAL \<Rightarrow> ''FAILED_TERMINAL''
     | RO_UNSUPPORTED \<Rightarrow> ''UNSUPPORTED'')"

definition fake_adapter ::
  "(string \<Rightarrow> string) \<Rightarrow> timestamp \<Rightarrow> string \<Rightarrow> replica_kind \<Rightarrow> receipt_outcome \<Rightarrow> fake_repository replica_adapter" where
  "fake_adapter sha now name kind outcome =
     \<lparr>ra_supported_kinds = [kind],
      ra_delete = (\<lambda>scope command.
        bindS fake_uuid4 (\<lambda>receipt_id.
        ret \<lparr>dr_receipt_id = receipt_id, dr_deletion_job_id = dc_deletion_job_id command,
             dr_replica_id = rl_replica_id (dc_replica command), dr_tenant_id = sc_tenant_id scope,
             dr_data_domain_id = sc_data_domain_id scope, dr_adapter_name = name,
             dr_outcome = outcome, dr_attempted_at = now,
             dr_completed_at = (if outcome = RO_SUCCEEDED then Some now else None),
             dr_evidence_hash = sha (name @ '':'' @ outcome_value outcome),
             dr_adapter_signature = ''test-signature'', dr_verified = False,
             dr_stable_error_code = (if outcome = RO_SUCCEEDED then None else Some ''TEST_FAILURE''),
             dr_retry_after = None\<rparr>))\<rparr>"

definition fake_ports ::
  "(string \<Rightarrow> string) \<Rightarrow> timestamp \<Rightarrow> (string \<times> replica_kind \<times> receipt_outcome) list \<Rightarrow> fake_repository deletion_ports" where
  "fake_ports sha now adapters =
     \<lparr>dp_create_and_block = fake_create_and_block now,
      dp_lock_job = fake_lock_job,
      dp_save_job = (\<lambda>scope job. modify (fr_job_update (\<lambda>_. Some job))),
      dp_list_replicas = (\<lambda>scope target. gets fr_replicas),
      dp_list_active_holds = (\<lambda>scope target. gets fr_holds),
      dp_append_receipt = (\<lambda>scope r. modify (\<lambda>s. s\<lparr>fr_receipts := fr_receipts s @ [r]\<rparr>)),
      dp_complete = fake_complete,
      dp_adapters = dict_of fst (\<lambda>(name, kind, outcome). fake_adapter sha now name kind outcome) adapters,
      dp_verify = (\<lambda>scope command r. ret (r\<lparr>dr_verified := True\<rparr>)),
      dp_now = ret now,
      dp_uuid4 = fake_uuid4\<rparr>"

interpretation in_memory: deletion_environment "fake_ports sha now adapters" fr_job for sha now adapters
proof
  fix adapter :: "fake_repository replica_adapter" and scope c s
  assume "adapter \<in> snd ` set (dp_adapters (fake_ports sha now adapters))"
  then obtain name kind outcome where "adapter = fake_adapter sha now name kind outcome"
    by (auto simp: fake_ports_def dest!: dict_of_memD)
  then show "fr_job (snd (ra_delete adapter scope c s)) = fr_job s"
    by (simp add: fake_adapter_def fake_uuid4_def bindS_def)
qed (auto simp: fake_ports_def fake_lock_job_def fake_complete_def fake_uuid4_def modify_def
    split: option.splits if_splits)

section \<open>Guarantees of the composed system\<close>

text \<open>A repository without a job, a request, and any number of runs by any caller.\<close>

definition fresh_repository :: "replica_location list \<Rightarrow> legal_hold list \<Rightarrow> uuid \<Rightarrow> fake_repository" where
  "fresh_repository replicas holds u =
     \<lparr>fr_replicas = replicas, fr_holds = holds, fr_job = None, fr_receipts = [], fr_tombstone = None,
      fr_completed_event_count = 0, fr_next_uuid = u\<rparr>"

definition run_many ::
  "(string \<Rightarrow> string) \<Rightarrow> fake_repository deletion_ports \<Rightarrow> (tenant_scope \<times> uuid) list \<Rightarrow> fake_repository \<Rightarrow> fake_repository" where
  "run_many sha ports calls s = foldl (\<lambda>s (scope, jid). snd (run_once sha ports scope jid s)) s calls"

definition evidence_bound :: "deletion_job option \<Rightarrow> bool" where
  "evidence_bound found = (case found of None \<Rightarrow> True | Some job \<Rightarrow> completion_is_evidence_bound job)"

lemma run_many_evidence_bound:
  "evidence_bound (fr_job s) \<Longrightarrow> evidence_bound (fr_job (run_many sha (fake_ports sha now adapters) calls s))"
proof (induction calls arbitrary: s)
  case Nil
  then show ?case by (simp add: run_many_def)
next
  case (Cons call calls)
  obtain scope jid where call: "call = (scope, jid)" by (cases call)
  have "preserves (on_job fr_job evidence_bound) (run_once sha (fake_ports sha now adapters) scope jid)"
    by (rule in_memory.run_once_preserves) (simp add: evidence_bound_def)
  then have "evidence_bound (fr_job (snd (run_once sha (fake_ports sha now adapters) scope jid s)))"
    using Cons.prems by (auto simp: on_job_def dest: preservesD)
  from Cons.IH [OF this] show ?case by (simp add: run_many_def call)
qed

text \<open>
  Evidence is an invariant of the composed system: from a repository without a job, after one
  request and any number of runs, with any outcome of the adapters and any active holds, the
  stored job satisfies \<open>completion_is_evidence_bound\<close>.
\<close>

theorem deletion_job_evidence_bound:
  "evidence_bound (fr_job (run_many sha (fake_ports sha now adapters) calls
     (snd (request_deletion (fake_ports sha now adapters) identity target reason key
        (fresh_repository replicas holds u)))))"
proof (rule run_many_evidence_bound)
  show "evidence_bound (fr_job (snd (request_deletion (fake_ports sha now adapters) identity target reason key
      (fresh_repository replicas holds u))))"
    by (auto simp: request_deletion_def fake_ports_def fake_create_and_block_def fresh_repository_def
        evidence_bound_def completion_is_evidence_bound_def bindS_apply Let_def split: sum.split)
qed

text \<open>
  A dispatch in the in-memory environment whose adapter supports the replica and succeeds: one
  verified receipt of that replica, or none when an earlier one already satisfies completion.
\<close>

definition adapter_succeeds :: "(string \<times> replica_kind \<times> receipt_outcome) list \<Rightarrow> replica_location \<Rightarrow> bool" where
  "adapter_succeeds adapters replica \<longleftrightarrow>
     dict_get (dict_of fst id adapters) (rl_adapter_name replica) =
       Some (rl_adapter_name replica, rl_kind replica, RO_SUCCEEDED)"

definition same_but_receipts :: "fake_repository \<Rightarrow> fake_repository \<Rightarrow> bool" where
  "same_but_receipts s t \<longleftrightarrow>
     fr_replicas t = fr_replicas s \<and> fr_holds t = fr_holds s \<and> fr_job t = fr_job s \<and>
     fr_tombstone t = fr_tombstone s \<and> fr_completed_event_count t = fr_completed_event_count s"

lemma fake_adapters_get:
  "dict_get (dp_adapters (fake_ports sha now adapters)) name =
   map_option (\<lambda>(n, kind, outcome). fake_adapter sha now n kind outcome) (dict_get (dict_of fst id adapters) name)"
proof -
  have "dict_get (dict_of fst (\<lambda>(n, kind, outcome). fake_adapter sha now n kind outcome) adapters) name =
     map_option (\<lambda>(n, kind, outcome). fake_adapter sha now n kind outcome) (dict_get (dict_of fst id adapters) name)"
    by (induction adapters rule: rev_induct) (auto simp: dict_of_snoc)
  then show ?thesis by (simp add: fake_ports_def)
qed

lemma dispatch_succeeds:
  assumes "adapter_succeeds adapters replica"
  shows "\<exists>rs t. dispatch_replica sha (fake_ports sha now adapters) scope job n existing replica s = (Inr rs, t) \<and>
    same_but_receipts s t \<and> (\<forall>r \<in> set rs. satisfies_completion r \<and> dr_replica_id r = rl_replica_id replica) \<and>
    (rs = [] \<longrightarrow> (\<exists>prior. dict_get existing (rl_replica_id replica) = Some prior \<and> satisfies_completion prior))"
proof (cases "\<exists>prior. dict_get existing (rl_replica_id replica) = Some prior \<and> satisfies_completion prior")
  case True
  then show ?thesis by (auto simp: dispatch_replica_def same_but_receipts_def)
next
  case False
  then have skip: "(case dict_get existing (rl_replica_id replica) of
      None \<Rightarrow> False | Some prior \<Rightarrow> satisfies_completion prior) = False"
    by (auto split: option.splits)
  have adapter: "dict_get (dp_adapters (fake_ports sha now adapters)) (rl_adapter_name replica) =
      Some (fake_adapter sha now (rl_adapter_name replica) (rl_kind replica) RO_SUCCEEDED)"
    using assms by (simp add: fake_adapters_get adapter_succeeds_def)
  show ?thesis
    unfolding dispatch_replica_def skip adapter
    by (simp add: fake_adapter_def fake_ports_def fake_uuid4_def bindS_apply checkS_apply receipt_bound_def
        satisfies_completion_def same_but_receipts_def)
qed

lemma dispatch_loop_succeeds:
  assumes "\<forall>replica \<in> set replicas. adapter_succeeds adapters replica"
  shows "\<exists>new t. forS replicas (dispatch_replica sha (fake_ports sha now adapters) scope job n existing) s = (Inr new, t) \<and>
    same_but_receipts s t \<and> (\<forall>r \<in> set (concat new). satisfies_completion r) \<and>
    (\<forall>replica \<in> set replicas. rl_replica_id replica \<in> dr_replica_id ` set (concat new) \<or>
       (\<exists>prior. dict_get existing (rl_replica_id replica) = Some prior \<and> satisfies_completion prior))"
  using assms
proof (induction replicas arbitrary: s)
  case Nil
  then show ?case by (simp add: same_but_receipts_def)
next
  case (Cons replica replicas)
  from Cons.prems have "adapter_succeeds adapters replica" by simp
  from dispatch_succeeds [OF this] obtain rs t where
    step: "dispatch_replica sha (fake_ports sha now adapters) scope job n existing replica s = (Inr rs, t)"
      "same_but_receipts s t" "\<forall>r \<in> set rs. satisfies_completion r \<and> dr_replica_id r = rl_replica_id replica"
      "rs = [] \<longrightarrow> (\<exists>prior. dict_get existing (rl_replica_id replica) = Some prior \<and> satisfies_completion prior)"
    by blast
  from Cons.IH [of t] Cons.prems obtain new t' where
    rest: "forS replicas (dispatch_replica sha (fake_ports sha now adapters) scope job n existing) t = (Inr new, t')"
      "same_but_receipts t t'" "\<forall>r \<in> set (concat new). satisfies_completion r"
      "\<forall>replica \<in> set replicas. rl_replica_id replica \<in> dr_replica_id ` set (concat new) \<or>
       (\<exists>prior. dict_get existing (rl_replica_id replica) = Some prior \<and> satisfies_completion prior)"
    by auto
  have "rl_replica_id replica \<in> dr_replica_id ` set rs \<or>
      (\<exists>prior. dict_get existing (rl_replica_id replica) = Some prior \<and> satisfies_completion prior)"
    using step(3,4) by (cases rs) auto
  with step rest show ?case
    by (auto simp: bindS_apply same_but_receipts_def image_Un)
qed

text \<open>
  C2. Deletion completes when it can: in the in-memory environment, if the job is stored, its
  access is blocked and it is not complete, the scope covers the target, no hold is active, some
  replica is required and the adapter of every replica supports it and succeeds, then one run
  returns a completed job, stores it with its tombstone, and publishes one completion.
\<close>

theorem deletion_completes_when_adapters_succeed:
  assumes job: "fr_job s = Some job" "dj_deletion_job_id job = jid" "dj_state job \<noteq> DJ_COMPLETED"
      "dj_logical_access_blocked_at job \<noteq> None"
    and scope: "scope_covers scope (so_tenant_id (dj_target job)) (so_data_domain_id (dj_target job))
      (so_project_id (dj_target job)) (so_decision_unit_id (dj_target job))"
    and free: "fr_holds s = []" and some: "\<exists>replica \<in> set (fr_replicas s). rl_required_for_completion replica"
    and all: "\<forall>replica \<in> set (fr_replicas s). adapter_succeeds adapters replica"
  shows "\<exists>job' t tombstone. run_once sha (fake_ports sha now adapters) scope jid s = (Inr job', t) \<and>
    dj_state job' = DJ_COMPLETED \<and> fr_job t = Some job' \<and> fr_tombstone t = Some tombstone \<and>
    ts_deleted_object_id tombstone = so_object_id (dj_target job) \<and>
    dj_tombstone_id job' = Some (ts_tombstone_id tombstone) \<and>
    fr_completed_event_count t = fr_completed_event_count s + 1"
proof -
  let ?ports = "fake_ports sha now adapters"
  define existing where "existing = dict_of dr_replica_id id (dj_receipts job)"
  define attempted where "attempted = job\<lparr>dj_state := DJ_DISPATCHING,
      dj_required_replica_ids := required_ids (fr_replicas s), dj_legal_hold_count := 0,
      dj_attempt := dj_attempt job + 1\<rparr>"
  define s1 where "s1 = s\<lparr>fr_job := Some attempted\<rparr>"
  obtain new t where
    loop: "forS (fr_replicas s) (dispatch_replica sha ?ports scope job (dj_attempt attempted) existing) s1 = (Inr new, t)"
      "same_but_receipts s1 t" "\<forall>r \<in> set (concat new). satisfies_completion r"
      "\<forall>replica \<in> set (fr_replicas s). rl_replica_id replica \<in> dr_replica_id ` set (concat new) \<or>
       (\<exists>prior. dict_get existing (rl_replica_id replica) = Some prior \<and> satisfies_completion prior)"
    using dispatch_loop_succeeds [OF all] by blast
  let ?latest = "dict_of dr_replica_id id (dj_receipts job @ concat new)"
  have latest: "\<exists>r. dict_get ?latest i = Some r \<and> dr_replica_id r = i \<and> satisfies_completion r"
    if i: "i \<in> required_ids (fr_replicas s)" for i
  proof (cases "dict_get (dict_of dr_replica_id id (concat new)) i")
    case None
    then have fresh: "i \<notin> dr_replica_id ` set (concat new)"
      unfolding dict_of_get_None by blast
    from i obtain replica where "replica \<in> set (fr_replicas s)" "i = rl_replica_id replica"
      by (auto simp: required_ids_def)
    with fresh loop(4) have "\<exists>prior. dict_get existing i = Some prior \<and> satisfies_completion prior"
      by blast
    then obtain prior where prior: "dict_get existing i = Some prior" "satisfies_completion prior" by blast
    then have "dr_replica_id prior = i"
      by (auto simp: existing_def dest!: dict_of_get_SomeD)
    with None prior show ?thesis
      by (simp add: dict_of_get_append existing_def)
  next
    case (Some r)
    with loop(3) show ?thesis
      by (auto simp: dict_of_get_append dest!: dict_of_get_SomeD)
  qed
  then have mem: "\<exists>r. (i, r) \<in> set ?latest \<and> dr_replica_id r = i \<and> satisfies_completion r"
    if "i \<in> required_ids (fr_replicas s)" for i
    using that by (meson map_of_SomeD)
  have succ: "required_ids (fr_replicas s) \<subseteq> set (map fst (filter (\<lambda>(i, r). satisfies_completion r) ?latest))"
    using mem by force
  have sub: "required_ids (fr_replicas s) \<subseteq>
      set (map dr_replica_id (filter satisfies_completion (dict_values ?latest)))"
    using mem by (force simp: dict_values_def)
  have ne: "required_ids (fr_replicas s) \<noteq> {}"
    using some by (auto simp: required_ids_def)
  have run: "run_once sha ?ports scope jid s =
      finish_run sha ?ports scope attempted (dj_receipts job @ concat new) t"
  proof -
    have "dispatch_all sha ?ports scope job s =
        finish_run sha ?ports scope attempted (dj_receipts job @ concat new) t"
      using ne loop(1)
      by (simp add: dispatch_all_def bindS_apply fake_ports_def Let_def attempted_def s1_def existing_def)
    moreover have "assert_allows scope (so_tenant_id (dj_target job)) (so_data_domain_id (dj_target job))
        (so_project_id (dj_target job)) (so_decision_unit_id (dj_target job)) = Inr ()"
      using scope by simp
    moreover have "dp_lock_job ?ports scope jid s = (Inr (Some job), s)"
      "dp_list_active_holds ?ports scope target s = (Inr [], s)" for target
      using job free by (simp_all add: fake_ports_def fake_lock_job_def)
    ultimately show ?thesis
      using job(3,4) scope by (auto simp add: assert_allows_covered run_once_def run_locked_def bindS_apply Let_def)
  qed
  show ?thesis
    unfolding run using succ sub job(4) loop(2)
    by (auto simp: finish_run_def Let_def bindS_apply checkS_apply fake_ports_def fake_uuid4_def fake_complete_def
        attempted_def completion_is_evidence_bound_def same_but_receipts_def s1_def)
qed

section \<open>A concrete run\<close>

definition sample_replica :: replica_location where
  "sample_replica =
     \<lparr>rl_replica_id = 7, rl_target = sample_ref, rl_kind = RK_DATABASE, rl_adapter_name = ''local'',
      rl_adapter_owner = MEMBER_3_LOCAL_REPLICA, rl_locator_hash = ''h'',
      rl_required_for_completion = True, rl_deletion_sla_seconds = 3600, rl_retention_expires_at = None\<rparr>"

definition sample_adapters :: "(string \<times> replica_kind \<times> receipt_outcome) list" where
  "sample_adapters = [(''local'', RK_DATABASE, RO_SUCCEEDED)]"

definition sample_deletion_job :: deletion_job where
  "sample_deletion_job =
     \<lparr>dj_deletion_job_id = 40, dj_target = sample_ref, dj_state = DJ_LOGICAL_ACCESS_BLOCKED,
      dj_reason_code = ''TEST'', dj_requested_by = 1, dj_requested_at = 0, dj_idempotency_key = ''k'',
      dj_logical_access_blocked_at = Some 0, dj_required_replica_ids = {}, dj_receipts = [],
      dj_legal_hold_count = 0, dj_attempt = 0, dj_completed_at = None, dj_tombstone_id = None\<rparr>"

definition sample_repository :: fake_repository where
  "sample_repository = (fresh_repository [sample_replica] [] 41)\<lparr>fr_job := Some sample_deletion_job\<rparr>"

lemmas sample_deletion_defs =
  sample_repository_def sample_deletion_job_def sample_adapters_def sample_replica_def fresh_repository_def

lemma sample_adapter_succeeds: "adapter_succeeds sample_adapters sample_replica"
  by (simp add: adapter_succeeds_def sample_adapters_def sample_replica_def dict_of_def)

lemma sample_covers: "scope_covers sample_scope (so_tenant_id sample_ref) (so_data_domain_id sample_ref)
    (so_project_id sample_ref) (so_decision_unit_id sample_ref)"
  by (simp add: scope_covers_def sample_scope_def sample_ref_def)

theorem deletion_completes_when_adapters_succeed_witness:
  "\<exists>job' t tombstone. run_once sample_sha (fake_ports sample_sha 5 sample_adapters) sample_scope 40 sample_repository = (Inr job', t) \<and>
    dj_state job' = DJ_COMPLETED \<and> fr_job t = Some job' \<and> fr_tombstone t = Some tombstone"
  using deletion_completes_when_adapters_succeed [of sample_repository sample_deletion_job 40 sample_scope
      sample_adapters sample_sha 5] sample_covers sample_adapter_succeeds
  by (auto simp: sample_deletion_defs)

lemma sample_run_completes:
  "\<exists>job' t. run_once sample_sha (fake_ports sample_sha 5 sample_adapters) sample_scope 40 sample_repository = (Inr job', t) \<and>
    dj_state job' = DJ_COMPLETED"
  by (simp add: assert_allows_def sample_scope_def sample_ref_def run_once_def run_locked_def dispatch_all_def finish_run_def dispatch_replica_def
      bindS_apply checkS_apply Let_def fake_ports_def fake_lock_job_def fake_complete_def fake_uuid4_def
      fake_adapter_def receipt_bound_def satisfies_completion_def completion_is_evidence_bound_def
      dict_of_def dict_values_def sample_deletion_defs del: set_filter)

theorem deletion_completes_only_with_evidence_witness:
  "\<exists>job' t. run_once sample_sha (fake_ports sample_sha 5 sample_adapters) sample_scope 40 sample_repository = (Inr job', t) \<and>
    dj_required_replica_ids job' \<noteq> {} \<and>
    (\<forall>i \<in> dj_required_replica_ids job'. \<exists>r \<in> set (dj_receipts job'). dr_replica_id r = i \<and> satisfies_completion r)"
proof -
  obtain job' t where run: "run_once sample_sha (fake_ports sample_sha 5 sample_adapters) sample_scope 40 sample_repository = (Inr job', t)"
    and fin: "dj_state job' = DJ_COMPLETED"
    using sample_run_completes by blast
  have lock: "dp_lock_job (fake_ports sample_sha 5 sample_adapters) sample_scope 40 sample_repository =
      (Inr (Some sample_deletion_job), sample_repository)"
    by (simp add: fake_ports_def fake_lock_job_def sample_deletion_defs)
  from deletion_completes_only_with_evidence [OF lock run _ fin] run show ?thesis
    by (auto simp: sample_deletion_job_def)
qed

end
