(* ===== verification/Gates.thy ===== *)
theory Gates
  imports Auth Canonical_Json
begin

text \<open>
  The machine-verifiable gates of \<open>core/security/gates.py\<close> and the settings of
  \<open>core/config.py\<close> they protect: the evidence a gate requires, the assessment computed from
  the supplied evidence, and the service that refuses every use of a gate whose assessment is
  not a current pass. Each reading of the clock is a separate time argument.
\<close>

section \<open>Models\<close>

datatype gate_name = REAL_DATA_MODE | BYOK_SECRET_GATE
datatype gate_status = GS_PASS | GS_FAIL | GS_UNKNOWN
datatype gate_validity = GV_CURRENT | GV_STALE
datatype evidence_status = ES_PASS | ES_FAIL | ES_UNKNOWN
datatype waiver_policy = WP_PROHIBITED | WP_ALLOWED

definition evidence_status_value :: "evidence_status \<Rightarrow> string" where
  "evidence_status_value st = (case st of ES_PASS \<Rightarrow> ''PASS'' | ES_FAIL \<Rightarrow> ''FAIL'' | ES_UNKNOWN \<Rightarrow> ''UNKNOWN'')"

definition REAL_DATA_REQUIRED_EVIDENCE :: "string list" where
  "REAL_DATA_REQUIRED_EVIDENCE =
     [''trusted_tls_oidc_mfa'', ''all_storage_scope_isolation'', ''encryption_and_key_separation'',
      ''append_only_audit_integrity'', ''secure_file_ingestion'', ''processing_basis_incident_privacy'',
      ''retention_deletion_tombstone_restore'', ''default_deny_egress'', ''security_scans'',
      ''least_privilege_dual_control'', ''backup_and_recovery_drills'', ''frozen_load_profile_and_evidence'']"

definition BYOK_REQUIRED_EVIDENCE :: "string list" where
  "BYOK_REQUIRED_EVIDENCE =
     [''trusted_https_reauth_mfa_csrf'', ''openbao_secure_approles_audit'', ''secret_scope_isolation'',
      ''catalog_egress_network_controls'', ''secret_non_disclosure_scans_restore'',
      ''signed_current_assessment'']"

record gate_evidence =
  ge_evidence_key :: string
  ge_status :: evidence_status
  ge_checked_at :: timestamp
  ge_checker :: string
  ge_evidence_hash :: string
  ge_expires_at :: timestamp

record gate_assessment =
  ga_assessment_id :: uuid
  ga_gate_name :: gate_name
  ga_status :: gate_status
  ga_validity :: gate_validity
  ga_assessed_at :: timestamp
  ga_expires_at :: timestamp
  ga_responsible_party :: string
  ga_evidence :: "gate_evidence list"
  ga_evidence_hash :: string
  ga_waiver_policy :: waiver_policy
  ga_reason_codes :: "string list"

text \<open>The hash pattern and \<open>mandatory_gates_never_allow_waiver\<close>, run by the constructor.\<close>

definition gate_assessment_valid :: "gate_assessment \<Rightarrow> bool" where
  "gate_assessment_valid a \<longleftrightarrow>
     is_hash (ga_evidence_hash a) \<and>
     (ga_gate_name a \<in> {REAL_DATA_MODE, BYOK_SECRET_GATE} \<longrightarrow> ga_waiver_policy a = WP_PROHIBITED)"

definition is_pass_current :: "timestamp \<Rightarrow> gate_assessment \<Rightarrow> bool" where
  "is_pass_current now a \<longleftrightarrow> ga_status a = GS_PASS \<and> ga_validity a = GV_CURRENT \<and> ga_expires_at a > now"

text \<open>\<open>NullGateEvidenceProvider\<close> and \<open>InMemoryGateEvidenceProvider\<close>.\<close>

definition null_provider :: "gate_name \<Rightarrow> gate_assessment option" where
  "null_provider gate = None"

definition in_memory_provider :: "gate_assessment list \<Rightarrow> gate_name \<Rightarrow> gate_assessment option" where
  "in_memory_provider assessments gate = dict_get (dict_of ga_gate_name id assessments) gate"

section \<open>Assessment from evidence\<close>

definition required_evidence :: "gate_name \<Rightarrow> string list" where
  "required_evidence gate =
     (if gate = REAL_DATA_MODE then REAL_DATA_REQUIRED_EVIDENCE else BYOK_REQUIRED_EVIDENCE)"

definition evidence_json :: "(timestamp \<Rightarrow> string) \<Rightarrow> gate_evidence \<Rightarrow> json" where
  "evidence_json isofmt e =
     JObj [(''evidence_key'', JStr (ge_evidence_key e)),
           (''status'', JStr (evidence_status_value (ge_status e))),
           (''checked_at'', JStr (isofmt (ge_checked_at e))),
           (''checker'', JStr (ge_checker e)),
           (''evidence_hash'', JStr (ge_evidence_hash e)),
           (''expires_at'', JStr (isofmt (ge_expires_at e)))]"

text \<open>Required keys whose supplied evidence has a property, in sorted order.\<close>

definition required_where ::
  "gate_name \<Rightarrow> (string, gate_evidence) dict \<Rightarrow> (gate_evidence \<Rightarrow> bool) \<Rightarrow> string list" where
  "required_where gate supplied P =
     sort (filter (\<lambda>key. case dict_get supplied key of None \<Rightarrow> False | Some e \<Rightarrow> P e) (required_evidence gate))"

definition build_machine_assessment ::
  "(string \<Rightarrow> string) \<Rightarrow> (timestamp \<Rightarrow> string) \<Rightarrow> uuid \<Rightarrow> gate_name \<Rightarrow> gate_evidence list \<Rightarrow> string \<Rightarrow>
   timestamp \<Rightarrow> timestamp \<Rightarrow> gate_assessment res" where
  "build_machine_assessment sha isofmt new_id gate evidence responsible_party assessed_at expires_at =
     (let supplied = dict_of ge_evidence_key id evidence;
          missing = sort (filter (\<lambda>key. dict_get supplied key = None) (required_evidence gate));
          failed = required_where gate supplied (\<lambda>e. ge_status e = ES_FAIL);
          unknown = required_where gate supplied (\<lambda>e. ge_status e = ES_UNKNOWN);
          expired = required_where gate supplied (\<lambda>e. ge_expires_at e \<le> assessed_at);
          status = (if failed \<noteq> [] then GS_FAIL
                    else if missing \<noteq> [] \<or> unknown \<noteq> [] \<or> expired \<noteq> [] then GS_UNKNOWN
                    else GS_PASS);
          reasons = map (\<lambda>key. ''MISSING:'' @ key) missing @ map (\<lambda>key. ''FAILED:'' @ key) failed @
                    map (\<lambda>key. ''UNKNOWN:'' @ key) unknown @ map (\<lambda>key. ''EXPIRED:'' @ key) expired;
          canonical = map (evidence_json isofmt) (sort_key ge_evidence_key evidence);
          assessment =
            \<lparr>ga_assessment_id = new_id, ga_gate_name = gate, ga_status = status,
             ga_validity = (if expires_at > assessed_at then GV_CURRENT else GV_STALE),
             ga_assessed_at = assessed_at, ga_expires_at = expires_at,
             ga_responsible_party = responsible_party, ga_evidence = evidence,
             ga_evidence_hash = sha (dumps (JArr canonical)), ga_waiver_policy = WP_PROHIBITED,
             ga_reason_codes = reasons\<rparr>
      in if gate_assessment_valid assessment then Inr assessment else Inl ValidationError)"

section \<open>The gate service\<close>

definition gate_current ::
  "(string \<Rightarrow> string) \<Rightarrow> (gate_name \<Rightarrow> gate_assessment option) \<Rightarrow> timestamp \<Rightarrow> gate_name \<Rightarrow> gate_assessment" where
  "gate_current sha provider now gate =
     (case provider gate of
        Some a \<Rightarrow>
          if ga_expires_at a \<le> now \<and> ga_validity a = GV_CURRENT then a\<lparr>ga_validity := GV_STALE\<rparr> else a
      | None \<Rightarrow>
          \<lparr>ga_assessment_id = 0, ga_gate_name = gate, ga_status = GS_UNKNOWN, ga_validity = GV_STALE,
           ga_assessed_at = now, ga_expires_at = now, ga_responsible_party = ''UNASSIGNED'',
           ga_evidence = [], ga_evidence_hash = sha [], ga_waiver_policy = WP_PROHIBITED,
           ga_reason_codes = [''MACHINE_ASSESSMENT_MISSING'']\<rparr>)"

definition gate_require ::
  "(string \<Rightarrow> string) \<Rightarrow> (gate_name \<Rightarrow> gate_assessment option) \<Rightarrow> timestamp \<times> timestamp \<Rightarrow> gate_name \<Rightarrow> gate_assessment res" where
  "gate_require sha provider clk gate =
     (let assessment = gate_current sha provider (fst clk) gate in
      if \<not> is_pass_current (snd clk) assessment
      then Inl (BiaiceError (if gate = REAL_DATA_MODE then ''REAL_DATA_MODE_REQUIRED''
                             else ''BYOK_SECRET_GATE_REQUIRED''))
      else Inr assessment)"

text \<open>The settings the gates protect, and \<open>Settings.reject_unsafe_profiles\<close>.\<close>

datatype environment = ENV_DEVELOPMENT | ENV_TEST | ENV_CONTRACT | ENV_PRODUCTION
datatype deployment_profile = SYNTHETIC_HTTP | SECURE_HTTPS

record settings =
  st_environment :: environment
  st_deployment_profile :: deployment_profile
  st_clamav_port :: int
  st_allow_test_auth :: bool
  st_real_data_mode_requested :: bool
  st_byok_enabled :: bool

definition reject_unsafe_profiles :: "settings \<Rightarrow> settings res" where
  "reject_unsafe_profiles s =
     (if st_environment s = ENV_PRODUCTION \<and> st_deployment_profile s \<noteq> SECURE_HTTPS then Inl ValidationError
      else if (st_real_data_mode_requested s \<or> st_byok_enabled s) \<and> st_deployment_profile s \<noteq> SECURE_HTTPS
      then Inl ValidationError
      else if st_allow_test_auth s \<and> st_environment s \<noteq> ENV_TEST then Inl ValidationError
      else if \<not> (1 \<le> st_clamav_port s \<and> st_clamav_port s \<le> 65535) then Inl ValidationError
      else Inr s)"

definition assert_startup_allowed ::
  "(string \<Rightarrow> string) \<Rightarrow> (gate_name \<Rightarrow> gate_assessment option) \<Rightarrow> timestamp \<times> timestamp \<Rightarrow> timestamp \<times> timestamp \<Rightarrow>
   settings \<Rightarrow> unit res" where
  "assert_startup_allowed sha provider clk1 clk2 s =
     bindE (if st_real_data_mode_requested s
            then bindE (gate_require sha provider clk1 REAL_DATA_MODE) (\<lambda>_. Inr ()) else Inr ()) (\<lambda>_.
     if st_byok_enabled s
     then bindE (gate_require sha provider clk2 BYOK_SECRET_GATE) (\<lambda>_. Inr ()) else Inr ())"

section \<open>Facts\<close>

lemma sort_eq_Nil [simp]: "sort xs = [] \<longleftrightarrow> xs = []"
  by (metis length_0_conv length_sort)

lemma required_where_Nil:
  "required_where gate supplied P = [] \<longleftrightarrow>
     (\<forall>key \<in> set (required_evidence gate). \<forall>e. dict_get supplied key = Some e \<longrightarrow> \<not> P e)"
  by (auto simp: required_where_def filter_empty_conv split: option.splits)

lemma build_assessment_Inr:
  "digest_ok sha \<Longrightarrow>
   \<exists>a. build_machine_assessment sha isofmt new_id gate evidence party assessed_at expires_at = Inr a \<and>
     ga_expires_at a = expires_at \<and> ga_gate_name a = gate \<and>
     (ga_validity a = GV_CURRENT \<longleftrightarrow> expires_at > assessed_at) \<and>
     (ga_status a = GS_PASS \<longleftrightarrow>
        (\<forall>key \<in> set (required_evidence gate). \<exists>e. dict_get (dict_of ge_evidence_key id evidence) key = Some e \<and>
           ge_status e = ES_PASS \<and> ge_expires_at e > assessed_at))"
proof -
  assume "digest_ok sha"
  define supplied where "supplied = dict_of ge_evidence_key id evidence"
  let ?failed = "required_where gate supplied (\<lambda>e. ge_status e = ES_FAIL)"
  let ?missing = "sort (filter (\<lambda>key. dict_get supplied key = None) (required_evidence gate))"
  let ?unknown = "required_where gate supplied (\<lambda>e. ge_status e = ES_UNKNOWN)"
  let ?expired = "required_where gate supplied (\<lambda>e. ge_expires_at e \<le> assessed_at)"
  let ?good = "\<lambda>key. \<exists>e. dict_get supplied key = Some e \<and> ge_status e = ES_PASS \<and> ge_expires_at e > assessed_at"
  have key: "?good key \<longleftrightarrow> dict_get supplied key \<noteq> None \<and>
      (\<forall>e. dict_get supplied key = Some e \<longrightarrow> ge_status e \<noteq> ES_FAIL) \<and>
      (\<forall>e. dict_get supplied key = Some e \<longrightarrow> ge_status e \<noteq> ES_UNKNOWN) \<and>
      (\<forall>e. dict_get supplied key = Some e \<longrightarrow> \<not> ge_expires_at e \<le> assessed_at)" for key
  proof (cases "dict_get supplied key")
    case (Some e)
    then show ?thesis by (cases "ge_status e") auto
  qed simp
  have pass: "(if f then GS_FAIL else if u then GS_UNKNOWN else GS_PASS) = GS_PASS \<longleftrightarrow> \<not> f \<and> \<not> u" for f u
    by simp
  have "(?failed = [] \<and> ?missing = [] \<and> ?unknown = [] \<and> ?expired = []) \<longleftrightarrow>
      (\<forall>key \<in> set (required_evidence gate). ?good key)"
    unfolding key required_where_Nil sort_eq_Nil filter_empty_conv by blast
  then have status: "(if ?failed \<noteq> [] then GS_FAIL
      else if ?missing \<noteq> [] \<or> ?unknown \<noteq> [] \<or> ?expired \<noteq> [] then GS_UNKNOWN else GS_PASS) = GS_PASS \<longleftrightarrow>
      (\<forall>key \<in> set (required_evidence gate). ?good key)"
    unfolding pass by blast
  from \<open>digest_ok sha\<close> show ?thesis
    unfolding build_machine_assessment_def Let_def supplied_def [symmetric]
    by (simp only: gate_assessment_valid_def gate_assessment.select_convs status digest_okD simp_thms
        if_True sum.inject) simp
qed

text \<open>
  C9. Gate assessment: computing an assessment never fails, and its status is PASS exactly when
  every required key of the gate is supplied and the evidence that counts for it (the last one
  supplied under that key) passed and had not expired when the assessment was made.
\<close>

theorem gate_assessment_pass_iff:
  assumes "digest_ok sha"
  shows "\<exists>a. build_machine_assessment sha isofmt new_id gate evidence party assessed_at expires_at = Inr a \<and>
    (ga_status a = GS_PASS \<longleftrightarrow>
      (\<forall>key \<in> set (required_evidence gate). \<exists>e. dict_get (dict_of ge_evidence_key id evidence) key = Some e \<and>
         ge_status e = ES_PASS \<and> ge_expires_at e > assessed_at))"
  using build_assessment_Inr [OF assms] by blast

theorem gate_assessment_pass_iff_witness:
  "\<exists>a. build_machine_assessment sample_sha print_int 0 BYOK_SECRET_GATE [] ''ops'' 5 9 = Inr a \<and> ga_status a \<noteq> GS_PASS"
proof -
  obtain a where "build_machine_assessment sample_sha print_int 0 BYOK_SECRET_GATE [] ''ops'' 5 9 = Inr a"
    and iff: "ga_status a = GS_PASS \<longleftrightarrow>
      (\<forall>key \<in> set (required_evidence BYOK_SECRET_GATE). \<exists>e. dict_get (dict_of ge_evidence_key id []) key = Some e \<and>
         ge_status e = ES_PASS \<and> ge_expires_at e > (5 :: int))"
    using gate_assessment_pass_iff [of sample_sha print_int 0 BYOK_SECRET_GATE "[]" "''ops''" 5 9] by auto
  moreover have "ga_status a \<noteq> GS_PASS"
    unfolding iff by (auto simp: required_evidence_def BYOK_REQUIRED_EVIDENCE_def)
  ultimately show ?thesis by blast
qed

lemma gate_require_Inr:
  "gate_require sha provider clk gate = Inr a \<longleftrightarrow>
     provider gate = Some a \<and> ga_status a = GS_PASS \<and> ga_validity a = GV_CURRENT \<and>
     ga_expires_at a > fst clk \<and> ga_expires_at a > snd clk"
  by (auto simp: gate_require_def gate_current_def is_pass_current_def Let_def split: option.splits if_splits)

text \<open>
  Fail-closed startup: starting up is allowed exactly when each requested mode (real data,
  bring-your-own-key) has, at its provider, an assessment that passed, is marked current and
  expires after both readings of the clock. Otherwise it raises the gate's own error; without a
  provider no requested mode ever starts.
\<close>

theorem startup_allowed_iff:
  "(assert_startup_allowed sha provider (t1, t2) (t3, t4) s = Inr () \<longleftrightarrow>
     (st_real_data_mode_requested s \<longrightarrow>
        (\<exists>a. provider REAL_DATA_MODE = Some a \<and> ga_status a = GS_PASS \<and> ga_validity a = GV_CURRENT \<and>
             ga_expires_at a > max t1 t2)) \<and>
     (st_byok_enabled s \<longrightarrow>
        (\<exists>a. provider BYOK_SECRET_GATE = Some a \<and> ga_status a = GS_PASS \<and> ga_validity a = GV_CURRENT \<and>
             ga_expires_at a > max t3 t4))) \<and>
   (assert_startup_allowed sha null_provider (t1, t2) (t3, t4) s = Inr () \<longleftrightarrow>
     \<not> st_real_data_mode_requested s \<and> \<not> st_byok_enabled s)"
proof -
  have req: "(\<exists>a. gate_require sha p (u, v) gate = Inr a) \<longleftrightarrow>
      (\<exists>a. p gate = Some a \<and> ga_status a = GS_PASS \<and> ga_validity a = GV_CURRENT \<and> ga_expires_at a > max u v)"
    for p u v gate
    by (simp add: gate_require_Inr conj_assoc)
  have "assert_startup_allowed sha p (t1, t2) (t3, t4) s = Inr () \<longleftrightarrow>
      (st_real_data_mode_requested s \<longrightarrow> (\<exists>a. gate_require sha p (t1, t2) REAL_DATA_MODE = Inr a)) \<and>
      (st_byok_enabled s \<longrightarrow> (\<exists>a. gate_require sha p (t3, t4) BYOK_SECRET_GATE = Inr a))" for p
    by (auto simp: assert_startup_allowed_def bindE_eq_Inr split: if_splits)
  then show ?thesis
    unfolding req by (auto simp: null_provider_def)
qed

theorem startup_allowed_iff_witness:
  "assert_startup_allowed sample_sha null_provider (0, 0) (0, 0)
     \<lparr>st_environment = ENV_TEST, st_deployment_profile = SECURE_HTTPS, st_clamav_port = 3310,
      st_allow_test_auth = False, st_real_data_mode_requested = True, st_byok_enabled = False\<rparr> \<noteq> Inr ()"
  using startup_allowed_iff
    [of sample_sha null_provider 0 0 0 0 "\<lparr>st_environment = ENV_TEST, st_deployment_profile = SECURE_HTTPS,
      st_clamav_port = 3310, st_allow_test_auth = False, st_real_data_mode_requested = True, st_byok_enabled = False\<rparr>"]
  by (simp add: null_provider_def)

text \<open>
  Two limits of the assessment: evidence supplied twice under one key counts by its last copy
  only, so a later pass hides an earlier failure; and an assessment outlives its evidence, since
  only its own expiry is compared with the clock when the gate is used.
\<close>

definition passing_evidence :: "timestamp \<Rightarrow> string \<Rightarrow> gate_evidence" where
  "passing_evidence expiry key =
     \<lparr>ge_evidence_key = key, ge_status = ES_PASS, ge_checked_at = 0, ge_checker = ''scanner'',
      ge_evidence_hash = replicate 64 (CHR ''0''), ge_expires_at = expiry\<rparr>"

definition failing_evidence :: "timestamp \<Rightarrow> string \<Rightarrow> gate_evidence" where
  "failing_evidence expiry key = (passing_evidence expiry key)\<lparr>ge_status := ES_FAIL\<rparr>"

lemma dict_of_passing:
  "key \<in> set keys \<Longrightarrow>
   dict_get (dict_of ge_evidence_key id (xs @ map (passing_evidence expiry) keys)) key = Some (passing_evidence expiry key)"
proof (induction keys rule: rev_induct)
  case Nil
  then show ?case by simp
next
  case (snoc k keys)
  then show ?case
    by (auto simp: dict_of_snoc passing_evidence_def simp flip: append_assoc)
qed

theorem gate_limits:
  assumes "digest_ok sha" and "expiry > assessed_at" and "expires_at > now"
    and "now > assessed_at"
  shows "\<exists>a. build_machine_assessment sha isofmt new_id gate
      (map (failing_evidence expiry) (required_evidence gate) @ map (passing_evidence expiry) (required_evidence gate))
      party assessed_at expires_at = Inr a \<and>
    gate_require sha (in_memory_provider [a]) (now, now) gate = Inr a"
proof -
  obtain a where a: "build_machine_assessment sha isofmt new_id gate
      (map (failing_evidence expiry) (required_evidence gate) @ map (passing_evidence expiry) (required_evidence gate))
      party assessed_at expires_at = Inr a"
    and props: "ga_expires_at a = expires_at" "ga_gate_name a = gate"
      "ga_validity a = GV_CURRENT \<longleftrightarrow> expires_at > assessed_at"
      "ga_status a = GS_PASS \<longleftrightarrow>
        (\<forall>key \<in> set (required_evidence gate). \<exists>e. dict_get (dict_of ge_evidence_key id
           (map (failing_evidence expiry) (required_evidence gate) @ map (passing_evidence expiry) (required_evidence gate))) key = Some e \<and>
           ge_status e = ES_PASS \<and> ge_expires_at e > assessed_at)"
    using build_assessment_Inr [OF assms(1)] by blast
  have "ga_status a = GS_PASS"
    using assms(2) unfolding props(4) by (auto simp: dict_of_passing passing_evidence_def)
  with a props(1-3) assms(3,4) show ?thesis
    by (auto simp: gate_require_Inr in_memory_provider_def dict_of_def)
qed

theorem gate_limits_witness:
  "\<exists>a. build_machine_assessment sample_sha print_int 0 BYOK_SECRET_GATE
      (map (failing_evidence 6) (required_evidence BYOK_SECRET_GATE) @ map (passing_evidence 6) (required_evidence BYOK_SECRET_GATE))
      ''ops'' 5 100 = Inr a \<and>
    gate_require sample_sha (in_memory_provider [a]) (50, 50) BYOK_SECRET_GATE = Inr a"
  using gate_limits [of sample_sha 5 6 50 100 print_int 0 BYOK_SECRET_GATE "''ops''"] by simp

end
