(* ===== verification/Errors.thy ===== *)
theory Errors
  imports Prelude
begin

text \<open>
  The stable error catalogue of \<open>core/errors.py\<close>, the constructor of \<open>BiaiceError\<close>
  and the exception handlers: what status and problem type every exception becomes. Details,
  field problems and the request identifier only travel through and are left out.
\<close>

section \<open>The catalogue\<close>

record error_definition =
  ed_status :: nat
  ed_title :: string
  ed_recoverable :: bool
  ed_remediation :: string

definition error_catalog_1 :: "(string \<times> error_definition) list" where
  "error_catalog_1 =
     [(''AUTH_REQUIRED'', \<lparr>ed_status = 401, ed_title = ''Authentication required'', ed_recoverable = True,
         ed_remediation = ''Sign in and retry.''\<rparr>),
      (''AUTH_NOT_CONFIGURED'', \<lparr>ed_status = 503, ed_title = ''Authentication unavailable'', ed_recoverable = True,
         ed_remediation = ''Configure the approved OIDC verifier.''\<rparr>),
      (''TOKEN_INVALID'', \<lparr>ed_status = 401, ed_title = ''Invalid access token'', ed_recoverable = True,
         ed_remediation = ''Sign in again.''\<rparr>),
      (''MFA_REQUIRED'', \<lparr>ed_status = 403, ed_title = ''Multi-factor authentication required'', ed_recoverable = True,
         ed_remediation = ''Complete MFA and retry.''\<rparr>),
      (''PERMISSION_DENIED'', \<lparr>ed_status = 403, ed_title = ''Permission denied'', ed_recoverable = False,
         ed_remediation = ''Ask a tenant administrator for the required role.''\<rparr>),
      (''TENANT_SCOPE_VIOLATION'', \<lparr>ed_status = 404, ed_title = ''Resource not found'', ed_recoverable = False,
         ed_remediation = ''Use a resource in the authenticated scope.''\<rparr>),
      (''SCOPE_OVERRIDE_FORBIDDEN'', \<lparr>ed_status = 400, ed_title = ''Client scope override is forbidden'', ed_recoverable = False,
         ed_remediation = ''Remove tenant/data-domain scope fields and headers.''\<rparr>),
      (''RESOURCE_NOT_FOUND'', \<lparr>ed_status = 404, ed_title = ''Resource not found'', ed_recoverable = False,
         ed_remediation = ''Check the resource identifier.''\<rparr>),
      (''REQUEST_VALIDATION_FAILED'', \<lparr>ed_status = 422, ed_title = ''Request validation failed'', ed_recoverable = True,
         ed_remediation = ''Correct the listed fields.''\<rparr>),
      (''IDEMPOTENCY_KEY_REQUIRED'', \<lparr>ed_status = 400, ed_title = ''Idempotency key required'', ed_recoverable = True,
         ed_remediation = ''Send a unique Idempotency-Key header.''\<rparr>),
      (''INVALID_IDEMPOTENCY_KEY'', \<lparr>ed_status = 400, ed_title = ''Invalid idempotency key'', ed_recoverable = True,
         ed_remediation = ''Use 16-128 URL-safe ASCII characters.''\<rparr>),
      (''IDEMPOTENCY_CONFLICT'', \<lparr>ed_status = 409, ed_title = ''Idempotency key conflict'', ed_recoverable = False,
         ed_remediation = ''Use the same payload or a new idempotency key.''\<rparr>),
      (''INVALID_STATE_TRANSITION'', \<lparr>ed_status = 409, ed_title = ''Invalid state transition'', ed_recoverable = False,
         ed_remediation = ''Refresh the resource and use an action allowed from its current state.''\<rparr>),
      (''IF_MATCH_REQUIRED'', \<lparr>ed_status = 428, ed_title = ''If-Match required'', ed_recoverable = True,
         ed_remediation = ''Refresh the draft and send its current ETag.''\<rparr>),
      (''ETAG_MISMATCH'', \<lparr>ed_status = 412, ed_title = ''ETag mismatch'', ed_recoverable = True,
         ed_remediation = ''Refresh the draft before retrying.''\<rparr>),
      (''INVALID_CURSOR'', \<lparr>ed_status = 400, ed_title = ''Invalid pagination cursor'', ed_recoverable = True,
         ed_remediation = ''Restart pagination without the cursor.''\<rparr>),
      (''CURSOR_SCOPE_MISMATCH'', \<lparr>ed_status = 400, ed_title = ''Pagination cursor scope mismatch'', ed_recoverable = False,
         ed_remediation = ''Do not reuse cursors across scopes.''\<rparr>),
      (''JOB_NOT_FOUND'', \<lparr>ed_status = 404, ed_title = ''Job not found'', ed_recoverable = False,
         ed_remediation = ''Check the job identifier.''\<rparr>),
      (''JOB_NOT_CANCELLABLE'', \<lparr>ed_status = 409, ed_title = ''Job cannot be cancelled'', ed_recoverable = False,
         ed_remediation = ''Refresh the job state.''\<rparr>),
      (''JOB_NOT_RETRYABLE'', \<lparr>ed_status = 409, ed_title = ''Job cannot be retried'', ed_recoverable = False,
         ed_remediation = ''Resolve the terminal failure or create a new command.''\<rparr>),
      (''JOB_STORE_UNAVAILABLE'', \<lparr>ed_status = 503, ed_title = ''Job store unavailable'', ed_recoverable = True,
         ed_remediation = ''Retry after PostgreSQL recovers.''\<rparr>),
      (''AUDIT_UNAVAILABLE'', \<lparr>ed_status = 503, ed_title = ''Audit writer unavailable'', ed_recoverable = True,
         ed_remediation = ''Retry after audit integrity is restored.''\<rparr>),
      (''AUDIT_INTEGRITY_FAILED'', \<lparr>ed_status = 503, ed_title = ''Audit integrity check failed'', ed_recoverable = False,
         ed_remediation = ''Keep sensitive operations blocked and restore from the independent anchor.''\<rparr>),
      (''DATABASE_UNAVAILABLE'', \<lparr>ed_status = 503, ed_title = ''Database unavailable'', ed_recoverable = True,
         ed_remediation = ''Retry after PostgreSQL recovers.''\<rparr>)]"

definition error_catalog_2 :: "(string \<times> error_definition) list" where
  "error_catalog_2 =
     [(''GATE_ASSESSMENT_NOT_FOUND'', \<lparr>ed_status = 404, ed_title = ''Gate assessment not found'', ed_recoverable = False,
         ed_remediation = ''Run the approved machine assessment.''\<rparr>),
      (''GATE_EVIDENCE_VERIFIER_UNAVAILABLE'', \<lparr>ed_status = 503, ed_title = ''Gate verifier unavailable'', ed_recoverable = True,
         ed_remediation = ''Restore the machine evidence verifier.''\<rparr>),
      (''EGRESS_AUTHORIZATION_UNAVAILABLE'', \<lparr>ed_status = 503, ed_title = ''Provider egress authorization unavailable'', ed_recoverable = True,
         ed_remediation = ''Keep Provider egress disabled until the atomic single-use grant store is bound.''\<rparr>),
      (''GATE_NOT_CURRENT'', \<lparr>ed_status = 503, ed_title = ''Required gate is not current'', ed_recoverable = True,
         ed_remediation = ''Refresh and pass all gate evidence.''\<rparr>),
      (''REAL_DATA_MODE_REQUIRED'', \<lparr>ed_status = 503, ed_title = ''Real-data gate required'', ed_recoverable = True,
         ed_remediation = ''Use synthetic data or pass REAL_DATA_MODE.''\<rparr>),
      (''BYOK_SECRET_GATE_REQUIRED'', \<lparr>ed_status = 503, ed_title = ''BYOK secret gate required'', ed_recoverable = True,
         ed_remediation = ''Pass BYOK_SECRET_GATE before submitting a credential.''\<rparr>),
      (''SECRET_STORE_UNAVAILABLE'', \<lparr>ed_status = 503, ed_title = ''Secret store unavailable'', ed_recoverable = True,
         ed_remediation = ''Keep credential operations blocked until the approved write-only store recovers.''\<rparr>),
      (''PROVIDER_CATALOG_NOT_CURRENT'', \<lparr>ed_status = 409, ed_title = ''Provider catalog is not current'', ed_recoverable = True,
         ed_remediation = ''Refresh the published Provider catalog and use its exact version and hash.''\<rparr>),
      (''PROVIDER_REAL_DATA_MODE_REQUIRED'', \<lparr>ed_status = 503, ed_title = ''Provider real-data gate required'', ed_recoverable = True,
         ed_remediation = ''Use verified synthetic data or pass REAL_DATA_MODE before Provider processing.''\<rparr>),
      (''PROVIDER_CONFIG_NOT_ACTIVE'', \<lparr>ed_status = 409, ed_title = ''Provider configuration is not active'', ed_recoverable = True,
         ed_remediation = ''Activate a current configuration.''\<rparr>),
      (''PROVIDER_CREDENTIAL_MISSING'', \<lparr>ed_status = 409, ed_title = ''Provider credential is missing'', ed_recoverable = True,
         ed_remediation = ''Write a credential to a draft configuration.''\<rparr>),
      (''PROVIDER_CREDENTIAL_UNVERIFIED'', \<lparr>ed_status = 409, ed_title = ''Provider credential is unverified'', ed_recoverable = True,
         ed_remediation = ''Run the fixed connection test.''\<rparr>),
      (''PROVIDER_CREDENTIAL_INVALID'', \<lparr>ed_status = 409, ed_title = ''Provider credential is invalid'', ed_recoverable = True,
         ed_remediation = ''Rotate the credential and test it again.''\<rparr>),
      (''PROVIDER_CREDENTIAL_REVOKED'', \<lparr>ed_status = 409, ed_title = ''Provider credential is revoked'', ed_recoverable = False,
         ed_remediation = ''Create a successor with a new credential.''\<rparr>),
      (''PROVIDER_CREDENTIAL_USAGE_NOT_ALLOWED'', \<lparr>ed_status = 409, ed_title = ''Provider credential usage is not allowed'', ed_recoverable = False,
         ed_remediation = ''Use the credential only within its TEST, BUSINESS or DELETION scope.''\<rparr>),
      (''PROVIDER_CREDENTIAL_ROTATION_REQUIRES_SUCCESSOR'', \<lparr>ed_status = 409, ed_title = ''Provider credential rotation requires a successor'', ed_recoverable = True,
         ed_remediation = ''Create and verify a draft successor instead of changing the active configuration.''\<rparr>),
      (''PROVIDER_ROTATION_CONFLICT'', \<lparr>ed_status = 409, ed_title = ''Provider rotation conflict'', ed_recoverable = True,
         ed_remediation = ''Finish or revoke the existing successor before starting another rotation.''\<rparr>),
      (''PROVIDER_POLICY_NOT_CURRENT'', \<lparr>ed_status = 409, ed_title = ''Provider policy is not current'', ed_recoverable = True,
         ed_remediation = ''Refresh Provider policy, legal basis, PIA and cross-border evidence.''\<rparr>),
      (''PROVIDER_CALL_NOT_AUTHORIZED'', \<lparr>ed_status = 403, ed_title = ''Provider call is not authorized'', ed_recoverable = False,
         ed_remediation = ''Use an approved purpose and data scope.''\<rparr>),
      (''PROVIDER_EGRESS_BLOCKED'', \<lparr>ed_status = 503, ed_title = ''Provider egress is blocked'', ed_recoverable = True,
         ed_remediation = ''Synchronize the approved catalog hash and restore the restricted egress adapter.''\<rparr>),
      (''PROVIDER_RATE_LIMITED'', \<lparr>ed_status = 429, ed_title = ''Provider rate limit reached'', ed_recoverable = True,
         ed_remediation = ''Retry after the approved backoff interval.''\<rparr>),
      (''PROVIDER_TIMEOUT'', \<lparr>ed_status = 504, ed_title = ''Provider request timed out'', ed_recoverable = True,
         ed_remediation = ''Retry or use the documented manual path.''\<rparr>),
      (''PROVIDER_UPSTREAM_ERROR'', \<lparr>ed_status = 502, ed_title = ''Provider upstream error'', ed_recoverable = True,
         ed_remediation = ''Retry after the Provider recovers.''\<rparr>),
      (''PROVIDER_RESPONSE_INVALID'', \<lparr>ed_status = 502, ed_title = ''Provider response is invalid'', ed_recoverable = False,
         ed_remediation = ''Keep the response blocked and inspect the adapter.''\<rparr>)]"

definition error_catalog_3 :: "(string \<times> error_definition) list" where
  "error_catalog_3 =
     [(''PROVIDER_BUDGET_EXCEEDED'', \<lparr>ed_status = 409, ed_title = ''Provider budget exceeded'', ed_recoverable = True,
         ed_remediation = ''Wait for budget reset or obtain an approved budget change.''\<rparr>),
      (''WAIVER_PROHIBITED'', \<lparr>ed_status = 409, ed_title = ''Waiver prohibited'', ed_recoverable = False,
         ed_remediation = ''Resolve the mandatory gate evidence.''\<rparr>),
      (''MAKER_CHECKER_REQUIRED'', \<lparr>ed_status = 409, ed_title = ''Independent checker required'', ed_recoverable = True,
         ed_remediation = ''Choose a checker different from the maker.''\<rparr>),
      (''EVIDENCE_DOCUMENT_NOT_RELEASED'', \<lparr>ed_status = 409, ed_title = ''Evidence document is not released'', ed_recoverable = True,
         ed_remediation = ''Release the referenced document before using it as evidence.''\<rparr>),
      (''EVIDENCE_SATISFIED_WITHOUT_PROOF'', \<lparr>ed_status = 409, ed_title = ''Evidence proof is required'', ed_recoverable = False,
         ed_remediation = ''Attach current reviewed evidence before marking the requirement satisfied.''\<rparr>),
      (''EVIDENCE_REVIEW_REQUIRED'', \<lparr>ed_status = 409, ed_title = ''Independent evidence review is required'', ed_recoverable = True,
         ed_remediation = ''Have an authorized reviewer assess the evidence match.''\<rparr>),
      (''PUBLISHED_VERSION_IMMUTABLE'', \<lparr>ed_status = 409, ed_title = ''Published version is immutable'', ed_recoverable = False,
         ed_remediation = ''Create a successor version instead of editing the published version.''\<rparr>),
      (''REQUIREMENT_NOT_PUBLISHED'', \<lparr>ed_status = 409, ed_title = ''Requirement is not published'', ed_recoverable = True,
         ed_remediation = ''Publish the requirement before using it in a formal match.''\<rparr>),
      (''RESPONSE_PROFILE_EVIDENCE_NOT_CURRENT'', \<lparr>ed_status = 409, ed_title = ''Response profile evidence is not current'', ed_recoverable = True,
         ed_remediation = ''Refresh or replace expired, revoked or invalidated evidence.''\<rparr>),
      (''CONDITION_NOT_OPEN'', \<lparr>ed_status = 409, ed_title = ''Condition is not open'', ed_recoverable = False,
         ed_remediation = ''Refresh the condition and act only while it remains open.''\<rparr>),
      (''COST_ALREADY_APPROVED'', \<lparr>ed_status = 409, ed_title = ''Cost baseline is already approved'', ed_recoverable = False,
         ed_remediation = ''Create a successor baseline for further changes.''\<rparr>),
      (''COST_NOT_APPROVED'', \<lparr>ed_status = 409, ed_title = ''Cost baseline is not approved'', ed_recoverable = True,
         ed_remediation = ''Obtain independent cost approval before publication.''\<rparr>),
      (''RISK_ACCEPTANCE_INVALID_PERIOD'', \<lparr>ed_status = 422, ed_title = ''Risk acceptance period is invalid'', ed_recoverable = False,
         ed_remediation = ''valid_until must be later than valid_from.''\<rparr>),
      (''RISK_ACCEPTANCE_EXPIRED'', \<lparr>ed_status = 410, ed_title = ''Risk acceptance has expired'', ed_recoverable = False,
         ed_remediation = ''Create a new risk acceptance for the current period.''\<rparr>),
      (''RISK_ACCEPTANCE_ALREADY_REVOKED'', \<lparr>ed_status = 409, ed_title = ''Risk acceptance is already revoked'', ed_recoverable = False,
         ed_remediation = ''Keep the append-only history; create a new acceptance if needed.''\<rparr>),
      (''DOCUMENT_TYPE_BLOCKED'', \<lparr>ed_status = 422, ed_title = ''Document type is blocked'', ed_recoverable = False,
         ed_remediation = ''Upload an allowed PDF, DOCX, XLSX, image or controlled archive.''\<rparr>),
      (''UPLOAD_SESSION_NOT_ACTIVE'', \<lparr>ed_status = 409, ed_title = ''Upload session is not active'', ed_recoverable = False,
         ed_remediation = ''Create a new upload session.''\<rparr>),
      (''UPLOAD_SESSION_EXPIRED'', \<lparr>ed_status = 410, ed_title = ''Upload session has expired'', ed_recoverable = True,
         ed_remediation = ''Create a new upload session and resume with a new file transfer.''\<rparr>),
      (''UPLOAD_CHUNK_HASH_MISMATCH'', \<lparr>ed_status = 422, ed_title = ''Upload chunk hash mismatch'', ed_recoverable = True,
         ed_remediation = ''Resend the chunk with a matching SHA-256.''\<rparr>),
      (''UPLOAD_INCOMPLETE'', \<lparr>ed_status = 409, ed_title = ''Upload is incomplete'', ed_recoverable = True,
         ed_remediation = ''Upload the missing parts before completing the session.''\<rparr>),
      (''UPLOAD_HASH_MISMATCH'', \<lparr>ed_status = 422, ed_title = ''Assembled file hash mismatch'', ed_recoverable = True,
         ed_remediation = ''Re-upload the file so the assembled SHA-256 matches the declared hash.''\<rparr>),
      (''DOCUMENT_NOT_REVIEWABLE'', \<lparr>ed_status = 409, ed_title = ''Document is not reviewable'', ed_recoverable = False,
         ed_remediation = ''Wait until the document has passed scan.''\<rparr>),
      (''DOCUMENT_NOT_RELEASABLE'', \<lparr>ed_status = 409, ed_title = ''Document is not releasable'', ed_recoverable = False,
         ed_remediation = ''Complete review after a clean scan before release.''\<rparr>),
      (''DOCUMENT_SCAN_FAILED'', \<lparr>ed_status = 409, ed_title = ''Document scan failed'', ed_recoverable = False,
         ed_remediation = ''Keep the file quarantined; do not release or parse it.''\<rparr>)]"

definition error_catalog_4 :: "(string \<times> error_definition) list" where
  "error_catalog_4 =
     [(''DOCUMENT_ALREADY_RELEASED'', \<lparr>ed_status = 409, ed_title = ''Document is already released'', ed_recoverable = False,
         ed_remediation = ''Use the current released document or quarantine it first.''\<rparr>),
      (''DOCUMENT_NOT_DOWNLOADABLE'', \<lparr>ed_status = 409, ed_title = ''Document body is not downloadable'', ed_recoverable = False,
         ed_remediation = ''Scan-failed and quarantined documents cannot be viewed.''\<rparr>),
      (''DOCUMENT_NOT_PARSABLE'', \<lparr>ed_status = 409, ed_title = ''Document cannot be parsed'', ed_recoverable = False,
         ed_remediation = ''Parse only after a clean scan; infected files stay isolated.''\<rparr>),
      (''DOCUMENT_LINK_CONFLICT'', \<lparr>ed_status = 409, ed_title = ''Document link conflict requires confirmation'', ed_recoverable = True,
         ed_remediation = ''Resolve the inherited/override conflict with an explicit reason.''\<rparr>),
      (''DOCUMENT_LINK_NOT_RESOLVABLE'', \<lparr>ed_status = 409, ed_title = ''Document link cannot be resolved'', ed_recoverable = False,
         ed_remediation = ''Choose an open conflicting link and confirm the surviving document.''\<rparr>),
      (''GOVERNANCE_STORE_UNAVAILABLE'', \<lparr>ed_status = 503, ed_title = ''Governance store unavailable'', ed_recoverable = True,
         ed_remediation = ''Retry after the governance repository recovers.''\<rparr>),
      (''DELETION_BLOCKED_BY_LEGAL_HOLD'', \<lparr>ed_status = 409, ed_title = ''Deletion blocked by legal hold'', ed_recoverable = True,
         ed_remediation = ''Release the hold through dual control.''\<rparr>),
      (''DELETION_RECEIPTS_INCOMPLETE'', \<lparr>ed_status = 409, ed_title = ''Deletion receipts incomplete'', ed_recoverable = True,
         ed_remediation = ''Retry or escalate missing required replicas.''\<rparr>),
      (''DELETION_RECEIPT_INVALID'', \<lparr>ed_status = 409, ed_title = ''Deletion receipt invalid'', ed_recoverable = False,
         ed_remediation = ''Obtain a verified receipt from the registered adapter.''\<rparr>),
      (''RETENTION_EXPIRED'', \<lparr>ed_status = 410, ed_title = ''Retention period expired'', ed_recoverable = False,
         ed_remediation = ''The object is no longer available for formal use.''\<rparr>),
      (''NOT_IMPLEMENTED'', \<lparr>ed_status = 501, ed_title = ''Operation not implemented'', ed_recoverable = False,
         ed_remediation = ''Wait for the owning module implementation.''\<rparr>),
      (''BASELINE_INCOMPLETE'', \<lparr>ed_status = 409, ed_title = ''Decision baseline is incomplete'', ed_recoverable = False,
         ed_remediation = ''Complete the missing upstream references and retry.''\<rparr>),
      (''STALE_BASELINE'', \<lparr>ed_status = 409, ed_title = ''Decision baseline is no longer current'', ed_recoverable = False,
         ed_remediation = ''Freeze a new baseline version and retry.''\<rparr>),
      (''SCENARIO_SET_INVALID'', \<lparr>ed_status = 409, ed_title = ''Scenario set is invalid'', ed_recoverable = False,
         ed_remediation = ''Probability and stress scenarios must be mutually exclusive and weights must be finite.''\<rparr>),
      (''BATCH_INFRASTRUCTURE_FAILURE'', \<lparr>ed_status = 503, ed_title = ''Simulation batch infrastructure failure'', ed_recoverable = True,
         ed_remediation = ''Retry the batch; permanent failure isolates the batch.''\<rparr>),
      (''CANDIDATE_ERROR_NOT_RECOVERABLE'', \<lparr>ed_status = 422, ed_title = ''Candidate-level error blocks the batch'', ed_recoverable = False,
         ed_remediation = ''Mark the batch as INDETERMINATE; do not delete scenarios to inflate metrics.''\<rparr>),
      (''COVERAGE_BELOW_THRESHOLD'', \<lparr>ed_status = 422, ed_title = ''Coverage is below the policy threshold'', ed_recoverable = False,
         ed_remediation = ''Increase n_scenarios or relax infra exclusions, then rerun.''\<rparr>),
      (''DENOMINATOR_BELOW_THRESHOLD'', \<lparr>ed_status = 422, ed_title = ''Coverage denominator is below the policy threshold'', ed_recoverable = False,
         ed_remediation = ''Result is UNDEFINED; do not submit for review.''\<rparr>),
      (''ELIGIBILITY_INPUT_UNKNOWN'', \<lparr>ed_status = 409, ed_title = ''Eligibility input is UNKNOWN, EXPIRED or INVALIDATED'', ed_recoverable = False,
         ed_remediation = ''Resolve all upstream inputs to CURRENT before requesting a recommendation.''\<rparr>),
      (''SNAPSHOT_PAYLOAD_HASH_MISMATCH'', \<lparr>ed_status = 409, ed_title = ''Snapshot payload hash does not match committed version'', ed_recoverable = False,
         ed_remediation = ''Recompute the snapshot payload and retry.''\<rparr>),
      (''PLAN_MERGE_BLOCKED'', \<lparr>ed_status = 422, ed_title = ''Plan merge was blocked by linkage rules'', ed_recoverable = False,
         ed_remediation = ''Use complete-linkage; do not chain adjacent candidates across tau_b or tau_m.''\<rparr>),
      (''STRESS_AXIS_VIOLATED'', \<lparr>ed_status = 422, ed_title = ''Hard stress-axis constraint violated'', ed_recoverable = False,
         ed_remediation = ''Do not enter the probability denominator with stress weights.''\<rparr>),
      (''INFRASTRUCTURE_RETRYABLE'', \<lparr>ed_status = 503, ed_title = ''Transient infrastructure failure'', ed_recoverable = True,
         ed_remediation = ''Retry with backoff; if persistent, isolate the batch.''\<rparr>),
      (''INTERNAL_ERROR'', \<lparr>ed_status = 500, ed_title = ''Internal server error'', ed_recoverable = True,
         ed_remediation = ''Retry with the request_id or contact an administrator.''\<rparr>)]"

definition ERROR_CATALOG :: "(string, error_definition) dict" where
  "ERROR_CATALOG = error_catalog_1 @ error_catalog_2 @ error_catalog_3 @ error_catalog_4"

section \<open>Errors and responses\<close>

record problem =
  pb_type_uri :: string
  pb_title :: string
  pb_status :: nat
  pb_code :: string
  pb_recoverable :: bool
  pb_remediation :: string

text \<open>
  \<open>BiaiceError.__init__\<close>: an unknown code is a programming error; a status of 0 is falsy
  and does not override.
\<close>

definition biaice_error :: "string \<Rightarrow> nat option \<Rightarrow> (string \<times> nat \<times> error_definition) res" where
  "biaice_error code status =
     (case dict_get ERROR_CATALOG code of
        None \<Rightarrow> Inl ValueError
      | Some d \<Rightarrow>
          Inr (code, (case status of None \<Rightarrow> ed_status d | Some st \<Rightarrow> if st = 0 then ed_status d else st), d))"

definition problem_type :: "string \<Rightarrow> string" where
  "problem_type code =
     ''https://biaice.local/problems/'' @ map (\<lambda>c. if c = CHR ''_'' then CHR ''-'' else c) (lower code)"

definition problem_response :: "string \<times> nat \<times> error_definition \<Rightarrow> problem" where
  "problem_response e =
     (case e of (code, status, d) \<Rightarrow>
        \<lparr>pb_type_uri = problem_type code, pb_title = ed_title d, pb_status = status, pb_code = code,
         pb_recoverable = ed_recoverable d, pb_remediation = ed_remediation d\<rparr>)"

text \<open>
  \<open>install_error_handlers\<close>: a \<open>BiaiceError\<close> answers with its own code, a validation
  failure with REQUEST_VALIDATION_FAILED, malformed input (\<open>None\<close>) with the same code and
  status 400, and every other exception with INTERNAL_ERROR.
\<close>

definition handle_exception :: "exc option \<Rightarrow> problem res" where
  "handle_exception e =
     bindE (case e of
              None \<Rightarrow> biaice_error ''REQUEST_VALIDATION_FAILED'' (Some 400)
            | Some (BiaiceError code) \<Rightarrow> biaice_error code None
            | Some ValidationError \<Rightarrow> biaice_error ''REQUEST_VALIDATION_FAILED'' None
            | Some _ \<Rightarrow> biaice_error ''INTERNAL_ERROR'' None) (\<lambda>err. Inr (problem_response err))"

section \<open>Facts\<close>

definition known_code :: "string \<Rightarrow> bool" where
  "known_code code \<longleftrightarrow> code \<in> set (map fst ERROR_CATALOG)"

lemmas catalog_defs = ERROR_CATALOG_def error_catalog_1_def error_catalog_2_def error_catalog_3_def error_catalog_4_def

lemma catalog_codes:
  "list_all (\<lambda>d. 400 \<le> ed_status d \<and> ed_status d < 600) (map snd ERROR_CATALOG)"
  by code_simp

lemma catalog_get_iff: "(\<exists>d. dict_get ERROR_CATALOG code = Some d) \<longleftrightarrow> known_code code"
  by (force simp: known_code_def map_of_eq_None_iff dest: map_of_SomeD simp flip: not_None_eq)

lemma catalog_status: "dict_get ERROR_CATALOG code = Some d \<Longrightarrow> 400 \<le> ed_status d \<and> ed_status d < 600"
  using catalog_codes by (auto simp: list_all_iff dest!: map_of_SomeD)

text \<open>
  Every exception gets an error response: an exception whose code is in the catalogue, and
  every other exception of the model, is answered by a problem whose status is an HTTP error
  status, and an unexpected exception always by INTERNAL_ERROR with status 500.
\<close>

theorem exceptions_become_problems:
  assumes "case e of BiaiceError code \<Rightarrow> known_code code | _ \<Rightarrow> True"
  shows "\<exists>p. handle_exception (Some e) = Inr p \<and> 400 \<le> pb_status p \<and> pb_status p < 600 \<and>
    (case e of BiaiceError code \<Rightarrow> pb_code p = code
     | ValidationError \<Rightarrow> pb_code p = ''REQUEST_VALIDATION_FAILED'' \<and> pb_status p = 422
     | _ \<Rightarrow> pb_code p = ''INTERNAL_ERROR'' \<and> pb_status p = 500)"
proof (cases "\<exists>code. e = BiaiceError code")
  case True
  then obtain code d where e: "e = BiaiceError code" and d: "dict_get ERROR_CATALOG code = Some d"
    using assms by (auto simp: catalog_get_iff [symmetric])
  then show ?thesis
    using catalog_status [OF d] by (auto simp: handle_exception_def biaice_error_def problem_response_def)
next
  case False
  have internal: "map_option ed_status (dict_get ERROR_CATALOG ''INTERNAL_ERROR'') = Some 500"
    and validation: "map_option ed_status (dict_get ERROR_CATALOG ''REQUEST_VALIDATION_FAILED'') = Some 422"
    by code_simp+
  from False internal validation show ?thesis
    by (cases e) (auto simp: handle_exception_def biaice_error_def problem_response_def)
qed

theorem exceptions_become_problems_witness:
  "\<exists>p. handle_exception (Some TypeError) = Inr p \<and> pb_status p = 500"
  using exceptions_become_problems [of TypeError] by auto

end
