(* ===== verification/Outbox.thy ===== *)
theory Outbox
  imports Errors Canonical_Json
begin

text \<open>
  The event contract of \<open>core/outbox.py\<close>: the catalogue of event types with the contract
  events each domain registers, the refusal of payloads with sensitive keys, and the envelope.
\<close>

section \<open>The event catalogue\<close>

record event_entry =
  ee_owner :: string
  ee_description :: string
  ee_payload_schema :: string
  ee_contract_only :: bool
  ee_schema_status :: string
  ee_source_name :: string

text \<open>The seven frozen events, with the fields the loop after the literal adds.\<close>

definition frozen_entry :: "string \<Rightarrow> string \<Rightarrow> string \<Rightarrow> string \<Rightarrow> string \<times> event_entry" where
  "frozen_entry name owner description schema =
     (name, \<lparr>ee_owner = owner, ee_description = description, ee_payload_schema = schema,
             ee_contract_only = False,
             ee_schema_status = ''FROZEN_ENVELOPE_PAYLOAD_PENDING_PERSISTENCE'',
             ee_source_name = name\<rparr>)"

definition frozen_events :: "(string, event_entry) dict" where
  "frozen_events =
     [frozen_entry ''governance.invalidation.requested.v1'' ''member-1''
        ''An effective upstream event requires dependency-matrix evaluation.''
        ''InvalidationRequestedV1'',
      frozen_entry ''governance.invalidation.recorded.v1'' ''member-1''
        ''A concrete downstream object was marked stale or invalidated.''
        ''InvalidationRecordedV1'',
      frozen_entry ''governance.retention.expired.v1'' ''member-1''
        ''Formal use was immediately blocked at retention expiry.''
        ''RetentionExpiredV1'',
      frozen_entry ''governance.deletion.requested.v1'' ''member-1''
        ''Logical access was blocked and replica deletion orchestration began.''
        ''DeletionRequestedV1'',
      frozen_entry ''governance.deletion.completed.v1'' ''member-1''
        ''Every required replica receipt was verified and a tombstone persisted.''
        ''DeletionCompletedV1'',
      frozen_entry ''governance.tombstone.replay-required.v1'' ''member-1''
        ''Recovery remains closed until tombstones are replayed.''
        ''TombstoneReplayRequiredV1'',
      frozen_entry ''audit.integrity.failed.v1'' ''member-1''
        ''Audit hash-chain or external-anchor validation failed.''
        ''AuditIntegrityFailedV1'']"

text \<open>
  \<open>re.sub(r"(?<!^)(?=[A-Z])", "_", name)\<close>: an underscore before every capital but the first
  character.
\<close>

definition is_upper :: "char \<Rightarrow> bool" where
  "is_upper c \<longleftrightarrow> 65 \<le> (of_char c :: nat) \<and> (of_char c :: nat) \<le> 90"

fun split_capitals :: "string \<Rightarrow> string" where
  "split_capitals [] = []"
| "split_capitals (c # cs) = (if is_upper c then [CHR ''_'', c] else [c]) @ split_capitals cs"

definition snake :: "string \<Rightarrow> string" where
  "snake name = (case name of [] \<Rightarrow> [] | c # cs \<Rightarrow> c # split_capitals cs)"

definition contract_type :: "string \<Rightarrow> string \<Rightarrow> string" where
  "contract_type domain name = domain @ ''.'' @ lower (snake name) @ ''.v1''"

definition register_contract_event ::
  "string \<Rightarrow> string \<Rightarrow> (string, event_entry) dict \<Rightarrow> string \<Rightarrow> (string, event_entry) dict" where
  "register_contract_event domain owner catalog name =
     dict_set (contract_type domain name)
       \<lparr>ee_owner = owner,
        ee_description = ''CONTRACT_ONLY domain event '' @ name @ ''; payload fields await the owner schema PR.'',
        ee_payload_schema = name @ ''V1'', ee_contract_only = True,
        ee_schema_status = ''STUB_FIELDS_PENDING_OWNER_FREEZE'', ee_source_name = name\<rparr> catalog"

definition register_contract_events ::
  "string \<Rightarrow> string \<Rightarrow> string list \<Rightarrow> (string, event_entry) dict \<Rightarrow> (string, event_entry) dict" where
  "register_contract_events domain owner names catalog =
     foldl (register_contract_event domain owner) catalog names"

text \<open>What each domain registers: its name, its owner and its events.\<close>

definition rules_events :: "string \<times> string \<times> string list" where
  "rules_events = (''rules'', ''member-2'',
     [''ScopeAssessmentPublished'', ''RegimePublished'', ''RuleSetPublished'',
      ''RuleSetRevoked'', ''CrossLotConstraintConfirmed'', ''DecisionUnitReopened'',
      ''DecisionUnitLifecycleAdvanced''])"

definition documents_events :: "string \<times> string \<times> string list" where
  "documents_events = (''documents'', ''member-3'',
     [''SourceDocumentUploaded'', ''SourceDocumentReleased'', ''DocumentQuarantined'',
      ''ParseCompleted'', ''ParseFailed'', ''DerivedAssetRegistered'',
      ''ReplicaDeletionReceiptProduced''])"

definition evidence_commercial_events :: "string \<times> string \<times> string list" where
  "evidence_commercial_events = (''evidence_commercial'', ''member-4'',
     [''EvidencePublished'', ''EvidenceRevoked'', ''EvidenceMatchReviewed'',
      ''ResponseProfilePublished'', ''PrecheckAssessed'', ''ConditionChanged'',
      ''CostBaselinePublished'', ''CommercialPolicyPublished'', ''ReadinessAssessed''])"

definition model_governance_events :: "string \<times> string \<times> string list" where
  "model_governance_events = (''model_governance'', ''member-5'',
     [''CompetitorProfilePublished'', ''CompetitorProfileQuarantined'', ''MarketPriorPublished'',
      ''MarketPriorExpired'', ''UnknownEntrantPublished'', ''ProviderCatalogPublished'',
      ''ProviderCatalogRevoked'', ''ProviderConfigurationSuccessorCreated'',
      ''ProviderConfigurationSuperseded'', ''ProviderCredentialSet'',
      ''ProviderCredentialRotated'', ''ProviderCredentialUsageRestricted'',
      ''ProviderCredentialLocalReferenceDestroyed'',
      ''ProviderRemoteCredentialRevocationReceiptProduced'', ''ProviderConfigurationVerified'',
      ''ProviderConfigurationActivated'', ''ProviderConfigurationSuspended'',
      ''ProviderConfigurationRevoked'', ''ProcessingAuthorizationWithdrawn'',
      ''ProviderPolicyApproved'', ''ProviderPolicyExpired'', ''ProviderPolicyRevoked'',
      ''ProviderInvocationQueued'', ''ProviderInvocationStarted'',
      ''ProviderInvocationSucceeded'', ''ProviderInvocationFailed'',
      ''ProviderInvocationBlocked'', ''ProviderInvocationTimedOut'',
      ''ProviderInvocationCancelled'', ''ProviderReplicaDeletionReceiptProduced'',
      ''ModelDeploymentActivated'', ''ModelPolicyEffective'', ''ModelRolledBack''])"

definition simulation_events :: "string \<times> string \<times> string list" where
  "simulation_events = (''simulation'', ''member-6'',
     [''DecisionBaselineFrozen'', ''ScenarioSetsFrozen'', ''SimulationStarted'',
      ''SimulationFailed'', ''SimulationAssessed'', ''StrategyPlansFinalized'',
      ''EligibilityAssessed'', ''SimulationSnapshotCreated''])"

definition approvals_reports_events :: "string \<times> string \<times> string list" where
  "approvals_reports_events = (''approvals_reports'', ''member-7'',
     [''RiskAccepted'', ''RiskRevoked'', ''ApprovalPackageFrozen'',
      ''ApprovalPackageInvalidated'', ''ApprovalRequested'', ''ApprovalDecided'',
      ''SubmissionAuthorizationCreated'', ''SubmissionAuthorizationBlocked'',
      ''PrecheckReportCreated'', ''DecisionReportCreated'', ''DecisionReportRevoked'',
      ''SubmissionDrafted'', ''SubmissionDeclared'', ''SubmissionVerified'',
      ''SubmissionMismatch'', ''SubmissionFailed'', ''SubmissionWithdrawn'', ''OutcomeVerified'',
      ''OutcomeConflicting'', ''DecisionUnitTransitionRequested''])"

definition registered_events :: "(string \<times> string \<times> string list) list" where
  "registered_events =
     [rules_events, documents_events, evidence_commercial_events, model_governance_events,
      simulation_events, approvals_reports_events]"

definition EVENT_CATALOG :: "(string, event_entry) dict" where
  "EVENT_CATALOG =
     foldl (\<lambda>catalog (domain, owner, names). register_contract_events domain owner names catalog)
       frozen_events registered_events"

section \<open>Sensitive payload keys\<close>

definition PROHIBITED_EVENT_KEYS :: "string list" where
  "PROHIBITED_EVENT_KEYS =
     [''body'', ''content'', ''plaintext'', ''api_key'', ''secret'', ''prompt'',
      ''model_response'', ''personal_data'', ''cost_detail'', ''raw_prompt'', ''response_body'',
      ''request_body'', ''raw_content'', ''document_text'', ''personal_information'',
      ''credential_plaintext'', ''access_token'', ''refresh_token'', ''authorization_header'']"

definition canonical_key :: "string \<Rightarrow> string" where
  "canonical_key key = lower (map (\<lambda>c. if c = CHR ''-'' then CHR ''_'' else c) (snake key))"

text \<open>\<open>_reject_sensitive_keys\<close>: true when nothing is raised.\<close>

fun payload_ok :: "json \<Rightarrow> bool" where
  "payload_ok (JObj fs) = list_all (\<lambda>(key, v). canonical_key key \<notin> set PROHIBITED_EVENT_KEYS \<and> payload_ok v) fs"
| "payload_ok (JArr xs) = list_all payload_ok xs"
| "payload_ok _ = True"

section \<open>The envelope\<close>

record event_envelope =
  ev_event_id :: uuid
  ev_event_type :: string
  ev_schema_version :: int
  ev_tenant_id :: uuid
  ev_data_domain_id :: uuid
  ev_project_id :: "uuid option"
  ev_decision_unit_id :: "uuid option"
  ev_aggregate_type :: string
  ev_aggregate_id :: uuid
  ev_occurred_at :: timestamp
  ev_actor_id :: "uuid option"
  ev_request_id :: string
  ev_correlation_id :: uuid
  ev_causation_id :: "uuid option"
  ev_payload :: "(string \<times> json) list"

text \<open>The checks of the constructor.\<close>

definition event_envelope :: "event_envelope \<Rightarrow> event_envelope res" where
  "event_envelope e =
     (if ev_schema_version e \<ge> 1 \<and> payload_ok (JObj (ev_payload e)) then Inr e else Inl ValidationError)"

section \<open>Facts\<close>

text \<open>All keys of a value, at any depth.\<close>

fun json_keys :: "json \<Rightarrow> string list" where
  "json_keys (JObj fs) = concat (map (\<lambda>(key, v). key # json_keys v) fs)"
| "json_keys (JArr xs) = concat (map json_keys xs)"
| "json_keys _ = []"

lemma payload_ok_keys: "payload_ok j \<longleftrightarrow> (\<forall>key \<in> set (json_keys j). canonical_key key \<notin> set PROHIBITED_EVENT_KEYS)"
proof (induction j rule: payload_ok.induct)
  case (1 fs)
  then show ?case by (fastforce simp: list_all_iff)
next
  case (2 xs)
  then show ?case by (auto simp: list_all_iff)
qed simp_all

text \<open>
  C7. Deidentified events: an envelope is built exactly when its schema version is positive and
  no key at any depth of its payload is, in canonical form, one of the prohibited keys; but the
  canonical form puts an underscore before every capital, so a key written in capitals is not
  recognised and passes.
\<close>

theorem envelope_deidentified:
  "(event_envelope e = Inr e' \<longleftrightarrow>
      e' = e \<and> ev_schema_version e \<ge> 1 \<and>
      (\<forall>key \<in> set (json_keys (JObj (ev_payload e))). canonical_key key \<notin> set PROHIBITED_EVENT_KEYS)) \<and>
   \<not> payload_ok (JObj [(''profile'', JObj [(''apiKey'', JStr ''x'')])]) \<and>
   \<not> payload_ok (JArr [JObj [(''access-token'', JStr ''x'')]]) \<and>
   payload_ok (JObj [(''API_KEY'', JStr ''x''), (''SECRET'', JStr ''y'')])"
proof (intro conjI)
  show "event_envelope e = Inr e' \<longleftrightarrow>
      e' = e \<and> ev_schema_version e \<ge> 1 \<and>
      (\<forall>key \<in> set (json_keys (JObj (ev_payload e))). canonical_key key \<notin> set PROHIBITED_EVENT_KEYS)"
    unfolding event_envelope_def payload_ok_keys by auto
qed code_simp+

theorem envelope_deidentified_witness:
  "payload_ok (JObj [(''PROMPT'', JStr ''x'')]) \<and> payload_ok (JObj [(''API_KEY'', JStr ''x''), (''SECRET'', JStr ''y'')])"
proof
  show "payload_ok (JObj [(''PROMPT'', JStr ''x'')])" by code_simp
  show "payload_ok (JObj [(''API_KEY'', JStr ''x''), (''SECRET'', JStr ''y'')])"
    using envelope_deidentified by blast
qed

text \<open>Which types are catalogued: the frozen ones and those a registered name produces.\<close>

lemma dom_register:
  "fst ` set (register_contract_events domain owner names catalog) =
     fst ` set catalog \<union> contract_type domain ` set names"
proof (induction names arbitrary: catalog)
  case Nil
  then show ?case by (simp add: register_contract_events_def)
next
  case (Cons name names)
  then show ?case
    by (simp add: register_contract_events_def register_contract_event_def dom_update)
qed

lemma dom_register_all:
  "fst ` set (foldl (\<lambda>catalog (domain, owner, names). register_contract_events domain owner names catalog) catalog rs) =
     fst ` set catalog \<union> (\<Union>r \<in> set rs. contract_type (fst r) ` set (snd (snd r)))"
  by (induction rs arbitrary: catalog) (simp_all add: dom_register split_beta Un_assoc)

definition catalogued :: "string \<Rightarrow> bool" where
  "catalogued event_type \<longleftrightarrow> event_type \<in> fst ` set EVENT_CATALOG"

lemma catalogued_contract:
  "(domain, owner, names) \<in> set registered_events \<Longrightarrow> name \<in> set names \<Longrightarrow> catalogued (contract_type domain name)"
  unfolding catalogued_def EVENT_CATALOG_def dom_register_all by force

lemma catalogued_rules: "name \<in> set (snd (snd rules_events)) \<Longrightarrow> catalogued (contract_type ''rules'' name)"
  by (rule catalogued_contract [where owner = "''member-2''" and names = "snd (snd rules_events)"])
    (simp_all add: registered_events_def rules_events_def)

lemma catalogued_simulation: "name \<in> set (snd (snd simulation_events)) \<Longrightarrow> catalogued (contract_type ''simulation'' name)"
  by (rule catalogued_contract [where owner = "''member-6''" and names = "snd (snd simulation_events)"])
    (simp_all add: registered_events_def simulation_events_def)

end
