(* ===== verification/World.thy ===== *)
theory World
  imports Audit_Log Outbox
begin

text \<open>
  What every application service works in: its repository, the append-only audit sink behind the
  hash-chain writer, the outbox port, and the supply of fresh identifiers and clock readings. The
  services of the modules are operations on a \<open>world\<close>; an exception keeps what was written
  before it.
\<close>

section \<open>The world\<close>

text \<open>
  What lies outside the process: the hash function, \<open>isoformat\<close>, and the results of
  \<open>uuid4()\<close> and of the clock as functions of how often they were asked.
\<close>

record env =
  env_sha :: "string \<Rightarrow> string"
  env_isofmt :: "timestamp \<Rightarrow> string"
  env_uuid :: "nat \<Rightarrow> uuid"
  env_clock :: "nat \<Rightarrow> timestamp"

text \<open>An outbox port: absent, \<open>DeniedOutboxPort\<close>, or one that records what is appended.\<close>

datatype outbox_port = NO_OUTBOX | DENIED_OUTBOX | RECORDING_OUTBOX "event_envelope list"

record 'r world =
  w_repo :: 'r
  w_audit :: memory_sink
  w_outbox :: outbox_port
  w_uuids :: nat
  w_ticks :: nat

definition uuid4 :: "env \<Rightarrow> ('r world, uuid) svc" where
  "uuid4 env = (\<lambda>w. (Inr (env_uuid env (w_uuids w)), w\<lparr>w_uuids := w_uuids w + 1\<rparr>))"

definition clock_now :: "env \<Rightarrow> ('r world, timestamp) svc" where
  "clock_now env = (\<lambda>w. (Inr (env_clock env (w_ticks w)), w\<lparr>w_ticks := w_ticks w + 1\<rparr>))"

definition get_repo :: "('r \<Rightarrow> 'a) \<Rightarrow> ('r world, 'a) svc" where
  "get_repo f = gets (\<lambda>w. f (w_repo w))"

definition put_repo :: "('r \<Rightarrow> 'r) \<Rightarrow> ('r world, unit) svc" where
  "put_repo f = modify (\<lambda>w. w\<lparr>w_repo := f (w_repo w)\<rparr>)"

text \<open>\<open>require_audit(self.audit_writer)\<close> and \<open>self.audit_writer.write(...)\<close>.\<close>

definition require_writer :: "('r world, unit) svc" where
  "require_writer = bindS (gets (\<lambda>w. ms_available (w_audit w))) (\<lambda>ok. liftE (require_audit ok))"

definition write_audit :: "env \<Rightarrow> audit_request \<Rightarrow> ('r world, audit_event) svc" where
  "write_audit env r = (\<lambda>w.
     case audit_write (env_sha env) (env_isofmt env) memory_ops (env_uuid env (w_uuids w)) (env_clock env (w_ticks w)) r (w_audit w) of
       (Inl e, sink) \<Rightarrow> (Inl e, w\<lparr>w_audit := sink\<rparr>)
     | (Inr event, sink) \<Rightarrow>
         (Inr event, w\<lparr>w_audit := sink, w_uuids := w_uuids w + 1, w_ticks := w_ticks w + 1\<rparr>))"

definition outbox_append :: "event_envelope \<Rightarrow> ('r world, unit) svc" where
  "outbox_append e = (\<lambda>w.
     case w_outbox w of
       NO_OUTBOX \<Rightarrow> (Inl AttributeError, w)
     | DENIED_OUTBOX \<Rightarrow> (Inl RuntimeError, w)
     | RECORDING_OUTBOX es \<Rightarrow> (Inr (), w\<lparr>w_outbox := RECORDING_OUTBOX (es @ [e])\<rparr>))"

text \<open>An optional field as JSON.\<close>

definition jopt :: "('a \<Rightarrow> json) \<Rightarrow> 'a option \<Rightarrow> json" where
  "jopt f x = (case x of None \<Rightarrow> JNull | Some y \<Rightarrow> f y)"

text \<open>An audit record about one version of an object.\<close>

definition audited ::
  "env \<Rightarrow> identity_context \<Rightarrow> string \<Rightarrow> string \<Rightarrow> uuid \<Rightarrow> string \<Rightarrow> string \<Rightarrow> string \<Rightarrow> uuid \<Rightarrow>
   ('r world, audit_event) svc" where
  "audited env identity action object_type object_id request_id reason_code outcome version_id =
     write_audit env
       \<lparr>ar_identity = identity, ar_action = action, ar_object_type = object_type, ar_object_id = object_id,
        ar_request_id = request_id, ar_reason_code = reason_code, ar_outcome = outcome,
        ar_object_version_id = Some version_id\<rparr>"

text \<open>\<open>assert_allows\<close> for the caller's own tenant and domain.\<close>

definition own_scope :: "identity_context \<Rightarrow> uuid option \<Rightarrow> uuid option \<Rightarrow> unit res" where
  "own_scope identity pid uid =
     (let s = ic_scope identity in assert_allows s (sc_tenant_id s) (sc_data_domain_id s) pid uid)"

text \<open>
  \<open>_emit_event\<close> of \<open>projects/application/services.py\<close>: nothing happens without a port;
  otherwise the envelope is built, with its checks, and appended.
\<close>

definition emit_event ::
  "env \<Rightarrow> identity_context \<Rightarrow> string \<Rightarrow> string \<Rightarrow> uuid \<Rightarrow> (string \<times> json) list \<Rightarrow> string \<Rightarrow>
   uuid option \<Rightarrow> uuid option \<Rightarrow> ('r world, unit) svc" where
  "emit_event env identity event_type aggregate_type aggregate_id payload request_id project_id decision_unit_id =
     bindS (gets w_outbox) (\<lambda>port.
     if port = NO_OUTBOX then ret ()
     else
       bindS (uuid4 env) (\<lambda>event_id.
       bindS (clock_now env) (\<lambda>occurred_at.
       bindS (uuid4 env) (\<lambda>correlation_id.
       bindS (liftE (event_envelope
         \<lparr>ev_event_id = event_id, ev_event_type = event_type, ev_schema_version = 1,
          ev_tenant_id = sc_tenant_id (ic_scope identity),
          ev_data_domain_id = sc_data_domain_id (ic_scope identity),
          ev_project_id = project_id, ev_decision_unit_id = decision_unit_id,
          ev_aggregate_type = aggregate_type, ev_aggregate_id = aggregate_id,
          ev_occurred_at = occurred_at, ev_actor_id = Some (ic_subject_id identity),
          ev_request_id = request_id, ev_correlation_id = correlation_id, ev_causation_id = None,
          ev_payload = payload\<rparr>)) (\<lambda>envelope.
       outbox_append envelope)))))"

section \<open>What the parts of the world keep\<close>

text \<open>
  A property of the repository is kept by everything but a write to the repository.
\<close>

definition on_repo :: "('r \<Rightarrow> bool) \<Rightarrow> 'r world \<Rightarrow> bool" where
  "on_repo Q w \<longleftrightarrow> Q (w_repo w)"

lemma preserves_uuid4 [intro!, simp]: "preserves (on_repo Q) (uuid4 env)"
  by (simp add: preserves_def uuid4_def on_repo_def)

lemma preserves_clock_now [intro!, simp]: "preserves (on_repo Q) (clock_now env)"
  by (simp add: preserves_def clock_now_def on_repo_def)

lemma preserves_get_repo [intro!, simp]: "preserves P (get_repo f)"
  by (simp add: get_repo_def)

lemma preserves_put_repo [intro]: "(\<And>r. Q r \<Longrightarrow> Q (f r)) \<Longrightarrow> preserves (on_repo Q) (put_repo f)"
  by (simp add: preserves_def put_repo_def on_repo_def)

lemma preserves_require_writer [intro!, simp]: "preserves P require_writer"
  unfolding require_writer_def by blast

lemma write_audit_repo [simp]: "w_repo (snd (write_audit env r w)) = w_repo w"
  by (simp add: write_audit_def split: prod.split sum.split)

lemma preserves_write_audit [intro!, simp]: "preserves (on_repo Q) (write_audit env r)"
  by (simp add: preserves_def on_repo_def)

lemma outbox_append_repo [simp]: "w_repo (snd (outbox_append e w)) = w_repo w"
  by (simp add: outbox_append_def split: outbox_port.split)

lemma preserves_outbox_append [intro!, simp]: "preserves (on_repo Q) (outbox_append e)"
  by (simp add: preserves_def on_repo_def)

lemma preserves_emit_event [intro!, simp]:
  "preserves (on_repo Q) (emit_event env identity ty aty aid payload rid pid uid)"
  unfolding emit_event_def by (intro preserves_bindS preserves_if) auto

text \<open>
  The audit chains of every scope verify before and after every operation of a service, since
  only the writer appends to the sink.
\<close>

definition audit_ok :: "env \<Rightarrow> 'r world \<Rightarrow> bool" where
  "audit_ok env w \<longleftrightarrow> chains_verify (env_sha env) (env_isofmt env) memory_ops (w_audit w)"

lemma audit_ok_simps [simp]:
  "audit_ok env (w\<lparr>w_repo := r\<rparr>) = audit_ok env w"
  "audit_ok env (w\<lparr>w_outbox := p\<rparr>) = audit_ok env w"
  "audit_ok env (w\<lparr>w_uuids := n\<rparr>) = audit_ok env w"
  "audit_ok env (w\<lparr>w_ticks := n\<rparr>) = audit_ok env w"
  by (simp_all add: audit_ok_def)

lemma audit_preserves_uuid4 [intro!, simp]: "preserves (audit_ok env) (uuid4 env')"
  by (simp add: preserves_def uuid4_def)

lemma audit_preserves_clock_now [intro!, simp]: "preserves (audit_ok env) (clock_now env')"
  by (simp add: preserves_def clock_now_def)

lemma audit_preserves_put_repo [intro!, simp]: "preserves (audit_ok env) (put_repo f)"
  by (simp add: preserves_def put_repo_def)

lemma audit_preserves_outbox_append [intro!, simp]: "preserves (audit_ok env) (outbox_append e)"
  by (simp add: preserves_def outbox_append_def split: outbox_port.split)

lemma audit_preserves_emit_event [intro!, simp]:
  "preserves (audit_ok env) (emit_event env' identity ty aty aid payload rid pid uid)"
  unfolding emit_event_def by (intro preserves_bindS preserves_if) auto

lemma audit_preserves_write_audit [intro!, simp]:
  assumes "digest_ok (env_sha env)"
  shows "preserves (audit_ok env) (write_audit env r)"
proof (rule preservesI)
  fix w :: "'a world"
  let ?w = "audit_write (env_sha env) (env_isofmt env) memory_ops (env_uuid env (w_uuids w)) (env_clock env (w_ticks w)) r (w_audit w)"
  assume "audit_ok env w"
  then have "chains_verify (env_sha env) (env_isofmt env) memory_ops (snd ?w)"
    using memory.write_chains_verify [OF assms] by (simp add: audit_ok_def)
  then show "audit_ok env (snd (write_audit env r w))"
    by (cases ?w; cases "fst ?w") (simp_all add: write_audit_def audit_ok_def)
qed

section \<open>Operations that leave the repository alone\<close>

text \<open>
  \<open>later w w'\<close>: the same repository, with possibly more identifiers drawn and clock readings taken. An operation is
  quiet when every run of it leads to a later world.
\<close>

definition later :: "'r world \<Rightarrow> 'r world \<Rightarrow> bool" where
  "later w w' \<longleftrightarrow> w_repo w' = w_repo w \<and> w_uuids w \<le> w_uuids w' \<and> w_ticks w \<le> w_ticks w'"

definition quiet :: "('r world, 'a) svc \<Rightarrow> bool" where
  "quiet m \<longleftrightarrow> (\<forall>w. later w (snd (m w)))"

lemma later_refl [simp]: "later w w"
  by (simp add: later_def)

lemma later_trans: "later u v \<Longrightarrow> later v w \<Longrightarrow> later u w"
  by (auto simp: later_def)

lemma quiet_bindS [intro]:
  assumes "quiet m" and "\<And>x. quiet (f x)"
  shows "quiet (bindS m f)"
  unfolding quiet_def
proof
  fix w
  obtain r w' where m: "m w = (r, w')" by (cases "m w")
  then have "later w w'" using assms(1) by (metis quiet_def snd_conv)
  moreover have "later w' (snd (f x w'))" for x using assms(2) by (simp add: quiet_def)
  ultimately show "later w (snd (bindS m f w))"
    using m by (auto simp: bindS_def split: sum.split intro: later_trans)
qed

lemma quiet_basic [intro!, simp]:
  "quiet (ret x)" "quiet (throw e)" "quiet (liftE r)" "quiet (gets f)" "quiet (checkS ok e)" "quiet (get_repo g)"
  by (simp_all add: quiet_def checkS_def get_repo_def)

lemma quiet_if [intro]: "(c \<Longrightarrow> quiet m) \<Longrightarrow> (\<not> c \<Longrightarrow> quiet n) \<Longrightarrow> quiet (if c then m else n)"
  by simp

lemma quiet_uuid4 [intro!, simp]: "quiet (uuid4 env)"
  by (simp add: quiet_def later_def uuid4_def)

lemma quiet_clock_now [intro!, simp]: "quiet (clock_now env)"
  by (simp add: quiet_def later_def clock_now_def)

lemma quiet_require_writer [intro!, simp]: "quiet require_writer"
  unfolding require_writer_def by (intro quiet_bindS) simp_all

lemma quiet_write_audit [intro!, simp]: "quiet (write_audit env r)"
  by (auto simp: quiet_def later_def write_audit_def split: prod.split sum.split)

lemma quiet_outbox_append [intro!, simp]: "quiet (outbox_append e)"
  by (simp add: quiet_def later_def outbox_append_def split: outbox_port.split)

lemma quiet_emit_event [intro!, simp]: "quiet (emit_event env identity ty aty aid payload rid pid uid)"
  unfolding emit_event_def by (intro quiet_bindS quiet_if) simp_all

lemma wp_quiet:
  assumes "quiet m" and "\<And>x w'. later w w' \<Longrightarrow> Q x w'" and "\<And>w'. later w w' \<Longrightarrow> E w'"
  shows "wp m Q E w"
proof -
  have "later w (snd (m w))" using assms(1) by (simp add: quiet_def)
  with assms(2,3) show ?thesis by (auto simp: wp_def split: prod.splits sum.splits)
qed

lemma wp_get_repo [wp_rules]: "Q (f (w_repo w)) w \<Longrightarrow> wp (get_repo f) Q E w"
  by (simp add: get_repo_def wp_def)

lemma wp_put_repo [wp_rules]: "Q () (w\<lparr>w_repo := f (w_repo w)\<rparr>) \<Longrightarrow> wp (put_repo f) Q E w"
  by (simp add: put_repo_def wp_def)

lemma wp_uuid4 [wp_rules]:
  "Q (env_uuid env (w_uuids w)) (w\<lparr>w_uuids := w_uuids w + 1\<rparr>) \<Longrightarrow> wp (uuid4 env) Q E w"
  by (simp add: uuid4_def wp_def)

lemma wp_clock_now [wp_rules]:
  "Q (env_clock env (w_ticks w)) (w\<lparr>w_ticks := w_ticks w + 1\<rparr>) \<Longrightarrow> wp (clock_now env) Q E w"
  by (simp add: clock_now_def wp_def)

text \<open>A service that needs the audit writer does nothing at all while it is unavailable.\<close>

lemma require_writer_unavailable:
  "\<not> ms_available (w_audit w) \<Longrightarrow> bindS require_writer f w = (Inl (BiaiceError ''AUDIT_UNAVAILABLE''), w)"
  by (simp add: require_writer_def bindS_apply require_audit_def guardE_def)

text \<open>A successful write appends exactly one event, of the request's action.\<close>

lemma write_audit_success:
  assumes "write_audit env r w = (Inr e, w')"
  shows "ms_events (w_audit w') = ms_events (w_audit w) @ [e] \<and> ae_action e = ar_action r \<and> w_repo w' = w_repo w"
  using assms
  by (auto simp: write_audit_def audit_write_def memory_ops_def memory_append_def bindS_apply checkS_apply
      sign_event_def Let_def split: prod.splits sum.splits if_splits)

end
