(* ===== verification/Lifecycle.thy ===== *)
theory Lifecycle
  imports Prelude
begin

text \<open>
  The decision-unit lifecycle of \<open>modules/projects/domain/lifecycle.py\<close>: its states, the
  table of legal targets and \<open>resolve_transition\<close>. The lemmas show what a sequence of
  accepted commands can and cannot do; \<open>stage\<close> is the abstract progress measure they use.
\<close>

section \<open>States\<close>

datatype (plugins only: code) lifecycle_state =
    DRAFT | DOCUMENTS_PARSING | REGIME_AND_SCOPE_PENDING | PORTFOLIO_REVIEW_REQUIRED
  | MULTI_ROUND_UNSUPPORTED | RULES_PENDING_CONFIRMATION | EVIDENCE_MATCHING
  | PRECHECK_PENDING | PRECHECK_BLOCKED | PRECHECK_UNKNOWN | PRECHECK_PASSED
  | PRECHECK_CONDITIONAL | REMEDIATION | STRATEGY_READINESS_PENDING | NOT_READY
  | STRATEGY_READY | STRATEGY_READY_WITH_CONDITIONS | COMPUTING | SIMULATION_FAILED
  | NO_FEASIBLE_STRATEGY | RECOMMENDATION_REVIEW | ELIGIBILITY_PENDING | INELIGIBLE
  | INDETERMINATE | ELIGIBLE | ELIGIBLE_WITH_ACCEPTED_RISK | ELIGIBLE_WITH_CONDITIONS
  | APPROVAL_PACKAGE_FROZEN | APPROVAL_PENDING | REJECTED | PACKAGE_INVALIDATED
  | APPROVED_CONDITIONAL | CONDITION_CLOSURE | SUBMISSION_AUTHORIZED | DECISION_FROZEN
  | EXTERNAL_SUBMISSION_PENDING | SUBMISSION_DECLARED | SUBMISSION_MISMATCH
  | SUBMISSION_FAILED | SUBMISSION_VERIFIED | OUTCOME_PENDING | OUTCOME_UNVERIFIED
  | OUTCOME_CONFLICTING | OUTCOME_VERIFIED | AWARDED | LOST | DISQUALIFIED | NO_BID
  | WITHDRAWN | CANCELLED | PROCUREMENT_FAILED | REWORK | CLOSED | ARCHIVED

definition all_states :: "lifecycle_state list" where
  "all_states =
     [DRAFT, DOCUMENTS_PARSING, REGIME_AND_SCOPE_PENDING, PORTFOLIO_REVIEW_REQUIRED,
      MULTI_ROUND_UNSUPPORTED, RULES_PENDING_CONFIRMATION, EVIDENCE_MATCHING, PRECHECK_PENDING,
      PRECHECK_BLOCKED, PRECHECK_UNKNOWN, PRECHECK_PASSED, PRECHECK_CONDITIONAL, REMEDIATION,
      STRATEGY_READINESS_PENDING, NOT_READY, STRATEGY_READY, STRATEGY_READY_WITH_CONDITIONS,
      COMPUTING, SIMULATION_FAILED, NO_FEASIBLE_STRATEGY, RECOMMENDATION_REVIEW,
      ELIGIBILITY_PENDING, INELIGIBLE, INDETERMINATE, ELIGIBLE, ELIGIBLE_WITH_ACCEPTED_RISK,
      ELIGIBLE_WITH_CONDITIONS, APPROVAL_PACKAGE_FROZEN, APPROVAL_PENDING, REJECTED,
      PACKAGE_INVALIDATED, APPROVED_CONDITIONAL, CONDITION_CLOSURE, SUBMISSION_AUTHORIZED,
      DECISION_FROZEN, EXTERNAL_SUBMISSION_PENDING, SUBMISSION_DECLARED, SUBMISSION_MISMATCH,
      SUBMISSION_FAILED, SUBMISSION_VERIFIED, OUTCOME_PENDING, OUTCOME_UNVERIFIED,
      OUTCOME_CONFLICTING, OUTCOME_VERIFIED, AWARDED, LOST, DISQUALIFIED, NO_BID, WITHDRAWN,
      CANCELLED, PROCUREMENT_FAILED, REWORK, CLOSED, ARCHIVED]"

primrec state_value :: "lifecycle_state \<Rightarrow> string" where
  "state_value DRAFT = ''DRAFT''"
| "state_value DOCUMENTS_PARSING = ''DOCUMENTS_PARSING''"
| "state_value REGIME_AND_SCOPE_PENDING = ''REGIME_AND_SCOPE_PENDING''"
| "state_value PORTFOLIO_REVIEW_REQUIRED = ''PORTFOLIO_REVIEW_REQUIRED''"
| "state_value MULTI_ROUND_UNSUPPORTED = ''MULTI_ROUND_UNSUPPORTED''"
| "state_value RULES_PENDING_CONFIRMATION = ''RULES_PENDING_CONFIRMATION''"
| "state_value EVIDENCE_MATCHING = ''EVIDENCE_MATCHING''"
| "state_value PRECHECK_PENDING = ''PRECHECK_PENDING''"
| "state_value PRECHECK_BLOCKED = ''PRECHECK_BLOCKED''"
| "state_value PRECHECK_UNKNOWN = ''PRECHECK_UNKNOWN''"
| "state_value PRECHECK_PASSED = ''PRECHECK_PASSED''"
| "state_value PRECHECK_CONDITIONAL = ''PRECHECK_CONDITIONAL''"
| "state_value REMEDIATION = ''REMEDIATION''"
| "state_value STRATEGY_READINESS_PENDING = ''STRATEGY_READINESS_PENDING''"
| "state_value NOT_READY = ''NOT_READY''"
| "state_value STRATEGY_READY = ''STRATEGY_READY''"
| "state_value STRATEGY_READY_WITH_CONDITIONS = ''STRATEGY_READY_WITH_CONDITIONS''"
| "state_value COMPUTING = ''COMPUTING''"
| "state_value SIMULATION_FAILED = ''SIMULATION_FAILED''"
| "state_value NO_FEASIBLE_STRATEGY = ''NO_FEASIBLE_STRATEGY''"
| "state_value RECOMMENDATION_REVIEW = ''RECOMMENDATION_REVIEW''"
| "state_value ELIGIBILITY_PENDING = ''ELIGIBILITY_PENDING''"
| "state_value INELIGIBLE = ''INELIGIBLE''"
| "state_value INDETERMINATE = ''INDETERMINATE''"
| "state_value ELIGIBLE = ''ELIGIBLE''"
| "state_value ELIGIBLE_WITH_ACCEPTED_RISK = ''ELIGIBLE_WITH_ACCEPTED_RISK''"
| "state_value ELIGIBLE_WITH_CONDITIONS = ''ELIGIBLE_WITH_CONDITIONS''"
| "state_value APPROVAL_PACKAGE_FROZEN = ''APPROVAL_PACKAGE_FROZEN''"
| "state_value APPROVAL_PENDING = ''APPROVAL_PENDING''"
| "state_value REJECTED = ''REJECTED''"
| "state_value PACKAGE_INVALIDATED = ''PACKAGE_INVALIDATED''"
| "state_value APPROVED_CONDITIONAL = ''APPROVED_CONDITIONAL''"
| "state_value CONDITION_CLOSURE = ''CONDITION_CLOSURE''"
| "state_value SUBMISSION_AUTHORIZED = ''SUBMISSION_AUTHORIZED''"
| "state_value DECISION_FROZEN = ''DECISION_FROZEN''"
| "state_value EXTERNAL_SUBMISSION_PENDING = ''EXTERNAL_SUBMISSION_PENDING''"
| "state_value SUBMISSION_DECLARED = ''SUBMISSION_DECLARED''"
| "state_value SUBMISSION_MISMATCH = ''SUBMISSION_MISMATCH''"
| "state_value SUBMISSION_FAILED = ''SUBMISSION_FAILED''"
| "state_value SUBMISSION_VERIFIED = ''SUBMISSION_VERIFIED''"
| "state_value OUTCOME_PENDING = ''OUTCOME_PENDING''"
| "state_value OUTCOME_UNVERIFIED = ''OUTCOME_UNVERIFIED''"
| "state_value OUTCOME_CONFLICTING = ''OUTCOME_CONFLICTING''"
| "state_value OUTCOME_VERIFIED = ''OUTCOME_VERIFIED''"
| "state_value AWARDED = ''AWARDED''"
| "state_value LOST = ''LOST''"
| "state_value DISQUALIFIED = ''DISQUALIFIED''"
| "state_value NO_BID = ''NO_BID''"
| "state_value WITHDRAWN = ''WITHDRAWN''"
| "state_value CANCELLED = ''CANCELLED''"
| "state_value PROCUREMENT_FAILED = ''PROCUREMENT_FAILED''"
| "state_value REWORK = ''REWORK''"
| "state_value CLOSED = ''CLOSED''"
| "state_value ARCHIVED = ''ARCHIVED''"

text \<open>The enumeration constructor \<open>DecisionUnitLifecycleState(token)\<close>; \<open>None\<close> when it raises.\<close>

definition state_of_value :: "string \<Rightarrow> lifecycle_state option" where
  "state_of_value v = map_of (map (\<lambda>s. (state_value s, s)) all_states) v"

definition TERMINAL_STATES :: "lifecycle_state list" where
  "TERMINAL_STATES =
     [AWARDED, LOST, DISQUALIFIED, NO_BID, WITHDRAWN, CANCELLED, PROCUREMENT_FAILED, CLOSED,
      ARCHIVED]"

definition SPINE :: "lifecycle_state list" where
  "SPINE =
     [DRAFT, DOCUMENTS_PARSING, REGIME_AND_SCOPE_PENDING, RULES_PENDING_CONFIRMATION,
      EVIDENCE_MATCHING, PRECHECK_PENDING, PRECHECK_PASSED, STRATEGY_READINESS_PENDING,
      STRATEGY_READY, COMPUTING, RECOMMENDATION_REVIEW, ELIGIBILITY_PENDING, ELIGIBLE,
      APPROVAL_PACKAGE_FROZEN, APPROVAL_PENDING, SUBMISSION_AUTHORIZED, DECISION_FROZEN,
      EXTERNAL_SUBMISSION_PENDING, SUBMISSION_DECLARED, SUBMISSION_VERIFIED, OUTCOME_PENDING,
      OUTCOME_VERIFIED]"

section \<open>Transitions\<close>

fun branches :: "lifecycle_state \<Rightarrow> lifecycle_state list" where
  "branches DRAFT =
     [DOCUMENTS_PARSING, REGIME_AND_SCOPE_PENDING]"
| "branches REGIME_AND_SCOPE_PENDING =
     [PORTFOLIO_REVIEW_REQUIRED, MULTI_ROUND_UNSUPPORTED, RULES_PENDING_CONFIRMATION]"
| "branches PORTFOLIO_REVIEW_REQUIRED =
     [REGIME_AND_SCOPE_PENDING]"
| "branches MULTI_ROUND_UNSUPPORTED =
     [REGIME_AND_SCOPE_PENDING]"
| "branches PRECHECK_PENDING =
     [PRECHECK_BLOCKED, PRECHECK_UNKNOWN, PRECHECK_PASSED, PRECHECK_CONDITIONAL]"
| "branches PRECHECK_BLOCKED =
     [REMEDIATION, PRECHECK_PENDING]"
| "branches PRECHECK_UNKNOWN =
     [REMEDIATION, PRECHECK_PENDING]"
| "branches PRECHECK_CONDITIONAL =
     [STRATEGY_READINESS_PENDING]"
| "branches REMEDIATION =
     [PRECHECK_PENDING, RULES_PENDING_CONFIRMATION]"
| "branches STRATEGY_READINESS_PENDING =
     [NOT_READY, STRATEGY_READY, STRATEGY_READY_WITH_CONDITIONS]"
| "branches NOT_READY =
     [STRATEGY_READINESS_PENDING]"
| "branches STRATEGY_READY_WITH_CONDITIONS =
     [COMPUTING]"
| "branches COMPUTING =
     [SIMULATION_FAILED, NO_FEASIBLE_STRATEGY, RECOMMENDATION_REVIEW]"
| "branches SIMULATION_FAILED =
     [COMPUTING, REWORK]"
| "branches NO_FEASIBLE_STRATEGY =
     [REWORK, COMPUTING]"
| "branches ELIGIBILITY_PENDING =
     [INELIGIBLE, INDETERMINATE, ELIGIBLE, ELIGIBLE_WITH_ACCEPTED_RISK, ELIGIBLE_WITH_CONDITIONS]"
| "branches INELIGIBLE =
     [REWORK]"
| "branches INDETERMINATE =
     [ELIGIBILITY_PENDING, REWORK]"
| "branches ELIGIBLE_WITH_ACCEPTED_RISK =
     [APPROVAL_PACKAGE_FROZEN]"
| "branches ELIGIBLE_WITH_CONDITIONS =
     [APPROVAL_PACKAGE_FROZEN]"
| "branches APPROVAL_PENDING =
     [REJECTED, PACKAGE_INVALIDATED, APPROVED_CONDITIONAL, SUBMISSION_AUTHORIZED]"
| "branches REJECTED =
     [REWORK]"
| "branches PACKAGE_INVALIDATED =
     [REWORK, APPROVAL_PACKAGE_FROZEN]"
| "branches APPROVED_CONDITIONAL =
     [CONDITION_CLOSURE, SUBMISSION_AUTHORIZED]"
| "branches CONDITION_CLOSURE =
     [SUBMISSION_AUTHORIZED, REWORK]"
| "branches EXTERNAL_SUBMISSION_PENDING =
     [SUBMISSION_DECLARED, SUBMISSION_FAILED]"
| "branches SUBMISSION_DECLARED =
     [SUBMISSION_VERIFIED, SUBMISSION_MISMATCH, SUBMISSION_FAILED]"
| "branches SUBMISSION_MISMATCH =
     [EXTERNAL_SUBMISSION_PENDING, REWORK]"
| "branches SUBMISSION_FAILED =
     [EXTERNAL_SUBMISSION_PENDING, REWORK]"
| "branches OUTCOME_PENDING =
     [OUTCOME_UNVERIFIED, OUTCOME_CONFLICTING, OUTCOME_VERIFIED]"
| "branches OUTCOME_UNVERIFIED =
     [OUTCOME_PENDING, OUTCOME_VERIFIED]"
| "branches OUTCOME_CONFLICTING =
     [OUTCOME_PENDING]"
| "branches OUTCOME_VERIFIED =
     [AWARDED, LOST, DISQUALIFIED]"
| "branches REWORK =
     [RULES_PENDING_CONFIRMATION, EVIDENCE_MATCHING, PRECHECK_PENDING, STRATEGY_READINESS_PENDING]"
| "branches _ = []"

definition EARLY_EXIT :: "lifecycle_state list" where
  "EARLY_EXIT =
     [CANCELLED, NO_BID, WITHDRAWN, PROCUREMENT_FAILED]"

definition REOPEN_FROM :: "lifecycle_state list" where
  "REOPEN_FROM =
     [CANCELLED, WITHDRAWN, NO_BID, PROCUREMENT_FAILED, CLOSED, MULTI_ROUND_UNSUPPORTED,
      PORTFOLIO_REVIEW_REQUIRED]"

fun successor_in :: "lifecycle_state list \<Rightarrow> lifecycle_state \<Rightarrow> lifecycle_state option" where
  "successor_in (x # y # xs) s = (if x = s then Some y else successor_in (y # xs) s)"
| "successor_in _ s = None"

definition spine_successor :: "lifecycle_state \<Rightarrow> lifecycle_state option" where
  "spine_successor s = successor_in SPINE s"

definition allowed_targets :: "lifecycle_state \<Rightarrow> lifecycle_state list" where
  "allowed_targets current =
     fromkeys (branches current @
       (case spine_successor current of None \<Rightarrow> [] | Some s \<Rightarrow> [s]) @
       (if current \<notin> set TERMINAL_STATES then EARLY_EXIT @ [REWORK] else []) @
       (if current \<in> set [AWARDED, LOST, DISQUALIFIED, NO_BID, WITHDRAWN, CANCELLED, PROCUREMENT_FAILED,
             OUTCOME_VERIFIED] then [CLOSED] else []) @
       (if current = CLOSED then [ARCHIVED] else []))"

text \<open>
  \<open>resolve_transition\<close>: the next state and whether the command is the REOPENED event.
\<close>

definition resolve_transition ::
  "lifecycle_state \<Rightarrow> string \<Rightarrow> lifecycle_state option \<Rightarrow> (lifecycle_state \<times> bool) res" where
  "resolve_transition current command resume_state =
     (let token = upper (strip command) in
      if token = ''REOPENED'' then
        if current \<notin> set REOPEN_FROM then Inl (BiaiceError ''REQUEST_VALIDATION_FAILED'')
        else
          let nxt = (case resume_state of Some s \<Rightarrow> s | None \<Rightarrow> REGIME_AND_SCOPE_PENDING) in
          if nxt \<in> set TERMINAL_STATES then Inl (BiaiceError ''REQUEST_VALIDATION_FAILED'')
          else Inr (nxt, True)
      else
        case state_of_value token of
          None \<Rightarrow> Inl (BiaiceError ''REQUEST_VALIDATION_FAILED'')
        | Some target \<Rightarrow>
            if target \<notin> set (allowed_targets current) then Inl (BiaiceError ''REQUEST_VALIDATION_FAILED'')
            else Inr (target, False))"

section \<open>The table of targets\<close>

lemma all_states_complete: "s \<in> set all_states"
  by (cases s) (simp_all add: all_states_def)

text \<open>A computable property of all states is checked by evaluation.\<close>

lemma for_all_states: "list_all P all_states \<Longrightarrow> P s"
  using all_states_complete [of s] by (simp add: list_all_iff)

text \<open>The table the definition amounts to, state by state.\<close>

primrec targets :: "lifecycle_state \<Rightarrow> lifecycle_state list" where
  "targets DRAFT =
     [DOCUMENTS_PARSING, REGIME_AND_SCOPE_PENDING, CANCELLED, NO_BID, WITHDRAWN,
      PROCUREMENT_FAILED, REWORK]"
| "targets DOCUMENTS_PARSING =
     [REGIME_AND_SCOPE_PENDING, CANCELLED, NO_BID, WITHDRAWN, PROCUREMENT_FAILED, REWORK]"
| "targets REGIME_AND_SCOPE_PENDING =
     [PORTFOLIO_REVIEW_REQUIRED, MULTI_ROUND_UNSUPPORTED, RULES_PENDING_CONFIRMATION, CANCELLED,
      NO_BID, WITHDRAWN, PROCUREMENT_FAILED, REWORK]"
| "targets PORTFOLIO_REVIEW_REQUIRED =
     [REGIME_AND_SCOPE_PENDING, CANCELLED, NO_BID, WITHDRAWN, PROCUREMENT_FAILED, REWORK]"
| "targets MULTI_ROUND_UNSUPPORTED =
     [REGIME_AND_SCOPE_PENDING, CANCELLED, NO_BID, WITHDRAWN, PROCUREMENT_FAILED, REWORK]"
| "targets RULES_PENDING_CONFIRMATION =
     [EVIDENCE_MATCHING, CANCELLED, NO_BID, WITHDRAWN, PROCUREMENT_FAILED, REWORK]"
| "targets EVIDENCE_MATCHING =
     [PRECHECK_PENDING, CANCELLED, NO_BID, WITHDRAWN, PROCUREMENT_FAILED, REWORK]"
| "targets PRECHECK_PENDING =
     [PRECHECK_BLOCKED, PRECHECK_UNKNOWN, PRECHECK_PASSED, PRECHECK_CONDITIONAL, CANCELLED,
      NO_BID, WITHDRAWN, PROCUREMENT_FAILED, REWORK]"
| "targets PRECHECK_BLOCKED =
     [REMEDIATION, PRECHECK_PENDING, CANCELLED, NO_BID, WITHDRAWN, PROCUREMENT_FAILED, REWORK]"
| "targets PRECHECK_UNKNOWN =
     [REMEDIATION, PRECHECK_PENDING, CANCELLED, NO_BID, WITHDRAWN, PROCUREMENT_FAILED, REWORK]"
| "targets PRECHECK_PASSED =
     [STRATEGY_READINESS_PENDING, CANCELLED, NO_BID, WITHDRAWN, PROCUREMENT_FAILED, REWORK]"
| "targets PRECHECK_CONDITIONAL =
     [STRATEGY_READINESS_PENDING, CANCELLED, NO_BID, WITHDRAWN, PROCUREMENT_FAILED, REWORK]"
| "targets REMEDIATION =
     [PRECHECK_PENDING, RULES_PENDING_CONFIRMATION, CANCELLED, NO_BID, WITHDRAWN,
      PROCUREMENT_FAILED, REWORK]"
| "targets STRATEGY_READINESS_PENDING =
     [NOT_READY, STRATEGY_READY, STRATEGY_READY_WITH_CONDITIONS, CANCELLED, NO_BID, WITHDRAWN,
      PROCUREMENT_FAILED, REWORK]"
| "targets NOT_READY =
     [STRATEGY_READINESS_PENDING, CANCELLED, NO_BID, WITHDRAWN, PROCUREMENT_FAILED, REWORK]"
| "targets STRATEGY_READY =
     [COMPUTING, CANCELLED, NO_BID, WITHDRAWN, PROCUREMENT_FAILED, REWORK]"
| "targets STRATEGY_READY_WITH_CONDITIONS =
     [COMPUTING, CANCELLED, NO_BID, WITHDRAWN, PROCUREMENT_FAILED, REWORK]"
| "targets COMPUTING =
     [SIMULATION_FAILED, NO_FEASIBLE_STRATEGY, RECOMMENDATION_REVIEW, CANCELLED, NO_BID,
      WITHDRAWN, PROCUREMENT_FAILED, REWORK]"
| "targets SIMULATION_FAILED =
     [COMPUTING, REWORK, CANCELLED, NO_BID, WITHDRAWN, PROCUREMENT_FAILED]"
| "targets NO_FEASIBLE_STRATEGY =
     [REWORK, COMPUTING, CANCELLED, NO_BID, WITHDRAWN, PROCUREMENT_FAILED]"
| "targets RECOMMENDATION_REVIEW =
     [ELIGIBILITY_PENDING, CANCELLED, NO_BID, WITHDRAWN, PROCUREMENT_FAILED, REWORK]"
| "targets ELIGIBILITY_PENDING =
     [INELIGIBLE, INDETERMINATE, ELIGIBLE, ELIGIBLE_WITH_ACCEPTED_RISK, ELIGIBLE_WITH_CONDITIONS,
      CANCELLED, NO_BID, WITHDRAWN, PROCUREMENT_FAILED, REWORK]"
| "targets INELIGIBLE =
     [REWORK, CANCELLED, NO_BID, WITHDRAWN, PROCUREMENT_FAILED]"
| "targets INDETERMINATE =
     [ELIGIBILITY_PENDING, REWORK, CANCELLED, NO_BID, WITHDRAWN, PROCUREMENT_FAILED]"
| "targets ELIGIBLE =
     [APPROVAL_PACKAGE_FROZEN, CANCELLED, NO_BID, WITHDRAWN, PROCUREMENT_FAILED, REWORK]"
| "targets ELIGIBLE_WITH_ACCEPTED_RISK =
     [APPROVAL_PACKAGE_FROZEN, CANCELLED, NO_BID, WITHDRAWN, PROCUREMENT_FAILED, REWORK]"
| "targets ELIGIBLE_WITH_CONDITIONS =
     [APPROVAL_PACKAGE_FROZEN, CANCELLED, NO_BID, WITHDRAWN, PROCUREMENT_FAILED, REWORK]"
| "targets APPROVAL_PACKAGE_FROZEN =
     [APPROVAL_PENDING, CANCELLED, NO_BID, WITHDRAWN, PROCUREMENT_FAILED, REWORK]"
| "targets APPROVAL_PENDING =
     [REJECTED, PACKAGE_INVALIDATED, APPROVED_CONDITIONAL, SUBMISSION_AUTHORIZED, CANCELLED,
      NO_BID, WITHDRAWN, PROCUREMENT_FAILED, REWORK]"
| "targets REJECTED =
     [REWORK, CANCELLED, NO_BID, WITHDRAWN, PROCUREMENT_FAILED]"
| "targets PACKAGE_INVALIDATED =
     [REWORK, APPROVAL_PACKAGE_FROZEN, CANCELLED, NO_BID, WITHDRAWN, PROCUREMENT_FAILED]"
| "targets APPROVED_CONDITIONAL =
     [CONDITION_CLOSURE, SUBMISSION_AUTHORIZED, CANCELLED, NO_BID, WITHDRAWN, PROCUREMENT_FAILED,
      REWORK]"
| "targets CONDITION_CLOSURE =
     [SUBMISSION_AUTHORIZED, REWORK, CANCELLED, NO_BID, WITHDRAWN, PROCUREMENT_FAILED]"
| "targets SUBMISSION_AUTHORIZED =
     [DECISION_FROZEN, CANCELLED, NO_BID, WITHDRAWN, PROCUREMENT_FAILED, REWORK]"
| "targets DECISION_FROZEN =
     [EXTERNAL_SUBMISSION_PENDING, CANCELLED, NO_BID, WITHDRAWN, PROCUREMENT_FAILED, REWORK]"
| "targets EXTERNAL_SUBMISSION_PENDING =
     [SUBMISSION_DECLARED, SUBMISSION_FAILED, CANCELLED, NO_BID, WITHDRAWN, PROCUREMENT_FAILED,
      REWORK]"
| "targets SUBMISSION_DECLARED =
     [SUBMISSION_VERIFIED, SUBMISSION_MISMATCH, SUBMISSION_FAILED, CANCELLED, NO_BID, WITHDRAWN,
      PROCUREMENT_FAILED, REWORK]"
| "targets SUBMISSION_MISMATCH =
     [EXTERNAL_SUBMISSION_PENDING, REWORK, CANCELLED, NO_BID, WITHDRAWN, PROCUREMENT_FAILED]"
| "targets SUBMISSION_FAILED =
     [EXTERNAL_SUBMISSION_PENDING, REWORK, CANCELLED, NO_BID, WITHDRAWN, PROCUREMENT_FAILED]"
| "targets SUBMISSION_VERIFIED =
     [OUTCOME_PENDING, CANCELLED, NO_BID, WITHDRAWN, PROCUREMENT_FAILED, REWORK]"
| "targets OUTCOME_PENDING =
     [OUTCOME_UNVERIFIED, OUTCOME_CONFLICTING, OUTCOME_VERIFIED, CANCELLED, NO_BID, WITHDRAWN,
      PROCUREMENT_FAILED, REWORK]"
| "targets OUTCOME_UNVERIFIED =
     [OUTCOME_PENDING, OUTCOME_VERIFIED, CANCELLED, NO_BID, WITHDRAWN, PROCUREMENT_FAILED, REWORK]"
| "targets OUTCOME_CONFLICTING =
     [OUTCOME_PENDING, CANCELLED, NO_BID, WITHDRAWN, PROCUREMENT_FAILED, REWORK]"
| "targets OUTCOME_VERIFIED =
     [AWARDED, LOST, DISQUALIFIED, CANCELLED, NO_BID, WITHDRAWN, PROCUREMENT_FAILED, REWORK,
      CLOSED]"
| "targets AWARDED =
     [CLOSED]"
| "targets LOST =
     [CLOSED]"
| "targets DISQUALIFIED =
     [CLOSED]"
| "targets NO_BID =
     [CLOSED]"
| "targets WITHDRAWN =
     [CLOSED]"
| "targets CANCELLED =
     [CLOSED]"
| "targets PROCUREMENT_FAILED =
     [CLOSED]"
| "targets REWORK =
     [RULES_PENDING_CONFIRMATION, EVIDENCE_MATCHING, PRECHECK_PENDING,
      STRATEGY_READINESS_PENDING, CANCELLED, NO_BID, WITHDRAWN, PROCUREMENT_FAILED, REWORK]"
| "targets CLOSED =
     [ARCHIVED]"
| "targets ARCHIVED =
     []"

lemma allowed_targets_table: "allowed_targets s = targets s"
  by (rule for_all_states) code_simp

text \<open>Progress: the stage of a state, and the states by which a stage is entered.\<close>

primrec stage :: "lifecycle_state \<Rightarrow> nat" where
  "stage DRAFT = 0"
| "stage DOCUMENTS_PARSING = 0"
| "stage REGIME_AND_SCOPE_PENDING = 0"
| "stage PORTFOLIO_REVIEW_REQUIRED = 0"
| "stage MULTI_ROUND_UNSUPPORTED = 0"
| "stage RULES_PENDING_CONFIRMATION = 0"
| "stage EVIDENCE_MATCHING = 0"
| "stage PRECHECK_PENDING = 0"
| "stage PRECHECK_BLOCKED = 0"
| "stage PRECHECK_UNKNOWN = 0"
| "stage PRECHECK_PASSED = 0"
| "stage PRECHECK_CONDITIONAL = 0"
| "stage REMEDIATION = 0"
| "stage STRATEGY_READINESS_PENDING = 1"
| "stage NOT_READY = 1"
| "stage STRATEGY_READY = 2"
| "stage STRATEGY_READY_WITH_CONDITIONS = 2"
| "stage COMPUTING = 3"
| "stage SIMULATION_FAILED = 3"
| "stage NO_FEASIBLE_STRATEGY = 3"
| "stage RECOMMENDATION_REVIEW = 4"
| "stage ELIGIBILITY_PENDING = 5"
| "stage INELIGIBLE = 5"
| "stage INDETERMINATE = 5"
| "stage ELIGIBLE = 6"
| "stage ELIGIBLE_WITH_ACCEPTED_RISK = 6"
| "stage ELIGIBLE_WITH_CONDITIONS = 6"
| "stage APPROVAL_PACKAGE_FROZEN = 7"
| "stage APPROVAL_PENDING = 8"
| "stage REJECTED = 8"
| "stage PACKAGE_INVALIDATED = 8"
| "stage APPROVED_CONDITIONAL = 8"
| "stage CONDITION_CLOSURE = 8"
| "stage SUBMISSION_AUTHORIZED = 9"
| "stage DECISION_FROZEN = 10"
| "stage EXTERNAL_SUBMISSION_PENDING = 11"
| "stage SUBMISSION_DECLARED = 12"
| "stage SUBMISSION_MISMATCH = 11"
| "stage SUBMISSION_FAILED = 11"
| "stage SUBMISSION_VERIFIED = 13"
| "stage OUTCOME_PENDING = 14"
| "stage OUTCOME_UNVERIFIED = 14"
| "stage OUTCOME_CONFLICTING = 14"
| "stage OUTCOME_VERIFIED = 15"
| "stage AWARDED = 16"
| "stage LOST = 16"
| "stage DISQUALIFIED = 16"
| "stage NO_BID = 0"
| "stage WITHDRAWN = 0"
| "stage CANCELLED = 0"
| "stage PROCUREMENT_FAILED = 0"
| "stage REWORK = 0"
| "stage CLOSED = 0"
| "stage ARCHIVED = 0"

primrec milestone :: "lifecycle_state \<Rightarrow> bool" where
  "milestone DRAFT = False"
| "milestone DOCUMENTS_PARSING = False"
| "milestone REGIME_AND_SCOPE_PENDING = False"
| "milestone PORTFOLIO_REVIEW_REQUIRED = False"
| "milestone MULTI_ROUND_UNSUPPORTED = False"
| "milestone RULES_PENDING_CONFIRMATION = False"
| "milestone EVIDENCE_MATCHING = False"
| "milestone PRECHECK_PENDING = False"
| "milestone PRECHECK_BLOCKED = False"
| "milestone PRECHECK_UNKNOWN = False"
| "milestone PRECHECK_PASSED = False"
| "milestone PRECHECK_CONDITIONAL = False"
| "milestone REMEDIATION = False"
| "milestone STRATEGY_READINESS_PENDING = True"
| "milestone NOT_READY = False"
| "milestone STRATEGY_READY = True"
| "milestone STRATEGY_READY_WITH_CONDITIONS = True"
| "milestone COMPUTING = True"
| "milestone SIMULATION_FAILED = False"
| "milestone NO_FEASIBLE_STRATEGY = False"
| "milestone RECOMMENDATION_REVIEW = True"
| "milestone ELIGIBILITY_PENDING = True"
| "milestone INELIGIBLE = False"
| "milestone INDETERMINATE = False"
| "milestone ELIGIBLE = True"
| "milestone ELIGIBLE_WITH_ACCEPTED_RISK = True"
| "milestone ELIGIBLE_WITH_CONDITIONS = True"
| "milestone APPROVAL_PACKAGE_FROZEN = True"
| "milestone APPROVAL_PENDING = True"
| "milestone REJECTED = False"
| "milestone PACKAGE_INVALIDATED = False"
| "milestone APPROVED_CONDITIONAL = False"
| "milestone CONDITION_CLOSURE = False"
| "milestone SUBMISSION_AUTHORIZED = True"
| "milestone DECISION_FROZEN = True"
| "milestone EXTERNAL_SUBMISSION_PENDING = True"
| "milestone SUBMISSION_DECLARED = True"
| "milestone SUBMISSION_MISMATCH = False"
| "milestone SUBMISSION_FAILED = False"
| "milestone SUBMISSION_VERIFIED = True"
| "milestone OUTCOME_PENDING = True"
| "milestone OUTCOME_UNVERIFIED = False"
| "milestone OUTCOME_CONFLICTING = False"
| "milestone OUTCOME_VERIFIED = True"
| "milestone AWARDED = True"
| "milestone LOST = True"
| "milestone DISQUALIFIED = True"
| "milestone NO_BID = False"
| "milestone WITHDRAWN = False"
| "milestone CANCELLED = False"
| "milestone PROCUREMENT_FAILED = False"
| "milestone REWORK = False"
| "milestone CLOSED = False"
| "milestone ARCHIVED = False"

lemma step_stage:
  assumes "t \<in> set (allowed_targets s)"
  shows "stage t \<le> stage s \<or> stage t = Suc (stage s) \<and> milestone t"
proof -
  have "list_all (\<lambda>t. stage t \<le> stage s \<or> stage t = Suc (stage s) \<and> milestone t) (targets s)"
    by (rule for_all_states) code_simp
  with assms show ?thesis by (simp add: allowed_targets_table list_all_iff)
qed

section \<open>Paths of ordinary commands\<close>

text \<open>
  \<open>lifecycle_path s ps t\<close>: a sequence of accepted commands other than REOPENED takes
  \<open>s\<close> through the states \<open>ps\<close>, of which \<open>t\<close> is the last.
\<close>

inductive lifecycle_path :: "lifecycle_state \<Rightarrow> lifecycle_state list \<Rightarrow> lifecycle_state \<Rightarrow> bool" where
  path_done: "lifecycle_path s [] s"
| path_step: "resolve_transition s command resume = Inr (u, False) \<Longrightarrow> lifecycle_path u ps t \<Longrightarrow>
    lifecycle_path s (u # ps) t"

inductive_cases lifecycle_pathE: "lifecycle_path s ps t"

lemma resolve_ordinary: "resolve_transition s command resume = Inr (u, False) \<Longrightarrow> u \<in> set (allowed_targets s)"
  by (auto simp: resolve_transition_def Let_def split: if_splits option.splits)

lemma state_of_value_value [simp]: "state_of_value (state_value s) = Some s"
  by (rule for_all_states) code_simp

lemma resolve_reopened:
  "resolve_transition s command resume = Inr (u, True) \<longleftrightarrow>
     upper (strip command) = ''REOPENED'' \<and> s \<in> set REOPEN_FROM \<and> u \<notin> set TERMINAL_STATES \<and>
     u = (case resume of Some r \<Rightarrow> r | None \<Rightarrow> REGIME_AND_SCOPE_PENDING)"
  by (auto simp: resolve_transition_def Let_def split: if_splits option.splits)

text \<open>Raising the stage passes every stage in between at its milestone.\<close>

lemma path_milestones:
  "lifecycle_path s ps t \<Longrightarrow> stage s < k \<Longrightarrow> k \<le> stage t \<Longrightarrow> \<exists>e \<in> set ps. stage e = k \<and> milestone e"
proof (induction rule: lifecycle_path.induct)
  case (path_done s)
  then show ?case by simp
next
  case (path_step s command resume u ps t)
  from step_stage [OF resolve_ordinary [OF path_step.hyps(1)]]
  consider "stage u < k" | "stage u = k" "milestone u"
    using path_step.prems by linarith
  then show ?case
    using path_step.IH path_step.prems by cases auto
qed

text \<open>The states a command can be given for: one canonical spelling per target.\<close>

lemma upper_strip_state_value: "upper (strip (state_value s)) = state_value s \<and> state_value s \<noteq> ''REOPENED''"
  by (rule for_all_states) code_simp

lemma resolve_allowed:
  "u \<in> set (allowed_targets s) \<Longrightarrow> resolve_transition s (state_value u) resume = Inr (u, False)"
  by (simp add: resolve_transition_def upper_strip_state_value)

definition entries :: "nat \<Rightarrow> lifecycle_state list" where
  "entries k = filter (\<lambda>s. stage s = k \<and> milestone s) all_states"

lemma entriesI: "stage e = k \<Longrightarrow> milestone e \<Longrightarrow> e \<in> set (entries k)"
  by (simp add: entries_def all_states_complete)

lemma entries_table:
  "entries (Suc 0) = [STRATEGY_READINESS_PENDING]" "entries 3 = [COMPUTING]" "entries 4 = [RECOMMENDATION_REVIEW]"
  "entries 5 = [ELIGIBILITY_PENDING]" "entries 6 = [ELIGIBLE, ELIGIBLE_WITH_ACCEPTED_RISK, ELIGIBLE_WITH_CONDITIONS]"
  "entries 7 = [APPROVAL_PACKAGE_FROZEN]" "entries 8 = [APPROVAL_PENDING]" "entries 9 = [SUBMISSION_AUTHORIZED]"
  "entries 13 = [SUBMISSION_VERIFIED]" "entries 15 = [OUTCOME_VERIFIED]"
  by code_simp+

lemma path_entry:
  assumes "lifecycle_path s ps t" and "stage s < k" and "k \<le> stage t"
  shows "set (entries k) \<inter> set ps \<noteq> {}"
  using path_milestones [OF assms] entriesI by blast

lemma milestones_passed:
  assumes path: "lifecycle_path s ps t" and start: "s \<in> {DRAFT, REWORK}"
    and goal: "t \<in> {SUBMISSION_AUTHORIZED, AWARDED}"
  shows "{STRATEGY_READINESS_PENDING, COMPUTING, RECOMMENDATION_REVIEW, ELIGIBILITY_PENDING,
      APPROVAL_PACKAGE_FROZEN, APPROVAL_PENDING, SUBMISSION_AUTHORIZED} \<subseteq> set ps \<and>
    {ELIGIBLE, ELIGIBLE_WITH_ACCEPTED_RISK, ELIGIBLE_WITH_CONDITIONS} \<inter> set ps \<noteq> {} \<and>
    (t = AWARDED \<longrightarrow> {SUBMISSION_VERIFIED, OUTCOME_VERIFIED} \<subseteq> set ps)"
proof -
  have low: "stage s = 0" using start by auto
  have high: "9 \<le> stage t" "t = AWARDED \<Longrightarrow> 15 \<le> stage t" using goal by auto
  have e: "set (entries k) \<inter> set ps \<noteq> {}" if "0 < k" "k \<le> stage t" for k
    using path_entry [OF path] low that by simp
  from e [of "Suc 0"] e [of 3] e [of 4] e [of 5] e [of 6] e [of 7] e [of 8] e [of 9] high(1)
  have "STRATEGY_READINESS_PENDING \<in> set ps" "COMPUTING \<in> set ps" "RECOMMENDATION_REVIEW \<in> set ps"
    "ELIGIBILITY_PENDING \<in> set ps" "APPROVAL_PACKAGE_FROZEN \<in> set ps" "APPROVAL_PENDING \<in> set ps"
    "SUBMISSION_AUTHORIZED \<in> set ps"
    "{ELIGIBLE, ELIGIBLE_WITH_ACCEPTED_RISK, ELIGIBLE_WITH_CONDITIONS} \<inter> set ps \<noteq> {}"
    by (simp_all add: entries_table)
  moreover have "SUBMISSION_VERIFIED \<in> set ps \<and> OUTCOME_VERIFIED \<in> set ps" if "t = AWARDED"
    using e [of 13] e [of 15] high(2) [OF that] by (simp add: entries_table)
  ultimately show ?thesis by auto
qed

text \<open>
  C6. Submission needs approval: from a draft or from rework, no sequence of ordinary commands
  authorises the submission without passing readiness, computation, recommendation review, the
  eligibility assessment and an eligible outcome, the frozen approval package and the pending
  approval; and no sequence reaches an award without the authorised and verified submission and
  a verified outcome.
\<close>

theorem submission_needs_approval:
  assumes path: "lifecycle_path s ps t" and start: "s \<in> {DRAFT, REWORK}"
    and goal: "t \<in> {SUBMISSION_AUTHORIZED, AWARDED}"
  shows "{STRATEGY_READINESS_PENDING, COMPUTING, RECOMMENDATION_REVIEW, ELIGIBILITY_PENDING,
      APPROVAL_PACKAGE_FROZEN, APPROVAL_PENDING, SUBMISSION_AUTHORIZED} \<subseteq> set ps \<and>
    {ELIGIBLE, ELIGIBLE_WITH_ACCEPTED_RISK, ELIGIBLE_WITH_CONDITIONS} \<inter> set ps \<noteq> {} \<and>
    (t = AWARDED \<longrightarrow> {SUBMISSION_VERIFIED, OUTCOME_VERIFIED} \<subseteq> set ps)"
  using milestones_passed [OF assms] .

text \<open>A concrete run of commands from rework to the authorised submission.\<close>

lemma path_allowed:
  "u \<in> set (allowed_targets s) \<Longrightarrow> lifecycle_path u ps t \<Longrightarrow> lifecycle_path s (u # ps) t"
  by (rule path_step [OF resolve_allowed])

lemma target_in: "t \<in> set (targets s) \<Longrightarrow> t \<in> set (allowed_targets s)"
  by (simp add: allowed_targets_table)

definition shortest_authorisation :: "lifecycle_state list" where
  "shortest_authorisation = [STRATEGY_READINESS_PENDING, STRATEGY_READY, COMPUTING, RECOMMENDATION_REVIEW,
     ELIGIBILITY_PENDING, ELIGIBLE, APPROVAL_PACKAGE_FROZEN, APPROVAL_PENDING, SUBMISSION_AUTHORIZED]"

lemma rework_to_authorised: "lifecycle_path REWORK shortest_authorisation SUBMISSION_AUTHORIZED"
  unfolding shortest_authorisation_def
  by (intro path_allowed target_in path_done) (simp_all only: targets.simps set_simps insert_iff simp_thms)

theorem submission_needs_approval_witness:
  "lifecycle_path REWORK shortest_authorisation SUBMISSION_AUTHORIZED \<and> APPROVAL_PENDING \<in> set shortest_authorisation"
  using submission_needs_approval [OF rework_to_authorised] rework_to_authorised by simp

text \<open>
  Two ways around the lifecycle. A draft may be put into rework and from there straight to
  strategy readiness, so a submission can be authorised without the scope, rules, evidence and
  precheck states; and a cancelled unit may be reopened directly into any non-terminal state the
  caller names, so two commands take a draft to an authorised submission with no approval.
\<close>

theorem lifecycle_shortcuts:
  "lifecycle_path DRAFT (REWORK # shortest_authorisation) SUBMISSION_AUTHORIZED \<and>
   {REGIME_AND_SCOPE_PENDING, RULES_PENDING_CONFIRMATION, EVIDENCE_MATCHING, PRECHECK_PENDING, PRECHECK_PASSED}
     \<inter> set (REWORK # shortest_authorisation) = {} \<and>
   resolve_transition DRAFT ''CANCELLED'' None = Inr (CANCELLED, False) \<and>
   resolve_transition CANCELLED ''REOPENED'' (Some SUBMISSION_AUTHORIZED) = Inr (SUBMISSION_AUTHORIZED, True)"
proof (intro conjI)
  show "lifecycle_path DRAFT (REWORK # shortest_authorisation) SUBMISSION_AUTHORIZED"
    by (rule path_allowed [OF target_in rework_to_authorised]) simp
  show "resolve_transition DRAFT ''CANCELLED'' None = Inr (CANCELLED, False)"
    by code_simp
  show "resolve_transition CANCELLED ''REOPENED'' (Some SUBMISSION_AUTHORIZED) = Inr (SUBMISSION_AUTHORIZED, True)"
    by code_simp
qed (simp add: shortest_authorisation_def)

primrec closing :: "lifecycle_state \<Rightarrow> lifecycle_state list" where
  "closing DRAFT = [CANCELLED, CLOSED, ARCHIVED]"
| "closing DOCUMENTS_PARSING = [CANCELLED, CLOSED, ARCHIVED]"
| "closing REGIME_AND_SCOPE_PENDING = [CANCELLED, CLOSED, ARCHIVED]"
| "closing PORTFOLIO_REVIEW_REQUIRED = [CANCELLED, CLOSED, ARCHIVED]"
| "closing MULTI_ROUND_UNSUPPORTED = [CANCELLED, CLOSED, ARCHIVED]"
| "closing RULES_PENDING_CONFIRMATION = [CANCELLED, CLOSED, ARCHIVED]"
| "closing EVIDENCE_MATCHING = [CANCELLED, CLOSED, ARCHIVED]"
| "closing PRECHECK_PENDING = [CANCELLED, CLOSED, ARCHIVED]"
| "closing PRECHECK_BLOCKED = [CANCELLED, CLOSED, ARCHIVED]"
| "closing PRECHECK_UNKNOWN = [CANCELLED, CLOSED, ARCHIVED]"
| "closing PRECHECK_PASSED = [CANCELLED, CLOSED, ARCHIVED]"
| "closing PRECHECK_CONDITIONAL = [CANCELLED, CLOSED, ARCHIVED]"
| "closing REMEDIATION = [CANCELLED, CLOSED, ARCHIVED]"
| "closing STRATEGY_READINESS_PENDING = [CANCELLED, CLOSED, ARCHIVED]"
| "closing NOT_READY = [CANCELLED, CLOSED, ARCHIVED]"
| "closing STRATEGY_READY = [CANCELLED, CLOSED, ARCHIVED]"
| "closing STRATEGY_READY_WITH_CONDITIONS = [CANCELLED, CLOSED, ARCHIVED]"
| "closing COMPUTING = [CANCELLED, CLOSED, ARCHIVED]"
| "closing SIMULATION_FAILED = [CANCELLED, CLOSED, ARCHIVED]"
| "closing NO_FEASIBLE_STRATEGY = [CANCELLED, CLOSED, ARCHIVED]"
| "closing RECOMMENDATION_REVIEW = [CANCELLED, CLOSED, ARCHIVED]"
| "closing ELIGIBILITY_PENDING = [CANCELLED, CLOSED, ARCHIVED]"
| "closing INELIGIBLE = [CANCELLED, CLOSED, ARCHIVED]"
| "closing INDETERMINATE = [CANCELLED, CLOSED, ARCHIVED]"
| "closing ELIGIBLE = [CANCELLED, CLOSED, ARCHIVED]"
| "closing ELIGIBLE_WITH_ACCEPTED_RISK = [CANCELLED, CLOSED, ARCHIVED]"
| "closing ELIGIBLE_WITH_CONDITIONS = [CANCELLED, CLOSED, ARCHIVED]"
| "closing APPROVAL_PACKAGE_FROZEN = [CANCELLED, CLOSED, ARCHIVED]"
| "closing APPROVAL_PENDING = [CANCELLED, CLOSED, ARCHIVED]"
| "closing REJECTED = [CANCELLED, CLOSED, ARCHIVED]"
| "closing PACKAGE_INVALIDATED = [CANCELLED, CLOSED, ARCHIVED]"
| "closing APPROVED_CONDITIONAL = [CANCELLED, CLOSED, ARCHIVED]"
| "closing CONDITION_CLOSURE = [CANCELLED, CLOSED, ARCHIVED]"
| "closing SUBMISSION_AUTHORIZED = [CANCELLED, CLOSED, ARCHIVED]"
| "closing DECISION_FROZEN = [CANCELLED, CLOSED, ARCHIVED]"
| "closing EXTERNAL_SUBMISSION_PENDING = [CANCELLED, CLOSED, ARCHIVED]"
| "closing SUBMISSION_DECLARED = [CANCELLED, CLOSED, ARCHIVED]"
| "closing SUBMISSION_MISMATCH = [CANCELLED, CLOSED, ARCHIVED]"
| "closing SUBMISSION_FAILED = [CANCELLED, CLOSED, ARCHIVED]"
| "closing SUBMISSION_VERIFIED = [CANCELLED, CLOSED, ARCHIVED]"
| "closing OUTCOME_PENDING = [CANCELLED, CLOSED, ARCHIVED]"
| "closing OUTCOME_UNVERIFIED = [CANCELLED, CLOSED, ARCHIVED]"
| "closing OUTCOME_CONFLICTING = [CANCELLED, CLOSED, ARCHIVED]"
| "closing OUTCOME_VERIFIED = [CLOSED, ARCHIVED]"
| "closing AWARDED = [CLOSED, ARCHIVED]"
| "closing LOST = [CLOSED, ARCHIVED]"
| "closing DISQUALIFIED = [CLOSED, ARCHIVED]"
| "closing NO_BID = [CLOSED, ARCHIVED]"
| "closing WITHDRAWN = [CLOSED, ARCHIVED]"
| "closing CANCELLED = [CLOSED, ARCHIVED]"
| "closing PROCUREMENT_FAILED = [CLOSED, ARCHIVED]"
| "closing REWORK = [CANCELLED, CLOSED, ARCHIVED]"
| "closing CLOSED = [ARCHIVED]"
| "closing ARCHIVED = []"

text \<open>
  No unit is stuck: from every state a sequence of at most three ordinary commands archives
  the unit; an archived unit accepts no command at all, and a terminal state other than CLOSED
  and ARCHIVED accepts only CLOSED or, where it may be reopened, REOPENED.
\<close>

theorem lifecycle_can_be_archived:
  "(\<exists>ps. length ps \<le> 3 \<and> lifecycle_path s ps ARCHIVED) \<and>
   resolve_transition ARCHIVED command resume = Inl (BiaiceError ''REQUEST_VALIDATION_FAILED'') \<and>
   (case resolve_transition AWARDED command resume of Inl _ \<Rightarrow> True | Inr r \<Rightarrow> r = (CLOSED, False)) \<and>
   (case resolve_transition CANCELLED command resume of Inl _ \<Rightarrow> True
    | Inr (u, reopened) \<Rightarrow> if reopened then u \<notin> set TERMINAL_STATES else u = CLOSED)"
proof (intro conjI)
  have archive: "lifecycle_path CLOSED [ARCHIVED] ARCHIVED"
    by (intro path_allowed target_in path_done) simp
  have cancel: "lifecycle_path CANCELLED [CLOSED, ARCHIVED] ARCHIVED"
    by (rule path_allowed [OF target_in archive]) simp
  have "closing s = [] \<and> s = ARCHIVED \<or> closing s = [ARCHIVED] \<and> s = CLOSED \<or>
      closing s = [CLOSED, ARCHIVED] \<and> CLOSED \<in> set (targets s) \<or>
      closing s = [CANCELLED, CLOSED, ARCHIVED] \<and> CANCELLED \<in> set (targets s)"
    by (cases s) (simp_all only: closing.simps targets.simps set_simps insert_iff simp_thms)
  then have "length (closing s) \<le> 3 \<and> lifecycle_path s (closing s) ARCHIVED"
    using path_allowed [OF target_in archive] path_allowed [OF target_in cancel] archive path_done by auto
  then show "\<exists>ps. length ps \<le> 3 \<and> lifecycle_path s ps ARCHIVED" by blast
  show "resolve_transition ARCHIVED command resume = Inl (BiaiceError ''REQUEST_VALIDATION_FAILED'')"
    by (auto simp: resolve_transition_def Let_def REOPEN_FROM_def allowed_targets_table split: option.splits)
  show "case resolve_transition AWARDED command resume of Inl _ \<Rightarrow> True | Inr r \<Rightarrow> r = (CLOSED, False)"
    by (auto simp: resolve_transition_def Let_def REOPEN_FROM_def allowed_targets_table split: option.splits)
  show "case resolve_transition CANCELLED command resume of Inl _ \<Rightarrow> True
    | Inr (u, reopened) \<Rightarrow> if reopened then u \<notin> set TERMINAL_STATES else u = CLOSED"
    by (auto simp: resolve_transition_def Let_def allowed_targets_table split: option.splits)
qed

end
