(* ===== verification/Py_Decimal.thy ===== *)
theory Py_Decimal
  imports Canonical_Json
begin

text \<open>
  Python's \<open>decimal.Decimal\<close>, as far as the code uses it: finite values as sign, coefficient
  and exponent (so \<open>1.0\<close> and \<open>1.00\<close> are different values that compare equal), and
  fixed-point formatting \<open>format(d, "f")\<close>, with the \<open>Money\<close> type of
  \<open>core/money.py\<close> that serialises through it.
\<close>

section \<open>Values and formatting\<close>

record decimal =
  dec_neg :: bool
  dec_coeff :: nat
  dec_exp :: int

definition decimal_digits :: "decimal \<Rightarrow> string" where
  "decimal_digits d =
     (let digits = digits_of (dec_coeff d) in
      if dec_exp d \<ge> 0 then (if dec_coeff d = 0 then digits else digits @ replicate (nat (dec_exp d)) (CHR ''0''))
      else
        let k = nat (- dec_exp d) in
        if length digits > k then take (length digits - k) digits @ ''.'' @ drop (length digits - k) digits
        else ''0.'' @ replicate (k - length digits) (CHR ''0'') @ digits)"

definition format_f :: "decimal \<Rightarrow> string" where
  "format_f d = (if dec_neg d then ''-'' else []) @ decimal_digits d"

section \<open>Money\<close>

record money =
  mo_amount :: decimal
  mo_currency :: string

definition money_json :: "money \<Rightarrow> json" where
  "money_json m = JObj [(''amount'', JStr (format_f (mo_amount m))), (''currency'', JStr (mo_currency m))]"

definition money_valid :: "money \<Rightarrow> bool" where
  "money_valid m \<longleftrightarrow> length (mo_currency m) = 3 \<and> (\<forall>c \<in> set (mo_currency m). CHR ''A'' \<le> c \<and> c \<le> CHR ''Z'')"

section \<open>Reading the text back\<close>

text \<open>
  \<open>Decimal(text)\<close> on plain fixed-point text: an optional minus sign, digits, and an optional
  point with digits.
\<close>

definition parse_f :: "string \<Rightarrow> decimal option" where
  "parse_f text =
     (let neg = (text \<noteq> [] \<and> hd text = CHR ''-'');
          body = (if neg then tl text else text);
          whole = takeWhile is_digit body;
          rest = dropWhile is_digit body
      in if whole = [] then None
         else if rest = [] then Some \<lparr>dec_neg = neg, dec_coeff = nat_of_digits whole, dec_exp = 0\<rparr>
         else if hd rest = CHR ''.'' \<and> list_all is_digit (tl rest)
         then Some \<lparr>dec_neg = neg, dec_coeff = nat_of_digits (whole @ tl rest), dec_exp = - int (length (tl rest))\<rparr>
         else None)"

lemma nat_of_digits_foldl: "foldl (\<lambda>n c. 10 * n + digit_val c) m xs = m * 10 ^ length xs + nat_of_digits xs"
proof (induction xs rule: rev_induct)
  case Nil
  then show ?case by (simp add: nat_of_digits_def)
next
  case (snoc x xs)
  then show ?case by (simp add: algebra_simps)
qed

lemma nat_of_digits_append: "nat_of_digits (xs @ ys) = nat_of_digits xs * 10 ^ length ys + nat_of_digits ys"
  using nat_of_digits_foldl [of "nat_of_digits xs" ys] by (simp add: nat_of_digits_def)

lemma digit_val_zero [simp]: "digit_val CHR ''0'' = 0"
  by (simp add: digit_val_def)

lemma nat_of_digits_zeros [simp]: "nat_of_digits (replicate k CHR ''0'') = 0"
  by (induction k) (simp_all add: replicate_append_same [symmetric])

lemma nat_of_digits_pad [simp]: "nat_of_digits (replicate k CHR ''0'' @ ys) = nat_of_digits ys"
  by (simp add: nat_of_digits_append)

lemma not_digit_special [simp]: "\<not> is_digit CHR ''-''" "\<not> is_digit CHR ''.''"
  by (simp_all add: is_digit_def)

lemma is_digit_zero [simp]: "is_digit CHR ''0''"
  by (simp add: is_digit_def)

lemma all_digits_of [simp]: "\<forall>c \<in> set (digits_of n). is_digit c"
  by (simp add: digits_of_digit)

text \<open>The number a decimal denotes, as a fraction over a power of ten.\<close>

definition dec_num :: "decimal \<Rightarrow> int" where
  "dec_num d = (if dec_neg d then -1 else 1) * int (dec_coeff d * 10 ^ nat (dec_exp d))"

definition dec_den :: "decimal \<Rightarrow> nat" where
  "dec_den d = 10 ^ nat (- dec_exp d)"

text \<open>Text whose sign, whole digits and fraction digits are known.\<close>

lemma parse_f_parts:
  assumes "whole \<noteq> []" "\<forall>c \<in> set whole. is_digit c" "\<forall>c \<in> set frac. is_digit c"
  shows "parse_f ((if neg then ''-'' else []) @ whole) = Some \<lparr>dec_neg = neg, dec_coeff = nat_of_digits whole, dec_exp = 0\<rparr>"
    and "parse_f ((if neg then ''-'' else []) @ whole @ ''.'' @ frac) =
      Some \<lparr>dec_neg = neg, dec_coeff = nat_of_digits (whole @ frac), dec_exp = - int (length frac)\<rparr>"
proof -
  have tw: "takeWhile is_digit whole = whole" "dropWhile is_digit whole = []"
    using assms(2) by (auto simp: takeWhile_eq_all_conv dropWhile_eq_Nil_conv)
  have tw2: "takeWhile is_digit (whole @ ''.'' @ frac) = whole" "dropWhile is_digit (whole @ ''.'' @ frac) = ''.'' @ frac"
    using assms(2) by (auto simp: takeWhile_append dropWhile_append)
  have "is_digit (hd whole)" using assms(1,2) by simp
  then have sign: "((if neg then ''-'' else []) @ whole @ z \<noteq> [] \<and> hd ((if neg then ''-'' else []) @ whole @ z) = CHR ''-'') = neg"
    and body: "(if neg then tl ((if neg then ''-'' else []) @ whole @ z) else (if neg then ''-'' else []) @ whole @ z) = whole @ z" for z
    using assms(1) by auto
  show "parse_f ((if neg then ''-'' else []) @ whole) = Some \<lparr>dec_neg = neg, dec_coeff = nat_of_digits whole, dec_exp = 0\<rparr>"
    using sign [of "[]"] body [of "[]"] tw assms(1)
    unfolding parse_f_def Let_def by (simp only: append_Nil2 simp_thms if_False if_True)
  show "parse_f ((if neg then ''-'' else []) @ whole @ ''.'' @ frac) =
      Some \<lparr>dec_neg = neg, dec_coeff = nat_of_digits (whole @ frac), dec_exp = - int (length frac)\<rparr>"
    using tw2 assms(1,3) unfolding parse_f_def Let_def sign body by (simp add: list_all_iff)
qed

text \<open>
  Money round trip: the fixed-point text of an amount reads back as the same number, with
  the same sign, and as the very same decimal whenever its exponent is not positive; so no amount
  is rounded or rescaled by serialisation.
\<close>

theorem format_f_roundtrip:
  "\<exists>d'. parse_f (format_f d) = Some d' \<and> dec_neg d' = dec_neg d \<and>
     dec_num d' * int (dec_den d) = dec_num d * int (dec_den d') \<and>
     (if dec_exp d \<le> 0 then d' = d else dec_exp d' = 0)"
proof -
  let ?ds = "digits_of (dec_coeff d)"
  let ?k = "nat (- dec_exp d)"
  consider (int) "dec_exp d \<ge> 0" | (split) "dec_exp d < 0" "length ?ds > ?k" | (pad) "dec_exp d < 0" "length ?ds \<le> ?k"
    by linarith
  then show ?thesis
  proof cases
    case int
    let ?w = "if dec_coeff d = 0 then ?ds else ?ds @ replicate (nat (dec_exp d)) (CHR ''0'')"
    have f: "format_f d = (if dec_neg d then ''-'' else []) @ ?w"
      using int by (simp add: format_f_def decimal_digits_def)
    have "parse_f (format_f d) = Some \<lparr>dec_neg = dec_neg d, dec_coeff = nat_of_digits ?w, dec_exp = 0\<rparr>"
      unfolding f by (rule parse_f_parts(1) [where frac = "[]"]) (auto simp: digits_of_digit)
    moreover have "nat_of_digits ?w = dec_coeff d * 10 ^ nat (dec_exp d)"
      by (simp add: nat_of_digits_append)
    ultimately show ?thesis
      using int by (auto simp: dec_num_def dec_den_def intro: decimal.equality)
  next
    case split
    let ?a = "take (length ?ds - ?k) ?ds" and ?b = "drop (length ?ds - ?k) ?ds"
    have f: "format_f d = (if dec_neg d then ''-'' else []) @ ?a @ ''.'' @ ?b"
      using split by (simp add: format_f_def decimal_digits_def Let_def)
    have "parse_f (format_f d) =
        Some \<lparr>dec_neg = dec_neg d, dec_coeff = nat_of_digits (?a @ ?b), dec_exp = - int (length ?b)\<rparr>"
      unfolding f using split
      by (intro parse_f_parts(2)) (auto simp: digits_of_digit dest!: in_set_takeD in_set_dropD)
    then have "parse_f (format_f d) = Some d"
      using split by (auto intro!: decimal.equality)
    then show ?thesis using split by auto
  next
    case pad
    let ?b = "replicate (?k - length ?ds) (CHR ''0'') @ ?ds"
    have f: "format_f d = (if dec_neg d then ''-'' else []) @ ''0'' @ ''.'' @ ?b"
      using pad by (simp add: format_f_def decimal_digits_def Let_def)
    have "parse_f (format_f d) =
        Some \<lparr>dec_neg = dec_neg d, dec_coeff = nat_of_digits (''0'' @ ?b), dec_exp = - int (length ?b)\<rparr>"
      unfolding f by (intro parse_f_parts(2)) (auto simp: digits_of_digit)
    moreover have "nat_of_digits (''0'' @ ?b) = dec_coeff d"
      by (simp only: nat_of_digits_append [of "''0''"] nat_of_digits_pad nat_of_digits_of)
        (simp add: nat_of_digits_def)
    ultimately have "parse_f (format_f d) = Some d"
      using pad by (auto intro!: decimal.equality)
    then show ?thesis using pad by auto
  qed
qed

theorem format_f_roundtrip_witness:
  "parse_f (format_f \<lparr>dec_neg = True, dec_coeff = 1205, dec_exp = -2\<rparr>) = Some \<lparr>dec_neg = True, dec_coeff = 1205, dec_exp = -2\<rparr>"
  using format_f_roundtrip [of "\<lparr>dec_neg = True, dec_coeff = 1205, dec_exp = -2\<rparr>"] by simp

end
