(* ===== verification/Fr01_Models.thy ===== *)
theory Fr01_Models
  imports Complex_Main Auth Py_Decimal Lifecycle
begin

text \<open>
  The immutable models of projects and rules: \<open>modules/projects/domain/models.py\<close>,
  \<open>modules/rules/domain/models.py\<close> and \<open>core/versioning.py\<close>. Each model is a record with
  the checks its constructor runs on its own fields; a copy with updates (\<open>model_copy\<close>) runs
  none of them.
\<close>

section \<open>Versions and field checks\<close>

record version_metadata =
  ve_version_id :: uuid
  ve_version_number :: int
  ve_created_at :: timestamp
  ve_created_by :: uuid
  ve_content_hash :: string
  ve_supersedes_version_id :: "uuid option"

definition version_valid :: "version_metadata \<Rightarrow> bool" where
  "version_valid v \<longleftrightarrow> ve_version_number v \<ge> 1 \<and> is_hash (ve_content_hash v)"

definition canonical_hash :: "(string \<Rightarrow> string) \<Rightarrow> (string \<times> json) list \<Rightarrow> string" where
  "canonical_hash sha payload = sha (dumps (JObj payload))"

section \<open>Projects\<close>

datatype resource_lifecycle = RES_DRAFT | RES_PUBLISHED | RES_ARCHIVED

datatype resource_validity = VAL_CURRENT | VAL_STALE | VAL_INVALIDATED

primrec resource_value :: "resource_lifecycle \<Rightarrow> string" where
  "resource_value RES_DRAFT = ''DRAFT''"
| "resource_value RES_PUBLISHED = ''PUBLISHED''"
| "resource_value RES_ARCHIVED = ''ARCHIVED''"

definition timezone_ok :: "string \<Rightarrow> bool" where
  "timezone_ok tz \<longleftrightarrow> CHR ''/'' \<in> set tz \<or> tz \<in> {''UTC'', ''GMT''}"

record procurement_project =
  pj_project_id :: uuid
  pj_tenant_id :: uuid
  pj_data_domain_id :: uuid
  pj_name :: string
  pj_purchaser_name :: string
  pj_timezone :: string
  pj_budget :: "money option"
  pj_price_ceiling :: "money option"
  pj_deadline_at :: "timestamp option"
  pj_cross_unit_group_id :: "uuid option"
  pj_notes :: "string option"
  pj_lifecycle_state :: resource_lifecycle
  pj_validity_state :: resource_validity
  pj_version :: version_metadata
  pj_archived_at :: "timestamp option"
  pj_archived_by :: "uuid option"

definition project_valid :: "procurement_project \<Rightarrow> bool" where
  "project_valid p \<longleftrightarrow>
     text_between 1 200 (pj_name p) \<and> text_between 1 200 (pj_purchaser_name p) \<and>
     text_between 1 64 (pj_timezone p) \<and> optional (text_between 0 2000) (pj_notes p) \<and>
     timezone_ok (pj_timezone p)"

record decision_unit =
  un_decision_unit_id :: uuid
  un_project_id :: uuid
  un_tenant_id :: uuid
  un_data_domain_id :: uuid
  un_name :: string
  un_lot_code :: "string option"
  un_timezone :: string
  un_budget :: "money option"
  un_price_ceiling :: "money option"
  un_deadline_at :: "timestamp option"
  un_cross_unit_group_id :: "uuid option"
  un_lifecycle_state :: lifecycle_state
  un_resource_lifecycle :: resource_lifecycle
  un_validity_state :: resource_validity
  un_version :: version_metadata
  un_current_scope_assessment_id :: "uuid option"
  un_current_regime_id :: "uuid option"
  un_current_rule_set_id :: "uuid option"
  un_gap_summary :: "string option"

definition unit_valid :: "decision_unit \<Rightarrow> bool" where
  "unit_valid u \<longleftrightarrow>
     text_between 1 200 (un_name u) \<and> optional (text_between 0 80) (un_lot_code u) \<and>
     text_between 1 64 (un_timezone u) \<and> optional (text_between 0 2000) (un_gap_summary u) \<and>
     timezone_ok (un_timezone u)"

record lifecycle_event =
  lv_event_id :: uuid
  lv_decision_unit_id :: uuid
  lv_tenant_id :: uuid
  lv_data_domain_id :: uuid
  lv_project_id :: uuid
  lv_sequence :: int
  lv_command :: string
  lv_from_state :: lifecycle_state
  lv_to_state :: lifecycle_state
  lv_reopened :: bool
  lv_reason :: string
  lv_basis :: "string option"
  lv_earliest_affected_stage :: "string option"
  lv_actor_id :: uuid
  lv_occurred_at :: timestamp
  lv_request_id :: string

definition lifecycle_event_valid :: "lifecycle_event \<Rightarrow> bool" where
  "lifecycle_event_valid e \<longleftrightarrow>
     lv_sequence e \<ge> 1 \<and> text_between 1 80 (lv_command e) \<and> text_between 1 2000 (lv_reason e) \<and>
     optional (text_between 0 2000) (lv_basis e) \<and>
     optional (text_between 0 80) (lv_earliest_affected_stage e)"

record document_ref =
  di_event_id :: uuid
  di_event_type :: string
  di_tenant_id :: uuid
  di_data_domain_id :: uuid
  di_project_id :: "uuid option"
  di_decision_unit_id :: "uuid option"
  di_document_id :: "uuid option"
  di_parse_job_id :: "uuid option"
  di_usable_for_formal_rules :: bool
  di_validity_state :: resource_validity
  di_occurred_at :: timestamp
  di_request_id :: string

definition document_ref_valid :: "document_ref \<Rightarrow> bool" where
  "document_ref_valid d \<longleftrightarrow> text_between 1 120 (di_event_type d) \<and> text_between 1 128 (di_request_id d)"

section \<open>Rules\<close>

datatype evaluation_method = COMPREHENSIVE_SCORING | LOWEST_EVALUATED_PRICE | EM_OTHER_UNSUPPORTED
datatype procurement_mode = OPEN_TENDERING | INVITED_TENDERING | PM_OTHER_UNSUPPORTED
datatype round_kind = SINGLE_ROUND | MULTI_ROUND
datatype scope_support = SUPPORTED | UNSUPPORTED | SS_PORTFOLIO_REVIEW_REQUIRED | SS_MULTI_ROUND_UNSUPPORTED
datatype rule_clause_kind =
    QUALIFICATION | SUBSTANTIVE | SCORING | FORMULA | ROUNDING | TIE | CANDIDATE | VALID_SUPPLIER_COUNT
  | SAME_BRAND | ABNORMALLY_LOW | CONTRACT | SUBMISSION
datatype rule_scope_level = LEVEL_PROJECT | LEVEL_DECISION_UNIT
datatype resolution_status = RESOLVED | CONFLICT_REQUIRES_CONFIRMATION
datatype compliance_review_state = CR_OPEN | CR_BLOCKING | CR_ACCEPTED_FOR_SIMULATION | CR_RESOLVED | CR_CLOSED

record source_locator =
  sl_document_id :: "uuid option"
  sl_page :: "int option"
  sl_section :: "string option"
  sl_excerpt :: "string option"

record scope_assessment =
  sa_scope_assessment_id :: uuid
  sa_decision_unit_id :: uuid
  sa_project_id :: uuid
  sa_tenant_id :: uuid
  sa_data_domain_id :: uuid
  sa_support :: scope_support
  sa_round_kind :: round_kind
  sa_cross_lot :: bool
  sa_reason_codes :: "string list"
  sa_source :: "source_locator option"
  sa_applicability :: "string option"
  sa_lifecycle_state :: resource_lifecycle
  sa_validity_state :: resource_validity
  sa_version :: version_metadata
  sa_effective_from :: "timestamp option"
  sa_confirmed_by :: "uuid option"
  sa_confirmed_at :: "timestamp option"

record applicable_regime =
  rg_applicable_regime_id :: uuid
  rg_decision_unit_id :: uuid
  rg_project_id :: uuid
  rg_tenant_id :: uuid
  rg_data_domain_id :: uuid
  rg_regime_name :: string
  rg_procurement_mode :: procurement_mode
  rg_evaluation_method :: evaluation_method
  rg_round_kind :: round_kind
  rg_source :: "source_locator option"
  rg_lifecycle_state :: resource_lifecycle
  rg_validity_state :: resource_validity
  rg_version :: version_metadata
  rg_effective_from :: "timestamp option"
  rg_confirmed_by :: "uuid option"
  rg_confirmed_at :: "timestamp option"

record rule_set =
  rs_rule_set_id :: uuid
  rs_decision_unit_id :: uuid
  rs_project_id :: uuid
  rs_tenant_id :: uuid
  rs_data_domain_id :: uuid
  rs_title :: string
  rs_scope_level :: rule_scope_level
  rs_lifecycle_state :: resource_lifecycle
  rs_validity_state :: resource_validity
  rs_version :: version_metadata
  rs_effective_from :: "timestamp option"
  rs_effective_until :: "timestamp option"
  rs_confirmed_by :: "uuid option"
  rs_confirmed_at :: "timestamp option"

record rule_clause =
  rc_rule_clause_id :: uuid
  rc_rule_set_id :: uuid
  rc_decision_unit_id :: uuid
  rc_project_id :: uuid
  rc_tenant_id :: uuid
  rc_data_domain_id :: uuid
  rc_kind :: rule_clause_kind
  rc_coverage_key :: string
  rc_priority :: int
  rc_original_text :: string
  rc_structured_expression :: "string option"
  rc_confidence :: rat
  rc_source :: "source_locator option"
  rc_supersedes_clause_id :: "uuid option"
  rc_lifecycle_state :: resource_lifecycle
  rc_validity_state :: resource_validity
  rc_version :: version_metadata
  rc_confirmed_by :: "uuid option"
  rc_confirmed_at :: "timestamp option"

definition rule_clause_valid :: "rule_clause \<Rightarrow> bool" where
  "rule_clause_valid c \<longleftrightarrow>
     text_between 1 120 (rc_coverage_key c) \<and> 1 \<le> rc_priority c \<and> rc_priority c \<le> 1000 \<and>
     text_between 1 8000 (rc_original_text c) \<and>
     optional (text_between 0 4000) (rc_structured_expression c) \<and>
     0 \<le> rc_confidence c \<and> rc_confidence c \<le> 1"

record compliance_review =
  cr_compliance_review_id :: uuid
  cr_decision_unit_id :: uuid
  cr_project_id :: uuid
  cr_tenant_id :: uuid
  cr_data_domain_id :: uuid
  cr_state :: compliance_review_state
  cr_finding :: string
  cr_blocking :: bool
  cr_version :: version_metadata

record cross_lot_constraint =
  cl_cross_lot_constraint_id :: uuid
  cl_decision_unit_id :: uuid
  cl_project_id :: uuid
  cl_tenant_id :: uuid
  cl_data_domain_id :: uuid
  cl_related_unit_ids :: "uuid list"
  cl_description :: string
  cl_confirmed :: bool
  cl_confirmed_by :: "uuid option"
  cl_confirmed_at :: "timestamp option"
  cl_version :: version_metadata

record rule_resolution =
  rr_coverage_key :: string
  rr_status :: resolution_status
  rr_winning_clause_id :: "uuid option"
  rr_conflicting_clause_ids :: "uuid list"
  rr_detail :: string

end
