(* ===== verification/Resolution.thy ===== *)
theory Resolution
  imports Fr01_Models
begin

text \<open>
  Inheritance of rule clauses from the project to a decision unit:
  \<open>modules/projects/domain/resolution.py\<close>. The theorems show that a coverage key is resolved
  exactly when the participating clauses agree, whatever the order in which they were written.
\<close>

section \<open>Which clauses take part\<close>

definition rule_set_is_effective :: "timestamp \<Rightarrow> rule_set \<Rightarrow> bool" where
  "rule_set_is_effective now s =
     (if rs_validity_state s \<noteq> VAL_CURRENT then False
      else if (case rs_effective_from s of None \<Rightarrow> False | Some t \<Rightarrow> t > now) then False
      else if (case rs_effective_until s of None \<Rightarrow> False | Some t \<Rightarrow> t \<le> now) then False
      else True)"

definition clause_participates :: "bool \<Rightarrow> rule_clause \<Rightarrow> bool" where
  "clause_participates formal c =
     (if rc_validity_state c \<noteq> VAL_CURRENT then False
      else if formal then rc_lifecycle_state c = RES_PUBLISHED
      else rc_lifecycle_state c \<in> {RES_DRAFT, RES_PUBLISHED})"

definition clause_expression :: "rule_clause \<Rightarrow> string" where
  "clause_expression c =
     (case rc_structured_expression c of Some e \<Rightarrow> if e = [] then rc_original_text c else e
      | None \<Rightarrow> rc_original_text c)"

definition clause_rank :: "rule_clause \<Rightarrow> int \<times> uuid" where
  "clause_rank c = (rc_priority c, rc_rule_clause_id c)"

definition winner :: "rule_clause list \<Rightarrow> rule_clause" where
  "winner clauses = hd (sort_key clause_rank clauses)"

definition conflict :: "string \<Rightarrow> rule_clause list \<Rightarrow> string \<Rightarrow> rule_resolution" where
  "conflict key clauses detail =
     \<lparr>rr_coverage_key = key, rr_status = CONFLICT_REQUIRES_CONFIRMATION, rr_winning_clause_id = None,
      rr_conflicting_clause_ids = map rc_rule_clause_id clauses, rr_detail = detail\<rparr>"

definition resolved :: "string \<Rightarrow> rule_clause \<Rightarrow> string \<Rightarrow> rule_resolution" where
  "resolved key clause detail =
     \<lparr>rr_coverage_key = key, rr_status = RESOLVED, rr_winning_clause_id = Some (rc_rule_clause_id clause),
      rr_conflicting_clause_ids = [], rr_detail = detail\<rparr>"

text \<open>The rule set a clause is taken with, or \<open>None\<close> when the loop skips the clause.\<close>

definition grouped_with ::
  "(uuid, rule_set) dict \<Rightarrow> timestamp \<Rightarrow> bool \<Rightarrow> rule_clause \<Rightarrow> (rule_clause \<times> rule_set) option" where
  "grouped_with sets now formal clause =
     (case dict_get sets (rc_rule_set_id clause) of
        None \<Rightarrow> None
      | Some s \<Rightarrow>
          if \<not> rule_set_is_effective now s then None
          else if formal \<and> rs_lifecycle_state s \<noteq> RES_PUBLISHED then None
          else if \<not> formal \<and> rs_lifecycle_state s \<notin> {RES_DRAFT, RES_PUBLISHED} then None
          else if \<not> clause_participates formal clause then None
          else Some (clause, s))"

section \<open>Resolution\<close>

definition disagree :: "rule_clause list \<Rightarrow> bool" where
  "disagree clauses \<longleftrightarrow> clauses \<noteq> [] \<and> length (fromkeys (map clause_expression clauses)) > 1"

definition level_clauses :: "rule_scope_level \<Rightarrow> (rule_clause \<times> rule_set) list \<Rightarrow> rule_clause list" where
  "level_clauses level pairs = map fst (filter (\<lambda>(c, s). rs_scope_level s = level) pairs)"

text \<open>The turn of the loop for one coverage key.\<close>

definition resolve_key :: "string \<Rightarrow> (rule_clause \<times> rule_set) list \<Rightarrow> rule_resolution" where
  "resolve_key key pairs =
     (let proj = level_clauses LEVEL_PROJECT pairs;
          unit = level_clauses LEVEL_DECISION_UNIT pairs
      in if disagree proj
         then conflict key proj ''Project-level clauses disagree; last-write-wins is forbidden.''
         else if disagree unit
         then conflict key unit ''Unit-level clauses disagree; last-write-wins is forbidden.''
         else if proj \<noteq> [] \<and> unit \<noteq> [] then
           let inherited = winner proj; override = winner unit in
           if clause_expression inherited \<noteq> clause_expression override
           then conflict key [inherited, override]
                  ''Unit override disagrees with project inheritance; last-write-wins is forbidden.''
           else resolved key override ''Unit override matches inherited project clause.''
         else if unit \<noteq> [] then resolved key (winner unit) ''Resolved from decision-unit rule set.''
         else resolved key (winner proj) ''Inherited from project-level rule set.'')"

definition participating ::
  "rule_clause list \<Rightarrow> rule_set list \<Rightarrow> timestamp \<Rightarrow> bool \<Rightarrow> (rule_clause \<times> rule_set) list" where
  "participating clauses rule_sets now formal =
     List.map_filter (grouped_with (dict_of rs_rule_set_id id rule_sets) now formal) clauses"

definition resolve_inherited_clauses ::
  "rule_clause list \<Rightarrow> rule_set list \<Rightarrow> timestamp \<Rightarrow> bool \<Rightarrow> rule_resolution list" where
  "resolve_inherited_clauses clauses rule_sets now formal =
     (let pairs = participating clauses rule_sets now formal in
      map (\<lambda>key. resolve_key key (filter (\<lambda>(c, s). rc_coverage_key c = key) pairs))
        (sort (fromkeys (map (rc_coverage_key \<circ> fst) pairs))))"

section \<open>Rule availability\<close>

text \<open>
  \<open>RuleAvailabilityService.current_supported_rule_set\<close> of
  \<open>projects/application/services.py\<close>, on the rule sets the repository lists: the identifier
  of the latest published, current and effective one.
\<close>

definition available_candidate :: "timestamp \<Rightarrow> rule_set \<Rightarrow> bool" where
  "available_candidate now s \<longleftrightarrow>
     rs_lifecycle_state s = RES_PUBLISHED \<and> rs_validity_state s = VAL_CURRENT \<and>
     (case rs_effective_from s of None \<Rightarrow> True | Some t \<Rightarrow> t \<le> now) \<and>
     (case rs_effective_until s of None \<Rightarrow> True | Some t \<Rightarrow> now < t)"

definition availability_rank :: "rule_set \<Rightarrow> int \<times> int \<times> uuid" where
  "availability_rank s = (ve_created_at (rs_version s), ve_version_number (rs_version s), rs_rule_set_id s)"

text \<open>\<open>max(candidates, key=...)\<close>: the first of the candidates with the greatest key.\<close>

definition max_by :: "('a \<Rightarrow> 'k::linorder) \<Rightarrow> 'a \<Rightarrow> 'a list \<Rightarrow> 'a" where
  "max_by key x xs = foldl (\<lambda>best y. if key best < key y then y else best) x xs"

definition current_supported_rule_set :: "timestamp \<Rightarrow> rule_set list \<Rightarrow> uuid option" where
  "current_supported_rule_set now rule_sets =
     (case filter (available_candidate now) rule_sets of
        [] \<Rightarrow> None
      | c # cs \<Rightarrow> Some (rs_rule_set_id (max_by availability_rank c cs)))"

section \<open>Facts\<close>

lemma sort_key_Nil_iff [simp]: "sort_key f xs = [] \<longleftrightarrow> xs = []"
  by (metis length_0_conv length_sort)

lemma winner_in: "clauses \<noteq> [] \<Longrightarrow> winner clauses \<in> set clauses"
  unfolding winner_def by (metis hd_in_set set_sort sort_key_Nil_iff)

lemma winner_least: "c \<in> set clauses \<Longrightarrow> clause_rank (winner clauses) \<le> clause_rank c"
proof -
  assume c: "c \<in> set clauses"
  then obtain x xs where s: "sort_key clause_rank clauses = x # xs"
    by (cases "sort_key clause_rank clauses") (metis empty_iff empty_set set_sort, blast)
  have "sorted (map clause_rank (x # xs))" unfolding s [symmetric] by simp
  moreover have "c \<in> set (x # xs)" using c unfolding s [symmetric] by simp
  ultimately show ?thesis by (auto simp: winner_def s)
qed

lemma length_fromkeys_le_1: "length (fromkeys xs) \<le> 1 \<longleftrightarrow> (\<forall>a \<in> set xs. \<forall>b \<in> set xs. a = b)"
proof -
  have "length (fromkeys xs) \<le> 1 \<longleftrightarrow> (\<forall>a \<in> set (fromkeys xs). \<forall>b \<in> set (fromkeys xs). a = b)"
    using distinct_fromkeys [of xs] by (cases "fromkeys xs"; cases "tl (fromkeys xs)") auto
  then show ?thesis by simp
qed

lemma disagree_iff: "disagree cs \<longleftrightarrow> (\<exists>a \<in> set cs. \<exists>b \<in> set cs. clause_expression a \<noteq> clause_expression b)"
  using length_fromkeys_le_1 [of "map clause_expression cs"] by (auto simp: disagree_def not_le [symmetric])

lemma set_level_clauses: "set (level_clauses level pairs) = {c. \<exists>s. (c, s) \<in> set pairs \<and> rs_scope_level s = level}"
  by (force simp: level_clauses_def)

lemma levels_cover: "fst ` set pairs = set (level_clauses LEVEL_PROJECT pairs) \<union> set (level_clauses LEVEL_DECISION_UNIT pairs)"
proof -
  have "rs_scope_level s = LEVEL_PROJECT \<or> rs_scope_level s = LEVEL_DECISION_UNIT" for s
    by (cases "rs_scope_level s") simp_all
  then show ?thesis unfolding set_level_clauses by force
qed

text \<open>
  One key: resolved exactly when all its clauses agree, and then by the least clause of the
  unit, or of the project when the unit has none.
\<close>

definition preferred :: "(rule_clause \<times> rule_set) list \<Rightarrow> rule_clause list" where
  "preferred pairs =
     (if level_clauses LEVEL_DECISION_UNIT pairs \<noteq> [] then level_clauses LEVEL_DECISION_UNIT pairs
      else level_clauses LEVEL_PROJECT pairs)"

definition agree :: "(rule_clause \<times> rule_set) list \<Rightarrow> bool" where
  "agree pairs \<longleftrightarrow> (\<forall>a \<in> fst ` set pairs. \<forall>b \<in> fst ` set pairs. clause_expression a = clause_expression b)"

lemma preferred_in: "set (preferred pairs) \<subseteq> fst ` set pairs"
  unfolding levels_cover preferred_def by auto

lemma preferred_not_Nil: "pairs \<noteq> [] \<Longrightarrow> preferred pairs \<noteq> []"
  using levels_cover [of pairs] by (auto simp: preferred_def)

lemma resolve_key_cases:
  assumes "pairs \<noteq> []"
  shows "(if agree pairs
     then \<exists>detail. resolve_key key pairs = resolved key (winner (preferred pairs)) detail
     else \<exists>cs detail. resolve_key key pairs = conflict key cs detail \<and> set cs \<subseteq> fst ` set pairs)"
proof -
  define p where "p = level_clauses LEVEL_PROJECT pairs"
  define u where "u = level_clauses LEVEL_DECISION_UNIT pairs"
  have agree: "agree pairs \<longleftrightarrow> (\<forall>a \<in> set p \<union> set u. \<forall>b \<in> set p \<union> set u. clause_expression a = clause_expression b)"
    by (simp add: agree_def levels_cover p_def u_def)
  have sub: "fst ` set pairs = set p \<union> set u"
    by (simp add: levels_cover p_def u_def)
  have key: "resolve_key key pairs =
     (if disagree p then conflict key p ''Project-level clauses disagree; last-write-wins is forbidden.''
      else if disagree u then conflict key u ''Unit-level clauses disagree; last-write-wins is forbidden.''
      else if p \<noteq> [] \<and> u \<noteq> [] then
        (if clause_expression (winner p) \<noteq> clause_expression (winner u)
         then conflict key [winner p, winner u]
                ''Unit override disagrees with project inheritance; last-write-wins is forbidden.''
         else resolved key (winner u) ''Unit override matches inherited project clause.'')
      else if u \<noteq> [] then resolved key (winner u) ''Resolved from decision-unit rule set.''
      else resolved key (winner p) ''Inherited from project-level rule set.'')"
    by (simp add: resolve_key_def Let_def p_def u_def)
  consider "disagree p" | "\<not> disagree p" "disagree u" | "\<not> disagree p" "\<not> disagree u" "p \<noteq> []" "u \<noteq> []"
    | "\<not> disagree p" "\<not> disagree u" "p = []" | "\<not> disagree p" "\<not> disagree u" "u = []"
    by blast
  then show ?thesis
  proof cases
    case 1
    then have "\<not> agree pairs" unfolding agree disagree_iff by blast
    moreover have "resolve_key key pairs = conflict key p ''Project-level clauses disagree; last-write-wins is forbidden.''"
      unfolding key using 1 by (simp only: if_True)
    ultimately show ?thesis unfolding sub by (simp only: if_False) blast
  next
    case 2
    then have "\<not> agree pairs" unfolding agree disagree_iff by blast
    moreover have "resolve_key key pairs = conflict key u ''Unit-level clauses disagree; last-write-wins is forbidden.''"
      unfolding key using 2 by (simp only: if_True if_False)
    ultimately show ?thesis unfolding sub by (simp only: if_False) blast
  next
    case 3
    have w: "winner p \<in> set p" "winner u \<in> set u" using 3 by (simp_all add: winner_in)
    have iff: "agree pairs \<longleftrightarrow> clause_expression (winner p) = clause_expression (winner u)"
      unfolding agree using 3(1,2) w unfolding disagree_iff by (metis Un_iff)
    have pref: "preferred pairs = u" using 3(4) by (simp add: preferred_def u_def)
    show ?thesis
    proof (cases "agree pairs")
      case True
      have "resolve_key key pairs = resolved key (winner u) ''Unit override matches inherited project clause.''"
        unfolding key using 3 True [unfolded iff] by simp
      with True pref show ?thesis by auto
    next
      case False
      have "resolve_key key pairs = conflict key [winner p, winner u]
          ''Unit override disagrees with project inheritance; last-write-wins is forbidden.''"
        unfolding key using 3 False [unfolded iff] by simp
      moreover have "set [winner p, winner u] \<subseteq> set p \<union> set u" using w by simp
      ultimately show ?thesis unfolding sub using False by (simp only: if_False) blast
    qed
  next
    case 4
    then have agr: "agree pairs" unfolding agree disagree_iff by (simp only: list.set Un_empty_left Un_empty_right) blast
    have u: "u \<noteq> []"
    proof
      assume "u = []"
      with 4 sub have "fst ` set pairs = {}" by simp
      with assms show False by simp
    qed
    have "resolve_key key pairs = resolved key (winner u) ''Resolved from decision-unit rule set.''"
      unfolding key using 4 u by (simp only: if_True if_False simp_thms)
    moreover have "preferred pairs = u" using u by (simp add: preferred_def u_def)
    ultimately show ?thesis using agr by auto
  next
    case 5
    then have agr: "agree pairs" unfolding agree disagree_iff by (simp only: list.set Un_empty_left Un_empty_right) blast
    have "resolve_key key pairs = resolved key (winner p) ''Inherited from project-level rule set.''"
      unfolding key using 5 by (simp only: if_False simp_thms)
    moreover have "preferred pairs = p" using 5(3) by (simp add: preferred_def u_def p_def)
    ultimately show ?thesis using agr by auto
  qed
qed

lemma resolve_key_key [simp]: "rr_coverage_key (resolve_key key pairs) = key"
  by (simp add: resolve_key_def Let_def conflict_def resolved_def)

lemma grouped_with_fst: "grouped_with sets now formal c = Some (c', s) \<Longrightarrow> c' = c"
  by (auto simp: grouped_with_def split: option.splits if_splits)

lemma participating_mem:
  "(c, s) \<in> set (participating clauses rule_sets now formal) \<longleftrightarrow>
     c \<in> set clauses \<and> grouped_with (dict_of rs_rule_set_id id rule_sets) now formal c = Some (c, s)"
proof -
  have "set (List.map_filter g xs) = {y. \<exists>x \<in> set xs. g x = Some y}" for g :: "rule_clause \<Rightarrow> (rule_clause \<times> rule_set) option" and xs
    by (induction xs) (auto simp: map_filter_simps split: option.splits)
  then show ?thesis
    unfolding participating_def by (auto dest: grouped_with_fst)
qed

lemma grouped_with_formal:
  assumes "grouped_with (dict_of rs_rule_set_id id rule_sets) now True c = Some (c, s)"
  shows "s \<in> set rule_sets \<and> rs_rule_set_id s = rc_rule_set_id c \<and> rs_lifecycle_state s = RES_PUBLISHED \<and>
    rule_set_is_effective now s \<and> rc_lifecycle_state c = RES_PUBLISHED \<and> rc_validity_state c = VAL_CURRENT"
  using assms
  by (auto simp: grouped_with_def clause_participates_def split: option.splits if_splits dest!: dict_of_get_SomeD)

section \<open>The resolution of a decision unit\<close>

definition key_pairs :: "(rule_clause \<times> rule_set) list \<Rightarrow> string \<Rightarrow> (rule_clause \<times> rule_set) list" where
  "key_pairs pairs key = filter (\<lambda>(c, s). rc_coverage_key c = key) pairs"

definition covered_keys :: "(rule_clause \<times> rule_set) list \<Rightarrow> string list" where
  "covered_keys pairs = sort (fromkeys (map (rc_coverage_key \<circ> fst) pairs))"

lemma resolve_eq:
  "resolve_inherited_clauses clauses rule_sets now formal =
     map (\<lambda>key. resolve_key key (key_pairs (participating clauses rule_sets now formal) key))
       (covered_keys (participating clauses rule_sets now formal))"
  by (simp add: resolve_inherited_clauses_def key_pairs_def covered_keys_def Let_def)

lemma set_covered_keys [simp]: "set (covered_keys pairs) = rc_coverage_key ` fst ` set pairs"
  by (simp add: covered_keys_def image_comp)

lemma covered_keys_cong: "set pairs = set pairs' \<Longrightarrow> covered_keys pairs = covered_keys pairs'"
  unfolding covered_keys_def
  by (intro sorted_distinct_set_unique) (simp_all add: image_comp)

lemma key_pairs_not_Nil: "key \<in> set (covered_keys pairs) \<Longrightarrow> key_pairs pairs key \<noteq> []"
  by (force simp: key_pairs_def filter_empty_conv)

lemma set_key_pairs: "set (key_pairs pairs key) = {p \<in> set pairs. rc_coverage_key (fst p) = key}"
  by (auto simp: key_pairs_def)

text \<open>
  C10. No last write wins: the resolutions have one entry per coverage key of the participating
  clauses, in increasing key order; a key is resolved exactly when all participating clauses of
  that key, of the project and of the unit, state the same expression, and its winner is then one
  of those clauses; otherwise nothing wins and confirmation is required.
\<close>

theorem resolution_requires_agreement:
  "map rr_coverage_key (resolve_inherited_clauses clauses rule_sets now formal) =
     covered_keys (participating clauses rule_sets now formal) \<and>
   sorted (map rr_coverage_key (resolve_inherited_clauses clauses rule_sets now formal)) \<and>
   distinct (map rr_coverage_key (resolve_inherited_clauses clauses rule_sets now formal)) \<and>
   (\<forall>r \<in> set (resolve_inherited_clauses clauses rule_sets now formal).
      if agree (key_pairs (participating clauses rule_sets now formal) (rr_coverage_key r))
      then rr_status r = RESOLVED \<and>
        (\<exists>p \<in> set (key_pairs (participating clauses rule_sets now formal) (rr_coverage_key r)).
           rr_winning_clause_id r = Some (rc_rule_clause_id (fst p)))
      else rr_status r = CONFLICT_REQUIRES_CONFIRMATION \<and> rr_winning_clause_id r = None)"
proof -
  let ?pairs = "participating clauses rule_sets now formal"
  have keys: "map rr_coverage_key (resolve_inherited_clauses clauses rule_sets now formal) = covered_keys ?pairs"
    by (simp add: resolve_eq o_def)
  moreover have "sorted (covered_keys ?pairs) \<and> distinct (covered_keys ?pairs)"
    by (simp add: covered_keys_def)
  moreover have "if agree (key_pairs ?pairs key)
      then rr_status (resolve_key key (key_pairs ?pairs key)) = RESOLVED \<and>
        (\<exists>p \<in> set (key_pairs ?pairs key).
           rr_winning_clause_id (resolve_key key (key_pairs ?pairs key)) = Some (rc_rule_clause_id (fst p)))
      else rr_status (resolve_key key (key_pairs ?pairs key)) = CONFLICT_REQUIRES_CONFIRMATION \<and>
        rr_winning_clause_id (resolve_key key (key_pairs ?pairs key)) = None"
    if key: "key \<in> set (covered_keys ?pairs)" for key
  proof (cases "agree (key_pairs ?pairs key)")
    case True
    have "winner (preferred (key_pairs ?pairs key)) \<in> fst ` set (key_pairs ?pairs key)"
      using winner_in [OF preferred_not_Nil [OF key_pairs_not_Nil [OF key]]] preferred_in by blast
    then obtain p where p: "p \<in> set (key_pairs ?pairs key)" "winner (preferred (key_pairs ?pairs key)) = fst p"
      by auto
    from True resolve_key_cases [OF key_pairs_not_Nil [OF key], of key] obtain detail where
      "resolve_key key (key_pairs ?pairs key) = resolved key (fst p) detail"
      by (auto simp: p(2))
    with True p(1) show ?thesis
      by (auto simp: resolved_def)
  next
    case False
    with resolve_key_cases [OF key_pairs_not_Nil [OF key], of key] show ?thesis
      by (auto simp: conflict_def)
  qed
  ultimately show ?thesis
    by (simp add: resolve_eq)
qed

lemma winner_cong:
  assumes "set cs = set ds" and "cs \<noteq> []" and inj: "inj_on rc_rule_clause_id (set cs)"
  shows "winner cs = winner ds"
proof -
  have ne: "ds \<noteq> []" using assms(1,2) by auto
  have "clause_rank (winner cs) = clause_rank (winner ds)"
    using winner_least [of "winner ds" cs] winner_least [of "winner cs" ds] winner_in [OF assms(2)] winner_in [OF ne] assms(1)
    by (simp add: antisym)
  then have "rc_rule_clause_id (winner cs) = rc_rule_clause_id (winner ds)"
    by (simp add: clause_rank_def)
  with inj show ?thesis
    using winner_in [OF assms(2)] winner_in [OF ne] assms(1) by (auto dest: inj_onD)
qed

lemma preferred_cong:
  assumes "\<And>l. set (level_clauses l ps) = set (level_clauses l qs)"
  shows "set (preferred ps) = set (preferred qs)"
proof -
  have "level_clauses l ps = [] \<longleftrightarrow> level_clauses l qs = []" for l
    unfolding set_empty [symmetric] assms [of l] ..
  with assms show ?thesis by (simp add: preferred_def)
qed

text \<open>
  C11. The order of the clauses is irrelevant: two lists with the same clauses, whose identifiers
  are distinct, give the same keys, statuses and winners.
\<close>

theorem resolution_order_irrelevant:
  assumes same: "set clauses = set clauses'" and ids: "inj_on rc_rule_clause_id (set clauses)"
  shows "map (\<lambda>r. (rr_coverage_key r, rr_status r, rr_winning_clause_id r))
      (resolve_inherited_clauses clauses rule_sets now formal) =
    map (\<lambda>r. (rr_coverage_key r, rr_status r, rr_winning_clause_id r))
      (resolve_inherited_clauses clauses' rule_sets now formal)"
proof -
  let ?P = "participating clauses rule_sets now formal" and ?Q = "participating clauses' rule_sets now formal"
  have pq: "set ?P = set ?Q"
    using same by (auto simp: participating_mem)
  have sub: "fst ` set ?P \<subseteq> set clauses"
    by (auto simp: participating_mem)
  have "(rr_status (resolve_key key (key_pairs ?P key)), rr_winning_clause_id (resolve_key key (key_pairs ?P key))) =
      (rr_status (resolve_key key (key_pairs ?Q key)), rr_winning_clause_id (resolve_key key (key_pairs ?Q key)))"
    if key: "key \<in> set (covered_keys ?P)" for key
  proof -
    have kq: "key \<in> set (covered_keys ?Q)" using key pq by simp
    have sets: "set (key_pairs ?P key) = set (key_pairs ?Q key)" using pq by (simp add: set_key_pairs)
    then have agr: "agree (key_pairs ?P key) = agree (key_pairs ?Q key)" by (simp add: agree_def)
    have lv: "set (level_clauses l (key_pairs ?P key)) = set (level_clauses l (key_pairs ?Q key))" for l
      using sets by (simp add: set_level_clauses)
    then have pref: "set (preferred (key_pairs ?P key)) = set (preferred (key_pairs ?Q key))"
      by (rule preferred_cong)
    have "set (preferred (key_pairs ?P key)) \<subseteq> set clauses"
      using preferred_in [of "key_pairs ?P key"] sub by (auto simp: set_key_pairs)
    then have "inj_on rc_rule_clause_id (set (preferred (key_pairs ?P key)))"
      using ids by (rule inj_on_subset [rotated])
    then have "winner (preferred (key_pairs ?P key)) = winner (preferred (key_pairs ?Q key))"
      by (intro winner_cong pref preferred_not_Nil key_pairs_not_Nil key)
    with agr resolve_key_cases [OF key_pairs_not_Nil [OF key], of key]
      resolve_key_cases [OF key_pairs_not_Nil [OF kq], of key]
    show ?thesis by (auto simp: resolved_def conflict_def split: if_splits)
  qed
  with covered_keys_cong [OF pq] show ?thesis
    by (simp add: resolve_eq o_def)
qed

text \<open>
  C12. Formal resolution stands on published rules only: a winner of a formal resolution is a
  clause that is published and current, of a rule set that is published, current and effective
  at the time.
\<close>

theorem formal_winner_published:
  assumes "r \<in> set (resolve_inherited_clauses clauses rule_sets now True)"
    and "rr_winning_clause_id r = Some i"
  shows "\<exists>c \<in> set clauses. \<exists>s \<in> set rule_sets. rc_rule_clause_id c = i \<and> rc_coverage_key c = rr_coverage_key r \<and>
    rc_rule_set_id c = rs_rule_set_id s \<and> rc_lifecycle_state c = RES_PUBLISHED \<and> rc_validity_state c = VAL_CURRENT \<and>
    rs_lifecycle_state s = RES_PUBLISHED \<and> rule_set_is_effective now s"
proof -
  let ?pairs = "participating clauses rule_sets now True"
  from assms(1) obtain key where key: "key \<in> set (covered_keys ?pairs)" and r: "r = resolve_key key (key_pairs ?pairs key)"
    by (auto simp: resolve_eq)
  have ne: "key_pairs ?pairs key \<noteq> []" using key by (rule key_pairs_not_Nil)
  have "i = rc_rule_clause_id (winner (preferred (key_pairs ?pairs key)))"
    using resolve_key_cases [OF ne, of key] assms(2) r by (auto simp: resolved_def conflict_def split: if_splits)
  moreover have "winner (preferred (key_pairs ?pairs key)) \<in> fst ` set (key_pairs ?pairs key)"
    using winner_in [OF preferred_not_Nil [OF ne]] preferred_in by blast
  ultimately obtain c s where cs: "(c, s) \<in> set (key_pairs ?pairs key)" and i: "i = rc_rule_clause_id c"
    by auto
  then have "c \<in> set clauses" "grouped_with (dict_of rs_rule_set_id id rule_sets) now True c = Some (c, s)"
    "rc_coverage_key c = key"
    by (auto simp: set_key_pairs participating_mem)
  with grouped_with_formal [OF this(2)] i r show ?thesis
    by (intro bexI [of _ c] bexI [of _ s]) auto
qed

section \<open>The available rule set\<close>

lemma max_by_props:
  "max_by key x xs \<in> insert x (set xs) \<and> (\<forall>y \<in> insert x (set xs). key y \<le> key (max_by key x xs))"
proof (induction xs arbitrary: x)
  case Nil
  then show ?case by (simp add: max_by_def)
next
  case (Cons y ys)
  let ?b = "if key x < key y then y else x"
  have eq: "max_by key x (y # ys) = max_by key ?b ys" by (simp add: max_by_def)
  have "key x \<le> key ?b \<and> key y \<le> key ?b" by auto
  moreover from Cons.IH [of ?b] have "key ?b \<le> key (max_by key ?b ys)" by blast
  ultimately have "key x \<le> key (max_by key ?b ys)" "key y \<le> key (max_by key ?b ys)" by (meson order_trans)+
  with Cons.IH [of ?b] show ?case unfolding eq by (auto split: if_splits)
qed

text \<open>
  The rule set offered to other modules is a published, current one in its effective window,
  and none of those is newer; nothing is offered only when there is none.
\<close>

theorem supported_rule_set_latest:
  "case current_supported_rule_set now rule_sets of
     None \<Rightarrow> filter (available_candidate now) rule_sets = []
   | Some i \<Rightarrow> \<exists>s \<in> set rule_sets. rs_rule_set_id s = i \<and> available_candidate now s \<and>
       rule_set_is_effective now s \<and>
       (\<forall>s' \<in> set (filter (available_candidate now) rule_sets). availability_rank s' \<le> availability_rank s)"
proof (cases "filter (available_candidate now) rule_sets")
  case Nil
  then show ?thesis by (simp add: current_supported_rule_set_def)
next
  case (Cons c cs)
  let ?m = "max_by availability_rank c cs"
  have "?m \<in> set (filter (available_candidate now) rule_sets)"
    and max: "\<forall>y \<in> set (filter (available_candidate now) rule_sets). availability_rank y \<le> availability_rank ?m"
    using max_by_props [of availability_rank c cs] unfolding Cons by auto
  then have "?m \<in> set rule_sets" "available_candidate now ?m" by auto
  moreover have "rule_set_is_effective now ?m"
    using \<open>available_candidate now ?m\<close>
    by (auto simp: available_candidate_def rule_set_is_effective_def split: option.splits)
  ultimately show ?thesis
    using max Cons by (auto simp: current_supported_rule_set_def)
qed

section \<open>Concrete resolutions\<close>

definition sample_version :: version_metadata where
  "sample_version =
     \<lparr>ve_version_id = 1, ve_version_number = 1, ve_created_at = 0, ve_created_by = 1,
      ve_content_hash = replicate 64 (CHR ''a''), ve_supersedes_version_id = None\<rparr>"

definition sample_rule_set :: "uuid \<Rightarrow> rule_scope_level \<Rightarrow> rule_set" where
  "sample_rule_set i level =
     \<lparr>rs_rule_set_id = i, rs_decision_unit_id = 9, rs_project_id = 7, rs_tenant_id = 1, rs_data_domain_id = 2,
      rs_title = ''rules'', rs_scope_level = level, rs_lifecycle_state = RES_PUBLISHED,
      rs_validity_state = VAL_CURRENT, rs_version = sample_version, rs_effective_from = Some 0,
      rs_effective_until = None, rs_confirmed_by = None, rs_confirmed_at = None\<rparr>"

definition sample_clause :: "uuid \<Rightarrow> uuid \<Rightarrow> string \<Rightarrow> rule_clause" where
  "sample_clause i set_id expression =
     \<lparr>rc_rule_clause_id = i, rc_rule_set_id = set_id, rc_decision_unit_id = 9, rc_project_id = 7,
      rc_tenant_id = 1, rc_data_domain_id = 2, rc_kind = SCORING, rc_coverage_key = ''price'', rc_priority = 5,
      rc_original_text = ''text'', rc_structured_expression = Some expression, rc_confidence = 1,
      rc_source = None, rc_supersedes_clause_id = None, rc_lifecycle_state = RES_PUBLISHED,
      rc_validity_state = VAL_CURRENT, rc_version = sample_version, rc_confirmed_by = None,
      rc_confirmed_at = None\<rparr>"

definition sample_rule_sets :: "rule_set list" where
  "sample_rule_sets = [sample_rule_set 10 LEVEL_PROJECT, sample_rule_set 11 LEVEL_DECISION_UNIT]"

lemma sample_agreement:
  "map (\<lambda>r. (rr_status r, rr_winning_clause_id r))
     (resolve_inherited_clauses [sample_clause 1 10 ''x'', sample_clause 2 11 ''x''] sample_rule_sets 5 True) =
   [(RESOLVED, Some 2)]"
  by code_simp

lemma sample_disagreement:
  "map (\<lambda>r. (rr_status r, rr_winning_clause_id r))
     (resolve_inherited_clauses [sample_clause 1 10 ''x'', sample_clause 2 11 ''y''] sample_rule_sets 5 True) =
   [(CONFLICT_REQUIRES_CONFIRMATION, None)]"
  by code_simp

theorem resolution_requires_agreement_witness:
  "\<exists>r. resolve_inherited_clauses [sample_clause 1 10 ''x'', sample_clause 2 11 ''y''] sample_rule_sets 5 True = [r] \<and>
     rr_status r = CONFLICT_REQUIRES_CONFIRMATION \<and>
     \<not> agree (key_pairs (participating [sample_clause 1 10 ''x'', sample_clause 2 11 ''y''] sample_rule_sets 5 True) (rr_coverage_key r))"
  using sample_disagreement
    resolution_requires_agreement [of "[sample_clause 1 10 ''x'', sample_clause 2 11 ''y'']" sample_rule_sets 5 True]
  by (auto split: if_splits)

theorem resolution_order_irrelevant_witness:
  "map (\<lambda>r. (rr_coverage_key r, rr_status r, rr_winning_clause_id r))
     (resolve_inherited_clauses [sample_clause 1 10 ''x'', sample_clause 2 11 ''x''] sample_rule_sets 5 True) =
   map (\<lambda>r. (rr_coverage_key r, rr_status r, rr_winning_clause_id r))
     (resolve_inherited_clauses [sample_clause 2 11 ''x'', sample_clause 1 10 ''x''] sample_rule_sets 5 True)"
  by (rule resolution_order_irrelevant) (auto simp: inj_on_def sample_clause_def)

theorem formal_winner_published_witness:
  "\<exists>c \<in> set [sample_clause 1 10 ''x'', sample_clause 2 11 ''x'']. rc_rule_clause_id c = 2 \<and> rc_lifecycle_state c = RES_PUBLISHED"
proof -
  let ?cs = "[sample_clause 1 10 ''x'', sample_clause 2 11 ''x'']"
  obtain r where "r \<in> set (resolve_inherited_clauses ?cs sample_rule_sets 5 True)" "rr_winning_clause_id r = Some 2"
    using sample_agreement by (cases "resolve_inherited_clauses ?cs sample_rule_sets 5 True") auto
  from formal_winner_published [OF this] show ?thesis by blast
qed

theorem supported_rule_set_latest_witness:
  "\<exists>i. current_supported_rule_set 5 sample_rule_sets = Some i"
proof -
  have "available_candidate 5 (sample_rule_set 10 LEVEL_PROJECT)" by code_simp
  then have "filter (available_candidate 5) sample_rule_sets \<noteq> []" by (auto simp: sample_rule_sets_def)
  then show ?thesis
    using supported_rule_set_latest [of 5 sample_rule_sets] by (auto split: option.splits)
qed

end
