(* ===== verification/Store.thy ===== *)
theory Store
  imports World
begin

text \<open>
  The dictionaries of the in-memory repositories as one interface: a keyed store with a scoped
  read (locale \<open>scoped_store\<close>: what a read returns after a write, and that nothing outside the
  scope is ever returned), and one that can be listed (locale \<open>listed_store\<close>).
\<close>

section \<open>The keyed stores as an interface\<close>

definition stored :: "(uuid, 'a) dict \<Rightarrow> (tenant_scope \<Rightarrow> 'a \<Rightarrow> bool) \<Rightarrow> tenant_scope \<Rightarrow> uuid \<Rightarrow> 'a option" where
  "stored d visible scope k =
     (case dict_get d k of None \<Rightarrow> None | Some x \<Rightarrow> if visible scope x then Some x else None)"

definition keyed :: "('a \<Rightarrow> uuid) \<Rightarrow> (uuid, 'a) dict \<Rightarrow> bool" where
  "keyed key d \<longleftrightarrow> dict_ok d \<and> (\<forall>(k, x) \<in> set d. key x = k)"

lemma keyed_Nil [simp]: "keyed key []"
  by (simp add: keyed_def)

lemma keyed_get: "keyed key d \<Longrightarrow> dict_get d k = Some x \<Longrightarrow> key x = k"
  by (auto simp: keyed_def dest: map_of_SomeD)

lemma keyed_set: "keyed key d \<Longrightarrow> keyed key (dict_set (key x) x d)"
proof -
  assume d: "keyed key d"
  have "key y = k" if "(k, y) \<in> set (dict_set (key x) x d)" for k y
  proof -
    have "dict_get (dict_set (key x) x d) k = Some y"
      using that d dict_ok_set [of d "key x" x] unfolding keyed_def dict_ok_def by (blast intro: map_of_is_SomeI)
    then show ?thesis using d by (auto split: if_splits dest: keyed_get)
  qed
  with d show ?thesis by (auto simp: keyed_def)
qed

text \<open>
  A store with \<open>put\<close> and a scoped \<open>get\<close>: the laws its clients rely on.
\<close>

locale scoped_store =
  fixes key :: "'a \<Rightarrow> uuid" and visible :: "tenant_scope \<Rightarrow> 'a \<Rightarrow> bool"
    and put :: "'a \<Rightarrow> 'r \<Rightarrow> 'r" and get :: "tenant_scope \<Rightarrow> uuid \<Rightarrow> 'r \<Rightarrow> 'a option" and ok :: "'r \<Rightarrow> bool"
  assumes get_put: "get scope k (put x r) = (if k = key x then (if visible scope x then Some x else None) else get scope k r)"
    and get_sound: "ok r \<Longrightarrow> get scope k r = Some x \<Longrightarrow> key x = k \<and> visible scope x"
    and put_ok: "ok r \<Longrightarrow> ok (put x r)"
begin

text \<open>After any sequence of writes a key reads as the last item written under it.\<close>

lemma puts_ok: "ok r \<Longrightarrow> ok (fold put xs r)"
  by (induction xs arbitrary: r) (auto intro: put_ok)

lemma get_puts_other: "k \<notin> key ` set xs \<Longrightarrow> get scope k (fold put xs r) = get scope k r"
  by (induction xs arbitrary: r) (auto simp: get_put)

lemma get_puts_last:
  assumes "key x \<notin> key ` set ys"
  shows "get scope (key x) (fold put (xs @ x # ys) r) = (if visible scope x then Some x else None)"
  using get_puts_other [OF assms] by (simp add: get_put)

text \<open>Writes under different keys commute, as far as any reader can tell.\<close>

lemma put_commute: "key x \<noteq> key y \<Longrightarrow> get scope k (put x (put y r)) = get scope k (put y (put x r))"
  by (simp add: get_put)

lemma get_visible: "ok r \<Longrightarrow> get scope k r = Some x \<Longrightarrow> visible scope x"
  using get_sound by blast

end

text \<open>A store that can also be listed: the items a listing returns are those that can be read.\<close>

locale listed_store = scoped_store key visible put get ok
  for key :: "'a \<Rightarrow> uuid" and visible :: "tenant_scope \<Rightarrow> 'a \<Rightarrow> bool"
    and put :: "'a \<Rightarrow> 'r \<Rightarrow> 'r" and get :: "tenant_scope \<Rightarrow> uuid \<Rightarrow> 'r \<Rightarrow> 'a option" and ok :: "'r \<Rightarrow> bool" +
  fixes items :: "tenant_scope \<Rightarrow> 'r \<Rightarrow> 'a list"
  assumes items_read: "ok r \<Longrightarrow> x \<in> set (items scope r) \<longleftrightarrow> get scope (key x) r = Some x"
begin

lemma items_visible: "ok r \<Longrightarrow> x \<in> set (items scope r) \<Longrightarrow> visible scope x"
  using items_read get_visible by blast

lemma put_listed: "ok r \<Longrightarrow> visible scope x \<Longrightarrow> x \<in> set (items scope (put x r))"
  by (simp add: items_read put_ok get_put)

end

text \<open>The dictionaries of the repository are such stores.\<close>

definition visible_values :: "(uuid, 'a) dict \<Rightarrow> (tenant_scope \<Rightarrow> 'a \<Rightarrow> bool) \<Rightarrow> tenant_scope \<Rightarrow> 'a list" where
  "visible_values d visible scope = filter (visible scope) (dict_values d)"

lemma stored_put: "stored (dict_set (key x) x d) visible scope k =
    (if k = key x then (if visible scope x then Some x else None) else stored d visible scope k)"
  by (simp add: stored_def)

lemma stored_sound: "keyed key d \<Longrightarrow> stored d visible scope k = Some x \<Longrightarrow> key x = k \<and> visible scope x"
  by (auto simp: stored_def keyed_get split: option.splits if_splits)

lemma visible_values_read:
  "keyed key d \<Longrightarrow> x \<in> set (visible_values d visible scope) \<longleftrightarrow> stored d visible scope (key x) = Some x"
proof -
  assume d: "keyed key d"
  then have "x \<in> set (dict_values d) \<longleftrightarrow> dict_get d (key x) = Some x"
    by (auto simp: keyed_def dict_values_get dest: keyed_get [OF d])
  then show ?thesis by (auto simp: visible_values_def stored_def split: option.splits)
qed

section \<open>Stores whose values satisfy a predicate\<close>

definition all_values :: "('a \<Rightarrow> bool) \<Rightarrow> ('k, 'a) dict \<Rightarrow> bool" where
  "all_values P d \<longleftrightarrow> (\<forall>x \<in> set (dict_values d). P x)"

lemma all_values_Nil [simp]: "all_values P []"
  by (simp add: all_values_def dict_values_def)

lemma all_values_set: "all_values P d \<Longrightarrow> P x \<Longrightarrow> all_values P (dict_set k x d)"
  by (induction d) (auto simp: all_values_def dict_values_def)

lemma all_values_get: "all_values P d \<Longrightarrow> dict_get d k = Some x \<Longrightarrow> P x"
  by (force simp: all_values_def dict_values_def dest: map_of_SomeD)

lemma all_values_stored: "all_values P d \<Longrightarrow> stored d v s k = Some x \<Longrightarrow> P x"
  by (auto simp: stored_def dest: all_values_get split: option.splits if_splits)

lemma all_values_visible: "all_values P d \<Longrightarrow> x \<in> set (visible_values d visible scope) \<Longrightarrow> P x"
  by (auto simp: all_values_def visible_values_def)

end
