(* ===== verification/Fr01_Repository.thy ===== *)
theory Fr01_Repository
  imports Resolution Store
begin

text \<open>
  The in-memory store of projects, units, lifecycle events, rules and document references,
  \<open>modules/projects/application/repository.py\<close>. Every read filters by the caller's scope with
  \<open>_scope_ok\<close>. The keyed stores share one interface, the locale \<open>scoped_store\<close>: what a
  read returns after a write, and that nothing outside the scope is ever returned.
\<close>

section \<open>Scope\<close>

text \<open>
  \<open>_scope_ok\<close>. Unlike \<open>assert_allows\<close>, an empty set of projects or units in the scope
  does not restrict anything here.
\<close>

definition scope_ok :: "uuid \<Rightarrow> uuid \<Rightarrow> uuid option \<Rightarrow> uuid option \<Rightarrow> tenant_scope \<Rightarrow> bool" where
  "scope_ok tid did pid uid scope =
     (if tid \<noteq> sc_tenant_id scope \<or> did \<noteq> sc_data_domain_id scope then False
      else if pid \<noteq> None \<and> \<not> sc_all_projects scope \<and> sc_project_ids scope \<noteq> [] \<and>
              the pid \<notin> set (sc_project_ids scope) then False
      else if uid \<noteq> None \<and> \<not> sc_all_decision_units scope \<and> sc_decision_unit_ids scope \<noteq> [] \<and>
              the uid \<notin> set (sc_decision_unit_ids scope) then False
      else True)"

lemma scope_covers_ok: "scope_covers scope tid did pid uid \<Longrightarrow> scope_ok tid did pid uid scope"
  by (cases pid; cases uid) (auto simp: scope_covers_def scope_ok_def)

lemma scope_ok_tenant: "scope_ok tid did pid uid scope \<Longrightarrow> tid = sc_tenant_id scope \<and> did = sc_data_domain_id scope"
  by (simp add: scope_ok_def split: if_splits)

section \<open>The repository\<close>

record fr01_repo =
  fr_projects :: "(uuid, procurement_project) dict"
  fr_units :: "(uuid, decision_unit) dict"
  fr_events :: "lifecycle_event list"
  fr_scopes :: "(uuid, scope_assessment) dict"
  fr_regimes :: "(uuid, applicable_regime) dict"
  fr_rule_sets :: "(uuid, rule_set) dict"
  fr_clauses :: "(uuid, rule_clause) dict"
  fr_reviews :: "(uuid, compliance_review) dict"
  fr_constraints :: "(uuid, cross_lot_constraint) dict"
  fr_document_refs :: "(uuid, document_ref) dict"

definition empty_fr01 :: fr01_repo where
  "empty_fr01 = \<lparr>fr_projects = [], fr_units = [], fr_events = [], fr_scopes = [], fr_regimes = [],
     fr_rule_sets = [], fr_clauses = [], fr_reviews = [], fr_constraints = [], fr_document_refs = []\<rparr>"

definition project_visible :: "tenant_scope \<Rightarrow> procurement_project \<Rightarrow> bool" where
  "project_visible scope x = scope_ok (pj_tenant_id x) (pj_data_domain_id x) (Some (pj_project_id x)) (None) scope"

lemma project_visible_tenant: "project_visible scope x \<Longrightarrow> pj_tenant_id x = sc_tenant_id scope \<and> pj_data_domain_id x = sc_data_domain_id scope"
  by (auto simp: project_visible_def dest: scope_ok_tenant)

definition upsert_project :: "procurement_project \<Rightarrow> fr01_repo \<Rightarrow> fr01_repo" where
  "upsert_project x r = r\<lparr>fr_projects := dict_set (pj_project_id x) x (fr_projects r)\<rparr>"

definition get_project :: "tenant_scope \<Rightarrow> uuid \<Rightarrow> fr01_repo \<Rightarrow> procurement_project option" where
  "get_project scope k r = stored (fr_projects r) project_visible scope k"

definition unit_visible :: "tenant_scope \<Rightarrow> decision_unit \<Rightarrow> bool" where
  "unit_visible scope x = scope_ok (un_tenant_id x) (un_data_domain_id x) (Some (un_project_id x)) (Some (un_decision_unit_id x)) scope"

lemma unit_visible_tenant: "unit_visible scope x \<Longrightarrow> un_tenant_id x = sc_tenant_id scope \<and> un_data_domain_id x = sc_data_domain_id scope"
  by (auto simp: unit_visible_def dest: scope_ok_tenant)

definition upsert_unit :: "decision_unit \<Rightarrow> fr01_repo \<Rightarrow> fr01_repo" where
  "upsert_unit x r = r\<lparr>fr_units := dict_set (un_decision_unit_id x) x (fr_units r)\<rparr>"

definition get_unit :: "tenant_scope \<Rightarrow> uuid \<Rightarrow> fr01_repo \<Rightarrow> decision_unit option" where
  "get_unit scope k r = stored (fr_units r) unit_visible scope k"

definition scope_visible :: "tenant_scope \<Rightarrow> scope_assessment \<Rightarrow> bool" where
  "scope_visible scope x = scope_ok (sa_tenant_id x) (sa_data_domain_id x) (Some (sa_project_id x)) (Some (sa_decision_unit_id x)) scope"

lemma scope_visible_tenant: "scope_visible scope x \<Longrightarrow> sa_tenant_id x = sc_tenant_id scope \<and> sa_data_domain_id x = sc_data_domain_id scope"
  by (auto simp: scope_visible_def dest: scope_ok_tenant)

definition upsert_scope :: "scope_assessment \<Rightarrow> fr01_repo \<Rightarrow> fr01_repo" where
  "upsert_scope x r = r\<lparr>fr_scopes := dict_set (sa_scope_assessment_id x) x (fr_scopes r)\<rparr>"

definition get_scope :: "tenant_scope \<Rightarrow> uuid \<Rightarrow> fr01_repo \<Rightarrow> scope_assessment option" where
  "get_scope scope k r = stored (fr_scopes r) scope_visible scope k"

definition regime_visible :: "tenant_scope \<Rightarrow> applicable_regime \<Rightarrow> bool" where
  "regime_visible scope x = scope_ok (rg_tenant_id x) (rg_data_domain_id x) (Some (rg_project_id x)) (Some (rg_decision_unit_id x)) scope"

lemma regime_visible_tenant: "regime_visible scope x \<Longrightarrow> rg_tenant_id x = sc_tenant_id scope \<and> rg_data_domain_id x = sc_data_domain_id scope"
  by (auto simp: regime_visible_def dest: scope_ok_tenant)

definition upsert_regime :: "applicable_regime \<Rightarrow> fr01_repo \<Rightarrow> fr01_repo" where
  "upsert_regime x r = r\<lparr>fr_regimes := dict_set (rg_applicable_regime_id x) x (fr_regimes r)\<rparr>"

definition get_regime :: "tenant_scope \<Rightarrow> uuid \<Rightarrow> fr01_repo \<Rightarrow> applicable_regime option" where
  "get_regime scope k r = stored (fr_regimes r) regime_visible scope k"

definition rule_set_visible :: "tenant_scope \<Rightarrow> rule_set \<Rightarrow> bool" where
  "rule_set_visible scope x = scope_ok (rs_tenant_id x) (rs_data_domain_id x) (Some (rs_project_id x)) (Some (rs_decision_unit_id x)) scope"

lemma rule_set_visible_tenant: "rule_set_visible scope x \<Longrightarrow> rs_tenant_id x = sc_tenant_id scope \<and> rs_data_domain_id x = sc_data_domain_id scope"
  by (auto simp: rule_set_visible_def dest: scope_ok_tenant)

definition upsert_rule_set :: "rule_set \<Rightarrow> fr01_repo \<Rightarrow> fr01_repo" where
  "upsert_rule_set x r = r\<lparr>fr_rule_sets := dict_set (rs_rule_set_id x) x (fr_rule_sets r)\<rparr>"

definition get_rule_set :: "tenant_scope \<Rightarrow> uuid \<Rightarrow> fr01_repo \<Rightarrow> rule_set option" where
  "get_rule_set scope k r = stored (fr_rule_sets r) rule_set_visible scope k"

definition clause_visible :: "tenant_scope \<Rightarrow> rule_clause \<Rightarrow> bool" where
  "clause_visible scope x = scope_ok (rc_tenant_id x) (rc_data_domain_id x) (Some (rc_project_id x)) (Some (rc_decision_unit_id x)) scope"

lemma clause_visible_tenant: "clause_visible scope x \<Longrightarrow> rc_tenant_id x = sc_tenant_id scope \<and> rc_data_domain_id x = sc_data_domain_id scope"
  by (auto simp: clause_visible_def dest: scope_ok_tenant)

definition upsert_clause :: "rule_clause \<Rightarrow> fr01_repo \<Rightarrow> fr01_repo" where
  "upsert_clause x r = r\<lparr>fr_clauses := dict_set (rc_rule_clause_id x) x (fr_clauses r)\<rparr>"

definition get_clause :: "tenant_scope \<Rightarrow> uuid \<Rightarrow> fr01_repo \<Rightarrow> rule_clause option" where
  "get_clause scope k r = stored (fr_clauses r) clause_visible scope k"

definition review_visible :: "tenant_scope \<Rightarrow> compliance_review \<Rightarrow> bool" where
  "review_visible scope x = scope_ok (cr_tenant_id x) (cr_data_domain_id x) (Some (cr_project_id x)) (Some (cr_decision_unit_id x)) scope"

lemma review_visible_tenant: "review_visible scope x \<Longrightarrow> cr_tenant_id x = sc_tenant_id scope \<and> cr_data_domain_id x = sc_data_domain_id scope"
  by (auto simp: review_visible_def dest: scope_ok_tenant)

definition upsert_review :: "compliance_review \<Rightarrow> fr01_repo \<Rightarrow> fr01_repo" where
  "upsert_review x r = r\<lparr>fr_reviews := dict_set (cr_compliance_review_id x) x (fr_reviews r)\<rparr>"

definition get_review :: "tenant_scope \<Rightarrow> uuid \<Rightarrow> fr01_repo \<Rightarrow> compliance_review option" where
  "get_review scope k r = stored (fr_reviews r) review_visible scope k"

definition constraint_visible :: "tenant_scope \<Rightarrow> cross_lot_constraint \<Rightarrow> bool" where
  "constraint_visible scope x = scope_ok (cl_tenant_id x) (cl_data_domain_id x) (Some (cl_project_id x)) (Some (cl_decision_unit_id x)) scope"

lemma constraint_visible_tenant: "constraint_visible scope x \<Longrightarrow> cl_tenant_id x = sc_tenant_id scope \<and> cl_data_domain_id x = sc_data_domain_id scope"
  by (auto simp: constraint_visible_def dest: scope_ok_tenant)

definition upsert_constraint :: "cross_lot_constraint \<Rightarrow> fr01_repo \<Rightarrow> fr01_repo" where
  "upsert_constraint x r = r\<lparr>fr_constraints := dict_set (cl_cross_lot_constraint_id x) x (fr_constraints r)\<rparr>"

definition get_constraint :: "tenant_scope \<Rightarrow> uuid \<Rightarrow> fr01_repo \<Rightarrow> cross_lot_constraint option" where
  "get_constraint scope k r = stored (fr_constraints r) constraint_visible scope k"

definition document_ref_visible :: "tenant_scope \<Rightarrow> document_ref \<Rightarrow> bool" where
  "document_ref_visible scope x = scope_ok (di_tenant_id x) (di_data_domain_id x) (di_project_id x) (di_decision_unit_id x) scope"

lemma document_ref_visible_tenant: "document_ref_visible scope x \<Longrightarrow> di_tenant_id x = sc_tenant_id scope \<and> di_data_domain_id x = sc_data_domain_id scope"
  by (auto simp: document_ref_visible_def dest: scope_ok_tenant)

definition upsert_document_ref :: "document_ref \<Rightarrow> fr01_repo \<Rightarrow> fr01_repo" where
  "upsert_document_ref x r = r\<lparr>fr_document_refs := dict_set (di_event_id x) x (fr_document_refs r)\<rparr>"

definition get_document_ref :: "tenant_scope \<Rightarrow> uuid \<Rightarrow> fr01_repo \<Rightarrow> document_ref option" where
  "get_document_ref scope k r = stored (fr_document_refs r) document_ref_visible scope k"

text \<open>The listings, each sorted as the code sorts it.\<close>

definition list_projects :: "tenant_scope \<Rightarrow> fr01_repo \<Rightarrow> procurement_project list" where
  "list_projects scope r =
     sort_key (\<lambda>x. (ve_created_at (pj_version x), pj_project_id x))
       (visible_values (fr_projects r) project_visible scope)"

definition list_units :: "tenant_scope \<Rightarrow> uuid \<Rightarrow> fr01_repo \<Rightarrow> decision_unit list" where
  "list_units scope project_id r =
     sort_key (\<lambda>x. (ve_created_at (un_version x), un_decision_unit_id x))
       (filter (\<lambda>x. un_project_id x = project_id) (visible_values (fr_units r) unit_visible scope))"

definition list_scopes :: "tenant_scope \<Rightarrow> uuid \<Rightarrow> fr01_repo \<Rightarrow> scope_assessment list" where
  "list_scopes scope unit_id r =
     sort_key (\<lambda>x. (ve_created_at (sa_version x), sa_scope_assessment_id x))
       (filter (\<lambda>x. sa_decision_unit_id x = unit_id) (visible_values (fr_scopes r) scope_visible scope))"

definition list_regimes :: "tenant_scope \<Rightarrow> uuid \<Rightarrow> fr01_repo \<Rightarrow> applicable_regime list" where
  "list_regimes scope unit_id r =
     sort_key (\<lambda>x. (ve_created_at (rg_version x), rg_applicable_regime_id x))
       (filter (\<lambda>x. rg_decision_unit_id x = unit_id) (visible_values (fr_regimes r) regime_visible scope))"

definition list_clauses :: "tenant_scope \<Rightarrow> uuid \<Rightarrow> fr01_repo \<Rightarrow> rule_clause list" where
  "list_clauses scope set_id r =
     sort_key (\<lambda>x. (rc_priority x, rc_rule_clause_id x))
       (filter (\<lambda>x. rc_rule_set_id x = set_id) (visible_values (fr_clauses r) clause_visible scope))"

definition list_reviews :: "tenant_scope \<Rightarrow> uuid \<Rightarrow> fr01_repo \<Rightarrow> compliance_review list" where
  "list_reviews scope unit_id r =
     sort_key (\<lambda>x. (ve_created_at (cr_version x), cr_compliance_review_id x))
       (filter (\<lambda>x. cr_decision_unit_id x = unit_id) (visible_values (fr_reviews r) review_visible scope))"

definition list_constraints :: "tenant_scope \<Rightarrow> uuid \<Rightarrow> fr01_repo \<Rightarrow> cross_lot_constraint list" where
  "list_constraints scope unit_id r =
     sort_key (\<lambda>x. (ve_created_at (cl_version x), cl_cross_lot_constraint_id x))
       (filter (\<lambda>x. cl_decision_unit_id x = unit_id) (visible_values (fr_constraints r) constraint_visible scope))"

definition list_document_refs :: "tenant_scope \<Rightarrow> uuid option \<Rightarrow> fr01_repo \<Rightarrow> document_ref list" where
  "list_document_refs scope unit_id r =
     sort_key (\<lambda>x. (di_occurred_at x, di_event_id x))
       (filter (\<lambda>x. unit_id = None \<or> di_decision_unit_id x = unit_id) (visible_values (fr_document_refs r) document_ref_visible scope))"

definition append_lifecycle_event :: "lifecycle_event \<Rightarrow> fr01_repo \<Rightarrow> fr01_repo" where
  "append_lifecycle_event e r = r\<lparr>fr_events := fr_events r @ [e]\<rparr>"

definition event_visible :: "tenant_scope \<Rightarrow> lifecycle_event \<Rightarrow> bool" where
  "event_visible scope e =
     scope_ok (lv_tenant_id e) (lv_data_domain_id e) (Some (lv_project_id e)) (Some (lv_decision_unit_id e)) scope"

definition list_lifecycle_events :: "tenant_scope \<Rightarrow> uuid \<Rightarrow> fr01_repo \<Rightarrow> lifecycle_event list" where
  "list_lifecycle_events scope unit_id r =
     sort_key lv_sequence (filter (\<lambda>e. lv_decision_unit_id e = unit_id \<and> event_visible scope e) (fr_events r))"

text \<open>The rule sets of a unit: its own, and the project-level ones of its project.\<close>

definition list_rule_sets :: "tenant_scope \<Rightarrow> uuid \<Rightarrow> fr01_repo \<Rightarrow> rule_set list" where
  "list_rule_sets scope unit_id r =
     (case get_unit scope unit_id r of
        None \<Rightarrow> []
      | Some u \<Rightarrow>
          sort_key (\<lambda>x. (ve_created_at (rs_version x), rs_rule_set_id x))
            (filter (\<lambda>x. rs_project_id x = un_project_id u \<and>
                       (rs_decision_unit_id x = unit_id \<or> rs_scope_level x = LEVEL_PROJECT))
              (visible_values (fr_rule_sets r) rule_set_visible scope)))"

definition list_all_clauses_for_unit :: "tenant_scope \<Rightarrow> uuid \<Rightarrow> fr01_repo \<Rightarrow> rule_clause list" where
  "list_all_clauses_for_unit scope unit_id r =
     (let ids = map rs_rule_set_id (list_rule_sets scope unit_id r) in
      sort_key (\<lambda>x. (rc_coverage_key x, rc_priority x, rc_rule_clause_id x))
        (filter (\<lambda>x. rc_rule_set_id x \<in> set ids) (visible_values (fr_clauses r) clause_visible scope)))"

section \<open>The stores provide the interface\<close>

definition project_store_ok :: "fr01_repo \<Rightarrow> bool" where
  "project_store_ok r \<longleftrightarrow> keyed pj_project_id (fr_projects r)"

definition unit_store_ok :: "fr01_repo \<Rightarrow> bool" where
  "unit_store_ok r \<longleftrightarrow> keyed un_decision_unit_id (fr_units r)"

definition scope_store_ok :: "fr01_repo \<Rightarrow> bool" where
  "scope_store_ok r \<longleftrightarrow> keyed sa_scope_assessment_id (fr_scopes r)"

definition regime_store_ok :: "fr01_repo \<Rightarrow> bool" where
  "regime_store_ok r \<longleftrightarrow> keyed rg_applicable_regime_id (fr_regimes r)"

definition rule_set_store_ok :: "fr01_repo \<Rightarrow> bool" where
  "rule_set_store_ok r \<longleftrightarrow> keyed rs_rule_set_id (fr_rule_sets r)"

definition clause_store_ok :: "fr01_repo \<Rightarrow> bool" where
  "clause_store_ok r \<longleftrightarrow> keyed rc_rule_clause_id (fr_clauses r)"

definition review_store_ok :: "fr01_repo \<Rightarrow> bool" where
  "review_store_ok r \<longleftrightarrow> keyed cr_compliance_review_id (fr_reviews r)"

definition constraint_store_ok :: "fr01_repo \<Rightarrow> bool" where
  "constraint_store_ok r \<longleftrightarrow> keyed cl_cross_lot_constraint_id (fr_constraints r)"

definition document_ref_store_ok :: "fr01_repo \<Rightarrow> bool" where
  "document_ref_store_ok r \<longleftrightarrow> keyed di_event_id (fr_document_refs r)"

interpretation projects: listed_store pj_project_id project_visible upsert_project get_project project_store_ok
  "\<lambda>scope r. visible_values (fr_projects r) project_visible scope"
  by unfold_locales
    (auto simp: get_project_def upsert_project_def project_store_ok_def stored_put visible_values_read keyed_set dest: stored_sound)

interpretation units: listed_store un_decision_unit_id unit_visible upsert_unit get_unit unit_store_ok
  "\<lambda>scope r. visible_values (fr_units r) unit_visible scope"
  by unfold_locales
    (auto simp: get_unit_def upsert_unit_def unit_store_ok_def stored_put visible_values_read keyed_set dest: stored_sound)

interpretation scopes: listed_store sa_scope_assessment_id scope_visible upsert_scope get_scope scope_store_ok
  "\<lambda>scope r. visible_values (fr_scopes r) scope_visible scope"
  by unfold_locales
    (auto simp: get_scope_def upsert_scope_def scope_store_ok_def stored_put visible_values_read keyed_set dest: stored_sound)

interpretation regimes: listed_store rg_applicable_regime_id regime_visible upsert_regime get_regime regime_store_ok
  "\<lambda>scope r. visible_values (fr_regimes r) regime_visible scope"
  by unfold_locales
    (auto simp: get_regime_def upsert_regime_def regime_store_ok_def stored_put visible_values_read keyed_set dest: stored_sound)

interpretation rule_sets: listed_store rs_rule_set_id rule_set_visible upsert_rule_set get_rule_set rule_set_store_ok
  "\<lambda>scope r. visible_values (fr_rule_sets r) rule_set_visible scope"
  by unfold_locales
    (auto simp: get_rule_set_def upsert_rule_set_def rule_set_store_ok_def stored_put visible_values_read keyed_set dest: stored_sound)

interpretation clauses: listed_store rc_rule_clause_id clause_visible upsert_clause get_clause clause_store_ok
  "\<lambda>scope r. visible_values (fr_clauses r) clause_visible scope"
  by unfold_locales
    (auto simp: get_clause_def upsert_clause_def clause_store_ok_def stored_put visible_values_read keyed_set dest: stored_sound)

interpretation reviews: listed_store cr_compliance_review_id review_visible upsert_review get_review review_store_ok
  "\<lambda>scope r. visible_values (fr_reviews r) review_visible scope"
  by unfold_locales
    (auto simp: get_review_def upsert_review_def review_store_ok_def stored_put visible_values_read keyed_set dest: stored_sound)

interpretation constraints: listed_store cl_cross_lot_constraint_id constraint_visible upsert_constraint get_constraint constraint_store_ok
  "\<lambda>scope r. visible_values (fr_constraints r) constraint_visible scope"
  by unfold_locales
    (auto simp: get_constraint_def upsert_constraint_def constraint_store_ok_def stored_put visible_values_read keyed_set dest: stored_sound)

interpretation document_refs: listed_store di_event_id document_ref_visible upsert_document_ref get_document_ref document_ref_store_ok
  "\<lambda>scope r. visible_values (fr_document_refs r) document_ref_visible scope"
  by unfold_locales
    (auto simp: get_document_ref_def upsert_document_ref_def document_ref_store_ok_def stored_put visible_values_read keyed_set dest: stored_sound)

definition fr01_ok :: "fr01_repo \<Rightarrow> bool" where
  "fr01_ok r \<longleftrightarrow> project_store_ok r \<and> unit_store_ok r \<and> scope_store_ok r \<and> regime_store_ok r \<and> rule_set_store_ok r
     \<and> clause_store_ok r \<and> review_store_ok r \<and> constraint_store_ok r \<and> document_ref_store_ok r"

lemma empty_fr01_ok [simp]: "fr01_ok empty_fr01"
  by (simp add: fr01_ok_def empty_fr01_def project_store_ok_def unit_store_ok_def scope_store_ok_def regime_store_ok_def rule_set_store_ok_def clause_store_ok_def review_store_ok_def constraint_store_ok_def document_ref_store_ok_def)

lemmas store_ok_defs = project_store_ok_def unit_store_ok_def scope_store_ok_def regime_store_ok_def rule_set_store_ok_def clause_store_ok_def review_store_ok_def constraint_store_ok_def document_ref_store_ok_def

lemmas upsert_defs = upsert_project_def upsert_unit_def upsert_scope_def upsert_regime_def upsert_rule_set_def upsert_clause_def upsert_review_def upsert_constraint_def upsert_document_ref_def

lemma upserts_ok [simp]:
  "fr01_ok r \<Longrightarrow> fr01_ok (upsert_project x0 r)"
  "fr01_ok r \<Longrightarrow> fr01_ok (upsert_unit x1 r)"
  "fr01_ok r \<Longrightarrow> fr01_ok (upsert_scope x2 r)"
  "fr01_ok r \<Longrightarrow> fr01_ok (upsert_regime x3 r)"
  "fr01_ok r \<Longrightarrow> fr01_ok (upsert_rule_set x4 r)"
  "fr01_ok r \<Longrightarrow> fr01_ok (upsert_clause x5 r)"
  "fr01_ok r \<Longrightarrow> fr01_ok (upsert_review x6 r)"
  "fr01_ok r \<Longrightarrow> fr01_ok (upsert_constraint x7 r)"
  "fr01_ok r \<Longrightarrow> fr01_ok (upsert_document_ref x8 r)"
  "fr01_ok r \<Longrightarrow> fr01_ok (append_lifecycle_event e r)"
  by (simp_all add: fr01_ok_def store_ok_defs upsert_defs append_lifecycle_event_def keyed_set)

section \<open>Isolation\<close>

lemmas visible_defs = project_visible_def unit_visible_def scope_visible_def regime_visible_def
  rule_set_visible_def clause_visible_def review_visible_def constraint_visible_def
  document_ref_visible_def event_visible_def

definition sample_project :: procurement_project where
  "sample_project =
     \<lparr>pj_project_id = 7, pj_tenant_id = 1, pj_data_domain_id = 2, pj_name = ''road'', pj_purchaser_name = ''city'',
      pj_timezone = ''UTC'', pj_budget = None, pj_price_ceiling = None, pj_deadline_at = None,
      pj_cross_unit_group_id = None, pj_notes = None, pj_lifecycle_state = RES_DRAFT,
      pj_validity_state = VAL_CURRENT, pj_version = sample_version, pj_archived_at = None, pj_archived_by = None\<rparr>"

lemma get_unit_sound:
  "fr01_ok r \<Longrightarrow> get_unit scope k r = Some u \<Longrightarrow> un_decision_unit_id u = k \<and> unit_visible scope u"
  using units.get_sound by (auto simp: fr01_ok_def)

text \<open>An item of the caller's tenant and data domain.\<close>

definition in_tenant :: "tenant_scope \<Rightarrow> uuid \<Rightarrow> uuid \<Rightarrow> bool" where
  "in_tenant scope tid did \<longleftrightarrow> tid = sc_tenant_id scope \<and> did = sc_data_domain_id scope"

lemma visible_in_tenant:
  "project_visible scope p \<Longrightarrow> in_tenant scope (pj_tenant_id p) (pj_data_domain_id p)"
  "unit_visible scope u \<Longrightarrow> in_tenant scope (un_tenant_id u) (un_data_domain_id u)"
  "scope_visible scope x \<Longrightarrow> in_tenant scope (sa_tenant_id x) (sa_data_domain_id x)"
  "regime_visible scope g \<Longrightarrow> in_tenant scope (rg_tenant_id g) (rg_data_domain_id g)"
  "rule_set_visible scope s \<Longrightarrow> in_tenant scope (rs_tenant_id s) (rs_data_domain_id s)"
  "clause_visible scope c \<Longrightarrow> in_tenant scope (rc_tenant_id c) (rc_data_domain_id c)"
  "review_visible scope v \<Longrightarrow> in_tenant scope (cr_tenant_id v) (cr_data_domain_id v)"
  "constraint_visible scope l \<Longrightarrow> in_tenant scope (cl_tenant_id l) (cl_data_domain_id l)"
  "document_ref_visible scope d \<Longrightarrow> in_tenant scope (di_tenant_id d) (di_data_domain_id d)"
  "event_visible scope e \<Longrightarrow> in_tenant scope (lv_tenant_id e) (lv_data_domain_id e)"
  by (auto simp: in_tenant_def visible_defs dest: scope_ok_tenant)

lemmas listing_defs =
  list_projects_def list_units_def list_scopes_def list_regimes_def list_clauses_def list_reviews_def
  list_constraints_def list_document_refs_def list_lifecycle_events_def list_rule_sets_def list_all_clauses_for_unit_def

text \<open>Everything a read by key or a listing returns was visible to the caller.\<close>

lemma reads_visible:
  assumes "fr01_ok r"
  shows
  "get_project scope k r = Some p \<Longrightarrow> pj_project_id p = k \<and> project_visible scope p"
  "get_unit scope k r = Some u \<Longrightarrow> un_decision_unit_id u = k \<and> unit_visible scope u"
  "get_scope scope k r = Some x \<Longrightarrow> sa_scope_assessment_id x = k \<and> scope_visible scope x"
  "get_regime scope k r = Some g \<Longrightarrow> rg_applicable_regime_id g = k \<and> regime_visible scope g"
  "get_rule_set scope k r = Some s \<Longrightarrow> rs_rule_set_id s = k \<and> rule_set_visible scope s"
  "get_clause scope k r = Some c \<Longrightarrow> rc_rule_clause_id c = k \<and> clause_visible scope c"
  "get_review scope k r = Some v \<Longrightarrow> cr_compliance_review_id v = k \<and> review_visible scope v"
  "get_constraint scope k r = Some l \<Longrightarrow> cl_cross_lot_constraint_id l = k \<and> constraint_visible scope l"
  "get_document_ref scope k r = Some d \<Longrightarrow> di_event_id d = k \<and> document_ref_visible scope d"
  using assms by (auto simp: fr01_ok_def dest: projects.get_sound units.get_sound scopes.get_sound regimes.get_sound rule_sets.get_sound clauses.get_sound reviews.get_sound constraints.get_sound document_refs.get_sound)

lemma listings_visible:
  assumes "fr01_ok r"
  shows
  "p \<in> set (list_projects scope r) \<Longrightarrow> project_visible scope p"
  "u \<in> set (list_units scope project_id r) \<Longrightarrow> unit_visible scope u"
  "x \<in> set (list_scopes scope unit_id r) \<Longrightarrow> scope_visible scope x"
  "g \<in> set (list_regimes scope unit_id r) \<Longrightarrow> regime_visible scope g"
  "s \<in> set (list_rule_sets scope unit_id r) \<Longrightarrow> rule_set_visible scope s"
  "c \<in> set (list_clauses scope set_id r) \<Longrightarrow> clause_visible scope c"
  "c \<in> set (list_all_clauses_for_unit scope unit_id r) \<Longrightarrow> clause_visible scope c"
  "v \<in> set (list_reviews scope unit_id r) \<Longrightarrow> review_visible scope v"
  "l \<in> set (list_constraints scope unit_id r) \<Longrightarrow> constraint_visible scope l"
  "d \<in> set (list_document_refs scope some_unit r) \<Longrightarrow> document_ref_visible scope d"
  "e \<in> set (list_lifecycle_events scope unit_id r) \<Longrightarrow> event_visible scope e"
  using assms by (auto simp: fr01_ok_def listing_defs Let_def dest: projects.items_visible units.items_visible scopes.items_visible regimes.items_visible rule_sets.items_visible clauses.items_visible reviews.items_visible constraints.items_visible document_refs.items_visible split: option.splits)

text \<open>
  C13. Tenant isolation of the store: whatever was written, every read by key returns the item of
  that key, and no read by key and no listing (of projects, units, scopes, regimes, rule sets,
  clauses of a set or of a unit, reviews, constraints, document references or lifecycle events)
  returns an item of another tenant or data domain than the caller's. What the listing of projects
  shows can be read by key.
\<close>

theorem repository_isolation:
  assumes "fr01_ok r"
  shows
    "(\<forall>k p. get_project scope k r = Some p \<longrightarrow> pj_project_id p = k \<and> in_tenant scope (pj_tenant_id p) (pj_data_domain_id p)) \<and>
     (\<forall>k u. get_unit scope k r = Some u \<longrightarrow> un_decision_unit_id u = k \<and> in_tenant scope (un_tenant_id u) (un_data_domain_id u)) \<and>
     (\<forall>k x. get_scope scope k r = Some x \<longrightarrow> sa_scope_assessment_id x = k \<and> in_tenant scope (sa_tenant_id x) (sa_data_domain_id x)) \<and>
     (\<forall>k g. get_regime scope k r = Some g \<longrightarrow> rg_applicable_regime_id g = k \<and> in_tenant scope (rg_tenant_id g) (rg_data_domain_id g)) \<and>
     (\<forall>k s. get_rule_set scope k r = Some s \<longrightarrow> rs_rule_set_id s = k \<and> in_tenant scope (rs_tenant_id s) (rs_data_domain_id s)) \<and>
     (\<forall>k c. get_clause scope k r = Some c \<longrightarrow> rc_rule_clause_id c = k \<and> in_tenant scope (rc_tenant_id c) (rc_data_domain_id c)) \<and>
     (\<forall>k v. get_review scope k r = Some v \<longrightarrow> cr_compliance_review_id v = k \<and> in_tenant scope (cr_tenant_id v) (cr_data_domain_id v)) \<and>
     (\<forall>k l. get_constraint scope k r = Some l \<longrightarrow> cl_cross_lot_constraint_id l = k \<and> in_tenant scope (cl_tenant_id l) (cl_data_domain_id l)) \<and>
     (\<forall>k d. get_document_ref scope k r = Some d \<longrightarrow> di_event_id d = k \<and> in_tenant scope (di_tenant_id d) (di_data_domain_id d)) \<and>
     (\<forall>p \<in> set (list_projects scope r). in_tenant scope (pj_tenant_id p) (pj_data_domain_id p)) \<and>
     (\<forall>u \<in> set (list_units scope project_id r). in_tenant scope (un_tenant_id u) (un_data_domain_id u)) \<and>
     (\<forall>x \<in> set (list_scopes scope unit_id r). in_tenant scope (sa_tenant_id x) (sa_data_domain_id x)) \<and>
     (\<forall>g \<in> set (list_regimes scope unit_id r). in_tenant scope (rg_tenant_id g) (rg_data_domain_id g)) \<and>
     (\<forall>s \<in> set (list_rule_sets scope unit_id r). in_tenant scope (rs_tenant_id s) (rs_data_domain_id s)) \<and>
     (\<forall>c \<in> set (list_clauses scope set_id r). in_tenant scope (rc_tenant_id c) (rc_data_domain_id c)) \<and>
     (\<forall>c \<in> set (list_all_clauses_for_unit scope unit_id r). in_tenant scope (rc_tenant_id c) (rc_data_domain_id c)) \<and>
     (\<forall>v \<in> set (list_reviews scope unit_id r). in_tenant scope (cr_tenant_id v) (cr_data_domain_id v)) \<and>
     (\<forall>l \<in> set (list_constraints scope unit_id r). in_tenant scope (cl_tenant_id l) (cl_data_domain_id l)) \<and>
     (\<forall>d \<in> set (list_document_refs scope some_unit r). in_tenant scope (di_tenant_id d) (di_data_domain_id d)) \<and>
     (\<forall>e \<in> set (list_lifecycle_events scope unit_id r). in_tenant scope (lv_tenant_id e) (lv_data_domain_id e)) \<and>
     (\<forall>p \<in> set (list_projects scope r). get_project scope (pj_project_id p) r = Some p)"
proof -
  have "get_project scope (pj_project_id p) r = Some p" if "p \<in> set (list_projects scope r)" for p
    using that assms by (simp add: list_projects_def fr01_ok_def projects.items_read)
  then show ?thesis
    by (intro conjI allI ballI impI)
      (auto dest: reads_visible [OF assms] listings_visible [OF assms] intro: visible_in_tenant)
qed

theorem repository_isolation_witness:
  "get_project sample_scope 7 (upsert_project sample_project empty_fr01) = Some sample_project \<and>
   pj_tenant_id sample_project = sc_tenant_id sample_scope"
proof
  have ok: "fr01_ok (upsert_project sample_project empty_fr01)" by simp
  show found: "get_project sample_scope 7 (upsert_project sample_project empty_fr01) = Some sample_project"
    by (simp add: get_project_def stored_def upsert_project_def empty_fr01_def project_visible_def scope_ok_def
        sample_project_def sample_scope_def)
  show "pj_tenant_id sample_project = sc_tenant_id sample_scope"
    using conjunct1 [OF repository_isolation [OF ok, of sample_scope]] found by (simp add: in_tenant_def)
qed

text \<open>
  The store and the guard disagree on empty scopes: for a caller whose scope names no
  project and does not have the all-projects flag, listing returns every project of the tenant
  and domain, while the guard refuses each of them.
\<close>

theorem empty_scope_lists_everything:
  assumes ok: "fr01_ok r" and none: "sc_project_ids scope = []" "\<not> sc_all_projects scope"
    and own: "pj_tenant_id p = sc_tenant_id scope" "pj_data_domain_id p = sc_data_domain_id scope"
    and there: "dict_get (fr_projects r) (pj_project_id p) = Some p"
  shows "p \<in> set (list_projects scope r) \<and>
    assert_allows scope (pj_tenant_id p) (pj_data_domain_id p) (Some (pj_project_id p)) None =
      Inl (BiaiceError ''TENANT_SCOPE_VIOLATION'')"
proof
  from ok have "project_store_ok r" by (simp add: fr01_ok_def)
  then show "p \<in> set (list_projects scope r)"
    using none own there
    by (simp add: list_projects_def projects.items_read get_project_def stored_def project_visible_def scope_ok_def)
  show "assert_allows scope (pj_tenant_id p) (pj_data_domain_id p) (Some (pj_project_id p)) None =
      Inl (BiaiceError ''TENANT_SCOPE_VIOLATION'')"
    using none by (simp add: assert_allows_def)
qed

theorem empty_scope_lists_everything_witness:
  "sample_project \<in> set (list_projects (sample_scope\<lparr>sc_project_ids := []\<rparr>) (upsert_project sample_project empty_fr01))"
  using empty_scope_lists_everything
    [of "upsert_project sample_project empty_fr01" "sample_scope\<lparr>sc_project_ids := []\<rparr>" sample_project]
  by (simp add: upsert_project_def empty_fr01_def sample_project_def sample_scope_def fr01_ok_def store_ok_defs
      keyed_def dict_ok_def)

end
