(* ===== verification/Http.thy ===== *)
theory Http
  imports Auth Canonical_Json
begin

text \<open>
  The HTTP primitives every module shares: strong ETags and If-Match (\<open>core/http.py\<close>), the
  Idempotency-Key header (\<open>core/idempotency.py\<close>) and cursor pagination
  (\<open>modules/projects/application/pagination.py\<close>). The signed cursor codec is a parameter of
  the pagination.
\<close>

section \<open>ETags\<close>

definition compute_etag :: "(string \<Rightarrow> string) \<Rightarrow> json \<Rightarrow> string" where
  "compute_etag sha payload = CHR 0x22 # sha (dumps payload) @ [CHR 0x22]"

definition require_if_match :: "string option \<Rightarrow> string res" where
  "require_if_match if_match =
     (case if_match of
        None \<Rightarrow> Inl (BiaiceError ''IF_MATCH_REQUIRED'')
      | Some tag \<Rightarrow>
          if length tag = 66 \<and> hd tag = CHR 0x22 \<and> last tag = CHR 0x22 \<and>
             (\<forall>c \<in> set (butlast (tl tag)). c \<in> set ''0123456789abcdef'')
          then Inr tag else Inl (BiaiceError ''ETAG_MISMATCH''))"

text \<open>\<open>hmac.compare_digest\<close> raises on text outside ASCII.\<close>

definition is_ascii :: "string \<Rightarrow> bool" where
  "is_ascii s \<longleftrightarrow> list_all (\<lambda>c. (of_char c :: nat) < 128) s"

definition assert_etag :: "string \<Rightarrow> string \<Rightarrow> unit res" where
  "assert_etag current_etag supplied_etag =
     (if \<not> is_ascii current_etag \<or> \<not> is_ascii supplied_etag then Inl TypeError
      else if current_etag \<noteq> supplied_etag then Inl (BiaiceError ''ETAG_MISMATCH'') else Inr ())"

section \<open>Idempotency keys\<close>

definition is_alnum :: "char \<Rightarrow> bool" where
  "is_alnum c \<longleftrightarrow> is_digit c \<or> (65 \<le> (of_char c :: nat) \<and> (of_char c :: nat) \<le> 90) \<or> (97 \<le> (of_char c :: nat) \<and> (of_char c :: nat) \<le> 122)"

text \<open>\<open>[A-Za-z0-9][A-Za-z0-9._:-]{15,127}\<close>, matched in full.\<close>

definition idempotency_key_ok :: "string \<Rightarrow> bool" where
  "idempotency_key_ok key \<longleftrightarrow>
     key \<noteq> [] \<and> is_alnum (hd key) \<and> 15 \<le> length (tl key) \<and> length (tl key) \<le> 127 \<and>
     list_all (\<lambda>c. is_alnum c \<or> c \<in> set ''._:-'') (tl key)"

definition require_idempotency_key :: "string option \<Rightarrow> string res" where
  "require_idempotency_key key =
     (case key of
        None \<Rightarrow> Inl (BiaiceError ''IDEMPOTENCY_KEY_REQUIRED'')
      | Some k \<Rightarrow> if idempotency_key_ok k then Inr k else Inl (BiaiceError ''INVALID_IDEMPOTENCY_KEY''))"

section \<open>Pagination\<close>

definition clamp_limit :: "int option \<Rightarrow> nat" where
  "clamp_limit limit =
     (let value = (case limit of None \<Rightarrow> 50 | Some n \<Rightarrow> n) in if value < 1 then 1 else nat (min value 100))"

record codec =
  cd_encode :: "tenant_scope \<Rightarrow> string \<times> string \<Rightarrow> string"
  cd_decode :: "tenant_scope \<Rightarrow> string \<Rightarrow> (string \<times> string) res"

text \<open>
  The loop over the items: those after the cursor, at most one more than a page; the extra one
  only says that there is more.
\<close>

fun select_page :: "nat \<Rightarrow> 'a list \<Rightarrow> 'a list \<times> bool" where
  "select_page n [] = ([], False)"
| "select_page n (x # xs) =
     (if n = 0 then ([], True) else (let (ys, more) = select_page (n - 1) xs in (x # ys, more)))"

definition paginate ::
  "tenant_scope \<Rightarrow> codec option \<Rightarrow> string option \<Rightarrow> int option \<Rightarrow> ('a \<Rightarrow> string \<times> string) \<Rightarrow> 'a list \<Rightarrow>
   ('a list \<times> string option \<times> bool) res" where
  "paginate scope codec cursor limit key xs =
     bindE (case cursor of
              None \<Rightarrow> Inr None
            | Some c \<Rightarrow>
                if c = [] then Inr None
                else (case codec of
                        None \<Rightarrow> Inl (BiaiceError ''INVALID_CURSOR'')
                      | Some cd \<Rightarrow> bindE (cd_decode cd scope c) (\<lambda>start. Inr (Some start)))) (\<lambda>start_after.
     let candidates = filter (\<lambda>x. case start_after of None \<Rightarrow> True | Some k \<Rightarrow> \<not> key x \<le> k) xs;
         (selected, has_more) = select_page (clamp_limit limit) candidates;
         next_cursor =
           (case codec of
              None \<Rightarrow> None
            | Some cd \<Rightarrow> if has_more \<and> selected \<noteq> [] then Some (cd_encode cd scope (key (last selected))) else None)
     in Inr (selected, next_cursor, has_more))"

text \<open>A client that follows the cursors: the pages it sees, within some number of requests.\<close>

fun all_pages ::
  "nat \<Rightarrow> tenant_scope \<Rightarrow> codec \<Rightarrow> string option \<Rightarrow> int option \<Rightarrow> ('a \<Rightarrow> string \<times> string) \<Rightarrow> 'a list \<Rightarrow> 'a list option" where
  "all_pages 0 scope cd cursor limit key xs = None"
| "all_pages (Suc n) scope cd cursor limit key xs =
     (case paginate scope (Some cd) cursor limit key xs of
        Inl _ \<Rightarrow> None
      | Inr (page, next_cursor, has_more) \<Rightarrow>
          (case next_cursor of
             None \<Rightarrow> Some page
           | Some c \<Rightarrow> map_option (\<lambda>rest. page @ rest) (all_pages n scope cd (Some c) limit key xs)))"

section \<open>Facts\<close>

lemma clamp_limit_bounds: "1 \<le> clamp_limit limit \<and> clamp_limit limit \<le> 100"
  by (cases limit) (auto simp: clamp_limit_def Let_def)

lemma select_page_eq: "select_page n xs = (take n xs, n < length xs)"
  by (induction n xs rule: select_page.induct) (auto simp: take_Cons' Let_def)

lemma compute_etag_inject:
  "sha (dumps x) \<noteq> sha (dumps y) \<Longrightarrow> compute_etag sha x \<noteq> compute_etag sha y"
  by (simp add: compute_etag_def)

lemma etag_ascii:
  assumes "digest_ok sha"
  shows "is_ascii (compute_etag sha x)"
proof -
  have hex: "\<forall>c \<in> set ''0123456789abcdef''. (of_char c :: nat) < 128" by simp
  have "is_hash (sha (dumps x))" using assms by simp
  then have "\<forall>c \<in> set (sha (dumps x)). (of_char c :: nat) < 128" using hex unfolding is_hash_def by blast
  then show ?thesis by (simp add: compute_etag_def is_ascii_def list_all_iff)
qed

lemma assert_etag_self: "is_ascii current \<Longrightarrow> assert_etag current tag = Inr () \<longleftrightarrow> tag = current"
  by (auto simp: assert_etag_def)

lemma quoted_hash_accepted:
  assumes "is_hash h"
  shows "require_if_match (Some (CHR 0x22 # h @ [CHR 0x22])) = Inr (CHR 0x22 # h @ [CHR 0x22])"
proof -
  let ?t = "CHR 0x22 # h @ [CHR 0x22]"
  have hex: "\<forall>c \<in> set h. c \<in> set ''0123456789abcdef''" using assms unfolding is_hash_def by blast
  have parts: "length ?t = 66" "hd ?t = CHR 0x22" "last ?t = CHR 0x22" "butlast (tl ?t) = h"
    using assms by (simp_all add: is_hash_def)
  have "length ?t = 66 \<and> hd ?t = CHR 0x22 \<and> last ?t = CHR 0x22 \<and>
      (\<forall>c \<in> set (butlast (tl ?t)). c \<in> set ''0123456789abcdef'')"
    unfolding parts using hex by blast
  then show ?thesis unfolding require_if_match_def option.case by (rule if_P)
qed

lemma not_alnum: "\<not> is_alnum CHR '' ''" "\<not> is_alnum CHR ''/''" "\<not> is_alnum CHR 0x22"
  by (simp_all add: is_alnum_def is_digit_def)

lemma key_characters:
  assumes "idempotency_key_ok k" and "c = CHR '' '' \<or> c = CHR ''/'' \<or> c = CHR 0x22"
  shows "c \<notin> set k"
proof -
  have bad: "\<not> is_alnum c" "c \<notin> set ''._:-''" using assms(2) not_alnum by auto
  from assms(1) have "k = hd k # tl k" by (simp add: idempotency_key_ok_def)
  moreover have "c \<noteq> hd k" "c \<notin> set (tl k)"
    using assms(1) bad by (auto simp only: idempotency_key_ok_def list_all_iff)
  ultimately show ?thesis by (metis set_ConsD)
qed

text \<open>
  With a strictly increasing key the items after the key of the \<open>i\<close>-th item are those from
  position \<open>i + 1\<close> on.
\<close>

lemma filter_after_key:
  assumes "sorted_wrt (<) (map key (ys @ z # zs))"
  shows "filter (\<lambda>x. \<not> (key x :: string \<times> string) \<le> key z) (ys @ z # zs) = zs"
proof -
  have "\<forall>y \<in> set ys. key y \<le> key z" "\<forall>x \<in> set zs. \<not> key x \<le> key z"
    using assms by (auto simp: sorted_wrt_append not_le less_imp_le)
  then show ?thesis by (simp add: filter_empty_conv filter_id_conv)
qed

definition codec_ok :: "codec \<Rightarrow> tenant_scope \<Rightarrow> bool" where
  "codec_ok cd scope \<longleftrightarrow> (\<forall>k. cd_encode cd scope k \<noteq> [] \<and> cd_decode cd scope (cd_encode cd scope k) = Inr k)"

lemma last_take: "1 \<le> k \<Longrightarrow> k < length xs \<Longrightarrow> last (take k xs) = xs ! (k - 1)"
  by (cases k) (simp_all add: take_Suc_conv_app_nth)

lemma paginate_start:
  "paginate scope (Some cd) None limit key xs =
     Inr (take (clamp_limit limit) xs,
          (if clamp_limit limit < length xs then Some (cd_encode cd scope (key (xs ! (clamp_limit limit - 1)))) else None),
          clamp_limit limit < length xs)"
proof -
  let ?k = "clamp_limit limit"
  have k: "1 \<le> ?k" using clamp_limit_bounds by blast
  have "last (take ?k xs) = xs ! (?k - 1)" "take ?k xs \<noteq> []" if "?k < length xs"
    using last_take [OF k that] that k by auto
  then show ?thesis by (simp add: paginate_def select_page_eq Let_def)
qed

lemma paginate_after:
  assumes ok: "codec_ok cd scope" and xs: "xs = ys @ z # zs" and sorted: "sorted_wrt (<) (map key xs)"
  shows "paginate scope (Some cd) (Some (cd_encode cd scope (key z))) limit key xs =
    paginate scope (Some cd) None limit key zs"
proof -
  have cd: "cd_encode cd scope (key z) \<noteq> []" "cd_decode cd scope (cd_encode cd scope (key z)) = Inr (key z)"
    using ok unfolding codec_ok_def by blast+
  have "filter (\<lambda>x. case Some (key z) of None \<Rightarrow> True | Some k \<Rightarrow> \<not> key x \<le> k) xs = zs"
    unfolding option.case xs by (rule filter_after_key) (use sorted xs in simp)
  moreover have "filter (\<lambda>x. case None of None \<Rightarrow> True | Some k \<Rightarrow> \<not> key x \<le> k) zs = zs" by simp
  ultimately show ?thesis
    using cd unfolding paginate_def by (simp only: if_False bindE_Inr option.case)
qed

text \<open>The decomposition of a list around the last item of its first page.\<close>

lemma page_split:
  assumes "1 \<le> k" and "k < length xs"
  shows "xs = take (k - 1) xs @ (xs ! (k - 1)) # drop k xs"
  using assms id_take_nth_drop [of "k - 1" xs] by simp

lemma all_pages_after:
  assumes ok: "codec_ok cd scope" and sorted: "sorted_wrt (<) (map key xs)"
    and "xs = ys @ z # zs" and "length zs < n"
  shows "all_pages n scope cd (Some (cd_encode cd scope (key z))) limit key xs = Some zs"
  using assms(3,4)
proof (induction n arbitrary: ys z zs)
  case 0
  then show ?case by simp
next
  case (Suc n)
  let ?k = "clamp_limit limit"
  have k: "1 \<le> ?k" using clamp_limit_bounds by blast
  note page = paginate_after [OF ok Suc.prems(1) sorted]
  show ?case
  proof (cases "?k < length zs")
    case False
    then show ?thesis using page by (simp add: paginate_start)
  next
    case True
    define z' where "z' = zs ! (?k - 1)"
    have "xs = (ys @ z # take (?k - 1) zs) @ z' # drop ?k zs"
      using Suc.prems(1) page_split [OF k True] by (simp add: z'_def)
    moreover have "length (drop ?k zs) < n" using Suc.prems(2) True k by simp
    ultimately have "all_pages n scope cd (Some (cd_encode cd scope (key z'))) limit key xs = Some (drop ?k zs)"
      by (rule Suc.IH)
    then show ?thesis using page True by (simp add: paginate_start z'_def)
  qed
qed

text \<open>
  C14. Complete pagination: with a codec that decodes what it encodes and a listing whose keys
  increase strictly, a client that follows the cursors sees every item exactly once and in order,
  for any page size it asks for, within one request more than there are items; and no page has
  more than a hundred items.
\<close>

theorem pagination_complete:
  assumes ok: "codec_ok cd scope" and sorted: "sorted_wrt (<) (map key xs)"
  shows "all_pages (Suc (length xs)) scope cd None limit key xs = Some xs \<and>
    (\<exists>page next more. paginate scope (Some cd) None limit key xs = Inr (page, next, more) \<and> length page \<le> 100)"
proof
  let ?k = "clamp_limit limit"
  have k: "1 \<le> ?k" "?k \<le> 100" using clamp_limit_bounds by auto
  show "all_pages (Suc (length xs)) scope cd None limit key xs = Some xs"
  proof (cases "?k < length xs")
    case False
    then show ?thesis by (simp add: paginate_start)
  next
    case True
    define z where "z = xs ! (?k - 1)"
    have "all_pages (length xs) scope cd (Some (cd_encode cd scope (key z))) limit key xs = Some (drop ?k xs)"
      by (rule all_pages_after [OF ok sorted page_split [OF k(1) True, folded z_def]]) (use True k in simp)
    then show ?thesis using True by (simp add: paginate_start z_def)
  qed
  show "\<exists>page next more. paginate scope (Some cd) None limit key xs = Inr (page, next, more) \<and> length page \<le> 100"
    using k by (simp add: paginate_start)
qed

definition sample_codec :: codec where
  "sample_codec =
     \<lparr>cd_encode = (\<lambda>scope (a, b). ''x'' @ replicate (length a) (CHR ''1'') @ ''0'' @ a @ b),
      cd_decode = (\<lambda>scope c.
        let n = length (takeWhile (\<lambda>x. x = CHR ''1'') (tl c)); rest = tl (drop n (tl c))
        in Inr (take n rest, drop n rest))\<rparr>"

lemma sample_codec_ok: "codec_ok sample_codec scope"
proof -
  have tw: "takeWhile (\<lambda>x. x = CHR ''1'') (replicate n (CHR ''1'') @ CHR ''0'' # ys) = replicate n (CHR ''1'')" for n ys
    by (simp add: takeWhile_append)
  show ?thesis
    by (auto simp: codec_ok_def sample_codec_def Let_def tw)
qed

theorem pagination_complete_witness:
  "all_pages 4 sample_scope sample_codec None (Some 1) (\<lambda>s. (s, s)) [''a'', ''b'', ''c''] = Some [''a'', ''b'', ''c'']"
  using pagination_complete [OF sample_codec_ok, of "\<lambda>s. (s, s)" "[''a'', ''b'', ''c'']" sample_scope "Some 1"]
  by (simp add: numeral_eq_Suc)

text \<open>
  Header checks: an accepted If-Match is a quoted lower-case SHA-256 text and compares equal
  only to itself; an accepted idempotency key has 16 to 128 characters, none of them a space, a
  slash or a quote.
\<close>

theorem header_checks:
  assumes "digest_ok sha"
  shows "(require_if_match (Some tag) = Inr tag' \<longleftrightarrow> tag' = tag \<and> (\<exists>h. tag = CHR 0x22 # h @ [CHR 0x22] \<and> is_hash h)) \<and>
   (assert_etag (compute_etag sha x) tag = Inr () \<longleftrightarrow> tag = compute_etag sha x) \<and>
   (case require_idempotency_key (Some k) of
      Inl e \<Rightarrow> e = BiaiceError ''INVALID_IDEMPOTENCY_KEY''
    | Inr k' \<Rightarrow> k' = k \<and> 16 \<le> length k \<and> length k \<le> 128 \<and> set k \<inter> set '' /'' = {} \<and> CHR 0x22 \<notin> set k)"
proof (intro conjI)
  show "require_if_match (Some tag) = Inr tag' \<longleftrightarrow> tag' = tag \<and> (\<exists>h. tag = CHR 0x22 # h @ [CHR 0x22] \<and> is_hash h)"
    (is "?l \<longleftrightarrow> ?r")
  proof
    assume l: ?l
    then have len: "length tag = 66" and ends: "hd tag = CHR 0x22" "last tag = CHR 0x22"
      and body: "\<forall>c \<in> set (butlast (tl tag)). c \<in> set ''0123456789abcdef''" and t: "tag' = tag"
      by (auto simp: require_if_match_def split: if_splits)
    have "tag = hd tag # butlast (tl tag) @ [last tag]"
      using len by (cases tag) (auto simp: append_butlast_last_id)
    with len ends body t show ?r
      by (intro conjI exI [of _ "butlast (tl tag)"]) (auto simp: is_hash_def)
  next
    assume ?r
    then show ?l using quoted_hash_accepted by blast
  qed
  show "assert_etag (compute_etag sha x) tag = Inr () \<longleftrightarrow> tag = compute_etag sha x"
    by (rule assert_etag_self [OF etag_ascii [OF assms]])
  show "case require_idempotency_key (Some k) of
      Inl e \<Rightarrow> e = BiaiceError ''INVALID_IDEMPOTENCY_KEY''
    | Inr k' \<Rightarrow> k' = k \<and> 16 \<le> length k \<and> length k \<le> 128 \<and> set k \<inter> set '' /'' = {} \<and> CHR 0x22 \<notin> set k"
  proof (cases "idempotency_key_ok k")
    case True
    then have "16 \<le> length k" "length k \<le> 128" by (cases k; simp add: idempotency_key_ok_def)+
    with True key_characters [OF True] show ?thesis by (simp add: require_idempotency_key_def)
  qed (simp add: require_idempotency_key_def)
qed

theorem header_checks_witness:
  "require_idempotency_key (Some ''abcd/fghijklmnopq'') = Inl (BiaiceError ''INVALID_IDEMPOTENCY_KEY'') \<and>
   assert_etag (compute_etag sample_sha JNull) (compute_etag sample_sha JNull) = Inr ()"
proof
  show "require_idempotency_key (Some ''abcd/fghijklmnopq'') = Inl (BiaiceError ''INVALID_IDEMPOTENCY_KEY'')"
    by code_simp
  show "assert_etag (compute_etag sample_sha JNull) (compute_etag sample_sha JNull) = Inr ()"
    using conjunct1 [OF conjunct2 [OF header_checks [OF sample_sha_ok, where x = JNull and tag = "compute_etag sample_sha JNull" and tag' = "[]" and k = "[]"]]]
    by (rule iffD2) (rule refl)
qed

end
