(* ===== verification/Fr01_Services.thy ===== *)
theory Fr01_Services
  imports Fr01_Repository Http
begin

text \<open>
  The services of \<open>modules/projects/application/services.py\<close>: projects, decision units and the
  lifecycle, with the document inbox of \<open>document_events.py\<close> and the guard of \<open>authz.py\<close>.
  Every operation is a handler on a \<open>fr01_repo world\<close>, with the order of its reads, writes,
  draws of identifiers and audit records as in the code.
\<close>

type_synonym 'a fr01 = "(fr01_repo world, 'a) svc"

section \<open>Shared helpers\<close>

text \<open>\<open>x or y\<close> on optional text and \<open>y if x is None else x\<close>.\<close>

definition text_or :: "string option \<Rightarrow> string \<Rightarrow> string" where
  "text_or x y = (case x of None \<Rightarrow> y | Some t \<Rightarrow> if t = [] then y else t)"

definition keep :: "'a option \<Rightarrow> 'a option \<Rightarrow> 'a option" where
  "keep x y = (case x of None \<Rightarrow> y | Some _ \<Rightarrow> x)"

definition blank :: "string option \<Rightarrow> bool" where
  "blank x \<longleftrightarrow> x = None \<or> x = Some []"

definition not_found :: exc where
  "not_found = BiaiceError ''RESOURCE_NOT_FOUND''"

definition invalid_request :: exc where
  "invalid_request = BiaiceError ''REQUEST_VALIDATION_FAILED''"

definition make_version ::
  "env \<Rightarrow> uuid \<Rightarrow> timestamp \<Rightarrow> (string \<times> json) list \<Rightarrow> int \<Rightarrow> uuid option \<Rightarrow> version_metadata fr01" where
  "make_version env actor_id now payload number supersedes =
     bindS (uuid4 env) (\<lambda>version_id.
     let v = \<lparr>ve_version_id = version_id, ve_version_number = number, ve_created_at = now,
              ve_created_by = actor_id, ve_content_hash = canonical_hash (env_sha env) payload,
              ve_supersedes_version_id = supersedes\<rparr> in
     bindS (checkS (version_valid v) ValidationError) (\<lambda>_. ret v))"

definition found :: "(fr01_repo \<Rightarrow> 'a option) \<Rightarrow> 'a fr01" where
  "found f = bindS (get_repo f) (\<lambda>x. case x of None \<Rightarrow> throw not_found | Some y \<Rightarrow> ret y)"

definition require_unit :: "identity_context \<Rightarrow> uuid \<Rightarrow> decision_unit fr01" where
  "require_unit identity unit_id =
     bindS (liftE (own_scope identity None (Some unit_id))) (\<lambda>_.
     found (get_unit (ic_scope identity) unit_id))"

definition require_project :: "identity_context \<Rightarrow> uuid \<Rightarrow> procurement_project fr01" where
  "require_project identity project_id =
     bindS (liftE (own_scope identity (Some project_id) None)) (\<lambda>_.
     found (get_project (ic_scope identity) project_id))"

definition current_etag :: "env \<Rightarrow> version_metadata \<Rightarrow> string" where
  "current_etag env v = compute_etag (env_sha env) (JStr (ve_content_hash v))"

section \<open>Projects\<close>

record project_fields =
  pf_name :: string
  pf_purchaser_name :: string
  pf_timezone :: string
  pf_budget :: "money option"
  pf_price_ceiling :: "money option"
  pf_deadline_at :: "timestamp option"
  pf_cross_unit_group_id :: "uuid option"
  pf_notes :: "string option"

definition project_payload :: "env \<Rightarrow> project_fields \<Rightarrow> (string \<times> json) list" where
  "project_payload env f =
     [(''name'', JStr (pf_name f)), (''purchaser_name'', JStr (pf_purchaser_name f)),
      (''timezone'', JStr (pf_timezone f)), (''budget'', jopt money_json (pf_budget f)),
      (''price_ceiling'', jopt money_json (pf_price_ceiling f)),
      (''deadline_at'', jopt (JStr \<circ> env_isofmt env) (pf_deadline_at f)),
      (''cross_unit_group_id'', jopt (JStr \<circ> uuid_str) (pf_cross_unit_group_id f)),
      (''notes'', jopt JStr (pf_notes f))]"

definition project_create ::
  "env \<Rightarrow> identity_context \<Rightarrow> project_fields \<Rightarrow> string \<Rightarrow> procurement_project fr01" where
  "project_create env identity f request_id =
     bindS require_writer (\<lambda>_.
     bindS (liftE (own_scope identity None None)) (\<lambda>_.
     bindS (clock_now env) (\<lambda>now.
     bindS (uuid4 env) (\<lambda>project_id.
     bindS (make_version env (ic_subject_id identity) now (project_payload env f) 1 None) (\<lambda>v.
     let item =
       \<lparr>pj_project_id = project_id, pj_tenant_id = sc_tenant_id (ic_scope identity),
        pj_data_domain_id = sc_data_domain_id (ic_scope identity), pj_name = pf_name f,
        pj_purchaser_name = pf_purchaser_name f, pj_timezone = pf_timezone f, pj_budget = pf_budget f,
        pj_price_ceiling = pf_price_ceiling f, pj_deadline_at = pf_deadline_at f,
        pj_cross_unit_group_id = pf_cross_unit_group_id f, pj_notes = pf_notes f,
        pj_lifecycle_state = RES_DRAFT, pj_validity_state = VAL_CURRENT, pj_version = v,
        pj_archived_at = None, pj_archived_by = None\<rparr> in
     bindS (checkS (project_valid item) ValidationError) (\<lambda>_.
     bindS (put_repo (upsert_project item)) (\<lambda>_.
     bindS (audited env identity ''projects.project.create'' ''ProcurementProject'' project_id request_id
              ''PROJECT_DRAFT_CREATED'' (resource_value RES_DRAFT) (ve_version_id v)) (\<lambda>_.
     ret item))))))))"

definition project_list ::
  "env \<Rightarrow> identity_context \<Rightarrow> string option \<Rightarrow> int option \<Rightarrow> codec option \<Rightarrow>
   (procurement_project list \<times> string option \<times> bool) fr01" where
  "project_list env identity cursor limit codec =
     bindS (liftE (own_scope identity None None)) (\<lambda>_.
     bindS (get_repo (list_projects (ic_scope identity))) (\<lambda>items.
     liftE (paginate (ic_scope identity) codec cursor limit
       (\<lambda>p. (env_isofmt env (ve_created_at (pj_version p)), uuid_str (pj_project_id p))) items)))"

record project_patch =
  pp_name :: "string option"
  pp_purchaser_name :: "string option"
  pp_timezone :: "string option"
  pp_budget :: "money option"
  pp_price_ceiling :: "money option"
  pp_deadline_at :: "timestamp option"
  pp_cross_unit_group_id :: "uuid option"
  pp_notes :: "string option"

definition project_update_draft ::
  "env \<Rightarrow> identity_context \<Rightarrow> uuid \<Rightarrow> string \<Rightarrow> project_patch \<Rightarrow> string \<Rightarrow> procurement_project fr01" where
  "project_update_draft env identity project_id if_match f request_id =
     bindS require_writer (\<lambda>_.
     bindS (require_project identity project_id) (\<lambda>current.
     bindS (checkS (pj_lifecycle_state current = RES_DRAFT) invalid_request) (\<lambda>_.
     bindS (liftE (assert_etag (current_etag env (pj_version current)) if_match)) (\<lambda>_.
     bindS (clock_now env) (\<lambda>now.
     bindS (make_version env (ic_subject_id identity) now
              [(''name'', JStr (text_or (pp_name f) (pj_name current))), (''notes'', jopt JStr (pp_notes f))]
              (ve_version_number (pj_version current) + 1) (Some (ve_version_id (pj_version current)))) (\<lambda>v.
     let updated = current
       \<lparr>pj_name := text_or (pp_name f) (pj_name current),
        pj_purchaser_name := text_or (pp_purchaser_name f) (pj_purchaser_name current),
        pj_timezone := text_or (pp_timezone f) (pj_timezone current),
        pj_budget := keep (pp_budget f) (pj_budget current),
        pj_price_ceiling := keep (pp_price_ceiling f) (pj_price_ceiling current),
        pj_deadline_at := keep (pp_deadline_at f) (pj_deadline_at current),
        pj_cross_unit_group_id := keep (pp_cross_unit_group_id f) (pj_cross_unit_group_id current),
        pj_notes := keep (pp_notes f) (pj_notes current), pj_version := v\<rparr> in
     bindS (put_repo (upsert_project updated)) (\<lambda>_.
     bindS (audited env identity ''projects.project.update_draft'' ''ProcurementProject''
              (pj_project_id updated) request_id ''PROJECT_DRAFT_UPDATED''
              (resource_value (pj_lifecycle_state updated)) (ve_version_id v)) (\<lambda>_.
     ret updated))))))))"

definition project_archive :: "env \<Rightarrow> identity_context \<Rightarrow> uuid \<Rightarrow> string \<Rightarrow> procurement_project fr01" where
  "project_archive env identity project_id request_id =
     bindS require_writer (\<lambda>_.
     bindS (require_project identity project_id) (\<lambda>current.
     bindS (clock_now env) (\<lambda>now.
     let archived = current
       \<lparr>pj_lifecycle_state := RES_ARCHIVED, pj_validity_state := VAL_STALE,
        pj_archived_at := Some now, pj_archived_by := Some (ic_subject_id identity)\<rparr> in
     bindS (put_repo (upsert_project archived)) (\<lambda>_.
     bindS (audited env identity ''projects.project.archive'' ''ProcurementProject'' (pj_project_id archived)
              request_id ''PROJECT_ARCHIVED'' (resource_value RES_ARCHIVED)
              (ve_version_id (pj_version archived))) (\<lambda>_.
     ret archived)))))"

section \<open>Decision units\<close>

record unit_fields =
  uf_name :: string
  uf_lot_code :: "string option"
  uf_timezone :: string
  uf_budget :: "money option"
  uf_price_ceiling :: "money option"
  uf_deadline_at :: "timestamp option"
  uf_cross_unit_group_id :: "uuid option"

text \<open>The Chinese gap summary of a new unit, as its UTF-8 bytes.\<close>

definition GAP_SUMMARY :: string where
  "GAP_SUMMARY = map char_of
     [232, 140, 131, 229, 155, 180, 227, 128, 129, 229, 136, 182, 229, 186, 166, 228, 184, 142, 232,
      167, 132, 229, 136, 153, 229, 176, 154, 230, 156, 170, 229, 143, 145, 229, 184, 131, 239, 188,
      155, 228, 184, 141, 229, 190, 151, 230, 152, 190, 231, 164, 186, 230, 173, 163, 229, 188, 143,
      32, 71, 79, 227, 128, 130 :: nat]"

definition unit_create ::
  "env \<Rightarrow> identity_context \<Rightarrow> uuid \<Rightarrow> unit_fields \<Rightarrow> string \<Rightarrow> decision_unit fr01" where
  "unit_create env identity project_id f request_id =
     bindS require_writer (\<lambda>_.
     bindS (require_project identity project_id) (\<lambda>project.
     bindS (clock_now env) (\<lambda>now.
     bindS (uuid4 env) (\<lambda>unit_id.
     bindS (make_version env (ic_subject_id identity) now
              [(''name'', JStr (uf_name f)), (''lot_code'', jopt JStr (uf_lot_code f)),
               (''timezone'', JStr (uf_timezone f))] 1 None) (\<lambda>v.
     let item =
       \<lparr>un_decision_unit_id = unit_id, un_project_id = pj_project_id project,
        un_tenant_id = sc_tenant_id (ic_scope identity),
        un_data_domain_id = sc_data_domain_id (ic_scope identity), un_name = uf_name f,
        un_lot_code = uf_lot_code f, un_timezone = uf_timezone f, un_budget = uf_budget f,
        un_price_ceiling = uf_price_ceiling f, un_deadline_at = uf_deadline_at f,
        un_cross_unit_group_id = keep (uf_cross_unit_group_id f) (pj_cross_unit_group_id project),
        un_lifecycle_state = DRAFT, un_resource_lifecycle = RES_DRAFT, un_validity_state = VAL_CURRENT,
        un_version = v, un_current_scope_assessment_id = None, un_current_regime_id = None,
        un_current_rule_set_id = None, un_gap_summary = Some GAP_SUMMARY\<rparr> in
     bindS (checkS (unit_valid item) ValidationError) (\<lambda>_.
     bindS (put_repo (upsert_unit item)) (\<lambda>_.
     bindS (audited env identity ''projects.decision_unit.create'' ''DecisionUnit'' unit_id request_id
              ''DECISION_UNIT_DRAFT_CREATED'' (state_value DRAFT) (ve_version_id v)) (\<lambda>_.
     ret item))))))))"

definition unit_list ::
  "env \<Rightarrow> identity_context \<Rightarrow> uuid \<Rightarrow> string option \<Rightarrow> int option \<Rightarrow> codec option \<Rightarrow>
   (decision_unit list \<times> string option \<times> bool) fr01" where
  "unit_list env identity project_id cursor limit codec =
     bindS (require_project identity project_id) (\<lambda>_.
     bindS (get_repo (list_units (ic_scope identity) project_id)) (\<lambda>items.
     liftE (paginate (ic_scope identity) codec cursor limit
       (\<lambda>u. (env_isofmt env (ve_created_at (un_version u)), uuid_str (un_decision_unit_id u))) items)))"

record unit_patch =
  up_name :: "string option"
  up_lot_code :: "string option"
  up_timezone :: "string option"
  up_budget :: "money option"
  up_price_ceiling :: "money option"
  up_deadline_at :: "timestamp option"
  up_cross_unit_group_id :: "uuid option"

definition unit_update_draft ::
  "env \<Rightarrow> identity_context \<Rightarrow> uuid \<Rightarrow> string \<Rightarrow> unit_patch \<Rightarrow> string \<Rightarrow> decision_unit fr01" where
  "unit_update_draft env identity unit_id if_match f request_id =
     bindS require_writer (\<lambda>_.
     bindS (require_unit identity unit_id) (\<lambda>current.
     bindS (checkS (un_resource_lifecycle current = RES_DRAFT) invalid_request) (\<lambda>_.
     bindS (liftE (assert_etag (current_etag env (un_version current)) if_match)) (\<lambda>_.
     bindS (clock_now env) (\<lambda>now.
     bindS (make_version env (ic_subject_id identity) now
              [(''name'', JStr (text_or (up_name f) (un_name current)))]
              (ve_version_number (un_version current) + 1) (Some (ve_version_id (un_version current)))) (\<lambda>v.
     let updated = current
       \<lparr>un_name := text_or (up_name f) (un_name current),
        un_lot_code := keep (up_lot_code f) (un_lot_code current),
        un_timezone := text_or (up_timezone f) (un_timezone current),
        un_budget := keep (up_budget f) (un_budget current),
        un_price_ceiling := keep (up_price_ceiling f) (un_price_ceiling current),
        un_deadline_at := keep (up_deadline_at f) (un_deadline_at current),
        un_cross_unit_group_id := keep (up_cross_unit_group_id f) (un_cross_unit_group_id current),
        un_version := v\<rparr> in
     bindS (put_repo (upsert_unit updated)) (\<lambda>_.
     bindS (audited env identity ''projects.decision_unit.update_draft'' ''DecisionUnit''
              (un_decision_unit_id updated) request_id ''DECISION_UNIT_DRAFT_UPDATED''
              (state_value (un_lifecycle_state updated)) (ve_version_id v)) (\<lambda>_.
     ret updated))))))))"

section \<open>The lifecycle service\<close>

text \<open>\<open>f"{item.sequence:010d}"\<close>, for the positive sequence numbers of the model.\<close>

definition pad10 :: "int \<Rightarrow> string" where
  "pad10 n = (let digits = digits_of (nat n) in replicate (10 - length digits) (CHR ''0'') @ digits)"

definition list_events ::
  "identity_context \<Rightarrow> uuid \<Rightarrow> string option \<Rightarrow> int option \<Rightarrow> codec option \<Rightarrow>
   (lifecycle_event list \<times> string option \<times> bool) fr01" where
  "list_events identity unit_id cursor limit codec =
     bindS (require_unit identity unit_id) (\<lambda>_.
     bindS (get_repo (list_lifecycle_events (ic_scope identity) unit_id)) (\<lambda>items.
     liftE (paginate (ic_scope identity) codec cursor limit
       (\<lambda>e. (pad10 (lv_sequence e), uuid_str (lv_event_id e))) items)))"

definition resume_of :: "string option \<Rightarrow> lifecycle_state option res" where
  "resume_of resume_state =
     (if blank resume_state then Inr None
      else case state_of_value (the resume_state) of None \<Rightarrow> Inl ValueError | Some s \<Rightarrow> Inr (Some s))"

record submit_request =
  su_command :: string
  su_reason :: string
  su_basis :: "string option"
  su_earliest_affected_stage :: "string option"
  su_resume_state :: "string option"
  su_request_id :: string

definition make_event ::
  "identity_context \<Rightarrow> decision_unit \<Rightarrow> submit_request \<Rightarrow> uuid \<Rightarrow> timestamp \<Rightarrow> nat \<Rightarrow>
   lifecycle_state \<Rightarrow> bool \<Rightarrow> lifecycle_event" where
  "make_event identity u q event_id now prior next_state reopened =
     \<lparr>lv_event_id = event_id, lv_decision_unit_id = un_decision_unit_id u, lv_tenant_id = un_tenant_id u,
      lv_data_domain_id = un_data_domain_id u, lv_project_id = un_project_id u,
      lv_sequence = int prior + 1, lv_command = upper (strip (su_command q)),
      lv_from_state = un_lifecycle_state u, lv_to_state = next_state, lv_reopened = reopened,
      lv_reason = su_reason q, lv_basis = su_basis q,
      lv_earliest_affected_stage = su_earliest_affected_stage q, lv_actor_id = ic_subject_id identity,
      lv_occurred_at = now, lv_request_id = su_request_id q\<rparr>"

text \<open>What follows the write of the event and of the unit: the outbox event and the audit record.\<close>

definition announce ::
  "env \<Rightarrow> identity_context \<Rightarrow> decision_unit \<Rightarrow> submit_request \<Rightarrow> lifecycle_event \<Rightarrow> lifecycle_event fr01" where
  "announce env identity u q event =
     bindS (emit_event env identity
              (if lv_reopened event then ''rules.decision_unit_reopened.v1''
               else ''rules.decision_unit_lifecycle_advanced.v1'')
              ''DecisionUnit'' (un_decision_unit_id u)
              [(''decision_unit_id'', JStr (uuid_str (un_decision_unit_id u))),
               (''from_state'', JStr (state_value (lv_from_state event))),
               (''to_state'', JStr (state_value (lv_to_state event))),
               (''command'', JStr (lv_command event)), (''reopened'', JBool (lv_reopened event)),
               (''earliest_affected_stage'', jopt JStr (su_earliest_affected_stage q))]
              (su_request_id q) (Some (un_project_id u)) (Some (un_decision_unit_id u))) (\<lambda>_.
     bindS (audited env identity ''projects.lifecycle.submit'' ''DecisionUnitLifecycleEvent''
              (lv_event_id event) (su_request_id q) (lv_command event) (state_value (lv_to_state event))
              (ve_version_id (un_version u))) (\<lambda>_.
     ret event))"

text \<open>The second half of \<open>submit\<close>: the event is numbered, written, and followed by the unit.\<close>

definition record_transition ::
  "env \<Rightarrow> identity_context \<Rightarrow> decision_unit \<Rightarrow> submit_request \<Rightarrow> timestamp \<Rightarrow> lifecycle_state \<Rightarrow> bool \<Rightarrow>
   lifecycle_event fr01" where
  "record_transition env identity u q now next_state reopened =
     bindS (get_repo (list_lifecycle_events (ic_scope identity) (un_decision_unit_id u))) (\<lambda>prior.
     bindS (uuid4 env) (\<lambda>event_id.
     let event = make_event identity u q event_id now (length prior) next_state reopened in
     bindS (checkS (lifecycle_event_valid event) ValidationError) (\<lambda>_.
     bindS (put_repo (append_lifecycle_event event)) (\<lambda>_.
     bindS (put_repo (upsert_unit (u\<lparr>un_lifecycle_state := next_state\<rparr>))) (\<lambda>_.
     announce env identity u q event)))))"

definition submit :: "env \<Rightarrow> identity_context \<Rightarrow> uuid \<Rightarrow> submit_request \<Rightarrow> lifecycle_event fr01" where
  "submit env identity unit_id q =
     bindS require_writer (\<lambda>_.
     bindS (require_unit identity unit_id) (\<lambda>u.
     bindS (liftE (resume_of (su_resume_state q))) (\<lambda>resume.
     bindS (liftE (resolve_transition (un_lifecycle_state u) (su_command q) resume)) (\<lambda>(next_state, reopened).
     bindS (checkS (\<not> (reopened \<and> (blank (su_basis q) \<or> blank (su_earliest_affected_stage q)))) invalid_request) (\<lambda>_.
     bindS (clock_now env) (\<lambda>now.
     record_transition env identity u q now next_state reopened))))))"

text \<open>
  \<open>submit_after_intake\<close> returns \<open>events[-1]\<close> of the triple that \<open>list_events\<close> returns
  when the unit is in the state of the command already: that is \<open>has_more\<close>, not an event.
\<close>

datatype intake_result = SUBMITTED lifecycle_event | HAS_MORE bool

definition submit_after_intake ::
  "env \<Rightarrow> identity_context \<Rightarrow> uuid \<Rightarrow> string \<Rightarrow> string \<Rightarrow> string option \<Rightarrow> string option \<Rightarrow> string \<Rightarrow> intake_result fr01" where
  "submit_after_intake env identity unit_id command reason basis earliest request_id =
     bindS (require_unit identity unit_id) (\<lambda>u.
     if state_value (un_lifecycle_state u) = upper (strip command)
     then bindS (list_events identity unit_id None None None) (\<lambda>(_, _, has_more). ret (HAS_MORE has_more))
     else
       bindS (if un_lifecycle_state u \<in> {DRAFT, DOCUMENTS_PARSING}
              then bindS (submit env identity unit_id
                     \<lparr>su_command = state_value REGIME_AND_SCOPE_PENDING,
                      su_reason = ''intake complete before scope/constraint command'', su_basis = basis,
                      su_earliest_affected_stage = Some ''REGIME_AND_SCOPE_PENDING'',
                      su_resume_state = None, su_request_id = request_id\<rparr>) (\<lambda>_. ret ())
              else ret ()) (\<lambda>_.
       bindS (submit env identity unit_id
                \<lparr>su_command = command, su_reason = reason, su_basis = basis,
                 su_earliest_affected_stage = earliest, su_resume_state = None,
                 su_request_id = request_id\<rparr>) (\<lambda>event.
       ret (SUBMITTED event))))"

section \<open>The document inbox\<close>

definition CONSUMED_DOCUMENT_EVENTS :: "string list" where
  "CONSUMED_DOCUMENT_EVENTS =
     [''documents.source_document_released.v1'', ''documents.parse_completed.v1'',
      ''documents.document_quarantined.v1'']"

text \<open>
  \<open>_as_uuid\<close> on a payload value; \<open>parse_uuid\<close> is the constructor \<open>UUID(text)\<close> of the
  standard library, which accepts several spellings, and \<open>py_str\<close> the text \<open>str\<close> gives for
  the value.
\<close>

definition as_uuid :: "(string \<Rightarrow> uuid option) \<Rightarrow> (json \<Rightarrow> string) \<Rightarrow> json option \<Rightarrow> uuid option res" where
  "as_uuid parse_uuid py_str v =
     (case v of
        None \<Rightarrow> Inr None
      | Some JNull \<Rightarrow> Inr None
      | Some x \<Rightarrow> (case parse_uuid (py_str x) of None \<Rightarrow> Inl ValueError | Some u \<Rightarrow> Inr (Some u)))"

definition inbox_scope :: "event_envelope \<Rightarrow> tenant_scope" where
  "inbox_scope e =
     \<lparr>sc_tenant_id = ev_tenant_id e, sc_data_domain_id = ev_data_domain_id e, sc_project_ids = [],
      sc_decision_unit_ids = [], sc_all_projects = True, sc_all_decision_units = True\<rparr>"

definition consume ::
  "(string \<Rightarrow> uuid option) \<Rightarrow> (json \<Rightarrow> string) \<Rightarrow> event_envelope \<Rightarrow> document_ref option fr01" where
  "consume parse_uuid py_str e =
     (if ev_event_type e \<notin> set CONSUMED_DOCUMENT_EVENTS then ret None
      else
        bindS (get_repo (get_document_ref (inbox_scope e) (ev_event_id e))) (\<lambda>existing.
        if existing \<noteq> None then ret existing
        else
          bindS (liftE (as_uuid parse_uuid py_str (map_of (ev_payload e) ''document_id''))) (\<lambda>document_id.
          bindS (liftE (as_uuid parse_uuid py_str (map_of (ev_payload e) ''parse_job_id''))) (\<lambda>parse_job_id.
          let quarantined = (ev_event_type e = ''documents.document_quarantined.v1'');
              item =
                \<lparr>di_event_id = ev_event_id e, di_event_type = ev_event_type e,
                 di_tenant_id = ev_tenant_id e, di_data_domain_id = ev_data_domain_id e,
                 di_project_id = ev_project_id e, di_decision_unit_id = ev_decision_unit_id e,
                 di_document_id =
                   keep document_id
                     (if ev_aggregate_type e = ''SourceDocument'' then Some (ev_aggregate_id e) else None),
                 di_parse_job_id = parse_job_id, di_usable_for_formal_rules = (\<not> quarantined),
                 di_validity_state = (if quarantined then VAL_INVALIDATED else VAL_CURRENT),
                 di_occurred_at = ev_occurred_at e, di_request_id = ev_request_id e\<rparr> in
          bindS (checkS (document_ref_valid item) ValidationError) (\<lambda>_.
          bindS (put_repo (upsert_document_ref item)) (\<lambda>_.
          ret (Some item)))))))"

section \<open>The guard\<close>

definition READ_ROLES :: "role list" where
  "READ_ROLES =
     [PROJECT_MANAGER, RULE_EDITOR, BID_MANAGER, TENANT_ADMIN, DOCUMENT_STEWARD, LEGAL_PRIVACY, AUDITOR, APPROVER]"

definition WRITE_ROLES :: "role list" where
  "WRITE_ROLES = [PROJECT_MANAGER, RULE_EDITOR, BID_MANAGER, TENANT_ADMIN]"

definition PUBLISH_ROLES :: "role list" where
  "PUBLISH_ROLES = [BID_MANAGER, LEGAL_PRIVACY, PROJECT_MANAGER, RULE_EDITOR]"

definition fr01_guard :: "bool \<Rightarrow> bool \<Rightarrow> bool \<Rightarrow> identity_context \<Rightarrow> identity_context res" where
  "fr01_guard write publish mfa identity =
     bindE (guardE (\<not> (mfa \<and> \<not> ic_mfa_verified identity)) (BiaiceError ''MFA_REQUIRED'')) (\<lambda>_.
     let allowed = (if publish then PUBLISH_ROLES else if write then WRITE_ROLES else READ_ROLES) in
     bindE (guardE (set (ic_roles identity) \<inter> set allowed \<noteq> {}) (BiaiceError ''PERMISSION_DENIED'')) (\<lambda>_.
     Inr identity))"

end
