(* ===== verification/Rules_Services.thy ===== *)
theory Rules_Services
  imports Fr01_Services
begin

text \<open>
  The services of \<open>modules/rules/application/services.py\<close>: scope assessments, procurement
  regimes, rule sets, rule clauses, compliance reviews and cross-lot constraints. Publishing
  retires what was current, moves the unit through the lifecycle service, and reports to the
  outbox and the audit chain, in the order of the code.
\<close>

section \<open>Values and field checks\<close>

primrec support_value :: "scope_support \<Rightarrow> string" where
  "support_value SUPPORTED = ''SUPPORTED''"
| "support_value UNSUPPORTED = ''UNSUPPORTED''"
| "support_value SS_PORTFOLIO_REVIEW_REQUIRED = ''PORTFOLIO_REVIEW_REQUIRED''"
| "support_value SS_MULTI_ROUND_UNSUPPORTED = ''MULTI_ROUND_UNSUPPORTED''"

primrec round_value :: "round_kind \<Rightarrow> string" where
  "round_value SINGLE_ROUND = ''SINGLE_ROUND''"
| "round_value MULTI_ROUND = ''MULTI_ROUND''"

primrec method_value :: "evaluation_method \<Rightarrow> string" where
  "method_value COMPREHENSIVE_SCORING = ''COMPREHENSIVE_SCORING''"
| "method_value LOWEST_EVALUATED_PRICE = ''LOWEST_EVALUATED_PRICE''"
| "method_value EM_OTHER_UNSUPPORTED = ''OTHER_UNSUPPORTED''"

primrec kind_value :: "rule_clause_kind \<Rightarrow> string" where
  "kind_value QUALIFICATION = ''QUALIFICATION''"
| "kind_value SUBSTANTIVE = ''SUBSTANTIVE''"
| "kind_value SCORING = ''SCORING''"
| "kind_value FORMULA = ''FORMULA''"
| "kind_value ROUNDING = ''ROUNDING''"
| "kind_value TIE = ''TIE''"
| "kind_value CANDIDATE = ''CANDIDATE''"
| "kind_value VALID_SUPPLIER_COUNT = ''VALID_SUPPLIER_COUNT''"
| "kind_value SAME_BRAND = ''SAME_BRAND''"
| "kind_value ABNORMALLY_LOW = ''ABNORMALLY_LOW''"
| "kind_value CONTRACT = ''CONTRACT''"
| "kind_value SUBMISSION = ''SUBMISSION''"

primrec validity_value :: "resource_validity \<Rightarrow> string" where
  "validity_value VAL_CURRENT = ''CURRENT''"
| "validity_value VAL_STALE = ''STALE''"
| "validity_value VAL_INVALIDATED = ''INVALIDATED''"

primrec review_value :: "compliance_review_state \<Rightarrow> string" where
  "review_value CR_OPEN = ''OPEN''"
| "review_value CR_BLOCKING = ''BLOCKING''"
| "review_value CR_ACCEPTED_FOR_SIMULATION = ''ACCEPTED_FOR_SIMULATION''"
| "review_value CR_RESOLVED = ''RESOLVED''"
| "review_value CR_CLOSED = ''CLOSED''"

definition otherwise :: "'a option \<Rightarrow> 'a \<Rightarrow> 'a" where
  "otherwise x y = (case x of None \<Rightarrow> y | Some z \<Rightarrow> z)"

definition scope_assessment_valid :: "scope_assessment \<Rightarrow> bool" where
  "scope_assessment_valid s \<longleftrightarrow> optional (text_between 0 2000) (sa_applicability s)"

definition regime_valid :: "applicable_regime \<Rightarrow> bool" where
  "regime_valid g \<longleftrightarrow> text_between 1 200 (rg_regime_name g)"

definition rule_set_valid :: "rule_set \<Rightarrow> bool" where
  "rule_set_valid s \<longleftrightarrow> text_between 1 200 (rs_title s)"

definition review_valid :: "compliance_review \<Rightarrow> bool" where
  "review_valid c \<longleftrightarrow> text_between 1 4000 (cr_finding c)"

definition constraint_valid :: "cross_lot_constraint \<Rightarrow> bool" where
  "constraint_valid c \<longleftrightarrow> text_between 1 2000 (cl_description c)"

definition maker_checker :: exc where
  "maker_checker = BiaiceError ''MAKER_CHECKER_REQUIRED''"

section \<open>Retiring what was current\<close>

definition stale_current_scopes :: "identity_context \<Rightarrow> uuid \<Rightarrow> unit list fr01" where
  "stale_current_scopes identity unit_id =
     bindS (get_repo (list_scopes (ic_scope identity) unit_id)) (\<lambda>items.
     forS items (\<lambda>item.
       if sa_validity_state item = VAL_CURRENT \<and> sa_lifecycle_state item = RES_PUBLISHED
       then put_repo (upsert_scope (item\<lparr>sa_validity_state := VAL_STALE\<rparr>)) else ret ()))"

definition stale_current_regimes :: "identity_context \<Rightarrow> uuid \<Rightarrow> unit list fr01" where
  "stale_current_regimes identity unit_id =
     bindS (get_repo (list_regimes (ic_scope identity) unit_id)) (\<lambda>items.
     forS items (\<lambda>item.
       if rg_validity_state item = VAL_CURRENT \<and> rg_lifecycle_state item = RES_PUBLISHED
       then put_repo (upsert_regime (item\<lparr>rg_validity_state := VAL_STALE\<rparr>)) else ret ()))"

definition superseded_by :: "rule_set \<Rightarrow> rule_set \<Rightarrow> bool" where
  "superseded_by incoming item \<longleftrightarrow>
     rs_rule_set_id item \<noteq> rs_rule_set_id incoming \<and>
     rs_validity_state item = VAL_CURRENT \<and> rs_lifecycle_state item = RES_PUBLISHED \<and>
     (rs_scope_level incoming = LEVEL_PROJECT \<and> rs_scope_level item = LEVEL_PROJECT \<and>
        rs_project_id item = rs_project_id incoming \<or>
      rs_scope_level incoming = LEVEL_DECISION_UNIT \<and> rs_scope_level item = LEVEL_DECISION_UNIT \<and>
        rs_decision_unit_id item = rs_decision_unit_id incoming)"

definition stale_current_rule_sets :: "identity_context \<Rightarrow> rule_set \<Rightarrow> rule_set list fr01" where
  "stale_current_rule_sets identity incoming =
     bindS (get_repo (list_rule_sets (ic_scope identity) (rs_decision_unit_id incoming))) (\<lambda>items.
     forS (filter (superseded_by incoming) items) (\<lambda>item.
       let stale = item\<lparr>rs_validity_state := VAL_STALE\<rparr> in
       bindS (put_repo (upsert_rule_set stale)) (\<lambda>_. ret stale)))"

section \<open>Scope assessments\<close>

definition scope_create ::
  "env \<Rightarrow> identity_context \<Rightarrow> uuid \<Rightarrow> scope_support \<Rightarrow> round_kind \<Rightarrow> bool \<Rightarrow> string list \<Rightarrow>
   source_locator option \<Rightarrow> string option \<Rightarrow> string \<Rightarrow> scope_assessment fr01" where
  "scope_create env identity unit_id support round_kind cross_lot reason_codes source applicability request_id =
     bindS require_writer (\<lambda>_.
     bindS (require_unit identity unit_id) (\<lambda>u.
     bindS (clock_now env) (\<lambda>now.
     bindS (uuid4 env) (\<lambda>new_id.
     bindS (make_version env (ic_subject_id identity) now
              [(''support'', JStr (support_value support)), (''round_kind'', JStr (round_value round_kind))]
              1 None) (\<lambda>v.
     let item =
       \<lparr>sa_scope_assessment_id = new_id, sa_decision_unit_id = un_decision_unit_id u,
        sa_project_id = un_project_id u, sa_tenant_id = un_tenant_id u, sa_data_domain_id = un_data_domain_id u,
        sa_support = support, sa_round_kind = round_kind, sa_cross_lot = cross_lot,
        sa_reason_codes = reason_codes, sa_source = source, sa_applicability = applicability,
        sa_lifecycle_state = RES_DRAFT, sa_validity_state = VAL_CURRENT, sa_version = v,
        sa_effective_from = None, sa_confirmed_by = None, sa_confirmed_at = None\<rparr> in
     bindS (checkS (scope_assessment_valid item) ValidationError) (\<lambda>_.
     bindS (put_repo (upsert_scope item)) (\<lambda>_.
     bindS (audited env identity ''rules.scope.create'' ''ScopeAssessment'' new_id request_id
              ''SCOPE_DRAFT_CREATED'' (resource_value RES_DRAFT) (ve_version_id v)) (\<lambda>_.
     ret item))))))))"

definition scope_list :: "identity_context \<Rightarrow> uuid \<Rightarrow> scope_assessment list fr01" where
  "scope_list identity unit_id =
     bindS (require_unit identity unit_id) (\<lambda>_. get_repo (list_scopes (ic_scope identity) unit_id))"

definition scope_get :: "identity_context \<Rightarrow> uuid \<Rightarrow> scope_assessment fr01" where
  "scope_get identity item_id =
     bindS (found (get_scope (ic_scope identity) item_id)) (\<lambda>item.
     bindS (liftE (assert_allows (ic_scope identity) (sa_tenant_id item) (sa_data_domain_id item) None
                     (Some (sa_decision_unit_id item)))) (\<lambda>_.
     ret item))"

record scope_patch =
  sp_support :: "scope_support option"
  sp_round_kind :: "round_kind option"
  sp_cross_lot :: "bool option"
  sp_reason_codes :: "string list option"
  sp_applicability :: "string option"

definition scope_update_draft ::
  "env \<Rightarrow> identity_context \<Rightarrow> uuid \<Rightarrow> string \<Rightarrow> scope_patch \<Rightarrow> string \<Rightarrow> scope_assessment fr01" where
  "scope_update_draft env identity item_id if_match f request_id =
     bindS require_writer (\<lambda>_.
     bindS (scope_get identity item_id) (\<lambda>current.
     bindS (checkS (sa_lifecycle_state current = RES_DRAFT) invalid_request) (\<lambda>_.
     bindS (liftE (assert_etag (current_etag env (sa_version current)) if_match)) (\<lambda>_.
     bindS (clock_now env) (\<lambda>now.
     bindS (make_version env (ic_subject_id identity) now
              [(''support'', JStr (support_value (otherwise (sp_support f) (sa_support current))))]
              (ve_version_number (sa_version current) + 1) (Some (ve_version_id (sa_version current)))) (\<lambda>v.
     let updated = current
       \<lparr>sa_support := otherwise (sp_support f) (sa_support current),
        sa_round_kind := otherwise (sp_round_kind f) (sa_round_kind current),
        sa_cross_lot := otherwise (sp_cross_lot f) (sa_cross_lot current),
        sa_reason_codes := otherwise (sp_reason_codes f) (sa_reason_codes current),
        sa_applicability := keep (sp_applicability f) (sa_applicability current), sa_version := v\<rparr> in
     bindS (put_repo (upsert_scope updated)) (\<lambda>_.
     bindS (audited env identity ''rules.scope.update_draft'' ''ScopeAssessment''
              (sa_scope_assessment_id updated) request_id ''SCOPE_DRAFT_UPDATED''
              (resource_value (sa_lifecycle_state updated)) (ve_version_id v)) (\<lambda>_.
     ret updated))))))))"

definition scope_command :: "scope_assessment \<Rightarrow> string option" where
  "scope_command s =
     (if sa_round_kind s = MULTI_ROUND \<or> sa_support s = SS_MULTI_ROUND_UNSUPPORTED
      then Some (state_value MULTI_ROUND_UNSUPPORTED)
      else if sa_cross_lot s \<or> sa_support s = SS_PORTFOLIO_REVIEW_REQUIRED
      then Some (state_value PORTFOLIO_REVIEW_REQUIRED)
      else if sa_support s = SUPPORTED then Some (state_value RULES_PENDING_CONFIRMATION)
      else None)"

definition scope_publish :: "env \<Rightarrow> identity_context \<Rightarrow> uuid \<Rightarrow> string \<Rightarrow> scope_assessment fr01" where
  "scope_publish env identity item_id request_id =
     bindS require_writer (\<lambda>_.
     bindS (scope_get identity item_id) (\<lambda>current.
     bindS (checkS (sa_lifecycle_state current \<noteq> RES_PUBLISHED) invalid_request) (\<lambda>_.
     bindS (checkS (ic_subject_id identity \<noteq> ve_created_by (sa_version current)) maker_checker) (\<lambda>_.
     bindS (clock_now env) (\<lambda>now.
     bindS (stale_current_scopes identity (sa_decision_unit_id current)) (\<lambda>_.
     let published = current
       \<lparr>sa_lifecycle_state := RES_PUBLISHED, sa_validity_state := VAL_CURRENT, sa_effective_from := Some now,
        sa_confirmed_by := Some (ic_subject_id identity), sa_confirmed_at := Some now\<rparr> in
     bindS (put_repo (upsert_scope published)) (\<lambda>_.
     bindS (require_unit identity (sa_decision_unit_id current)) (\<lambda>u.
     bindS (put_repo (upsert_unit
              (u\<lparr>un_current_scope_assessment_id := Some (sa_scope_assessment_id published)\<rparr>))) (\<lambda>_.
     bindS (case scope_command published of
              None \<Rightarrow> ret ()
            | Some command \<Rightarrow>
                bindS (submit_after_intake env identity (un_decision_unit_id u) command
                         ''scope assessment published'' (Some (uuid_str (sa_scope_assessment_id published)))
                         (Some command) request_id) (\<lambda>_. ret ())) (\<lambda>_.
     bindS (emit_event env identity ''rules.scope_assessment_published.v1'' ''ScopeAssessment''
              (sa_scope_assessment_id published)
              [(''scope_assessment_id'', JStr (uuid_str (sa_scope_assessment_id published))),
               (''decision_unit_id'', JStr (uuid_str (sa_decision_unit_id published))),
               (''support'', JStr (support_value (sa_support published))),
               (''validity'', JStr (validity_value (sa_validity_state published))),
               (''effective_from'', JStr (env_isofmt env now))]
              request_id (Some (sa_project_id published)) (Some (sa_decision_unit_id published))) (\<lambda>_.
     bindS (audited env identity ''rules.scope.publish'' ''ScopeAssessment'' (sa_scope_assessment_id published)
              request_id ''SCOPE_PUBLISHED'' (support_value (sa_support published))
              (ve_version_id (sa_version published))) (\<lambda>_.
     ret published))))))))))))"

section \<open>Regimes\<close>

definition regime_create ::
  "env \<Rightarrow> identity_context \<Rightarrow> uuid \<Rightarrow> string \<Rightarrow> procurement_mode \<Rightarrow> evaluation_method \<Rightarrow> round_kind \<Rightarrow>
   source_locator option \<Rightarrow> string \<Rightarrow> applicable_regime fr01" where
  "regime_create env identity unit_id regime_name mode method round_kind source request_id =
     bindS require_writer (\<lambda>_.
     bindS (require_unit identity unit_id) (\<lambda>u.
     bindS (clock_now env) (\<lambda>now.
     bindS (uuid4 env) (\<lambda>new_id.
     bindS (make_version env (ic_subject_id identity) now
              [(''regime_name'', JStr regime_name), (''evaluation_method'', JStr (method_value method))]
              1 None) (\<lambda>v.
     let item =
       \<lparr>rg_applicable_regime_id = new_id, rg_decision_unit_id = un_decision_unit_id u,
        rg_project_id = un_project_id u, rg_tenant_id = un_tenant_id u, rg_data_domain_id = un_data_domain_id u,
        rg_regime_name = regime_name, rg_procurement_mode = mode, rg_evaluation_method = method,
        rg_round_kind = round_kind, rg_source = source, rg_lifecycle_state = RES_DRAFT,
        rg_validity_state = VAL_CURRENT, rg_version = v, rg_effective_from = None,
        rg_confirmed_by = None, rg_confirmed_at = None\<rparr> in
     bindS (checkS (regime_valid item) ValidationError) (\<lambda>_.
     bindS (put_repo (upsert_regime item)) (\<lambda>_.
     bindS (audited env identity ''rules.regime.create'' ''ApplicableRegime'' new_id request_id
              ''REGIME_DRAFT_CREATED'' (resource_value RES_DRAFT) (ve_version_id v)) (\<lambda>_.
     ret item))))))))"

definition regime_list :: "identity_context \<Rightarrow> uuid \<Rightarrow> applicable_regime list fr01" where
  "regime_list identity unit_id =
     bindS (require_unit identity unit_id) (\<lambda>_. get_repo (list_regimes (ic_scope identity) unit_id))"

definition regime_get :: "identity_context \<Rightarrow> uuid \<Rightarrow> applicable_regime fr01" where
  "regime_get identity item_id = found (get_regime (ic_scope identity) item_id)"

definition regime_publish :: "env \<Rightarrow> identity_context \<Rightarrow> uuid \<Rightarrow> string \<Rightarrow> applicable_regime fr01" where
  "regime_publish env identity item_id request_id =
     bindS require_writer (\<lambda>_.
     bindS (regime_get identity item_id) (\<lambda>current.
     bindS (checkS (rg_lifecycle_state current \<noteq> RES_PUBLISHED) invalid_request) (\<lambda>_.
     bindS (checkS (ic_subject_id identity \<noteq> ve_created_by (rg_version current)) maker_checker) (\<lambda>_.
     bindS (clock_now env) (\<lambda>now.
     bindS (stale_current_regimes identity (rg_decision_unit_id current)) (\<lambda>_.
     let published = current
       \<lparr>rg_lifecycle_state := RES_PUBLISHED, rg_validity_state := VAL_CURRENT, rg_effective_from := Some now,
        rg_confirmed_by := Some (ic_subject_id identity), rg_confirmed_at := Some now\<rparr> in
     bindS (put_repo (upsert_regime published)) (\<lambda>_.
     bindS (require_unit identity (rg_decision_unit_id current)) (\<lambda>u.
     bindS (put_repo (upsert_unit (u\<lparr>un_current_regime_id := Some (rg_applicable_regime_id published)\<rparr>))) (\<lambda>_.
     bindS (emit_event env identity ''rules.regime_published.v1'' ''ApplicableRegime''
              (rg_applicable_regime_id published)
              [(''applicable_regime_id'', JStr (uuid_str (rg_applicable_regime_id published))),
               (''decision_unit_id'', JStr (uuid_str (rg_decision_unit_id published))),
               (''evaluation_method'', JStr (method_value (rg_evaluation_method published))),
               (''effective_from'', JStr (env_isofmt env now))]
              request_id (Some (rg_project_id published)) (Some (rg_decision_unit_id published))) (\<lambda>_.
     bindS (audited env identity ''rules.regime.publish'' ''ApplicableRegime''
              (rg_applicable_regime_id published) request_id ''REGIME_PUBLISHED''
              (method_value (rg_evaluation_method published)) (ve_version_id (rg_version published))) (\<lambda>_.
     ret published)))))))))))"

section \<open>Rule sets\<close>

definition rule_set_create ::
  "env \<Rightarrow> identity_context \<Rightarrow> uuid \<Rightarrow> string \<Rightarrow> rule_scope_level \<Rightarrow> timestamp option \<Rightarrow> timestamp option \<Rightarrow>
   string \<Rightarrow> rule_set fr01" where
  "rule_set_create env identity unit_id title level effective_from effective_until request_id =
     bindS require_writer (\<lambda>_.
     bindS (require_unit identity unit_id) (\<lambda>u.
     bindS (clock_now env) (\<lambda>now.
     bindS (uuid4 env) (\<lambda>new_id.
     bindS (make_version env (ic_subject_id identity) now [(''title'', JStr title)] 1 None) (\<lambda>v.
     let item =
       \<lparr>rs_rule_set_id = new_id, rs_decision_unit_id = un_decision_unit_id u, rs_project_id = un_project_id u,
        rs_tenant_id = un_tenant_id u, rs_data_domain_id = un_data_domain_id u, rs_title = title,
        rs_scope_level = level, rs_lifecycle_state = RES_DRAFT, rs_validity_state = VAL_CURRENT,
        rs_version = v, rs_effective_from = effective_from, rs_effective_until = effective_until,
        rs_confirmed_by = None, rs_confirmed_at = None\<rparr> in
     bindS (checkS (rule_set_valid item) ValidationError) (\<lambda>_.
     bindS (put_repo (upsert_rule_set item)) (\<lambda>_.
     bindS (audited env identity ''rules.rule_set.create'' ''RuleSet'' new_id request_id
              ''RULE_SET_DRAFT_CREATED'' (resource_value RES_DRAFT) (ve_version_id v)) (\<lambda>_.
     ret item))))))))"

definition rule_set_list :: "identity_context \<Rightarrow> uuid \<Rightarrow> rule_set list fr01" where
  "rule_set_list identity unit_id =
     bindS (require_unit identity unit_id) (\<lambda>_. get_repo (list_rule_sets (ic_scope identity) unit_id))"

definition rule_set_get :: "identity_context \<Rightarrow> uuid \<Rightarrow> rule_set fr01" where
  "rule_set_get identity item_id = found (get_rule_set (ic_scope identity) item_id)"

definition rule_set_publish :: "env \<Rightarrow> identity_context \<Rightarrow> uuid \<Rightarrow> string \<Rightarrow> rule_set fr01" where
  "rule_set_publish env identity item_id request_id =
     bindS require_writer (\<lambda>_.
     bindS (rule_set_get identity item_id) (\<lambda>current.
     bindS (checkS (rs_lifecycle_state current \<noteq> RES_PUBLISHED) invalid_request) (\<lambda>_.
     bindS (checkS (ic_subject_id identity \<noteq> ve_created_by (rs_version current)) maker_checker) (\<lambda>_.
     bindS (clock_now env) (\<lambda>now.
     let effective = otherwise (rs_effective_from current) now in
     bindS (checkS (\<not> effective > now) invalid_request) (\<lambda>_.
     bindS (stale_current_rule_sets identity current) (\<lambda>revoked.
     let published = current
       \<lparr>rs_lifecycle_state := RES_PUBLISHED, rs_validity_state := VAL_CURRENT,
        rs_effective_from := Some effective, rs_confirmed_by := Some (ic_subject_id identity),
        rs_confirmed_at := Some now\<rparr> in
     bindS (put_repo (upsert_rule_set published)) (\<lambda>_.
     bindS (require_unit identity (rs_decision_unit_id current)) (\<lambda>u.
     bindS (put_repo (upsert_unit (u\<lparr>un_current_rule_set_id := Some (rs_rule_set_id published)\<rparr>))) (\<lambda>_.
     bindS (forS revoked (\<lambda>old.
              emit_event env identity ''rules.rule_set_revoked.v1'' ''RuleSet'' (rs_rule_set_id old)
                [(''rule_set_id'', JStr (uuid_str (rs_rule_set_id old))),
                 (''successor_rule_set_id'', JStr (uuid_str (rs_rule_set_id published))),
                 (''decision_unit_id'', JStr (uuid_str (rs_decision_unit_id old)))]
                request_id (Some (rs_project_id old)) (Some (rs_decision_unit_id old)))) (\<lambda>_.
     bindS (emit_event env identity ''rules.rule_set_published.v1'' ''RuleSet'' (rs_rule_set_id published)
              [(''rule_set_id'', JStr (uuid_str (rs_rule_set_id published))),
               (''decision_unit_id'', JStr (uuid_str (rs_decision_unit_id published))),
               (''effective_from'', JStr (env_isofmt env effective))]
              request_id (Some (rs_project_id published)) (Some (rs_decision_unit_id published))) (\<lambda>_.
     bindS (audited env identity ''rules.rule_set.publish'' ''RuleSet'' (rs_rule_set_id published) request_id
              ''RULE_SET_PUBLISHED'' (resource_value RES_PUBLISHED) (ve_version_id (rs_version published))) (\<lambda>_.
     ret published)))))))))))))"

section \<open>Clauses\<close>

definition clause_create ::
  "env \<Rightarrow> identity_context \<Rightarrow> uuid \<Rightarrow> rule_clause_kind \<Rightarrow> string \<Rightarrow> int \<Rightarrow> string \<Rightarrow> string option \<Rightarrow> rat \<Rightarrow>
   source_locator option \<Rightarrow> string \<Rightarrow> rule_clause fr01" where
  "clause_create env identity rule_set_id kind coverage_key priority original_text expression confidence source request_id =
     bindS require_writer (\<lambda>_.
     bindS (found (get_rule_set (ic_scope identity) rule_set_id)) (\<lambda>rset.
     bindS (clock_now env) (\<lambda>now.
     bindS (uuid4 env) (\<lambda>new_id.
     bindS (make_version env (ic_subject_id identity) now
              [(''coverage_key'', JStr coverage_key), (''kind'', JStr (kind_value kind))] 1 None) (\<lambda>v.
     let item =
       \<lparr>rc_rule_clause_id = new_id, rc_rule_set_id = rs_rule_set_id rset,
        rc_decision_unit_id = rs_decision_unit_id rset, rc_project_id = rs_project_id rset,
        rc_tenant_id = rs_tenant_id rset, rc_data_domain_id = rs_data_domain_id rset, rc_kind = kind,
        rc_coverage_key = coverage_key, rc_priority = priority, rc_original_text = original_text,
        rc_structured_expression = expression, rc_confidence = confidence, rc_source = source,
        rc_supersedes_clause_id = None, rc_lifecycle_state = RES_DRAFT, rc_validity_state = VAL_CURRENT,
        rc_version = v, rc_confirmed_by = None, rc_confirmed_at = None\<rparr> in
     bindS (checkS (rule_clause_valid item) ValidationError) (\<lambda>_.
     bindS (put_repo (upsert_clause item)) (\<lambda>_.
     bindS (audited env identity ''rules.clause.create'' ''RuleClause'' new_id request_id
              ''RULE_CLAUSE_DRAFT_CREATED'' (resource_value RES_DRAFT) (ve_version_id v)) (\<lambda>_.
     ret item))))))))"

definition clause_list :: "identity_context \<Rightarrow> uuid \<Rightarrow> rule_clause list fr01" where
  "clause_list identity rule_set_id =
     bindS (found (get_rule_set (ic_scope identity) rule_set_id)) (\<lambda>_.
     get_repo (list_clauses (ic_scope identity) rule_set_id))"

definition clause_get :: "identity_context \<Rightarrow> uuid \<Rightarrow> rule_clause fr01" where
  "clause_get identity item_id = found (get_clause (ic_scope identity) item_id)"

record clause_patch =
  cp_original_text :: "string option"
  cp_structured_expression :: "string option"
  cp_priority :: "int option"
  cp_confidence :: "rat option"

definition clause_update_draft ::
  "env \<Rightarrow> identity_context \<Rightarrow> uuid \<Rightarrow> string \<Rightarrow> clause_patch \<Rightarrow> string \<Rightarrow> rule_clause fr01" where
  "clause_update_draft env identity item_id if_match f request_id =
     bindS require_writer (\<lambda>_.
     bindS (clause_get identity item_id) (\<lambda>current.
     bindS (checkS (rc_lifecycle_state current = RES_DRAFT) invalid_request) (\<lambda>_.
     bindS (liftE (assert_etag (current_etag env (rc_version current)) if_match)) (\<lambda>_.
     bindS (clock_now env) (\<lambda>now.
     bindS (make_version env (ic_subject_id identity) now
              [(''coverage_key'', JStr (rc_coverage_key current))]
              (ve_version_number (rc_version current) + 1) (Some (ve_version_id (rc_version current)))) (\<lambda>v.
     let updated = current
       \<lparr>rc_original_text := text_or (cp_original_text f) (rc_original_text current),
        rc_structured_expression := keep (cp_structured_expression f) (rc_structured_expression current),
        rc_priority := otherwise (cp_priority f) (rc_priority current),
        rc_confidence := otherwise (cp_confidence f) (rc_confidence current), rc_version := v\<rparr> in
     bindS (put_repo (upsert_clause updated)) (\<lambda>_.
     bindS (audited env identity ''rules.clause.update_draft'' ''RuleClause'' (rc_rule_clause_id updated)
              request_id ''RULE_CLAUSE_DRAFT_UPDATED'' (resource_value (rc_lifecycle_state updated))
              (ve_version_id v)) (\<lambda>_.
     ret updated))))))))"

definition clause_supersede ::
  "env \<Rightarrow> identity_context \<Rightarrow> uuid \<Rightarrow> string \<Rightarrow> string option \<Rightarrow> string \<Rightarrow> rule_clause fr01" where
  "clause_supersede env identity item_id original_text expression request_id =
     bindS require_writer (\<lambda>_.
     bindS (clause_get identity item_id) (\<lambda>current.
     bindS (checkS (rc_lifecycle_state current \<noteq> RES_DRAFT) invalid_request) (\<lambda>_.
     bindS (clock_now env) (\<lambda>now.
     bindS (put_repo (upsert_clause (current\<lparr>rc_validity_state := VAL_STALE\<rparr>))) (\<lambda>_.
     bindS (uuid4 env) (\<lambda>new_id.
     bindS (make_version env (ic_subject_id identity) now
              [(''coverage_key'', JStr (rc_coverage_key current)),
               (''supersedes'', JStr (uuid_str (rc_rule_clause_id current)))]
              (ve_version_number (rc_version current) + 1) (Some (ve_version_id (rc_version current)))) (\<lambda>v.
     let successor = current
       \<lparr>rc_rule_clause_id := new_id, rc_original_text := original_text,
        rc_structured_expression := expression,
        rc_supersedes_clause_id := Some (rc_rule_clause_id current),
        rc_lifecycle_state := RES_PUBLISHED, rc_validity_state := VAL_CURRENT,
        rc_confirmed_by := Some (ic_subject_id identity), rc_confirmed_at := Some now, rc_version := v\<rparr> in
     bindS (put_repo (upsert_clause successor)) (\<lambda>_.
     bindS (audited env identity ''rules.clause.supersede'' ''RuleClause'' new_id request_id
              ''RULE_CLAUSE_SUPERSEDED'' (validity_value VAL_CURRENT) (ve_version_id v)) (\<lambda>_.
     ret successor)))))))))"

definition resolve_unit :: "env \<Rightarrow> identity_context \<Rightarrow> uuid \<Rightarrow> bool \<Rightarrow> rule_resolution list fr01" where
  "resolve_unit env identity unit_id formal =
     bindS (require_unit identity unit_id) (\<lambda>_.
     bindS (get_repo (list_all_clauses_for_unit (ic_scope identity) unit_id)) (\<lambda>clauses.
     bindS (get_repo (list_rule_sets (ic_scope identity) unit_id)) (\<lambda>rule_sets.
     bindS (clock_now env) (\<lambda>now.
     ret (resolve_inherited_clauses clauses rule_sets now formal)))))"

section \<open>Compliance reviews\<close>

primrec COMPLIANCE_EDGES :: "compliance_review_state \<Rightarrow> compliance_review_state list" where
  "COMPLIANCE_EDGES CR_OPEN = [CR_BLOCKING, CR_ACCEPTED_FOR_SIMULATION, CR_RESOLVED, CR_CLOSED]"
| "COMPLIANCE_EDGES CR_BLOCKING = [CR_ACCEPTED_FOR_SIMULATION, CR_RESOLVED]"
| "COMPLIANCE_EDGES CR_ACCEPTED_FOR_SIMULATION = [CR_BLOCKING, CR_RESOLVED, CR_CLOSED]"
| "COMPLIANCE_EDGES CR_RESOLVED = [CR_CLOSED]"
| "COMPLIANCE_EDGES CR_CLOSED = []"

definition review_create ::
  "env \<Rightarrow> identity_context \<Rightarrow> uuid \<Rightarrow> string \<Rightarrow> bool \<Rightarrow> string \<Rightarrow> compliance_review fr01" where
  "review_create env identity unit_id finding blocking request_id =
     bindS require_writer (\<lambda>_.
     bindS (require_unit identity unit_id) (\<lambda>u.
     bindS (clock_now env) (\<lambda>now.
     let state = (if blocking then CR_BLOCKING else CR_OPEN) in
     bindS (uuid4 env) (\<lambda>new_id.
     bindS (make_version env (ic_subject_id identity) now [(''finding'', JStr finding)] 1 None) (\<lambda>v.
     let item =
       \<lparr>cr_compliance_review_id = new_id, cr_decision_unit_id = un_decision_unit_id u,
        cr_project_id = un_project_id u, cr_tenant_id = un_tenant_id u, cr_data_domain_id = un_data_domain_id u,
        cr_state = state, cr_finding = finding, cr_blocking = blocking, cr_version = v\<rparr> in
     bindS (checkS (review_valid item) ValidationError) (\<lambda>_.
     bindS (put_repo (upsert_review item)) (\<lambda>_.
     bindS (audited env identity ''rules.compliance.create'' ''ComplianceReview'' new_id request_id
              (review_value state) (review_value state) (ve_version_id v)) (\<lambda>_.
     ret item))))))))"

definition review_list :: "identity_context \<Rightarrow> uuid \<Rightarrow> compliance_review list fr01" where
  "review_list identity unit_id =
     bindS (require_unit identity unit_id) (\<lambda>_. get_repo (list_reviews (ic_scope identity) unit_id))"

definition review_get :: "identity_context \<Rightarrow> uuid \<Rightarrow> compliance_review fr01" where
  "review_get identity item_id = found (get_review (ic_scope identity) item_id)"

definition review_transition ::
  "env \<Rightarrow> identity_context \<Rightarrow> uuid \<Rightarrow> compliance_review_state \<Rightarrow> string \<Rightarrow> compliance_review fr01" where
  "review_transition env identity item_id target request_id =
     bindS require_writer (\<lambda>_.
     bindS (review_get identity item_id) (\<lambda>current.
     bindS (checkS (target \<in> set (COMPLIANCE_EDGES (cr_state current))) invalid_request) (\<lambda>_.
     bindS (checkS (\<not> (cr_state current = CR_BLOCKING \<and> target = CR_CLOSED)) invalid_request) (\<lambda>_.
     let updated = current\<lparr>cr_state := target, cr_blocking := (target = CR_BLOCKING)\<rparr> in
     bindS (put_repo (upsert_review updated)) (\<lambda>_.
     bindS (audited env identity ''rules.compliance.transition'' ''ComplianceReview''
              (cr_compliance_review_id updated) request_id (review_value target) (review_value target)
              (ve_version_id (cr_version updated))) (\<lambda>_.
     ret updated))))))"

section \<open>Cross-lot constraints\<close>

definition constraint_create ::
  "env \<Rightarrow> identity_context \<Rightarrow> uuid \<Rightarrow> uuid list \<Rightarrow> string \<Rightarrow> string \<Rightarrow> cross_lot_constraint fr01" where
  "constraint_create env identity unit_id related_unit_ids description request_id =
     bindS require_writer (\<lambda>_.
     bindS (require_unit identity unit_id) (\<lambda>u.
     bindS (clock_now env) (\<lambda>now.
     bindS (uuid4 env) (\<lambda>new_id.
     bindS (make_version env (ic_subject_id identity) now [(''description'', JStr description)] 1 None) (\<lambda>v.
     let item =
       \<lparr>cl_cross_lot_constraint_id = new_id, cl_decision_unit_id = un_decision_unit_id u,
        cl_project_id = un_project_id u, cl_tenant_id = un_tenant_id u, cl_data_domain_id = un_data_domain_id u,
        cl_related_unit_ids = related_unit_ids, cl_description = description, cl_confirmed = False,
        cl_confirmed_by = None, cl_confirmed_at = None, cl_version = v\<rparr> in
     bindS (checkS (constraint_valid item) ValidationError) (\<lambda>_.
     bindS (put_repo (upsert_constraint item)) (\<lambda>_.
     bindS (audited env identity ''rules.cross_lot.create'' ''CrossLotConstraint'' new_id request_id
              ''CROSS_LOT_DRAFT'' ''UNCONFIRMED'' (ve_version_id v)) (\<lambda>_.
     ret item))))))))"

definition constraint_list :: "identity_context \<Rightarrow> uuid \<Rightarrow> cross_lot_constraint list fr01" where
  "constraint_list identity unit_id =
     bindS (require_unit identity unit_id) (\<lambda>_. get_repo (list_constraints (ic_scope identity) unit_id))"

definition constraint_get :: "identity_context \<Rightarrow> uuid \<Rightarrow> cross_lot_constraint fr01" where
  "constraint_get identity item_id = found (get_constraint (ic_scope identity) item_id)"

definition constraint_confirm :: "env \<Rightarrow> identity_context \<Rightarrow> uuid \<Rightarrow> string \<Rightarrow> cross_lot_constraint fr01" where
  "constraint_confirm env identity item_id request_id =
     bindS require_writer (\<lambda>_.
     bindS (constraint_get identity item_id) (\<lambda>current.
     bindS (clock_now env) (\<lambda>now.
     let confirmed = current
       \<lparr>cl_confirmed := True, cl_confirmed_by := Some (ic_subject_id identity), cl_confirmed_at := Some now\<rparr> in
     bindS (put_repo (upsert_constraint confirmed)) (\<lambda>_.
     bindS (submit_after_intake env identity (cl_decision_unit_id current)
              (state_value PORTFOLIO_REVIEW_REQUIRED) ''cross-lot constraint confirmed''
              (Some (uuid_str (cl_cross_lot_constraint_id confirmed))) (Some ''PORTFOLIO_REVIEW_REQUIRED'')
              request_id) (\<lambda>_.
     bindS (emit_event env identity ''rules.cross_lot_constraint_confirmed.v1'' ''CrossLotConstraint''
              (cl_cross_lot_constraint_id confirmed)
              [(''cross_lot_constraint_id'', JStr (uuid_str (cl_cross_lot_constraint_id confirmed))),
               (''decision_unit_id'', JStr (uuid_str (cl_decision_unit_id confirmed))),
               (''related_unit_ids'', JArr (map (JStr \<circ> uuid_str) (cl_related_unit_ids confirmed)))]
              request_id (Some (cl_project_id confirmed)) (Some (cl_decision_unit_id confirmed))) (\<lambda>_.
     bindS (audited env identity ''rules.cross_lot.confirm'' ''CrossLotConstraint''
              (cl_cross_lot_constraint_id confirmed) request_id ''CROSS_LOT_CONFIRMED''
              ''PORTFOLIO_REVIEW_REQUIRED'' (ve_version_id (cl_version confirmed))) (\<lambda>_.
     ret confirmed)))))))"

end
