(* ===== verification/Fr01_Log.thy ===== *)
theory Fr01_Log
  imports Rules_Services
begin

text \<open>
  All state-changing calls of the project and rule services as one type, and the invariant that
  ties the lifecycle event log to the units: whatever calls are made, in whatever order and by
  whomever, the log of a unit replays from DRAFT to the state the unit is in.
\<close>

section \<open>Calls\<close>

datatype fr01_call =
    CreateProject identity_context project_fields string
  | UpdateProject identity_context uuid string project_patch string
  | ArchiveProject identity_context uuid string
  | CreateUnit identity_context uuid unit_fields string
  | UpdateUnit identity_context uuid string unit_patch string
  | Submit identity_context uuid submit_request
  | SubmitAfterIntake identity_context uuid string string "string option" "string option" string
  | CreateScope identity_context uuid scope_support round_kind bool "string list" "source_locator option"
      "string option" string
  | UpdateScope identity_context uuid string scope_patch string
  | PublishScope identity_context uuid string
  | CreateRegime identity_context uuid string procurement_mode evaluation_method round_kind
      "source_locator option" string
  | PublishRegime identity_context uuid string
  | CreateRuleSet identity_context uuid string rule_scope_level "timestamp option" "timestamp option" string
  | PublishRuleSet identity_context uuid string
  | CreateClause identity_context uuid rule_clause_kind string int string "string option" rat
      "source_locator option" string
  | UpdateClause identity_context uuid string clause_patch string
  | SupersedeClause identity_context uuid string "string option" string
  | CreateReview identity_context uuid string bool string
  | TransitionReview identity_context uuid compliance_review_state string
  | CreateConstraint identity_context uuid "uuid list" string string
  | ConfirmConstraint identity_context uuid string
  | ConsumeDocument "string \<Rightarrow> uuid option" "json \<Rightarrow> string" event_envelope

definition then_unit :: "'a fr01 \<Rightarrow> unit fr01" where
  "then_unit m = bindS m (\<lambda>_. ret ())"

primrec run_call :: "env \<Rightarrow> fr01_call \<Rightarrow> unit fr01" where
  "run_call env (CreateProject i f q) = then_unit (project_create env i f q)"
| "run_call env (UpdateProject i k m f q) = then_unit (project_update_draft env i k m f q)"
| "run_call env (ArchiveProject i k q) = then_unit (project_archive env i k q)"
| "run_call env (CreateUnit i k f q) = then_unit (unit_create env i k f q)"
| "run_call env (UpdateUnit i k m f q) = then_unit (unit_update_draft env i k m f q)"
| "run_call env (Submit i k q) = then_unit (submit env i k q)"
| "run_call env (SubmitAfterIntake i k c r b e q) = then_unit (submit_after_intake env i k c r b e q)"
| "run_call env (CreateScope i k s r x cs l a q) = then_unit (scope_create env i k s r x cs l a q)"
| "run_call env (UpdateScope i k m f q) = then_unit (scope_update_draft env i k m f q)"
| "run_call env (PublishScope i k q) = then_unit (scope_publish env i k q)"
| "run_call env (CreateRegime i k n p e r l q) = then_unit (regime_create env i k n p e r l q)"
| "run_call env (PublishRegime i k q) = then_unit (regime_publish env i k q)"
| "run_call env (CreateRuleSet i k t l a b q) = then_unit (rule_set_create env i k t l a b q)"
| "run_call env (PublishRuleSet i k q) = then_unit (rule_set_publish env i k q)"
| "run_call env (CreateClause i k d c p t e f l q) = then_unit (clause_create env i k d c p t e f l q)"
| "run_call env (UpdateClause i k m f q) = then_unit (clause_update_draft env i k m f q)"
| "run_call env (SupersedeClause i k t e q) = then_unit (clause_supersede env i k t e q)"
| "run_call env (CreateReview i k t b q) = then_unit (review_create env i k t b q)"
| "run_call env (TransitionReview i k t q) = then_unit (review_transition env i k t q)"
| "run_call env (CreateConstraint i k us t q) = then_unit (constraint_create env i k us t q)"
| "run_call env (ConfirmConstraint i k q) = then_unit (constraint_confirm env i k q)"
| "run_call env (ConsumeDocument f g e) = then_unit (consume f g e)"

text \<open>A history of calls; a call that raises leaves what it wrote.\<close>

primrec run_calls :: "env \<Rightarrow> fr01_call list \<Rightarrow> fr01_repo world \<Rightarrow> fr01_repo world" where
  "run_calls env [] w = w"
| "run_calls env (c # cs) w = run_calls env cs (snd (run_call env c w))"

lemma run_calls_keep:
  assumes "\<And>c. preserves P (run_call env c)" and "P w"
  shows "P (run_calls env cs w)"
  using assms(2) by (induction cs arbitrary: w) (auto intro: preservesD [OF assms(1)])

definition fresh_world :: "fr01_repo world \<Rightarrow> bool" where
  "fresh_world w \<longleftrightarrow> w_repo w = empty_fr01"

section \<open>Replaying a log\<close>

primrec replay :: "lifecycle_state \<Rightarrow> nat \<Rightarrow> lifecycle_event list \<Rightarrow> lifecycle_state option" where
  "replay s n [] = Some s"
| "replay s n (e # es) =
     (if lv_from_state e = s \<and> lv_sequence e = int n + 1 \<and>
         (if lv_reopened e
          then s \<in> set REOPEN_FROM \<and> lv_to_state e \<notin> set TERMINAL_STATES \<and>
               \<not> blank (lv_basis e) \<and> \<not> blank (lv_earliest_affected_stage e)
          else lv_to_state e \<in> set (allowed_targets s))
      then replay (lv_to_state e) (Suc n) es else None)"

lemma replay_append:
  "replay s n (es @ fs) = (case replay s n es of None \<Rightarrow> None | Some t \<Rightarrow> replay t (n + length es) fs)"
  by (induction es arbitrary: s n) (auto split: option.split)

lemma replay_numbers:
  "replay s n es \<noteq> None \<Longrightarrow> sorted (map lv_sequence es) \<and> (\<forall>e \<in> set es. int n < lv_sequence e)"
proof (induction es arbitrary: s n)
  case (Cons e es)
  then have "lv_sequence e = int n + 1" "replay (lv_to_state e) (Suc n) es \<noteq> None"
    by (simp_all split: if_splits)
  with Cons.IH [of "lv_to_state e" "Suc n"] show ?case by force
qed simp

lemma replay_sorted: "replay s n es = Some t \<Longrightarrow> sorted (map lv_sequence es)"
  using replay_numbers [of s n es] by simp

definition log_of :: "uuid \<Rightarrow> fr01_repo \<Rightarrow> lifecycle_event list" where
  "log_of k r = filter (\<lambda>e. lv_decision_unit_id e = k) (fr_events r)"

definition event_of_unit :: "lifecycle_event \<Rightarrow> decision_unit \<Rightarrow> bool" where
  "event_of_unit e u \<longleftrightarrow>
     lv_decision_unit_id e = un_decision_unit_id u \<and> lv_tenant_id e = un_tenant_id u \<and>
     lv_data_domain_id e = un_data_domain_id u \<and> lv_project_id e = un_project_id u"

section \<open>The invariant\<close>

definition issued :: "env \<Rightarrow> nat \<Rightarrow> uuid \<Rightarrow> bool" where
  "issued env n k \<longleftrightarrow> (\<exists>m < n. k = env_uuid env m)"

definition repo_log_ok :: "env \<Rightarrow> nat \<Rightarrow> fr01_repo \<Rightarrow> bool" where
  "repo_log_ok env n r \<longleftrightarrow>
     unit_store_ok r \<and>
     (\<forall>k u. dict_get (fr_units r) k = Some u \<longrightarrow>
        issued env n k \<and> replay DRAFT 0 (log_of k r) = Some (un_lifecycle_state u)) \<and>
     (\<forall>e \<in> set (fr_events r). \<exists>u. dict_get (fr_units r) (lv_decision_unit_id e) = Some u \<and> event_of_unit e u)"

text \<open>
  The invariant holds as long as the identifiers drawn so far are distinct, which is what
  \<open>uuid4\<close> promises.
\<close>

definition distinct_ids :: "env \<Rightarrow> 'r world \<Rightarrow> bool" where
  "distinct_ids env w \<longleftrightarrow> inj_on (env_uuid env) {..< w_uuids w}"

definition log_ok :: "env \<Rightarrow> fr01_repo world \<Rightarrow> bool" where
  "log_ok env w \<longleftrightarrow>
     unit_store_ok (w_repo w) \<and> (distinct_ids env w \<longrightarrow> repo_log_ok env (w_uuids w) (w_repo w))"

lemma distinct_ids_earlier: "distinct_ids env w' \<Longrightarrow> w_uuids w \<le> w_uuids w' \<Longrightarrow> distinct_ids env w"
  unfolding distinct_ids_def by (rule inj_on_subset) auto

lemma issued_mono: "issued env n k \<Longrightarrow> n \<le> n' \<Longrightarrow> issued env n' k"
  by (auto simp: issued_def intro: less_le_trans)

lemma repo_log_okD:
  assumes "repo_log_ok env n r"
  shows "unit_store_ok r"
    and "dict_get (fr_units r) k = Some u \<Longrightarrow> issued env n k"
    and "dict_get (fr_units r) k = Some u \<Longrightarrow> replay DRAFT 0 (log_of k r) = Some (un_lifecycle_state u)"
    and "e \<in> set (fr_events r) \<Longrightarrow>
      \<exists>u. dict_get (fr_units r) (lv_decision_unit_id e) = Some u \<and> event_of_unit e u"
  using assms unfolding repo_log_ok_def by blast+

lemma repo_log_okI:
  assumes "unit_store_ok r"
    and "\<And>k u. dict_get (fr_units r) k = Some u \<Longrightarrow> issued env n k"
    and "\<And>k u. dict_get (fr_units r) k = Some u \<Longrightarrow> replay DRAFT 0 (log_of k r) = Some (un_lifecycle_state u)"
    and "\<And>e. e \<in> set (fr_events r) \<Longrightarrow>
      \<exists>u. dict_get (fr_units r) (lv_decision_unit_id e) = Some u \<and> event_of_unit e u"
  shows "repo_log_ok env n r"
  using assms unfolding repo_log_ok_def by blast

text \<open>Operations that touch neither units nor events.\<close>

definition steady_to :: "fr01_repo world \<Rightarrow> fr01_repo world \<Rightarrow> bool" where
  "steady_to w w' \<longleftrightarrow>
     fr_units (w_repo w') = fr_units (w_repo w) \<and> fr_events (w_repo w') = fr_events (w_repo w) \<and>
     w_uuids w \<le> w_uuids w'"

definition steady :: "'a fr01 \<Rightarrow> bool" where
  "steady m \<longleftrightarrow> (\<forall>w. steady_to w (snd (m w)))"

lemma steady_to_refl [simp]: "steady_to w w"
  by (simp add: steady_to_def)

lemma steady_to_trans: "steady_to u v \<Longrightarrow> steady_to v w \<Longrightarrow> steady_to u w"
  by (auto simp: steady_to_def)

lemma quiet_steady: "quiet m \<Longrightarrow> steady m"
  by (simp add: quiet_def later_def steady_def steady_to_def)

lemma steady_bindS [intro]:
  assumes "steady m" and "\<And>x. steady (f x)"
  shows "steady (bindS m f)"
  unfolding steady_def
proof
  fix w
  obtain r w' where m: "m w = (r, w')" by (cases "m w")
  then have "steady_to w w'" using assms(1) by (metis steady_def snd_conv)
  moreover have "steady_to w' (snd (f x w'))" for x using assms(2) by (simp add: steady_def)
  ultimately show "steady_to w (snd (bindS m f w))"
    using m by (auto simp: bindS_def split: sum.split intro: steady_to_trans)
qed

lemma steady_if [intro]: "(c \<Longrightarrow> steady m) \<Longrightarrow> (\<not> c \<Longrightarrow> steady n) \<Longrightarrow> steady (if c then m else n)"
  by simp

lemma steady_case_option [intro]:
  "(x = None \<Longrightarrow> steady m) \<Longrightarrow> (\<And>y. x = Some y \<Longrightarrow> steady (f y)) \<Longrightarrow>
   steady (case x of None \<Rightarrow> m | Some y \<Rightarrow> f y)"
  by (cases x) simp_all

lemma steady_basic [intro!, simp]:
  "steady (ret x)" "steady (throw e)" "steady (liftE r)" "steady (checkS ok e)" "steady (get_repo g)"
  "steady (gets h)" "steady require_writer" "steady (clock_now env)" "steady (uuid4 env)"
  "steady (emit_event env identity ty aty aid payload rid pid uid)"
  by (simp_all add: quiet_steady)

lemma steady_audited [intro!, simp]: "steady (audited env i a t k q r o' v)"
  by (simp add: audited_def quiet_steady)

lemma steady_found [intro!, simp]: "steady (found f)"
  unfolding found_def by (intro steady_bindS steady_case_option) simp_all

lemma steady_require [intro!, simp]: "steady (require_unit i k)" "steady (require_project i k)"
  unfolding require_unit_def require_project_def by (intro steady_bindS; simp)+

lemma steady_make_version [intro!, simp]: "steady (make_version env a now p n s)"
  unfolding make_version_def Let_def by (intro steady_bindS) simp_all

lemma steady_put [intro!, simp]:
  "steady (put_repo (upsert_project p))" "steady (put_repo (upsert_scope s))"
  "steady (put_repo (upsert_regime g))" "steady (put_repo (upsert_rule_set t))"
  "steady (put_repo (upsert_clause c))" "steady (put_repo (upsert_review v))"
  "steady (put_repo (upsert_constraint l))" "steady (put_repo (upsert_document_ref d))"
  by (simp_all add: steady_def steady_to_def put_repo_def upsert_defs)

lemma steady_forS [intro]: "(\<And>x. steady (f x)) \<Longrightarrow> steady (forS xs f)"
  by (induction xs) auto

lemmas steady_rules = steady_bindS steady_if steady_case_option steady_forS

lemma steady_stale [simp]:
  "steady (stale_current_scopes i k)" "steady (stale_current_regimes i k)" "steady (stale_current_rule_sets i t)"
  unfolding stale_current_scopes_def stale_current_regimes_def stale_current_rule_sets_def Let_def
  by (intro steady_rules; simp)+

lemma steady_gets [simp]:
  "steady (scope_get i k)" "steady (regime_get i k)" "steady (rule_set_get i k)" "steady (clause_get i k)"
  "steady (review_get i k)" "steady (constraint_get i k)"
  unfolding scope_get_def regime_get_def rule_set_get_def clause_get_def review_get_def constraint_get_def
  by (intro steady_rules steady_found steady_basic)+

text \<open>
  A condition that survives steady operations and implies the invariant; and what can be done
  from such a condition.
\<close>

definition stable :: "env \<Rightarrow> (fr01_repo world \<Rightarrow> bool) \<Rightarrow> bool" where
  "stable env P \<longleftrightarrow> (\<forall>w w'. P w \<longrightarrow> steady_to w w' \<longrightarrow> P w') \<and> (\<forall>w. P w \<longrightarrow> log_ok env w)"

definition safe_from :: "env \<Rightarrow> (fr01_repo world \<Rightarrow> bool) \<Rightarrow> 'a fr01 \<Rightarrow> bool" where
  "safe_from env P m \<longleftrightarrow> (\<forall>w. P w \<longrightarrow> log_ok env (snd (m w)))"

lemma log_ok_steady:
  assumes ok: "log_ok env w" and "steady_to w w'"
  shows "log_ok env w'"
proof -
  let ?r = "w_repo w" and ?r' = "w_repo w'"
  have eqs: "fr_units ?r' = fr_units ?r" "fr_events ?r' = fr_events ?r" "w_uuids w \<le> w_uuids w'"
    using assms(2) by (simp_all add: steady_to_def)
  have stored: "unit_store_ok ?r'" using ok eqs by (simp add: log_ok_def unit_store_ok_def)
  show ?thesis
    unfolding log_ok_def
  proof (intro conjI impI, rule stored)
    assume "distinct_ids env w'"
    then have "repo_log_ok env (w_uuids w) ?r"
      using ok distinct_ids_earlier [OF _ eqs(3)] by (simp add: log_ok_def)
    note D = repo_log_okD [OF this]
    show "repo_log_ok env (w_uuids w') ?r'"
    proof (rule repo_log_okI, rule stored)
      show "issued env (w_uuids w') k" if "dict_get (fr_units ?r') k = Some u" for k u
        using issued_mono [OF D(2) eqs(3)] that eqs by simp
      show "replay DRAFT 0 (log_of k ?r') = Some (un_lifecycle_state u)"
        if "dict_get (fr_units ?r') k = Some u" for k u
        using D(3) that eqs by (simp add: log_of_def)
      show "\<exists>u. dict_get (fr_units ?r') (lv_decision_unit_id e) = Some u \<and> event_of_unit e u"
        if "e \<in> set (fr_events ?r')" for e
        using D(4) that eqs by simp
    qed
  qed
qed

lemma stable_log_ok [simp]: "stable env (log_ok env)"
  using log_ok_steady by (auto simp: stable_def)

lemma preserves_safe: "preserves (log_ok env) m \<longleftrightarrow> safe_from env (log_ok env) m"
  by (simp add: preserves_def safe_from_def)

lemma safe_steady: "stable env P \<Longrightarrow> steady m \<Longrightarrow> safe_from env P m"
  by (auto simp: stable_def steady_def safe_from_def)

lemma safe_weaken: "safe_from env (log_ok env) m \<Longrightarrow> stable env P \<Longrightarrow> safe_from env P m"
  by (auto simp: stable_def safe_from_def)

lemma safe_bind:
  assumes "stable env P" and "steady m" and "\<And>x. safe_from env P (f x)"
  shows "safe_from env P (bindS m f)"
  unfolding safe_from_def
proof (intro allI impI)
  fix w
  assume P: "P w"
  obtain r w' where m: "m w = (r, w')" by (cases "m w")
  then have "steady_to w w'" using assms(2) by (metis steady_def snd_conv)
  then have P': "P w'" using P assms(1) by (auto simp: stable_def)
  then have "log_ok env w'" using assms(1) by (auto simp: stable_def)
  then show "log_ok env (snd (bindS m f w))"
    using m P' assms(3) by (auto simp: bindS_def safe_from_def split: sum.split)
qed

lemma safe_bind_liftE:
  assumes "stable env P" and "\<And>x. r = Inr x \<Longrightarrow> safe_from env P (f x)"
  shows "safe_from env P (bindS (liftE r) f)"
  using assms by (cases r) (auto simp: stable_def safe_from_def bindS_def)

lemma safe_bind_checkS:
  assumes "stable env P" and "ok \<Longrightarrow> safe_from env P (f ())"
  shows "safe_from env P (bindS (checkS ok e) f)"
  using assms by (auto simp: stable_def safe_from_def bindS_def checkS_def)

text \<open>Two operations that each keep the invariant.\<close>

lemma safe_then:
  assumes "safe_from env P m" and "\<And>x. safe_from env (log_ok env) (f x)"
  shows "safe_from env P (bindS m f)"
  unfolding safe_from_def
proof (intro allI impI)
  fix w
  assume "P w"
  then have "log_ok env (snd (m w))" using assms(1) by (simp add: safe_from_def)
  then show "log_ok env (snd (bindS m f w))"
    using assms(2) by (cases "m w"; cases "fst (m w)") (auto simp: bindS_def safe_from_def)
qed

section \<open>Units\<close>

definition unit_there :: "env \<Rightarrow> tenant_scope \<Rightarrow> decision_unit \<Rightarrow> fr01_repo world \<Rightarrow> bool" where
  "unit_there env scope u w \<longleftrightarrow>
     log_ok env w \<and> dict_get (fr_units (w_repo w)) (un_decision_unit_id u) = Some u \<and> unit_visible scope u"

definition id_free :: "env \<Rightarrow> uuid \<Rightarrow> fr01_repo world \<Rightarrow> bool" where
  "id_free env k w \<longleftrightarrow>
     log_ok env w \<and>
     (distinct_ids env w \<longrightarrow> dict_get (fr_units (w_repo w)) k = None) \<and> issued env (w_uuids w) k"

lemma stable_unit_there [simp]: "stable env (unit_there env scope u)"
  using log_ok_steady by (auto simp: stable_def unit_there_def steady_to_def)

lemma stable_id_free [simp]: "stable env (id_free env k)"
  using log_ok_steady by (auto simp: stable_def id_free_def steady_to_def intro: issued_mono dest: distinct_ids_earlier)

lemma safe_require_unit:
  assumes "\<And>u. un_decision_unit_id u = k \<Longrightarrow> safe_from env (unit_there env (ic_scope identity) u) (f u)"
  shows "safe_from env (log_ok env) (bindS (require_unit identity k) f)"
  unfolding safe_from_def
proof (intro allI impI)
  fix w
  assume ok: "log_ok env w"
  show "log_ok env (snd (bindS (require_unit identity k) f w))"
  proof (cases "fst (require_unit identity k w)")
    case (Inl e)
    have "steady_to w (snd (require_unit identity k w))" using steady_require(1) by (simp add: steady_def)
    with ok have "log_ok env (snd (require_unit identity k w))" by (rule log_ok_steady)
    with Inl show ?thesis by (cases "require_unit identity k w") (simp add: bindS_def)
  next
    case (Inr u)
    then have run: "require_unit identity k w = (Inr u, w)" and get: "get_unit (ic_scope identity) k (w_repo w) = Some u"
      by (auto simp: require_unit_def found_def get_repo_def bindS_def split: prod.splits sum.splits option.splits)
    have "unit_store_ok (w_repo w)" using ok by (simp add: log_ok_def)
    then have u: "un_decision_unit_id u = k" "unit_visible (ic_scope identity) u"
      using units.get_sound [OF _ get] by auto
    have "dict_get (fr_units (w_repo w)) k = Some u"
      using get by (auto simp: get_unit_def stored_def split: option.splits if_splits)
    with ok u have "unit_there env (ic_scope identity) u w" by (simp add: unit_there_def)
    with assms [OF u(1)] show ?thesis by (simp add: run bindS_def safe_from_def)
  qed
qed

text \<open>Writing a copy of the unit that keeps its identity and its state.\<close>

definition same_unit :: "decision_unit \<Rightarrow> decision_unit \<Rightarrow> bool" where
  "same_unit u u' \<longleftrightarrow>
     un_decision_unit_id u' = un_decision_unit_id u \<and> un_tenant_id u' = un_tenant_id u \<and>
     un_data_domain_id u' = un_data_domain_id u \<and> un_project_id u' = un_project_id u"

lemma log_ok_put_unit:
  assumes there: "unit_there env scope u w" and same: "same_unit u u'"
    and es: "\<And>e. e \<in> set es \<Longrightarrow> event_of_unit e u"
    and log: "distinct_ids env w \<Longrightarrow>
      replay DRAFT 0 (log_of (un_decision_unit_id u) (w_repo w) @ es) = Some (un_lifecycle_state u')"
  shows "log_ok env (w\<lparr>w_repo := upsert_unit u' ((w_repo w)\<lparr>fr_events := fr_events (w_repo w) @ es\<rparr>)\<rparr>)"
proof -
  let ?k = "un_decision_unit_id u" and ?r = "w_repo w"
  let ?r' = "upsert_unit u' (?r\<lparr>fr_events := fr_events ?r @ es\<rparr>)"
  have k: "un_decision_unit_id u' = ?k" using same by (simp add: same_unit_def)
  have u: "dict_get (fr_units ?r) ?k = Some u" and ok: "log_ok env w"
    using there by (auto simp: unit_there_def)
  have units: "dict_get (fr_units ?r') j = (if j = ?k then Some u' else dict_get (fr_units ?r) j)" for j
    using k by (simp add: upsert_unit_def)
  have ids: "lv_decision_unit_id e = ?k" if "e \<in> set es" for e using es [OF that] by (simp add: event_of_unit_def)
  then have logs: "log_of j ?r' = (if j = ?k then log_of j ?r @ es else log_of j ?r)" for j
    by (auto simp: log_of_def upsert_unit_def filter_id_conv filter_empty_conv)
  have moved: "event_of_unit e u \<Longrightarrow> event_of_unit e u'" for e
    using same by (simp add: event_of_unit_def same_unit_def)
  have stored: "unit_store_ok ?r'"
    using ok by (simp add: log_ok_def unit_store_ok_def upsert_unit_def keyed_set)
  have "repo_log_ok env (w_uuids w) ?r'" if distinct: "distinct_ids env w"
  proof (rule repo_log_okI, rule stored)
    from ok distinct have "repo_log_ok env (w_uuids w) ?r" by (simp add: log_ok_def)
    note D = repo_log_okD [OF this]
    show "issued env (w_uuids w) j" if "dict_get (fr_units ?r') j = Some v" for j v
      using that D(2) u unfolding units by (auto split: if_splits)
    show "replay DRAFT 0 (log_of j ?r') = Some (un_lifecycle_state v)"
      if "dict_get (fr_units ?r') j = Some v" for j v
      using that D(3) log [OF distinct] unfolding units logs by (auto split: if_splits)
    show "\<exists>v. dict_get (fr_units ?r') (lv_decision_unit_id e) = Some v \<and> event_of_unit e v"
      if "e \<in> set (fr_events ?r')" for e
    proof (cases "e \<in> set es")
      case True
      then show ?thesis using es ids moved unfolding units by auto
    next
      case False
      with that have "e \<in> set (fr_events ?r)" by (simp add: upsert_unit_def)
      with D(4) obtain v where "dict_get (fr_units ?r) (lv_decision_unit_id e) = Some v" "event_of_unit e v"
        by blast
      then show ?thesis using u moved unfolding units by auto
    qed
  qed
  then show ?thesis using stored by (simp add: log_ok_def distinct_ids_def)
qed

lemma safe_put_unit:
  assumes "same_unit u u'" and "un_lifecycle_state u' = un_lifecycle_state u"
  shows "safe_from env (unit_there env scope u) (put_repo (upsert_unit u'))"
  unfolding safe_from_def
proof (intro allI impI)
  fix w
  assume there: "unit_there env scope u w"
  then have "replay DRAFT 0 (log_of (un_decision_unit_id u) (w_repo w) @ []) = Some (un_lifecycle_state u')"
    if "distinct_ids env w"
    using that assms(2) repo_log_okD(3) by (auto simp: unit_there_def log_ok_def)
  from log_ok_put_unit [OF there assms(1) _ this]
  show "log_ok env (snd (put_repo (upsert_unit u') w))" by (simp add: put_repo_def)
qed

lemma safe_create_unit:
  assumes "un_decision_unit_id u = k" and "un_lifecycle_state u = DRAFT"
  shows "safe_from env (id_free env k) (put_repo (upsert_unit u))"
  unfolding safe_from_def
proof (intro allI impI)
  fix w
  assume free: "id_free env k w"
  let ?r = "w_repo w" and ?r' = "upsert_unit u (w_repo w)"
  have stored: "unit_store_ok ?r'"
    using free by (simp add: id_free_def log_ok_def unit_store_ok_def upsert_unit_def keyed_set)
  have units: "dict_get (fr_units ?r') j = (if j = k then Some u else dict_get (fr_units ?r) j)" for j
    using assms(1) by (simp add: upsert_unit_def)
  have same: "log_of j ?r' = log_of j ?r" for j by (simp add: log_of_def upsert_unit_def)
  have "repo_log_ok env (w_uuids w) ?r'" if distinct: "distinct_ids env w"
  proof (rule repo_log_okI, rule stored)
    have ok: "repo_log_ok env (w_uuids w) ?r" and none: "dict_get (fr_units ?r) k = None" and new: "issued env (w_uuids w) k"
      using free distinct by (auto simp: id_free_def log_ok_def)
    note D = repo_log_okD [OF ok]
    have other: "lv_decision_unit_id e \<noteq> k" if "e \<in> set (fr_events ?r)" for e
      using D(4) [OF that] none by auto
    then have empty: "log_of k ?r = []" by (simp add: log_of_def filter_empty_conv)
    show "issued env (w_uuids w) j" if "dict_get (fr_units ?r') j = Some v" for j v
      using that D(2) new unfolding units by (auto split: if_splits)
    show "replay DRAFT 0 (log_of j ?r') = Some (un_lifecycle_state v)"
      if "dict_get (fr_units ?r') j = Some v" for j v
      using that D(3) empty assms(2) unfolding units same by (auto split: if_splits)
    show "\<exists>v. dict_get (fr_units ?r') (lv_decision_unit_id e) = Some v \<and> event_of_unit e v"
      if "e \<in> set (fr_events ?r')" for e
    proof -
      have e: "e \<in> set (fr_events ?r)" using that by (simp add: upsert_unit_def)
      show ?thesis using D(4) [OF e] other [OF e] unfolding units by simp
    qed
  qed
  with stored show "log_ok env (snd (put_repo (upsert_unit u) w))"
    by (simp add: log_ok_def put_repo_def distinct_ids_def)
qed

lemma safe_uuid4:
  assumes "\<And>k. safe_from env (id_free env k) (f k)"
  shows "safe_from env (log_ok env) (bindS (uuid4 env) f)"
  unfolding safe_from_def
proof (intro allI impI)
  fix w
  assume ok: "log_ok env w"
  let ?k = "env_uuid env (w_uuids w)" and ?w = "w\<lparr>w_uuids := w_uuids w + 1\<rparr>"
  have later: "steady_to w ?w" by (simp add: steady_to_def)
  have "dict_get (fr_units (w_repo w)) ?k = None" if distinct: "distinct_ids env ?w"
  proof (rule ccontr)
    assume "dict_get (fr_units (w_repo w)) ?k \<noteq> None"
    moreover have "repo_log_ok env (w_uuids w) (w_repo w)"
      using ok distinct_ids_earlier [OF distinct, of w] by (simp add: log_ok_def)
    ultimately obtain m where "m < w_uuids w" "?k = env_uuid env m"
      using repo_log_okD(2) by (fastforce simp: issued_def)
    with distinct show False by (auto simp: distinct_ids_def dest: inj_onD)
  qed
  with log_ok_steady [OF ok later] have "id_free env ?k ?w" by (auto simp: id_free_def issued_def)
  with assms show "log_ok env (snd (bindS (uuid4 env) f w))"
    by (simp add: bindS_def uuid4_def safe_from_def)
qed

section \<open>Submitting\<close>

lemma listed_log:
  assumes "unit_there env scope u w" and "distinct_ids env w"
  shows "list_lifecycle_events scope (un_decision_unit_id u) (w_repo w) = log_of (un_decision_unit_id u) (w_repo w)"
proof -
  let ?k = "un_decision_unit_id u" and ?r = "w_repo w"
  have ok: "repo_log_ok env (w_uuids w) ?r" and u: "dict_get (fr_units ?r) ?k = Some u" and vis: "unit_visible scope u"
    using assms by (auto simp: unit_there_def log_ok_def)
  have "event_visible scope e" if "e \<in> set (fr_events ?r)" "lv_decision_unit_id e = ?k" for e
  proof -
    from repo_log_okD(4) [OF ok that(1)] that(2) u have "event_of_unit e u" by auto
    then show ?thesis using vis by (simp add: event_visible_def unit_visible_def event_of_unit_def)
  qed
  then have "filter (\<lambda>e. lv_decision_unit_id e = ?k \<and> event_visible scope e) (fr_events ?r) = log_of ?k ?r"
    unfolding log_of_def by (intro filter_cong) auto
  then show ?thesis
    using replay_sorted [OF repo_log_okD(3) [OF ok u]] by (simp add: list_lifecycle_events_def sort_key_id_if_sorted)
qed

lemma steady_announce [simp]: "steady (announce env i u q e)"
  unfolding announce_def by (intro steady_bindS) simp_all

lemma stableD: "stable env P \<Longrightarrow> P w \<Longrightarrow> steady_to w w' \<Longrightarrow> P w'"
  by (auto simp: stable_def)

lemma safe_record_transition:
  assumes res: "resolve_transition (un_lifecycle_state u) (su_command q) resume = Inr (next_state, reopened)"
    and reason: "\<not> (reopened \<and> (blank (su_basis q) \<or> blank (su_earliest_affected_stage q)))"
  shows "safe_from env (unit_there env (ic_scope i) u) (record_transition env i u q now next_state reopened)"
  unfolding safe_from_def
proof (intro allI impI)
  fix w
  assume there: "unit_there env (ic_scope i) u w"
  let ?k = "un_decision_unit_id u" and ?w = "w\<lparr>w_uuids := w_uuids w + 1\<rparr>"
  define log where "log = list_lifecycle_events (ic_scope i) ?k (w_repo w)"
  define event where "event = make_event i u q (env_uuid env (w_uuids w)) now (length log) next_state reopened"
  define u' where "u' = u\<lparr>un_lifecycle_state := next_state\<rparr>"
  let ?w' = "?w\<lparr>w_repo := upsert_unit u' (append_lifecycle_event event (w_repo w))\<rparr>"
  have there': "unit_there env (ic_scope i) u ?w"
    by (rule stableD [OF stable_unit_there there]) (simp add: steady_to_def)
  have before: "log_of ?k (w_repo w) = log \<and> replay DRAFT 0 log = Some (un_lifecycle_state u)"
    if "distinct_ids env w"
    using that there repo_log_okD(3) listed_log [OF there that] by (auto simp: unit_there_def log_ok_def log_def)
  have legal: "replay (un_lifecycle_state u) (length log) [event] = Some next_state"
  proof (cases reopened)
    case True
    with res resolve_reopened have "un_lifecycle_state u \<in> set REOPEN_FROM" "next_state \<notin> set TERMINAL_STATES"
      by auto
    with True reason show ?thesis by (simp add: event_def make_event_def)
  next
    case False
    with res resolve_ordinary have "next_state \<in> set (allowed_targets (un_lifecycle_state u))" by auto
    with False show ?thesis by (simp add: event_def make_event_def)
  qed
  have "log_ok env (?w\<lparr>w_repo := upsert_unit u' ((w_repo ?w)\<lparr>fr_events := fr_events (w_repo ?w) @ [event]\<rparr>)\<rparr>)"
  proof (rule log_ok_put_unit [OF there'])
    show "same_unit u u'" by (simp add: same_unit_def u'_def)
    show "event_of_unit e u" if "e \<in> set [event]" for e
      using that by (simp add: event_of_unit_def event_def make_event_def)
    show "replay DRAFT 0 (log_of (un_decision_unit_id u) (w_repo ?w) @ [event]) = Some (un_lifecycle_state u')"
      if "distinct_ids env ?w"
      using before [OF distinct_ids_earlier [OF that]] legal by (simp add: replay_append u'_def)
  qed
  then have "log_ok env ?w'" by (simp add: append_lifecycle_event_def)
  then have "log_ok env (snd (announce env i u q event ?w'))"
    using log_ok_steady steady_announce by (simp add: steady_def)
  moreover have "log_ok env ?w" using there' by (simp add: unit_there_def)
  ultimately show "log_ok env (snd (record_transition env i u q now next_state reopened w))"
    by (simp add: record_transition_def bindS_apply get_repo_def log_def [symmetric] uuid4_def Let_def checkS_apply put_repo_def
        event_def [symmetric] u'_def [symmetric])
qed

lemma safe_submit: "safe_from env (log_ok env) (submit env i k q)"
  unfolding submit_def
proof (rule safe_bind [OF stable_log_ok steady_basic(7)], rule safe_require_unit)
  fix u :: decision_unit
  note stable = stable_unit_there [of env "ic_scope i" u]
  show "safe_from env (unit_there env (ic_scope i) u)
    (bindS (liftE (resume_of (su_resume_state q))) (\<lambda>resume.
     bindS (liftE (resolve_transition (un_lifecycle_state u) (su_command q) resume)) (\<lambda>(next_state, reopened).
     bindS (checkS (\<not> (reopened \<and> (blank (su_basis q) \<or> blank (su_earliest_affected_stage q)))) invalid_request) (\<lambda>_.
     bindS (clock_now env) (\<lambda>now.
     record_transition env i u q now next_state reopened)))))"
  proof (intro safe_bind_liftE [OF stable])
    fix resume and r :: "lifecycle_state \<times> bool"
    assume "resolve_transition (un_lifecycle_state u) (su_command q) resume = Inr r"
    then show "safe_from env (unit_there env (ic_scope i) u)
      (case r of (next_state, reopened) \<Rightarrow>
         bindS (checkS (\<not> (reopened \<and> (blank (su_basis q) \<or> blank (su_earliest_affected_stage q)))) invalid_request) (\<lambda>_.
         bindS (clock_now env) (\<lambda>now.
         record_transition env i u q now next_state reopened)))"
      by (cases r) (auto intro!: safe_bind_checkS [OF stable] safe_bind [OF stable] safe_record_transition)
  qed
qed

section \<open>Every call keeps the invariant\<close>

lemma safe_if: "(c \<Longrightarrow> safe_from env P m) \<Longrightarrow> (\<not> c \<Longrightarrow> safe_from env P n) \<Longrightarrow> safe_from env P (if c then m else n)"
  by simp

lemma safe_ret: "stable env P \<Longrightarrow> safe_from env P (ret x)"
  by (simp add: safe_steady)

lemma steady_list_events [simp]: "steady (list_events i k c l cd)"
  unfolding list_events_def by (intro steady_bindS) simp_all

lemma safe_submit_after_intake: "safe_from env (log_ok env) (submit_after_intake env i k c r b e q)"
  unfolding submit_after_intake_def
  by (intro safe_bind safe_if safe_then [OF safe_submit] safe_then safe_submit safe_ret stable_log_ok)
    (auto split: prod.split intro!: safe_ret)

text \<open>Calls that write neither units nor events.\<close>

lemma steady_calls:
  "steady (project_create env i pf q)" "steady (project_update_draft env i k m pp q)" "steady (project_archive env i k q)"
  "steady (scope_create env i k s r x cs l a q)" "steady (scope_update_draft env i k m sp q)"
  "steady (regime_create env i k n pm em r l q)" "steady (rule_set_create env i k n lev ef et q)"
  "steady (clause_create env i k kd ck p t ex cf l q)" "steady (clause_update_draft env i k m cp q)"
  "steady (clause_supersede env i k t ex q)" "steady (review_create env i k t bl q)"
  "steady (review_transition env i k st q)" "steady (constraint_create env i k us t q)"
  "steady (consume f g ev)"
  unfolding project_create_def project_update_draft_def project_archive_def scope_create_def
    scope_update_draft_def regime_create_def rule_set_create_def clause_create_def clause_update_draft_def
    clause_supersede_def review_create_def review_transition_def constraint_create_def consume_def Let_def
  by (intro steady_rules steady_basic steady_require steady_put steady_make_version steady_audited
      steady_found steady_gets)+

text \<open>Calls that write a unit.\<close>

lemmas safe_steps = safe_bind [OF stable_log_ok] safe_require_unit

lemma safe_unit_create:
  shows "safe_from env (log_ok env) (unit_create env i k f q)"
  unfolding unit_create_def Let_def
  by (intro safe_steps safe_uuid4 safe_bind [OF stable_id_free] safe_then safe_create_unit
      safe_ret stable_log_ok) simp_all

lemma same_unit_updates [simp]:
  "same_unit u (u\<lparr>un_current_scope_assessment_id := a\<rparr>)" "same_unit u (u\<lparr>un_current_regime_id := a\<rparr>)"
  "same_unit u (u\<lparr>un_current_rule_set_id := a\<rparr>)"
  "same_unit u (u\<lparr>un_name := n, un_lot_code := c, un_timezone := z, un_budget := b, un_price_ceiling := p,
     un_deadline_at := d, un_cross_unit_group_id := g, un_version := v\<rparr>)"
  by (simp_all add: same_unit_def)

lemma safe_unit_update: "safe_from env (log_ok env) (unit_update_draft env i k m f q)"
  unfolding unit_update_draft_def Let_def
  by (intro safe_steps safe_bind [OF stable_unit_there] safe_then safe_put_unit safe_ret stable_log_ok) simp_all

lemma safe_scope_publish: "safe_from env (log_ok env) (scope_publish env i k q)"
  unfolding scope_publish_def Let_def
  by (intro safe_steps safe_then safe_put_unit safe_ret stable_log_ok)
    (auto intro!: safe_then safe_submit_after_intake safe_ret split: option.split)

lemma safe_regime_publish: "safe_from env (log_ok env) (regime_publish env i k q)"
  unfolding regime_publish_def Let_def
  by (intro safe_steps safe_then safe_put_unit safe_ret stable_log_ok) simp_all

lemma safe_rule_set_publish: "safe_from env (log_ok env) (rule_set_publish env i k q)"
  unfolding rule_set_publish_def Let_def
  by (intro safe_steps safe_then safe_put_unit safe_ret stable_log_ok steady_forS) simp_all

lemma safe_constraint_confirm: "safe_from env (log_ok env) (constraint_confirm env i k q)"
  unfolding constraint_confirm_def Let_def
  by (intro safe_steps safe_then [OF safe_submit_after_intake] safe_ret stable_log_ok) simp_all

lemma safe_then_unit: "safe_from env (log_ok env) m \<Longrightarrow> safe_from env (log_ok env) (then_unit m)"
  unfolding then_unit_def by (intro safe_then safe_ret stable_log_ok)

lemma calls_keep_log:
  shows "preserves (log_ok env) (run_call env c)"
  unfolding preserves_safe
  by (cases c)
    (simp_all only: run_call.simps safe_then_unit safe_steady [OF stable_log_ok] steady_calls
      safe_unit_create safe_unit_update safe_submit safe_submit_after_intake safe_scope_publish
      safe_regime_publish safe_rule_set_publish safe_constraint_confirm)

end
