(* ===== verification/Runs.thy ===== *)
theory Runs
  imports World
begin

text \<open>
  Symbolic execution of service operations that succeed: the repository, the identifiers and the
  clock readings they leave, whatever the audit sink holds.
\<close>

section \<open>Symbolic execution\<close>

text \<open>
  \<open>runs env m r n t x r' n' t'\<close>: with the audit sink available, its chains verified and no
  outbox, from the repository \<open>r\<close> after \<open>n\<close> identifiers and \<open>t\<close> clock readings, the
  operation returns \<open>x\<close> and leaves \<open>r'\<close>, \<open>n'\<close> and \<open>t'\<close>.
\<close>

definition standing :: "env \<Rightarrow> 'r \<Rightarrow> nat \<Rightarrow> nat \<Rightarrow> 'r world \<Rightarrow> bool" where
  "standing env r n t w \<longleftrightarrow>
     audit_ok env w \<and> ms_available (w_audit w) \<and> w_outbox w = NO_OUTBOX \<and>
     w_repo w = r \<and> w_uuids w = n \<and> w_ticks w = t"

definition runs :: "env \<Rightarrow> ('r world, 'a) svc \<Rightarrow> 'r \<Rightarrow> nat \<Rightarrow> nat \<Rightarrow> 'a \<Rightarrow> 'r \<Rightarrow> nat \<Rightarrow> nat \<Rightarrow> bool" where
  "runs env m r n t x r' n' t' \<longleftrightarrow>
     (\<forall>w. standing env r n t w \<longrightarrow> (\<exists>w'. m w = (Inr x, w') \<and> standing env r' n' t' w'))"

lemma runs_bind:
  "runs env m r n t x r' n' t' \<Longrightarrow> runs env (f x) r' n' t' y r'' n'' t'' \<Longrightarrow>
   runs env (bindS m f) r n t y r'' n'' t''"
  unfolding runs_def by (fastforce simp: bindS_def)

lemma runs_ret: "runs env (ret x) r n t x r n t"
  by (simp add: runs_def)

lemma runs_liftE: "y = Inr x \<Longrightarrow> runs env (liftE y) r n t x r n t"
  by (simp add: runs_def)

lemma runs_checkS: "ok \<Longrightarrow> runs env (checkS ok e) r n t () r n t"
  by (simp add: runs_def checkS_def)

lemma runs_get: "runs env (get_repo f) r n t (f r) r n t"
  by (simp add: runs_def get_repo_def standing_def)

lemma runs_put: "runs env (put_repo f) r n t () (f r) n t"
  by (simp add: runs_def put_repo_def standing_def)

lemma runs_clock: "runs env (clock_now env') r n t (env_clock env' t) r n (t + 1)"
  by (simp add: runs_def clock_now_def standing_def audit_ok_def)

lemma runs_uuid4: "runs env (uuid4 env') r n t (env_uuid env' n) r (n + 1) t"
  by (simp add: runs_def uuid4_def standing_def)

lemma runs_require_writer: "runs env require_writer r n t () r n t"
  by (simp add: runs_def require_writer_def bindS_apply require_audit_def guardE_def standing_def)

lemma runs_emit_event: "runs env (emit_event env' i ty aty aid payload rid pid uid) r n t () r n t"
  by (simp add: runs_def emit_event_def bindS_apply standing_def)

text \<open>The audit event is not needed to know what follows.\<close>

lemma write_audit_succeeds:
  assumes sha: "digest_ok (env_sha env)" and st: "standing env r n t w"
  shows "\<exists>e w'. write_audit env request w = (Inr e, w') \<and> standing env r (n + 1) (t + 1) w'"
proof -
  let ?m = "audit_write (env_sha env) (env_isofmt env) memory_ops (env_uuid env (w_uuids w)) (env_clock env (w_ticks w)) request (w_audit w)"
  have ok: "chains_verify (env_sha env) (env_isofmt env) memory_ops (w_audit w)" and avail: "sink_available memory_ops (w_audit w)"
    using st by (auto simp: standing_def audit_ok_def memory_ops_def)
  obtain h where h: "verify_hash_chain (env_sha env) (env_isofmt env)
      (sink_list_events memory_ops (w_audit w) (ic_scope (ar_identity request))) = Inr h"
    using ok by (auto simp: chains_verify_def)
  from memory.write_extends_chain [OF avail sha h] obtain e s' where
    m: "?m = (Inr e, s')" and s': "sink_available memory_ops s'" by blast
  have "chains_verify (env_sha env) (env_isofmt env) memory_ops s'"
    using memory.write_chains_verify [OF sha ok, of _ _ request] m by (metis snd_conv)
  then show ?thesis
    using m s' st
    by (simp add: write_audit_def standing_def audit_ok_def memory_ops_def)
qed

lemma runs_write_audit:
  assumes "digest_ok (env_sha env)" and "runs env m r (n + 1) (t + 1) x r' n' t'"
  shows "runs env (bindS (write_audit env request) (\<lambda>_. m)) r n t x r' n' t'"
  unfolding runs_def
proof (intro allI impI)
  fix w
  assume "standing env r n t w"
  from write_audit_succeeds [OF assms(1) this, of request] obtain e w' where
    "write_audit env request w = (Inr e, w')" "standing env r (n + 1) (t + 1) w'"
    by blast
  with assms(2) show "\<exists>w''. bindS (write_audit env request) (\<lambda>_. m) w = (Inr x, w'') \<and> standing env r' n' t' w''"
    by (simp add: runs_def bindS_apply)
qed

lemma runs_audited:
  "digest_ok (env_sha env) \<Longrightarrow> runs env m r (n + 1) (t + 1) x r' n' t' \<Longrightarrow>
   runs env (bindS (audited env i a ty k q rc oc v) (\<lambda>_. m)) r n t x r' n' t'"
  unfolding audited_def by (rule runs_write_audit)

end
