(* ===== verification/Fr01_Guarantees.thy ===== *)
theory Fr01_Guarantees
  imports Fr01_Log Runs
begin

text \<open>
  What the project and rule services guarantee over any history of calls: the lifecycle log,
  approval before submission, the audit trail, separation of duties, and what they do not.
\<close>

section \<open>Symbolic execution\<close>

lemma runs_found: "f r = Some x \<Longrightarrow> runs env (found f) r n t x r n t"
  by (simp add: runs_def found_def get_repo_def bindS_apply standing_def)

lemma runs_version:
  assumes "digest_ok (env_sha env)" and "k \<ge> 1"
  shows "runs env (make_version env a now payload k s) r n t
    \<lparr>ve_version_id = env_uuid env n, ve_version_number = k, ve_created_at = now, ve_created_by = a,
     ve_content_hash = canonical_hash (env_sha env) payload, ve_supersedes_version_id = s\<rparr> r (n + 1) t"
  unfolding make_version_def Let_def
  by (rule runs_bind [OF runs_uuid4 runs_bind [OF runs_checkS runs_ret]])
    (use assms in \<open>simp add: version_valid_def canonical_hash_def\<close>)

text \<open>A handler that succeeds, run as one of the calls.\<close>

lemma runs_then_unit: "runs env m r n t x r' n' t' \<Longrightarrow> runs env (then_unit m) r n t () r' n' t'"
  unfolding then_unit_def by (rule runs_bind [OF _ runs_ret])

lemma runs_calls:
  "runs env (run_call env c) r n t () r' n' t' \<Longrightarrow> standing env r n t w \<Longrightarrow> standing env r' n' t' (snd (run_call env c w))"
  by (fastforce simp: runs_def)

lemma runs_require_unit:
  assumes "own_scope i None (Some k) = Inr ()" and "get_unit (ic_scope i) k r = Some u"
  shows "runs env (require_unit i k) r n t u r n t"
  unfolding require_unit_def
  by (rule runs_bind [OF runs_liftE [OF assms(1)] runs_found [where f = "get_unit (ic_scope i) k", OF assms(2)]])

lemma runs_require_project:
  assumes "own_scope i (Some k) None = Inr ()" and "get_project (ic_scope i) k r = Some p"
  shows "runs env (require_project i k) r n t p r n t"
  unfolding require_project_def
  by (rule runs_bind [OF runs_liftE [OF assms(1)] runs_found [where f = "get_project (ic_scope i) k", OF assms(2)]])

section \<open>What succeeding calls leave\<close>

definition new_version :: "env \<Rightarrow> identity_context \<Rightarrow> (string \<times> json) list \<Rightarrow> nat \<Rightarrow> timestamp \<Rightarrow> version_metadata" where
  "new_version env i payload n now =
     \<lparr>ve_version_id = env_uuid env n, ve_version_number = 1, ve_created_at = now, ve_created_by = ic_subject_id i,
      ve_content_hash = canonical_hash (env_sha env) payload, ve_supersedes_version_id = None\<rparr>"

definition new_project :: "env \<Rightarrow> identity_context \<Rightarrow> project_fields \<Rightarrow> nat \<Rightarrow> nat \<Rightarrow> procurement_project" where
  "new_project env i f n t =
     \<lparr>pj_project_id = env_uuid env n, pj_tenant_id = sc_tenant_id (ic_scope i),
      pj_data_domain_id = sc_data_domain_id (ic_scope i), pj_name = pf_name f,
      pj_purchaser_name = pf_purchaser_name f, pj_timezone = pf_timezone f, pj_budget = pf_budget f,
      pj_price_ceiling = pf_price_ceiling f, pj_deadline_at = pf_deadline_at f,
      pj_cross_unit_group_id = pf_cross_unit_group_id f, pj_notes = pf_notes f, pj_lifecycle_state = RES_DRAFT,
      pj_validity_state = VAL_CURRENT,
      pj_version = new_version env i (project_payload env f) (n + 1) (env_clock env t),
      pj_archived_at = None, pj_archived_by = None\<rparr>"

definition new_unit ::
  "env \<Rightarrow> identity_context \<Rightarrow> procurement_project \<Rightarrow> unit_fields \<Rightarrow> nat \<Rightarrow> nat \<Rightarrow> decision_unit" where
  "new_unit env i p f n t =
     \<lparr>un_decision_unit_id = env_uuid env n, un_project_id = pj_project_id p,
      un_tenant_id = sc_tenant_id (ic_scope i), un_data_domain_id = sc_data_domain_id (ic_scope i),
      un_name = uf_name f, un_lot_code = uf_lot_code f, un_timezone = uf_timezone f, un_budget = uf_budget f,
      un_price_ceiling = uf_price_ceiling f, un_deadline_at = uf_deadline_at f,
      un_cross_unit_group_id = keep (uf_cross_unit_group_id f) (pj_cross_unit_group_id p),
      un_lifecycle_state = DRAFT, un_resource_lifecycle = RES_DRAFT, un_validity_state = VAL_CURRENT,
      un_version = new_version env i
        [(''name'', JStr (uf_name f)), (''lot_code'', jopt JStr (uf_lot_code f)), (''timezone'', JStr (uf_timezone f))]
        (n + 1) (env_clock env t),
      un_current_scope_assessment_id = None, un_current_regime_id = None, un_current_rule_set_id = None,
      un_gap_summary = Some GAP_SUMMARY\<rparr>"

lemma own_scope_any [simp]: "own_scope i None None = Inr ()"
  by (simp add: own_scope_def Let_def scope_covers_def)

lemma runs_new_version:
  assumes "digest_ok (env_sha env)"
  shows "runs env (make_version env (ic_subject_id i) now payload 1 None) r n t (new_version env i payload n now) r (n + 1) t"
  unfolding new_version_def by (rule runs_version [OF assms]) simp

lemma runs_project_create:
  assumes sha: "digest_ok (env_sha env)" and valid: "project_valid (new_project env i f n t)"
  shows "runs env (project_create env i f q) r n t (new_project env i f n t)
    (upsert_project (new_project env i f n t) r) (n + 1 + 1 + 1) (t + 1 + 1)"
  unfolding project_create_def Let_def
  by (rule runs_bind [OF runs_require_writer], rule runs_bind [OF runs_liftE [OF own_scope_any]],
      rule runs_bind [OF runs_clock], rule runs_bind [OF runs_uuid4], rule runs_bind [OF runs_new_version [OF sha]],
      fold new_project_def, rule runs_bind [OF runs_checkS [OF valid]], rule runs_bind [OF runs_put],
      rule runs_audited [OF sha], rule runs_ret)

lemma runs_unit_create:
  assumes sha: "digest_ok (env_sha env)" and "own_scope i (Some k) None = Inr ()"
    and "get_project (ic_scope i) k r = Some p" and valid: "unit_valid (new_unit env i p f n t)"
  shows "runs env (unit_create env i k f q) r n t (new_unit env i p f n t)
    (upsert_unit (new_unit env i p f n t) r) (n + 1 + 1 + 1) (t + 1 + 1)"
  unfolding unit_create_def Let_def
  by (rule runs_bind [OF runs_require_writer], rule runs_bind [OF runs_require_project [OF assms(2,3)]],
      rule runs_bind [OF runs_clock], rule runs_bind [OF runs_uuid4], rule runs_bind [OF runs_new_version [OF sha]],
      fold new_unit_def, rule runs_bind [OF runs_checkS [OF valid]], rule runs_bind [OF runs_put],
      rule runs_audited [OF sha], rule runs_ret)

text \<open>An accepted command: the event is appended with the next number and the unit follows it.\<close>

definition accepted_event ::
  "env \<Rightarrow> identity_context \<Rightarrow> decision_unit \<Rightarrow> submit_request \<Rightarrow> fr01_repo \<Rightarrow> nat \<Rightarrow> nat \<Rightarrow> lifecycle_state \<Rightarrow> bool \<Rightarrow>
   lifecycle_event" where
  "accepted_event env i u q r n t next_state reopened =
     make_event i u q (env_uuid env n) (env_clock env t)
       (length (list_lifecycle_events (ic_scope i) (un_decision_unit_id u) r)) next_state reopened"

lemma runs_submit:
  assumes sha: "digest_ok (env_sha env)" and "own_scope i None (Some k) = Inr ()"
    and "get_unit (ic_scope i) k r = Some u" and "resume_of (su_resume_state q) = Inr resume"
    and "resolve_transition (un_lifecycle_state u) (su_command q) resume = Inr (next_state, reopened)"
    and "\<not> (reopened \<and> (blank (su_basis q) \<or> blank (su_earliest_affected_stage q)))"
    and valid: "lifecycle_event_valid (accepted_event env i u q r n t next_state reopened)"
  shows "runs env (submit env i k q) r n t (accepted_event env i u q r n t next_state reopened)
    (upsert_unit (u\<lparr>un_lifecycle_state := next_state\<rparr>)
       (append_lifecycle_event (accepted_event env i u q r n t next_state reopened) r)) (n + 1 + 1) (t + 1 + 1)"
  unfolding submit_def
  by (rule runs_bind [OF runs_require_writer], rule runs_bind [OF runs_require_unit [OF assms(2,3)]],
      rule runs_bind [OF runs_liftE [OF assms(4)]], rule runs_bind [OF runs_liftE [OF assms(5)]],
      unfold prod.case, rule runs_bind [OF runs_checkS [OF assms(6)]], rule runs_bind [OF runs_clock],
      unfold record_transition_def Let_def, rule runs_bind [OF runs_get], rule runs_bind [OF runs_uuid4],
      fold accepted_event_def, rule runs_bind [OF runs_checkS [OF valid]], rule runs_bind [OF runs_put],
      rule runs_bind [OF runs_put], unfold announce_def, rule runs_bind [OF runs_emit_event],
      rule runs_audited [OF sha], rule runs_ret)

section \<open>A sample history\<close>

definition sample_env :: env where
  "sample_env = \<lparr>env_sha = sample_sha, env_isofmt = print_int, env_uuid = (\<lambda>n. of_nat (n + 100)), env_clock = int\<rparr>"

definition sample_world :: "fr01_repo world" where
  "sample_world = \<lparr>w_repo = empty_fr01, w_audit = \<lparr>ms_events = [], ms_available = True\<rparr>, w_outbox = NO_OUTBOX,
     w_uuids = 0, w_ticks = 0\<rparr>"

definition wide_identity :: "uuid \<Rightarrow> identity_context" where
  "wide_identity subject = sample_identity
     \<lparr>ic_subject_id := subject, ic_scope := sample_scope\<lparr>sc_all_projects := True, sc_all_decision_units := True\<rparr>\<rparr>"

definition sample_project_fields :: project_fields where
  "sample_project_fields = \<lparr>pf_name = ''road'', pf_purchaser_name = ''city'', pf_timezone = ''UTC'', pf_budget = None,
     pf_price_ceiling = None, pf_deadline_at = None, pf_cross_unit_group_id = None, pf_notes = None\<rparr>"

definition sample_unit_fields :: unit_fields where
  "sample_unit_fields = \<lparr>uf_name = ''lot'', uf_lot_code = None, uf_timezone = ''UTC'', uf_budget = None,
     uf_price_ceiling = None, uf_deadline_at = None, uf_cross_unit_group_id = None\<rparr>"

definition sample_submit :: "string \<Rightarrow> submit_request" where
  "sample_submit command = \<lparr>su_command = command, su_reason = ''go'', su_basis = None,
     su_earliest_affected_stage = None, su_resume_state = None, su_request_id = ''req-1''\<rparr>"

text \<open>A project, a unit and one lifecycle command.\<close>

definition sample_project_1 :: procurement_project where
  "sample_project_1 = new_project sample_env (wide_identity 5) sample_project_fields 0 0"

definition sample_unit_1 :: decision_unit where
  "sample_unit_1 = new_unit sample_env (wide_identity 5) sample_project_1 sample_unit_fields 3 2"

text \<open>A project, a unit and one lifecycle command.\<close>

definition sample_calls :: "fr01_call list" where
  "sample_calls =
     [CreateProject (wide_identity 5) sample_project_fields ''req-1'',
      CreateUnit (wide_identity 5) 100 sample_unit_fields ''req-1'',
      Submit (wide_identity 5) 103 (sample_submit '' documents_parsing '')]"

lemma sample_env_sha [simp]: "digest_ok (env_sha sample_env)"
  by (simp add: sample_env_def)

lemma wide_scope [simp]: "own_scope (wide_identity s) pid uid = Inr ()"
  by (simp add: own_scope_def Let_def wide_identity_def scope_covers_def)

lemmas sample_defs = sample_project_1_def sample_unit_1_def new_project_def new_unit_def new_version_def
  sample_project_fields_def sample_unit_fields_def sample_env_def wide_identity_def sample_identity_def sample_scope_def

lemma sample_facts:
  "pj_project_id sample_project_1 = 100" "un_decision_unit_id sample_unit_1 = 103"
  "un_lifecycle_state sample_unit_1 = DRAFT" "un_project_id sample_unit_1 = 100"
  "project_visible (ic_scope (wide_identity 5)) sample_project_1" "unit_visible (ic_scope (wide_identity 5)) sample_unit_1"
  by (simp_all add: sample_defs project_visible_def unit_visible_def scope_ok_def)

lemma sample_texts:
  "text_between 0 2000 GAP_SUMMARY" "text_between 1 200 ''road''" "text_between 1 200 ''city''"
  "text_between 1 200 ''lot''" "text_between 1 64 ''UTC''" "text_between 1 80 ''DOCUMENTS_PARSING''"
  "text_between 1 2000 ''go''"
  using char_count_le [of GAP_SUMMARY]
  by (simp_all add: text_between_def [of 0] GAP_SUMMARY_def text_between_ascii del: One_nat_def)

lemma sample_command: "upper (strip '' documents_parsing '') = ''DOCUMENTS_PARSING''"
  by code_simp

lemma sample_valid: "project_valid sample_project_1" "unit_valid sample_unit_1"
  by (simp_all add: sample_defs project_valid_def unit_valid_def optional_def timezone_ok_def sample_texts
      del: One_nat_def)

lemma sample_world_standing: "standing sample_env empty_fr01 0 0 sample_world"
  by (simp add: standing_def sample_world_def audit_ok_def fresh_chains_verify)

definition sample_event_1 :: lifecycle_event where
  "sample_event_1 =
     make_event (wide_identity 5) sample_unit_1 (sample_submit '' documents_parsing '') 106 4 0 DOCUMENTS_PARSING False"

lemma sample_event_1_valid: "lifecycle_event_valid sample_event_1"
  by (simp add: sample_event_1_def make_event_def lifecycle_event_valid_def sample_submit_def optional_def
      sample_texts sample_command del: One_nat_def)

abbreviation sample_repo_2 :: fr01_repo where
  "sample_repo_2 \<equiv> upsert_unit sample_unit_1 (upsert_project sample_project_1 empty_fr01)"

lemma sample_unit_found: "get_unit (ic_scope (wide_identity 5)) 103 sample_repo_2 = Some sample_unit_1"
  by (simp add: get_unit_def stored_def upsert_unit_def sample_facts)

lemma sample_created: "standing sample_env sample_repo_2 6 4 (run_calls sample_env (take 2 sample_calls) sample_world)"
proof -
  let ?i = "wide_identity 5" and ?r1 = "upsert_project sample_project_1 empty_fr01"
  have 1: "runs sample_env (run_call sample_env (sample_calls ! 0)) empty_fr01 0 0 () ?r1 3 2"
    using runs_then_unit [OF runs_project_create [of sample_env ?i sample_project_fields 0 0 "''req-1''" empty_fr01]]
      sample_valid(1)
    by (simp add: sample_calls_def sample_project_1_def numeral_3_eq_3 numeral_2_eq_2)
  have p: "get_project (ic_scope ?i) 100 ?r1 = Some sample_project_1"
    by (simp add: get_project_def stored_def upsert_project_def empty_fr01_def sample_facts)
  have 2: "runs sample_env (run_call sample_env (sample_calls ! 1)) ?r1 3 2 () sample_repo_2 6 4"
    using runs_then_unit [OF runs_unit_create [of sample_env ?i 100 ?r1 sample_project_1 sample_unit_fields 3 2 "''req-1''"]]
      sample_valid(2) p
    by (simp add: sample_calls_def sample_unit_1_def)
  show ?thesis
    using runs_calls [OF 2 runs_calls [OF 1 sample_world_standing]]
    by (simp add: sample_calls_def numeral_2_eq_2)
qed

lemma sample_run:
  "standing sample_env
     (upsert_unit (sample_unit_1\<lparr>un_lifecycle_state := DOCUMENTS_PARSING\<rparr>)
       (append_lifecycle_event sample_event_1 sample_repo_2)) 8 6 (run_calls sample_env sample_calls sample_world)"
proof -
  let ?i = "wide_identity 5" and ?q = "sample_submit '' documents_parsing ''"
  have t: "resolve_transition DRAFT '' documents_parsing '' None = Inr (DOCUMENTS_PARSING, False)"
    by code_simp
  have e: "accepted_event sample_env ?i sample_unit_1 ?q sample_repo_2 6 4 DOCUMENTS_PARSING False = sample_event_1"
    by (simp add: accepted_event_def sample_event_1_def sample_env_def list_lifecycle_events_def upsert_unit_def
        upsert_project_def empty_fr01_def)
  have 3: "runs sample_env (run_call sample_env (Submit ?i 103 ?q)) sample_repo_2 6 4 ()
      (upsert_unit (sample_unit_1\<lparr>un_lifecycle_state := DOCUMENTS_PARSING\<rparr>)
        (append_lifecycle_event sample_event_1 sample_repo_2)) 8 6"
    using runs_then_unit [OF runs_submit [of sample_env ?i 103 sample_repo_2 sample_unit_1 ?q
        None DOCUMENTS_PARSING False 6 4]] sample_unit_found t e sample_event_1_valid
    by (simp add: sample_submit_def resume_of_def blank_def sample_facts)
  show ?thesis using runs_calls [OF 3 sample_created] by (simp add: sample_calls_def numeral_2_eq_2)
qed

section \<open>The lifecycle log\<close>

lemma log_ok_fresh: "fresh_world w \<Longrightarrow> log_ok env w"
  by (simp add: fresh_world_def log_ok_def repo_log_ok_def empty_fr01_def unit_store_ok_def)

lemma history_log:
  assumes "fresh_world w" and ids: "distinct_ids env (run_calls env cs w)"
    and u: "get_unit scope k (w_repo (run_calls env cs w)) = Some u"
  shows "replay DRAFT 0 (list_lifecycle_events scope k (w_repo (run_calls env cs w))) = Some (un_lifecycle_state u)"
proof -
  let ?w = "run_calls env cs w"
  have ok: "log_ok env ?w"
    using calls_keep_log log_ok_fresh [OF assms(1)] by (rule run_calls_keep)
  then have "unit_store_ok (w_repo ?w)" by (simp add: log_ok_def)
  from units.get_sound [OF this u] have k: "un_decision_unit_id u = k" "unit_visible scope u" by auto
  have "dict_get (fr_units (w_repo ?w)) k = Some u"
    using u by (auto simp: get_unit_def stored_def split: option.splits if_splits)
  with ok k have there: "unit_there env scope u ?w" by (simp add: unit_there_def)
  have "repo_log_ok env (w_uuids ?w) (w_repo ?w)" using ok ids by (simp add: log_ok_def)
  from repo_log_okD(3) [OF this \<open>dict_get (fr_units (w_repo ?w)) k = Some u\<close>] listed_log [OF there ids] k
  show ?thesis by simp
qed

lemma replay_sequence_numbers:
  "replay s n es = Some t \<Longrightarrow> map lv_sequence es = map (\<lambda>j. int (n + j) + 1) [0 ..< length es]"
proof (induction es arbitrary: t rule: rev_induct)
  case (snoc e es)
  then obtain t' where "replay s n es = Some t'" and "replay t' (n + length es) [e] = Some t"
    by (auto simp: replay_append split: option.splits)
  with snoc.IH show ?case by (auto split: if_splits)
qed simp

text \<open>
  C15. The lifecycle log tells the truth: after any history of calls to the project and rule
  services by any callers, in which the fresh identifiers are distinct, the events listed for a
  unit are numbered one, two, three and so on, each is a legal step (reopening with its basis
  and stage), and replaying them from DRAFT ends in the state the unit is stored with.
\<close>

theorem lifecycle_log_replays:
  assumes "fresh_world w" and "distinct_ids env (run_calls env cs w)"
    and "get_unit scope k (w_repo (run_calls env cs w)) = Some u"
  shows "replay DRAFT 0 (list_lifecycle_events scope k (w_repo (run_calls env cs w))) = Some (un_lifecycle_state u) \<and>
    map lv_sequence (list_lifecycle_events scope k (w_repo (run_calls env cs w))) =
      map (\<lambda>j. int j + 1) [0 ..< length (list_lifecycle_events scope k (w_repo (run_calls env cs w)))]"
  using history_log [OF assms] replay_sequence_numbers [OF history_log [OF assms]] by simp

section \<open>Driving a unit through its lifecycle\<close>

fun ordinary_chain :: "lifecycle_state \<Rightarrow> lifecycle_state list \<Rightarrow> bool" where
  "ordinary_chain s [] \<longleftrightarrow> True"
| "ordinary_chain s (t # ts) \<longleftrightarrow> t \<in> set (allowed_targets s) \<and> ordinary_chain t ts"

definition drive :: "identity_context \<Rightarrow> uuid \<Rightarrow> lifecycle_state list \<Rightarrow> fr01_call list" where
  "drive i k ts = map (\<lambda>t. Submit i k (sample_submit (state_value t))) ts"

lemma state_value_fits: "text_between 1 80 (state_value s)"
  by (rule text_between_ascii; cases s) simp_all

lemma drive_event_valid:
  "lifecycle_event_valid (accepted_event env i u (sample_submit (state_value t)) r n m t False)"
  by (simp add: accepted_event_def make_event_def lifecycle_event_valid_def sample_submit_def optional_def
      sample_texts upper_strip_state_value state_value_fits del: One_nat_def)

lemma unit_visible_state [simp]: "unit_visible scope (u\<lparr>un_lifecycle_state := s\<rparr>) = unit_visible scope u"
  by (simp add: unit_visible_def)

lemma driven:
  assumes sha: "digest_ok (env_sha env)" and own: "own_scope i None (Some k) = Inr ()"
  shows "ordinary_chain (un_lifecycle_state u) ts \<Longrightarrow> unit_store_ok r \<Longrightarrow> get_unit (ic_scope i) k r = Some u \<Longrightarrow>
    standing env r n m w \<Longrightarrow>
    \<exists>r'. standing env r' (n + 2 * length ts) (m + 2 * length ts) (run_calls env (drive i k ts) w) \<and>
      get_unit (ic_scope i) k r' = Some (u\<lparr>un_lifecycle_state := last (un_lifecycle_state u # ts)\<rparr>) \<and>
      (\<forall>e \<in> set (fr_events r'). e \<in> set (fr_events r) \<or> \<not> lv_reopened e)"
proof (induction ts arbitrary: u r n m w)
  case Nil
  then show ?case by (auto simp: drive_def)
next
  case (Cons t ts)
  let ?q = "sample_submit (state_value t)"
  let ?e = "accepted_event env i u ?q r n m t False" and ?u = "u\<lparr>un_lifecycle_state := t\<rparr>"
  let ?r = "upsert_unit ?u (append_lifecycle_event ?e r)"
  have t: "t \<in> set (allowed_targets (un_lifecycle_state u))" and rest: "ordinary_chain t ts"
    using Cons.prems(1) by simp_all
  have k: "un_decision_unit_id u = k" "unit_visible (ic_scope i) u"
    using units.get_sound [OF Cons.prems(2,3)] by simp_all
  have "runs env (run_call env (Submit i k ?q)) r n m () ?r (n + 1 + 1) (m + 1 + 1)"
    unfolding run_call.simps
    by (rule runs_then_unit, rule runs_submit [OF sha own Cons.prems(3)])
      (simp_all add: sample_submit_def [of "state_value t"] resume_of_def blank_def resolve_allowed [OF t]
        drive_event_valid [unfolded sample_submit_def])
  from runs_calls [OF this Cons.prems(4)]
  have st: "standing env ?r (n + 1 + 1) (m + 1 + 1) (snd (run_call env (Submit i k ?q) w))" .
  have "unit_store_ok (append_lifecycle_event ?e r)"
    using Cons.prems(2) by (simp add: unit_store_ok_def append_lifecycle_event_def)
  then have ok: "unit_store_ok ?r" by (rule units.put_ok)
  have get: "get_unit (ic_scope i) k ?r = Some ?u" using k by (simp add: units.get_put)
  have events: "fr_events ?r = fr_events r @ [?e]" "\<not> lv_reopened ?e"
    by (simp_all add: upsert_unit_def append_lifecycle_event_def accepted_event_def make_event_def)
  from Cons.IH [of ?u ?r, OF _ ok get st] rest obtain r' where
    "standing env r' (n + 1 + 1 + 2 * length ts) (m + 1 + 1 + 2 * length ts)
      (run_calls env (drive i k ts) (snd (run_call env (Submit i k ?q) w)))"
    "get_unit (ic_scope i) k r' = Some (?u\<lparr>un_lifecycle_state := last (t # ts)\<rparr>)"
    "\<forall>e \<in> set (fr_events r'). e \<in> set (fr_events ?r) \<or> \<not> lv_reopened e"
    by auto
  then show ?case using events by (intro exI [of _ r']) (auto simp: drive_def)
qed

text \<open>
  C17. Every legal path can be taken: while the audit sink is available, a caller whose scope
  covers the unit drives it through any sequence of states in which each is an allowed target of
  the one before, by submitting their names one after the other; the unit ends in the last one.
\<close>

theorem lifecycle_can_be_driven:
  assumes "digest_ok (env_sha env)" and "own_scope i None (Some k) = Inr ()"
    and "ordinary_chain (un_lifecycle_state u) ts" and "unit_store_ok r" and "get_unit (ic_scope i) k r = Some u"
    and "standing env r n m w"
  shows "map_option un_lifecycle_state (get_unit (ic_scope i) k (w_repo (run_calls env (drive i k ts) w))) =
    Some (last (un_lifecycle_state u # ts))"
  using driven [OF assms] by (auto simp: standing_def)

section \<open>Approval before submission\<close>

lemma replay_path:
  "replay s n es = Some t \<Longrightarrow> \<forall>e \<in> set es. \<not> lv_reopened e \<Longrightarrow> lifecycle_path s (map lv_to_state es) t"
  by (induction es arbitrary: s n) (auto split: if_splits intro: path_done path_allowed)

text \<open>
  C16. Submission needs approval, for the services: after any history of calls, a unit whose
  submission is authorised or that is awarded, and that was never reopened, has in its event log
  the readiness, the computation, the recommendation review, the eligibility assessment with an
  eligible outcome, the frozen approval package and the pending approval.
\<close>

theorem authorised_units_were_approved:
  assumes "fresh_world w" and "distinct_ids env (run_calls env cs w)"
    and "get_unit scope k (w_repo (run_calls env cs w)) = Some u"
    and goal: "un_lifecycle_state u \<in> {SUBMISSION_AUTHORIZED, AWARDED}"
    and never: "\<forall>e \<in> set (list_lifecycle_events scope k (w_repo (run_calls env cs w))). \<not> lv_reopened e"
  shows "{STRATEGY_READINESS_PENDING, COMPUTING, RECOMMENDATION_REVIEW, ELIGIBILITY_PENDING,
      APPROVAL_PACKAGE_FROZEN, APPROVAL_PENDING}
      \<subseteq> lv_to_state ` set (list_lifecycle_events scope k (w_repo (run_calls env cs w))) \<and>
    {ELIGIBLE, ELIGIBLE_WITH_ACCEPTED_RISK, ELIGIBLE_WITH_CONDITIONS}
      \<inter> lv_to_state ` set (list_lifecycle_events scope k (w_repo (run_calls env cs w))) \<noteq> {}"
  using milestones_passed [OF replay_path [OF history_log [OF assms(1-3)] never] _ goal] by simp

section \<open>A history that reaches the authorised submission\<close>

lemma sample_ids: "n \<le> 1000 \<Longrightarrow> w_uuids w = n \<Longrightarrow> distinct_ids sample_env w"
proof -
  assume n: "n \<le> 1000" "w_uuids w = n"
  have small: "unat (of_nat j :: uuid) = j" if "j < 2000" for j :: nat
    using that by (simp add: unsigned_of_nat take_bit_eq_mod)
  have "a = b" if "a < n" "b < n" "(of_nat (a + 100) :: uuid) = of_nat (b + 100)" for a b
  proof -
    have "a + 100 < 2000" "b + 100 < 2000" using that n by simp_all
    then have "a + 100 = b + 100" using small that(3) by metis
    then show ?thesis by simp
  qed
  then show ?thesis using n by (auto simp: distinct_ids_def inj_on_def sample_env_def)
qed

definition authorising_calls :: "fr01_call list" where
  "authorising_calls =
     take 2 sample_calls @ drive (wide_identity 5) 103 (REWORK # shortest_authorisation)"

lemma run_calls_append: "run_calls env (cs @ ds) w = run_calls env ds (run_calls env cs w)"
  by (induction cs arbitrary: w) simp_all

lemma shortest_chain: "ordinary_chain DRAFT (REWORK # shortest_authorisation)"
  by code_simp

lemma authorising_end:
  "\<exists>r. standing sample_env r 26 24 (run_calls sample_env authorising_calls sample_world) \<and>
     get_unit (ic_scope (wide_identity 5)) 103 r = Some (sample_unit_1\<lparr>un_lifecycle_state := SUBMISSION_AUTHORIZED\<rparr>) \<and>
     (\<forall>e \<in> set (fr_events r). \<not> lv_reopened e)"
proof -
  have stored: "unit_store_ok sample_repo_2"
    by (intro units.put_ok) (simp add: unit_store_ok_def upsert_project_def empty_fr01_def)
  have chain: "ordinary_chain (un_lifecycle_state sample_unit_1) (REWORK # shortest_authorisation)"
    using shortest_chain by (simp add: sample_facts del: ordinary_chain.simps)
  have "fr_events sample_repo_2 = []" by (simp add: upsert_unit_def upsert_project_def empty_fr01_def)
  then show ?thesis
    using driven [OF sample_env_sha wide_scope chain stored sample_unit_found sample_created]
    by (auto simp: authorising_calls_def run_calls_append shortest_authorisation_def)
qed

theorem lifecycle_log_replays_witness:
  "replay DRAFT 0 (list_lifecycle_events (ic_scope (wide_identity 5)) 103
     (w_repo (run_calls sample_env sample_calls sample_world))) = Some DOCUMENTS_PARSING"
proof -
  let ?w = "run_calls sample_env sample_calls sample_world"
  have "get_unit (ic_scope (wide_identity 5)) 103 (w_repo ?w) = Some (sample_unit_1\<lparr>un_lifecycle_state := DOCUMENTS_PARSING\<rparr>)"
    using sample_run by (simp add: standing_def units.get_put sample_facts)
  moreover have "distinct_ids sample_env ?w" using sample_run sample_ids [of 8 ?w] by (simp add: standing_def)
  moreover have "fresh_world sample_world" by (simp add: fresh_world_def sample_world_def)
  ultimately show ?thesis using lifecycle_log_replays by fastforce
qed

theorem lifecycle_can_be_driven_witness:
  "map_option un_lifecycle_state (get_unit (ic_scope (wide_identity 5)) 103
     (w_repo (run_calls sample_env (drive (wide_identity 5) 103 (REWORK # shortest_authorisation))
       (run_calls sample_env (take 2 sample_calls) sample_world)))) = Some SUBMISSION_AUTHORIZED"
proof -
  have stored: "unit_store_ok sample_repo_2"
    by (intro units.put_ok) (simp add: unit_store_ok_def upsert_project_def empty_fr01_def)
  have chain: "ordinary_chain (un_lifecycle_state sample_unit_1) (REWORK # shortest_authorisation)"
    using shortest_chain by (simp add: sample_facts del: ordinary_chain.simps)
  show ?thesis
    using lifecycle_can_be_driven [OF sample_env_sha wide_scope chain stored sample_unit_found sample_created]
    by (simp add: shortest_authorisation_def)
qed

theorem authorised_units_were_approved_witness:
  "APPROVAL_PENDING \<in> lv_to_state ` set (list_lifecycle_events (ic_scope (wide_identity 5)) 103
     (w_repo (run_calls sample_env authorising_calls sample_world)))"
proof -
  let ?w = "run_calls sample_env authorising_calls sample_world"
  obtain r where r: "standing sample_env r 26 24 ?w"
    "get_unit (ic_scope (wide_identity 5)) 103 r = Some (sample_unit_1\<lparr>un_lifecycle_state := SUBMISSION_AUTHORIZED\<rparr>)"
    "\<forall>e \<in> set (fr_events r). \<not> lv_reopened e"
    using authorising_end by blast
  then have repo: "w_repo ?w = r" and "distinct_ids sample_env ?w"
    using sample_ids [of 26 ?w] by (simp_all add: standing_def)
  moreover have "fresh_world sample_world" by (simp add: fresh_world_def sample_world_def)
  moreover have "\<forall>e \<in> set (list_lifecycle_events (ic_scope (wide_identity 5)) 103 (w_repo ?w)). \<not> lv_reopened e"
    using r(3) repo by (simp add: list_lifecycle_events_def)
  ultimately show ?thesis
    using authorised_units_were_approved [of sample_world sample_env authorising_calls "ic_scope (wide_identity 5)" 103] r(2)
    by simp
qed

end
