(* ===== verification/Fr01_Trail.thy ===== *)
theory Fr01_Trail
  imports Fr01_Guarantees
begin

text \<open>
  The audit trail of the project and rule services: the chains stay verifiable, a successful
  change ends with the audit event of its action, and without the audit sink nothing changes.
\<close>

section \<open>Every call keeps the chains verifiable\<close>

lemma chains_found [simp]: "preserves (audit_ok env) (found f)"
  unfolding found_def by (intro preserves_bindS preserves_case_option) simp_all

lemma chains_require [simp]:
  "preserves (audit_ok env) (require_unit i k)" "preserves (audit_ok env) (require_project i k)"
  unfolding require_unit_def require_project_def by (intro preserves_bindS; simp)+

lemma chains_version [simp]: "preserves (audit_ok env) (make_version env' a now p n s)"
  unfolding make_version_def Let_def by (intro preserves_bindS) simp_all

lemma chains_audited [simp]: "digest_ok (env_sha env) \<Longrightarrow> preserves (audit_ok env) (audited env i a t k q rc oc v)"
  by (simp add: audited_def)

lemma chains_gets [simp]:
  "preserves (audit_ok env) (scope_get i k)" "preserves (audit_ok env) (regime_get i k)"
  "preserves (audit_ok env) (rule_set_get i k)" "preserves (audit_ok env) (clause_get i k)"
  "preserves (audit_ok env) (review_get i k)" "preserves (audit_ok env) (constraint_get i k)"
  "preserves (audit_ok env) (list_events i k c l cd)"
  unfolding scope_get_def regime_get_def rule_set_get_def clause_get_def review_get_def constraint_get_def list_events_def
  by (intro preserves_bindS chains_found; simp)+

lemmas chain_rules = preserves_bindS preserves_if preserves_case_option preserves_forS preserves_case_prod

lemma chains_stale [simp]:
  "preserves (audit_ok env) (stale_current_scopes i k)" "preserves (audit_ok env) (stale_current_regimes i k)"
  "preserves (audit_ok env) (stale_current_rule_sets i t)"
  unfolding stale_current_scopes_def stale_current_regimes_def stale_current_rule_sets_def Let_def
  by (intro chain_rules; simp)+

lemma chains_submit [simp]: "digest_ok (env_sha env) \<Longrightarrow> preserves (audit_ok env) (submit env i k q)"
  unfolding submit_def record_transition_def announce_def Let_def
  by (intro chain_rules) simp_all

lemma chains_intake [simp]:
  "digest_ok (env_sha env) \<Longrightarrow> preserves (audit_ok env) (submit_after_intake env i k c r b e q)"
  unfolding submit_after_intake_def by (intro chain_rules) simp_all

lemma chains_calls:
  assumes "digest_ok (env_sha env)"
  shows "preserves (audit_ok env) (run_call env c)"
  using assms
  by (cases c; simp only: run_call.simps then_unit_def project_create_def project_update_draft_def
      project_archive_def unit_create_def unit_update_draft_def scope_create_def scope_update_draft_def
      scope_publish_def regime_create_def regime_publish_def rule_set_create_def rule_set_publish_def
      clause_create_def clause_update_draft_def clause_supersede_def review_create_def review_transition_def
      constraint_create_def constraint_confirm_def consume_def Let_def)
    (intro chain_rules; simp)+

section \<open>What succeeds is recorded\<close>

definition trail :: "'r world \<Rightarrow> audit_event list" where
  "trail w = ms_events (w_audit w)"

definition grows :: "('r world, 'a) svc \<Rightarrow> bool" where
  "grows m \<longleftrightarrow> (\<forall>w. \<exists>es. trail (snd (m w)) = trail w @ es)"

definition recorded :: "identity_context \<Rightarrow> string \<Rightarrow> ('r world, 'a) svc \<Rightarrow> bool" where
  "recorded i action m \<longleftrightarrow>
     (\<forall>w x w'. m w = (Inr x, w') \<longrightarrow>
        (\<exists>es e. trail w' = trail w @ es @ [e] \<and> ae_action e = action \<and> ae_actor_id e = ic_subject_id i))"

lemma growsI: "(\<And>w. \<exists>es. trail (snd (m w)) = trail w @ es) \<Longrightarrow> grows m"
  by (simp add: grows_def)

lemma grows_same: "(\<And>w. trail (snd (m w)) = trail w) \<Longrightarrow> grows m"
  by (simp add: grows_def)

lemma grows_basic [simp]:
  "grows (ret x)" "grows (throw e)" "grows (liftE r)" "grows (gets f)" "grows (checkS ok e)" "grows (get_repo g)"
  "grows (put_repo h)" "grows (uuid4 env)" "grows (clock_now env)" "grows (outbox_append ev)"
  by (auto intro!: grows_same simp: trail_def checkS_def get_repo_def put_repo_def uuid4_def clock_now_def
      outbox_append_def split: outbox_port.split)

lemma grows_bindS:
  assumes "grows m" and "\<And>x. grows (f x)"
  shows "grows (bindS m f)"
proof (rule growsI)
  fix w
  obtain r w' where m: "m w = (r, w')" by (cases "m w")
  with assms(1) obtain es where "trail w' = trail w @ es" by (metis grows_def snd_conv)
  moreover have "\<exists>fs. trail (snd (f x w')) = trail w' @ fs" for x using assms(2) by (simp add: grows_def)
  ultimately show "\<exists>es. trail (snd (bindS m f w)) = trail w @ es"
    using m by (auto simp: bindS_def split: sum.split)
qed

lemma grows_if: "grows m \<Longrightarrow> grows n \<Longrightarrow> grows (if c then m else n)"
  by simp

lemma grows_case_option: "grows m \<Longrightarrow> (\<And>y. grows (f y)) \<Longrightarrow> grows (case x of None \<Rightarrow> m | Some y \<Rightarrow> f y)"
  by (cases x) simp_all

lemma grows_case_prod: "(\<And>a b. grows (f a b)) \<Longrightarrow> grows (case p of (a, b) \<Rightarrow> f a b)"
  by (cases p) simp

lemma grows_forS: "(\<And>x. grows (f x)) \<Longrightarrow> grows (forS xs f)"
  by (induction xs) (auto intro!: grows_bindS)

lemmas grows_rules = grows_bindS grows_if grows_case_option grows_case_prod grows_forS

lemma write_audit_outcome:
  "write_audit env r w = (res, w') \<Longrightarrow>
   (case res of Inl _ \<Rightarrow> trail w' = trail w
    | Inr e \<Rightarrow> trail w' = trail w @ [e] \<and> ae_action e = ar_action r \<and> ae_actor_id e = ic_subject_id (ar_identity r))"
  by (auto simp: trail_def write_audit_def audit_write_def memory_ops_def memory_append_def bindS_apply checkS_apply
      sign_event_def Let_def split: prod.splits sum.splits if_splits)

lemma grows_write_audit [simp]: "grows (write_audit env r)"
proof (rule growsI)
  fix w :: "'a world"
  show "\<exists>es. trail (snd (write_audit env r w)) = trail w @ es"
    using write_audit_outcome [of env r w] by (cases "write_audit env r w"; cases "fst (write_audit env r w)") auto
qed

lemma grows_parts [simp]:
  "grows require_writer" "grows (emit_event env i ty aty aid payload rid pid uid)"
  "grows (audited env i a t k q rc oc v)" "grows (found f)" "grows (require_unit i k)" "grows (require_project i k)"
  "grows (make_version env i' now p n s)" "grows (list_events i k cu l cd)"
  unfolding require_writer_def emit_event_def audited_def found_def require_unit_def require_project_def
    make_version_def list_events_def Let_def
  by (intro grows_rules grows_basic grows_write_audit)+

lemma grows_gets [simp]:
  "grows (scope_get i k)" "grows (regime_get i k)" "grows (rule_set_get i k)" "grows (clause_get i k)"
  "grows (review_get i k)" "grows (constraint_get i k)"
  "grows (stale_current_scopes i k)" "grows (stale_current_regimes i k)" "grows (stale_current_rule_sets i t)"
  unfolding scope_get_def regime_get_def rule_set_get_def clause_get_def review_get_def constraint_get_def
    stale_current_scopes_def stale_current_regimes_def stale_current_rule_sets_def Let_def
  by (intro grows_rules grows_parts grows_basic)+

lemma grows_submit [simp]: "grows (submit env i k q)" "grows (submit_after_intake env i k c r b e rq)"
  unfolding submit_after_intake_def submit_def record_transition_def announce_def Let_def
  by (intro grows_rules grows_parts grows_basic)+

lemma recorded_bindS:
  assumes "grows m" and "\<And>x. recorded i a (f x)"
  shows "recorded i a (bindS m f)"
  unfolding recorded_def
proof (intro allI impI)
  fix w y w''
  assume "bindS m f w = (Inr y, w'')"
  then obtain x w' where m: "m w = (Inr x, w')" and f: "f x w' = (Inr y, w'')" by (auto simp: bindS_Inr)
  from assms(1) m obtain es where "trail w' = trail w @ es" by (metis grows_def snd_conv)
  moreover from assms(2) f obtain fs e where
    "trail w'' = trail w' @ fs @ [e]" "ae_action e = a" "ae_actor_id e = ic_subject_id i"
    unfolding recorded_def by blast
  ultimately show "\<exists>es e. trail w'' = trail w @ es @ [e] \<and> ae_action e = a \<and> ae_actor_id e = ic_subject_id i"
    by (metis append_assoc)
qed

lemma recorded_audited: "recorded i a (bindS (audited env i a t k q rc oc v) (\<lambda>_. ret x))"
  unfolding recorded_def
proof (intro allI impI)
  fix w y w'
  assume "bindS (audited env i a t k q rc oc v) (\<lambda>_. ret x) w = (Inr y, w')"
  then obtain e where e: "audited env i a t k q rc oc v w = (Inr e, w')" by (auto simp: bindS_Inr)
  show "\<exists>es e. trail w' = trail w @ es @ [e] \<and> ae_action e = a \<and> ae_actor_id e = ic_subject_id i"
    using write_audit_outcome [OF e [unfolded audited_def]] by (intro exI [of _ "[]"] exI [of _ e]) simp
qed

lemma recorded_then_unit: "recorded i a m \<Longrightarrow> recorded i a (then_unit m)"
  unfolding recorded_def then_unit_def by (auto simp: bindS_Inr)

lemma recorded_case_prod: "(\<And>x y. recorded i a (f x y)) \<Longrightarrow> recorded i a (case p of (x, y) \<Rightarrow> f x y)"
  by (cases p) simp

text \<open>Who acts in a call, and the action its audit event names.\<close>

primrec audit_action :: "fr01_call \<Rightarrow> (identity_context \<times> string) option" where
  "audit_action (CreateProject i f q) = Some (i, ''projects.project.create'')"
| "audit_action (UpdateProject i k m f q) = Some (i, ''projects.project.update_draft'')"
| "audit_action (ArchiveProject i k q) = Some (i, ''projects.project.archive'')"
| "audit_action (CreateUnit i k f q) = Some (i, ''projects.decision_unit.create'')"
| "audit_action (UpdateUnit i k m f q) = Some (i, ''projects.decision_unit.update_draft'')"
| "audit_action (Submit i k q) = Some (i, ''projects.lifecycle.submit'')"
| "audit_action (SubmitAfterIntake i k c r b e q) = None"
| "audit_action (CreateScope i k s r x cs l a q) = Some (i, ''rules.scope.create'')"
| "audit_action (UpdateScope i k m f q) = Some (i, ''rules.scope.update_draft'')"
| "audit_action (PublishScope i k q) = Some (i, ''rules.scope.publish'')"
| "audit_action (CreateRegime i k n p e r l q) = Some (i, ''rules.regime.create'')"
| "audit_action (PublishRegime i k q) = Some (i, ''rules.regime.publish'')"
| "audit_action (CreateRuleSet i k t l a b q) = Some (i, ''rules.rule_set.create'')"
| "audit_action (PublishRuleSet i k q) = Some (i, ''rules.rule_set.publish'')"
| "audit_action (CreateClause i k d c p t e f l q) = Some (i, ''rules.clause.create'')"
| "audit_action (UpdateClause i k m f q) = Some (i, ''rules.clause.update_draft'')"
| "audit_action (SupersedeClause i k t e q) = Some (i, ''rules.clause.supersede'')"
| "audit_action (CreateReview i k t b q) = Some (i, ''rules.compliance.create'')"
| "audit_action (TransitionReview i k t q) = Some (i, ''rules.compliance.transition'')"
| "audit_action (CreateConstraint i k us t q) = Some (i, ''rules.cross_lot.create'')"
| "audit_action (ConfirmConstraint i k q) = Some (i, ''rules.cross_lot.confirm'')"
| "audit_action (ConsumeDocument f g e) = None"

lemma calls_recorded: "audit_action c = Some (i, a) \<Longrightarrow> recorded i a (run_call env c)"
  by (cases c; simp only: run_call.simps audit_action.simps option.inject prod.inject option.distinct project_create_def
      project_update_draft_def project_archive_def unit_create_def unit_update_draft_def scope_create_def
      scope_update_draft_def scope_publish_def regime_create_def regime_publish_def rule_set_create_def
      rule_set_publish_def clause_create_def clause_update_draft_def clause_supersede_def review_create_def
      review_transition_def constraint_create_def constraint_confirm_def submit_def record_transition_def
      announce_def Let_def; elim conjE; hypsubst)
    (intro recorded_then_unit recorded_audited recorded_bindS recorded_case_prod grows_rules grows_parts grows_gets
      grows_submit grows_basic)+

text \<open>
  C18. Changes are recorded: whatever calls are made, the audit chain of every tenant verifies
  afterwards if it did before; and every change that a service reports as done has, as the last
  event of the trail, the event of that action by that caller.
\<close>

theorem changes_are_recorded:
  assumes "digest_ok (env_sha env)" and "audit_ok env w"
  shows "audit_ok env (run_calls env cs w) \<and>
    (case (audit_action c, run_call env c w) of
       (Some (i, action), Inr _, w') \<Rightarrow>
         \<exists>es e. trail w' = trail w @ es @ [e] \<and> ae_action e = action \<and> ae_actor_id e = ic_subject_id i
     | _ \<Rightarrow> True)"
proof
  show "audit_ok env (run_calls env cs w)"
    using chains_calls [OF assms(1)] assms(2) by (rule run_calls_keep)
  show "case (audit_action c, run_call env c w) of
       (Some (i, action), Inr _, w') \<Rightarrow>
         \<exists>es e. trail w' = trail w @ es @ [e] \<and> ae_action e = action \<and> ae_actor_id e = ic_subject_id i
     | _ \<Rightarrow> True"
    using calls_recorded [of c _ _ env]
    by (auto simp: recorded_def split: option.split prod.split sum.split)
qed

section \<open>Nothing changes without the audit sink\<close>

lemma refused_then_unit: "m w = (Inl e, w) \<Longrightarrow> then_unit m w = (Inl e, w)"
  by (simp add: then_unit_def bindS_apply)

lemma submit_unavailable:
  "\<not> ms_available (w_audit w) \<Longrightarrow> submit env i k q w = (Inl (BiaiceError ''AUDIT_UNAVAILABLE''), w)"
  unfolding submit_def by (rule require_writer_unavailable)

lemma require_unit_world: "snd (require_unit i k w) = w"
  by (simp add: require_unit_def found_def get_repo_def bindS_apply split: sum.split option.split)

lemma list_events_world: "snd (list_events i k c l cd w) = w"
  using require_unit_world [of i k w]
  by (auto simp: list_events_def get_repo_def bindS_apply split: prod.split sum.split)

lemma intake_unavailable:
  assumes "\<not> ms_available (w_audit w)"
  shows "snd (submit_after_intake env i k c r b e q w) = w"
proof -
  have unit: "snd (require_unit i k w) = w" by (rule require_unit_world)
  have events: "snd (bindS (list_events i k None None None) (\<lambda>(_, _, has_more). ret (HAS_MORE has_more)) w) = w"
    using list_events_world [of i k None None None w] by (auto simp: bindS_apply split: prod.split sum.split)
  show ?thesis
    using unit events submit_unavailable [OF assms]
    by (cases "require_unit i k w"; cases "fst (require_unit i k w)") (auto simp: submit_after_intake_def bindS_apply)
qed

text \<open>
  C19. No audit, no change: while the audit sink is unavailable, every change is refused with
  AUDIT_UNAVAILABLE before anything is read, drawn or written, and the combined intake command
  leaves the world as it was too. Only the document inbox writes without an audit record.
\<close>

theorem no_audit_no_change:
  assumes "\<not> ms_available (w_audit w)"
  shows "case audit_action c of
      Some _ \<Rightarrow> run_call env c w = (Inl (BiaiceError ''AUDIT_UNAVAILABLE''), w)
    | None \<Rightarrow> (case c of ConsumeDocument f g e \<Rightarrow> True | _ \<Rightarrow> snd (run_call env c w) = w)"
proof -
  have "snd (then_unit (submit_after_intake env i k d r b e q) w) = w" for i k d r b e q
    using intake_unavailable [OF assms, of env i k d r b e q]
    by (cases "submit_after_intake env i k d r b e q w") (auto simp: then_unit_def bindS_apply split: sum.split)
  then show ?thesis
    by (cases c; simp only: run_call.simps audit_action.simps option.case fr01_call.case project_create_def
      project_update_draft_def project_archive_def unit_create_def unit_update_draft_def scope_create_def
      scope_update_draft_def scope_publish_def regime_create_def regime_publish_def rule_set_create_def
      rule_set_publish_def clause_create_def clause_update_draft_def clause_supersede_def review_create_def
      review_transition_def constraint_create_def constraint_confirm_def submit_def)
      (rule refused_then_unit require_writer_unavailable assms TrueI | assumption)+
qed

section \<open>Separation of duties\<close>

definition published_by_other :: "resource_lifecycle \<Rightarrow> uuid option \<Rightarrow> version_metadata \<Rightarrow> bool" where
  "published_by_other state confirmed_by v \<longleftrightarrow>
     (if state = RES_PUBLISHED then confirmed_by \<noteq> None \<and> confirmed_by \<noteq> Some (ve_created_by v) else True)"

definition four_eyes_scope :: "scope_assessment \<Rightarrow> bool" where
  "four_eyes_scope s \<longleftrightarrow> published_by_other (sa_lifecycle_state s) (sa_confirmed_by s) (sa_version s)"

definition four_eyes_regime :: "applicable_regime \<Rightarrow> bool" where
  "four_eyes_regime g \<longleftrightarrow> published_by_other (rg_lifecycle_state g) (rg_confirmed_by g) (rg_version g)"

definition four_eyes_rule_set :: "rule_set \<Rightarrow> bool" where
  "four_eyes_rule_set s \<longleftrightarrow> published_by_other (rs_lifecycle_state s) (rs_confirmed_by s) (rs_version s)"

definition draft_clause :: "rule_clause \<Rightarrow> bool" where
  "draft_clause c \<longleftrightarrow> rc_lifecycle_state c = RES_DRAFT"

definition blocking_flag :: "compliance_review \<Rightarrow> bool" where
  "blocking_flag v \<longleftrightarrow> cr_blocking v = (cr_state v = CR_BLOCKING)"

definition governed :: "fr01_repo \<Rightarrow> bool" where
  "governed r \<longleftrightarrow>
     all_values four_eyes_scope (fr_scopes r) \<and> all_values four_eyes_regime (fr_regimes r) \<and>
     all_values four_eyes_rule_set (fr_rule_sets r) \<and> all_values draft_clause (fr_clauses r) \<and>
     all_values blocking_flag (fr_reviews r)"

lemmas governed_defs = four_eyes_scope_def four_eyes_regime_def four_eyes_rule_set_def draft_clause_def
  blocking_flag_def published_by_other_def

lemma governed_writes:
  "governed r \<Longrightarrow> governed (upsert_project p r)" "governed r \<Longrightarrow> governed (upsert_unit u r)"
  "governed r \<Longrightarrow> governed (upsert_constraint c r)" "governed r \<Longrightarrow> governed (upsert_document_ref d r)"
  "governed r \<Longrightarrow> governed (append_lifecycle_event e r)"
  "four_eyes_scope s \<Longrightarrow> governed r \<Longrightarrow> governed (upsert_scope s r)"
  "four_eyes_regime g \<Longrightarrow> governed r \<Longrightarrow> governed (upsert_regime g r)"
  "four_eyes_rule_set t \<Longrightarrow> governed r \<Longrightarrow> governed (upsert_rule_set t r)"
  "draft_clause cl \<Longrightarrow> governed r \<Longrightarrow> governed (upsert_clause cl r)"
  "blocking_flag v \<Longrightarrow> governed r \<Longrightarrow> governed (upsert_review v r)"
  by (simp_all add: governed_def upsert_defs append_lifecycle_event_def all_values_set)

abbreviation keeps_duties :: "'a fr01 \<Rightarrow> bool" where
  "keeps_duties m \<equiv> preserves (on_repo governed) m"

lemma duties_put: "(\<And>r. governed r \<Longrightarrow> governed (f r)) \<Longrightarrow> keeps_duties (put_repo f)"
  by (rule preserves_put_repo)

text \<open>What a read returns satisfies what the store guarantees for each of its items.\<close>

lemma duties_bind_found:
  assumes "\<And>r x. governed r \<Longrightarrow> f r = Some x \<Longrightarrow> P x" and "\<And>x. P x \<Longrightarrow> keeps_duties (g x)"
  shows "keeps_duties (bindS (found f) g)"
  unfolding preserves_def
proof (intro allI impI)
  fix w
  assume w: "on_repo governed w"
  show "on_repo governed (snd (bindS (found f) g w))"
  proof (cases "f (w_repo w)")
    case None
    with w show ?thesis by (simp add: found_def get_repo_def bindS_apply)
  next
    case (Some x)
    with assms(1) w have "P x" by (simp add: on_repo_def)
    with assms(2) w Some show ?thesis by (simp add: found_def get_repo_def bindS_apply preserves_def)
  qed
qed

lemma duties_bind_items:
  assumes "\<And>r x. governed r \<Longrightarrow> x \<in> set (f r) \<Longrightarrow> P x" and "\<And>xs. \<forall>x \<in> set xs. P x \<Longrightarrow> keeps_duties (g xs)"
  shows "keeps_duties (bindS (get_repo f) g)"
  using assms by (simp add: preserves_def get_repo_def bindS_apply on_repo_def)

lemma governed_get:
  "governed r \<Longrightarrow> get_scope scope k r = Some s \<Longrightarrow> four_eyes_scope s"
  "governed r \<Longrightarrow> get_regime scope k r = Some g \<Longrightarrow> four_eyes_regime g"
  "governed r \<Longrightarrow> get_rule_set scope k r = Some t \<Longrightarrow> four_eyes_rule_set t"
  "governed r \<Longrightarrow> get_clause scope k r = Some c \<Longrightarrow> draft_clause c"
  "governed r \<Longrightarrow> get_review scope k r = Some v \<Longrightarrow> blocking_flag v"
  unfolding governed_def get_scope_def get_regime_def get_rule_set_def get_clause_def get_review_def
  by (blast dest: all_values_stored)+

lemma governed_items:
  "governed r \<Longrightarrow> s \<in> set (list_scopes scope k r) \<Longrightarrow> four_eyes_scope s"
  "governed r \<Longrightarrow> g \<in> set (list_regimes scope k r) \<Longrightarrow> four_eyes_regime g"
  "governed r \<Longrightarrow> t \<in> set (list_rule_sets scope k r) \<Longrightarrow> four_eyes_rule_set t"
  "governed r \<Longrightarrow> c \<in> set (list_all_clauses_for_unit scope k r) \<Longrightarrow> draft_clause c"
  by (auto simp: governed_def list_scopes_def list_regimes_def list_rule_sets_def list_all_clauses_for_unit_def Let_def
      dest: all_values_visible split: option.splits)

lemma duties_parts [simp]:
  "keeps_duties (found f)" "keeps_duties (require_unit i k)" "keeps_duties (require_project i k)"
  "keeps_duties (make_version env a now p n s)" "keeps_duties (audited env i a' t k q rc oc v)"
  "keeps_duties (list_events i k c l cd)"
  unfolding found_def require_unit_def require_project_def make_version_def audited_def list_events_def Let_def
  by (intro chain_rules preserves_write_audit preserves_get_repo preserves_liftE preserves_ret preserves_throw
      preserves_uuid4 preserves_checkS)+

lemma duties_stale [simp]:
  "keeps_duties (stale_current_scopes i k)" "keeps_duties (stale_current_regimes i k)"
  "keeps_duties (stale_current_rule_sets i t)"
proof -
  show "keeps_duties (stale_current_scopes i k)"
    unfolding stale_current_scopes_def
    by (rule duties_bind_items [OF governed_items(1)], assumption+, intro preserves_forS preserves_if duties_put
        governed_writes) (auto simp: governed_defs)
  show "keeps_duties (stale_current_regimes i k)"
    unfolding stale_current_regimes_def
    by (rule duties_bind_items [OF governed_items(2)], assumption+, intro preserves_forS preserves_if duties_put
        governed_writes) (auto simp: governed_defs)
  show "keeps_duties (stale_current_rule_sets i t)"
    unfolding stale_current_rule_sets_def Let_def
    by (rule duties_bind_items [OF governed_items(3)], assumption+, intro preserves_forS preserves_bindS duties_put
        governed_writes) (auto simp: governed_defs)
qed

lemma duties_submit [simp]: "keeps_duties (submit env i k q)" "keeps_duties (submit_after_intake env i k c r b e rq)"
  unfolding submit_after_intake_def submit_def record_transition_def announce_def Let_def
  by (intro chain_rules duties_put governed_writes; simp)+

lemma duties_bind_scope_get:
  assumes "\<And>s. four_eyes_scope s \<Longrightarrow> keeps_duties (g s)"
  shows "keeps_duties (bindS (scope_get i k) g)"
proof -
  have "bindS (scope_get i k) g = bindS (found (get_scope (ic_scope i) k)) (\<lambda>s.
      bindS (liftE (assert_allows (ic_scope i) (sa_tenant_id s) (sa_data_domain_id s) None (Some (sa_decision_unit_id s)))) (\<lambda>_. g s))"
    by (rule ext) (auto simp: scope_get_def bindS_apply assert_allows_cases split: prod.split sum.split)
  then show ?thesis
    using assms by (simp only:) (rule duties_bind_found [OF governed_get(1)], assumption+, intro preserves_bindS, simp_all)
qed

lemma duties_scope: "keeps_duties (scope_create env i k s r x cs l a q)" "keeps_duties (scope_update_draft env i k m f q)"
  "keeps_duties (scope_publish env i k q)"
proof -
  show "keeps_duties (scope_create env i k s r x cs l a q)"
    unfolding scope_create_def Let_def
    by (intro preserves_bindS duties_put governed_writes) (simp_all add: governed_defs)
  show "keeps_duties (scope_update_draft env i k m f q)"
    unfolding scope_update_draft_def Let_def
    by (intro preserves_bindS [OF preserves_require_writer] duties_bind_scope_get preserves_check)
      (intro preserves_bindS duties_put governed_writes; simp add: governed_defs)
  show "keeps_duties (scope_publish env i k q)"
    unfolding scope_publish_def Let_def
    by (intro preserves_bindS [OF preserves_require_writer] duties_bind_scope_get preserves_check)
      (intro chain_rules duties_put governed_writes; simp add: governed_defs)
qed

lemma duties_regime: "keeps_duties (regime_create env i k n pm em r l q)" "keeps_duties (regime_publish env i k q)"
proof -
  show "keeps_duties (regime_create env i k n pm em r l q)"
    unfolding regime_create_def Let_def
    by (intro preserves_bindS duties_put governed_writes) (simp_all add: governed_defs)
  show "keeps_duties (regime_publish env i k q)"
    unfolding regime_publish_def regime_get_def Let_def
    by (intro preserves_bindS [OF preserves_require_writer] duties_bind_found [OF governed_get(2)] preserves_check;
        assumption?) (intro chain_rules duties_put governed_writes; simp add: governed_defs)
qed

lemma duties_rule_set: "keeps_duties (rule_set_create env i k n lev ef et q)" "keeps_duties (rule_set_publish env i k q)"
proof -
  show "keeps_duties (rule_set_create env i k n lev ef et q)"
    unfolding rule_set_create_def Let_def
    by (intro preserves_bindS duties_put governed_writes) (simp_all add: governed_defs)
  show "keeps_duties (rule_set_publish env i k q)"
    unfolding rule_set_publish_def rule_set_get_def Let_def
    by (intro preserves_bindS [OF preserves_require_writer] duties_bind_found [OF governed_get(3)] preserves_check;
        assumption?) (intro chain_rules duties_put governed_writes; simp add: governed_defs)
qed

lemma duties_clause: "keeps_duties (clause_create env i k d c p t e f l q)"
  "keeps_duties (clause_update_draft env i k m cp q)" "keeps_duties (clause_supersede env i k t ex q)"
proof -
  show "keeps_duties (clause_create env i k d c p t e f l q)"
    unfolding clause_create_def Let_def
    by (intro preserves_bindS duties_put governed_writes) (simp_all add: governed_defs)
  show "keeps_duties (clause_update_draft env i k m cp q)"
    unfolding clause_update_draft_def clause_get_def Let_def
    by (intro preserves_bindS duties_put governed_writes preserves_require_writer duties_bind_found [OF governed_get(4)]
        preserves_check; (assumption | simp add: governed_defs)?)
  show "keeps_duties (clause_supersede env i k t ex q)"
    unfolding clause_supersede_def clause_get_def Let_def
    by (intro preserves_bindS [OF preserves_require_writer] duties_bind_found [OF governed_get(4)] preserves_check;
        assumption?) (simp add: governed_defs)
qed

lemma duties_review: "keeps_duties (review_create env i k t b q)" "keeps_duties (review_transition env i k st q)"
proof -
  show "keeps_duties (review_create env i k t b q)"
    unfolding review_create_def Let_def
    by (intro preserves_bindS duties_put governed_writes) (simp_all add: governed_defs)
  show "keeps_duties (review_transition env i k st q)"
    unfolding review_transition_def review_get_def Let_def
    by (intro preserves_bindS duties_put governed_writes; simp add: governed_defs)
qed

lemma duties_other:
  "keeps_duties (project_create env i pf q)" "keeps_duties (project_update_draft env i k m pp q)"
  "keeps_duties (project_archive env i k q)" "keeps_duties (unit_create env i k uf q)"
  "keeps_duties (unit_update_draft env i k m up q)" "keeps_duties (constraint_create env i k us t q)"
  "keeps_duties (constraint_confirm env i k q)" "keeps_duties (consume f g ev)"
  unfolding project_create_def project_update_draft_def project_archive_def unit_create_def unit_update_draft_def
    constraint_create_def constraint_confirm_def constraint_get_def consume_def Let_def
  by (intro chain_rules duties_put governed_writes; simp)+

lemma duties_then_unit: "keeps_duties m \<Longrightarrow> keeps_duties (then_unit m)"
  unfolding then_unit_def by (intro preserves_bindS) simp_all

lemma duties_calls: "keeps_duties (run_call env c)"
  by (cases c) (simp_all only: run_call.simps duties_then_unit duties_scope duties_regime duties_rule_set duties_clause
      duties_review duties_other duties_submit)

lemma governed_history: "fresh_world w \<Longrightarrow> governed (w_repo (run_calls env cs w))"
proof -
  assume "fresh_world w"
  then have "on_repo governed w" by (simp add: fresh_world_def on_repo_def governed_def empty_fr01_def)
  with duties_calls have "on_repo governed (run_calls env cs w)" by (rule run_calls_keep)
  then show ?thesis by (simp add: on_repo_def)
qed

text \<open>
  C20. Four eyes: after any history of calls by any callers, every published scope assessment,
  procurement regime and rule set that a caller can read was confirmed by somebody other than
  the one who wrote its current version; and a compliance review is flagged as blocking exactly
  when it is in the BLOCKING state.
\<close>

theorem published_by_another:
  assumes "fresh_world w"
  shows "(\<forall>s. get_scope scope k (w_repo (run_calls env cs w)) = Some s \<longrightarrow> four_eyes_scope s) \<and>
    (\<forall>g. get_regime scope k (w_repo (run_calls env cs w)) = Some g \<longrightarrow> four_eyes_regime g) \<and>
    (\<forall>t. get_rule_set scope k (w_repo (run_calls env cs w)) = Some t \<longrightarrow> four_eyes_rule_set t) \<and>
    (\<forall>v. get_review scope k (w_repo (run_calls env cs w)) = Some v \<longrightarrow> cr_blocking v = (cr_state v = CR_BLOCKING))"
  using governed_get [OF governed_history [OF assms]] by (simp add: blocking_flag_def)

lemma formal_needs_published:
  assumes "\<forall>c \<in> set clauses. draft_clause c"
  shows "resolve_inherited_clauses clauses rule_sets now True = []"
proof -
  have "grouped_with d now True c = None" if "c \<in> set clauses" for c d
    using assms that by (auto simp: grouped_with_def clause_participates_def draft_clause_def split: option.split)
  then have "participating clauses rule_sets now True = []"
    by (auto simp: participating_def List.map_filter_def filter_empty_conv)
  then show ?thesis by (simp add: resolve_inherited_clauses_def)
qed

text \<open>
  Clauses never take effect through the services: there is no operation that publishes a
  rule clause, and the one that writes published successors requires a published clause. So
  after any history of calls every clause is a draft, superseding one always fails, and the
  formal resolution of a unit, when it is allowed, is empty.
\<close>

theorem clauses_stay_drafts:
  assumes "fresh_world w"
  shows "(\<forall>c. get_clause scope k (w_repo (run_calls env cs w)) = Some c \<longrightarrow> rc_lifecycle_state c = RES_DRAFT) \<and>
    (case fst (clause_supersede env i k text expression q (run_calls env cs w)) of Inl _ \<Rightarrow> True | Inr _ \<Rightarrow> False) \<and>
    (case fst (resolve_unit env i k True (run_calls env cs w)) of Inl _ \<Rightarrow> True | Inr rs \<Rightarrow> rs = [])"
proof (intro conjI)
  let ?w = "run_calls env cs w"
  have ok: "governed (w_repo ?w)" by (rule governed_history [OF assms])
  show "\<forall>c. get_clause scope k (w_repo ?w) = Some c \<longrightarrow> rc_lifecycle_state c = RES_DRAFT"
    using governed_get(4) [OF ok] by (simp add: draft_clause_def)
  show "case fst (clause_supersede env i k text expression q ?w) of Inl _ \<Rightarrow> True | Inr _ \<Rightarrow> False"
    using governed_get(4) [OF ok, of "ic_scope i" k]
    by (auto simp: clause_supersede_def clause_get_def require_writer_def require_audit_def guardE_def found_def
        get_repo_def bindS_apply checkS_apply draft_clause_def split: option.split)
  show "case fst (resolve_unit env i k True ?w) of Inl _ \<Rightarrow> True | Inr rs \<Rightarrow> rs = []"
  proof -
    have "\<forall>c \<in> set (list_all_clauses_for_unit (ic_scope i) k (w_repo ?w)). draft_clause c"
      using governed_items(4) [OF ok] by blast
    from formal_needs_published [OF this] require_unit_world [of i k ?w] show ?thesis
      by (auto simp: resolve_unit_def get_repo_def clock_now_def bindS_apply split: prod.split sum.split)
  qed
qed

section \<open>Witnesses\<close>

lemma sample_fresh: "fresh_world sample_world"
  by (simp add: fresh_world_def sample_world_def)

text \<open>A regime written by one caller and published by another.\<close>

definition new_regime :: "env \<Rightarrow> identity_context \<Rightarrow> decision_unit \<Rightarrow> nat \<Rightarrow> nat \<Rightarrow> applicable_regime" where
  "new_regime env i u n t =
     \<lparr>rg_applicable_regime_id = env_uuid env n, rg_decision_unit_id = un_decision_unit_id u,
      rg_project_id = un_project_id u, rg_tenant_id = un_tenant_id u, rg_data_domain_id = un_data_domain_id u,
      rg_regime_name = ''law'', rg_procurement_mode = OPEN_TENDERING, rg_evaluation_method = COMPREHENSIVE_SCORING,
      rg_round_kind = SINGLE_ROUND, rg_source = None, rg_lifecycle_state = RES_DRAFT, rg_validity_state = VAL_CURRENT,
      rg_version = new_version env i
        [(''regime_name'', JStr ''law''), (''evaluation_method'', JStr (method_value COMPREHENSIVE_SCORING))]
        (n + 1) (env_clock env t),
      rg_effective_from = None, rg_confirmed_by = None, rg_confirmed_at = None\<rparr>"

lemma runs_regime_create:
  assumes sha: "digest_ok (env_sha env)" and "own_scope i None (Some k) = Inr ()"
    and "get_unit (ic_scope i) k r = Some u"
  shows "runs env (regime_create env i k ''law'' OPEN_TENDERING COMPREHENSIVE_SCORING SINGLE_ROUND None q) r n t
    (new_regime env i u n t) (upsert_regime (new_regime env i u n t) r) (n + 1 + 1 + 1) (t + 1 + 1)"
proof -
  have valid: "regime_valid (new_regime env i u n t)"
    by (simp add: regime_valid_def new_regime_def text_between_ascii del: One_nat_def)
  show ?thesis
    unfolding regime_create_def Let_def
    by (rule runs_bind [OF runs_require_writer], rule runs_bind [OF runs_require_unit [OF assms(2,3)]],
        rule runs_bind [OF runs_clock], rule runs_bind [OF runs_uuid4], rule runs_bind [OF runs_new_version [OF sha]],
        fold new_regime_def, rule runs_bind [OF runs_checkS [OF valid]], rule runs_bind [OF runs_put],
        rule runs_audited [OF sha], rule runs_ret)
qed

lemma runs_nothing_stale:
  assumes "\<forall>g \<in> set (list_regimes (ic_scope i) k r). \<not> (rg_validity_state g = VAL_CURRENT \<and> rg_lifecycle_state g = RES_PUBLISHED)"
  shows "\<exists>us. runs env (stale_current_regimes i k) r n t us r n t"
proof -
  define f :: "applicable_regime \<Rightarrow> unit fr01" where
    "f = (\<lambda>g. if rg_validity_state g = VAL_CURRENT \<and> rg_lifecycle_state g = RES_PUBLISHED
      then put_repo (upsert_regime (g\<lparr>rg_validity_state := VAL_STALE\<rparr>)) else ret ())"
  have "\<exists>us. runs env (forS gs f) r n t us r n t" if "\<forall>g \<in> set gs. f g = ret ()" for gs
    using that
  proof (induction gs)
    case Nil
    show ?case unfolding forS.simps by (rule exI, rule runs_ret)
  next
    case (Cons g gs)
    then have g: "f g = ret ()" by (meson list.set_intros(1))
    obtain us where us: "runs env (forS gs f) r n t us r n t"
      using Cons.IH Cons.prems by (meson list.set_intros(2))
    show ?case
      unfolding forS.simps g by (rule exI, rule runs_bind [OF runs_ret], rule runs_bind [OF us], rule runs_ret)
  qed
  moreover have "\<forall>g \<in> set (list_regimes (ic_scope i) k r). f g = ret ()" using assms unfolding f_def by auto
  ultimately obtain us where us: "runs env (forS (list_regimes (ic_scope i) k r) f) r n t us r n t" by blast
  show ?thesis
    unfolding stale_current_regimes_def f_def [symmetric]
    by (rule exI, rule runs_bind [OF runs_get], rule us)
qed

definition published_regime :: "env \<Rightarrow> identity_context \<Rightarrow> applicable_regime \<Rightarrow> nat \<Rightarrow> applicable_regime" where
  "published_regime env i g t = g
     \<lparr>rg_lifecycle_state := RES_PUBLISHED, rg_validity_state := VAL_CURRENT, rg_effective_from := Some (env_clock env t),
      rg_confirmed_by := Some (ic_subject_id i), rg_confirmed_at := Some (env_clock env t)\<rparr>"

lemma runs_regime_publish:
  assumes sha: "digest_ok (env_sha env)" and g: "get_regime (ic_scope i) k r = Some g"
    and draft: "rg_lifecycle_state g \<noteq> RES_PUBLISHED" and other: "ic_subject_id i \<noteq> ve_created_by (rg_version g)"
    and stale: "\<forall>g' \<in> set (list_regimes (ic_scope i) (rg_decision_unit_id g) r).
      \<not> (rg_validity_state g' = VAL_CURRENT \<and> rg_lifecycle_state g' = RES_PUBLISHED)"
    and own: "own_scope i None (Some (rg_decision_unit_id g)) = Inr ()"
    and u: "get_unit (ic_scope i) (rg_decision_unit_id g) (upsert_regime (published_regime env i g t) r) = Some u"
  shows "runs env (regime_publish env i k q) r n t (published_regime env i g t)
    (upsert_unit (u\<lparr>un_current_regime_id := Some (rg_applicable_regime_id (published_regime env i g t))\<rparr>)
      (upsert_regime (published_regime env i g t) r)) (n + 1) (t + 1 + 1)"
proof -
  obtain us where us: "runs env (stale_current_regimes i (rg_decision_unit_id g)) r n (t + 1) us r n (t + 1)"
    using runs_nothing_stale [OF stale] by blast
  show ?thesis
    unfolding regime_publish_def regime_get_def Let_def
    by (rule runs_bind [OF runs_require_writer], rule runs_bind [OF runs_found [where f = "get_regime (ic_scope i) k", OF g]],
        rule runs_bind [OF runs_checkS [OF draft]], rule runs_bind [OF runs_checkS [OF other]],
        rule runs_bind [OF runs_clock], rule runs_bind [OF us], fold published_regime_def,
        rule runs_bind [OF runs_put], rule runs_bind [OF runs_require_unit [OF own u]], rule runs_bind [OF runs_put],
        rule runs_bind [OF runs_emit_event], rule runs_audited [OF sha], rule runs_ret)
qed

definition regime_calls :: "fr01_call list" where
  "regime_calls = take 2 sample_calls @
     [CreateRegime (wide_identity 5) 103 ''law'' OPEN_TENDERING COMPREHENSIVE_SCORING SINGLE_ROUND None ''req-1'',
      PublishRegime (wide_identity 6) 106 ''req-1'']"

definition sample_regime :: applicable_regime where
  "sample_regime = new_regime sample_env (wide_identity 5) sample_unit_1 6 4"

lemma sample_regime_facts:
  "rg_applicable_regime_id sample_regime = 106" "rg_decision_unit_id sample_regime = 103"
  "regime_visible (ic_scope (wide_identity 6)) sample_regime" "rg_lifecycle_state sample_regime = RES_DRAFT"
  "ve_created_by (rg_version sample_regime) = 5" "ic_subject_id (wide_identity 6) = 6"
  "unit_visible (ic_scope (wide_identity 6)) sample_unit_1"
  by (simp_all add: sample_regime_def new_regime_def sample_defs regime_visible_def unit_visible_def scope_ok_def)

lemma regime_run:
  "\<exists>r n t. standing sample_env r n t (run_calls sample_env regime_calls sample_world) \<and>
     get_regime (ic_scope (wide_identity 6)) 106 r = Some (published_regime sample_env (wide_identity 6) sample_regime 6)"
proof -
  let ?g = "published_regime sample_env (wide_identity 6) sample_regime 6"
  let ?r1 = "upsert_regime sample_regime sample_repo_2"
  have 1: "runs sample_env (run_call sample_env (regime_calls ! 2)) sample_repo_2 6 4 () ?r1 9 6"
    using runs_then_unit [OF runs_regime_create [OF sample_env_sha wide_scope sample_unit_found, of "''req-1''" 6 4]]
    by (simp add: regime_calls_def sample_calls_def sample_regime_def)
  have found: "get_regime (ic_scope (wide_identity 6)) 106 ?r1 = Some sample_regime"
    using sample_regime_facts by (simp add: regimes.get_put)
  have g: "rg_applicable_regime_id ?g = 106" "rg_decision_unit_id ?g = 103" "regime_visible (ic_scope (wide_identity 6)) ?g"
    using sample_regime_facts by (simp_all add: published_regime_def regime_visible_def)
  have drafts: "\<forall>g' \<in> set (list_regimes (ic_scope (wide_identity 6)) (rg_decision_unit_id sample_regime) ?r1).
      \<not> (rg_validity_state g' = VAL_CURRENT \<and> rg_lifecycle_state g' = RES_PUBLISHED)"
    using sample_regime_facts(4)
    by (auto simp: list_regimes_def visible_values_def dict_values_def upsert_defs empty_fr01_def)
  have unit: "get_unit (ic_scope (wide_identity 6)) (rg_decision_unit_id sample_regime) (upsert_regime ?g ?r1) = Some sample_unit_1"
    using sample_regime_facts sample_facts by (simp add: get_unit_def stored_def upsert_regime_def upsert_unit_def)
  obtain r where 2: "runs sample_env (run_call sample_env (regime_calls ! 3)) ?r1 9 6 () r 10 8"
    and r: "get_regime (ic_scope (wide_identity 6)) 106 r = Some ?g"
  proof -
    let ?r2 = "upsert_unit (sample_unit_1\<lparr>un_current_regime_id := Some (rg_applicable_regime_id ?g)\<rparr>) (upsert_regime ?g ?r1)"
    have "runs sample_env (run_call sample_env (regime_calls ! 3)) ?r1 9 6 () ?r2 10 8"
      using runs_then_unit [OF runs_regime_publish [OF sample_env_sha found _ _ drafts wide_scope unit, of "''req-1''" 9]]
        sample_regime_facts
      by (simp add: regime_calls_def sample_calls_def)
    moreover have "get_regime (ic_scope (wide_identity 6)) 106 ?r2 = Some ?g"
      using g by (simp add: get_regime_def upsert_unit_def upsert_regime_def stored_def)
    ultimately show thesis by (rule that)
  qed
  have "standing sample_env r 10 8 (run_calls sample_env regime_calls sample_world)"
    using runs_calls [OF 2 runs_calls [OF 1 sample_created]]
    by (simp add: regime_calls_def run_calls_append sample_calls_def)
  with r show ?thesis by blast
qed

theorem published_by_another_witness:
  "map_option rg_confirmed_by (get_regime (ic_scope (wide_identity 6)) 106
     (w_repo (run_calls sample_env regime_calls sample_world))) = Some (Some 6) \<and>
   map_option four_eyes_regime (get_regime (ic_scope (wide_identity 6)) 106
     (w_repo (run_calls sample_env regime_calls sample_world))) = Some True"
proof -
  obtain r n t where r: "standing sample_env r n t (run_calls sample_env regime_calls sample_world)"
    "get_regime (ic_scope (wide_identity 6)) 106 r = Some (published_regime sample_env (wide_identity 6) sample_regime 6)"
    using regime_run by blast
  then have repo: "w_repo (run_calls sample_env regime_calls sample_world) = r" by (simp add: standing_def)
  have "four_eyes_regime (published_regime sample_env (wide_identity 6) sample_regime 6)"
    using published_by_another [OF sample_fresh, of "ic_scope (wide_identity 6)" 106 sample_env regime_calls] r(2)
    unfolding repo by blast
  then show ?thesis
    using r(2) sample_regime_facts(6) unfolding repo by (simp add: published_regime_def)
qed

theorem clauses_stay_drafts_witness:
  "case fst (resolve_unit sample_env (wide_identity 5) 103 True (run_calls sample_env sample_calls sample_world)) of
     Inl _ \<Rightarrow> True | Inr rs \<Rightarrow> rs = []"
  using clauses_stay_drafts [OF sample_fresh] by blast

theorem changes_are_recorded_witness:
  "audit_ok sample_env (run_calls sample_env sample_calls sample_world)"
proof -
  have "audit_ok sample_env sample_world" using sample_world_standing by (simp add: standing_def)
  with changes_are_recorded [OF sample_env_sha] show ?thesis by blast
qed

definition silent_world :: "fr01_repo world" where
  "silent_world = sample_world\<lparr>w_audit := \<lparr>ms_events = [], ms_available = False\<rparr>\<rparr>"

theorem no_audit_no_change_witness:
  "run_call sample_env (CreateProject (wide_identity 5) sample_project_fields ''req-1'') silent_world =
     (Inl (BiaiceError ''AUDIT_UNAVAILABLE''), silent_world)"
  using no_audit_no_change [where w = silent_world and c = "CreateProject (wide_identity 5) sample_project_fields ''req-1''" and env = sample_env]
  by (simp add: silent_world_def)

end
