(* ===== verification/Fr01_Limits.thy ===== *)
theory Fr01_Limits
  imports Fr01_Trail
begin

text \<open>
  Draft updates and their ETags, the document inbox, and the places where the project services
  do less than their callers may expect: an ETag that does not see every field, updates that no
  validator checks, and the intake command that returns a flag instead of an event.
\<close>

section \<open>Draft updates\<close>

lemma found_Inr: "found f w = (Inr x, w') \<longleftrightarrow> f (w_repo w) = Some x \<and> w' = w"
  by (auto simp: found_def get_repo_def bindS_apply split: option.splits)

lemma require_project_Inr:
  "require_project i k w = (Inr p, w') \<longleftrightarrow>
     own_scope i (Some k) None = Inr () \<and> get_project (ic_scope i) k (w_repo w) = Some p \<and> w' = w"
  by (auto simp: require_project_def bindS_apply found_Inr split: sum.splits prod.splits)

lemma make_version_Inr:
  "make_version env a now payload number supersedes w = (Inr v, w') \<Longrightarrow>
     ve_version_number v = number \<and> ve_supersedes_version_id v = supersedes \<and> ve_created_by v = a \<and>
     ve_content_hash v = canonical_hash (env_sha env) payload \<and> w_repo w' = w_repo w"
  by (auto simp: make_version_def uuid4_def Let_def bindS_apply checkS_apply split: if_splits)

lemma audited_repo: "audited env i a ty k q rc oc v w = (r, w') \<Longrightarrow> w_repo w' = w_repo w"
  unfolding audited_def by (metis snd_conv write_audit_repo)

lemma assert_etag_Inr: "assert_etag current supplied = Inr u \<Longrightarrow> supplied = current"
  by (simp add: assert_etag_def split: if_splits)

text \<open>What a successful update of a draft project establishes.\<close>

lemma project_update_success:
  assumes "project_update_draft env i k m f q w = (Inr p, w')"
  shows "\<exists>old. get_project (ic_scope i) k (w_repo w) = Some old \<and> pj_lifecycle_state old = RES_DRAFT \<and>
    m = current_etag env (pj_version old) \<and> w_repo w' = upsert_project p (w_repo w) \<and>
    pj_project_id p = pj_project_id old \<and> pj_tenant_id p = pj_tenant_id old \<and>
    pj_data_domain_id p = pj_data_domain_id old \<and> pj_lifecycle_state p = RES_DRAFT \<and>
    pj_name p = text_or (pp_name f) (pj_name old) \<and> pj_timezone p = text_or (pp_timezone f) (pj_timezone old) \<and>
    pj_budget p = keep (pp_budget f) (pj_budget old) \<and> pj_notes p = keep (pp_notes f) (pj_notes old) \<and>
    ve_version_number (pj_version p) = ve_version_number (pj_version old) + 1 \<and>
    ve_supersedes_version_id (pj_version p) = Some (ve_version_id (pj_version old)) \<and>
    ve_content_hash (pj_version p) = canonical_hash (env_sha env)
      [(''name'', JStr (text_or (pp_name f) (pj_name old))), (''notes'', jopt JStr (pp_notes f))]"
proof -
  from assms obtain w0 old now w1 v w2 w3 where
    writer: "require_writer w = (Inr (), w0)" and old: "require_project i k w0 = (Inr old, w0)" and
    draft: "pj_lifecycle_state old = RES_DRAFT" and tag: "assert_etag (current_etag env (pj_version old)) m = Inr ()" and
    clock: "clock_now env w0 = (Inr now, w1)" and
    v: "make_version env (ic_subject_id i) now
      [(''name'', JStr (text_or (pp_name f) (pj_name old))), (''notes'', jopt JStr (pp_notes f))]
      (ve_version_number (pj_version old) + 1) (Some (ve_version_id (pj_version old))) w1 = (Inr v, w2)" and
    p: "p = old
       \<lparr>pj_name := text_or (pp_name f) (pj_name old),
        pj_purchaser_name := text_or (pp_purchaser_name f) (pj_purchaser_name old),
        pj_timezone := text_or (pp_timezone f) (pj_timezone old),
        pj_budget := keep (pp_budget f) (pj_budget old),
        pj_price_ceiling := keep (pp_price_ceiling f) (pj_price_ceiling old),
        pj_deadline_at := keep (pp_deadline_at f) (pj_deadline_at old),
        pj_cross_unit_group_id := keep (pp_cross_unit_group_id f) (pj_cross_unit_group_id old),
        pj_notes := keep (pp_notes f) (pj_notes old), pj_version := v\<rparr>" and
    put: "put_repo (upsert_project p) w2 = (Inr (), w3)" and
    audit: "\<exists>e. audited env i ''projects.project.update_draft'' ''ProcurementProject'' (pj_project_id p) q
      ''PROJECT_DRAFT_UPDATED'' (resource_value (pj_lifecycle_state p)) (ve_version_id v) w3 = (Inr e, w')"
    unfolding project_update_draft_def Let_def
    by (auto simp: bindS_Inr checkS_apply require_project_Inr split: if_splits)
  have "w0 = w"
    using writer by (auto simp: require_writer_def bindS_apply split: sum.splits)
  moreover have "w_repo w1 = w_repo w0" using clock by (auto simp: clock_now_def)
  moreover have "w_repo w' = upsert_project p (w_repo w2)"
    using put audit audited_repo by (fastforce simp: put_repo_def)
  ultimately show ?thesis
    using old draft assert_etag_Inr [OF tag] make_version_Inr [OF v] p by (auto simp: require_project_Inr)
qed

text \<open>
  Draft updates are guarded: a draft update that succeeds was given the ETag of the version
  stored at that moment, changes only that project, keeps its identity, tenant and state, and
  leaves the next version number with a link to the version it replaces.
\<close>

theorem draft_updates_guarded:
  assumes "project_update_draft env i k m f q w = (Inr p, w')"
  shows "\<exists>old. get_project (ic_scope i) k (w_repo w) = Some old \<and> pj_lifecycle_state old = RES_DRAFT \<and>
    m = current_etag env (pj_version old) \<and> w_repo w' = upsert_project p (w_repo w) \<and>
    pj_project_id p = pj_project_id old \<and> pj_tenant_id p = pj_tenant_id old \<and>
    pj_data_domain_id p = pj_data_domain_id old \<and> pj_lifecycle_state p = RES_DRAFT \<and>
    ve_version_number (pj_version p) = ve_version_number (pj_version old) + 1 \<and>
    ve_supersedes_version_id (pj_version p) = Some (ve_version_id (pj_version old))"
  using project_update_success [OF assms] by blast

lemma updated_etag:
  assumes "project_update_draft env i k m f q w = (Inr p, w')"
  shows "current_etag env (pj_version p) = compute_etag (env_sha env) (JStr (canonical_hash (env_sha env)
    [(''name'', JStr (pj_name p)), (''notes'', jopt JStr (pp_notes f))]))"
  using project_update_success [OF assms] by (auto simp: current_etag_def)

text \<open>
  C21. The ETag of an updated draft is blind to most fields: its content hash covers the name and
  the notes given in the request only. Two updates in a row that keep the name and give the same
  notes leave the same ETag, whatever they do to the budget, the price ceiling, the deadline or
  the time zone, so a caller holding the ETag of the first passes the check after the second and
  overwrites it.
\<close>

theorem etag_blind_to_money:
  assumes first: "project_update_draft env i k m f q w = (Inr p, w1)"
    and second: "project_update_draft env j k m' f' q' w1 = (Inr p', w2)"
    and same_name: "pp_name f' = None" and same_notes: "pp_notes f' = pp_notes f" and scope: "ic_scope j = ic_scope i"
    and ok: "fr01_ok (w_repo w)"
  shows "current_etag env (pj_version p') = current_etag env (pj_version p) \<and>
    pj_budget p' = keep (pp_budget f') (pj_budget p)"
proof -
  from project_update_success [OF first] obtain old where
    old: "get_project (ic_scope i) k (w_repo w) = Some old" and
    p: "w_repo w1 = upsert_project p (w_repo w)" "pj_project_id p = pj_project_id old"
    by blast
  have "project_store_ok (w_repo w)" using ok by (simp add: fr01_ok_def)
  from projects.get_sound [OF this old] have k: "pj_project_id old = k" by simp
  from project_update_success [OF second] obtain old' where
    old': "get_project (ic_scope i) k (w_repo w1) = Some old'" and
    p': "pj_name p' = text_or (pp_name f') (pj_name old')" "pj_budget p' = keep (pp_budget f') (pj_budget old')"
    unfolding scope by blast
  have "old' = p"
    using old' p k by (simp add: projects.get_put split: if_splits)
  with p' same_name have "pj_name p' = pj_name p" "pj_budget p' = keep (pp_budget f') (pj_budget p)"
    by (simp_all add: text_or_def)
  then show ?thesis using updated_etag [OF first] updated_etag [OF second] same_notes by simp
qed

section \<open>Updates are not validated\<close>

definition updated_project ::
  "env \<Rightarrow> identity_context \<Rightarrow> procurement_project \<Rightarrow> project_patch \<Rightarrow> nat \<Rightarrow> nat \<Rightarrow> procurement_project" where
  "updated_project env i old f n t = old
     \<lparr>pj_name := text_or (pp_name f) (pj_name old),
      pj_purchaser_name := text_or (pp_purchaser_name f) (pj_purchaser_name old),
      pj_timezone := text_or (pp_timezone f) (pj_timezone old),
      pj_budget := keep (pp_budget f) (pj_budget old),
      pj_price_ceiling := keep (pp_price_ceiling f) (pj_price_ceiling old),
      pj_deadline_at := keep (pp_deadline_at f) (pj_deadline_at old),
      pj_cross_unit_group_id := keep (pp_cross_unit_group_id f) (pj_cross_unit_group_id old),
      pj_notes := keep (pp_notes f) (pj_notes old),
      pj_version := \<lparr>ve_version_id = env_uuid env n, ve_version_number = ve_version_number (pj_version old) + 1,
        ve_created_at = env_clock env t, ve_created_by = ic_subject_id i,
        ve_content_hash = canonical_hash (env_sha env)
          [(''name'', JStr (text_or (pp_name f) (pj_name old))), (''notes'', jopt JStr (pp_notes f))],
        ve_supersedes_version_id = Some (ve_version_id (pj_version old))\<rparr>\<rparr>"

lemma runs_project_update:
  assumes sha: "digest_ok (env_sha env)" and "own_scope i (Some k) None = Inr ()"
    and "get_project (ic_scope i) k r = Some old" and "pj_lifecycle_state old = RES_DRAFT"
    and "1 \<le> ve_version_number (pj_version old) + 1"
  shows "runs env (project_update_draft env i k (current_etag env (pj_version old)) f q) r n t
    (updated_project env i old f n t) (upsert_project (updated_project env i old f n t) r) (n + 1 + 1) (t + 1 + 1)"
proof -
  have tag: "assert_etag (current_etag env (pj_version old)) (current_etag env (pj_version old)) = Inr ()"
    using etag_ascii [OF sha] by (simp add: assert_etag_def current_etag_def)
  show ?thesis
    unfolding project_update_draft_def Let_def
    by (rule runs_bind [OF runs_require_writer], rule runs_bind [OF runs_require_project [OF assms(2,3)]],
        rule runs_bind [OF runs_checkS [OF assms(4)]], rule runs_bind [OF runs_liftE [OF tag]],
        rule runs_bind [OF runs_clock], rule runs_bind [OF runs_version [OF sha assms(5)]],
        fold updated_project_def, rule runs_bind [OF runs_put], rule runs_audited [OF sha], rule runs_ret)
qed

text \<open>
  Any non-empty time zone is stored by a draft update, also one that the model's validator
  refuses when a project is created.
\<close>

lemma update_stores_any_timezone:
  assumes "digest_ok (env_sha env)" and "own_scope i (Some k) None = Inr ()"
    and "get_project (ic_scope i) k r = Some old" and "pj_lifecycle_state old = RES_DRAFT"
    and "1 \<le> ve_version_number (pj_version old) + 1" and "standing env r n t w"
    and tz: "pp_timezone f = Some tz" "tz \<noteq> []" "\<not> timezone_ok tz"
  shows "\<exists>p w'. project_update_draft env i k (current_etag env (pj_version old)) f q w = (Inr p, w') \<and>
    w_repo w' = upsert_project p r \<and> \<not> project_valid p"
proof -
  obtain w' where w': "project_update_draft env i k (current_etag env (pj_version old)) f q w =
      (Inr (updated_project env i old f n t), w')"
    "standing env (upsert_project (updated_project env i old f n t) r) (n + 1 + 1) (t + 1 + 1) w'"
    using runs_project_update [OF assms(1-5), of f q n t] assms(6) by (auto simp: runs_def)
  then show ?thesis using tz by (auto simp: standing_def project_valid_def updated_project_def text_or_def)
qed

section \<open>The intake command\<close>

text \<open>
  When the unit is in the state of the command already, \<open>submit_after_intake\<close> returns the
  has-more flag of the event list in place of a lifecycle event, and changes nothing.
\<close>

lemma intake_returns_flag:
  assumes "require_unit i k w = (Inr u, w)" and "state_value (un_lifecycle_state u) = upper (strip command)"
  shows "submit_after_intake env i k command reason basis earliest q w =
    (Inr (HAS_MORE (50 < length (list_lifecycle_events (ic_scope i) k (w_repo w)))), w)"
proof -
  have "paginate scope None None None key xs = Inr (take 50 xs, None, 50 < length xs)" for scope key and xs :: "'b list"
    by (simp add: paginate_def clamp_limit_def select_page_eq)
  then have "list_events i k None None None w =
      (Inr (take 50 (list_lifecycle_events (ic_scope i) k (w_repo w)), None,
            50 < length (list_lifecycle_events (ic_scope i) k (w_repo w))), w)"
    using assms(1) by (simp add: list_events_def bindS_apply get_repo_def)
  then show ?thesis using assms by (simp add: submit_after_intake_def bindS_apply)
qed

section \<open>The document inbox\<close>

lemma consume_stored:
  assumes "consume parse str e w = (Inr (Some d), w')"
  shows "get_document_ref (inbox_scope e) (ev_event_id e) (w_repo w') = Some d \<and>
    ev_event_type e \<in> set CONSUMED_DOCUMENT_EVENTS \<and>
    (get_document_ref (inbox_scope e) (ev_event_id e) (w_repo w) = None \<longrightarrow>
       di_usable_for_formal_rules d = (ev_event_type e \<noteq> ''documents.document_quarantined.v1''))"
  using assms
  by (auto simp: consume_def get_repo_def put_repo_def bindS_apply checkS_apply Let_def document_refs.get_put
      document_ref_visible_def scope_ok_def inbox_scope_def split: if_splits option.splits sum.splits prod.splits)

text \<open>
  The inbox is idempotent: consuming an event a second time, right after the first or after
  any writes that leave its reference in place, returns the same reference and changes nothing;
  only the three document events give a reference; and a new reference is usable for formal rules
  exactly when the event is not a quarantine.
\<close>

theorem inbox_idempotent:
  assumes "consume parse str e w = (Inr (Some d), w')"
    and "get_document_ref (inbox_scope e) (ev_event_id e) (w_repo w'') =
      get_document_ref (inbox_scope e) (ev_event_id e) (w_repo w')"
  shows "consume parse' str' e w'' = (Inr (Some d), w'') \<and>
    ev_event_type e \<in> set CONSUMED_DOCUMENT_EVENTS \<and>
    (get_document_ref (inbox_scope e) (ev_event_id e) (w_repo w) = None \<longrightarrow>
       di_usable_for_formal_rules d = (ev_event_type e \<noteq> ''documents.document_quarantined.v1''))"
  using consume_stored [OF assms(1)] assms(2) by (simp add: consume_def get_repo_def bindS_apply)

section \<open>Witnesses\<close>

definition sample_patch :: "money option \<Rightarrow> project_patch" where
  "sample_patch budget = \<lparr>pp_name = None, pp_purchaser_name = None, pp_timezone = Some ''Mars'', pp_budget = budget,
     pp_price_ceiling = None, pp_deadline_at = None, pp_cross_unit_group_id = None, pp_notes = None\<rparr>"

definition sample_money :: "nat \<Rightarrow> money" where
  "sample_money n = \<lparr>mo_amount = \<lparr>dec_neg = False, dec_coeff = n, dec_exp = 0\<rparr>, mo_currency = ''CNY''\<rparr>"

abbreviation sample_repo_1 :: fr01_repo where
  "sample_repo_1 \<equiv> upsert_project sample_project_1 empty_fr01"

definition patched_1 :: procurement_project where
  "patched_1 = updated_project sample_env (wide_identity 5) sample_project_1 (sample_patch (Some (sample_money 1))) 0 0"

definition patched_2 :: procurement_project where
  "patched_2 = updated_project sample_env (wide_identity 5) patched_1 (sample_patch (Some (sample_money 2))) 2 2"

definition repo_1_world :: "fr01_repo world" where
  "repo_1_world = sample_world\<lparr>w_repo := sample_repo_1\<rparr>"

lemma patch_facts:
  "pj_project_id patched_1 = 100" "project_visible (ic_scope (wide_identity 5)) patched_1"
  "pj_lifecycle_state sample_project_1 = RES_DRAFT" "pj_lifecycle_state patched_1 = RES_DRAFT"
  "ve_version_number (pj_version sample_project_1) = 1" "ve_version_number (pj_version patched_1) = 2"
  using sample_facts
  by (simp_all add: patched_1_def updated_project_def project_visible_def) (simp_all add: sample_defs)

lemma patched_runs:
  "\<exists>w1 w2. project_update_draft sample_env (wide_identity 5) 100 (current_etag sample_env (pj_version sample_project_1))
       (sample_patch (Some (sample_money 1))) ''req-1'' repo_1_world = (Inr patched_1, w1) \<and>
     project_update_draft sample_env (wide_identity 5) 100 (current_etag sample_env (pj_version patched_1))
       (sample_patch (Some (sample_money 2))) ''req-1'' w1 = (Inr patched_2, w2)"
proof -
  let ?i = "wide_identity 5"
  have g1: "get_project (ic_scope ?i) 100 sample_repo_1 = Some sample_project_1"
    using sample_facts by (simp add: projects.get_put)
  have g2: "get_project (ic_scope ?i) 100 (upsert_project patched_1 sample_repo_1) = Some patched_1"
    using patch_facts by (simp add: projects.get_put)
  have st: "standing sample_env sample_repo_1 0 0 repo_1_world"
    using sample_world_standing by (simp add: standing_def repo_1_world_def)
  have "runs sample_env (project_update_draft sample_env ?i 100 (current_etag sample_env (pj_version sample_project_1))
      (sample_patch (Some (sample_money 1))) ''req-1'') sample_repo_1 0 0 patched_1 (upsert_project patched_1 sample_repo_1) 2 2"
    using runs_project_update [OF sample_env_sha wide_scope g1 patch_facts(3), of "sample_patch (Some (sample_money 1))" "''req-1''" 0 0]
      patch_facts
    by (simp add: patched_1_def numeral_2_eq_2)
  then obtain w1 where w1: "project_update_draft sample_env ?i 100 (current_etag sample_env (pj_version sample_project_1))
      (sample_patch (Some (sample_money 1))) ''req-1'' repo_1_world = (Inr patched_1, w1)"
    "standing sample_env (upsert_project patched_1 sample_repo_1) 2 2 w1"
    using st by (auto simp: runs_def)
  have "runs sample_env (project_update_draft sample_env ?i 100 (current_etag sample_env (pj_version patched_1))
      (sample_patch (Some (sample_money 2))) ''req-1'') (upsert_project patched_1 sample_repo_1) 2 2 patched_2
      (upsert_project patched_2 (upsert_project patched_1 sample_repo_1)) 4 4"
    using runs_project_update [OF sample_env_sha wide_scope g2 patch_facts(4), of "sample_patch (Some (sample_money 2))" "''req-1''" 2 2]
      patch_facts
    by (simp add: patched_2_def)
  then show ?thesis using w1 by (fastforce simp: runs_def)
qed

theorem draft_updates_guarded_witness:
  "\<exists>old. get_project (ic_scope (wide_identity 5)) 100 (w_repo repo_1_world) = Some old \<and>
     ve_version_number (pj_version patched_1) = ve_version_number (pj_version old) + 1"
  using patched_runs draft_updates_guarded by blast

theorem etag_blind_to_money_witness:
  "current_etag sample_env (pj_version patched_2) = current_etag sample_env (pj_version patched_1) \<and>
   pj_budget patched_2 = Some (sample_money 2) \<and> pj_budget patched_1 = Some (sample_money 1)"
proof -
  obtain w1 w2 where runs: "project_update_draft sample_env (wide_identity 5) 100
      (current_etag sample_env (pj_version sample_project_1)) (sample_patch (Some (sample_money 1))) ''req-1'' repo_1_world =
      (Inr patched_1, w1)"
    "project_update_draft sample_env (wide_identity 5) 100 (current_etag sample_env (pj_version patched_1))
       (sample_patch (Some (sample_money 2))) ''req-1'' w1 = (Inr patched_2, w2)"
    using patched_runs by blast
  have "fr01_ok (w_repo repo_1_world)" by (simp add: repo_1_world_def)
  from etag_blind_to_money [OF runs _ _ refl this] show ?thesis
    by (simp add: sample_patch_def patched_1_def updated_project_def keep_def)
qed

definition sample_envelope :: event_envelope where
  "sample_envelope = \<lparr>ev_event_id = 40, ev_event_type = ''documents.parse_completed.v1'', ev_schema_version = 1,
     ev_tenant_id = 1, ev_data_domain_id = 2, ev_project_id = None, ev_decision_unit_id = None,
     ev_aggregate_type = ''SourceDocument'', ev_aggregate_id = 41, ev_occurred_at = 0, ev_actor_id = None,
     ev_request_id = ''req-1'', ev_correlation_id = 42, ev_causation_id = None, ev_payload = []\<rparr>"

definition sample_ref :: document_ref where
  "sample_ref = \<lparr>di_event_id = 40, di_event_type = ''documents.parse_completed.v1'', di_tenant_id = 1,
     di_data_domain_id = 2, di_project_id = None, di_decision_unit_id = None, di_document_id = Some 41,
     di_parse_job_id = None, di_usable_for_formal_rules = True, di_validity_state = VAL_CURRENT,
     di_occurred_at = 0, di_request_id = ''req-1''\<rparr>"

lemma sample_consumed:
  "consume (\<lambda>_. None) (\<lambda>_. []) sample_envelope sample_world =
     (Inr (Some sample_ref), sample_world\<lparr>w_repo := upsert_document_ref sample_ref empty_fr01\<rparr>)"
proof -
  have texts: "text_between 1 120 ''documents.parse_completed.v1''" "text_between 1 128 ''req-1''"
    by (simp_all add: text_between_ascii del: One_nat_def)
  have "document_ref_valid sample_ref"
    using texts by (simp add: document_ref_valid_def sample_ref_def del: One_nat_def)
  then show ?thesis
    by (simp add: consume_def sample_envelope_def sample_ref_def CONSUMED_DOCUMENT_EVENTS_def get_repo_def put_repo_def
        Let_def bindS_apply checkS_apply as_uuid_def keep_def sample_world_def get_document_ref_def stored_def empty_fr01_def)
qed

theorem inbox_idempotent_witness:
  "fst (consume (\<lambda>_. None) (\<lambda>_. []) sample_envelope
     (snd (consume (\<lambda>_. None) (\<lambda>_. []) sample_envelope sample_world))) = Inr (Some sample_ref)"
  using inbox_idempotent [OF sample_consumed refl] sample_consumed by simp

end
