(* ===== verification/Decimal_Arith.thy ===== *)
theory Decimal_Arith
  imports Complex_Main Py_Decimal
begin

text \<open>
  Arithmetic of \<open>decimal.Decimal\<close> in the default context, which the simulation computes with:
  28 significant digits, rounding half to even, results rounded after every operation, exact
  comparison. Exponents stay far from the limits of the context (\<open>999999\<close>), so overflow and
  underflow are left out. \<open>dec_rat\<close> is the number a decimal denotes; the lemmas say which
  operations are exact on it.
\<close>

section \<open>Rounding to the precision of the context\<close>

definition PREC :: nat where
  "PREC = 28"

definition num_digits :: "nat \<Rightarrow> nat" where
  "num_digits n = length (digits_of n)"

text \<open>\<open>n\<close> divided by \<open>m\<close>, rounded half to even.\<close>

definition half_even :: "nat \<Rightarrow> nat \<Rightarrow> nat" where
  "half_even n m =
     (let q = n div m; r = n mod m in
      if 2 * r > m \<or> (2 * r = m \<and> odd q) then q + 1 else q)"

definition dec_fix :: "decimal \<Rightarrow> decimal" where
  "dec_fix d =
     (if num_digits (dec_coeff d) \<le> PREC then d
      else
        let k = num_digits (dec_coeff d) - PREC;
            c = half_even (dec_coeff d) (10 ^ k)
        in if c = 10 ^ PREC
           then d\<lparr>dec_coeff := 10 ^ (PREC - 1), dec_exp := dec_exp d + int k + 1\<rparr>
           else d\<lparr>dec_coeff := c, dec_exp := dec_exp d + int k\<rparr>)"

section \<open>Operations\<close>

definition dec_int :: "decimal \<Rightarrow> int" where
  "dec_int d = (if dec_neg d then - int (dec_coeff d) else int (dec_coeff d))"

definition of_dec_int :: "bool \<Rightarrow> int \<Rightarrow> int \<Rightarrow> decimal" where
  "of_dec_int neg_zero i e =
     \<lparr>dec_neg = (i < 0 \<or> (i = 0 \<and> neg_zero)), dec_coeff = nat \<bar>i\<bar>, dec_exp = e\<rparr>"

text \<open>Both operands on the smaller exponent.\<close>

definition aligned :: "decimal \<Rightarrow> int \<Rightarrow> int" where
  "aligned d e = dec_int d * 10 ^ nat (dec_exp d - e)"

definition dec_nat :: "nat \<Rightarrow> decimal" where
  "dec_nat n = \<lparr>dec_neg = False, dec_coeff = n, dec_exp = 0\<rparr>"

definition dec_add :: "decimal \<Rightarrow> decimal \<Rightarrow> decimal" where
  "dec_add a b =
     (let e = min (dec_exp a) (dec_exp b) in
      dec_fix (of_dec_int (dec_neg a \<and> dec_neg b) (aligned a e + aligned b e) e))"

definition dec_negate :: "decimal \<Rightarrow> decimal" where
  "dec_negate d = d\<lparr>dec_neg := \<not> dec_neg d\<rparr>"

text \<open>\<open>a - b\<close>, \<open>-d\<close> (which turns a zero into a positive one) and \<open>abs(d)\<close>.\<close>

definition dec_sub :: "decimal \<Rightarrow> decimal \<Rightarrow> decimal" where
  "dec_sub a b = dec_add a (dec_negate b)"

definition dec_uminus :: "decimal \<Rightarrow> decimal" where
  "dec_uminus d = dec_fix (if dec_coeff d = 0 then d\<lparr>dec_neg := False\<rparr> else dec_negate d)"

definition dec_abs :: "decimal \<Rightarrow> decimal" where
  "dec_abs d = dec_fix (d\<lparr>dec_neg := False\<rparr>)"

definition dec_mul :: "decimal \<Rightarrow> decimal \<Rightarrow> decimal" where
  "dec_mul a b =
     dec_fix \<lparr>dec_neg = (dec_neg a \<noteq> dec_neg b), dec_coeff = dec_coeff a * dec_coeff b,
              dec_exp = dec_exp a + dec_exp b\<rparr>"

definition dec_less :: "decimal \<Rightarrow> decimal \<Rightarrow> bool" where
  "dec_less a b = (let e = min (dec_exp a) (dec_exp b) in aligned a e < aligned b e)"

definition dec_le :: "decimal \<Rightarrow> decimal \<Rightarrow> bool" where
  "dec_le a b \<longleftrightarrow> \<not> dec_less b a"

text \<open>\<open>sum(xs)\<close>, from the integer 0.\<close>

definition dec_sum :: "decimal list \<Rightarrow> decimal" where
  "dec_sum xs = foldl dec_add (dec_nat 0) xs"

text \<open>
  \<open>d.quantize(Decimal("0.0001"))\<close> for \<open>places = 4\<close>: rounded half to even to that many
  places, or \<open>InvalidOperation\<close> when the result needs more digits than the context has.
\<close>

definition dec_quantize :: "nat \<Rightarrow> decimal \<Rightarrow> decimal res" where
  "dec_quantize places d =
     (let c = (if dec_exp d \<ge> - int places then dec_coeff d * 10 ^ nat (dec_exp d + int places)
               else half_even (dec_coeff d) (10 ^ nat (- int places - dec_exp d)))
      in if num_digits c \<le> PREC then Inr \<lparr>dec_neg = dec_neg d, dec_coeff = c, dec_exp = - int places\<rparr>
         else Inl InvalidOperation)"

text \<open>
  Division by a decimal that is not zero: one digit more than the context holds, made odd when
  the quotient is not exact so that rounding it is rounding the quotient; exact quotients lose
  their trailing zeros down to the exponent of the operands.
\<close>

fun strip_zeros :: "nat \<Rightarrow> nat \<Rightarrow> int \<Rightarrow> nat \<times> int" where
  "strip_zeros 0 c e = (c, e)"
| "strip_zeros (Suc n) c e = (if c mod 10 = 0 then strip_zeros n (c div 10) (e + 1) else (c, e))"

definition dec_div :: "decimal \<Rightarrow> decimal \<Rightarrow> decimal" where
  "dec_div a b =
     (let neg = (dec_neg a \<noteq> dec_neg b);
          ideal = dec_exp a - dec_exp b in
      if dec_coeff a = 0 then \<lparr>dec_neg = neg, dec_coeff = 0, dec_exp = ideal\<rparr>
      else
        let shift = int (num_digits (dec_coeff b)) - int (num_digits (dec_coeff a)) + int PREC + 1;
            e = ideal - shift;
            n = (if shift \<ge> 0 then dec_coeff a * 10 ^ nat shift else dec_coeff a);
            m = (if shift \<ge> 0 then dec_coeff b else dec_coeff b * 10 ^ nat (- shift));
            q = n div m in
        dec_fix
          (if n mod m \<noteq> 0 then \<lparr>dec_neg = neg, dec_coeff = (if q mod 5 = 0 then q + 1 else q), dec_exp = e\<rparr>
           else let (c, e') = strip_zeros (nat (ideal - e)) q e in \<lparr>dec_neg = neg, dec_coeff = c, dec_exp = e'\<rparr>))"

section \<open>The number denoted\<close>

definition dec_rat :: "decimal \<Rightarrow> rat" where
  "dec_rat d = of_int (dec_int d) * power_int 10 (dec_exp d)"

lemma num_digits_le: "0 < k \<Longrightarrow> num_digits n \<le> k \<longleftrightarrow> n < 10 ^ k"
proof (induction n arbitrary: k rule: digits_of.induct)
  case (1 n)
  show ?case
  proof (cases "n < 10")
    case True
    then have "n < 10 ^ k" using 1(2) by (metis One_nat_def Suc_leI less_le_trans one_le_numeral power_increasing power_one_right)
    with True 1(2) show ?thesis by (simp add: num_digits_def digits_of.simps [of n])
  next
    case False
    then have len: "num_digits n = Suc (num_digits (n div 10))"
      by (simp add: num_digits_def digits_of.simps [of n])
    show ?thesis
    proof (cases "k = 1")
      case True
      with False len show ?thesis by (simp add: num_digits_def)
    next
      case k: False
      then obtain j where j: "k = Suc j" "0 < j" using 1(2) by (metis One_nat_def Suc_pred not_gr0)
      have "num_digits (n div 10) \<le> j \<longleftrightarrow> n div 10 < 10 ^ j"
        using 1(1) [OF False j(2)] .
      then show ?thesis using len j by (simp add: div_less_iff_less_mult mult.commute)
    qed
  qed
qed

lemma dec_rat_aligned: "e \<le> dec_exp d \<Longrightarrow> dec_rat d = of_int (aligned d e) * power_int 10 e"
proof -
  assume e: "e \<le> dec_exp d"
  obtain n where n: "dec_exp d = e + int n" using e by (metis zle_iff_zadd)
  have "power_int (10::rat) (dec_exp d) = 10 ^ n * power_int 10 e"
    unfolding n by (subst power_int_add) auto
  also have "10 ^ n = (10::rat) ^ nat (dec_exp d - e)" using n by simp
  finally show ?thesis by (simp add: dec_rat_def aligned_def)
qed

lemma dec_less_iff [simp]: "dec_less a b \<longleftrightarrow> dec_rat a < dec_rat b"
proof -
  let ?e = "min (dec_exp a) (dec_exp b)"
  have "dec_rat a < dec_rat b \<longleftrightarrow> (of_int (aligned a ?e) :: rat) * power_int 10 ?e < of_int (aligned b ?e) * power_int 10 ?e"
    by (simp add: dec_rat_aligned [of ?e])
  also have "\<dots> \<longleftrightarrow> aligned a ?e < aligned b ?e"
    by (subst mult_less_cancel_right_pos) auto
  finally show ?thesis by (simp add: dec_less_def Let_def)
qed

lemma dec_le_iff [simp]: "dec_le a b \<longleftrightarrow> dec_rat a \<le> dec_rat b"
  by (auto simp: dec_le_def)

lemma dec_int_of_dec_int [simp]: "dec_int (of_dec_int z i e) = i"
  by (auto simp: dec_int_def of_dec_int_def)

lemma dec_rat_of_dec_int [simp]: "dec_rat (of_dec_int z i e) = of_int i * power_int 10 e"
  unfolding dec_rat_def by (simp add: of_dec_int_def [of z i e, THEN arg_cong [where f = dec_exp], simplified])

lemma dec_nat_simps [simp]: "dec_neg (dec_nat n) = False" "dec_coeff (dec_nat n) = n" "dec_exp (dec_nat n) = 0"
  by (simp_all add: dec_nat_def)

lemma dec_rat_nat [simp]: "dec_rat (dec_nat n) = of_nat n"
  by (simp add: dec_rat_def dec_nat_def dec_int_def)

lemma dec_fix_small [simp]: "dec_coeff d < 10 ^ 28 \<Longrightarrow> dec_fix d = d"
  by (simp add: dec_fix_def PREC_def num_digits_le)

lemma dec_rat_negate [simp]: "dec_rat (dec_negate d) = - dec_rat d"
  by (simp add: dec_rat_def dec_int_def dec_negate_def)

lemma dec_rat_abs: "\<bar>dec_rat d\<bar> = of_nat (dec_coeff d) * power_int 10 (dec_exp d)"
  by (simp add: dec_rat_def dec_int_def abs_mult)

lemma dec_add_exact:
  assumes "nat \<bar>aligned a e + aligned b e\<bar> < 10 ^ 28" and "e = min (dec_exp a) (dec_exp b)"
  shows "dec_rat (dec_add a b) = dec_rat a + dec_rat b"
proof -
  have "dec_coeff (of_dec_int z (aligned a e + aligned b e) e) < 10 ^ 28" for z
    using assms(1) by (simp add: of_dec_int_def)
  then have "dec_add a b = of_dec_int (dec_neg a \<and> dec_neg b) (aligned a e + aligned b e) e"
    by (simp add: dec_add_def Let_def assms(2) [symmetric])
  moreover have "dec_rat a = of_int (aligned a e) * power_int 10 e" "dec_rat b = of_int (aligned b e) * power_int 10 e"
    using assms(2) by (simp_all add: dec_rat_aligned)
  ultimately show ?thesis by (simp add: algebra_simps)
qed

section \<open>How far rounding moves a number\<close>

lemma half_even_near: "0 < m \<Longrightarrow> 2 * \<bar>int (half_even n m) * int m - int n\<bar> \<le> int m"
proof -
  assume m: "0 < m"
  have n: "int n = int (n div m) * int m + int (n mod m)"
    by (metis div_mult_mod_eq of_nat_add of_nat_mult)
  have r: "int (n mod m) < int m" using m by simp
  consider "half_even n m = n div m" "2 * int (n mod m) \<le> int m" | "half_even n m = n div m + 1" "2 * int (n mod m) \<ge> int m"
    by (fastforce simp: half_even_def Let_def split: if_splits)
  then show ?thesis
  proof cases
    case 1
    then show ?thesis using n by simp
  next
    case 2
    then show ?thesis using n r by (simp add: algebra_simps)
  qed
qed

lemma near_both: "2 * \<bar>a - n\<bar> \<le> (m :: int) \<Longrightarrow> 2 * \<bar>b - n\<bar> < m \<Longrightarrow> 2 * \<bar>a - b\<bar> < 2 * m"
  using abs_triangle_ineq4 [of "a - n" "b - n"] by simp

lemma half_even_unique:
  assumes "0 < m" and "2 * \<bar>int k * int m - int n\<bar> < int m"
  shows "half_even n m = k"
proof -
  have "2 * \<bar>int (half_even n m) * int m - int k * int m\<bar> < 2 * int m"
    using half_even_near [OF assms(1)] assms(2) by (rule near_both)
  then have "\<bar>int (half_even n m) - int k\<bar> * int m < 1 * int m"
    by (simp add: left_diff_distrib [symmetric] abs_mult)
  then have "\<bar>int (half_even n m) - int k\<bar> < 1"
    by (rule mult_right_less_imp_less) simp
  then show ?thesis by simp
qed

lemma signed_diff:
  "\<bar>sg\<bar> = 1 \<Longrightarrow> 0 \<le> p \<Longrightarrow> \<bar>sg * u * p - sg * v * p\<bar> = \<bar>u - v\<bar> * (p :: rat)"
proof -
  assume s: "\<bar>sg\<bar> = 1" "0 \<le> p"
  have "sg * u * p - sg * v * p = sg * ((u - v) * p)" by (simp add: algebra_simps)
  then show ?thesis using s by (simp add: abs_mult)
qed

text \<open>Rounding to the context moves a number below one by at most \<open>10^-28\<close>.\<close>

lemma dec_fix_near:
  assumes "\<bar>dec_rat d\<bar> < 1"
  shows "\<bar>dec_rat (dec_fix d) - dec_rat d\<bar> \<le> power_int 10 (-28)"
proof (cases "num_digits (dec_coeff d) \<le> PREC")
  case True
  then show ?thesis by (simp add: dec_fix_def)
next
  case False
  define k where "k = num_digits (dec_coeff d) - PREC"
  define c where "c = half_even (dec_coeff d) (10 ^ k)"
  have digits: "num_digits (dec_coeff d) = 28 + k" "0 < k" using False by (auto simp: k_def PREC_def)
  have big: "10 ^ (27 + k) \<le> dec_coeff d"
    using num_digits_le [of "27 + k" "dec_coeff d"] digits by simp
  have "(10::rat) ^ (27 + k) * power_int 10 (dec_exp d) \<le> of_nat (dec_coeff d) * power_int 10 (dec_exp d)"
  proof (rule mult_right_mono)
    show "(10::rat) ^ (27 + k) \<le> of_nat (dec_coeff d)"
      using big by (metis of_nat_le_iff of_nat_numeral of_nat_power)
  qed simp
  also have "\<dots> < 1" using assms by (simp add: dec_rat_abs)
  finally have "power_int (10::rat) (int (27 + k) + dec_exp d) < 1"
    unfolding power_int_of_nat [symmetric] by (metis power_int_add zero_neq_numeral)
  then have e: "int (27 + k) + dec_exp d < 0"
    by (metis less_irrefl not_less one_le_power_int one_le_numeral less_le_trans)
  have eq: "dec_fix d = (if c = 10 ^ 28 then d\<lparr>dec_coeff := 10 ^ 27, dec_exp := dec_exp d + int k + 1\<rparr>
      else d\<lparr>dec_coeff := c, dec_exp := dec_exp d + int k\<rparr>)"
    using False unfolding dec_fix_def Let_def k_def [symmetric] c_def [symmetric] by (simp add: PREC_def)
  have fixed: "dec_int (dec_fix d) = (if dec_neg d then - 1 else 1) * (if c = 10 ^ 28 then 10 ^ 27 else int c)"
      "dec_exp (dec_fix d) = dec_exp d + int k + (if c = 10 ^ 28 then 1 else 0)"
    using eq by (auto simp: dec_int_def)
  have r: "dec_rat (dec_fix d) = (if dec_neg d then - 1 else 1) * of_nat c * power_int 10 (int k + dec_exp d)"
    by (cases "c = 10 ^ 28") (simp_all add: dec_rat_def fixed power_int_add)
  have d: "dec_rat d = (if dec_neg d then - 1 else 1) * (of_nat (dec_coeff d) / 10 ^ k) * power_int 10 (int k + dec_exp d)"
    by (simp add: dec_rat_def dec_int_def power_int_add)
  have "(2::rat) * \<bar>of_nat c * 10 ^ k - of_nat (dec_coeff d)\<bar> \<le> 10 ^ k"
  proof -
    have "of_int (2 * \<bar>int c * int (10 ^ k) - int (dec_coeff d)\<bar>) \<le> (of_int (int (10 ^ k)) :: rat)"
      using half_even_near [of "10 ^ k" "dec_coeff d"] unfolding c_def of_int_le_iff by simp
    then show ?thesis by simp
  qed
  then have "\<bar>of_nat c - of_nat (dec_coeff d) / 10 ^ k\<bar> \<le> (1 :: rat)"
  proof -
    assume near: "2 * \<bar>of_nat c * 10 ^ k - of_nat (dec_coeff d)\<bar> \<le> (10 :: rat) ^ k"
    have "of_nat c - of_nat (dec_coeff d) / (10 :: rat) ^ k = (of_nat c * 10 ^ k - of_nat (dec_coeff d)) / 10 ^ k"
      by (simp add: field_simps)
    then have "\<bar>of_nat c - of_nat (dec_coeff d) / (10 :: rat) ^ k\<bar> = \<bar>of_nat c * 10 ^ k - of_nat (dec_coeff d)\<bar> / 10 ^ k"
      by simp
    also have "\<dots> \<le> 1"
    proof -
      have "\<bar>of_nat c * 10 ^ k - of_nat (dec_coeff d)\<bar> \<le> (10 :: rat) ^ k"
        by (rule order_trans [rotated, OF near]) simp
      then show ?thesis by simp
    qed
    finally show ?thesis .
  qed
  moreover have "\<bar>dec_rat (dec_fix d) - dec_rat d\<bar> = \<bar>of_nat c - of_nat (dec_coeff d) / 10 ^ k\<bar> * power_int 10 (int k + dec_exp d)"
    unfolding r d by (rule signed_diff) auto
  ultimately have "\<bar>dec_rat (dec_fix d) - dec_rat d\<bar> \<le> power_int 10 (int k + dec_exp d)"
    by (simp add: mult_le_cancel_right1 mult.commute)
  also have "\<dots> \<le> power_int 10 (-28)"
    using e by (intro power_int_increasing) auto
  finally show ?thesis .
qed

text \<open>A number closer than half a unit to \<open>k\<close> units of the last place is quantised to \<open>k\<close>.\<close>

lemma scaled_coeff: "of_nat (dec_coeff d) * power_int 10 (dec_exp d) * 10 ^ p = (of_nat (dec_coeff d) * power_int 10 (dec_exp d + int p) :: rat)"
  by (subst power_int_add) simp_all

lemma dec_quantize_near:
  assumes pos: "\<not> dec_neg d" and k: "k < 10 ^ 28"
    and near: "2 * \<bar>dec_rat d * 10 ^ p - of_nat k\<bar> < 1"
  shows "dec_quantize p d = Inr \<lparr>dec_neg = False, dec_coeff = k, dec_exp = - int p\<rparr>"
proof -
  let ?c = "if dec_exp d \<ge> - int p then dec_coeff d * 10 ^ nat (dec_exp d + int p)
      else half_even (dec_coeff d) (10 ^ nat (- int p - dec_exp d))"
  have v: "dec_rat d * 10 ^ p = of_nat (dec_coeff d) * power_int 10 (dec_exp d + int p)"
    using scaled_coeff [of d p] pos by (simp add: dec_rat_def dec_int_def)
  have "?c = k"
  proof (cases "dec_exp d \<ge> - int p")
    case True
    then have "power_int (10::rat) (dec_exp d + int p) = 10 ^ nat (dec_exp d + int p)"
      by (simp add: power_int_def)
    with v have "dec_rat d * 10 ^ p = of_int (int (dec_coeff d * 10 ^ nat (dec_exp d + int p)))" by simp
    with near have "of_int (2 * \<bar>int (dec_coeff d * 10 ^ nat (dec_exp d + int p)) - int k\<bar>) < (of_int 1 :: rat)"
      by simp
    then have "2 * \<bar>int (dec_coeff d * 10 ^ nat (dec_exp d + int p)) - int k\<bar> < 1"
      unfolding of_int_less_iff .
    then have "int (dec_coeff d * 10 ^ nat (dec_exp d + int p)) = int k" by presburger
    then have "dec_coeff d * 10 ^ nat (dec_exp d + int p) = k" unfolding of_nat_eq_iff .
    then show ?thesis using True by simp
  next
    case False
    define m where "m = (10::nat) ^ nat (- int p - dec_exp d)"
    have m: "0 < m" by (simp add: m_def)
    have "power_int (10::rat) (dec_exp d + int p) = 1 / of_nat m"
      using False by (simp add: m_def power_int_def field_simps)
    with v have "dec_rat d * 10 ^ p = of_nat (dec_coeff d) / of_nat m" by simp
    with near have "2 * \<bar>of_nat (dec_coeff d) / of_nat m - of_nat k\<bar> < (1 :: rat)" by simp
    then have "2 * \<bar>of_nat (dec_coeff d) / of_nat m - of_nat k\<bar> * of_nat m < (1 :: rat) * of_nat m"
      using m by (intro mult_strict_right_mono) auto
    also have "2 * \<bar>of_nat (dec_coeff d) / of_nat m - of_nat k\<bar> * of_nat m = 2 * \<bar>of_nat (dec_coeff d) - of_nat k * (of_nat m :: rat)\<bar>"
    proof -
      have "\<bar>of_nat (dec_coeff d) / of_nat m - of_nat k\<bar> * of_nat m = \<bar>(of_nat (dec_coeff d) / of_nat m - of_nat k) * (of_nat m :: rat)\<bar>"
        by (simp add: abs_mult)
      also have "(of_nat (dec_coeff d) / of_nat m - of_nat k) * (of_nat m :: rat) = of_nat (dec_coeff d) - of_nat k * of_nat m"
        using m by (simp add: field_simps)
      finally show ?thesis by simp
    qed
    finally have "of_int (2 * \<bar>int k * int m - int (dec_coeff d)\<bar>) < (of_int (int m) :: rat)"
      by (simp add: abs_minus_commute)
    then have "half_even (dec_coeff d) m = k"
      unfolding of_int_less_iff by (rule half_even_unique [OF m])
    then show ?thesis using False by (simp add: m_def)
  qed
  moreover have "num_digits k \<le> PREC" using k by (simp add: PREC_def num_digits_le)
  ultimately show ?thesis using pos by (simp only: dec_quantize_def Let_def) simp
qed

end
