(* ===== verification/Sim_Models.thy ===== *)
theory Sim_Models
  imports Decimal_Arith World
begin

text \<open>
  The data of the simulation module, \<open>modules/simulation/domain/models.py\<close>: decimal numbers
  carried as text (\<open>DecimalStr\<close>), the enumerations, and the immutable aggregates. Free texts
  for people (\<open>detail\<close>) are left out, as they are in exceptions; \<open>Any\<close>-valued parameters
  are JSON values. A frozen set is a list whose order is the one the set iterates in.
\<close>

section \<open>Decimals as text\<close>

text \<open>
  The pattern \<open>^-?\d+(\.\d+)?$\<close>, on ASCII digits, and the number a valid text stands for; text
  that fails the pattern never becomes a \<open>DecimalStr\<close>.
\<close>

definition decimal_text :: "string \<Rightarrow> bool" where
  "decimal_text s =
     (let body = (if s \<noteq> [] \<and> hd s = CHR ''-'' then tl s else s);
          rest = dropWhile is_digit body
      in takeWhile is_digit body \<noteq> [] \<and>
         (rest = [] \<or> hd rest = CHR ''.'' \<and> tl rest \<noteq> [] \<and> list_all is_digit (tl rest)))"

definition to_dec :: "string \<Rightarrow> decimal" where
  "to_dec s = (case parse_f s of Some d \<Rightarrow> d | None \<Rightarrow> dec_nat 0)"

text \<open>\<open>DecimalStr.coerce\<close> on text, and \<open>DecimalStr.from_decimal\<close>.\<close>

definition coerce_text :: "string \<Rightarrow> string res" where
  "coerce_text s = (if decimal_text s then Inr s else Inl ValueError)"

definition rstrip_char :: "char \<Rightarrow> string \<Rightarrow> string" where
  "rstrip_char c s = rev (dropWhile (\<lambda>x. x = c) (rev s))"

definition from_decimal :: "decimal \<Rightarrow> string res" where
  "from_decimal d =
     (let text = format_f d;
          cut = (if CHR ''.'' \<in> set text then rstrip_char (CHR ''.'') (rstrip_char (CHR ''0'') text) else text);
          value = (if cut = [] then ''0'' else cut)
      in if decimal_text value then Inr value else Inl ValidationError)"

section \<open>Enumerations\<close>

datatype baseline_state =
    BASE_DRAFT
  | BASE_FROZEN
  | BASE_SUPERSEDED
  | BASE_INVALIDATED

datatype search_space_state =
    SPACE_DRAFT
  | SPACE_FROZEN
  | SPACE_SUPERSEDED
  | SPACE_INVALIDATED

datatype scenario_set_state =
    SET_DRAFT
  | SET_FROZEN
  | SET_SUPERSEDED
  | SET_INVALIDATED

datatype scenario_kind =
    KIND_SEARCH
  | KIND_EVALUATION
  | KIND_STRESS

primrec kind_value :: "scenario_kind \<Rightarrow> string" where
  "kind_value KIND_SEARCH = ''SEARCH''"
| "kind_value KIND_EVALUATION = ''EVALUATION''"
| "kind_value KIND_STRESS = ''STRESS''"

datatype batch_state =
    BATCH_PENDING
  | BATCH_RUNNING
  | BATCH_SUCCEEDED
  | BATCH_INDETERMINATE
  | BATCH_FAILED_RETRYABLE
  | BATCH_FAILED_TERMINAL
  | BATCH_CANCELLED

primrec batch_value :: "batch_state \<Rightarrow> string" where
  "batch_value BATCH_PENDING = ''PENDING''"
| "batch_value BATCH_RUNNING = ''RUNNING''"
| "batch_value BATCH_SUCCEEDED = ''SUCCEEDED''"
| "batch_value BATCH_INDETERMINATE = ''INDETERMINATE''"
| "batch_value BATCH_FAILED_RETRYABLE = ''FAILED_RETRYABLE''"
| "batch_value BATCH_FAILED_TERMINAL = ''FAILED_TERMINAL''"
| "batch_value BATCH_CANCELLED = ''CANCELLED''"

datatype optimization_state =
    OPT_DRAFT
  | OPT_RUNNING
  | OPT_SUCCEEDED
  | OPT_FAILED
  | OPT_INVALIDATED
  | OPT_FINALIZED

primrec optimization_value :: "optimization_state \<Rightarrow> string" where
  "optimization_value OPT_DRAFT = ''DRAFT''"
| "optimization_value OPT_RUNNING = ''RUNNING''"
| "optimization_value OPT_SUCCEEDED = ''SUCCEEDED''"
| "optimization_value OPT_FAILED = ''FAILED''"
| "optimization_value OPT_INVALIDATED = ''INVALIDATED''"
| "optimization_value OPT_FINALIZED = ''FINALIZED''"

datatype plan_state =
    PLAN_DRAFT
  | PLAN_PUBLISHED
  | PLAN_INVALIDATED

datatype eligibility_state =
    ELIG_ELIGIBLE
  | ELIG_INELIGIBLE
  | ELIG_INDETERMINATE

primrec eligibility_value :: "eligibility_state \<Rightarrow> string" where
  "eligibility_value ELIG_ELIGIBLE = ''ELIGIBLE''"
| "eligibility_value ELIG_INELIGIBLE = ''INELIGIBLE''"
| "eligibility_value ELIG_INDETERMINATE = ''INDETERMINATE''"

datatype snapshot_state =
    SNAP_DRAFT
  | SNAP_LOCKED

primrec snapshot_value :: "snapshot_state \<Rightarrow> string" where
  "snapshot_value SNAP_DRAFT = ''DRAFT''"
| "snapshot_value SNAP_LOCKED = ''LOCKED''"

datatype award_mode =
    AWARD_SINGLE
  | AWARD_MULTI
  | AWARD_NONE

datatype review_validity =
    REVIEW_CURRENT
  | REVIEW_UNKNOWN
  | REVIEW_EXPIRED
  | REVIEW_INVALIDATED

primrec review_validity_value :: "review_validity \<Rightarrow> string" where
  "review_validity_value REVIEW_CURRENT = ''CURRENT''"
| "review_validity_value REVIEW_UNKNOWN = ''UNKNOWN''"
| "review_validity_value REVIEW_EXPIRED = ''EXPIRED''"
| "review_validity_value REVIEW_INVALIDATED = ''INVALIDATED''"

datatype objective_kind =
    OBJECTIVE_COST_MIN
  | OBJECTIVE_MARGIN_MAX
  | OBJECTIVE_COVERAGE_MAX
  | OBJECTIVE_RISK_MIN

datatype stress_axis =
    AXIS_PRICE_BAND
  | AXIS_TIMING
  | AXIS_COMPLIANCE
  | AXIS_PROVIDER_OUTAGE
  | AXIS_UNIT_FAILURE

primrec axis_value :: "stress_axis \<Rightarrow> string" where
  "axis_value AXIS_PRICE_BAND = ''PRICE_BAND''"
| "axis_value AXIS_TIMING = ''TIMING''"
| "axis_value AXIS_COMPLIANCE = ''COMPLIANCE''"
| "axis_value AXIS_PROVIDER_OUTAGE = ''PROVIDER_OUTAGE''"
| "axis_value AXIS_UNIT_FAILURE = ''UNIT_FAILURE''"

datatype static_status =
    STATIC_PASS
  | STATIC_FAIL
  | STATIC_INDETERMINATE

primrec static_value :: "static_status \<Rightarrow> string" where
  "static_value STATIC_PASS = ''PASS''"
| "static_value STATIC_FAIL = ''FAIL''"
| "static_value STATIC_INDETERMINATE = ''INDETERMINATE''"

section \<open>Aggregates\<close>

record manifest_item =
  mi_item_id :: uuid
  mi_upstream_type :: string
  mi_upstream_id :: uuid
  mi_upstream_version_id :: uuid
  mi_upstream_content_hash :: string
  mi_dependency_type :: string
  mi_recorded_at :: timestamp

record input_manifest =
  mf_manifest_id :: uuid
  mf_manifest_hash :: string
  mf_items :: "manifest_item list"

record decision_baseline =
  ba_baseline_id :: uuid
  ba_version_id :: uuid
  ba_tenant_id :: uuid
  ba_data_domain_id :: uuid
  ba_project_id :: "uuid option"
  ba_decision_unit_id :: uuid
  ba_manifest :: input_manifest
  ba_state :: baseline_state
  ba_frozen_at :: "timestamp option"
  ba_frozen_by :: "uuid option"
  ba_created_at :: timestamp
  ba_created_by :: uuid
  ba_superseded_at :: "timestamp option"
  ba_superseded_by :: "uuid option"
  ba_invalidated_at :: "timestamp option"
  ba_invalidated_by :: "uuid option"

record search_space =
  ss_search_space_id :: uuid
  ss_version_id :: uuid
  ss_tenant_id :: uuid
  ss_data_domain_id :: uuid
  ss_project_id :: "uuid option"
  ss_decision_unit_id :: uuid
  ss_baseline_version_id :: uuid
  ss_description :: string
  ss_state :: search_space_state
  ss_dimension_axes :: "string list"
  ss_candidate_count_lower_bound :: int
  ss_created_at :: timestamp
  ss_created_by :: uuid
  ss_frozen_at :: "timestamp option"
  ss_frozen_by :: "uuid option"

record scenario_member =
  sm_scenario_id :: uuid
  sm_scenario_kind :: scenario_kind
  sm_weight :: string
  sm_label :: string
  sm_params :: "(string \<times> json) list"

record scenario_set =
  st_scenario_set_id :: uuid
  st_version_id :: uuid
  st_tenant_id :: uuid
  st_data_domain_id :: uuid
  st_project_id :: "uuid option"
  st_decision_unit_id :: uuid
  st_baseline_version_id :: uuid
  st_search_space_version_id :: uuid
  st_evaluation_space_version_id :: "uuid option"
  st_stress_axes :: "stress_axis list"
  st_state :: scenario_set_state
  st_members :: "scenario_member list"
  st_created_at :: timestamp
  st_created_by :: uuid
  st_frozen_at :: "timestamp option"
  st_frozen_by :: "uuid option"

record simulation_batch =
  sb_batch_id :: uuid
  sb_version_id :: uuid
  sb_tenant_id :: uuid
  sb_data_domain_id :: uuid
  sb_project_id :: "uuid option"
  sb_decision_unit_id :: uuid
  sb_baseline_version_id :: uuid
  sb_scenario_set_version_id :: uuid
  sb_award_mode :: award_mode
  sb_state :: batch_state
  sb_policy_threshold :: string
  sb_candidate_count :: int
  sb_progress_percent :: int
  sb_requested_by :: uuid
  sb_created_at :: timestamp
  sb_last_updated_at :: timestamp

record simulation_candidate =
  ca_candidate_id :: uuid
  ca_batch_id :: uuid
  ca_version_id :: uuid
  ca_tenant_id :: uuid
  ca_data_domain_id :: uuid
  ca_project_id :: "uuid option"
  ca_decision_unit_id :: uuid
  ca_label :: string
  ca_parameters :: "(string \<times> json) list"
  ca_expected_cost :: string
  ca_expected_margin :: string
  ca_created_at :: timestamp

record static_validation =
  sv_validation_id :: uuid
  sv_candidate_id :: uuid
  sv_batch_id :: uuid
  sv_tenant_id :: uuid
  sv_data_domain_id :: uuid
  sv_project_id :: "uuid option"
  sv_decision_unit_id :: uuid
  sv_status :: static_status
  sv_rule_codes :: "string list"
  sv_assessed_at :: timestamp

record scenario_outcome =
  oc_outcome_id :: uuid
  oc_candidate_id :: uuid
  oc_scenario_id :: uuid
  oc_batch_id :: uuid
  oc_tenant_id :: uuid
  oc_data_domain_id :: uuid
  oc_project_id :: "uuid option"
  oc_decision_unit_id :: uuid
  oc_feasible :: bool
  oc_expected_payoff :: string
  oc_p_win :: string
  oc_evaluated_at :: timestamp
  oc_review_validity :: review_validity

record strategy_assessment =
  sy_assessment_id :: uuid
  sy_candidate_id :: uuid
  sy_scenario_id :: uuid
  sy_batch_id :: uuid
  sy_tenant_id :: uuid
  sy_data_domain_id :: uuid
  sy_project_id :: "uuid option"
  sy_decision_unit_id :: uuid
  sy_review_validity :: review_validity
  sy_summary :: string
  sy_recommended :: bool
  sy_assessed_at :: timestamp
  sy_reason_code :: string

record stress_assessment =
  sx_assessment_id :: uuid
  sx_run_id :: uuid
  sx_tenant_id :: uuid
  sx_data_domain_id :: uuid
  sx_project_id :: "uuid option"
  sx_decision_unit_id :: uuid
  sx_axis :: stress_axis
  sx_passed :: bool
  sx_detail :: string
  sx_assessed_at :: timestamp
  sx_stress_weight :: string

record plan_member =
  pm_candidate_id :: uuid
  pm_linkage :: string
  pm_weight :: string

record strategy_plan =
  sp_plan_id :: uuid
  sp_run_id :: uuid
  sp_version_id :: uuid
  sp_tenant_id :: uuid
  sp_data_domain_id :: uuid
  sp_project_id :: "uuid option"
  sp_decision_unit_id :: uuid
  sp_state :: plan_state
  sp_award_mode :: award_mode
  sp_objective_kind :: objective_kind
  sp_members :: "plan_member list"
  sp_p_minus :: string
  sp_p_plus :: string
  sp_coverage :: string
  sp_created_at :: timestamp
  sp_published_at :: "timestamp option"
  sp_invalidated_at :: "timestamp option"
  sp_invalidated_by :: "uuid option"
  sp_published_by :: "uuid option"
  sp_linked_run_version_id :: uuid

record merge_assessment =
  ma_merge_id :: uuid
  ma_run_id :: uuid
  ma_plan_id :: uuid
  ma_tenant_id :: uuid
  ma_data_domain_id :: uuid
  ma_project_id :: "uuid option"
  ma_decision_unit_id :: uuid
  ma_linkage :: string
  ma_tau_b :: string
  ma_tau_m :: string
  ma_accepted :: bool
  ma_blocked_reason_code :: "string option"
  ma_assessed_at :: timestamp

record optimization_run =
  ru_run_id :: uuid
  ru_batch_id :: uuid
  ru_version_id :: uuid
  ru_tenant_id :: uuid
  ru_data_domain_id :: uuid
  ru_project_id :: "uuid option"
  ru_decision_unit_id :: uuid
  ru_state :: optimization_state
  ru_award_mode :: award_mode
  ru_objective_kind :: objective_kind
  ru_policy_threshold :: string
  ru_progress_percent :: int
  ru_requested_by :: uuid
  ru_created_at :: timestamp
  ru_finalized_at :: "timestamp option"
  ru_invalidated_at :: "timestamp option"
  ru_invalidated_by :: "uuid option"

record recommendation_eligibility =
  re_eligibility_id :: uuid
  re_version_id :: uuid
  re_tenant_id :: uuid
  re_data_domain_id :: uuid
  re_project_id :: "uuid option"
  re_decision_unit_id :: uuid
  re_state :: eligibility_state
  re_blocked_reason_codes :: "string list"
  re_upstream_validity :: "(string, review_validity) dict"
  re_baseline_version_id :: uuid
  re_snapshot_version_id :: "uuid option"
  re_assessed_at :: timestamp
  re_assessed_by :: uuid

record assessment_snapshot =
  sn_snapshot_id :: uuid
  sn_version_id :: uuid
  sn_tenant_id :: uuid
  sn_data_domain_id :: uuid
  sn_project_id :: "uuid option"
  sn_decision_unit_id :: uuid
  sn_state :: snapshot_state
  sn_watermark :: string
  sn_payload_hash :: string
  sn_payload :: "(string \<times> json) list"
  sn_created_at :: timestamp
  sn_created_by :: uuid
  sn_locked_at :: "timestamp option"
  sn_locked_by :: "uuid option"

definition SHADOW_PILOT_LOCKED_WATERMARK :: string where
  "SHADOW_PILOT_LOCKED_WATERMARK = ''SHADOW_PILOT_LOCKED''"

section \<open>Field checks of the aggregates\<close>

text \<open>The checks the constructors run, for the aggregates that the services construct.\<close>

definition manifest_valid :: "input_manifest \<Rightarrow> bool" where
  "manifest_valid m \<longleftrightarrow> is_hash (mf_manifest_hash m) \<and> mf_items m \<noteq> []"

definition baseline_valid :: "decision_baseline \<Rightarrow> bool" where
  "baseline_valid b \<longleftrightarrow>
     (ba_state b \<in> {BASE_FROZEN, BASE_SUPERSEDED} \<longrightarrow> ba_frozen_at b \<noteq> None \<and> ba_frozen_by b \<noteq> None)"

definition search_space_valid :: "search_space \<Rightarrow> bool" where
  "search_space_valid s \<longleftrightarrow>
     text_between 1 400 (ss_description s) \<and> ss_dimension_axes s \<noteq> [] \<and> ss_candidate_count_lower_bound s \<ge> 1"

definition member_valid :: "scenario_member \<Rightarrow> bool" where
  "member_valid m \<longleftrightarrow> decimal_text (sm_weight m) \<and> text_between 1 120 (sm_label m)"

definition scenario_set_valid :: "scenario_set \<Rightarrow> bool" where
  "scenario_set_valid s \<longleftrightarrow> st_members s \<noteq> []"

definition batch_valid :: "simulation_batch \<Rightarrow> bool" where
  "batch_valid b \<longleftrightarrow>
     sb_candidate_count b \<ge> 0 \<and> 0 \<le> sb_progress_percent b \<and> sb_progress_percent b \<le> 100"

definition candidate_valid :: "simulation_candidate \<Rightarrow> bool" where
  "candidate_valid c \<longleftrightarrow> text_between 1 160 (ca_label c)"

definition strategy_valid :: "strategy_assessment \<Rightarrow> bool" where
  "strategy_valid a \<longleftrightarrow> text_between 3 120 (sy_reason_code a)"

definition snapshot_valid :: "assessment_snapshot \<Rightarrow> bool" where
  "snapshot_valid s \<longleftrightarrow> is_hash (sn_payload_hash s)"

section \<open>Facts on decimal text\<close>

lemma decimal_text_parses: "decimal_text s \<Longrightarrow> parse_f s \<noteq> None"
  by (auto simp: decimal_text_def parse_f_def Let_def split: if_splits)

lemma decimal_text_whole:
  assumes "w \<noteq> []" "\<forall>c \<in> set w. is_digit c"
  shows "decimal_text ((if neg then ''-'' else []) @ w)"
proof -
  have "is_digit (hd w)" using assms by simp
  then have "hd w \<noteq> CHR ''-''" by auto
  moreover have "takeWhile is_digit w \<noteq> []" "dropWhile is_digit w = []"
    using assms by (cases w; simp)+
  ultimately show ?thesis using assms(1) by (simp add: decimal_text_def Let_def)
qed

lemma decimal_text_fraction:
  assumes "w \<noteq> []" "\<forall>c \<in> set w. is_digit c" "f \<noteq> []" "\<forall>c \<in> set f. is_digit c"
  shows "decimal_text ((if neg then ''-'' else []) @ w @ ''.'' @ f)"
proof -
  have "is_digit (hd w)" using assms by simp
  then have "hd (w @ ''.'' @ f) \<noteq> CHR ''-''" using assms(1) by auto
  moreover have "takeWhile is_digit (w @ ''.'' @ f) = w" "dropWhile is_digit (w @ ''.'' @ f) = ''.'' @ f"
    using assms(2) by (auto simp: takeWhile_append dropWhile_append)
  ultimately show ?thesis using assms by (auto simp: decimal_text_def list_all_iff)
qed

text \<open>The fixed-point text of a decimal: digits, or digits with a fraction.\<close>

lemma format_f_shape:
  obtains (whole) w where "w \<noteq> []" "\<forall>c \<in> set w. is_digit c" "format_f d = (if dec_neg d then ''-'' else []) @ w"
      "dec_coeff d * 10 ^ nat (dec_exp d) = nat_of_digits w" "0 \<le> dec_exp d"
  | (fraction) w f where "w \<noteq> []" "\<forall>c \<in> set w. is_digit c" "f \<noteq> []" "\<forall>c \<in> set f. is_digit c"
      "format_f d = (if dec_neg d then ''-'' else []) @ w @ ''.'' @ f"
      "dec_coeff d = nat_of_digits (w @ f)" "dec_exp d = - int (length f)"
proof -
  let ?ds = "digits_of (dec_coeff d)" and ?k = "nat (- dec_exp d)"
  consider (int) "dec_exp d \<ge> 0" | (split) "dec_exp d < 0" "length ?ds > ?k" | (pad) "dec_exp d < 0" "length ?ds \<le> ?k"
    by linarith
  then show thesis
  proof cases
    case int
    show thesis
      by (rule whole [of "if dec_coeff d = 0 then ?ds else ?ds @ replicate (nat (dec_exp d)) (CHR ''0'')"])
        (use int in \<open>auto simp: format_f_def decimal_digits_def nat_of_digits_append digits_of_digit\<close>)
  next
    case split
    show thesis
      by (rule fraction [of "take (length ?ds - ?k) ?ds" "drop (length ?ds - ?k) ?ds"])
        (use split in \<open>auto simp: format_f_def decimal_digits_def Let_def digits_of_digit dest!: in_set_takeD in_set_dropD\<close>)
  next
    case pad
    have "nat_of_digits (''0'' @ replicate (?k - length ?ds) (CHR ''0'') @ ?ds) = dec_coeff d"
      by (simp only: nat_of_digits_append [of "''0''"] nat_of_digits_pad nat_of_digits_of) (simp add: nat_of_digits_def)
    then show thesis
      by (intro fraction [of "''0''" "replicate (?k - length ?ds) (CHR ''0'') @ ?ds"])
        (use pad in \<open>auto simp: format_f_def decimal_digits_def Let_def digits_of_digit\<close>)
  qed
qed

lemma rstrip_char_stop: "y \<noteq> c \<Longrightarrow> rstrip_char c (xs @ y # replicate n c) = xs @ [y]"
  by (simp add: rstrip_char_def dropWhile_append)

lemma rstrip_char_end: "x \<noteq> c \<Longrightarrow> rstrip_char c (xs @ [x]) = xs @ [x]"
  using rstrip_char_stop [of x c xs 0] by simp

lemma trailing_zeros:
  fixes f :: string
  obtains g n where "f = g @ replicate n c" "g = [] \<or> last g \<noteq> c"
proof -
  have "f = rstrip_char c f @ rev (takeWhile (\<lambda>x. x = c) (rev f))"
    unfolding rstrip_char_def by (metis rev_append rev_rev_ident takeWhile_dropWhile_id)
  moreover have "rev (takeWhile (\<lambda>x. x = c) (rev f)) = replicate (length (takeWhile (\<lambda>x. x = c) (rev f))) c"
    by (metis (mono_tags, lifting) replicate_length_same rev_replicate set_takeWhileD)
  moreover have "rstrip_char c f = [] \<or> last (rstrip_char c f) \<noteq> c"
    using hd_dropWhile [of "\<lambda>x. x = c" "rev f"] by (auto simp: rstrip_char_def last_rev)
  ultimately show thesis by (metis that)
qed

text \<open>Every decimal has a text, which the pattern accepts and which denotes the same number.\<close>

lemma from_decimal_text: "\<exists>t. from_decimal d = Inr t \<and> decimal_text t \<and> dec_rat (to_dec t) = dec_rat d"
proof (cases rule: format_f_shape [of d])
  case (whole w)
  let ?t = "(if dec_neg d then ''-'' else []) @ w"
  have "CHR ''.'' \<notin> set ?t" using whole(2) by auto
  moreover have "decimal_text ?t" by (rule decimal_text_whole [OF whole(1,2)])
  ultimately have "from_decimal d = Inr ?t" using whole(1,3) by (simp add: from_decimal_def)
  moreover have "parse_f ?t = Some \<lparr>dec_neg = dec_neg d, dec_coeff = nat_of_digits w, dec_exp = 0\<rparr>"
    by (rule parse_f_parts(1) [where frac = "[]"]) (use whole in auto)
  moreover have "of_nat (nat_of_digits w) = (of_nat (dec_coeff d) * power_int 10 (dec_exp d) :: rat)"
    using whole(5) by (simp add: whole(4) [symmetric] power_int_def)
  ultimately show ?thesis
    using decimal_text_whole [OF whole(1,2)] by (auto simp: to_dec_def dec_rat_def dec_int_def)
next
  case (fraction w f)
  obtain g n where g: "f = g @ replicate n (CHR ''0'')" "g = [] \<or> last g \<noteq> CHR ''0''" by (rule trailing_zeros)
  let ?sg = "if dec_neg d then ''-'' else []"
  let ?t = "if g = [] then ?sg @ w else ?sg @ w @ ''.'' @ g"
  have dig: "\<forall>c \<in> set g. is_digit c" using fraction(4) g(1) by auto
  have wl: "w = butlast w @ [last w]" "last w \<noteq> CHR ''.''"
    using fraction(1,2) last_in_set [of w] by (auto simp del: last_in_set)
  have "rstrip_char (CHR ''.'') (rstrip_char (CHR ''0'') (?sg @ w @ ''.'' @ f)) = ?t"
  proof (cases "g = []")
    case True
    then have "rstrip_char (CHR ''0'') (?sg @ w @ ''.'' @ f) = (?sg @ w) @ [CHR ''.'']"
      using rstrip_char_stop [of "CHR ''.''" "CHR ''0''" "?sg @ w" n] g(1) by simp
    also have "\<dots> = (?sg @ butlast w) @ last w # replicate 1 (CHR ''.'')" using wl(1) by simp
    finally show ?thesis using True wl rstrip_char_stop [OF wl(2), of "?sg @ butlast w" 1] by simp
  next
    case False
    then obtain h y where hy: "g = h @ [y]" by (metis rev_exhaust)
    with dig g(2) have y: "y \<noteq> CHR ''.''" "y \<noteq> CHR ''0''" by auto
    have "rstrip_char (CHR ''0'') (?sg @ w @ ''.'' @ f) = ?sg @ w @ ''.'' @ g"
      using rstrip_char_stop [OF y(2), of "?sg @ w @ ''.'' @ h" n] g(1) hy by simp
    then show ?thesis
      using False rstrip_char_end [OF y(1), of "?sg @ w @ ''.'' @ h"] hy by simp
  qed
  moreover have ok: "decimal_text ?t"
    using decimal_text_whole [OF fraction(1,2)] decimal_text_fraction [OF fraction(1,2) _ dig] by auto
  moreover have "?t \<noteq> []" using fraction(1) by auto
  ultimately have "from_decimal d = Inr ?t"
    unfolding from_decimal_def fraction(5) Let_def by (simp only: if_True if_False set_append) simp
  moreover have "parse_f ?t = Some \<lparr>dec_neg = dec_neg d, dec_coeff = nat_of_digits (w @ g), dec_exp = - int (length g)\<rparr>"
    using parse_f_parts(1) [OF fraction(1,2), of "[]"] parse_f_parts(2) [OF fraction(1,2) dig] by auto
  moreover have "of_nat (nat_of_digits (w @ g)) * power_int 10 (- int (length g)) =
      (of_nat (dec_coeff d) * power_int 10 (dec_exp d) :: rat)"
  proof -
    have "dec_coeff d = nat_of_digits (w @ g) * 10 ^ n"
      using nat_of_digits_append [of "w @ g" "replicate n (CHR ''0'')"] fraction(6) g(1) by simp
    moreover have "power_int (10 :: rat) (dec_exp d) * 10 ^ n = power_int 10 (- int (length g))"
    proof -
      have "power_int (10 :: rat) (- int (length g)) = power_int 10 (dec_exp d + int n)"
        using fraction(7) g(1) by simp
      also have "\<dots> = power_int 10 (dec_exp d) * 10 ^ n" by (subst power_int_add) simp_all
      finally show ?thesis by simp
    qed
    ultimately show ?thesis by (simp add: mult_ac)
  qed
  ultimately show ?thesis
    using ok by (auto simp: to_dec_def dec_rat_def dec_int_def)
qed

end
