(* ===== verification/Sim_Domain.thy ===== *)
theory Sim_Domain
  imports Sim_Models
begin

text \<open>
  The pure checks of the simulation module, one group per file of
  \<open>modules/simulation/domain\<close>: recommendation eligibility, input manifests, scenario sets,
  static validation, stress tests, plan merging and snapshots. Functions that draw identifiers
  with \<open>new_uuid\<close> are operations on the world.
\<close>

section \<open>Eligibility\<close>

record gate_inputs =
  gi_precheck :: review_validity
  gi_readiness :: review_validity
  gi_static_validation :: review_validity
  gi_scenario_assessment :: review_validity
  gi_condition :: review_validity
  gi_risk_acceptance :: review_validity

definition as_mapping :: "gate_inputs \<Rightarrow> (string, review_validity) dict" where
  "as_mapping g =
     [(''precheck'', gi_precheck g), (''readiness'', gi_readiness g),
      (''static_validation'', gi_static_validation g), (''scenario_assessment'', gi_scenario_assessment g),
      (''condition'', gi_condition g), (''risk_acceptance'', gi_risk_acceptance g)]"

record eligibility_result =
  er_state :: eligibility_state
  er_blocked_reason_codes :: "string list"
  er_upstream_validity :: "(string, review_validity) dict"

definition blocking_code :: "string \<times> review_validity \<Rightarrow> string list" where
  "blocking_code = (\<lambda>(gate, validity).
     case validity of
       REVIEW_CURRENT \<Rightarrow> []
     | _ \<Rightarrow> [upper gate @ ''_'' @ review_validity_value validity])"

definition assess_eligibility :: "gate_inputs \<Rightarrow> eligibility_result" where
  "assess_eligibility inputs =
     (let mapping = as_mapping inputs;
          blocked = concat (map blocking_code mapping);
          indeterminate = (\<exists>(gate, validity) \<in> set mapping. validity = REVIEW_UNKNOWN)
      in if blocked \<noteq> [] \<and> \<not> indeterminate
         then \<lparr>er_state = ELIG_INELIGIBLE, er_blocked_reason_codes = blocked, er_upstream_validity = mapping\<rparr>
         else if indeterminate
         then \<lparr>er_state = ELIG_INDETERMINATE, er_blocked_reason_codes = blocked, er_upstream_validity = mapping\<rparr>
         else \<lparr>er_state = ELIG_ELIGIBLE, er_blocked_reason_codes = [], er_upstream_validity = mapping\<rparr>)"

definition assert_eligible :: "eligibility_result \<Rightarrow> unit res" where
  "assert_eligible r = guardE (er_state r = ELIG_ELIGIBLE) (BiaiceError ''ELIGIBILITY_INPUT_UNKNOWN'')"

section \<open>Input manifests\<close>

definition canonical_item :: "(timestamp \<Rightarrow> string) \<Rightarrow> manifest_item \<Rightarrow> json" where
  "canonical_item isofmt i =
     JObj [(''item_id'', JStr (uuid_str (mi_item_id i))), (''upstream_type'', JStr (mi_upstream_type i)),
           (''upstream_id'', JStr (uuid_str (mi_upstream_id i))),
           (''upstream_version_id'', JStr (uuid_str (mi_upstream_version_id i))),
           (''upstream_content_hash'', JStr (mi_upstream_content_hash i)),
           (''dependency_type'', JStr (mi_dependency_type i)),
           (''recorded_at'', JStr (isofmt (mi_recorded_at i)))]"

definition manifest_text :: "(timestamp \<Rightarrow> string) \<Rightarrow> manifest_item list \<Rightarrow> string" where
  "manifest_text isofmt items = dumps (JArr (map (canonical_item isofmt) items))"

definition compute_input_manifest_hash :: "env \<Rightarrow> manifest_item list \<Rightarrow> string" where
  "compute_input_manifest_hash env items = env_sha env (manifest_text (env_isofmt env) items)"

definition build_manifest :: "env \<Rightarrow> manifest_item list \<Rightarrow> ('r world, input_manifest) svc" where
  "build_manifest env items =
     bindS (checkS (items \<noteq> []) (BiaiceError ''BASELINE_INCOMPLETE'')) (\<lambda>_.
     bindS (uuid4 env) (\<lambda>manifest_id.
     let m = \<lparr>mf_manifest_id = manifest_id, mf_manifest_hash = compute_input_manifest_hash env items,
              mf_items = items\<rparr> in
     bindS (checkS (manifest_valid m) ValidationError) (\<lambda>_. ret m)))"

definition verify_manifest :: "env \<Rightarrow> input_manifest \<Rightarrow> manifest_item list \<Rightarrow> bool" where
  "verify_manifest env m items \<longleftrightarrow> mf_manifest_hash m = compute_input_manifest_hash env items"

definition assert_manifest_complete :: "env \<Rightarrow> decision_baseline \<Rightarrow> unit res" where
  "assert_manifest_complete env b =
     (if mf_items (ba_manifest b) = [] then Inl (BiaiceError ''BASELINE_INCOMPLETE'')
      else if \<not> verify_manifest env (ba_manifest b) (mf_items (ba_manifest b))
      then Inl (BiaiceError ''BASELINE_INCOMPLETE'') else Inr ())"

definition drifted :: "(uuid, string) dict \<Rightarrow> manifest_item \<Rightarrow> bool" where
  "drifted live_versions i \<longleftrightarrow>
     (case dict_get live_versions (mi_upstream_version_id i) of
        None \<Rightarrow> True
      | Some live_hash \<Rightarrow> live_hash \<noteq> mi_upstream_content_hash i)"

definition assert_manifest_matches_versions :: "decision_baseline \<Rightarrow> (uuid, string) dict \<Rightarrow> unit res" where
  "assert_manifest_matches_versions b live_versions =
     guardE (filter (drifted live_versions) (mf_items (ba_manifest b)) = []) (BiaiceError ''STALE_BASELINE'')"

section \<open>Scenario sets\<close>

definition kind_count :: "scenario_kind \<Rightarrow> scenario_member list \<Rightarrow> nat" where
  "kind_count k ms = length (filter (\<lambda>m. sm_scenario_kind m = k) ms)"

text \<open>
  \<open>int(weight.replace(".", "").lstrip("-") or "0")\<close>, and the binary floating-point number
  that \<open>1e-9\<close> stands for, with which Python compares a decimal exactly.
\<close>

definition weight_digits :: "string \<Rightarrow> nat" where
  "weight_digits s = nat_of_digits (dropWhile (\<lambda>c. c = CHR ''-'') (filter (\<lambda>c. c \<noteq> CHR ''.'') s))"

definition FLOAT_1E_9 :: decimal where
  "FLOAT_1E_9 =
     \<lparr>dec_neg = False,
      dec_coeff = 10000000000000000622815914577798564188970686927859787829220294952392578125,
      dec_exp = -82\<rparr>"

definition weights_normalised :: "scenario_member list \<Rightarrow> bool" where
  "weights_normalised ms \<longleftrightarrow>
     \<not> dec_less FLOAT_1E_9 (dec_abs (dec_sub (dec_sum (map (to_dec \<circ> sm_weight) ms)) (dec_nat 1)))"

record scenario_fields =
  sf_set_id :: uuid
  sf_version_id :: uuid
  sf_tenant_id :: uuid
  sf_data_domain_id :: uuid
  sf_project_id :: "uuid option"
  sf_decision_unit_id :: uuid
  sf_baseline_version_id :: uuid
  sf_search_space_version_id :: uuid
  sf_evaluation_space_version_id :: "uuid option"
  sf_members :: "scenario_member list"
  sf_stress_axes :: "stress_axis list"
  sf_search_space_state :: search_space_state
  sf_created_at :: timestamp
  sf_created_by :: uuid
  sf_now :: timestamp

definition scenario_set_invalid :: exc where
  "scenario_set_invalid = BiaiceError ''SCENARIO_SET_INVALID''"

definition frozen_set :: "scenario_fields \<Rightarrow> scenario_set" where
  "frozen_set q =
     \<lparr>st_scenario_set_id = sf_set_id q, st_version_id = sf_version_id q, st_tenant_id = sf_tenant_id q,
      st_data_domain_id = sf_data_domain_id q, st_project_id = sf_project_id q,
      st_decision_unit_id = sf_decision_unit_id q, st_baseline_version_id = sf_baseline_version_id q,
      st_search_space_version_id = sf_search_space_version_id q,
      st_evaluation_space_version_id = sf_evaluation_space_version_id q,
      st_stress_axes = sf_stress_axes q, st_state = SET_FROZEN, st_members = sf_members q,
      st_created_at = sf_created_at q, st_created_by = sf_created_by q,
      st_frozen_at = Some (sf_now q), st_frozen_by = Some (sf_created_by q)\<rparr>"

definition freeze_scenarios :: "scenario_fields \<Rightarrow> scenario_set res" where
  "freeze_scenarios q =
     (let ms = sf_members q in
      if ms = [] then Inl scenario_set_invalid
      else if kind_count KIND_STRESS ms > 0 then Inl (BiaiceError ''STRESS_AXIS_VIOLATED'')
      else if kind_count KIND_SEARCH ms < 1 \<or> kind_count KIND_EVALUATION ms < 1 then Inl scenario_set_invalid
      else if sum_list (map (weight_digits \<circ> sm_weight) ms) \<le> 0 then Inl scenario_set_invalid
      else if \<not> weights_normalised ms then Inl scenario_set_invalid
      else if sf_evaluation_space_version_id q = Some (sf_search_space_version_id q) then Inl scenario_set_invalid
      else if sf_search_space_state q \<noteq> SPACE_FROZEN then Inl scenario_set_invalid
      else if \<not> scenario_set_valid (frozen_set q) then Inl ValidationError
      else Inr (frozen_set q))"

definition validate_search_eval_independence :: "scenario_set \<Rightarrow> unit res" where
  "validate_search_eval_independence s =
     (let ms = st_members s in
      if kind_count KIND_STRESS ms \<noteq> 0 then Inl (BiaiceError ''STRESS_AXIS_VIOLATED'')
      else if \<not> (kind_count KIND_SEARCH ms \<noteq> 0 \<and> kind_count KIND_EVALUATION ms \<noteq> 0) then Inl scenario_set_invalid
      else if st_evaluation_space_version_id s = Some (st_search_space_version_id s) then Inl scenario_set_invalid
      else Inr ())"

section \<open>Static validation of candidates\<close>

record static_context =
  cx_rule_codes :: "string list"
  cx_revoked_overrides :: "string list"
  cx_cost_upper_bound :: string
  cx_feasibility_threshold :: string
  cx_referenced_axes :: "string list"
  cx_mandatory_fields :: "string list"

definition static_blocking :: "simulation_candidate \<Rightarrow> static_context \<Rightarrow> string list" where
  "static_blocking c x =
     (let fields = map fst (ca_parameters c);
          missing = filter (\<lambda>f. f \<notin> set fields) (remdups (cx_mandatory_fields x));
          violated = filter (\<lambda>f. f \<in> set fields \<and> f \<in> set (cx_rule_codes x)) [''FORBIDDEN'', ''REVOKED'']
      in (if missing \<noteq> [] then [''MISSING_FIELDS:'' @ join '','' (sort missing)] else []) @
         (if \<not> set fields \<subseteq> set (cx_referenced_axes x) then [''UNREFERENCED_AXES''] else []) @
         (if violated \<noteq> [] then [''RULE_VIOLATION:'' @ join '','' violated] else []) @
         (if set (cx_revoked_overrides x) \<inter> set fields \<noteq> {} then [''REVOKED_OVERRIDE_REFERENCED''] else []) @
         (if dec_less (to_dec (cx_cost_upper_bound x)) (to_dec (ca_expected_cost c)) then [''COST_OVER_BUDGET''] else []) @
         (if dec_less (to_dec (ca_expected_margin c)) (to_dec (cx_feasibility_threshold x))
          then [''MARGIN_BELOW_FEASIBILITY''] else []))"

definition validate_candidate ::
  "env \<Rightarrow> simulation_candidate \<Rightarrow> static_context \<Rightarrow> timestamp \<Rightarrow> ('r world, static_validation) svc" where
  "validate_candidate env c x assessed_at =
     (let blocking = static_blocking c x in
      bindS (uuid4 env) (\<lambda>validation_id.
      ret \<lparr>sv_validation_id = validation_id, sv_candidate_id = ca_candidate_id c, sv_batch_id = ca_batch_id c,
           sv_tenant_id = ca_tenant_id c, sv_data_domain_id = ca_data_domain_id c,
           sv_project_id = ca_project_id c, sv_decision_unit_id = ca_decision_unit_id c,
           sv_status = (if blocking \<noteq> [] then STATIC_FAIL else STATIC_PASS),
           sv_rule_codes = blocking, sv_assessed_at = assessed_at\<rparr>))"

definition assert_validation_passed :: "static_validation list \<Rightarrow> unit res" where
  "assert_validation_passed results =
     guardE (filter (\<lambda>r. sv_status r \<noteq> STATIC_PASS) results = []) (BiaiceError ''CANDIDATE_ERROR_NOT_RECOVERABLE'')"

section \<open>Stress tests\<close>

record stress_scenario =
  sc_axis :: stress_axis
  sc_feasible :: bool
  sc_stress_weight :: decimal
  sc_detail :: string

record stress_report =
  rp_run_id :: uuid
  rp_assessments :: "stress_assessment list"
  rp_hard_axis_violations :: "stress_axis list"
  rp_failed_assessment_count :: nat

definition report_passed :: "stress_report \<Rightarrow> bool" where
  "report_passed r \<longleftrightarrow> rp_hard_axis_violations r = []"

text \<open>One turn of the innermost loop, and the three loops.\<close>

definition stress_turn ::
  "env \<Rightarrow> optimization_run \<Rightarrow> timestamp \<Rightarrow> stress_axis \<Rightarrow> stress_scenario \<Rightarrow> ('r world, stress_assessment) svc" where
  "stress_turn env run assessed_at axis s =
     bindS (checkS (sc_axis s = axis) (BiaiceError ''STRESS_AXIS_VIOLATED'')) (\<lambda>_.
     bindS (checkS (\<not> dec_less (dec_nat 0) (sc_stress_weight s)) (BiaiceError ''STRESS_AXIS_VIOLATED'')) (\<lambda>_.
     bindS (uuid4 env) (\<lambda>assessment_id.
     bindS (liftE (from_decimal (sc_stress_weight s))) (\<lambda>weight.
     ret \<lparr>sx_assessment_id = assessment_id, sx_run_id = ru_run_id run, sx_tenant_id = ru_tenant_id run,
          sx_data_domain_id = ru_data_domain_id run, sx_project_id = ru_project_id run,
          sx_decision_unit_id = ru_decision_unit_id run, sx_axis = axis, sx_passed = sc_feasible s,
          sx_detail = sc_detail s, sx_assessed_at = assessed_at, sx_stress_weight = weight\<rparr>))))"

definition stress_axes_of :: "(stress_axis \<times> stress_scenario list) list \<Rightarrow> (stress_axis \<times> stress_scenario) list" where
  "stress_axes_of scenarios = concat (map (\<lambda>(axis, ss). map (Pair axis) ss) scenarios)"

definition run_stress_tests ::
  "env \<Rightarrow> optimization_run \<Rightarrow> simulation_candidate list \<Rightarrow> (stress_axis, stress_scenario list) dict \<Rightarrow>
   timestamp \<Rightarrow> ('r world, stress_report) svc" where
  "run_stress_tests env run candidates scenarios assessed_at =
     bindS (forS (concat (map (\<lambda>c. stress_axes_of scenarios) candidates))
              (\<lambda>(axis, s). stress_turn env run assessed_at axis s)) (\<lambda>assessments.
     ret \<lparr>rp_run_id = ru_run_id run, rp_assessments = assessments,
          rp_hard_axis_violations = fromkeys (map sx_axis (filter (\<lambda>a. \<not> sx_passed a) assessments)),
          rp_failed_assessment_count = length (filter (\<lambda>a. \<not> sx_passed a) assessments)\<rparr>)"

definition assert_no_stress_axis :: "('k \<times> decimal) list \<Rightarrow> unit res" where
  "assert_no_stress_axis weights =
     guardE (\<not> list_ex (\<lambda>(axis, weight). dec_less (dec_nat 0) weight) weights) (BiaiceError ''STRESS_AXIS_VIOLATED'')"

section \<open>Merging plans\<close>

record merge_request =
  mr_plan_id :: uuid
  mr_run_id :: uuid
  mr_baseline_version_id :: uuid
  mr_candidate_ids :: "uuid list"
  mr_linkage :: string
  mr_tau_b :: string
  mr_tau_m :: string

text \<open>
  The loop over the candidates: whether one was seen before, and whether two neighbours that
  differ meet while the sum of the distances exceeds one.
\<close>

fun merge_scan :: "bool \<Rightarrow> uuid list \<Rightarrow> uuid option \<Rightarrow> uuid list \<Rightarrow> bool \<times> bool" where
  "merge_scan over seen previous [] = (False, False)"
| "merge_scan over seen previous (c # cs) =
     (let (dup, chain) = merge_scan over (c # seen) (Some c) cs in
      (c \<in> set seen \<or> dup, (previous \<noteq> None \<and> Some c \<noteq> previous \<and> over) \<or> chain))"

definition tau_in_range :: "decimal \<Rightarrow> bool" where
  "tau_in_range t \<longleftrightarrow> \<not> (dec_less t (dec_nat 0) \<or> dec_less (dec_nat 1) t)"

definition plan_merge_blocked :: exc where
  "plan_merge_blocked = BiaiceError ''PLAN_MERGE_BLOCKED''"

definition merge_assessments ::
  "env \<Rightarrow> merge_request \<Rightarrow> timestamp \<Rightarrow> uuid \<Rightarrow> uuid \<Rightarrow> uuid option \<Rightarrow> uuid \<Rightarrow> ('r world, merge_assessment) svc" where
  "merge_assessments env q assessed_at tenant_id data_domain_id project_id decision_unit_id =
     (let n = length (mr_candidate_ids q);
          tau_b = to_dec (mr_tau_b q); tau_m = to_dec (mr_tau_m q);
          (duplicates, chain_blocked) =
            merge_scan (dec_less (dec_nat 1) (dec_add tau_b tau_m)) [] None (mr_candidate_ids q) in
      bindS (checkS (mr_linkage q = ''complete'') plan_merge_blocked) (\<lambda>_.
      bindS (checkS (\<not> (n < 1 \<or> n > 4)) plan_merge_blocked) (\<lambda>_.
      bindS (checkS (tau_in_range tau_b) plan_merge_blocked) (\<lambda>_.
      bindS (checkS (tau_in_range tau_m) plan_merge_blocked) (\<lambda>_.
      bindS (checkS (\<not> duplicates) plan_merge_blocked) (\<lambda>_.
      bindS (uuid4 env) (\<lambda>merge_id.
      ret \<lparr>ma_merge_id = merge_id, ma_run_id = mr_run_id q, ma_plan_id = mr_plan_id q,
           ma_tenant_id = tenant_id, ma_data_domain_id = data_domain_id, ma_project_id = project_id,
           ma_decision_unit_id = decision_unit_id, ma_linkage = mr_linkage q, ma_tau_b = mr_tau_b q,
           ma_tau_m = mr_tau_m q, ma_accepted = (\<not> chain_blocked),
           ma_blocked_reason_code = (if chain_blocked then Some ''TAU_CHAIN_BLOCK'' else None),
           ma_assessed_at = assessed_at\<rparr>)))))))"

definition assert_merge_accepted :: "merge_assessment \<Rightarrow> unit res" where
  "assert_merge_accepted a = guardE (ma_accepted a) plan_merge_blocked"

definition as_plan_members :: "merge_assessment \<Rightarrow> uuid list \<Rightarrow> plan_member list res" where
  "as_plan_members a candidates =
     mapE (\<lambda>c. bindE (from_decimal \<lparr>dec_neg = False, dec_coeff = 25, dec_exp = -2\<rparr>) (\<lambda>w.
             Inr \<lparr>pm_candidate_id = c, pm_linkage = ma_linkage a, pm_weight = w\<rparr>)) candidates"

section \<open>Snapshots\<close>

record snapshot_request =
  sq_snapshot_id :: uuid
  sq_version_id :: uuid
  sq_tenant_id :: uuid
  sq_data_domain_id :: uuid
  sq_project_id :: "uuid option"
  sq_decision_unit_id :: uuid
  sq_payload :: "(string \<times> json) list"
  sq_created_at :: timestamp
  sq_created_by :: uuid
  sq_lock :: bool

definition compute_payload_hash :: "(string \<Rightarrow> string) \<Rightarrow> (string \<times> json) list \<Rightarrow> string" where
  "compute_payload_hash sha payload = sha (dumps (JObj payload))"

definition snapshot_of :: "(string \<Rightarrow> string) \<Rightarrow> snapshot_request \<Rightarrow> assessment_snapshot" where
  "snapshot_of sha q =
     \<lparr>sn_snapshot_id = sq_snapshot_id q, sn_version_id = sq_version_id q, sn_tenant_id = sq_tenant_id q,
      sn_data_domain_id = sq_data_domain_id q, sn_project_id = sq_project_id q,
      sn_decision_unit_id = sq_decision_unit_id q,
      sn_state = (if sq_lock q then SNAP_LOCKED else SNAP_DRAFT),
      sn_watermark = SHADOW_PILOT_LOCKED_WATERMARK,
      sn_payload_hash = compute_payload_hash sha (sq_payload q), sn_payload = sq_payload q,
      sn_created_at = sq_created_at q, sn_created_by = sq_created_by q,
      sn_locked_at = (if sq_lock q then Some (sq_created_at q) else None),
      sn_locked_by = (if sq_lock q then Some (sq_created_by q) else None)\<rparr>"

definition create_snapshot :: "(string \<Rightarrow> string) \<Rightarrow> snapshot_request \<Rightarrow> assessment_snapshot res" where
  "create_snapshot sha q =
     (let s = snapshot_of sha q in
      if sq_payload q = [] then Inl (BiaiceError ''SNAPSHOT_PAYLOAD_HASH_MISMATCH'')
      else if \<not> snapshot_valid s then Inl ValidationError
      else if sn_payload_hash s \<noteq> compute_payload_hash sha (sn_payload s)
      then Inl (BiaiceError ''SNAPSHOT_PAYLOAD_HASH_MISMATCH'') else Inr s)"

definition assert_shadow_watermark :: "assessment_snapshot \<Rightarrow> unit res" where
  "assert_shadow_watermark s =
     guardE (sn_watermark s = SHADOW_PILOT_LOCKED_WATERMARK) (BiaiceError ''SNAPSHOT_PAYLOAD_HASH_MISMATCH'')"

end
