(* ===== verification/Sim_Numbers.thy ===== *)
theory Sim_Numbers
  imports Sim_Domain
begin

text \<open>
  The numeric part of the simulation module: the deterministic referee (\<open>domain/referee.py\<close>),
  the probability utilities (\<open>domain/probability.py\<close>), and candidate generation, ranking and
  selection (\<open>domain/optimization.py\<close>), over the decimal arithmetic of \<open>Decimal_Arith\<close>.
\<close>

section \<open>Binary floating point fractions\<close>

text \<open>
  \<open>n / m\<close> on integers with \<open>0 \<le> n < m\<close> is the nearest binary64 number, ties to even: a
  53-bit significand over a power of two. \<open>Decimal(x)\<close> of a float is exact; it is built from
  the fraction in lowest terms.
\<close>

definition float_shift :: "nat \<Rightarrow> nat \<Rightarrow> nat" where
  "float_shift n m = length (takeWhile (\<lambda>s. n * 2 ^ s < 2 ^ 52 * m) [0..<1075])"

fun halved :: "nat \<Rightarrow> nat \<Rightarrow> nat \<times> nat" where
  "halved n 0 = (n, 0)"
| "halved n (Suc s) = (if even n then halved (n div 2) s else (n, Suc s))"

definition float_dec :: "nat \<Rightarrow> nat \<Rightarrow> decimal" where
  "float_dec n m =
     (if n = 0 then dec_nat 0
      else let s = float_shift n m; (k, t) = halved (half_even (n * 2 ^ s) m) s
           in \<lparr>dec_neg = False, dec_coeff = k * 5 ^ t, dec_exp = - int t\<rparr>)"

section \<open>The referee\<close>

record referee_input =
  ri_candidate_id :: uuid
  ri_scenario_id :: uuid
  ri_batch_id :: uuid
  ri_baseline_manifest_hash :: string
  ri_scenario_kind :: string
  ri_feasibility_threshold :: decimal
  ri_pay_off_lower :: decimal
  ri_pay_off_upper :: decimal
  ri_seed :: int
  ri_review_validity :: review_validity

record referee_place =
  pl_assessed_at :: timestamp
  pl_tenant_id :: uuid
  pl_data_domain_id :: uuid
  pl_project_id :: "uuid option"
  pl_decision_unit_id :: uuid

record referee_output =
  ro_outcome :: scenario_outcome
  ro_assessment :: strategy_assessment
  ro_reviewed_pending :: bool

text \<open>
  The first eight bytes of the digest as a big-endian number: the first sixteen digits of its
  hexadecimal form.
\<close>

definition nat_of_hex :: "string \<Rightarrow> nat" where
  "nat_of_hex s = foldl (\<lambda>n c. 16 * n + hex_val c) 0 s"

definition referee_text :: "referee_input \<Rightarrow> string" where
  "referee_text i =
     uuid_str (ri_candidate_id i) @ ''|'' @ uuid_str (ri_scenario_id i) @ ''|'' @
     ri_baseline_manifest_hash i @ ''|'' @ print_int (ri_seed i) @ ''|'' @ ri_scenario_kind i"

definition referee_ticket :: "(string \<Rightarrow> string) \<Rightarrow> referee_input \<Rightarrow> nat" where
  "referee_ticket sha i = nat_of_hex (take 16 (sha (referee_text i))) mod 10000"

definition referee_score :: "(string \<Rightarrow> string) \<Rightarrow> referee_input \<Rightarrow> decimal" where
  "referee_score sha i =
     dec_add (ri_pay_off_lower i)
       (dec_mul (dec_sub (ri_pay_off_upper i) (ri_pay_off_lower i)) (float_dec (referee_ticket sha i) 10000))"

definition quantized_text :: "decimal \<Rightarrow> string res" where
  "quantized_text d = bindE (dec_quantize 4 d) from_decimal"

definition make_outcome ::
  "referee_input \<Rightarrow> referee_place \<Rightarrow> uuid \<Rightarrow> bool \<Rightarrow> string \<Rightarrow> string \<Rightarrow> scenario_outcome" where
  "make_outcome i p outcome_id feasible payoff p_win =
     \<lparr>oc_outcome_id = outcome_id, oc_candidate_id = ri_candidate_id i, oc_scenario_id = ri_scenario_id i,
      oc_batch_id = ri_batch_id i, oc_tenant_id = pl_tenant_id p, oc_data_domain_id = pl_data_domain_id p,
      oc_project_id = pl_project_id p, oc_decision_unit_id = pl_decision_unit_id p, oc_feasible = feasible,
      oc_expected_payoff = payoff, oc_p_win = p_win, oc_evaluated_at = pl_assessed_at p,
      oc_review_validity = ri_review_validity i\<rparr>"

definition make_assessment ::
  "referee_input \<Rightarrow> referee_place \<Rightarrow> uuid \<Rightarrow> string \<Rightarrow> bool \<Rightarrow> string \<Rightarrow> strategy_assessment" where
  "make_assessment i p assessment_id summary recommended reason_code =
     \<lparr>sy_assessment_id = assessment_id, sy_candidate_id = ri_candidate_id i, sy_scenario_id = ri_scenario_id i,
      sy_batch_id = ri_batch_id i, sy_tenant_id = pl_tenant_id p, sy_data_domain_id = pl_data_domain_id p,
      sy_project_id = pl_project_id p, sy_decision_unit_id = pl_decision_unit_id p,
      sy_review_validity = ri_review_validity i, sy_summary = summary, sy_recommended = recommended,
      sy_assessed_at = pl_assessed_at p, sy_reason_code = reason_code\<rparr>"

definition evaluate_scenario ::
  "env \<Rightarrow> referee_input \<Rightarrow> referee_place \<Rightarrow> ('r world, referee_output) svc" where
  "evaluate_scenario env i p =
     (if ri_review_validity i \<noteq> REVIEW_CURRENT then
        bindS (uuid4 env) (\<lambda>outcome_id.
        bindS (liftE (from_decimal (dec_nat 0))) (\<lambda>zero.
        bindS (uuid4 env) (\<lambda>assessment_id.
        ret \<lparr>ro_outcome = make_outcome i p outcome_id False zero zero,
             ro_assessment = make_assessment i p assessment_id
               (''Scenario excluded from probability because upstream review is '' @
                review_validity_value (ri_review_validity i) @ ''.'') False ''REVIEW_NOT_CURRENT'',
             ro_reviewed_pending = True\<rparr>)))
      else
        let score = referee_score (env_sha env) i;
            feasible = dec_le (ri_feasibility_threshold i) score in
        bindS (uuid4 env) (\<lambda>outcome_id.
        bindS (liftE (quantized_text score)) (\<lambda>payoff.
        bindS (liftE (quantized_text (float_dec (referee_ticket (env_sha env) i) 10000))) (\<lambda>p_win.
        bindS (uuid4 env) (\<lambda>assessment_id.
        ret \<lparr>ro_outcome = make_outcome i p outcome_id feasible payoff p_win,
             ro_assessment = make_assessment i p assessment_id
               (''feasible='' @ (if feasible then ''True'' else ''False'') @ ''; expected_payoff='' @ payoff @
                ''; p_win='' @ p_win)
               feasible (if feasible then ''DETERMINISTIC_REFEREE'' else ''INFEASIBLE_PAYOFF''),
             ro_reviewed_pending = False\<rparr>)))))"

section \<open>Probability utilities\<close>

definition below_denominator :: exc where
  "below_denominator = BiaiceError ''DENOMINATOR_BELOW_THRESHOLD''"

definition weighted_sum :: "(decimal \<times> decimal) list \<Rightarrow> decimal" where
  "weighted_sum outcomes = foldl (\<lambda>acc (weight, payoff). dec_add acc (dec_mul weight payoff)) (dec_nat 0) outcomes"

definition p_minus :: "(decimal \<times> decimal) list \<Rightarrow> decimal res" where
  "p_minus outcomes = (if outcomes = [] then Inl below_denominator else Inr (weighted_sum outcomes))"

definition p_plus :: "(decimal \<times> decimal) list \<Rightarrow> decimal res" where
  "p_plus outcomes = (if outcomes = [] then Inl below_denominator else Inr (weighted_sum outcomes))"

record coverage_report =
  cr_total_scenarios :: int
  cr_denominator_scenarios :: int
  cr_coverage :: string
  cr_denominator_below_threshold :: bool
  cr_threshold :: string

definition coverage :: "int \<Rightarrow> int \<Rightarrow> string \<Rightarrow> coverage_report res" where
  "coverage total_n denominator threshold =
     (if total_n \<le> 0 then Inl (BiaiceError ''COVERAGE_BELOW_THRESHOLD'')
      else if denominator \<le> 0 then
        bindE (from_decimal (dec_nat 0)) (\<lambda>zero.
        Inr \<lparr>cr_total_scenarios = total_n, cr_denominator_scenarios = 0, cr_coverage = zero,
             cr_denominator_below_threshold = True, cr_threshold = threshold\<rparr>)
      else
        let fraction = dec_div (dec_nat (nat denominator)) (dec_nat (nat total_n)) in
        bindE (from_decimal fraction) (\<lambda>text.
        Inr \<lparr>cr_total_scenarios = total_n, cr_denominator_scenarios = denominator, cr_coverage = text,
             cr_denominator_below_threshold = dec_less fraction (to_dec threshold), cr_threshold = threshold\<rparr>))"

definition is_undefined :: "coverage_report \<Rightarrow> bool" where
  "is_undefined r = cr_denominator_below_threshold r"

definition n_eff :: "decimal list \<Rightarrow> decimal" where
  "n_eff p_wins = foldl (\<lambda>acc p. dec_add acc (dec_mul p (dec_sub (dec_nat 1) p))) (dec_nat 0) p_wins"

text \<open>The integer square root and \<open>Decimal.sqrt\<close>: one digit more than the context, rounded.\<close>

function isqrt :: "nat \<Rightarrow> nat" where
  "isqrt n = (if n = 0 then 0 else let r = 2 * isqrt (n div 4) in if (r + 1) * (r + 1) \<le> n then r + 1 else r)"
  by pat_completeness auto
termination by (relation "measure id") auto

declare isqrt.simps [simp del]

definition dec_sqrt :: "decimal \<Rightarrow> decimal res" where
  "dec_sqrt d =
     (if dec_coeff d = 0 then Inr \<lparr>dec_neg = dec_neg d, dec_coeff = 0, dec_exp = dec_exp d div 2\<rparr>
      else if dec_neg d then Inl InvalidOperation
      else
        let len = num_digits (dec_coeff d);
            (c, l) = (if odd (dec_exp d) then (dec_coeff d * 10, len div 2 + 1) else (dec_coeff d, (len + 1) div 2));
            shift = int PREC + 1 - int l;
            e = dec_exp d div 2 - shift;
            n2 = (if shift \<ge> 0 then c * 100 ^ nat shift else c div 100 ^ nat (- shift));
            r = isqrt n2;
            exact = (r * r = n2 \<and> (shift \<ge> 0 \<or> c mod 100 ^ nat (- shift) = 0))
        in Inr (dec_fix
             (if exact
              then \<lparr>dec_neg = False, dec_coeff = (if shift \<ge> 0 then r div 10 ^ nat shift else r * 10 ^ nat (- shift)),
                    dec_exp = e + shift\<rparr>
              else \<lparr>dec_neg = False, dec_coeff = (if r mod 5 = 0 then r + 1 else r), dec_exp = e\<rparr>)))"

record mc_interval =
  mc_mean :: string
  mc_lower :: string
  mc_upper :: string
  mc_n_eff :: string

text \<open>\<open>mc_ci\<close> for the text of \<open>z\<close>, by default \<open>1.96\<close>.\<close>

definition mc_ci :: "decimal list \<Rightarrow> string \<Rightarrow> mc_interval res" where
  "mc_ci p_wins z =
     (if p_wins = [] then Inl below_denominator
      else
        let mean = dec_div (foldl dec_add (dec_nat 0) p_wins) (dec_nat (length p_wins));
            eff = n_eff p_wins in
        bindE (if dec_le eff (dec_nat 0) then Inr (dec_nat 0)
               else dec_sqrt (dec_div (dec_mul (dec_mul (to_dec z) mean) (dec_sub (dec_nat 1) mean)) eff)) (\<lambda>half_width.
        bindE (quantized_text mean) (\<lambda>m.
        bindE (quantized_text (dec_sub mean half_width)) (\<lambda>lo.
        bindE (quantized_text (dec_add mean half_width)) (\<lambda>hi.
        bindE (quantized_text eff) (\<lambda>e.
        Inr \<lparr>mc_mean = m, mc_lower = lo, mc_upper = hi, mc_n_eff = e\<rparr>))))))"

definition q_award_normalize :: "(uuid, decimal) dict \<Rightarrow> (uuid, decimal) dict res" where
  "q_award_normalize weights =
     (let sum_w = foldl dec_add (dec_nat 0) (map snd weights) in
      if dec_le sum_w (dec_nat 0) then Inl (BiaiceError ''SCENARIO_SET_INVALID'')
      else Inr (map (\<lambda>(key, v). (key, dec_div v sum_w)) weights))"

section \<open>Candidates: generation, ranking, selection\<close>

record blueprint =
  bp_label :: string
  bp_parameters :: "(string \<times> json) list"
  bp_expected_cost :: decimal
  bp_expected_margin :: decimal

definition generate_candidate ::
  "env \<Rightarrow> simulation_batch \<Rightarrow> uuid \<Rightarrow> timestamp \<Rightarrow> nat \<times> blueprint \<Rightarrow> ('r world, simulation_candidate) svc" where
  "generate_candidate env batch version_id created_at = (\<lambda>(index, b).
     bindS (uuid4 env) (\<lambda>candidate_id.
     bindS (liftE (from_decimal (bp_expected_cost b))) (\<lambda>cost.
     bindS (liftE (from_decimal (bp_expected_margin b))) (\<lambda>margin.
     let c = \<lparr>ca_candidate_id = candidate_id, ca_batch_id = sb_batch_id batch, ca_version_id = version_id,
              ca_tenant_id = sb_tenant_id batch, ca_data_domain_id = sb_data_domain_id batch,
              ca_project_id = sb_project_id batch, ca_decision_unit_id = sb_decision_unit_id batch,
              ca_label = bp_label b @ ''#'' @ digits_of (index + 1), ca_parameters = bp_parameters b,
              ca_expected_cost = cost, ca_expected_margin = margin, ca_created_at = created_at\<rparr> in
     bindS (checkS (candidate_valid c) ValidationError) (\<lambda>_. ret c)))))"

definition generate_candidates ::
  "env \<Rightarrow> simulation_batch \<Rightarrow> uuid \<Rightarrow> blueprint list \<Rightarrow> timestamp \<Rightarrow> ('r world, simulation_candidate list) svc" where
  "generate_candidates env batch version_id blueprints created_at =
     forS (enumerate 0 blueprints) (generate_candidate env batch version_id created_at)"

definition candidate_score :: "objective_kind \<Rightarrow> simulation_candidate \<Rightarrow> decimal" where
  "candidate_score objective c =
     (let cost = to_dec (ca_expected_cost c); margin = to_dec (ca_expected_margin c) in
      case objective of
        OBJECTIVE_COST_MIN \<Rightarrow> dec_uminus cost
      | OBJECTIVE_MARGIN_MAX \<Rightarrow> margin
      | OBJECTIVE_COVERAGE_MAX \<Rightarrow> dec_sub margin (dec_mul \<lparr>dec_neg = False, dec_coeff = 25, dec_exp = -2\<rparr> cost)
      | OBJECTIVE_RISK_MIN \<Rightarrow> dec_add (dec_mul (dec_uminus cost) \<lparr>dec_neg = False, dec_coeff = 5, dec_exp = -1\<rparr>) margin)"

definition rank_key :: "objective_kind \<Rightarrow> simulation_candidate \<Rightarrow> rat \<times> uuid" where
  "rank_key objective c = (dec_rat (dec_uminus (candidate_score objective c)), ca_candidate_id c)"

definition rank_candidates :: "objective_kind \<Rightarrow> simulation_candidate list \<Rightarrow> (simulation_candidate \<times> decimal) list" where
  "rank_candidates objective candidates =
     map (\<lambda>c. (c, candidate_score objective c)) (sort_key (rank_key objective) candidates)"

record selection_plan =
  pn_award_mode :: award_mode
  pn_objective_kind :: objective_kind
  pn_selected :: "simulation_candidate list"
  pn_total_expected_cost :: string
  pn_total_expected_margin :: string

text \<open>The loop of \<open>select_objective_candidates\<close>, with the number selected so far.\<close>

fun select_loop :: "award_mode \<Rightarrow> decimal \<Rightarrow> nat \<Rightarrow> simulation_candidate list \<Rightarrow> simulation_candidate list" where
  "select_loop award threshold n [] = []"
| "select_loop award threshold n (c # cs) =
     (if dec_less (to_dec (ca_expected_margin c)) threshold then select_loop award threshold n cs
      else c # (if award = AWARD_SINGLE then []
                else if award = AWARD_MULTI \<and> n + 1 \<ge> 4 then []
                else select_loop award threshold (n + 1) cs))"

definition select_objective_candidates ::
  "(simulation_candidate \<times> decimal) list \<Rightarrow> string \<Rightarrow> award_mode \<Rightarrow> objective_kind \<Rightarrow> selection_plan res" where
  "select_objective_candidates ranked policy_threshold award objective =
     (let selected = select_loop award (to_dec policy_threshold) 0 (map fst ranked) in
      bindE (from_decimal (foldl dec_add (dec_nat 0) (map (to_dec \<circ> ca_expected_cost) selected))) (\<lambda>cost.
      bindE (from_decimal (foldl dec_add (dec_nat 0) (map (to_dec \<circ> ca_expected_margin) selected))) (\<lambda>margin.
      Inr \<lparr>pn_award_mode = award, pn_objective_kind = objective, pn_selected = selected,
           pn_total_expected_cost = cost, pn_total_expected_margin = margin\<rparr>)))"

section \<open>The referee's fraction\<close>

lemma half_bound: "2 * x \<le> y \<Longrightarrow> x \<le> y / (2 :: rat)"
  by simp

lemma takeWhile_upt_ge:
  assumes "\<And>s. s < j \<Longrightarrow> P s" and "j \<le> N"
  shows "j \<le> length (takeWhile P [0..<N])"
proof (rule ccontr)
  assume "\<not> j \<le> length (takeWhile P [0..<N])"
  then have l: "length (takeWhile P [0..<N]) < j" "length (takeWhile P [0..<N]) < length [0..<N]"
    using assms(2) by auto
  then have "\<not> P ([0..<N] ! length (takeWhile P [0..<N]))" by (intro nth_length_takeWhile)
  then show False using assms(1) l by simp
qed

lemma float_shift_ge: "n < m \<Longrightarrow> 53 \<le> float_shift n m"
proof -
  assume nm: "n < m"
  have "n * 2 ^ s < 2 ^ 52 * m" if "s < 53" for s
  proof -
    have "n * 2 ^ s \<le> n * 2 ^ 52" using that by (intro mult_le_mono2 power_increasing) auto
    also have "\<dots> < m * 2 ^ 52" using nm by simp
    finally show ?thesis by (simp only: mult.commute)
  qed
  then show ?thesis unfolding float_shift_def by (rule takeWhile_upt_ge) simp_all
qed

lemma halved_value: "halved k s = (k', t) \<Longrightarrow> of_nat k' / 2 ^ t = (of_nat k / 2 ^ s :: rat)"
proof (induction s arbitrary: k)
  case (Suc s)
  show ?case
  proof (cases "even k")
    case True
    with Suc have "of_nat k' / 2 ^ t = (of_nat (k div 2) / 2 ^ s :: rat)" by simp
    moreover have "of_nat k = (2 * of_nat (k div 2) :: rat)" using True by (metis dvd_mult_div_cancel of_nat_mult of_nat_numeral)
    ultimately show ?thesis by simp
  qed (use Suc in auto)
qed simp

text \<open>The binary fraction is within \<open>2^-54\<close> of the quotient it rounds.\<close>

lemma float_dec_near:
  assumes "0 < m" "n < m"
  shows "\<bar>dec_rat (float_dec n m) - of_nat n / of_nat m\<bar> \<le> 1 / 2 ^ 54" and "\<not> dec_neg (float_dec n m)"
proof -
  show "\<not> dec_neg (float_dec n m)"
    by (simp add: float_dec_def dec_nat_def Let_def split: prod.split)
  show "\<bar>dec_rat (float_dec n m) - of_nat n / of_nat m\<bar> \<le> 1 / 2 ^ 54"
  proof (cases "n = 0")
    case False
    define s where "s = float_shift n m"
    define k where "k = half_even (n * 2 ^ s) m"
    obtain k' t where h: "halved k s = (k', t)" by (cases "halved k s")
    have s: "53 \<le> s" unfolding s_def by (rule float_shift_ge [OF assms(2)])
    have ten: "(5::rat) ^ t * power_int 10 (- int t) = 1 / 2 ^ t"
    proof -
      have "(10::rat) ^ t = 2 ^ t * 5 ^ t" by (simp flip: power_mult_distrib)
      then show ?thesis by (simp add: power_int_minus field_simps)
    qed
    have "float_dec n m = \<lparr>dec_neg = False, dec_coeff = k' * 5 ^ t, dec_exp = - int t\<rparr>"
      using False h unfolding float_dec_def s_def [symmetric] k_def [symmetric] by (simp add: Let_def k_def s_def)
    then have "dec_rat (float_dec n m) = of_nat k' * (5 ^ t * power_int 10 (- int t))"
      by (simp add: dec_rat_def dec_int_def mult.assoc)
    then have v: "dec_rat (float_dec n m) = of_nat k / 2 ^ s"
      using halved_value [OF h] unfolding ten by simp
    have "2 * \<bar>int k * int m - int (n * 2 ^ s)\<bar> \<le> int m"
      unfolding k_def by (rule half_even_near [OF assms(1)])
    then have "of_int (2 * \<bar>int k * int m - int (n * 2 ^ s)\<bar>) \<le> (of_int (int m) :: rat)"
      unfolding of_int_le_iff .
    then have near: "2 * \<bar>of_nat k * of_nat m - of_nat n * 2 ^ s\<bar> \<le> (of_nat m :: rat)" by simp
    have pos: "0 < (2 ^ s * of_nat m :: rat)" using assms(1) by simp
    have "of_nat k / 2 ^ s - of_nat n / of_nat m = (of_nat k * of_nat m - of_nat n * 2 ^ s) / (2 ^ s * of_nat m :: rat)"
      using assms(1) by (simp add: field_simps)
    then have "\<bar>of_nat k / 2 ^ s - of_nat n / of_nat m\<bar> = \<bar>of_nat k * of_nat m - of_nat n * 2 ^ s\<bar> / (2 ^ s * of_nat m :: rat)"
      by (simp only: abs_divide abs_of_pos [OF pos])
    also have "\<dots> \<le> (of_nat m / 2) / (2 ^ s * of_nat m)"
      by (rule divide_right_mono [OF half_bound [OF near] less_imp_le [OF pos]])
    also have "\<dots> = 1 / 2 ^ Suc s" using assms(1) by simp
    also have "(1 :: rat) / 2 ^ Suc s \<le> 1 / 2 ^ 54"
    proof (rule divide_left_mono)
      show "(2 :: rat) ^ 54 \<le> 2 ^ Suc s" using s by (intro power_increasing) auto
    qed simp_all
    finally show ?thesis using v by simp
  qed (simp add: float_dec_def)
qed

lemma dec_fix_coeff: "dec_coeff (dec_fix d) < 10 ^ 28"
proof (cases "num_digits (dec_coeff d) \<le> PREC")
  case True
  then show ?thesis using num_digits_le [of 28 "dec_coeff d"] by (simp add: dec_fix_def PREC_def)
next
  case False
  define k where "k = num_digits (dec_coeff d) - PREC"
  have "dec_coeff d < 10 ^ (28 + k)"
    using False num_digits_le [of "28 + k" "dec_coeff d"] by (simp add: k_def PREC_def)
  then have "dec_coeff d div 10 ^ k < 10 ^ 28"
    by (simp add: power_add div_less_iff_less_mult)
  then have "half_even (dec_coeff d) (10 ^ k) \<le> 10 ^ 28" by (simp add: half_even_def Let_def)
  with False show ?thesis
    unfolding dec_fix_def Let_def k_def [symmetric] by (auto simp: PREC_def)
qed

text \<open>Adding zero to a small number that fits the context changes nothing.\<close>

lemma dec_add_zero:
  assumes "dec_coeff b < 10 ^ 28" "\<bar>dec_rat b\<bar> < 1"
  shows "dec_rat (dec_add (dec_nat 0) b) = dec_rat b"
proof -
  have small: "dec_coeff b = 0" if "dec_exp b > 0"
  proof (rule ccontr)
    assume "dec_coeff b \<noteq> 0"
    moreover have "(1::rat) \<le> power_int 10 (dec_exp b)" using that by (intro one_le_power_int) auto
    ultimately have "1 * 1 \<le> of_nat (dec_coeff b) * power_int (10::rat) (dec_exp b)" by (intro mult_mono) auto
    then show False using assms(2) by (simp add: dec_rat_abs)
  qed
  have "nat \<bar>aligned (dec_nat 0) (min 0 (dec_exp b)) + aligned b (min 0 (dec_exp b))\<bar> < 10 ^ 28"
  proof (cases "dec_exp b > 0")
    case True
    then show ?thesis using small by (simp add: aligned_def dec_int_def)
  next
    case False
    then have "min 0 (dec_exp b) = dec_exp b" by simp
    then show ?thesis using assms(1) by (simp add: aligned_def dec_int_def)
  qed
  then have "dec_rat (dec_add (dec_nat 0) b) = dec_rat (dec_nat 0) + dec_rat b"
    by (rule dec_add_exact) (simp only: dec_nat_simps)
  then show ?thesis by (simp only: dec_rat_nat of_nat_0 add_0)
qed

lemma dec_one_minus_zero: "dec_sub (dec_nat 1) (dec_nat 0) = dec_nat 1"
  by (simp add: dec_sub_def dec_add_def dec_negate_def dec_nat_def aligned_def dec_int_def of_dec_int_def)

lemma dec_neg_fix [simp]: "dec_neg (dec_fix d) = dec_neg d"
  by (simp add: dec_fix_def Let_def)

lemma dec_rat_nonneg: "\<not> dec_neg d \<Longrightarrow> 0 \<le> dec_rat d"
  by (simp add: dec_rat_def dec_int_def)

lemma dec_mul_one: "dec_mul (dec_nat 1) d = dec_fix \<lparr>dec_neg = dec_neg d, dec_coeff = dec_coeff d, dec_exp = dec_exp d\<rparr>"
  by (simp add: dec_mul_def)

lemma near_quantum:
  assumes "\<bar>x - of_nat k / 10000\<bar> \<le> 1 / 10 ^ 5"
  shows "2 * \<bar>x * 10 ^ 4 - of_nat k\<bar> < (1 :: rat)"
proof -
  have "\<bar>x * 10 ^ 4 - of_nat k\<bar> = \<bar>x - of_nat k / 10000\<bar> * 10 ^ 4"
  proof -
    have "x * 10 ^ 4 - of_nat k = (x - of_nat k / 10000) * 10 ^ 4" by (simp add: field_simps)
    then show ?thesis by (simp only: abs_mult) simp
  qed
  also have "\<dots> \<le> 1 / 10 ^ 5 * 10 ^ 4" using assms by (intro mult_right_mono) auto
  finally show ?thesis by simp
qed

text \<open>With the pay-off between zero and one, the score is the fraction up to \<open>10^-5\<close>.\<close>

lemma unit_score:
  fixes k :: nat
  assumes k: "k < 10000"
  defines "f \<equiv> float_dec k 10000"
  defines "score \<equiv> dec_add (dec_nat 0) (dec_mul (dec_sub (dec_nat 1) (dec_nat 0)) f)"
  shows "\<bar>dec_rat f - of_nat k / 10000\<bar> \<le> 1 / 10 ^ 5" "\<not> dec_neg f"
    "\<bar>dec_rat score - of_nat k / 10000\<bar> \<le> 1 / 10 ^ 5" "\<not> dec_neg score"
proof -
  have f: "\<bar>dec_rat f - of_nat k / of_nat 10000\<bar> \<le> 1 / 2 ^ 54" "\<not> dec_neg f"
    unfolding f_def by (rule float_dec_near; use k in simp)+
  have small: "(1 :: rat) / 2 ^ 54 \<le> 1 / 10 ^ 6" by simp
  have f6: "\<bar>dec_rat f - of_nat k / 10000\<bar> \<le> 1 / 10 ^ 6"
    using order_trans [OF f(1) small] by simp
  have top: "of_nat k / (10000 :: rat) \<le> 9999 / 10000"
  proof (rule divide_right_mono)
    have "(of_nat k :: rat) \<le> of_nat 9999" using k by (subst of_nat_le_iff) simp
    then show "(of_nat k :: rat) \<le> 9999" by simp
  qed simp
  have lt: "dec_rat f \<le> 9999 / 10000 + 1 / 10 ^ 6" using abs_le_D1 [OF f6] top by linarith
  then have one: "\<bar>dec_rat f\<bar> < 1" using dec_rat_nonneg [OF f(2)] by simp
  define g where "g = dec_fix \<lparr>dec_neg = dec_neg f, dec_coeff = dec_coeff f, dec_exp = dec_exp f\<rparr>"
  have same: "dec_rat \<lparr>dec_neg = dec_neg f, dec_coeff = dec_coeff f, dec_exp = dec_exp f\<rparr> = dec_rat f"
    by (simp add: dec_rat_def dec_int_def)
  have "\<bar>dec_rat g - dec_rat f\<bar> \<le> power_int 10 (-28)"
    unfolding g_def same [symmetric] by (rule dec_fix_near) (simp only: same one)
  also have "\<dots> \<le> 1 / 10 ^ 6" by (simp add: power_int_def power_one_over)
  finally have g6: "\<bar>dec_rat g - dec_rat f\<bar> \<le> 1 / 10 ^ 6" .
  have gpos: "\<not> dec_neg g" using f(2) by (simp add: g_def)
  have "dec_rat g < 1" using abs_le_D1 [OF g6] lt by (simp add: field_simps)
  then have g1: "\<bar>dec_rat g\<bar> < 1" using dec_rat_nonneg [OF gpos] by simp
  have sc: "score = dec_add (dec_nat 0) g"
    unfolding score_def dec_one_minus_zero dec_mul_one g_def ..
  have v: "dec_rat score = dec_rat g"
    unfolding sc by (rule dec_add_zero [OF _ g1]) (simp only: g_def dec_fix_coeff)
  show "\<bar>dec_rat f - of_nat k / 10000\<bar> \<le> 1 / 10 ^ 5"
    by (rule order_trans [OF f6]) simp
  show "\<not> dec_neg f" by (rule f(2))
  have "\<bar>dec_rat score - of_nat k / 10000\<bar> \<le> \<bar>dec_rat g - dec_rat f\<bar> + \<bar>dec_rat f - of_nat k / 10000\<bar>"
    unfolding v using abs_triangle_ineq [of "dec_rat g - dec_rat f" "dec_rat f - of_nat k / 10000"] by simp
  also have "\<dots> \<le> 1 / 10 ^ 6 + 1 / 10 ^ 6" by (rule add_mono [OF g6 f6])
  also have "\<dots> \<le> 1 / 10 ^ 5" by simp
  finally show "\<bar>dec_rat score - of_nat k / 10000\<bar> \<le> 1 / 10 ^ 5" .
  have "0 \<le> aligned g e" for e using gpos by (simp add: aligned_def dec_int_def)
  then show "\<not> dec_neg score"
    using gpos by (simp add: sc dec_add_def Let_def of_dec_int_def aligned_def [of "dec_nat 0"] dec_int_def not_less)
qed

lemma ticket_bound: "referee_ticket sha i < 10000"
  by (simp add: referee_ticket_def)

text \<open>
  What the referee says when the pay-off runs from zero to one, the threshold is zero and the
  reviews are current: feasible, recommended, and both numbers are the four-digit ticket.
\<close>

lemma unit_referee:
  assumes "ri_feasibility_threshold i = dec_nat 0" "ri_pay_off_lower i = dec_nat 0"
    "ri_pay_off_upper i = dec_nat 1" "ri_review_validity i = REVIEW_CURRENT"
  shows "\<exists>out t. evaluate_scenario env i p w = (Inr out, w\<lparr>w_uuids := w_uuids w + 2\<rparr>) \<and>
    oc_feasible (ro_outcome out) \<and> sy_recommended (ro_assessment out) \<and> \<not> ro_reviewed_pending out \<and>
    oc_expected_payoff (ro_outcome out) = t \<and> oc_p_win (ro_outcome out) = t \<and> decimal_text t \<and>
    dec_rat (to_dec t) = of_nat (referee_ticket (env_sha env) i) / 10000"
proof -
  let ?k = "referee_ticket (env_sha env) i"
  let ?d = "\<lparr>dec_neg = False, dec_coeff = ?k, dec_exp = - int 4\<rparr>"
  obtain t where t: "from_decimal ?d = Inr t" "decimal_text t" "dec_rat (to_dec t) = dec_rat ?d"
    using from_decimal_text by blast
  have d: "dec_rat ?d = of_nat ?k / 10000"
    by (simp add: dec_rat_def dec_int_def power_int_def power_one_over)
  have score: "referee_score (env_sha env) i =
      dec_add (dec_nat 0) (dec_mul (dec_sub (dec_nat 1) (dec_nat 0)) (float_dec ?k 10000))"
    by (simp only: referee_score_def assms)
  note u = unit_score [OF ticket_bound [of "env_sha env" i]]
  have big: "?k < 10 ^ 28" using ticket_bound [of "env_sha env" i] by (rule less_trans) simp
  have q1: "quantized_text (referee_score (env_sha env) i) = Inr t"
    unfolding score quantized_text_def dec_quantize_near [OF u(4) big near_quantum [OF u(3)]] using t(1) by simp
  have q2: "quantized_text (float_dec ?k 10000) = Inr t"
    unfolding quantized_text_def dec_quantize_near [OF u(2) big near_quantum [OF u(1)]] using t(1) by simp
  have feas: "dec_le (dec_nat 0) (referee_score (env_sha env) i)"
    unfolding score using dec_rat_nonneg [OF u(4)] by simp
  show ?thesis
    using q1 q2 feas t d
    by (auto simp: evaluate_scenario_def assms bindS_apply uuid4_def Let_def make_outcome_def make_assessment_def)
qed

section \<open>Ranking and selection\<close>

text \<open>The selected candidates are the first of the ranking that reach the threshold.\<close>

definition award_limit :: "award_mode \<Rightarrow> nat \<Rightarrow> nat" where
  "award_limit award n = (case award of AWARD_SINGLE \<Rightarrow> 1 | AWARD_MULTI \<Rightarrow> 4 | AWARD_NONE \<Rightarrow> n)"

lemma select_loop_single:
  "select_loop AWARD_SINGLE t n cs = take 1 (filter (\<lambda>c. \<not> dec_less (to_dec (ca_expected_margin c)) t) cs)"
  by (induction cs arbitrary: n) auto

lemma select_loop_none:
  "select_loop AWARD_NONE t n cs = filter (\<lambda>c. \<not> dec_less (to_dec (ca_expected_margin c)) t) cs"
  by (induction cs arbitrary: n) auto

lemma select_loop_multi:
  "n < 4 \<Longrightarrow> select_loop AWARD_MULTI t n cs = take (4 - n) (filter (\<lambda>c. \<not> dec_less (to_dec (ca_expected_margin c)) t) cs)"
  by (induction cs arbitrary: n) (auto simp: take_Cons')

lemma select_loop_take:
  "select_loop award t 0 cs =
   take (award_limit award (length cs)) (filter (\<lambda>c. \<not> dec_less (to_dec (ca_expected_margin c)) t) cs)"
  using select_loop_multi [of 0 t cs]
  by (cases award) (simp_all add: select_loop_single select_loop_none award_limit_def)

text \<open>Ranking does not depend on the order of the candidates when their identifiers differ.\<close>

lemma rank_candidates_perm:
  assumes "set xs = set ys" and "distinct (map ca_candidate_id xs)" "distinct (map ca_candidate_id ys)"
  shows "rank_candidates objective xs = rank_candidates objective ys"
proof -
  have inj: "inj_on (rank_key objective) (set zs)" if "distinct (map ca_candidate_id zs)" for zs
    using that by (auto simp: inj_on_def rank_key_def distinct_map)
  have dist: "distinct (map (rank_key objective) (sort_key (rank_key objective) zs))"
    if "distinct (map ca_candidate_id zs)" for zs
    using that inj [OF that] by (simp add: distinct_map)
  have "sort_key (rank_key objective) xs = sort_key (rank_key objective) ys"
    using assms inj [OF assms(2)] dist [OF assms(2)] dist [OF assms(3)]
    by (intro map_sorted_distinct_set_unique [where f = "rank_key objective"]) simp_all
  then show ?thesis by (simp add: rank_candidates_def)
qed

end
