(* ===== verification/Keeps.thy ===== *)
theory Keeps
  imports Store
begin

text \<open>
  Invariants of a repository proved together with what the operations return: rules for the
  combinators of the services, and predicates on all values of a store.
\<close>

section \<open>Invariants with what values satisfy\<close>

text \<open>
  \<open>keeps I P m\<close>: the operation keeps the invariant of the repository, and what it returns
  satisfies \<open>P\<close>.
\<close>

definition keeps :: "('r \<Rightarrow> bool) \<Rightarrow> ('a \<Rightarrow> bool) \<Rightarrow> ('r world, 'a) svc \<Rightarrow> bool" where
  "keeps I P m \<longleftrightarrow> (\<forall>w. I (w_repo w) \<longrightarrow> wp m (\<lambda>x w'. I (w_repo w') \<and> P x) (\<lambda>w'. I (w_repo w')) w)"

lemma keepsI: "(\<And>w. I (w_repo w) \<Longrightarrow> wp m (\<lambda>x w'. I (w_repo w') \<and> P x) (\<lambda>w'. I (w_repo w')) w) \<Longrightarrow> keeps I P m"
  by (simp add: keeps_def)

lemma keeps_preserves: "keeps I P m \<Longrightarrow> preserves (on_repo I) m"
proof (rule preservesI)
  fix w :: "'a world"
  assume k: "keeps I P m" and "on_repo I w"
  then show "on_repo I (snd (m w))"
    by (cases "m w"; cases "fst (m w)") (auto simp: keeps_def on_repo_def wp_def dest!: spec [of _ w])
qed

lemma keeps_result: "keeps I P m \<Longrightarrow> I (w_repo w) \<Longrightarrow> m w = (Inr x, w') \<Longrightarrow> P x"
  by (force simp: keeps_def wp_def)

lemma preserves_keeps: "preserves (on_repo I) m \<Longrightarrow> keeps I (\<lambda>_. True) m"
  by (simp add: preserves_wp keeps_def on_repo_def [abs_def])

lemma keeps_bindS:
  assumes "keeps I P m" and "\<And>x. P x \<Longrightarrow> keeps I Q (f x)"
  shows "keeps I Q (bindS m f)"
proof (rule keepsI)
  fix w :: "'a world" assume "I (w_repo w)"
  then have "wp m (\<lambda>x w'. I (w_repo w') \<and> P x) (\<lambda>w'. I (w_repo w')) w" using assms(1) by (simp add: keeps_def)
  then have "wp m (\<lambda>x. wp (f x) (\<lambda>x w'. I (w_repo w') \<and> Q x) (\<lambda>w'. I (w_repo w'))) (\<lambda>w'. I (w_repo w')) w"
    by (rule wp_weaken) (use assms(2) in \<open>auto simp: keeps_def\<close>)
  then show "wp (bindS m f) (\<lambda>x w'. I (w_repo w') \<and> Q x) (\<lambda>w'. I (w_repo w')) w" by (rule wp_bindS)
qed

lemma keeps_weaken: "keeps I P m \<Longrightarrow> (\<And>x. P x \<Longrightarrow> Q x) \<Longrightarrow> keeps I Q m"
  unfolding keeps_def by (blast intro: wp_weaken [where m = m])

lemma keeps_ret: "P x \<Longrightarrow> keeps I P (ret x)"
  by (simp add: keeps_def wp_def)

lemma keeps_liftE: "keeps I (\<lambda>x. r = Inr x) (liftE r)"
  by (auto simp: keeps_def wp_def split: sum.split)

lemma keeps_checkS: "keeps I (\<lambda>_. ok) (checkS ok e)"
  by (auto simp: keeps_def wp_def checkS_def)

lemma keeps_get: "keeps I (\<lambda>x. \<exists>r. I r \<and> x = f r) (get_repo f)"
  by (auto simp: keeps_def wp_def get_repo_def)

lemma keeps_put: "(\<And>r. I r \<Longrightarrow> I (f r)) \<Longrightarrow> keeps I (\<lambda>_. True) (put_repo f)"
  by (auto simp: keeps_def wp_def put_repo_def)

lemma keeps_if: "(c \<Longrightarrow> keeps I P m) \<Longrightarrow> (\<not> c \<Longrightarrow> keeps I P n) \<Longrightarrow> keeps I P (if c then m else n)"
  by simp

lemma keeps_case_option:
  "(x = None \<Longrightarrow> keeps I P m) \<Longrightarrow> (\<And>y. x = Some y \<Longrightarrow> keeps I P (f y)) \<Longrightarrow>
   keeps I P (case x of None \<Rightarrow> m | Some y \<Rightarrow> f y)"
  by (cases x) simp_all

lemma keeps_case_prod: "(\<And>a b. x = (a, b) \<Longrightarrow> keeps I P (f a b)) \<Longrightarrow> keeps I P (case x of (a, b) \<Rightarrow> f a b)"
  by (cases x) simp

lemma keeps_Let: "(\<And>y. y = x \<Longrightarrow> keeps I P (f y)) \<Longrightarrow> keeps I P (Let x f)"
  by simp

lemma keeps_forS: "(\<And>x. x \<in> set xs \<Longrightarrow> keeps I P (f x)) \<Longrightarrow> keeps I (\<lambda>ys. \<forall>y \<in> set ys. P y) (forS xs f)"
proof (induction xs)
  case (Cons x xs)
  have "keeps I (\<lambda>ys. \<forall>y \<in> set ys. P y) (bindS (forS xs f) (\<lambda>ys. ret (y # ys)))" if "P y" for y
    using Cons that by (auto intro!: keeps_bindS [where P = "\<lambda>ys. \<forall>y \<in> set ys. P y"] keeps_ret)
  then show ?case using Cons.prems by (auto intro: keeps_bindS [where P = P])
qed (simp add: keeps_ret)

lemma keeps_world:
  "keeps I (\<lambda>_. True) (uuid4 env)" "keeps I (\<lambda>_. True) (clock_now env)" "keeps I (\<lambda>_. True) require_writer"
  "keeps I (\<lambda>_. True) (write_audit env r)" "keeps I (\<lambda>_. True) (audited env i a ty k q rc oc v)"
  "keeps I (\<lambda>_. True) (emit_event env identity ty aty aid payload rid pid uid)"
  by (simp_all add: preserves_keeps audited_def)

lemmas keeps_rules =
  keeps_forS keeps_if keeps_case_option keeps_case_prod keeps_Let keeps_liftE keeps_checkS keeps_get keeps_world

text \<open>The same rules as first steps of a sequence.\<close>

lemma keeps_bind_ret: "keeps I P (f x) \<Longrightarrow> keeps I P (bindS (ret x) f)"
  by (simp add: bindS_def ret_def)

lemma keeps_bind_assoc: "keeps I P (bindS m (\<lambda>x. bindS (f x) g)) \<Longrightarrow> keeps I P (bindS (bindS m f) g)"
  by (simp add: keeps_def wp_def bindS_def split: prod.splits sum.splits)

lemma keeps_bind_case_option:
  "(x = None \<Longrightarrow> keeps I P (bindS m g)) \<Longrightarrow> (\<And>y. x = Some y \<Longrightarrow> keeps I P (bindS (f y) g)) \<Longrightarrow>
   keeps I P (bindS (case x of None \<Rightarrow> m | Some y \<Rightarrow> f y) g)"
  by (cases x) simp_all

lemmas keeps_steps =
  keeps_world [THEN keeps_bindS] keeps_liftE [THEN keeps_bindS] keeps_checkS [THEN keeps_bindS]
  keeps_get [THEN keeps_bindS] keeps_put [THEN keeps_bindS] keeps_forS [THEN keeps_bindS]
  keeps_bind_ret keeps_bind_assoc keeps_bind_case_option

end
