(* ===== verification/Module_Base.thy ===== *)
theory Module_Base
  imports Keeps Runs
begin

text \<open>
  What the application services of the modules share: the scope filter of their repositories,
  the audit and outbox helpers, lookups that raise when nothing is found, and how each of these
  behaves under the invariant, weakest-precondition and execution rules.
\<close>

section \<open>Scope\<close>

definition scope_matches :: "uuid \<Rightarrow> uuid \<Rightarrow> uuid option \<Rightarrow> uuid \<Rightarrow> tenant_scope \<Rightarrow> bool" where
  "scope_matches tid did pid uid scope =
     (if tid \<noteq> sc_tenant_id scope \<or> did \<noteq> sc_data_domain_id scope then False
      else if pid \<noteq> None \<and> \<not> sc_all_projects scope \<and> the pid \<notin> set (sc_project_ids scope) then False
      else if \<not> sc_all_decision_units scope \<and> uid \<notin> set (sc_decision_unit_ids scope) then False
      else True)"

text \<open>The store and the guard of the identity agree on what a scope covers.\<close>

lemma scope_matches_covers: "scope_matches tid did pid uid scope \<longleftrightarrow> scope_covers scope tid did pid (Some uid)"
  by (cases pid) (auto simp: scope_matches_def scope_covers_def)

section \<open>Shared helpers\<close>

definition noted ::
  "env \<Rightarrow> identity_context \<Rightarrow> string \<Rightarrow> string \<Rightarrow> uuid \<Rightarrow> string \<Rightarrow> string \<Rightarrow> string \<Rightarrow> uuid option \<Rightarrow>
   ('r world, audit_event) svc" where
  "noted env identity action object_type object_id request_id reason_code outcome version_id =
     write_audit env
       \<lparr>ar_identity = identity, ar_action = action, ar_object_type = object_type, ar_object_id = object_id,
        ar_request_id = request_id, ar_reason_code = reason_code, ar_outcome = outcome,
        ar_object_version_id = version_id\<rparr>"

text \<open>\<open>next(iter(ids), None)\<close>: the first element the set iterates over.\<close>

definition first_of :: "'a list \<Rightarrow> 'a option" where
  "first_of xs = (case xs of [] \<Rightarrow> None | x # _ \<Rightarrow> Some x)"

definition own_project :: "identity_context \<Rightarrow> uuid option" where
  "own_project identity = first_of (sc_project_ids (ic_scope identity))"

definition module_emit ::
  "env \<Rightarrow> identity_context \<Rightarrow> string \<Rightarrow> string \<Rightarrow> uuid \<Rightarrow> (string \<times> json) list \<Rightarrow> string \<Rightarrow> ('r world, unit) svc" where
  "module_emit env identity event_type aggregate_type aggregate_id payload request_id =
     emit_event env identity event_type aggregate_type aggregate_id payload request_id
       (own_project identity) (first_of (sc_decision_unit_ids (ic_scope identity)))"

definition found_or :: "exc \<Rightarrow> ('r \<Rightarrow> 'a option) \<Rightarrow> ('r world, 'a) svc" where
  "found_or e f = bindS (get_repo f) (\<lambda>x. case x of None \<Rightarrow> throw e | Some y \<Rightarrow> ret y)"

definition missing :: exc where
  "missing = BiaiceError ''RESOURCE_NOT_FOUND''"

definition unit_allowed :: "identity_context \<Rightarrow> uuid \<Rightarrow> ('r world, unit) svc" where
  "unit_allowed identity unit_id = liftE (own_scope identity None (Some unit_id))"

text \<open>A call of a history: the caller drops what the operation returns.\<close>

definition as_unit :: "('s, 'a) svc \<Rightarrow> ('s, unit) svc" where
  "as_unit m = bindS m (\<lambda>_. ret ())"

text \<open>A history of calls; a call that raises leaves what it wrote.\<close>

primrec history :: "('c \<Rightarrow> ('s, unit) svc) \<Rightarrow> 'c list \<Rightarrow> 's \<Rightarrow> 's" where
  "history run [] s = s"
| "history run (c # cs) s = history run cs (snd (run c s))"

lemma history_keeps:
  assumes "\<And>c. c \<in> set cs \<Longrightarrow> preserves P (run c)" and "P s"
  shows "P (history run cs s)"
  using assms by (induction cs arbitrary: s) (auto intro: preservesD)

lemma history_append: "history run (cs @ ds) s = history run ds (history run cs s)"
  by (induction cs arbitrary: s) simp_all

lemma as_unit_state: "snd (m w) = w \<Longrightarrow> snd (as_unit m w) = w"
  by (auto simp: as_unit_def bindS_def split: prod.splits sum.splits)

lemma preserves_as_unit: "keeps I P m \<Longrightarrow> preserves (on_repo I) (as_unit m)"
  unfolding as_unit_def
  by (rule keeps_preserves [where P = "\<lambda>_. True"], erule keeps_bindS, rule keeps_ret, simp)

text \<open>The supply of identifiers will not yield \<open>k\<close> any more.\<close>

definition never_drawn :: "env \<Rightarrow> uuid \<Rightarrow> 'r world \<Rightarrow> bool" where
  "never_drawn env k w \<longleftrightarrow> (\<forall>j \<ge> w_uuids w. env_uuid env j \<noteq> k)"

section \<open>Rules for the helpers\<close>

lemma preserves_helpers [intro!, simp]:
  "preserves (on_repo Q) (noted env i a ty k q rc oc v)" "preserves (on_repo Q) (module_emit env i ev ty k payload q)"
  "preserves P (unit_allowed i unit)" "preserves P (found_or e f)"
  by (simp_all add: noted_def module_emit_def unit_allowed_def found_or_def preserves_bindS split: option.split)

lemma quiet_helpers [simp]:
  "quiet (noted env i a b k q rc oc v)" "quiet (module_emit env i a b k payload q)" "quiet (unit_allowed i k)"
  "quiet (found_or e f)"
  by (auto simp: noted_def module_emit_def unit_allowed_def found_or_def split: option.split)

lemma keeps_helpers:
  "keeps I (\<lambda>_. True) (noted env i a ty k q rc oc v)" "keeps I (\<lambda>_. True) (module_emit env i ev ty k payload q)"
  "keeps I (\<lambda>_. True) (unit_allowed i unit)" "keeps I (\<lambda>_. False) (throw e)"
  by (simp_all add: preserves_keeps) (simp add: keeps_def wp_def)

lemma keeps_found_or: "keeps I (\<lambda>x. \<exists>r. I r \<and> f r = Some x) (found_or e f)"
  unfolding found_or_def by (auto simp: keeps_def wp_def bindS_def get_repo_def split: option.split)

lemmas keeps_module_rules = keeps_rules keeps_helpers keeps_found_or

lemmas keeps_module_steps = keeps_steps keeps_helpers [THEN keeps_bindS] keeps_found_or [THEN keeps_bindS]

lemma wp_found_or: "(\<And>x. f (w_repo w) = Some x \<Longrightarrow> Q x w) \<Longrightarrow> E w \<Longrightarrow> wp (found_or e f) Q E w"
  by (auto simp: found_or_def wp_def bindS_def get_repo_def split: option.split)

lemma wp_unit_allowed: "(own_scope i None (Some u) = Inr () \<Longrightarrow> Q () w) \<Longrightarrow> E w \<Longrightarrow> wp (unit_allowed i u) Q E w"
  by (auto simp: unit_allowed_def wp_def split: sum.split)

lemma wp_require_writer: "(ms_available (w_audit w) \<Longrightarrow> Q () w) \<Longrightarrow> E w \<Longrightarrow> wp require_writer Q E w"
  by (auto simp: require_writer_def require_audit_def wp_def bindS_def guardE_def split: sum.split)

text \<open>What holds in every later world and of what a quiet helper leaves.\<close>

lemmas module_wp = wp_rules wp_found_or wp_unit_allowed wp_require_writer
  wp_quiet [OF quiet_helpers(1)] wp_quiet [OF quiet_helpers(2)]

lemma runs_noted:
  "digest_ok (env_sha env) \<Longrightarrow> runs env m r (n + 1) (t + 1) x r' n' t' \<Longrightarrow>
   runs env (bindS (noted env i a ty k q rc oc v) (\<lambda>_. m)) r n t x r' n' t'"
  unfolding noted_def by (rule runs_write_audit)

lemma runs_module_emit: "runs env (module_emit env' i ty aty aid payload q) r n t () r n t"
  unfolding module_emit_def by (rule runs_emit_event)

lemma runs_found_or: "f r = Some x \<Longrightarrow> runs env (found_or e f) r n t x r n t"
  by (simp add: runs_def found_or_def get_repo_def bindS_apply standing_def)

lemma runs_unit_allowed: "own_scope i None (Some u) = Inr () \<Longrightarrow> runs env (unit_allowed i u) r n t () r n t"
  unfolding unit_allowed_def by (rule runs_liftE)

text \<open>The rules as first steps of a sequence, to be tried in the order of the code.\<close>

lemmas runs_steps =
  runs_bind [OF runs_require_writer] runs_bind [OF runs_unit_allowed] runs_bind [OF runs_checkS] runs_bind [OF runs_clock]
  runs_bind [OF runs_uuid4] runs_bind [OF runs_put] runs_bind [OF runs_found_or] runs_bind [OF runs_get] runs_noted
  runs_bind [OF runs_module_emit] runs_bind [OF runs_liftE] runs_bind [OF runs_ret] runs_ret

lemma bindS_assoc: "bindS (bindS m f) g = bindS m (\<lambda>x. bindS (f x) g)"
  by (rule ext) (simp add: bindS_def split: prod.splits sum.splits)

lemma runs_bind_assoc:
  "runs env (bindS m (\<lambda>x. bindS (f x) g)) r n t y r' n' t' \<Longrightarrow> runs env (bindS (bindS m f) g) r n t y r' n' t'"
  by (simp add: bindS_assoc)

lemma wp_success: "wp m Q E w \<Longrightarrow> m w = (Inr x, w') \<Longrightarrow> Q x w'"
  by (simp add: wp_def)

lemma runs_as_unit: "runs env m r n t x r' n' t' \<Longrightarrow> runs env (as_unit m) r n t () r' n' t'"
  unfolding as_unit_def by (erule runs_bind, rule runs_ret)

lemma runs_after: "runs env m r n t x r' n' t' \<Longrightarrow> standing env r n t w \<Longrightarrow> standing env r' n' t' (snd (m w))"
  by (fastforce simp: runs_def)

lemma history_step:
  "standing env r n t w \<Longrightarrow> runs env (run c) r n t x r' n' t' \<Longrightarrow>
   (\<And>w'. standing env r' n' t' w' \<Longrightarrow> standing env r'' n'' t'' (history run cs w')) \<Longrightarrow>
   standing env r'' n'' t'' (history run (c # cs) w)"
  by (simp add: runs_after)

section \<open>Watching one object\<close>

text \<open>
  \<open>stays W P m\<close>: the operation keeps the predicate \<open>W\<close> on the world, and what it returns
  satisfies \<open>P\<close>. A watched world satisfies an invariant of its repository, will not draw the
  identifier \<open>k\<close>, and has taken at least \<open>n\<close> clock readings.
\<close>

definition stays :: "('s \<Rightarrow> bool) \<Rightarrow> ('a \<Rightarrow> bool) \<Rightarrow> ('s, 'a) svc \<Rightarrow> bool" where
  "stays W P m \<longleftrightarrow> (\<forall>w. W w \<longrightarrow> wp m (\<lambda>x w'. W w' \<and> P x) W w)"

definition watch :: "env \<Rightarrow> uuid \<Rightarrow> nat \<Rightarrow> ('r \<Rightarrow> bool) \<Rightarrow> 'r world \<Rightarrow> bool" where
  "watch env k n I w \<longleftrightarrow> I (w_repo w) \<and> never_drawn env k w \<and> n \<le> w_ticks w"

lemma stays_bindS:
  assumes "stays W P m" and "\<And>x. P x \<Longrightarrow> stays W Q (f x)"
  shows "stays W Q (bindS m f)"
  unfolding stays_def
proof (intro allI impI wp_bindS)
  fix w assume "W w"
  then have "wp m (\<lambda>x w'. W w' \<and> P x) W w" using assms(1) by (simp add: stays_def)
  then show "wp m (\<lambda>x. wp (f x) (\<lambda>x w'. W w' \<and> Q x) W) W w"
    by (rule wp_weaken) (use assms(2) in \<open>auto simp: stays_def\<close>)
qed

lemma stays_weaken: "stays W P m \<Longrightarrow> (\<And>x. P x \<Longrightarrow> Q x) \<Longrightarrow> stays W Q m"
  unfolding stays_def by (blast intro: wp_weaken [where m = m])

lemma stays_ret: "P x \<Longrightarrow> stays W P (ret x)"
  by (simp add: stays_def wp_def)

lemma stays_throw: "stays W P (throw e)"
  by (simp add: stays_def wp_def)

lemma stays_liftE: "stays W (\<lambda>x. r = Inr x) (liftE r)"
  by (auto simp: stays_def wp_def split: sum.split)

lemma stays_checkS: "stays W (\<lambda>_. ok) (checkS ok e)"
  by (auto simp: stays_def wp_def checkS_def)

lemma stays_if: "(c \<Longrightarrow> stays W P m) \<Longrightarrow> (\<not> c \<Longrightarrow> stays W P n) \<Longrightarrow> stays W P (if c then m else n)"
  by simp

lemma stays_case_option:
  "(x = None \<Longrightarrow> stays W P m) \<Longrightarrow> (\<And>y. x = Some y \<Longrightarrow> stays W P (f y)) \<Longrightarrow>
   stays W P (case x of None \<Rightarrow> m | Some y \<Rightarrow> f y)"
  by (cases x) simp_all

lemma stays_bind_ret: "stays W P (f x) \<Longrightarrow> stays W P (bindS (ret x) f)"
  by (simp add: bindS_def ret_def)

lemma stays_bind_assoc: "stays W P (bindS m (\<lambda>x. bindS (f x) g)) \<Longrightarrow> stays W P (bindS (bindS m f) g)"
  by (simp add: bindS_assoc)

lemma stays_bind_case_option:
  "(x = None \<Longrightarrow> stays W P (bindS m g)) \<Longrightarrow> (\<And>y. x = Some y \<Longrightarrow> stays W P (bindS (f y) g)) \<Longrightarrow>
   stays W P (bindS (case x of None \<Rightarrow> m | Some y \<Rightarrow> f y) g)"
  by (cases x) simp_all

lemma stays_forS: "(\<And>x. x \<in> set xs \<Longrightarrow> stays W P (f x)) \<Longrightarrow> stays W (\<lambda>ys. \<forall>y \<in> set ys. P y) (forS xs f)"
proof (induction xs)
  case (Cons x xs)
  have "stays W (\<lambda>ys. \<forall>y \<in> set ys. P y) (bindS (forS xs f) (\<lambda>ys. ret (y # ys)))" if "P y" for y
    using Cons that by (auto intro!: stays_bindS [where P = "\<lambda>ys. \<forall>y \<in> set ys. P y"] stays_ret)
  then show ?case using Cons.prems by (auto intro: stays_bindS [where P = P])
qed (simp add: stays_ret)

lemma stays_preserves: "stays W P m \<Longrightarrow> preserves W m"
  unfolding preserves_wp stays_def by (blast intro: wp_weaken [where m = m])

lemma stays_as_unit: "stays W P m \<Longrightarrow> preserves W (as_unit m)"
  unfolding as_unit_def
  by (rule stays_preserves [where P = "\<lambda>_. True"], erule stays_bindS, rule stays_ret, simp)

lemma stays_result: "stays W P m \<Longrightarrow> W w \<Longrightarrow> fst (m w) = Inr x \<Longrightarrow> P x"
  by (cases "m w") (force simp: stays_def wp_def)

lemma stays_any: "stays (\<lambda>_. True) (\<lambda>_. True) m"
  by (simp add: stays_def wp_def split: prod.split sum.split)

lemma watch_later: "later w w' \<Longrightarrow> watch env k n I w \<Longrightarrow> watch env k n I w'"
  by (auto simp: watch_def later_def never_drawn_def)

lemma watch_quiet: "quiet m \<Longrightarrow> stays (watch env k n I) (\<lambda>_. True) m"
  by (auto simp: stays_def intro: wp_quiet watch_later)

lemma watch_uuid4: "stays (watch env k n I) (\<lambda>v. v \<noteq> k) (uuid4 env)"
  by (auto simp: stays_def watch_def never_drawn_def later_def wp_def uuid4_def)

lemma watch_clock: "stays (watch env k n I) (\<lambda>now. \<exists>t \<ge> n. now = env_clock env t) (clock_now env)"
  by (auto simp: stays_def watch_def never_drawn_def later_def wp_def clock_now_def)

lemma watch_get: "stays (watch env k n I) (\<lambda>x. \<exists>r. I r \<and> x = f r) (get_repo f)"
  by (auto simp: stays_def watch_def wp_def get_repo_def)

lemma watch_put: "(\<And>r. I r \<Longrightarrow> I (f r)) \<Longrightarrow> stays (watch env k n I) (\<lambda>_. True) (put_repo f)"
  by (auto simp: stays_def watch_def never_drawn_def wp_def put_repo_def)

lemma watch_found_or: "stays (watch env k n I) (\<lambda>x. \<exists>r. I r \<and> f r = Some x) (found_or e f)"
  unfolding found_or_def by (auto simp: stays_def wp_def bindS_def get_repo_def watch_def split: option.split)

lemmas watch_world =
  watch_quiet [OF quiet_helpers(1)] watch_quiet [OF quiet_helpers(2)] watch_quiet [OF quiet_helpers(3)]
  watch_quiet [OF quiet_require_writer] watch_uuid4 watch_clock watch_get watch_found_or

lemmas watch_rules = watch_world stays_liftE stays_checkS stays_if stays_case_option stays_throw stays_forS

lemmas watch_steps =
  watch_world [THEN stays_bindS] stays_liftE [THEN stays_bindS] stays_checkS [THEN stays_bindS]
  watch_put [THEN stays_bindS] stays_if stays_case_option stays_throw stays_bind_ret stays_bind_assoc
  stays_bind_case_option

section \<open>Samples\<close>

text \<open>A fresh process, and an identity that sees every project and decision unit of its tenant.\<close>

definition fresh_world :: "'r \<Rightarrow> 'r world" where
  "fresh_world r = \<lparr>w_repo = r, w_audit = \<lparr>ms_events = [], ms_available = True\<rparr>, w_outbox = NO_OUTBOX,
     w_uuids = 0, w_ticks = 0\<rparr>"

definition wide_user :: "uuid \<Rightarrow> identity_context" where
  "wide_user subject = sample_identity
     \<lparr>ic_subject_id := subject, ic_scope := sample_scope\<lparr>sc_all_projects := True, sc_all_decision_units := True\<rparr>\<rparr>"

definition counting_env :: env where
  "counting_env = \<lparr>env_sha = sample_sha, env_isofmt = print_int,
     env_uuid = (\<lambda>n. if n < 50 then of_nat (n + 100) else 7), env_clock = int\<rparr>"

lemma counting_env_simps [simp]:
  "env_sha counting_env = sample_sha" "env_clock counting_env = int"
  "n < 50 \<Longrightarrow> env_uuid counting_env n = of_nat (n + 100)" "\<not> n < 50 \<Longrightarrow> env_uuid counting_env n = 7"
  by (simp_all add: counting_env_def)

lemma counting_env_drawn:
  assumes "j < w_uuids w" and "j < 50"
  shows "never_drawn counting_env (of_nat (j + 100)) w"
  unfolding never_drawn_def
proof (intro allI impI)
  fix m assume m: "w_uuids w \<le> m"
  have small: "unat (of_nat n :: uuid) = n" if "n < 200" for n
    using that by (simp add: unat_of_nat)
  have "unat (env_uuid counting_env m) \<noteq> unat (of_nat (j + 100) :: uuid)"
    using assms m small [of "m + 100"] small [of "j + 100"] by (cases "m < 50") (simp_all del: of_nat_add)
  then show "env_uuid counting_env m \<noteq> of_nat (j + 100)" by metis
qed

lemma wide_user_simps [simp]:
  "ic_subject_id (wide_user s) = s" "sc_all_projects (ic_scope (wide_user s))"
  "sc_all_decision_units (ic_scope (wide_user s))" "own_scope (wide_user s) None (Some u) = Inr ()"
  by (simp_all add: wide_user_def own_scope_def Let_def scope_covers_def)

lemma fresh_world_repo [simp]: "(fresh_world r)\<lparr>w_repo := s\<rparr> = fresh_world s" "w_repo (fresh_world r) = r"
  by (simp_all add: fresh_world_def)

lemma standing_fresh [simp]: "standing env r n t (fresh_world s) \<longleftrightarrow> r = s \<and> n = 0 \<and> t = 0"
  by (auto simp: standing_def fresh_world_def audit_ok_def fresh_chains_verify)

end
