(* ===== verification/Sim_Repository.thy ===== *)
theory Sim_Repository
  imports Sim_Numbers Module_Base
begin

text \<open>
  The in-memory store of the simulation module, \<open>modules/simulation/application/repository.py\<close>:
  one dictionary per aggregate, every read filtered by the caller's scope. The stores are
  instances of the interfaces of \<open>Store\<close>; the lock is not modelled, each operation is atomic.
  Sorting by the text of a UUID is sorting by its value, and the text of UTC times sorts as the
  times do.
\<close>

section \<open>The repository\<close>

record sim_repo =
  sr_baselines :: "(uuid, decision_baseline) dict"
  sr_search_spaces :: "(uuid, search_space) dict"
  sr_scenario_sets :: "(uuid, scenario_set) dict"
  sr_batches :: "(uuid, simulation_batch) dict"
  sr_candidates :: "(uuid, simulation_candidate) dict"
  sr_static_validations :: "(uuid, static_validation) dict"
  sr_scenario_outcomes :: "(uuid, scenario_outcome) dict"
  sr_strategy_assessments :: "(uuid, strategy_assessment) dict"
  sr_optimization_runs :: "(uuid, optimization_run) dict"
  sr_stress_assessments :: "(uuid, stress_assessment) dict"
  sr_strategy_plans :: "(uuid, strategy_plan) dict"
  sr_merge_assessments :: "(uuid, merge_assessment) dict"
  sr_recommendation_eligibilities :: "(uuid, recommendation_eligibility) dict"
  sr_snapshots :: "(uuid, assessment_snapshot) dict"

definition empty_sim :: sim_repo where
  "empty_sim = \<lparr>sr_baselines = [], sr_search_spaces = [], sr_scenario_sets = [], sr_batches = [], sr_candidates = [], sr_static_validations = [], sr_scenario_outcomes = [], sr_strategy_assessments = [], sr_optimization_runs = [], sr_stress_assessments = [], sr_strategy_plans = [], sr_merge_assessments = [], sr_recommendation_eligibilities = [], sr_snapshots = []\<rparr>"

definition baseline_visible :: "tenant_scope \<Rightarrow> decision_baseline \<Rightarrow> bool" where
  "baseline_visible scope x = scope_matches (ba_tenant_id x) (ba_data_domain_id x) (ba_project_id x) (ba_decision_unit_id x) scope"

definition upsert_baseline :: "decision_baseline \<Rightarrow> sim_repo \<Rightarrow> sim_repo" where
  "upsert_baseline x r = r\<lparr>sr_baselines := dict_set (ba_baseline_id x) x (sr_baselines r)\<rparr>"

definition get_baseline :: "tenant_scope \<Rightarrow> uuid \<Rightarrow> sim_repo \<Rightarrow> decision_baseline option" where
  "get_baseline scope k r = stored (sr_baselines r) baseline_visible scope k"

definition list_baselines :: "tenant_scope \<Rightarrow> uuid \<Rightarrow> sim_repo \<Rightarrow> decision_baseline list" where
  "list_baselines scope unit_id r =
     sort_key (\<lambda>x. (ba_decision_unit_id x, ba_version_id x, ba_created_at x))
       (filter (\<lambda>x. ba_decision_unit_id x = unit_id) (visible_values (sr_baselines r) baseline_visible scope))"

definition search_space_visible :: "tenant_scope \<Rightarrow> search_space \<Rightarrow> bool" where
  "search_space_visible scope x = scope_matches (ss_tenant_id x) (ss_data_domain_id x) (ss_project_id x) (ss_decision_unit_id x) scope"

definition upsert_search_space :: "search_space \<Rightarrow> sim_repo \<Rightarrow> sim_repo" where
  "upsert_search_space x r = r\<lparr>sr_search_spaces := dict_set (ss_search_space_id x) x (sr_search_spaces r)\<rparr>"

definition get_search_space :: "tenant_scope \<Rightarrow> uuid \<Rightarrow> sim_repo \<Rightarrow> search_space option" where
  "get_search_space scope k r = stored (sr_search_spaces r) search_space_visible scope k"

definition list_search_spaces :: "tenant_scope \<Rightarrow> uuid \<Rightarrow> sim_repo \<Rightarrow> search_space list" where
  "list_search_spaces scope unit_id r =
     sort_key (\<lambda>x. (ss_decision_unit_id x, ss_version_id x, ss_created_at x))
       (filter (\<lambda>x. ss_decision_unit_id x = unit_id) (visible_values (sr_search_spaces r) search_space_visible scope))"

definition scenario_set_visible :: "tenant_scope \<Rightarrow> scenario_set \<Rightarrow> bool" where
  "scenario_set_visible scope x = scope_matches (st_tenant_id x) (st_data_domain_id x) (st_project_id x) (st_decision_unit_id x) scope"

definition upsert_scenario_set :: "scenario_set \<Rightarrow> sim_repo \<Rightarrow> sim_repo" where
  "upsert_scenario_set x r = r\<lparr>sr_scenario_sets := dict_set (st_scenario_set_id x) x (sr_scenario_sets r)\<rparr>"

definition get_scenario_set :: "tenant_scope \<Rightarrow> uuid \<Rightarrow> sim_repo \<Rightarrow> scenario_set option" where
  "get_scenario_set scope k r = stored (sr_scenario_sets r) scenario_set_visible scope k"

definition list_scenario_sets :: "tenant_scope \<Rightarrow> uuid \<Rightarrow> sim_repo \<Rightarrow> scenario_set list" where
  "list_scenario_sets scope unit_id r =
     sort_key (\<lambda>x. (st_decision_unit_id x, st_version_id x, st_created_at x))
       (filter (\<lambda>x. st_decision_unit_id x = unit_id) (visible_values (sr_scenario_sets r) scenario_set_visible scope))"

definition batch_visible :: "tenant_scope \<Rightarrow> simulation_batch \<Rightarrow> bool" where
  "batch_visible scope x = scope_matches (sb_tenant_id x) (sb_data_domain_id x) (sb_project_id x) (sb_decision_unit_id x) scope"

definition upsert_batch :: "simulation_batch \<Rightarrow> sim_repo \<Rightarrow> sim_repo" where
  "upsert_batch x r = r\<lparr>sr_batches := dict_set (sb_batch_id x) x (sr_batches r)\<rparr>"

definition get_batch :: "tenant_scope \<Rightarrow> uuid \<Rightarrow> sim_repo \<Rightarrow> simulation_batch option" where
  "get_batch scope k r = stored (sr_batches r) batch_visible scope k"

definition list_batches :: "tenant_scope \<Rightarrow> uuid \<Rightarrow> sim_repo \<Rightarrow> simulation_batch list" where
  "list_batches scope unit_id r =
     sort_key (\<lambda>x. (sb_decision_unit_id x, sb_version_id x, sb_created_at x))
       (filter (\<lambda>x. sb_decision_unit_id x = unit_id) (visible_values (sr_batches r) batch_visible scope))"

definition candidate_visible :: "tenant_scope \<Rightarrow> simulation_candidate \<Rightarrow> bool" where
  "candidate_visible scope x = scope_matches (ca_tenant_id x) (ca_data_domain_id x) (ca_project_id x) (ca_decision_unit_id x) scope"

definition upsert_candidate :: "simulation_candidate \<Rightarrow> sim_repo \<Rightarrow> sim_repo" where
  "upsert_candidate x r = r\<lparr>sr_candidates := dict_set (ca_candidate_id x) x (sr_candidates r)\<rparr>"

definition list_candidates :: "tenant_scope \<Rightarrow> uuid \<Rightarrow> sim_repo \<Rightarrow> simulation_candidate list" where
  "list_candidates scope batch_id r =
     sort_key (\<lambda>x. ca_candidate_id x)
       (filter (\<lambda>x. ca_batch_id x = batch_id) (visible_values (sr_candidates r) candidate_visible scope))"

definition static_validation_visible :: "tenant_scope \<Rightarrow> static_validation \<Rightarrow> bool" where
  "static_validation_visible scope x = scope_matches (sv_tenant_id x) (sv_data_domain_id x) (sv_project_id x) (sv_decision_unit_id x) scope"

definition upsert_static_validation :: "static_validation \<Rightarrow> sim_repo \<Rightarrow> sim_repo" where
  "upsert_static_validation x r = r\<lparr>sr_static_validations := dict_set (sv_validation_id x) x (sr_static_validations r)\<rparr>"

definition list_static_validations :: "tenant_scope \<Rightarrow> uuid \<Rightarrow> sim_repo \<Rightarrow> static_validation list" where
  "list_static_validations scope batch_id r =
     sort_key (\<lambda>x. sv_validation_id x)
       (filter (\<lambda>x. sv_batch_id x = batch_id) (visible_values (sr_static_validations r) static_validation_visible scope))"

definition scenario_outcome_visible :: "tenant_scope \<Rightarrow> scenario_outcome \<Rightarrow> bool" where
  "scenario_outcome_visible scope x = scope_matches (oc_tenant_id x) (oc_data_domain_id x) (oc_project_id x) (oc_decision_unit_id x) scope"

definition upsert_scenario_outcome :: "scenario_outcome \<Rightarrow> sim_repo \<Rightarrow> sim_repo" where
  "upsert_scenario_outcome x r = r\<lparr>sr_scenario_outcomes := dict_set (oc_outcome_id x) x (sr_scenario_outcomes r)\<rparr>"

definition list_scenario_outcomes :: "tenant_scope \<Rightarrow> uuid \<Rightarrow> sim_repo \<Rightarrow> scenario_outcome list" where
  "list_scenario_outcomes scope batch_id r =
     sort_key (\<lambda>x. (oc_scenario_id x, oc_candidate_id x))
       (filter (\<lambda>x. oc_batch_id x = batch_id) (visible_values (sr_scenario_outcomes r) scenario_outcome_visible scope))"

definition strategy_assessment_visible :: "tenant_scope \<Rightarrow> strategy_assessment \<Rightarrow> bool" where
  "strategy_assessment_visible scope x = scope_matches (sy_tenant_id x) (sy_data_domain_id x) (sy_project_id x) (sy_decision_unit_id x) scope"

definition upsert_strategy_assessment :: "strategy_assessment \<Rightarrow> sim_repo \<Rightarrow> sim_repo" where
  "upsert_strategy_assessment x r = r\<lparr>sr_strategy_assessments := dict_set (sy_assessment_id x) x (sr_strategy_assessments r)\<rparr>"

definition list_strategy_assessments :: "tenant_scope \<Rightarrow> uuid \<Rightarrow> sim_repo \<Rightarrow> strategy_assessment list" where
  "list_strategy_assessments scope batch_id r =
     sort_key (\<lambda>x. (sy_scenario_id x, sy_candidate_id x))
       (filter (\<lambda>x. sy_batch_id x = batch_id) (visible_values (sr_strategy_assessments r) strategy_assessment_visible scope))"

definition optimization_run_visible :: "tenant_scope \<Rightarrow> optimization_run \<Rightarrow> bool" where
  "optimization_run_visible scope x = scope_matches (ru_tenant_id x) (ru_data_domain_id x) (ru_project_id x) (ru_decision_unit_id x) scope"

definition upsert_optimization_run :: "optimization_run \<Rightarrow> sim_repo \<Rightarrow> sim_repo" where
  "upsert_optimization_run x r = r\<lparr>sr_optimization_runs := dict_set (ru_run_id x) x (sr_optimization_runs r)\<rparr>"

definition get_optimization_run :: "tenant_scope \<Rightarrow> uuid \<Rightarrow> sim_repo \<Rightarrow> optimization_run option" where
  "get_optimization_run scope k r = stored (sr_optimization_runs r) optimization_run_visible scope k"

definition list_optimization_runs :: "tenant_scope \<Rightarrow> uuid \<Rightarrow> sim_repo \<Rightarrow> optimization_run list" where
  "list_optimization_runs scope batch_id r =
     sort_key (\<lambda>x. (ru_created_at x, ru_run_id x))
       (filter (\<lambda>x. ru_batch_id x = batch_id) (visible_values (sr_optimization_runs r) optimization_run_visible scope))"

definition stress_assessment_visible :: "tenant_scope \<Rightarrow> stress_assessment \<Rightarrow> bool" where
  "stress_assessment_visible scope x = scope_matches (sx_tenant_id x) (sx_data_domain_id x) (sx_project_id x) (sx_decision_unit_id x) scope"

definition upsert_stress_assessment :: "stress_assessment \<Rightarrow> sim_repo \<Rightarrow> sim_repo" where
  "upsert_stress_assessment x r = r\<lparr>sr_stress_assessments := dict_set (sx_assessment_id x) x (sr_stress_assessments r)\<rparr>"

definition list_stress_assessments :: "tenant_scope \<Rightarrow> uuid \<Rightarrow> sim_repo \<Rightarrow> stress_assessment list" where
  "list_stress_assessments scope run_id r =
     sort_key (\<lambda>x. (axis_value (sx_axis x), sx_assessment_id x))
       (filter (\<lambda>x. sx_run_id x = run_id) (visible_values (sr_stress_assessments r) stress_assessment_visible scope))"

definition strategy_plan_visible :: "tenant_scope \<Rightarrow> strategy_plan \<Rightarrow> bool" where
  "strategy_plan_visible scope x = scope_matches (sp_tenant_id x) (sp_data_domain_id x) (sp_project_id x) (sp_decision_unit_id x) scope"

definition upsert_strategy_plan :: "strategy_plan \<Rightarrow> sim_repo \<Rightarrow> sim_repo" where
  "upsert_strategy_plan x r = r\<lparr>sr_strategy_plans := dict_set (sp_plan_id x) x (sr_strategy_plans r)\<rparr>"

definition get_strategy_plan :: "tenant_scope \<Rightarrow> uuid \<Rightarrow> sim_repo \<Rightarrow> strategy_plan option" where
  "get_strategy_plan scope k r = stored (sr_strategy_plans r) strategy_plan_visible scope k"

definition list_strategy_plans :: "tenant_scope \<Rightarrow> uuid \<Rightarrow> sim_repo \<Rightarrow> strategy_plan list" where
  "list_strategy_plans scope run_id r =
     sort_key (\<lambda>x. (sp_created_at x, sp_plan_id x))
       (filter (\<lambda>x. sp_run_id x = run_id) (visible_values (sr_strategy_plans r) strategy_plan_visible scope))"

definition merge_assessment_visible :: "tenant_scope \<Rightarrow> merge_assessment \<Rightarrow> bool" where
  "merge_assessment_visible scope x = scope_matches (ma_tenant_id x) (ma_data_domain_id x) (ma_project_id x) (ma_decision_unit_id x) scope"

definition upsert_merge_assessment :: "merge_assessment \<Rightarrow> sim_repo \<Rightarrow> sim_repo" where
  "upsert_merge_assessment x r = r\<lparr>sr_merge_assessments := dict_set (ma_merge_id x) x (sr_merge_assessments r)\<rparr>"

definition list_merge_assessments :: "tenant_scope \<Rightarrow> uuid \<Rightarrow> sim_repo \<Rightarrow> merge_assessment list" where
  "list_merge_assessments scope run_id r =
     sort_key (\<lambda>x. (ma_assessed_at x, ma_merge_id x))
       (filter (\<lambda>x. ma_run_id x = run_id) (visible_values (sr_merge_assessments r) merge_assessment_visible scope))"

definition recommendation_eligibility_visible :: "tenant_scope \<Rightarrow> recommendation_eligibility \<Rightarrow> bool" where
  "recommendation_eligibility_visible scope x = scope_matches (re_tenant_id x) (re_data_domain_id x) (re_project_id x) (re_decision_unit_id x) scope"

definition upsert_recommendation_eligibility :: "recommendation_eligibility \<Rightarrow> sim_repo \<Rightarrow> sim_repo" where
  "upsert_recommendation_eligibility x r = r\<lparr>sr_recommendation_eligibilities := dict_set (re_eligibility_id x) x (sr_recommendation_eligibilities r)\<rparr>"

definition get_recommendation_eligibility :: "tenant_scope \<Rightarrow> uuid \<Rightarrow> sim_repo \<Rightarrow> recommendation_eligibility option" where
  "get_recommendation_eligibility scope k r = stored (sr_recommendation_eligibilities r) recommendation_eligibility_visible scope k"

definition list_recommendation_eligibilities :: "tenant_scope \<Rightarrow> uuid \<Rightarrow> sim_repo \<Rightarrow> recommendation_eligibility list" where
  "list_recommendation_eligibilities scope unit_id r =
     sort_key (\<lambda>x. (re_decision_unit_id x, re_version_id x))
       (filter (\<lambda>x. re_decision_unit_id x = unit_id) (visible_values (sr_recommendation_eligibilities r) recommendation_eligibility_visible scope))"

definition snapshot_visible :: "tenant_scope \<Rightarrow> assessment_snapshot \<Rightarrow> bool" where
  "snapshot_visible scope x = scope_matches (sn_tenant_id x) (sn_data_domain_id x) (sn_project_id x) (sn_decision_unit_id x) scope"

definition upsert_snapshot :: "assessment_snapshot \<Rightarrow> sim_repo \<Rightarrow> sim_repo" where
  "upsert_snapshot x r = r\<lparr>sr_snapshots := dict_set (sn_snapshot_id x) x (sr_snapshots r)\<rparr>"

definition get_snapshot :: "tenant_scope \<Rightarrow> uuid \<Rightarrow> sim_repo \<Rightarrow> assessment_snapshot option" where
  "get_snapshot scope k r = stored (sr_snapshots r) snapshot_visible scope k"

definition list_snapshots :: "tenant_scope \<Rightarrow> uuid \<Rightarrow> sim_repo \<Rightarrow> assessment_snapshot list" where
  "list_snapshots scope unit_id r =
     sort_key (\<lambda>x. (sn_decision_unit_id x, sn_version_id x, sn_created_at x))
       (filter (\<lambda>x. sn_decision_unit_id x = unit_id) (visible_values (sr_snapshots r) snapshot_visible scope))"

section \<open>The stores are instances of the interface\<close>

definition baseline_store_ok :: "sim_repo \<Rightarrow> bool" where
  "baseline_store_ok r \<longleftrightarrow> keyed ba_baseline_id (sr_baselines r)"

definition search_space_store_ok :: "sim_repo \<Rightarrow> bool" where
  "search_space_store_ok r \<longleftrightarrow> keyed ss_search_space_id (sr_search_spaces r)"

definition scenario_set_store_ok :: "sim_repo \<Rightarrow> bool" where
  "scenario_set_store_ok r \<longleftrightarrow> keyed st_scenario_set_id (sr_scenario_sets r)"

definition batch_store_ok :: "sim_repo \<Rightarrow> bool" where
  "batch_store_ok r \<longleftrightarrow> keyed sb_batch_id (sr_batches r)"

definition candidate_store_ok :: "sim_repo \<Rightarrow> bool" where
  "candidate_store_ok r \<longleftrightarrow> keyed ca_candidate_id (sr_candidates r)"

definition static_validation_store_ok :: "sim_repo \<Rightarrow> bool" where
  "static_validation_store_ok r \<longleftrightarrow> keyed sv_validation_id (sr_static_validations r)"

definition scenario_outcome_store_ok :: "sim_repo \<Rightarrow> bool" where
  "scenario_outcome_store_ok r \<longleftrightarrow> keyed oc_outcome_id (sr_scenario_outcomes r)"

definition strategy_assessment_store_ok :: "sim_repo \<Rightarrow> bool" where
  "strategy_assessment_store_ok r \<longleftrightarrow> keyed sy_assessment_id (sr_strategy_assessments r)"

definition optimization_run_store_ok :: "sim_repo \<Rightarrow> bool" where
  "optimization_run_store_ok r \<longleftrightarrow> keyed ru_run_id (sr_optimization_runs r)"

definition stress_assessment_store_ok :: "sim_repo \<Rightarrow> bool" where
  "stress_assessment_store_ok r \<longleftrightarrow> keyed sx_assessment_id (sr_stress_assessments r)"

definition strategy_plan_store_ok :: "sim_repo \<Rightarrow> bool" where
  "strategy_plan_store_ok r \<longleftrightarrow> keyed sp_plan_id (sr_strategy_plans r)"

definition merge_assessment_store_ok :: "sim_repo \<Rightarrow> bool" where
  "merge_assessment_store_ok r \<longleftrightarrow> keyed ma_merge_id (sr_merge_assessments r)"

definition recommendation_eligibility_store_ok :: "sim_repo \<Rightarrow> bool" where
  "recommendation_eligibility_store_ok r \<longleftrightarrow> keyed re_eligibility_id (sr_recommendation_eligibilities r)"

definition snapshot_store_ok :: "sim_repo \<Rightarrow> bool" where
  "snapshot_store_ok r \<longleftrightarrow> keyed sn_snapshot_id (sr_snapshots r)"

lemmas sim_store_ok_defs =
  baseline_store_ok_def search_space_store_ok_def scenario_set_store_ok_def batch_store_ok_def candidate_store_ok_def static_validation_store_ok_def scenario_outcome_store_ok_def strategy_assessment_store_ok_def optimization_run_store_ok_def stress_assessment_store_ok_def strategy_plan_store_ok_def merge_assessment_store_ok_def recommendation_eligibility_store_ok_def snapshot_store_ok_def

lemmas sim_upsert_defs =
  upsert_baseline_def upsert_search_space_def upsert_scenario_set_def upsert_batch_def upsert_candidate_def upsert_static_validation_def upsert_scenario_outcome_def upsert_strategy_assessment_def upsert_optimization_run_def upsert_stress_assessment_def upsert_strategy_plan_def upsert_merge_assessment_def upsert_recommendation_eligibility_def upsert_snapshot_def

lemmas sim_visible_defs =
  baseline_visible_def search_space_visible_def scenario_set_visible_def batch_visible_def candidate_visible_def static_validation_visible_def scenario_outcome_visible_def strategy_assessment_visible_def optimization_run_visible_def stress_assessment_visible_def strategy_plan_visible_def merge_assessment_visible_def recommendation_eligibility_visible_def snapshot_visible_def

interpretation sim_baselines: listed_store ba_baseline_id baseline_visible upsert_baseline get_baseline baseline_store_ok
  "\<lambda>scope r. visible_values (sr_baselines r) baseline_visible scope"
  by unfold_locales
    (auto simp: get_baseline_def upsert_baseline_def baseline_store_ok_def stored_put visible_values_read keyed_set dest: stored_sound)

interpretation sim_search_spaces: listed_store ss_search_space_id search_space_visible upsert_search_space get_search_space search_space_store_ok
  "\<lambda>scope r. visible_values (sr_search_spaces r) search_space_visible scope"
  by unfold_locales
    (auto simp: get_search_space_def upsert_search_space_def search_space_store_ok_def stored_put visible_values_read keyed_set dest: stored_sound)

interpretation sim_scenario_sets: listed_store st_scenario_set_id scenario_set_visible upsert_scenario_set get_scenario_set scenario_set_store_ok
  "\<lambda>scope r. visible_values (sr_scenario_sets r) scenario_set_visible scope"
  by unfold_locales
    (auto simp: get_scenario_set_def upsert_scenario_set_def scenario_set_store_ok_def stored_put visible_values_read keyed_set dest: stored_sound)

interpretation sim_batches: listed_store sb_batch_id batch_visible upsert_batch get_batch batch_store_ok
  "\<lambda>scope r. visible_values (sr_batches r) batch_visible scope"
  by unfold_locales
    (auto simp: get_batch_def upsert_batch_def batch_store_ok_def stored_put visible_values_read keyed_set dest: stored_sound)

interpretation sim_optimization_runs: listed_store ru_run_id optimization_run_visible upsert_optimization_run get_optimization_run optimization_run_store_ok
  "\<lambda>scope r. visible_values (sr_optimization_runs r) optimization_run_visible scope"
  by unfold_locales
    (auto simp: get_optimization_run_def upsert_optimization_run_def optimization_run_store_ok_def stored_put visible_values_read keyed_set dest: stored_sound)

interpretation sim_strategy_plans: listed_store sp_plan_id strategy_plan_visible upsert_strategy_plan get_strategy_plan strategy_plan_store_ok
  "\<lambda>scope r. visible_values (sr_strategy_plans r) strategy_plan_visible scope"
  by unfold_locales
    (auto simp: get_strategy_plan_def upsert_strategy_plan_def strategy_plan_store_ok_def stored_put visible_values_read keyed_set dest: stored_sound)

interpretation sim_recommendation_eligibilities: listed_store re_eligibility_id recommendation_eligibility_visible upsert_recommendation_eligibility get_recommendation_eligibility recommendation_eligibility_store_ok
  "\<lambda>scope r. visible_values (sr_recommendation_eligibilities r) recommendation_eligibility_visible scope"
  by unfold_locales
    (auto simp: get_recommendation_eligibility_def upsert_recommendation_eligibility_def recommendation_eligibility_store_ok_def stored_put visible_values_read keyed_set dest: stored_sound)

interpretation sim_snapshots: listed_store sn_snapshot_id snapshot_visible upsert_snapshot get_snapshot snapshot_store_ok
  "\<lambda>scope r. visible_values (sr_snapshots r) snapshot_visible scope"
  by unfold_locales
    (auto simp: get_snapshot_def upsert_snapshot_def snapshot_store_ok_def stored_put visible_values_read keyed_set dest: stored_sound)

definition sim_ok :: "sim_repo \<Rightarrow> bool" where
  "sim_ok r \<longleftrightarrow> baseline_store_ok r \<and> search_space_store_ok r \<and> scenario_set_store_ok r \<and> batch_store_ok r \<and> candidate_store_ok r \<and> static_validation_store_ok r \<and> scenario_outcome_store_ok r \<and> strategy_assessment_store_ok r \<and> optimization_run_store_ok r \<and> stress_assessment_store_ok r \<and> strategy_plan_store_ok r \<and> merge_assessment_store_ok r \<and> recommendation_eligibility_store_ok r \<and> snapshot_store_ok r"

lemma empty_sim_ok [simp]: "sim_ok empty_sim"
  by (simp add: sim_ok_def empty_sim_def sim_store_ok_defs)

lemma sim_upserts_ok [simp]:
  "sim_ok r \<Longrightarrow> sim_ok (upsert_baseline x0 r)"
  "sim_ok r \<Longrightarrow> sim_ok (upsert_search_space x1 r)"
  "sim_ok r \<Longrightarrow> sim_ok (upsert_scenario_set x2 r)"
  "sim_ok r \<Longrightarrow> sim_ok (upsert_batch x3 r)"
  "sim_ok r \<Longrightarrow> sim_ok (upsert_candidate x4 r)"
  "sim_ok r \<Longrightarrow> sim_ok (upsert_static_validation x5 r)"
  "sim_ok r \<Longrightarrow> sim_ok (upsert_scenario_outcome x6 r)"
  "sim_ok r \<Longrightarrow> sim_ok (upsert_strategy_assessment x7 r)"
  "sim_ok r \<Longrightarrow> sim_ok (upsert_optimization_run x8 r)"
  "sim_ok r \<Longrightarrow> sim_ok (upsert_stress_assessment x9 r)"
  "sim_ok r \<Longrightarrow> sim_ok (upsert_strategy_plan x10 r)"
  "sim_ok r \<Longrightarrow> sim_ok (upsert_merge_assessment x11 r)"
  "sim_ok r \<Longrightarrow> sim_ok (upsert_recommendation_eligibility x12 r)"
  "sim_ok r \<Longrightarrow> sim_ok (upsert_snapshot x13 r)"
  by (simp_all add: sim_ok_def sim_store_ok_defs sim_upsert_defs keyed_set)

text \<open>What a listing returns is visible, and was asked for.\<close>

lemma sim_lists_visible:
  "x0 \<in> set (list_baselines scope k r) \<Longrightarrow> baseline_visible scope x0 \<and> ba_decision_unit_id x0 = k"
  "x1 \<in> set (list_search_spaces scope k r) \<Longrightarrow> search_space_visible scope x1 \<and> ss_decision_unit_id x1 = k"
  "x2 \<in> set (list_scenario_sets scope k r) \<Longrightarrow> scenario_set_visible scope x2 \<and> st_decision_unit_id x2 = k"
  "x3 \<in> set (list_batches scope k r) \<Longrightarrow> batch_visible scope x3 \<and> sb_decision_unit_id x3 = k"
  "x4 \<in> set (list_candidates scope k r) \<Longrightarrow> candidate_visible scope x4 \<and> ca_batch_id x4 = k"
  "x5 \<in> set (list_static_validations scope k r) \<Longrightarrow> static_validation_visible scope x5 \<and> sv_batch_id x5 = k"
  "x6 \<in> set (list_scenario_outcomes scope k r) \<Longrightarrow> scenario_outcome_visible scope x6 \<and> oc_batch_id x6 = k"
  "x7 \<in> set (list_strategy_assessments scope k r) \<Longrightarrow> strategy_assessment_visible scope x7 \<and> sy_batch_id x7 = k"
  "x8 \<in> set (list_optimization_runs scope k r) \<Longrightarrow> optimization_run_visible scope x8 \<and> ru_batch_id x8 = k"
  "x9 \<in> set (list_stress_assessments scope k r) \<Longrightarrow> stress_assessment_visible scope x9 \<and> sx_run_id x9 = k"
  "x10 \<in> set (list_strategy_plans scope k r) \<Longrightarrow> strategy_plan_visible scope x10 \<and> sp_run_id x10 = k"
  "x11 \<in> set (list_merge_assessments scope k r) \<Longrightarrow> merge_assessment_visible scope x11 \<and> ma_run_id x11 = k"
  "x12 \<in> set (list_recommendation_eligibilities scope k r) \<Longrightarrow> recommendation_eligibility_visible scope x12 \<and> re_decision_unit_id x12 = k"
  "x13 \<in> set (list_snapshots scope k r) \<Longrightarrow> snapshot_visible scope x13 \<and> sn_decision_unit_id x13 = k"
  by (simp_all add: list_baselines_def list_search_spaces_def list_scenario_sets_def list_batches_def list_candidates_def list_static_validations_def list_scenario_outcomes_def list_strategy_assessments_def list_optimization_runs_def list_stress_assessments_def list_strategy_plans_def list_merge_assessments_def list_recommendation_eligibilities_def list_snapshots_def visible_values_def)

end
