(* ===== verification/Sim_Services.thy ===== *)
theory Sim_Services
  imports Sim_Repository
begin

text \<open>
  The services of \<open>modules/simulation/application/services.py\<close>: baselines, search spaces,
  scenario sets, batches, optimisation runs and plans, eligibility, snapshots; with the worker
  runtime of \<open>workers/simulation/runtime.py\<close>, which reads the store without a scope. Every
  operation is a handler on a \<open>sim_repo world\<close>, in the order of the code.
\<close>

type_synonym 'a sim = "(sim_repo world, 'a) svc"

definition baseline_incomplete :: exc where
  "baseline_incomplete = BiaiceError ''BASELINE_INCOMPLETE''"

section \<open>Baselines\<close>

definition baseline_freeze ::
  "env \<Rightarrow> identity_context \<Rightarrow> uuid \<Rightarrow> manifest_item list \<Rightarrow> string \<Rightarrow> (uuid, string) dict option \<Rightarrow> decision_baseline sim" where
  "baseline_freeze env identity unit_id items request_id live_versions =
     bindS require_writer (\<lambda>_.
     bindS (unit_allowed identity unit_id) (\<lambda>_.
     bindS (checkS (items \<noteq> []) baseline_incomplete) (\<lambda>_.
     bindS (build_manifest env items) (\<lambda>manifest.
     bindS (uuid4 env) (\<lambda>baseline_id.
     bindS (uuid4 env) (\<lambda>version_id.
     bindS (clock_now env) (\<lambda>frozen_at.
     bindS (clock_now env) (\<lambda>created_at.
     let b =
       \<lparr>ba_baseline_id = baseline_id, ba_version_id = version_id,
        ba_tenant_id = sc_tenant_id (ic_scope identity), ba_data_domain_id = sc_data_domain_id (ic_scope identity),
        ba_project_id = own_project identity, ba_decision_unit_id = unit_id, ba_manifest = manifest,
        ba_state = BASE_FROZEN, ba_frozen_at = Some frozen_at, ba_frozen_by = Some (ic_subject_id identity),
        ba_created_at = created_at, ba_created_by = ic_subject_id identity, ba_superseded_at = None,
        ba_superseded_by = None, ba_invalidated_at = None, ba_invalidated_by = None\<rparr> in
     bindS (checkS (baseline_valid b) ValidationError) (\<lambda>_.
     bindS (case live_versions of None \<Rightarrow> ret () | Some live \<Rightarrow> liftE (assert_manifest_matches_versions b live)) (\<lambda>_.
     bindS (liftE (assert_manifest_complete env b)) (\<lambda>_.
     bindS (put_repo (upsert_baseline b)) (\<lambda>_.
     bindS (noted env identity ''simulation.baseline.freeze'' ''DecisionBaseline'' baseline_id request_id
              ''BASELINE_FROZEN'' ''ACCEPTED'' (Some version_id)) (\<lambda>_.
     bindS (module_emit env identity ''simulation.decision_baseline_frozen.v1'' ''DecisionBaseline'' baseline_id
              [(''baseline_id'', JStr (uuid_str baseline_id)), (''version_id'', JStr (uuid_str version_id)),
               (''decision_unit_id'', JStr (uuid_str unit_id)), (''manifest_hash'', JStr (mf_manifest_hash manifest))]
              request_id) (\<lambda>_.
     ret b))))))))))))))"

definition baseline_list :: "identity_context \<Rightarrow> uuid \<Rightarrow> decision_baseline list sim" where
  "baseline_list identity unit_id =
     bindS (unit_allowed identity unit_id) (\<lambda>_. get_repo (list_baselines (ic_scope identity) unit_id))"

definition baseline_get :: "identity_context \<Rightarrow> uuid \<Rightarrow> decision_baseline sim" where
  "baseline_get identity k = found_or missing (get_baseline (ic_scope identity) k)"

section \<open>Search spaces\<close>

definition space_create ::
  "env \<Rightarrow> identity_context \<Rightarrow> uuid \<Rightarrow> uuid \<Rightarrow> string \<Rightarrow> string list \<Rightarrow> int \<Rightarrow> string \<Rightarrow> search_space sim" where
  "space_create env identity unit_id baseline_id description axes lower_bound request_id =
     bindS require_writer (\<lambda>_.
     bindS (unit_allowed identity unit_id) (\<lambda>_.
     bindS (found_or baseline_incomplete (get_baseline (ic_scope identity) baseline_id)) (\<lambda>baseline.
     bindS (uuid4 env) (\<lambda>space_id.
     bindS (uuid4 env) (\<lambda>version_id.
     bindS (clock_now env) (\<lambda>created_at.
     bindS (clock_now env) (\<lambda>frozen_at.
     let s =
       \<lparr>ss_search_space_id = space_id, ss_version_id = version_id,
        ss_tenant_id = sc_tenant_id (ic_scope identity), ss_data_domain_id = sc_data_domain_id (ic_scope identity),
        ss_project_id = own_project identity, ss_decision_unit_id = unit_id,
        ss_baseline_version_id = ba_version_id baseline, ss_description = description, ss_state = SPACE_FROZEN,
        ss_dimension_axes = axes, ss_candidate_count_lower_bound = lower_bound, ss_created_at = created_at,
        ss_created_by = ic_subject_id identity, ss_frozen_at = Some frozen_at,
        ss_frozen_by = Some (ic_subject_id identity)\<rparr> in
     bindS (checkS (search_space_valid s) ValidationError) (\<lambda>_.
     bindS (put_repo (upsert_search_space s)) (\<lambda>_.
     bindS (noted env identity ''simulation.search_space.create'' ''CandidateSearchSpace'' space_id request_id
              ''SEARCH_SPACE_FROZEN'' ''ACCEPTED'' (Some version_id)) (\<lambda>_.
     ret s))))))))))"

definition space_list :: "identity_context \<Rightarrow> uuid \<Rightarrow> search_space list sim" where
  "space_list identity unit_id =
     bindS (unit_allowed identity unit_id) (\<lambda>_. get_repo (list_search_spaces (ic_scope identity) unit_id))"

definition space_get :: "identity_context \<Rightarrow> uuid \<Rightarrow> search_space sim" where
  "space_get identity k = found_or missing (get_search_space (ic_scope identity) k)"

section \<open>Scenario sets\<close>

definition scenario_set_create ::
  "env \<Rightarrow> identity_context \<Rightarrow> uuid \<Rightarrow> uuid \<Rightarrow> uuid \<Rightarrow> uuid option \<Rightarrow> scenario_member list \<Rightarrow> stress_axis list \<Rightarrow>
   string \<Rightarrow> scenario_set sim" where
  "scenario_set_create env identity unit_id baseline_id space_id evaluation_space_id members axes request_id =
     bindS require_writer (\<lambda>_.
     bindS (unit_allowed identity unit_id) (\<lambda>_.
     bindS (found_or baseline_incomplete (get_baseline (ic_scope identity) baseline_id)) (\<lambda>baseline.
     bindS (found_or scenario_set_invalid (get_search_space (ic_scope identity) space_id)) (\<lambda>space.
     bindS (checkS (ss_state space = SPACE_FROZEN) scenario_set_invalid) (\<lambda>_.
     bindS (case evaluation_space_id of
              None \<Rightarrow> ret None
            | Some k \<Rightarrow> get_repo (get_search_space (ic_scope identity) k)) (\<lambda>evaluation_space.
     bindS (uuid4 env) (\<lambda>set_id.
     bindS (uuid4 env) (\<lambda>version_id.
     bindS (clock_now env) (\<lambda>created_at.
     bindS (clock_now env) (\<lambda>now.
     bindS (liftE (freeze_scenarios
              \<lparr>sf_set_id = set_id, sf_version_id = version_id, sf_tenant_id = sc_tenant_id (ic_scope identity),
               sf_data_domain_id = sc_data_domain_id (ic_scope identity), sf_project_id = own_project identity,
               sf_decision_unit_id = unit_id, sf_baseline_version_id = ba_version_id baseline,
               sf_search_space_version_id = ss_version_id space,
               sf_evaluation_space_version_id = map_option ss_version_id evaluation_space,
               sf_members = members, sf_stress_axes = axes, sf_search_space_state = ss_state space,
               sf_created_at = created_at, sf_created_by = ic_subject_id identity, sf_now = now\<rparr>)) (\<lambda>s.
     bindS (put_repo (upsert_scenario_set s)) (\<lambda>_.
     bindS (noted env identity ''simulation.scenario_set.create'' ''ScenarioSet'' (st_scenario_set_id s) request_id
              ''SCENARIO_SET_DRAFT'' ''ACCEPTED'' (Some (st_version_id s))) (\<lambda>_.
     ret s)))))))))))))"

definition scenario_set_freeze :: "env \<Rightarrow> identity_context \<Rightarrow> uuid \<Rightarrow> string \<Rightarrow> scenario_set sim" where
  "scenario_set_freeze env identity k request_id =
     bindS require_writer (\<lambda>_.
     bindS (found_or missing (get_scenario_set (ic_scope identity) k)) (\<lambda>s.
     bindS (liftE (validate_search_eval_independence s)) (\<lambda>_.
     bindS (clock_now env) (\<lambda>now.
     let frozen = s\<lparr>st_state := SET_FROZEN, st_frozen_at := Some now, st_frozen_by := Some (ic_subject_id identity)\<rparr> in
     bindS (put_repo (upsert_scenario_set frozen)) (\<lambda>_.
     bindS (noted env identity ''simulation.scenario_set.freeze'' ''ScenarioSet'' (st_scenario_set_id frozen)
              request_id ''SCENARIO_SET_FROZEN'' ''ACCEPTED'' (Some (st_version_id frozen))) (\<lambda>_.
     bindS (module_emit env identity ''simulation.scenario_sets_frozen.v1'' ''ScenarioSet'' (st_scenario_set_id frozen)
              [(''scenario_set_id'', JStr (uuid_str (st_scenario_set_id frozen))),
               (''version_id'', JStr (uuid_str (st_version_id frozen))),
               (''decision_unit_id'', JStr (uuid_str (st_decision_unit_id frozen)))] request_id) (\<lambda>_.
     ret frozen)))))))"

definition scenario_set_list :: "identity_context \<Rightarrow> uuid \<Rightarrow> scenario_set list sim" where
  "scenario_set_list identity unit_id =
     bindS (unit_allowed identity unit_id) (\<lambda>_. get_repo (list_scenario_sets (ic_scope identity) unit_id))"

definition scenario_set_get :: "identity_context \<Rightarrow> uuid \<Rightarrow> scenario_set sim" where
  "scenario_set_get identity k = found_or missing (get_scenario_set (ic_scope identity) k)"

section \<open>Batches\<close>

definition batch_create ::
  "env \<Rightarrow> identity_context \<Rightarrow> uuid \<Rightarrow> uuid \<Rightarrow> uuid \<Rightarrow> award_mode \<Rightarrow> string \<Rightarrow> string \<Rightarrow> simulation_batch sim" where
  "batch_create env identity unit_id baseline_id scenario_set_id award policy_threshold request_id =
     bindS require_writer (\<lambda>_.
     bindS (unit_allowed identity unit_id) (\<lambda>_.
     bindS (found_or baseline_incomplete (get_baseline (ic_scope identity) baseline_id)) (\<lambda>baseline.
     bindS (checkS (ba_state baseline = BASE_FROZEN) baseline_incomplete) (\<lambda>_.
     bindS (found_or scenario_set_invalid (get_scenario_set (ic_scope identity) scenario_set_id)) (\<lambda>s.
     bindS (checkS (st_state s = SET_FROZEN) scenario_set_invalid) (\<lambda>_.
     bindS (uuid4 env) (\<lambda>batch_id.
     bindS (uuid4 env) (\<lambda>version_id.
     bindS (liftE (coerce_text policy_threshold)) (\<lambda>threshold.
     bindS (clock_now env) (\<lambda>created_at.
     bindS (clock_now env) (\<lambda>updated_at.
     let b =
       \<lparr>sb_batch_id = batch_id, sb_version_id = version_id,
        sb_tenant_id = sc_tenant_id (ic_scope identity), sb_data_domain_id = sc_data_domain_id (ic_scope identity),
        sb_project_id = own_project identity, sb_decision_unit_id = unit_id,
        sb_baseline_version_id = ba_version_id baseline, sb_scenario_set_version_id = st_version_id s,
        sb_award_mode = award, sb_state = BATCH_PENDING, sb_policy_threshold = threshold,
        sb_candidate_count = 0, sb_progress_percent = 0, sb_requested_by = ic_subject_id identity,
        sb_created_at = created_at, sb_last_updated_at = updated_at\<rparr> in
     bindS (checkS (batch_valid b) ValidationError) (\<lambda>_.
     bindS (put_repo (upsert_batch b)) (\<lambda>_.
     bindS (noted env identity ''simulation.batch.create'' ''SimulationBatch'' batch_id request_id
              ''SIMULATION_BATCH_QUEUED'' ''ACCEPTED'' (Some version_id)) (\<lambda>_.
     bindS (module_emit env identity ''simulation.simulation_started.v1'' ''SimulationBatch'' batch_id
              [(''batch_id'', JStr (uuid_str batch_id)), (''version_id'', JStr (uuid_str version_id)),
               (''decision_unit_id'', JStr (uuid_str unit_id)),
               (''scenario_set_version_id'', JStr (uuid_str (st_version_id s)))] request_id) (\<lambda>_.
     ret b)))))))))))))))"

definition batch_command ::
  "env \<Rightarrow> identity_context \<Rightarrow> uuid \<Rightarrow> (batch_state \<Rightarrow> bool) \<Rightarrow> string \<Rightarrow> batch_state \<Rightarrow> string \<Rightarrow> string \<Rightarrow> simulation_batch sim" where
  "batch_command env identity k allowed code target action request_id =
     bindS require_writer (\<lambda>_.
     bindS (found_or missing (get_batch (ic_scope identity) k)) (\<lambda>b.
     bindS (checkS (allowed (sb_state b)) (BiaiceError code)) (\<lambda>_.
     bindS (clock_now env) (\<lambda>now.
     let b' = b\<lparr>sb_state := target, sb_last_updated_at := now\<rparr> in
     bindS (put_repo (upsert_batch b')) (\<lambda>_.
     bindS (noted env identity action ''SimulationBatch'' (sb_batch_id b') request_id ''USER_REQUEST'' ''ACCEPTED''
              (Some (sb_version_id b'))) (\<lambda>_.
     ret b'))))))"

definition cancellable :: "batch_state \<Rightarrow> bool" where
  "cancellable s \<longleftrightarrow> s \<notin> {BATCH_SUCCEEDED, BATCH_INDETERMINATE, BATCH_FAILED_TERMINAL, BATCH_CANCELLED}"

definition retryable :: "batch_state \<Rightarrow> bool" where
  "retryable s \<longleftrightarrow> s \<in> {BATCH_FAILED_RETRYABLE, BATCH_INDETERMINATE}"

definition batch_cancel :: "env \<Rightarrow> identity_context \<Rightarrow> uuid \<Rightarrow> string \<Rightarrow> simulation_batch sim" where
  "batch_cancel env identity k request_id =
     batch_command env identity k cancellable ''JOB_NOT_CANCELLABLE'' BATCH_CANCELLED ''simulation.batch.cancel'' request_id"

definition batch_retry :: "env \<Rightarrow> identity_context \<Rightarrow> uuid \<Rightarrow> string \<Rightarrow> simulation_batch sim" where
  "batch_retry env identity k request_id =
     batch_command env identity k retryable ''JOB_NOT_RETRYABLE'' BATCH_PENDING ''simulation.batch.retry'' request_id"

definition batch_list :: "identity_context \<Rightarrow> uuid \<Rightarrow> simulation_batch list sim" where
  "batch_list identity unit_id =
     bindS (unit_allowed identity unit_id) (\<lambda>_. get_repo (list_batches (ic_scope identity) unit_id))"

definition batch_get :: "identity_context \<Rightarrow> uuid \<Rightarrow> simulation_batch sim" where
  "batch_get identity k = found_or missing (get_batch (ic_scope identity) k)"

definition validate_turn ::
  "env \<Rightarrow> identity_context \<Rightarrow> static_context \<Rightarrow> string \<Rightarrow> simulation_candidate \<Rightarrow> static_validation sim" where
  "validate_turn env identity context request_id c =
     bindS (clock_now env) (\<lambda>now.
     bindS (validate_candidate env c context now) (\<lambda>v.
     bindS (put_repo (upsert_static_validation v)) (\<lambda>_.
     bindS (noted env identity ''simulation.static_validation'' ''StaticCandidateValidation'' (sv_validation_id v)
              request_id ''STATIC_VALIDATION'' (static_value (sv_status v)) None) (\<lambda>_.
     ret v))))"

definition run_static_validation ::
  "env \<Rightarrow> identity_context \<Rightarrow> simulation_batch \<Rightarrow> simulation_candidate list \<Rightarrow> static_context \<Rightarrow> string \<Rightarrow>
   (simulation_candidate list \<times> static_validation list) sim" where
  "run_static_validation env identity batch candidates context request_id =
     bindS (forS candidates (validate_turn env identity context request_id)) (\<lambda>results.
     bindS (liftE (assert_validation_passed results)) (\<lambda>_.
     let survivors = map fst (filter (\<lambda>(c, v). sv_status v = STATIC_PASS) (zip candidates results)) in
     bindS (clock_now env) (\<lambda>now.
     bindS (put_repo (upsert_batch (batch
              \<lparr>sb_state := BATCH_RUNNING, sb_candidate_count := int (length survivors),
               sb_last_updated_at := now, sb_progress_percent := 25\<rparr>))) (\<lambda>_.
     ret (survivors, results)))))"

definition referee_turn ::
  "env \<Rightarrow> simulation_batch \<Rightarrow> string \<Rightarrow> int \<Rightarrow> scenario_member \<times> simulation_candidate \<Rightarrow> referee_output sim" where
  "referee_turn env batch manifest_hash seed = (\<lambda>(m, c).
     let i = \<lparr>ri_candidate_id = ca_candidate_id c, ri_scenario_id = sm_scenario_id m, ri_batch_id = sb_batch_id batch,
              ri_baseline_manifest_hash = manifest_hash, ri_scenario_kind = kind_value (sm_scenario_kind m),
              ri_feasibility_threshold = dec_nat 0, ri_pay_off_lower = dec_nat 0, ri_pay_off_upper = dec_nat 1,
              ri_seed = seed, ri_review_validity = REVIEW_CURRENT\<rparr> in
     bindS (clock_now env) (\<lambda>now.
     bindS (evaluate_scenario env i
              \<lparr>pl_assessed_at = now, pl_tenant_id = sb_tenant_id batch, pl_data_domain_id = sb_data_domain_id batch,
               pl_project_id = sb_project_id batch, pl_decision_unit_id = sb_decision_unit_id batch\<rparr>) (\<lambda>out.
     bindS (put_repo (upsert_scenario_outcome (ro_outcome out))) (\<lambda>_.
     bindS (put_repo (upsert_strategy_assessment (ro_assessment out))) (\<lambda>_.
     ret out)))))"

definition run_scenario_referees ::
  "env \<Rightarrow> simulation_batch \<Rightarrow> scenario_set \<Rightarrow> string \<Rightarrow> simulation_candidate list \<Rightarrow> int \<Rightarrow>
   (scenario_outcome list \<times> strategy_assessment list) sim" where
  "run_scenario_referees env batch s manifest_hash candidates seed =
     bindS (forS (filter (\<lambda>(m, c). sm_scenario_kind m \<noteq> KIND_STRESS) (List.product (st_members s) candidates))
              (referee_turn env batch manifest_hash seed)) (\<lambda>outs.
     ret (map ro_outcome outs, map ro_assessment outs))"

end
