(* ===== verification/Sim_Decisions.thy ===== *)
theory Sim_Decisions
  imports Sim_Services
begin

text \<open>
  The second half of the simulation services: optimisation runs, strategy plans and merging,
  recommendation eligibility, snapshots, and the worker runtime.
\<close>

section \<open>Optimisation runs\<close>

text \<open>
  The constructor \<open>OptimizationRun(...)\<close>. The model declares \<open>finalized_at: datetime | None\<close>
  and \<open>invalidated_at: datetime | None\<close> without a default, so both keywords are required:
  \<open>None\<close> stands for a keyword that is not passed.
\<close>

record run_fields =
  rf_run_id :: uuid
  rf_batch_id :: uuid
  rf_version_id :: uuid
  rf_tenant_id :: uuid
  rf_data_domain_id :: uuid
  rf_project_id :: "uuid option"
  rf_decision_unit_id :: uuid
  rf_state :: optimization_state
  rf_award_mode :: award_mode
  rf_objective_kind :: objective_kind
  rf_policy_threshold :: string
  rf_requested_by :: uuid
  rf_created_at :: timestamp
  rf_finalized_at :: "timestamp option option"
  rf_invalidated_at :: "timestamp option option"

definition new_optimization_run :: "run_fields \<Rightarrow> optimization_run res" where
  "new_optimization_run f =
     (case (rf_finalized_at f, rf_invalidated_at f) of
        (Some finalized_at, Some invalidated_at) \<Rightarrow>
          Inr \<lparr>ru_run_id = rf_run_id f, ru_batch_id = rf_batch_id f, ru_version_id = rf_version_id f,
               ru_tenant_id = rf_tenant_id f, ru_data_domain_id = rf_data_domain_id f,
               ru_project_id = rf_project_id f, ru_decision_unit_id = rf_decision_unit_id f,
               ru_state = rf_state f, ru_award_mode = rf_award_mode f, ru_objective_kind = rf_objective_kind f,
               ru_policy_threshold = rf_policy_threshold f, ru_progress_percent = 0,
               ru_requested_by = rf_requested_by f, ru_created_at = rf_created_at f,
               ru_finalized_at = finalized_at, ru_invalidated_at = invalidated_at, ru_invalidated_by = None\<rparr>
      | _ \<Rightarrow> Inl ValidationError)"

definition run_stress_phase ::
  "env \<Rightarrow> identity_context \<Rightarrow> optimization_run \<Rightarrow> simulation_candidate list \<Rightarrow> stress_axis list \<Rightarrow>
   (stress_axis, stress_scenario list) dict \<Rightarrow> string \<Rightarrow> optimization_run sim" where
  "run_stress_phase env identity run candidates axes scenarios request_id =
     bindS (clock_now env) (\<lambda>assessed_at.
     bindS (run_stress_tests env run candidates scenarios assessed_at) (\<lambda>report.
     bindS (forS (rp_assessments report) (\<lambda>a. put_repo (upsert_stress_assessment a))) (\<lambda>_.
     if \<not> report_passed report then
       bindS (clock_now env) (\<lambda>now.
       let failed = run\<lparr>ru_state := OPT_FAILED, ru_invalidated_at := Some now,
                        ru_invalidated_by := Some (ic_subject_id identity)\<rparr> in
       bindS (put_repo (upsert_optimization_run failed)) (\<lambda>_.
       bindS (noted env identity ''simulation.optimization.run.stress_failed'' ''OptimizationRun'' (ru_run_id failed)
                request_id ''STRESS_AXIS_VIOLATED'' ''FAILED'' (Some (ru_version_id failed))) (\<lambda>_.
       ret failed)))
     else
       bindS (liftE (assert_no_stress_axis (map (\<lambda>axis. (axis, dec_nat 0)) axes))) (\<lambda>_. ret run))))"

definition run_create ::
  "env \<Rightarrow> identity_context \<Rightarrow> uuid \<Rightarrow> objective_kind \<Rightarrow> award_mode \<Rightarrow> string \<Rightarrow> blueprint list \<Rightarrow> stress_axis list \<Rightarrow>
   (stress_axis, stress_scenario list) dict \<Rightarrow> string \<Rightarrow> optimization_run sim" where
  "run_create env identity batch_id objective award policy_threshold blueprints axes scenarios request_id =
     bindS require_writer (\<lambda>_.
     bindS (found_or missing (get_batch (ic_scope identity) batch_id)) (\<lambda>batch.
     bindS (uuid4 env) (\<lambda>candidates_version.
     bindS (clock_now env) (\<lambda>generated_at.
     bindS (generate_candidates env batch candidates_version blueprints generated_at) (\<lambda>candidates.
     bindS (forS candidates (\<lambda>c. put_repo (upsert_candidate c))) (\<lambda>_.
     bindS (uuid4 env) (\<lambda>run_id.
     bindS (uuid4 env) (\<lambda>version_id.
     bindS (liftE (coerce_text policy_threshold)) (\<lambda>threshold.
     bindS (clock_now env) (\<lambda>created_at.
     bindS (liftE (new_optimization_run
              \<lparr>rf_run_id = run_id, rf_batch_id = sb_batch_id batch, rf_version_id = version_id,
               rf_tenant_id = sc_tenant_id (ic_scope identity),
               rf_data_domain_id = sc_data_domain_id (ic_scope identity), rf_project_id = own_project identity,
               rf_decision_unit_id = sb_decision_unit_id batch, rf_state = OPT_RUNNING, rf_award_mode = award,
               rf_objective_kind = objective, rf_policy_threshold = threshold,
               rf_requested_by = ic_subject_id identity, rf_created_at = created_at,
               rf_finalized_at = None, rf_invalidated_at = None\<rparr>)) (\<lambda>run.
     bindS (put_repo (upsert_optimization_run run)) (\<lambda>_.
     bindS (noted env identity ''simulation.optimization.run.create'' ''OptimizationRun'' (ru_run_id run) request_id
              ''OPTIMIZATION_QUEUED'' ''ACCEPTED'' (Some (ru_version_id run))) (\<lambda>_.
     run_stress_phase env identity run candidates axes scenarios request_id)))))))))))))"

definition run_finalize :: "env \<Rightarrow> identity_context \<Rightarrow> uuid \<Rightarrow> string \<Rightarrow> optimization_run sim" where
  "run_finalize env identity k request_id =
     bindS require_writer (\<lambda>_.
     bindS (found_or missing (get_optimization_run (ic_scope identity) k)) (\<lambda>run.
     bindS (checkS (ru_state run \<in> {OPT_SUCCEEDED, OPT_RUNNING}) (BiaiceError ''INVALID_IDEMPOTENCY_KEY'')) (\<lambda>_.
     bindS (clock_now env) (\<lambda>now.
     let finalized = run\<lparr>ru_state := OPT_FINALIZED, ru_finalized_at := Some now\<rparr> in
     bindS (put_repo (upsert_optimization_run finalized)) (\<lambda>_.
     bindS (noted env identity ''simulation.optimization.run.finalize'' ''OptimizationRun'' (ru_run_id finalized)
              request_id ''OPTIMIZATION_FINALIZED'' ''ACCEPTED'' (Some (ru_version_id finalized))) (\<lambda>_.
     bindS (module_emit env identity ''simulation.strategy_plans_finalized.v1'' ''OptimizationRun'' (ru_run_id finalized)
              [(''run_id'', JStr (uuid_str (ru_run_id finalized)))] request_id) (\<lambda>_.
     ret finalized)))))))"

definition run_invalidate :: "env \<Rightarrow> identity_context \<Rightarrow> uuid \<Rightarrow> string \<Rightarrow> optimization_run sim" where
  "run_invalidate env identity k request_id =
     bindS require_writer (\<lambda>_.
     bindS (found_or missing (get_optimization_run (ic_scope identity) k)) (\<lambda>run.
     bindS (clock_now env) (\<lambda>now.
     let invalidated = run\<lparr>ru_state := OPT_INVALIDATED, ru_invalidated_at := Some now,
                           ru_invalidated_by := Some (ic_subject_id identity)\<rparr> in
     bindS (put_repo (upsert_optimization_run invalidated)) (\<lambda>_.
     bindS (noted env identity ''simulation.optimization.run.invalidate'' ''OptimizationRun'' (ru_run_id invalidated)
              request_id ''USER_REQUEST'' ''ACCEPTED'' (Some (ru_version_id invalidated))) (\<lambda>_.
     ret invalidated)))))"

definition run_list :: "identity_context \<Rightarrow> uuid \<Rightarrow> optimization_run list sim" where
  "run_list identity batch_id = get_repo (list_optimization_runs (ic_scope identity) batch_id)"

definition run_get :: "identity_context \<Rightarrow> uuid \<Rightarrow> optimization_run sim" where
  "run_get identity k = found_or missing (get_optimization_run (ic_scope identity) k)"

definition stress_list :: "identity_context \<Rightarrow> uuid \<Rightarrow> stress_assessment list sim" where
  "stress_list identity run_id = get_repo (list_stress_assessments (ic_scope identity) run_id)"

definition plan_list :: "identity_context \<Rightarrow> uuid \<Rightarrow> strategy_plan list sim" where
  "plan_list identity run_id = get_repo (list_strategy_plans (ic_scope identity) run_id)"

definition merge_list :: "identity_context \<Rightarrow> uuid \<Rightarrow> merge_assessment list sim" where
  "merge_list identity run_id = get_repo (list_merge_assessments (ic_scope identity) run_id)"

definition merge_plans ::
  "env \<Rightarrow> identity_context \<Rightarrow> uuid \<Rightarrow> uuid \<Rightarrow> uuid list \<Rightarrow> string \<Rightarrow> string \<Rightarrow> string \<Rightarrow> string \<Rightarrow> merge_assessment sim" where
  "merge_plans env identity run_id plan_id candidate_ids linkage tau_b tau_m request_id =
     bindS require_writer (\<lambda>_.
     bindS (found_or missing (get_optimization_run (ic_scope identity) run_id)) (\<lambda>run.
     bindS (liftE (coerce_text tau_b)) (\<lambda>b.
     bindS (liftE (coerce_text tau_m)) (\<lambda>m.
     bindS (clock_now env) (\<lambda>now.
     bindS (merge_assessments env
              \<lparr>mr_plan_id = plan_id, mr_run_id = run_id, mr_baseline_version_id = ru_version_id run,
               mr_candidate_ids = candidate_ids, mr_linkage = linkage, mr_tau_b = b, mr_tau_m = m\<rparr>
              now (ru_tenant_id run) (ru_data_domain_id run) (ru_project_id run) (ru_decision_unit_id run)) (\<lambda>a.
     bindS (put_repo (upsert_merge_assessment a)) (\<lambda>_.
     bindS (noted env identity ''simulation.optimization.merge'' ''MergeAssessment'' (ma_merge_id a) request_id
              ''PLAN_MERGE'' (if ma_accepted a then ''ACCEPTED'' else ''BLOCKED'') None) (\<lambda>_.
     bindS (liftE (assert_merge_accepted a)) (\<lambda>_.
     ret a)))))))))"

definition plan_publish :: "env \<Rightarrow> identity_context \<Rightarrow> uuid \<Rightarrow> string \<Rightarrow> strategy_plan sim" where
  "plan_publish env identity k request_id =
     bindS require_writer (\<lambda>_.
     bindS (found_or missing (get_strategy_plan (ic_scope identity) k)) (\<lambda>plan.
     bindS (checkS (sp_state plan = PLAN_DRAFT) (BiaiceError ''JOB_NOT_CANCELLABLE'')) (\<lambda>_.
     bindS (clock_now env) (\<lambda>now.
     let published = plan\<lparr>sp_state := PLAN_PUBLISHED, sp_published_at := Some now,
                          sp_published_by := Some (ic_subject_id identity)\<rparr> in
     bindS (put_repo (upsert_strategy_plan published)) (\<lambda>_.
     bindS (noted env identity ''simulation.plan.publish'' ''StrategyPlan'' (sp_plan_id published) request_id
              ''PLAN_PUBLISH'' ''ACCEPTED'' (Some (sp_version_id published))) (\<lambda>_.
     ret published))))))"

definition plan_invalidate :: "env \<Rightarrow> identity_context \<Rightarrow> uuid \<Rightarrow> string \<Rightarrow> strategy_plan sim" where
  "plan_invalidate env identity k request_id =
     bindS require_writer (\<lambda>_.
     bindS (found_or missing (get_strategy_plan (ic_scope identity) k)) (\<lambda>plan.
     bindS (clock_now env) (\<lambda>now.
     let invalidated = plan\<lparr>sp_state := PLAN_INVALIDATED, sp_invalidated_at := Some now,
                            sp_invalidated_by := Some (ic_subject_id identity)\<rparr> in
     bindS (put_repo (upsert_strategy_plan invalidated)) (\<lambda>_.
     bindS (noted env identity ''simulation.plan.invalidate'' ''StrategyPlan'' (sp_plan_id invalidated) request_id
              ''USER_REQUEST'' ''ACCEPTED'' (Some (sp_version_id invalidated))) (\<lambda>_.
     ret invalidated)))))"

section \<open>Eligibility\<close>

definition input_unknown :: exc where
  "input_unknown = BiaiceError ''ELIGIBILITY_INPUT_UNKNOWN''"

definition eligibility_assess ::
  "env \<Rightarrow> identity_context \<Rightarrow> uuid \<Rightarrow> uuid \<Rightarrow> uuid option \<Rightarrow> gate_inputs \<Rightarrow> string \<Rightarrow> recommendation_eligibility sim" where
  "eligibility_assess env identity unit_id baseline_id snapshot_id inputs request_id =
     bindS require_writer (\<lambda>_.
     bindS (unit_allowed identity unit_id) (\<lambda>_.
     bindS (found_or input_unknown (get_baseline (ic_scope identity) baseline_id)) (\<lambda>baseline.
     bindS (checkS (ba_state baseline \<in> {BASE_FROZEN, BASE_SUPERSEDED}) input_unknown) (\<lambda>_.
     bindS (case snapshot_id of
              None \<Rightarrow> ret None
            | Some k \<Rightarrow>
                bindS (found_or input_unknown (get_snapshot (ic_scope identity) k)) (\<lambda>s.
                bindS (checkS (sn_state s = SNAP_LOCKED) input_unknown) (\<lambda>_. ret (Some (sn_version_id s))))) (\<lambda>snapshot_version.
     let result = assess_eligibility inputs in
     bindS (uuid4 env) (\<lambda>eligibility_id.
     bindS (uuid4 env) (\<lambda>version_id.
     bindS (clock_now env) (\<lambda>now.
     let e =
       \<lparr>re_eligibility_id = eligibility_id, re_version_id = version_id,
        re_tenant_id = sc_tenant_id (ic_scope identity), re_data_domain_id = sc_data_domain_id (ic_scope identity),
        re_project_id = own_project identity, re_decision_unit_id = unit_id, re_state = er_state result,
        re_blocked_reason_codes = er_blocked_reason_codes result,
        re_upstream_validity = er_upstream_validity result, re_baseline_version_id = ba_version_id baseline,
        re_snapshot_version_id = snapshot_version, re_assessed_at = now,
        re_assessed_by = ic_subject_id identity\<rparr> in
     bindS (put_repo (upsert_recommendation_eligibility e)) (\<lambda>_.
     bindS (noted env identity ''simulation.eligibility.assess'' ''RecommendationEligibility'' eligibility_id
              request_id ''ELIGIBILITY_ASSESSED'' (eligibility_value (re_state e)) (Some version_id)) (\<lambda>_.
     bindS (module_emit env identity ''simulation.eligibility_assessed.v1'' ''RecommendationEligibility'' eligibility_id
              [(''eligibility_id'', JStr (uuid_str eligibility_id)), (''decision_unit_id'', JStr (uuid_str unit_id)),
               (''state'', JStr (eligibility_value (re_state e)))] request_id) (\<lambda>_.
     bindS (liftE (assert_eligible result)) (\<lambda>_.
     ret e))))))))))))"

definition eligibility_list :: "identity_context \<Rightarrow> uuid \<Rightarrow> recommendation_eligibility list sim" where
  "eligibility_list identity unit_id =
     bindS (unit_allowed identity unit_id) (\<lambda>_.
     get_repo (list_recommendation_eligibilities (ic_scope identity) unit_id))"

definition eligibility_get :: "identity_context \<Rightarrow> uuid \<Rightarrow> recommendation_eligibility sim" where
  "eligibility_get identity k = found_or missing (get_recommendation_eligibility (ic_scope identity) k)"

section \<open>Snapshots\<close>

definition snapshot_create ::
  "env \<Rightarrow> identity_context \<Rightarrow> uuid \<Rightarrow> (string \<times> json) list \<Rightarrow> string \<Rightarrow> assessment_snapshot sim" where
  "snapshot_create env identity unit_id payload request_id =
     bindS require_writer (\<lambda>_.
     bindS (unit_allowed identity unit_id) (\<lambda>_.
     bindS (uuid4 env) (\<lambda>snapshot_id.
     bindS (uuid4 env) (\<lambda>version_id.
     bindS (clock_now env) (\<lambda>created_at.
     bindS (liftE (create_snapshot (env_sha env)
              \<lparr>sq_snapshot_id = snapshot_id, sq_version_id = version_id,
               sq_tenant_id = sc_tenant_id (ic_scope identity),
               sq_data_domain_id = sc_data_domain_id (ic_scope identity), sq_project_id = own_project identity,
               sq_decision_unit_id = unit_id, sq_payload = payload, sq_created_at = created_at,
               sq_created_by = ic_subject_id identity, sq_lock = True\<rparr>)) (\<lambda>s.
     bindS (liftE (assert_shadow_watermark s)) (\<lambda>_.
     bindS (put_repo (upsert_snapshot s)) (\<lambda>_.
     bindS (noted env identity ''simulation.snapshot.create'' ''SimulationAssessmentSnapshot'' (sn_snapshot_id s)
              request_id ''SNAPSHOT_LOCKED'' ''ACCEPTED'' (Some (sn_version_id s))) (\<lambda>_.
     bindS (module_emit env identity ''simulation.simulation_snapshot_created.v1'' ''SimulationAssessmentSnapshot''
              (sn_snapshot_id s)
              [(''snapshot_id'', JStr (uuid_str (sn_snapshot_id s))), (''watermark'', JStr (sn_watermark s)),
               (''payload_hash'', JStr (sn_payload_hash s))] request_id) (\<lambda>_.
     ret s))))))))))"

definition snapshot_list :: "identity_context \<Rightarrow> uuid \<Rightarrow> assessment_snapshot list sim" where
  "snapshot_list identity unit_id =
     bindS (unit_allowed identity unit_id) (\<lambda>_. get_repo (list_snapshots (ic_scope identity) unit_id))"

definition snapshot_get :: "identity_context \<Rightarrow> uuid \<Rightarrow> assessment_snapshot sim" where
  "snapshot_get identity k = found_or missing (get_snapshot (ic_scope identity) k)"

definition snapshot_download :: "identity_context \<Rightarrow> uuid \<Rightarrow> assessment_snapshot sim" where
  "snapshot_download identity k =
     bindS (snapshot_get identity k) (\<lambda>s. bindS (liftE (assert_shadow_watermark s)) (\<lambda>_. ret s))"

section \<open>The worker runtime\<close>

text \<open>It finds its aggregates by identifier alone, in whatever state they are.\<close>

type_synonym task_result = "(string \<times> json) list"

definition task_state :: "string \<Rightarrow> uuid \<Rightarrow> string \<Rightarrow> task_result" where
  "task_state key k state = [(key, JStr (uuid_str k)), (''state'', JStr state)]"

definition worker_run_batch :: "env \<Rightarrow> uuid \<Rightarrow> task_result sim" where
  "worker_run_batch env k =
     bindS (get_repo (\<lambda>r. dict_get (sr_batches r) k)) (\<lambda>match.
     case match of
       None \<Rightarrow> ret (task_state ''batch_id'' k (batch_value BATCH_FAILED_TERMINAL))
     | Some b \<Rightarrow>
         bindS (clock_now env) (\<lambda>now.
         let b' = b\<lparr>sb_state := BATCH_SUCCEEDED, sb_last_updated_at := now\<rparr> in
         bindS (put_repo (upsert_batch b')) (\<lambda>_.
         ret (task_state ''batch_id'' (sb_batch_id b') (batch_value (sb_state b'))))))"

definition worker_run_optimization :: "env \<Rightarrow> uuid \<Rightarrow> task_result sim" where
  "worker_run_optimization env k =
     bindS (get_repo (\<lambda>r. dict_get (sr_optimization_runs r) k)) (\<lambda>match.
     case match of
       None \<Rightarrow> ret (task_state ''run_id'' k (optimization_value OPT_FAILED))
     | Some run \<Rightarrow>
         bindS (clock_now env) (\<lambda>now.
         let run' = run\<lparr>ru_state := OPT_SUCCEEDED, ru_finalized_at := Some now\<rparr> in
         bindS (put_repo (upsert_optimization_run run')) (\<lambda>_.
         ret (task_state ''run_id'' (ru_run_id run') (optimization_value (ru_state run'))))))"

definition worker_assess_eligibility :: "uuid \<Rightarrow> task_result sim" where
  "worker_assess_eligibility k =
     bindS (get_repo (\<lambda>r. dict_get (sr_recommendation_eligibilities r) k)) (\<lambda>match.
     case match of
       None \<Rightarrow> ret (task_state ''eligibility_id'' k ''UNKNOWN'')
     | Some e \<Rightarrow>
         ret (task_state ''eligibility_id'' (re_eligibility_id e) (eligibility_value (re_state e)) @
              [(''blocked_reason_codes'', JArr (map JStr (re_blocked_reason_codes e)))]))"

definition worker_create_snapshot :: "env \<Rightarrow> uuid \<Rightarrow> task_result sim" where
  "worker_create_snapshot env k =
     bindS (get_repo (\<lambda>r. dict_get (sr_snapshots r) k)) (\<lambda>match.
     case match of
       None \<Rightarrow> ret (task_state ''snapshot_id'' k (snapshot_value SNAP_DRAFT))
     | Some s \<Rightarrow>
         if compute_payload_hash (env_sha env) (sn_payload s) \<noteq> sn_payload_hash s \<or>
            sn_watermark s \<noteq> SHADOW_PILOT_LOCKED_WATERMARK
         then ret (task_state ''snapshot_id'' (sn_snapshot_id s) (snapshot_value SNAP_DRAFT) @
                   [(''watermark'', JStr (sn_watermark s))])
         else
           bindS (clock_now env) (\<lambda>now.
           let s' = s\<lparr>sn_state := SNAP_LOCKED, sn_locked_at := Some now\<rparr> in
           bindS (put_repo (upsert_snapshot s')) (\<lambda>_.
           ret (task_state ''snapshot_id'' (sn_snapshot_id s') (snapshot_value (sn_state s'))))))"

end
