(* ===== verification/Sim_Invariants.thy ===== *)
theory Sim_Invariants
  imports Sim_Decisions Keeps
begin

text \<open>
  Every operation of the simulation services as a call, histories of calls, and what a store
  that was filled by calls satisfies: manifests and payload hashes verify, scenario sets are
  frozen and independent, decimal fields hold decimal text, and no optimisation run was ever
  stored.
\<close>

section \<open>Calls\<close>

datatype sim_call =
    FreezeBaseline identity_context uuid "manifest_item list" string "(uuid, string) dict option"
  | ListBaselines identity_context uuid
  | GetBaseline identity_context uuid
  | CreateSpace identity_context uuid uuid string "string list" int string
  | ListSpaces identity_context uuid
  | GetSpace identity_context uuid
  | CreateScenarioSet identity_context uuid uuid uuid "uuid option" "scenario_member list" "stress_axis list" string
  | FreezeScenarioSet identity_context uuid string
  | ListScenarioSets identity_context uuid
  | GetScenarioSet identity_context uuid
  | CreateBatch identity_context uuid uuid uuid award_mode string string
  | CancelBatch identity_context uuid string
  | RetryBatch identity_context uuid string
  | ListBatches identity_context uuid
  | GetBatch identity_context uuid
  | ValidateCandidates identity_context simulation_batch "simulation_candidate list" static_context string
  | RefereeScenarios simulation_batch scenario_set string "simulation_candidate list" int
  | CreateRun identity_context uuid objective_kind award_mode string "blueprint list" "stress_axis list"
      "(stress_axis, stress_scenario list) dict" string
  | FinalizeRun identity_context uuid string
  | InvalidateRun identity_context uuid string
  | ListRuns identity_context uuid
  | GetRun identity_context uuid
  | ListStress identity_context uuid
  | ListPlans identity_context uuid
  | ListMerges identity_context uuid
  | MergePlans identity_context uuid uuid "uuid list" string string string string
  | PublishPlan identity_context uuid string
  | InvalidatePlan identity_context uuid string
  | AssessEligibility identity_context uuid uuid "uuid option" gate_inputs string
  | ListEligibilities identity_context uuid
  | GetEligibility identity_context uuid
  | CreateSnapshot identity_context uuid "(string \<times> json) list" string
  | ListSnapshots identity_context uuid
  | GetSnapshot identity_context uuid
  | DownloadSnapshot identity_context uuid
  | WorkBatch uuid
  | WorkOptimization uuid
  | WorkEligibility uuid
  | WorkSnapshot uuid

primrec run_sim :: "env \<Rightarrow> sim_call \<Rightarrow> unit sim" where
  "run_sim env (FreezeBaseline i u ms q live) = as_unit (baseline_freeze env i u ms q live)"
| "run_sim env (ListBaselines i u) = as_unit (baseline_list i u)"
| "run_sim env (GetBaseline i k) = as_unit (baseline_get i k)"
| "run_sim env (CreateSpace i u b d axes n q) = as_unit (space_create env i u b d axes n q)"
| "run_sim env (ListSpaces i u) = as_unit (space_list i u)"
| "run_sim env (GetSpace i k) = as_unit (space_get i k)"
| "run_sim env (CreateScenarioSet i u b s e ms axes q) = as_unit (scenario_set_create env i u b s e ms axes q)"
| "run_sim env (FreezeScenarioSet i k q) = as_unit (scenario_set_freeze env i k q)"
| "run_sim env (ListScenarioSets i u) = as_unit (scenario_set_list i u)"
| "run_sim env (GetScenarioSet i k) = as_unit (scenario_set_get i k)"
| "run_sim env (CreateBatch i u b s a t q) = as_unit (batch_create env i u b s a t q)"
| "run_sim env (CancelBatch i k q) = as_unit (batch_cancel env i k q)"
| "run_sim env (RetryBatch i k q) = as_unit (batch_retry env i k q)"
| "run_sim env (ListBatches i u) = as_unit (batch_list i u)"
| "run_sim env (GetBatch i k) = as_unit (batch_get i k)"
| "run_sim env (ValidateCandidates i b cs x q) = as_unit (run_static_validation env i b cs x q)"
| "run_sim env (RefereeScenarios b s h cs seed) = as_unit (run_scenario_referees env b s h cs seed)"
| "run_sim env (CreateRun i k ob a t bs axes ss q) = as_unit (run_create env i k ob a t bs axes ss q)"
| "run_sim env (FinalizeRun i k q) = as_unit (run_finalize env i k q)"
| "run_sim env (InvalidateRun i k q) = as_unit (run_invalidate env i k q)"
| "run_sim env (ListRuns i k) = as_unit (run_list i k)"
| "run_sim env (GetRun i k) = as_unit (run_get i k)"
| "run_sim env (ListStress i k) = as_unit (stress_list i k)"
| "run_sim env (ListPlans i k) = as_unit (plan_list i k)"
| "run_sim env (ListMerges i k) = as_unit (merge_list i k)"
| "run_sim env (MergePlans i k p cs l b m q) = as_unit (merge_plans env i k p cs l b m q)"
| "run_sim env (PublishPlan i k q) = as_unit (plan_publish env i k q)"
| "run_sim env (InvalidatePlan i k q) = as_unit (plan_invalidate env i k q)"
| "run_sim env (AssessEligibility i u b s g q) = as_unit (eligibility_assess env i u b s g q)"
| "run_sim env (ListEligibilities i u) = as_unit (eligibility_list i u)"
| "run_sim env (GetEligibility i k) = as_unit (eligibility_get i k)"
| "run_sim env (CreateSnapshot i u p q) = as_unit (snapshot_create env i u p q)"
| "run_sim env (ListSnapshots i u) = as_unit (snapshot_list i u)"
| "run_sim env (GetSnapshot i k) = as_unit (snapshot_get i k)"
| "run_sim env (DownloadSnapshot i k) = as_unit (snapshot_download i k)"
| "run_sim env (WorkBatch k) = as_unit (worker_run_batch env k)"
| "run_sim env (WorkOptimization k) = as_unit (worker_run_optimization env k)"
| "run_sim env (WorkEligibility k) = as_unit (worker_assess_eligibility k)"
| "run_sim env (WorkSnapshot k) = as_unit (worker_create_snapshot env k)"

lemmas sim_operation_defs =
  baseline_freeze_def baseline_list_def baseline_get_def space_create_def space_list_def space_get_def
  scenario_set_create_def scenario_set_freeze_def scenario_set_list_def scenario_set_get_def
  batch_create_def batch_cancel_def batch_retry_def batch_command_def batch_list_def batch_get_def
  run_static_validation_def validate_turn_def validate_candidate_def run_scenario_referees_def referee_turn_def
  run_create_def run_finalize_def run_invalidate_def run_list_def run_get_def stress_list_def plan_list_def
  merge_list_def merge_plans_def plan_publish_def plan_invalidate_def eligibility_assess_def eligibility_list_def
  eligibility_get_def snapshot_create_def snapshot_list_def snapshot_get_def snapshot_download_def
  worker_run_batch_def worker_run_optimization_def worker_assess_eligibility_def worker_create_snapshot_def

text \<open>A history; a call that raises leaves what it wrote.\<close>

primrec run_sims :: "env \<Rightarrow> sim_call list \<Rightarrow> sim_repo world \<Rightarrow> sim_repo world" where
  "run_sims env [] w = w"
| "run_sims env (c # cs) w = run_sims env cs (snd (run_sim env c w))"

lemma run_sims_keep:
  assumes "\<And>c. c \<in> set cs \<Longrightarrow> preserves P (run_sim env c)" and "P w"
  shows "P (run_sims env cs w)"
  using assms by (induction cs arbitrary: w) (auto intro: preservesD)

section \<open>What every store satisfies\<close>

definition baseline_sound :: "env \<Rightarrow> decision_baseline \<Rightarrow> bool" where
  "baseline_sound env b \<longleftrightarrow>
     ba_state b = BASE_FROZEN \<and> mf_items (ba_manifest b) \<noteq> [] \<and>
     verify_manifest env (ba_manifest b) (mf_items (ba_manifest b))"

definition set_sound :: "scenario_set \<Rightarrow> bool" where
  "set_sound s \<longleftrightarrow> st_state s = SET_FROZEN \<and> validate_search_eval_independence s = Inr ()"

definition batch_reached :: "simulation_batch \<Rightarrow> bool" where
  "batch_reached b \<longleftrightarrow> sb_state b \<in> {BATCH_PENDING, BATCH_RUNNING, BATCH_SUCCEEDED, BATCH_CANCELLED}"

definition eligibility_sound :: "recommendation_eligibility \<Rightarrow> bool" where
  "eligibility_sound e \<longleftrightarrow>
     (\<exists>g. re_state e = er_state (assess_eligibility g) \<and> re_upstream_validity e = as_mapping g \<and>
        re_blocked_reason_codes e = er_blocked_reason_codes (assess_eligibility g))"

definition snapshot_sound :: "env \<Rightarrow> assessment_snapshot \<Rightarrow> bool" where
  "snapshot_sound env s \<longleftrightarrow>
     sn_state s = SNAP_LOCKED \<and> sn_watermark s = SHADOW_PILOT_LOCKED_WATERMARK \<and> sn_payload s \<noteq> [] \<and>
     sn_payload_hash s = compute_payload_hash (env_sha env) (sn_payload s)"

definition sim_sound :: "env \<Rightarrow> sim_repo \<Rightarrow> bool" where
  "sim_sound env r \<longleftrightarrow>
     sim_ok r \<and> all_values (baseline_sound env) (sr_baselines r) \<and> all_values set_sound (sr_scenario_sets r) \<and>
     all_values batch_reached (sr_batches r) \<and>
     all_values eligibility_sound (sr_recommendation_eligibilities r) \<and>
     all_values (snapshot_sound env) (sr_snapshots r) \<and>
     sr_optimization_runs r = [] \<and> sr_stress_assessments r = [] \<and> sr_strategy_plans r = [] \<and>
     sr_merge_assessments r = []"

lemma empty_sim_sound [simp]: "sim_sound env empty_sim"
  by (simp add: sim_sound_def) (simp add: empty_sim_def)

lemma sim_sound_puts:
  "sim_sound env r \<Longrightarrow> baseline_sound env b \<Longrightarrow> sim_sound env (upsert_baseline b r)"
  "sim_sound env r \<Longrightarrow> sim_sound env (upsert_search_space p r)"
  "sim_sound env r \<Longrightarrow> set_sound s \<Longrightarrow> sim_sound env (upsert_scenario_set s r)"
  "sim_sound env r \<Longrightarrow> batch_reached t \<Longrightarrow> sim_sound env (upsert_batch t r)"
  "sim_sound env r \<Longrightarrow> sim_sound env (upsert_candidate c r)"
  "sim_sound env r \<Longrightarrow> sim_sound env (upsert_static_validation v r)"
  "sim_sound env r \<Longrightarrow> sim_sound env (upsert_scenario_outcome oc r)"
  "sim_sound env r \<Longrightarrow> sim_sound env (upsert_strategy_assessment a r)"
  "sim_sound env r \<Longrightarrow> eligibility_sound e \<Longrightarrow> sim_sound env (upsert_recommendation_eligibility e r)"
  "sim_sound env r \<Longrightarrow> snapshot_sound env n \<Longrightarrow> sim_sound env (upsert_snapshot n r)"
  by (simp_all add: sim_sound_def) (simp_all add: sim_upsert_defs all_values_set)

lemma sim_sound_reads:
  "sim_sound env r \<Longrightarrow> get_baseline sc k r = Some b \<Longrightarrow> baseline_sound env b"
  "sim_sound env r \<Longrightarrow> get_scenario_set sc k r = Some s \<Longrightarrow> set_sound s"
  "sim_sound env r \<Longrightarrow> get_batch sc k r = Some t \<Longrightarrow> batch_reached t"
  "sim_sound env r \<Longrightarrow> get_recommendation_eligibility sc k r = Some e \<Longrightarrow> eligibility_sound e"
  "sim_sound env r \<Longrightarrow> get_snapshot sc k r = Some n \<Longrightarrow> snapshot_sound env n"
  "sim_sound env r \<Longrightarrow> dict_get (sr_snapshots r) k = Some n \<Longrightarrow> snapshot_sound env n"
  by (auto simp: sim_sound_def get_baseline_def get_scenario_set_def get_batch_def
      get_recommendation_eligibility_def get_snapshot_def dest: all_values_stored all_values_get)

lemma sim_sound_empties:
  "sim_sound env r \<Longrightarrow> get_optimization_run sc k r = None"
  "sim_sound env r \<Longrightarrow> get_strategy_plan sc k r = None"
  "sim_sound env r \<Longrightarrow> dict_get (sr_optimization_runs r) k = None"
  by (simp_all add: sim_sound_def get_optimization_run_def get_strategy_plan_def stored_def)

text \<open>What the constructors establish.\<close>

lemma freeze_scenarios_sound: "freeze_scenarios q = Inr s \<Longrightarrow> set_sound s"
  by (auto simp: freeze_scenarios_def Let_def set_sound_def validate_search_eval_independence_def frozen_set_def
      split: if_splits)

lemma create_snapshot_sound: "create_snapshot (env_sha env) q = Inr s \<Longrightarrow> sq_lock q \<Longrightarrow> snapshot_sound env s"
  by (auto simp: create_snapshot_def Let_def snapshot_sound_def snapshot_of_def split: if_splits)

lemma new_run_fails: "rf_finalized_at f = None \<Longrightarrow> new_optimization_run f = Inl ValidationError"
  by (simp add: new_optimization_run_def)

end
