(* ===== verification/Sim_Guarantees.thy ===== *)
theory Sim_Guarantees
  imports Sim_Invariants
begin

text \<open>
  What the simulation services guarantee over any history of calls.
\<close>

section \<open>Every operation keeps the store sound\<close>

lemma sound_baseline_freeze: "keeps (sim_sound env) (\<lambda>_. True) (baseline_freeze env i u ms q live)"
  unfolding baseline_freeze_def build_manifest_def Let_def
  by (intro keeps_module_steps keeps_ret sim_sound_puts)
    (simp_all add: baseline_sound_def assert_manifest_complete_def split: if_splits)

lemma sound_space_create: "keeps (sim_sound env) (\<lambda>_. True) (space_create env i u b d axes n q)"
  unfolding space_create_def Let_def
  by (intro keeps_module_steps keeps_ret sim_sound_puts) simp_all

lemma sound_scenario_set_create:
  "keeps (sim_sound env) (\<lambda>_. True) (scenario_set_create env i u b s e ms axes q)"
  unfolding scenario_set_create_def Let_def
  by (intro keeps_module_steps keeps_ret sim_sound_puts) (auto intro: freeze_scenarios_sound)

lemma sound_scenario_set_freeze: "keeps (sim_sound env) (\<lambda>_. True) (scenario_set_freeze env i k q)"
  unfolding scenario_set_freeze_def Let_def
  by (intro keeps_module_steps keeps_ret sim_sound_puts)
    (auto simp: set_sound_def validate_search_eval_independence_def Let_def split: if_splits)

lemma sound_batch_create: "keeps (sim_sound env) (\<lambda>_. True) (batch_create env i u b s a t q)"
  unfolding batch_create_def Let_def
  by (intro keeps_module_steps keeps_ret sim_sound_puts) (simp_all add: batch_reached_def)

lemma sound_batch_command:
  "target \<in> {BATCH_PENDING, BATCH_CANCELLED} \<Longrightarrow>
   keeps (sim_sound env) (\<lambda>_. True) (batch_command env i k allowed code target action q)"
  unfolding batch_command_def Let_def
  by (intro keeps_module_steps keeps_ret sim_sound_puts) (auto simp: batch_reached_def)

lemma sound_validate_turn: "keeps (sim_sound env) (\<lambda>_. True) (validate_turn env i x q c)"
  unfolding validate_turn_def validate_candidate_def Let_def
  by (intro keeps_module_steps keeps_ret sim_sound_puts) simp_all

lemma sound_run_static_validation: "keeps (sim_sound env) (\<lambda>_. True) (run_static_validation env i b cs x q)"
  unfolding run_static_validation_def Let_def
  by (rule keeps_forS [OF sound_validate_turn, THEN keeps_bindS], intro keeps_module_steps keeps_ret sim_sound_puts)
    (simp_all add: batch_reached_def)

lemma sound_evaluate_scenario: "keeps I (\<lambda>_. True) (evaluate_scenario env i p)"
  unfolding evaluate_scenario_def Let_def
  by (intro keeps_module_steps keeps_ret keeps_if) simp_all

lemma sound_referee_turn: "keeps (sim_sound env) (\<lambda>_. True) (referee_turn env b h seed x)"
  unfolding referee_turn_def Let_def
  by (intro keeps_case_prod keeps_module_steps sound_evaluate_scenario [THEN keeps_bindS] keeps_ret sim_sound_puts) simp_all

lemma sound_run_scenario_referees: "keeps (sim_sound env) (\<lambda>_. True) (run_scenario_referees env b s h cs seed)"
  unfolding run_scenario_referees_def
  by (rule keeps_forS [OF sound_referee_turn, THEN keeps_bindS]) (simp add: keeps_ret)

lemma sound_generate_candidate: "keeps I (\<lambda>_. True) (generate_candidate env b v t x)"
  unfolding generate_candidate_def Let_def
  by (intro keeps_case_prod keeps_module_steps keeps_ret) simp_all

lemma sound_generate_candidates: "keeps I (\<lambda>_. True) (generate_candidates env b v bs t)"
  unfolding generate_candidates_def
  by (rule keeps_weaken [OF keeps_forS [OF sound_generate_candidate]]) simp

lemma sound_put_candidates: "keeps (sim_sound env) (\<lambda>_. True) (forS cs (\<lambda>c. put_repo (upsert_candidate c)))"
  by (rule keeps_weaken [OF keeps_forS [OF keeps_put]]) (simp_all add: sim_sound_puts)

lemma sound_run_create: "keeps (sim_sound env) (\<lambda>_. False) (run_create env i k ob a t bs axes ss q)"
  unfolding run_create_def
  by (intro sound_generate_candidates [THEN keeps_bindS] sound_put_candidates [THEN keeps_bindS] keeps_module_steps)
    (simp_all add: new_run_fails)

text \<open>Operations on aggregates that never exist find nothing.\<close>

lemma sound_run_operations:
  "keeps (sim_sound env) (\<lambda>_. False) (run_finalize env i k q)"
  "keeps (sim_sound env) (\<lambda>_. False) (run_invalidate env i k q)"
  "keeps (sim_sound env) (\<lambda>_. False) (run_get i k)"
  "keeps (sim_sound env) (\<lambda>_. False) (merge_plans env i k p cs l b m q)"
  "keeps (sim_sound env) (\<lambda>_. False) (plan_publish env i k q)"
  "keeps (sim_sound env) (\<lambda>_. False) (plan_invalidate env i k q)"
  unfolding run_finalize_def run_invalidate_def run_get_def merge_plans_def plan_publish_def plan_invalidate_def
  by ((intro keeps_module_steps keeps_weaken [OF keeps_found_or]; (elim exE conjE)?; simp add: sim_sound_empties)+)

lemma sound_eligibility_assess: "keeps (sim_sound env) (\<lambda>_. True) (eligibility_assess env i u b s g q)"
  unfolding eligibility_assess_def Let_def
  by (intro keeps_module_steps keeps_ret sim_sound_puts) (auto simp: eligibility_sound_def assess_eligibility_def Let_def)

lemma sound_snapshot_create: "keeps (sim_sound env) (\<lambda>_. True) (snapshot_create env i u p q)"
  unfolding snapshot_create_def
  by (intro keeps_module_steps keeps_ret sim_sound_puts) (auto intro: create_snapshot_sound)

lemma snapshot_relocked: "snapshot_sound env s \<Longrightarrow> snapshot_sound env (s\<lparr>sn_state := SNAP_LOCKED, sn_locked_at := t\<rparr>)"
  by (simp add: snapshot_sound_def)

lemma sound_workers:
  "keeps (sim_sound env) (\<lambda>_. True) (worker_run_batch env k)"
  "keeps (sim_sound env) (\<lambda>_. True) (worker_run_optimization env k)"
  "keeps (sim_sound env) (\<lambda>_. True) (worker_assess_eligibility k)"
  "keeps (sim_sound env) (\<lambda>_. True) (worker_create_snapshot env k)"
  unfolding worker_run_batch_def worker_run_optimization_def worker_assess_eligibility_def worker_create_snapshot_def Let_def
  by (intro keeps_case_option keeps_if keeps_module_steps keeps_ret sim_sound_puts;
      auto simp: batch_reached_def sim_sound_empties intro: snapshot_relocked sim_sound_reads(6) [OF _ sym])+

lemma keeps_reads:
  "keeps I (\<lambda>_. True) (baseline_list i u)" "keeps I (\<lambda>_. True) (baseline_get i k)"
  "keeps I (\<lambda>_. True) (space_list i u)" "keeps I (\<lambda>_. True) (space_get i k)"
  "keeps I (\<lambda>_. True) (scenario_set_list i u)" "keeps I (\<lambda>_. True) (scenario_set_get i k)"
  "keeps I (\<lambda>_. True) (batch_list i u)" "keeps I (\<lambda>_. True) (batch_get i k)"
  "keeps I (\<lambda>_. True) (run_list i k)" "keeps I (\<lambda>_. True) (stress_list i k)"
  "keeps I (\<lambda>_. True) (plan_list i k)" "keeps I (\<lambda>_. True) (merge_list i k)"
  "keeps I (\<lambda>_. True) (eligibility_list i u)" "keeps I (\<lambda>_. True) (eligibility_get i k)"
  "keeps I (\<lambda>_. True) (snapshot_list i u)" "keeps I (\<lambda>_. True) (snapshot_get i k)"
  "keeps I (\<lambda>_. True) (snapshot_download i k)"
  unfolding baseline_list_def baseline_get_def space_list_def space_get_def scenario_set_list_def scenario_set_get_def
    batch_list_def batch_get_def run_list_def stress_list_def plan_list_def merge_list_def eligibility_list_def
    eligibility_get_def snapshot_list_def snapshot_get_def snapshot_download_def
  by (intro keeps_module_steps keeps_weaken [OF keeps_get] keeps_weaken [OF keeps_found_or] keeps_ret TrueI)+

lemmas sound_operations =
  sound_baseline_freeze sound_space_create sound_scenario_set_create sound_scenario_set_freeze sound_batch_create
  sound_batch_command sound_run_static_validation sound_run_scenario_referees sound_run_create sound_run_operations
  sound_eligibility_assess sound_snapshot_create sound_workers keeps_reads

lemma sound_call: "preserves (on_repo (sim_sound env)) (run_sim env c)"
  by (cases c) (auto simp: batch_cancel_def batch_retry_def intro: sound_operations [THEN preserves_as_unit])

lemma sound_calls: "sim_sound env (w_repo w) \<Longrightarrow> sim_sound env (w_repo (run_sims env cs w))"
  using run_sims_keep [where P = "on_repo (sim_sound env)", OF sound_call] by (simp add: on_repo_def)

end
