(* ===== verification/Sim_Types.thy ===== *)
theory Sim_Types
  imports Sim_Guarantees
begin

text \<open>
  The types of the stored data: updates with \<open>model_copy\<close> run no validator, yet whatever
  well-typed calls were made, every stored aggregate satisfies the field checks of its model and
  every decimal field holds decimal text.
\<close>

section \<open>Well-typed aggregates\<close>

definition batch_typed :: "simulation_batch \<Rightarrow> bool" where
  "batch_typed b \<longleftrightarrow> batch_valid b \<and> decimal_text (sb_policy_threshold b)"

definition candidate_typed :: "simulation_candidate \<Rightarrow> bool" where
  "candidate_typed c \<longleftrightarrow> candidate_valid c \<and> decimal_text (ca_expected_cost c) \<and> decimal_text (ca_expected_margin c)"

definition outcome_typed :: "scenario_outcome \<Rightarrow> bool" where
  "outcome_typed oc \<longleftrightarrow> decimal_text (oc_expected_payoff oc) \<and> decimal_text (oc_p_win oc)"

definition set_typed :: "scenario_set \<Rightarrow> bool" where
  "set_typed s \<longleftrightarrow> scenario_set_valid s \<and> (\<forall>m \<in> set (st_members s). member_valid m)"

definition baseline_typed :: "decision_baseline \<Rightarrow> bool" where
  "baseline_typed b \<longleftrightarrow> baseline_valid b \<and> manifest_valid (ba_manifest b)"

definition sim_typed :: "sim_repo \<Rightarrow> bool" where
  "sim_typed r \<longleftrightarrow>
     all_values baseline_typed (sr_baselines r) \<and> all_values search_space_valid (sr_search_spaces r) \<and>
     all_values set_typed (sr_scenario_sets r) \<and> all_values batch_typed (sr_batches r) \<and>
     all_values candidate_typed (sr_candidates r) \<and> all_values outcome_typed (sr_scenario_outcomes r) \<and>
     all_values strategy_valid (sr_strategy_assessments r) \<and> all_values snapshot_valid (sr_snapshots r)"

text \<open>What the callers' own types promise: the arguments that are already models.\<close>

definition call_typed :: "sim_call \<Rightarrow> bool" where
  "call_typed c =
     (case c of
        CreateScenarioSet i u b s e ms axes q \<Rightarrow> list_all member_valid ms
      | ValidateCandidates i b cs x q \<Rightarrow> batch_typed b
      | _ \<Rightarrow> True)"

definition sim_tight :: "env \<Rightarrow> sim_repo \<Rightarrow> bool" where
  "sim_tight env r \<longleftrightarrow> sim_sound env r \<and> sim_typed r"

lemma sim_tight_puts:
  "sim_tight env r \<Longrightarrow> baseline_sound env b \<Longrightarrow> baseline_typed b \<Longrightarrow> sim_tight env (upsert_baseline b r)"
  "sim_tight env r \<Longrightarrow> search_space_valid p \<Longrightarrow> sim_tight env (upsert_search_space p r)"
  "sim_tight env r \<Longrightarrow> set_sound s \<Longrightarrow> set_typed s \<Longrightarrow> sim_tight env (upsert_scenario_set s r)"
  "sim_tight env r \<Longrightarrow> batch_reached t \<Longrightarrow> batch_typed t \<Longrightarrow> sim_tight env (upsert_batch t r)"
  "sim_tight env r \<Longrightarrow> candidate_typed c \<Longrightarrow> sim_tight env (upsert_candidate c r)"
  "sim_tight env r \<Longrightarrow> sim_tight env (upsert_static_validation v r)"
  "sim_tight env r \<Longrightarrow> outcome_typed oc \<Longrightarrow> sim_tight env (upsert_scenario_outcome oc r)"
  "sim_tight env r \<Longrightarrow> strategy_valid a \<Longrightarrow> sim_tight env (upsert_strategy_assessment a r)"
  "sim_tight env r \<Longrightarrow> eligibility_sound e \<Longrightarrow> sim_tight env (upsert_recommendation_eligibility e r)"
  "sim_tight env r \<Longrightarrow> snapshot_sound env n \<Longrightarrow> snapshot_valid n \<Longrightarrow> sim_tight env (upsert_snapshot n r)"
  by (simp_all add: sim_tight_def sim_sound_puts) (simp_all add: sim_typed_def sim_upsert_defs all_values_set)

lemma sim_tight_reads:
  "sim_tight env r \<Longrightarrow> get_scenario_set sc k r = Some s \<Longrightarrow> set_typed s"
  "sim_tight env r \<Longrightarrow> get_batch sc k r = Some t \<Longrightarrow> batch_typed t"
  "sim_tight env r \<Longrightarrow> dict_get (sr_batches r) k = Some t \<Longrightarrow> batch_typed t"
  "sim_tight env r \<Longrightarrow> dict_get (sr_snapshots r) k = Some n \<Longrightarrow> snapshot_valid n"
  by (auto simp: sim_tight_def sim_typed_def get_scenario_set_def get_batch_def dest: all_values_stored all_values_get)

lemma sim_tight_sound: "sim_tight env r \<Longrightarrow> sim_sound env r"
  by (simp add: sim_tight_def)

lemma coerce_text_typed: "coerce_text s = Inr t \<Longrightarrow> decimal_text t"
  by (simp add: coerce_text_def split: if_splits)

lemma from_decimal_typed: "from_decimal d = Inr t \<Longrightarrow> decimal_text t"
  by (simp add: from_decimal_def Let_def split: if_splits)

lemma quantized_typed: "quantized_text d = Inr t \<Longrightarrow> decimal_text t"
  by (auto simp: quantized_text_def bindE_eq_Inr intro: from_decimal_typed)

lemma reason_codes_valid:
  "text_between 3 120 ''REVIEW_NOT_CURRENT''" "text_between 3 120 ''DETERMINISTIC_REFEREE''"
  "text_between 3 120 ''INFEASIBLE_PAYOFF''"
  by (simp_all add: text_between_def char_count_def)

lemma freeze_scenarios_typed:
  "freeze_scenarios q = Inr s \<Longrightarrow> list_all member_valid (sf_members q) \<Longrightarrow> set_typed s"
  by (auto simp: freeze_scenarios_def Let_def set_typed_def frozen_set_def list_all_iff split: if_splits)

lemma create_snapshot_typed: "create_snapshot sha q = Inr s \<Longrightarrow> snapshot_valid s"
  by (auto simp: create_snapshot_def Let_def split: if_splits)

section \<open>Every operation keeps the types\<close>

lemma tight_baseline_freeze: "keeps (sim_tight env) (\<lambda>_. True) (baseline_freeze env i u ms q live)"
  unfolding baseline_freeze_def build_manifest_def Let_def
  by (intro keeps_module_steps keeps_ret sim_tight_puts)
    (simp_all add: baseline_sound_def assert_manifest_complete_def baseline_typed_def split: if_splits)

lemma tight_space_create: "keeps (sim_tight env) (\<lambda>_. True) (space_create env i u b d axes n q)"
  unfolding space_create_def Let_def
  by (intro keeps_module_steps keeps_ret sim_tight_puts) simp_all

lemma tight_scenario_set_create:
  "list_all member_valid ms \<Longrightarrow> keeps (sim_tight env) (\<lambda>_. True) (scenario_set_create env i u b s e ms axes q)"
  unfolding scenario_set_create_def Let_def
  by (intro keeps_module_steps keeps_ret sim_tight_puts) (auto intro: freeze_scenarios_sound freeze_scenarios_typed)

lemma tight_scenario_set_freeze: "keeps (sim_tight env) (\<lambda>_. True) (scenario_set_freeze env i k q)"
  unfolding scenario_set_freeze_def Let_def
  by (intro keeps_module_steps keeps_ret sim_tight_puts)
    (auto simp: set_sound_def validate_search_eval_independence_def set_typed_def scenario_set_valid_def Let_def
      split: if_splits dest: sim_tight_reads)

lemma tight_batch_create: "keeps (sim_tight env) (\<lambda>_. True) (batch_create env i u b s a t q)"
  unfolding batch_create_def Let_def
  by (intro keeps_module_steps keeps_ret sim_tight_puts) (simp_all add: batch_reached_def batch_typed_def coerce_text_typed)

lemma batch_typed_update:
  "batch_typed b \<Longrightarrow> batch_typed (b\<lparr>sb_state := s, sb_last_updated_at := t\<rparr>)"
  "batch_typed b \<Longrightarrow> batch_typed (b\<lparr>sb_state := s, sb_candidate_count := int n, sb_last_updated_at := t, sb_progress_percent := 25\<rparr>)"
  by (simp_all add: batch_typed_def batch_valid_def)

lemma tight_batch_command:
  "target \<in> {BATCH_PENDING, BATCH_CANCELLED} \<Longrightarrow>
   keeps (sim_tight env) (\<lambda>_. True) (batch_command env i k allowed code target action q)"
  unfolding batch_command_def Let_def
  by (intro keeps_module_steps keeps_ret sim_tight_puts)
    (auto simp: batch_reached_def intro: batch_typed_update sim_tight_reads)

lemma tight_validate_turn: "keeps (sim_tight env) (\<lambda>_. True) (validate_turn env i x q c)"
  unfolding validate_turn_def validate_candidate_def Let_def
  by (intro keeps_module_steps keeps_ret sim_tight_puts) simp_all

lemma tight_run_static_validation:
  "batch_typed b \<Longrightarrow> keeps (sim_tight env) (\<lambda>_. True) (run_static_validation env i b cs x q)"
  unfolding run_static_validation_def Let_def
  by (rule keeps_forS [OF tight_validate_turn, THEN keeps_bindS], intro keeps_module_steps keeps_ret sim_tight_puts)
    (auto simp: batch_reached_def intro: batch_typed_update)

lemma typed_evaluate_scenario:
  "keeps I (\<lambda>out. outcome_typed (ro_outcome out) \<and> strategy_valid (ro_assessment out)) (evaluate_scenario env i p)"
  unfolding evaluate_scenario_def Let_def
  by (intro keeps_if keeps_module_steps keeps_ret)
    (auto simp: outcome_typed_def strategy_valid_def make_outcome_def make_assessment_def reason_codes_valid
      intro: from_decimal_typed quantized_typed)

lemma tight_referee_turn: "keeps (sim_tight env) (\<lambda>_. True) (referee_turn env b h seed x)"
  unfolding referee_turn_def Let_def
  by (intro keeps_case_prod keeps_module_steps typed_evaluate_scenario [THEN keeps_bindS] keeps_ret sim_tight_puts) simp_all

lemma tight_run_scenario_referees: "keeps (sim_tight env) (\<lambda>_. True) (run_scenario_referees env b s h cs seed)"
  unfolding run_scenario_referees_def
  by (rule keeps_forS [OF tight_referee_turn, THEN keeps_bindS]) (simp add: keeps_ret)

lemma typed_generate_candidate: "keeps I candidate_typed (generate_candidate env b v t x)"
  unfolding generate_candidate_def Let_def
  by (intro keeps_case_prod keeps_module_steps keeps_ret) (auto simp: candidate_typed_def intro: from_decimal_typed)

lemma tight_run_create: "keeps (sim_tight env) (\<lambda>_. False) (run_create env i k ob a t bs axes ss q)"
proof -
  have gen: "keeps (sim_tight env) (\<lambda>cs. \<forall>c \<in> set cs. candidate_typed c) (generate_candidates env b v bs t)" for b v t
    unfolding generate_candidates_def by (rule keeps_forS [OF typed_generate_candidate])
  have put: "keeps (sim_tight env) (\<lambda>_. True) (forS cs (\<lambda>c. put_repo (upsert_candidate c)))"
    if "\<forall>c \<in> set cs. candidate_typed c" for cs
    by (rule keeps_weaken [OF keeps_forS [OF keeps_put]]) (use that in \<open>simp_all add: sim_tight_puts\<close>)
  show ?thesis
    unfolding run_create_def
    by (intro gen [THEN keeps_bindS] put [THEN keeps_bindS] keeps_module_steps) (simp_all add: new_run_fails)
qed

lemma tight_run_operations:
  "keeps (sim_tight env) (\<lambda>_. False) (run_finalize env i k q)"
  "keeps (sim_tight env) (\<lambda>_. False) (run_invalidate env i k q)"
  "keeps (sim_tight env) (\<lambda>_. False) (run_get i k)"
  "keeps (sim_tight env) (\<lambda>_. False) (merge_plans env i k p cs l b m q)"
  "keeps (sim_tight env) (\<lambda>_. False) (plan_publish env i k q)"
  "keeps (sim_tight env) (\<lambda>_. False) (plan_invalidate env i k q)"
  unfolding run_finalize_def run_invalidate_def run_get_def merge_plans_def plan_publish_def plan_invalidate_def
  by ((intro keeps_module_steps keeps_weaken [OF keeps_found_or]; (elim exE conjE)?; simp add: sim_sound_empties [OF sim_tight_sound])+)

lemma tight_eligibility_assess: "keeps (sim_tight env) (\<lambda>_. True) (eligibility_assess env i u b s g q)"
  unfolding eligibility_assess_def Let_def
  by (intro keeps_module_steps keeps_ret sim_tight_puts) (auto simp: eligibility_sound_def assess_eligibility_def Let_def)

lemma tight_snapshot_create: "keeps (sim_tight env) (\<lambda>_. True) (snapshot_create env i u p q)"
  unfolding snapshot_create_def
  by (intro keeps_module_steps keeps_ret sim_tight_puts) (auto intro: create_snapshot_sound create_snapshot_typed)

lemma snapshot_valid_update: "snapshot_valid s \<Longrightarrow> snapshot_valid (s\<lparr>sn_state := SNAP_LOCKED, sn_locked_at := t\<rparr>)"
  by (simp add: snapshot_valid_def)

lemma tight_workers:
  "keeps (sim_tight env) (\<lambda>_. True) (worker_run_batch env k)"
  "keeps (sim_tight env) (\<lambda>_. True) (worker_run_optimization env k)"
  "keeps (sim_tight env) (\<lambda>_. True) (worker_assess_eligibility k)"
  "keeps (sim_tight env) (\<lambda>_. True) (worker_create_snapshot env k)"
  unfolding worker_run_batch_def worker_run_optimization_def worker_assess_eligibility_def worker_create_snapshot_def Let_def
  by (intro keeps_case_option keeps_if keeps_module_steps keeps_ret sim_tight_puts;
      auto simp: batch_reached_def sim_sound_empties [OF sim_tight_sound]
        intro: snapshot_relocked sim_sound_reads(6) [OF sim_tight_sound sym] batch_typed_update snapshot_valid_update
          sim_tight_reads(3,4) [OF _ sym])+

lemmas tight_operations =
  tight_baseline_freeze tight_space_create tight_scenario_set_create tight_scenario_set_freeze tight_batch_create
  tight_batch_command tight_run_static_validation tight_run_scenario_referees tight_run_create tight_run_operations
  tight_eligibility_assess tight_snapshot_create tight_workers keeps_reads

lemma tight_call: "call_typed c \<Longrightarrow> preserves (on_repo (sim_tight env)) (run_sim env c)"
  by (cases c) (auto simp: call_typed_def batch_cancel_def batch_retry_def intro: tight_operations [THEN preserves_as_unit])

lemma tight_calls:
  "list_all call_typed cs \<Longrightarrow> sim_tight env (w_repo w) \<Longrightarrow> sim_tight env (w_repo (run_sims env cs w))"
  using run_sims_keep [where P = "on_repo (sim_tight env)", OF tight_call] by (simp add: on_repo_def list_all_iff)

end
