(* ===== verification/Sim_Machine.thy ===== *)
theory Sim_Machine
  imports Sim_Types "HOL-Library.Sublist"
begin

text \<open>
  The states of a simulation batch as an abstract machine, and the refinement: every call of the
  services is a step of the machine, or none, on each stored batch.
\<close>

section \<open>The machine\<close>

datatype batch_action = QUEUE | CANCEL | REQUEUE | VALIDATE | WORK

inductive batch_step :: "batch_action \<Rightarrow> batch_state option \<Rightarrow> batch_state option \<Rightarrow> bool" where
  queue: "batch_step QUEUE None (Some BATCH_PENDING)"
| cancel: "cancellable s \<Longrightarrow> batch_step CANCEL (Some s) (Some BATCH_CANCELLED)"
| requeue: "retryable s \<Longrightarrow> batch_step REQUEUE (Some s) (Some BATCH_PENDING)"
| validate: "batch_step VALIDATE s (Some BATCH_RUNNING)"
| work: "batch_step WORK (Some s) (Some BATCH_SUCCEEDED)"

inductive_simps batch_step_simps [simp]:
  "batch_step QUEUE s t" "batch_step CANCEL s t" "batch_step REQUEUE s t" "batch_step VALIDATE s t" "batch_step WORK s t"

text \<open>The abstraction: the state of the batch stored under an identifier.\<close>

definition batch_view :: "sim_repo \<Rightarrow> uuid \<Rightarrow> batch_state option" where
  "batch_view r k = map_option sb_state (dict_get (sr_batches r) k)"

definition batch_action_of :: "sim_call \<Rightarrow> batch_action option" where
  "batch_action_of c =
     (case c of
        CreateBatch i u b s a t q \<Rightarrow> Some QUEUE
      | CancelBatch i k q \<Rightarrow> Some CANCEL
      | RetryBatch i k q \<Rightarrow> Some REQUEUE
      | ValidateCandidates i b cs x q \<Rightarrow> Some VALIDATE
      | WorkBatch k \<Rightarrow> Some WORK
      | _ \<Rightarrow> None)"

text \<open>An action leaves the batch as it is, or changes its state by a step.\<close>

definition batch_moves ::
  "batch_action \<Rightarrow> uuid \<Rightarrow> (uuid, simulation_batch) dict \<Rightarrow> (uuid, simulation_batch) dict \<Rightarrow> bool" where
  "batch_moves a k d d' \<longleftrightarrow>
     (let s = map_option sb_state (dict_get d k); s' = map_option sb_state (dict_get d' k)
      in s' = s \<or> batch_step a s s')"

lemma batch_moves_refl [simp]: "batch_moves a k d d"
  by (simp add: batch_moves_def)

lemma batch_moves_put:
  "(key = k \<Longrightarrow> batch_step a (map_option sb_state (dict_get d key)) (Some (sb_state b))) \<Longrightarrow>
   batch_moves a k d (dict_set key b d)"
  by (auto simp: batch_moves_def Let_def)

lemma batch_moves_view:
  "batch_moves a k (sr_batches r) (sr_batches r') \<longleftrightarrow>
   batch_view r' k = batch_view r k \<or> batch_step a (batch_view r k) (batch_view r' k)"
  by (simp add: batch_moves_def batch_view_def Let_def)

section \<open>Effects of the operations on the batches\<close>

abbreviation batches_are :: "(uuid, simulation_batch) dict \<Rightarrow> sim_repo \<Rightarrow> bool" where
  "batches_are d \<equiv> \<lambda>r. sr_batches r = d"

lemma batches_puts [simp]:
  "sr_batches (upsert_baseline b r) = sr_batches r" "sr_batches (upsert_search_space p r) = sr_batches r"
  "sr_batches (upsert_scenario_set s r) = sr_batches r" "sr_batches (upsert_candidate c r) = sr_batches r"
  "sr_batches (upsert_static_validation v r) = sr_batches r" "sr_batches (upsert_scenario_outcome oc r) = sr_batches r"
  "sr_batches (upsert_strategy_assessment a r) = sr_batches r" "sr_batches (upsert_optimization_run u r) = sr_batches r"
  "sr_batches (upsert_stress_assessment x r) = sr_batches r" "sr_batches (upsert_strategy_plan y r) = sr_batches r"
  "sr_batches (upsert_merge_assessment m r) = sr_batches r"
  "sr_batches (upsert_recommendation_eligibility e r) = sr_batches r" "sr_batches (upsert_snapshot n r) = sr_batches r"
  "sr_batches (upsert_batch t r) = dict_set (sb_batch_id t) t (sr_batches r)"
  by (simp_all add: sim_upsert_defs)

lemmas preserves_rules =
  preserves_bindS preserves_if preserves_case_option preserves_case_prod preserves_forS preserves_put_repo

lemma other_calls_keep_batches: "batch_action_of c = None \<Longrightarrow> preserves (on_repo (batches_are d)) (run_sim env c)"
  by (cases c; simp only: run_sim.simps as_unit_def;
      (simp only: sim_operation_defs build_manifest_def evaluate_scenario_def generate_candidates_def
         generate_candidate_def validate_turn_def [abs_def] run_stress_phase_def run_stress_tests_def stress_turn_def merge_assessments_def Let_def)?;
      (intro preserves_rules; simp add: batch_action_of_def)+)

lemma wp_keeps:
  assumes "keeps I P m" and "I (w_repo w)"
    and "\<And>x w'. I (w_repo w') \<Longrightarrow> P x \<Longrightarrow> Q x w'" and "\<And>w'. I (w_repo w') \<Longrightarrow> E w'"
  shows "wp m Q E w"
  using assms by (auto simp: keeps_def intro: wp_weaken)

text \<open>
  An operation that prepares, writes one batch, and reports: the write is a step of the action,
  nothing else touches the batches.
\<close>

definition moves :: "batch_action \<Rightarrow> uuid \<Rightarrow> (uuid, simulation_batch) dict \<Rightarrow> nat \<Rightarrow> 'a sim \<Rightarrow> bool" where
  "moves a k d n m \<longleftrightarrow>
     (\<forall>w. sr_batches (w_repo w) = d \<longrightarrow> n \<le> w_uuids w \<longrightarrow> batch_moves a k d (sr_batches (w_repo (snd (m w)))))"

lemma moves_prepare:
  assumes "keeps (batches_are d) P m" and "\<And>x. P x \<Longrightarrow> moves a k d 0 (f x)"
  shows "moves a k d 0 (bindS m f)"
  unfolding moves_def
proof (intro allI impI)
  fix w :: "sim_repo world"
  assume w: "sr_batches (w_repo w) = d"
  obtain res w' where m: "m w = (res, w')" by (cases "m w")
  have wp: "wp m (\<lambda>x w'. sr_batches (w_repo w') = d \<and> P x) (\<lambda>w'. sr_batches (w_repo w') = d) w"
    using assms(1) w by (simp add: keeps_def)
  show "batch_moves a k d (sr_batches (w_repo (snd (bindS m f w))))"
    using wp m assms(2) by (cases res) (auto simp: wp_def bindS_def moves_def)
qed

lemma moves_quiet:
  assumes "quiet m" and "\<And>x. moves a k d n (f x)"
  shows "moves a k d n (bindS m f)"
  unfolding moves_def
proof (intro allI impI)
  fix w :: "sim_repo world"
  assume w: "sr_batches (w_repo w) = d" "n \<le> w_uuids w"
  obtain res w' where m: "m w = (res, w')" by (cases "m w")
  then have "later w w'" using assms(1) by (metis quiet_def snd_conv)
  then show "batch_moves a k d (sr_batches (w_repo (snd (bindS m f w))))"
    using w m assms(2) by (cases res) (auto simp: bindS_def moves_def later_def)
qed

lemma moves_uuid4: "(\<And>j. n \<le> j \<Longrightarrow> moves a k d n (f (env_uuid env j))) \<Longrightarrow> moves a k d n (bindS (uuid4 env) f)"
  by (auto simp: moves_def bindS_def uuid4_def)

lemma moves_put:
  assumes "sb_batch_id b = k \<Longrightarrow> batch_step a (map_option sb_state (dict_get d k)) (Some (sb_state b))"
    and "\<And>d'. keeps (batches_are d') (\<lambda>_. True) (f ())"
  shows "moves a k d n (bindS (put_repo (upsert_batch b)) f)"
  unfolding moves_def
proof (intro allI impI)
  fix w :: "sim_repo world"
  assume w: "sr_batches (w_repo w) = d"
  let ?d = "dict_set (sb_batch_id b) b d" and ?w = "w\<lparr>w_repo := upsert_batch b (w_repo w)\<rparr>"
  have "on_repo (batches_are ?d) (snd (f () ?w))"
    by (rule preservesD [OF keeps_preserves [OF assms(2)]]) (simp add: on_repo_def w)
  then show "batch_moves a k d (sr_batches (w_repo (snd (bindS (put_repo (upsert_batch b)) f w))))"
    using batch_moves_put [of "sb_batch_id b" k a d b] assms(1) by (simp add: on_repo_def bindS_def put_repo_def)
qed

lemma moves_still: "quiet m \<Longrightarrow> moves a k d n m"
  by (auto simp: moves_def quiet_def later_def)

lemma moves_as_unit: "moves a k d n m \<Longrightarrow> moves a k d n (as_unit m)"
  by (auto simp: moves_def as_unit_def bindS_def split: prod.splits sum.splits)

lemmas moves_steps = keeps_rules [THEN moves_prepare] keeps_helpers [THEN moves_prepare] keeps_found_or [THEN moves_prepare]

lemma stored_batch_key:
  assumes "keyed sb_batch_id (sr_batches r)"
  shows "get_batch s k r = Some b \<Longrightarrow> dict_get (sr_batches r) (sb_batch_id b) = Some b"
    and "dict_get (sr_batches r) k = Some b \<Longrightarrow> dict_get (sr_batches r) (sb_batch_id b) = Some b"
  using keyed_get [OF assms, of k b] by (auto simp: get_batch_def stored_def split: option.splits if_splits)

lemma moves_batch_command:
  assumes "\<And>s. allowed s \<Longrightarrow> batch_step a (Some s) (Some target)" and "keyed sb_batch_id d"
  shows "moves a k d 0 (batch_command env i key allowed code target action q)"
  unfolding batch_command_def Let_def
  by (intro moves_steps) (use assms in \<open>auto intro!: moves_put keeps_module_steps keeps_ret simp: stored_batch_key(1)\<close>)

lemma moves_worker_run_batch:
  assumes "keyed sb_batch_id d"
  shows "moves WORK k d 0 (worker_run_batch env key)"
  unfolding worker_run_batch_def Let_def
proof (intro moves_steps)
  fix r and x :: "simulation_batch option"
  assume "\<exists>r. sr_batches r = d \<and> x = dict_get (sr_batches r) key"
  then have x: "x = dict_get d key" by auto
  show "moves WORK k d 0 (case x of None \<Rightarrow> ret (task_state ''batch_id'' key (batch_value BATCH_FAILED_TERMINAL))
     | Some b \<Rightarrow> bindS (clock_now env) (\<lambda>now.
         bindS (put_repo (upsert_batch (b\<lparr>sb_state := BATCH_SUCCEEDED, sb_last_updated_at := now\<rparr>))) (\<lambda>_.
         ret (task_state ''batch_id'' (sb_batch_id (b\<lparr>sb_state := BATCH_SUCCEEDED, sb_last_updated_at := now\<rparr>))
           (batch_value (sb_state (b\<lparr>sb_state := BATCH_SUCCEEDED, sb_last_updated_at := now\<rparr>)))))))"
  proof (cases x)
    case (Some b)
    then have "dict_get d (sb_batch_id b) = Some b" using x keyed_get [OF assms, of key b] by simp
    then show ?thesis
      unfolding Some option.case by (intro moves_steps moves_put keeps_ret) simp_all
  qed (simp add: moves_still)
qed

lemma moves_run_static_validation: "moves VALIDATE k d 0 (run_static_validation env i b cs x q)"
  unfolding run_static_validation_def validate_turn_def validate_candidate_def Let_def
  by (intro moves_steps moves_put keeps_module_steps keeps_put keeps_ret) simp_all

lemma moves_batch_create:
  assumes "\<And>j. n \<le> j \<Longrightarrow> env_uuid env j = k \<Longrightarrow> dict_get d k = None"
  shows "moves QUEUE k d n (batch_create env i u b s a t q)"
  unfolding batch_create_def Let_def
  by (intro moves_uuid4 moves_quiet moves_put) (simp_all add: assms keeps_module_steps keeps_ret)

lemma moves_zero: "moves a k d 0 m \<Longrightarrow> moves a k d n m"
  by (simp add: moves_def)

lemma moves_call:
  assumes "batch_action_of c = Some a" and "keyed sb_batch_id d"
    and "\<And>j. n \<le> j \<Longrightarrow> env_uuid env j = k \<Longrightarrow> dict_get d k = None"
  shows "moves a k d n (run_sim env c)"
  using assms
  by (cases c) (auto simp: batch_action_of_def batch_cancel_def batch_retry_def
      intro!: moves_as_unit moves_batch_create
        moves_batch_command [THEN moves_zero] moves_worker_run_batch [THEN moves_zero]
        moves_run_static_validation [THEN moves_zero])

section \<open>The refinement\<close>

lemma call_steps:
  assumes "keyed sb_batch_id (sr_batches (w_repo w))"
    and "\<And>j. w_uuids w \<le> j \<Longrightarrow> env_uuid env j = k \<Longrightarrow> batch_view (w_repo w) k = None"
  shows "batch_view (w_repo (snd (run_sim env c w))) k = batch_view (w_repo w) k \<or>
    (\<exists>a. batch_action_of c = Some a \<and>
       batch_step a (batch_view (w_repo w) k) (batch_view (w_repo (snd (run_sim env c w))) k))"
proof (cases "batch_action_of c")
  case None
  have "sr_batches (w_repo (snd (run_sim env c w))) = sr_batches (w_repo w)"
    using preservesD [OF other_calls_keep_batches [OF None], of "sr_batches (w_repo w)" w env] by (simp add: on_repo_def)
  then show ?thesis by (simp add: batch_view_def)
next
  case (Some a)
  have "moves a k (sr_batches (w_repo w)) (w_uuids w) (run_sim env c)"
    by (rule moves_call [OF Some assms(1)]) (use assms(2) in \<open>auto simp: batch_view_def\<close>)
  then show ?thesis using Some by (simp add: moves_def batch_moves_view)
qed

text \<open>A history is simulated by some of its actions, in their order.\<close>

fun batch_path :: "batch_action list \<Rightarrow> batch_state option \<Rightarrow> batch_state option \<Rightarrow> bool" where
  "batch_path [] s t \<longleftrightarrow> t = s"
| "batch_path (a # as) s t \<longleftrightarrow> (\<exists>u. batch_step a s u \<and> batch_path as u t)"

definition batch_actions :: "sim_call list \<Rightarrow> batch_action list" where
  "batch_actions cs = List.map_filter batch_action_of cs"

lemma batch_actions_simps [simp]:
  "batch_actions [] = []"
  "batch_actions (c # cs) = (case batch_action_of c of None \<Rightarrow> batch_actions cs | Some a \<Rightarrow> a # batch_actions cs)"
  by (simp_all add: batch_actions_def split: option.split)

lemma ok_call: "sim_ok (w_repo w) \<Longrightarrow> sim_ok (w_repo (snd (run_sim env c w)))"
proof -
  have "preserves (on_repo sim_ok) (run_sim env c)"
    by (cases c; simp only: run_sim.simps as_unit_def;
        (simp only: sim_operation_defs build_manifest_def evaluate_scenario_def generate_candidates_def
           generate_candidate_def validate_turn_def [abs_def] run_stress_phase_def run_stress_tests_def stress_turn_def merge_assessments_def Let_def)?;
        (intro preserves_rules; simp)+)
  then show "sim_ok (w_repo w) \<Longrightarrow> sim_ok (w_repo (snd (run_sim env c w)))"
    by (auto simp: on_repo_def dest: preservesD)
qed

lemma quiet_uuids: "quiet m \<Longrightarrow> preserves (\<lambda>w. n \<le> w_uuids w) m"
  by (auto simp: quiet_def later_def preserves_def intro: le_trans)

lemma preserves_uuids [simp]:
  "preserves (\<lambda>w. n \<le> w_uuids w) (uuid4 env)" "preserves (\<lambda>w. n \<le> w_uuids w) (clock_now env)"
  "preserves (\<lambda>w. n \<le> w_uuids w) (put_repo f)" "preserves (\<lambda>w. n \<le> w_uuids w) (noted env i a b k q rc oc v)"
  "preserves (\<lambda>w. n \<le> w_uuids w) (module_emit env i a b k payload q)"
  "preserves (\<lambda>w. n \<le> w_uuids w) (unit_allowed i k)" "preserves (\<lambda>w. n \<le> w_uuids w) (found_or e g)"
  by (simp_all add: quiet_uuids) (simp add: preserves_def put_repo_def)

lemma calls_draw_onwards: "preserves (\<lambda>w. n \<le> w_uuids w) (run_sim env c)"
  by (cases c; simp only: run_sim.simps as_unit_def;
      (simp only: sim_operation_defs build_manifest_def evaluate_scenario_def generate_candidates_def
         generate_candidate_def validate_turn_def [abs_def] run_stress_phase_def run_stress_tests_def stress_turn_def merge_assessments_def Let_def)?;
      (intro preserves_rules(1-5) preserves_uuids; simp)+)

text \<open>
  C22. The services implement the batch state machine: whatever call is made, by whomever, each
  stored batch keeps its state or makes the step of the call's action - queued when it is new,
  cancelled only from a cancellable state, requeued only from a retryable one - and calls that
  are no batch command leave it as it is. The identifiers still to be drawn must not be that of
  a stored batch.
\<close>

theorem services_refine_batch_machine:
  assumes "sim_ok (w_repo w)"
    and "\<And>j. w_uuids w \<le> j \<Longrightarrow> env_uuid env j = k \<Longrightarrow> batch_view (w_repo w) k = None"
  shows "batch_view (w_repo (snd (run_sim env c w))) k = batch_view (w_repo w) k \<or>
    (\<exists>a. batch_action_of c = Some a \<and>
       batch_step a (batch_view (w_repo w) k) (batch_view (w_repo (snd (run_sim env c w))) k))"
  by (rule call_steps) (use assms in \<open>auto simp: sim_ok_def batch_store_ok_def\<close>)

lemma refine_batch_histories:
  assumes "sim_ok (w_repo w)" and "never_drawn env k w"
  shows "\<exists>as. subseq as (batch_actions cs) \<and>
    batch_path as (batch_view (w_repo w) k) (batch_view (w_repo (run_sims env cs w)) k)"
  using assms
proof (induction cs arbitrary: w)
  case Nil
  show ?case by (rule exI [of _ "[]"]) simp
next
  case (Cons c cs)
  let ?w = "snd (run_sim env c w)"
  let ?v = "batch_view (w_repo w) k" and ?v' = "batch_view (w_repo ?w) k"
  have "sim_ok (w_repo ?w)" by (rule ok_call [OF Cons.prems(1)])
  moreover have "never_drawn env k ?w"
    using Cons.prems(2) le_trans [OF preservesD [OF calls_draw_onwards [of "w_uuids w"] order_refl]]
    by (auto simp: never_drawn_def)
  ultimately obtain as where "as": "subseq as (batch_actions cs)"
      "batch_path as ?v' (batch_view (w_repo (run_sims env cs ?w)) k)"
    using Cons.IH by blast
  have "?v' = ?v \<or> (\<exists>a. batch_action_of c = Some a \<and> batch_step a ?v ?v')"
    by (rule call_steps) (use Cons.prems in \<open>auto simp: sim_ok_def batch_store_ok_def never_drawn_def\<close>)
  then show ?case
  proof (elim disjE exE conjE)
    assume "?v' = ?v"
    with "as" show ?thesis by (intro exI [of _ as]) (auto split: option.split)
  next
    fix a
    assume "batch_action_of c = Some a" "batch_step a ?v ?v'"
    with "as" show ?thesis by (intro exI [of _ "a # as"]) auto
  qed
qed

text \<open>Only a worker or a validation leaves a closed batch.\<close>

lemma closed_path:
  "batch_path as (Some s) t \<Longrightarrow> s \<in> {BATCH_CANCELLED, BATCH_SUCCEEDED} \<Longrightarrow>
   VALIDATE \<notin> set as \<Longrightarrow> WORK \<notin> set as \<Longrightarrow> t = Some s"
proof (induction as)
  case (Cons a as)
  then show ?case by (cases a) (auto simp: cancellable_def retryable_def)
qed simp

text \<open>
  C26. A cancelled or finished batch stays as it is under every history of commands of users:
  only the worker and a validation of its candidates leave these states.
\<close>

theorem closed_batches_stay:
  assumes "sim_ok (w_repo w)" and "never_drawn env k w"
    and "batch_view (w_repo w) k = Some s" and "s \<in> {BATCH_CANCELLED, BATCH_SUCCEEDED}"
    and "set (batch_actions cs) \<inter> {VALIDATE, WORK} = {}"
  shows "batch_view (w_repo (run_sims env cs w)) k = Some s"
proof -
  obtain as where "as": "subseq as (batch_actions cs)"
      "batch_path as (Some s) (batch_view (w_repo (run_sims env cs w)) k)"
    using refine_batch_histories [OF assms(1,2), of cs] assms(3) by auto
  have "set as \<subseteq> set (batch_actions cs)" using list_emb_set [OF "as"(1)] by blast
  then show ?thesis using closed_path [OF "as"(2) assms(4)] assms(5) by auto
qed


section \<open>Where the machine is left\<close>

text \<open>A sample environment and a store with one cancelled batch.\<close>

definition sim_env :: env where
  "sim_env = \<lparr>env_sha = sample_sha, env_isofmt = print_int, env_uuid = (\<lambda>_. 7), env_clock = int\<rparr>"

definition sim_identity :: identity_context where
  "sim_identity = sample_identity\<lparr>ic_scope := sample_scope\<lparr>sc_all_projects := True, sc_all_decision_units := True\<rparr>\<rparr>"

definition cancelled_batch :: simulation_batch where
  "cancelled_batch =
     \<lparr>sb_batch_id = 5, sb_version_id = 6, sb_tenant_id = sc_tenant_id sample_scope,
      sb_data_domain_id = sc_data_domain_id sample_scope, sb_project_id = None, sb_decision_unit_id = 9,
      sb_baseline_version_id = 8, sb_scenario_set_version_id = 10, sb_award_mode = AWARD_SINGLE,
      sb_state = BATCH_CANCELLED, sb_policy_threshold = ''0'', sb_candidate_count = 0, sb_progress_percent = 0,
      sb_requested_by = 3, sb_created_at = 0, sb_last_updated_at = 0\<rparr>"

definition sim_world :: "sim_repo \<Rightarrow> sim_repo world" where
  "sim_world r = \<lparr>w_repo = r, w_audit = \<lparr>ms_events = [], ms_available = True\<rparr>, w_outbox = NO_OUTBOX,
     w_uuids = 0, w_ticks = 0\<rparr>"

abbreviation cancelled_world :: "sim_repo world" where
  "cancelled_world \<equiv> sim_world (upsert_batch cancelled_batch empty_sim)"

lemma cancelled_world_facts:
  "sim_ok (w_repo cancelled_world)" "never_drawn sim_env 5 cancelled_world"
  "batch_view (w_repo cancelled_world) 5 = Some BATCH_CANCELLED"
  by (simp_all add: sim_world_def never_drawn_def sim_env_def batch_view_def)
    (simp_all add: cancelled_batch_def empty_sim_def)

theorem services_refine_batch_machine_witness:
  "batch_view (w_repo (snd (run_sim sim_env (WorkBatch 5) cancelled_world))) 5 = Some BATCH_CANCELLED \<or>
   (\<exists>a. batch_action_of (WorkBatch 5) = Some a \<and>
      batch_step a (Some BATCH_CANCELLED) (batch_view (w_repo (snd (run_sim sim_env (WorkBatch 5) cancelled_world))) 5))"
  using services_refine_batch_machine [of cancelled_world sim_env 5 "WorkBatch 5"] cancelled_world_facts
  by (simp add: sim_env_def)

theorem closed_batches_stay_witness:
  "batch_view (w_repo (run_sims sim_env [RetryBatch sim_identity 5 ''r'', CancelBatch sim_identity 5 ''r''] cancelled_world)) 5 =
   Some BATCH_CANCELLED"
  by (rule closed_batches_stay) (simp_all add: cancelled_world_facts batch_action_of_def)

end
