(* ===== verification/Sim_Results.thy ===== *)
theory Sim_Results
  imports Sim_Machine Runs
begin

text \<open>
  What the simulation services guarantee, and what they never do.
\<close>

section \<open>Histories on an empty store\<close>

definition sim_after :: "env \<Rightarrow> sim_call list \<Rightarrow> sim_repo world \<Rightarrow> sim_repo world" where
  "sim_after env cs w = run_sims env cs (w\<lparr>w_repo := empty_sim\<rparr>)"

lemma sim_after_sound: "sim_sound env (w_repo (sim_after env cs w))"
  unfolding sim_after_def by (rule sound_calls) simp

lemma sim_after_never: "keeps (sim_sound env) (\<lambda>_. False) m \<Longrightarrow> \<nexists>x. fst (m (sim_after env cs w)) = Inr x"
  using keeps_result sim_after_sound by (metis prod.collapse)

section \<open>Stored inputs\<close>

text \<open>
  C23. After any history of calls on an empty store, whoever made them: every stored baseline is
  frozen and its manifest hash is that of its items; every scenario set is frozen, without
  stress scenarios, with search and evaluation scenarios and independent spaces; every
  eligibility is the verdict on the validities it stores; every snapshot is locked, carries the
  shadow watermark, and its hash is that of its payload, so that it can be downloaded.
\<close>

theorem stored_inputs_verify:
  shows "(all_values (baseline_sound env) (sr_baselines (w_repo (sim_after env cs w)))) \<and>
    (all_values set_sound (sr_scenario_sets (w_repo (sim_after env cs w)))) \<and>
    (all_values eligibility_sound (sr_recommendation_eligibilities (w_repo (sim_after env cs w)))) \<and>
    (all_values (snapshot_sound env) (sr_snapshots (w_repo (sim_after env cs w))))"
  using sim_after_sound [of env cs w] by (simp_all add: sim_sound_def)

text \<open>
  C24. Whatever well-typed calls were made on an empty store, every stored baseline, search space,
  scenario set, batch, candidate, outcome, assessment and snapshot satisfies the field checks of
  its model, and every decimal field holds text of the decimal pattern, although updates copy
  models without running their checks.
\<close>

theorem stored_data_typed:
  assumes "list_all call_typed cs"
  shows "sim_typed (w_repo (sim_after env cs w))"
proof -
  have "sim_tight env empty_sim" by (simp add: sim_tight_def) (simp add: sim_typed_def empty_sim_def)
  then show ?thesis using tight_calls [OF assms, of env "w\<lparr>w_repo := empty_sim\<rparr>"] by (simp add: sim_tight_def sim_after_def)
qed

theorem stored_data_typed_witness:
  "sim_typed (w_repo (sim_after sim_env [ValidateCandidates sim_identity cancelled_batch [] \<lparr>cx_rule_codes = [],
     cx_revoked_overrides = [], cx_cost_upper_bound = ''1'', cx_feasibility_threshold = ''0'', cx_referenced_axes = [],
     cx_mandatory_fields = []\<rparr> ''r''] (sim_world empty_sim)))"
proof (rule stored_data_typed)
  show "list_all call_typed [ValidateCandidates sim_identity cancelled_batch [] \<lparr>cx_rule_codes = [],
     cx_revoked_overrides = [], cx_cost_upper_bound = ''1'', cx_feasibility_threshold = ''0'', cx_referenced_axes = [],
     cx_mandatory_fields = []\<rparr> ''r'']"
    by (simp add: call_typed_def batch_typed_def batch_valid_def cancelled_batch_def decimal_text_def is_digit_def)
qed

section \<open>What never happens\<close>

text \<open>
  C27. No optimisation run is ever created: the constructor is called without the timestamps it
  requires, so creating a run always fails, and after any history on an empty store there is no
  run, plan, stress assessment or merge assessment. Finalising, invalidating and reading a run,
  merging plans, publishing and invalidating a plan therefore never succeed either.
\<close>

theorem no_run_is_ever_created:
  shows "(sr_optimization_runs (w_repo (sim_after env cs w)) = []) \<and>
    (sr_strategy_plans (w_repo (sim_after env cs w)) = []) \<and>
    (sr_stress_assessments (w_repo (sim_after env cs w)) = []) \<and>
    (sr_merge_assessments (w_repo (sim_after env cs w)) = []) \<and>
    (\<nexists>x. fst (run_create env i k ob award t bs axes ss q (sim_after env cs w)) = Inr x) \<and>
    (\<nexists>x. fst (run_finalize env i k q (sim_after env cs w)) = Inr x) \<and>
    (\<nexists>x. fst (merge_plans env i k plan ids l b m q (sim_after env cs w)) = Inr x) \<and>
    (\<nexists>x. fst (plan_publish env i k q (sim_after env cs w)) = Inr x)"
  using sim_after_sound [of env cs w]
  by (intro conjI) (simp_all add: sim_sound_def sim_after_never [OF sound_run_create] sim_after_never [OF sound_run_operations(1)]
      sim_after_never [OF sound_run_operations(4)] sim_after_never [OF sound_run_operations(5)] del: not_ex)

text \<open>
  A batch can never be retried: no operation puts a batch into a retryable state, so after
  any history on an empty store every batch is pending, running, succeeded or cancelled, and a
  retry fails.
\<close>

theorem retry_never_succeeds:
  shows "(batch_view (w_repo (sim_after env cs w)) k \<in>
      {None, Some BATCH_PENDING, Some BATCH_RUNNING, Some BATCH_SUCCEEDED, Some BATCH_CANCELLED}) \<and>
    (\<nexists>x. fst (batch_retry env i k q (sim_after env cs w)) = Inr x)"
proof (intro conjI)
  show "batch_view (w_repo (sim_after env cs w)) k \<in>
      {None, Some BATCH_PENDING, Some BATCH_RUNNING, Some BATCH_SUCCEEDED, Some BATCH_CANCELLED}"
    using sim_after_sound [of env cs w] by (auto simp: batch_view_def sim_sound_def batch_reached_def dest: all_values_get)
  have "keeps (sim_sound env) (\<lambda>_. False) (batch_retry env i k q)"
    unfolding batch_retry_def batch_command_def
    by (intro keeps_module_steps) (auto simp: retryable_def batch_reached_def dest: sim_sound_reads(3))
  then show "\<nexists>x. fst (batch_retry env i k q (sim_after env cs w)) = Inr x"
    by (rule sim_after_never)
qed

text \<open>
  The worker closes any stored batch as succeeded, whatever its state - a cancelled one too -
  and whatever its tenant, and it does so although the audit sink is unavailable, leaving no
  audit event and no outbox event.
\<close>

theorem worker_reopens_batches:
  assumes "dict_get (sr_batches (w_repo w)) k = Some b" and "sb_batch_id b = k"
  shows "\<exists>w'. worker_run_batch env k w = (Inr (task_state ''batch_id'' k ''SUCCEEDED''), w') \<and>
    batch_view (w_repo w') k = Some BATCH_SUCCEEDED \<and> w_audit w' = w_audit w \<and> w_outbox w' = w_outbox w"
  using assms
  by (simp add: worker_run_batch_def bindS_apply get_repo_def clock_now_def put_repo_def Let_def batch_view_def)

theorem worker_reopens_batches_witness:
  "\<exists>w'. worker_run_batch sim_env 5 cancelled_world = (Inr (task_state ''batch_id'' 5 ''SUCCEEDED''), w') \<and>
     batch_view (w_repo w') 5 = Some BATCH_SUCCEEDED \<and> w_audit w' = w_audit cancelled_world \<and>
     w_outbox w' = w_outbox cancelled_world"
  by (rule worker_reopens_batches [where b = cancelled_batch])
    (simp_all add: sim_world_def cancelled_batch_def empty_sim_def)

section \<open>Eligibility\<close>

text \<open>The validities of the six gates, and the code of a gate that is not current.\<close>

definition gate_validities :: "gate_inputs \<Rightarrow> review_validity set" where
  "gate_validities g = {gi_precheck g, gi_readiness g, gi_static_validation g, gi_scenario_assessment g,
     gi_condition g, gi_risk_acceptance g}"

definition not_current_code :: "string \<Rightarrow> review_validity \<Rightarrow> string set" where
  "not_current_code gate v = (if v = REVIEW_CURRENT then {} else {gate @ review_validity_value v})"

lemma blocking_code_cases:
  "blocking_code (key, v) = (if v = REVIEW_CURRENT then [] else [upper key @ ''_'' @ review_validity_value v])"
  by (cases v) (simp_all add: blocking_code_def)

lemma assess_state:
  "er_state (assess_eligibility g) = ELIG_ELIGIBLE \<longleftrightarrow> gate_validities g = {REVIEW_CURRENT}"
  "er_state (assess_eligibility g) = ELIG_INDETERMINATE \<longleftrightarrow> REVIEW_UNKNOWN \<in> gate_validities g"
  "er_state (assess_eligibility g) = ELIG_INELIGIBLE \<longleftrightarrow>
     REVIEW_UNKNOWN \<notin> gate_validities g \<and> gate_validities g \<noteq> {REVIEW_CURRENT}"
  by (auto simp: assess_eligibility_def Let_def as_mapping_def gate_validities_def blocking_code_cases)

lemma assess_mapping:
  "er_upstream_validity (assess_eligibility g) =
     [(''precheck'', gi_precheck g), (''readiness'', gi_readiness g), (''static_validation'', gi_static_validation g),
      (''scenario_assessment'', gi_scenario_assessment g), (''condition'', gi_condition g),
      (''risk_acceptance'', gi_risk_acceptance g)]"
  by (simp add: assess_eligibility_def Let_def as_mapping_def)

lemma upper_gates:
  "upper ''precheck'' @ ''_'' @ t = ''PRECHECK_'' @ t" "upper ''readiness'' @ ''_'' @ t = ''READINESS_'' @ t"
  "upper ''static_validation'' @ ''_'' @ t = ''STATIC_VALIDATION_'' @ t"
  "upper ''scenario_assessment'' @ ''_'' @ t = ''SCENARIO_ASSESSMENT_'' @ t"
  "upper ''condition'' @ ''_'' @ t = ''CONDITION_'' @ t"
  "upper ''risk_acceptance'' @ ''_'' @ t = ''RISK_ACCEPTANCE_'' @ t"
proof -
  have "upper ''precheck'' = ''PRECHECK''" "upper ''readiness'' = ''READINESS''"
    "upper ''static_validation'' = ''STATIC_VALIDATION''" "upper ''scenario_assessment'' = ''SCENARIO_ASSESSMENT''"
    "upper ''condition'' = ''CONDITION''" "upper ''risk_acceptance'' = ''RISK_ACCEPTANCE''" by code_simp+
  then show "upper ''precheck'' @ ''_'' @ t = ''PRECHECK_'' @ t" "upper ''readiness'' @ ''_'' @ t = ''READINESS_'' @ t"
    "upper ''static_validation'' @ ''_'' @ t = ''STATIC_VALIDATION_'' @ t"
    "upper ''scenario_assessment'' @ ''_'' @ t = ''SCENARIO_ASSESSMENT_'' @ t"
    "upper ''condition'' @ ''_'' @ t = ''CONDITION_'' @ t"
    "upper ''risk_acceptance'' @ ''_'' @ t = ''RISK_ACCEPTANCE_'' @ t" by simp_all
qed

lemma assess_codes:
  "set (er_blocked_reason_codes (assess_eligibility g)) =
     not_current_code ''PRECHECK_'' (gi_precheck g) \<union> not_current_code ''READINESS_'' (gi_readiness g) \<union>
     not_current_code ''STATIC_VALIDATION_'' (gi_static_validation g) \<union>
     not_current_code ''SCENARIO_ASSESSMENT_'' (gi_scenario_assessment g) \<union>
     not_current_code ''CONDITION_'' (gi_condition g) \<union> not_current_code ''RISK_ACCEPTANCE_'' (gi_risk_acceptance g)"
proof -
  have code: "set (blocking_code (key, v)) = not_current_code (upper key @ ''_'') v" for key v
    by (simp add: blocking_code_cases not_current_code_def)
  have "set (er_blocked_reason_codes (assess_eligibility g)) = set (concat (map blocking_code (as_mapping g)))"
    by (auto simp: assess_eligibility_def Let_def)
  also have "\<dots> = (\<Union>(key, v) \<in> set (as_mapping g). not_current_code (upper key @ ''_'') v)"
    by (auto simp: code)
  finally show ?thesis
    by (simp add: as_mapping_def upper_gates [where t = "[]", simplified] Un_assoc)
qed

lemma all_gates_current:
  "gate_validities g = {REVIEW_CURRENT} \<longleftrightarrow>
     gi_precheck g = REVIEW_CURRENT \<and> gi_readiness g = REVIEW_CURRENT \<and> gi_static_validation g = REVIEW_CURRENT \<and>
     gi_scenario_assessment g = REVIEW_CURRENT \<and> gi_condition g = REVIEW_CURRENT \<and> gi_risk_acceptance g = REVIEW_CURRENT"
  by (auto simp: gate_validities_def)

lemmas sim_wp = wp_rules wp_found_or wp_require_writer wp_unit_allowed
  wp_quiet [OF quiet_helpers(1)] wp_quiet [OF quiet_helpers(2)]

lemma eligibility_assess_wp:
  "wp (eligibility_assess env i u b s g q)
     (\<lambda>e w'. er_state (assess_eligibility g) = ELIG_ELIGIBLE \<and> re_state e = ELIG_ELIGIBLE \<and>
        re_upstream_validity e = er_upstream_validity (assess_eligibility g) \<and>
        (\<exists>base. get_baseline (ic_scope i) b (w_repo w) = Some base \<and> ba_state base \<in> {BASE_FROZEN, BASE_SUPERSEDED} \<and>
           re_baseline_version_id e = ba_version_id base) \<and>
        dict_get (sr_recommendation_eligibilities (w_repo w')) (re_eligibility_id e) = Some e)
     (\<lambda>_. True) w"
  unfolding eligibility_assess_def Let_def
  by (intro sim_wp) (auto simp: later_def upsert_recommendation_eligibility_def assert_eligible_def)

text \<open>
  C25. An eligibility is only ever returned as eligible: each of the six gates (precheck, readiness,
  static validation, scenario assessment, condition, risk acceptance) is current, and the baseline
  is one the caller's scope covers and is frozen or superseded; it is stored under its identifier
  with the six inputs under their names. The verdict on any inputs is eligible exactly when all six
  are current, indeterminate exactly when one is unknown, and ineligible otherwise; the inputs are
  recorded under their names, and the blocking codes name exactly the gates that are not current,
  each with its own validity.
\<close>

theorem eligibility_fails_closed:
  assumes "eligibility_assess env i u b s g q w = (Inr e, w')"
  shows "(gi_precheck g = REVIEW_CURRENT \<and> gi_readiness g = REVIEW_CURRENT \<and> gi_static_validation g = REVIEW_CURRENT \<and>
      gi_scenario_assessment g = REVIEW_CURRENT \<and> gi_condition g = REVIEW_CURRENT \<and> gi_risk_acceptance g = REVIEW_CURRENT) \<and>
    (re_state e = ELIG_ELIGIBLE) \<and>
    (\<exists>base. get_baseline (ic_scope i) b (w_repo w) = Some base \<and>
      ba_state base \<in> {BASE_FROZEN, BASE_SUPERSEDED} \<and> re_baseline_version_id e = ba_version_id base) \<and>
    (dict_get (sr_recommendation_eligibilities (w_repo w')) (re_eligibility_id e) = Some e) \<and>
    (re_upstream_validity e = map (\<lambda>gate. (gate, REVIEW_CURRENT)) [''precheck'', ''readiness'', ''static_validation'',
      ''scenario_assessment'', ''condition'', ''risk_acceptance'']) \<and>
    (er_state (assess_eligibility g') = ELIG_ELIGIBLE \<longleftrightarrow> gate_validities g' = {REVIEW_CURRENT}) \<and>
    (er_state (assess_eligibility g') = ELIG_INDETERMINATE \<longleftrightarrow> REVIEW_UNKNOWN \<in> gate_validities g') \<and>
    (er_state (assess_eligibility g') = ELIG_INELIGIBLE \<longleftrightarrow>
      REVIEW_UNKNOWN \<notin> gate_validities g' \<and> gate_validities g' \<noteq> {REVIEW_CURRENT}) \<and>
    (er_upstream_validity (assess_eligibility g') =
      [(''precheck'', gi_precheck g'), (''readiness'', gi_readiness g'), (''static_validation'', gi_static_validation g'),
       (''scenario_assessment'', gi_scenario_assessment g'), (''condition'', gi_condition g'),
       (''risk_acceptance'', gi_risk_acceptance g')]) \<and>
    (set (er_blocked_reason_codes (assess_eligibility g')) =
      not_current_code ''PRECHECK_'' (gi_precheck g') \<union> not_current_code ''READINESS_'' (gi_readiness g') \<union>
      not_current_code ''STATIC_VALIDATION_'' (gi_static_validation g') \<union>
      not_current_code ''SCENARIO_ASSESSMENT_'' (gi_scenario_assessment g') \<union>
      not_current_code ''CONDITION_'' (gi_condition g') \<union> not_current_code ''RISK_ACCEPTANCE_'' (gi_risk_acceptance g'))"
  using wp_success [OF eligibility_assess_wp assms]
  by (simp add: assess_state assess_mapping assess_codes all_gates_current)

text \<open>A successful assessment, by symbolic execution.\<close>

definition assessed ::
  "env \<Rightarrow> identity_context \<Rightarrow> uuid \<Rightarrow> decision_baseline \<Rightarrow> gate_inputs \<Rightarrow> nat \<Rightarrow> nat \<Rightarrow> recommendation_eligibility" where
  "assessed env i u base g n t =
     \<lparr>re_eligibility_id = env_uuid env n, re_version_id = env_uuid env (n + 1),
      re_tenant_id = sc_tenant_id (ic_scope i), re_data_domain_id = sc_data_domain_id (ic_scope i),
      re_project_id = own_project i, re_decision_unit_id = u, re_state = er_state (assess_eligibility g),
      re_blocked_reason_codes = er_blocked_reason_codes (assess_eligibility g),
      re_upstream_validity = er_upstream_validity (assess_eligibility g), re_baseline_version_id = ba_version_id base,
      re_snapshot_version_id = None, re_assessed_at = env_clock env t, re_assessed_by = ic_subject_id i\<rparr>"

lemma runs_eligibility_assess:
  assumes sha: "digest_ok (env_sha env)" and unit: "own_scope i None (Some u) = Inr ()"
    and base: "get_baseline (ic_scope i) b r = Some base" "ba_state base \<in> {BASE_FROZEN, BASE_SUPERSEDED}"
    and ok: "er_state (assess_eligibility g) = ELIG_ELIGIBLE"
  shows "runs env (eligibility_assess env i u b None g q) r n t (assessed env i u base g n t)
    (upsert_recommendation_eligibility (assessed env i u base g n t) r) (n + 1 + 1 + 1) (t + 1 + 1)"
  unfolding eligibility_assess_def Let_def option.case
  by (rule runs_bind [OF runs_require_writer], rule runs_bind [OF runs_unit_allowed [OF unit]],
      rule runs_bind [OF runs_found_or [where f = "get_baseline (ic_scope i) b", OF base(1)]],
      rule runs_bind [OF runs_checkS [OF base(2)]], rule runs_bind [OF runs_ret], rule runs_bind [OF runs_uuid4],
      rule runs_bind [OF runs_uuid4], rule runs_bind [OF runs_clock], fold assessed_def, rule runs_bind [OF runs_put],
      rule runs_noted [OF sha], rule runs_bind [OF runs_module_emit],
      rule runs_bind [OF runs_liftE], simp add: assert_eligible_def ok, rule runs_ret)

definition sample_baseline :: decision_baseline where
  "sample_baseline =
     \<lparr>ba_baseline_id = 11, ba_version_id = 12, ba_tenant_id = sc_tenant_id sample_scope,
      ba_data_domain_id = sc_data_domain_id sample_scope, ba_project_id = None, ba_decision_unit_id = 9,
      ba_manifest = \<lparr>mf_manifest_id = 13, mf_manifest_hash = [], mf_items = []\<rparr>, ba_state = BASE_FROZEN,
      ba_frozen_at = Some 0, ba_frozen_by = Some 3, ba_created_at = 0, ba_created_by = 3, ba_superseded_at = None,
      ba_superseded_by = None, ba_invalidated_at = None, ba_invalidated_by = None\<rparr>"

definition current_inputs :: gate_inputs where
  "current_inputs =
     \<lparr>gi_precheck = REVIEW_CURRENT, gi_readiness = REVIEW_CURRENT, gi_static_validation = REVIEW_CURRENT,
      gi_scenario_assessment = REVIEW_CURRENT, gi_condition = REVIEW_CURRENT, gi_risk_acceptance = REVIEW_CURRENT\<rparr>"

lemma sim_env_sha [simp]: "digest_ok (env_sha sim_env)"
  by (simp add: sim_env_def)

lemma sim_scope [simp]: "own_scope sim_identity pid uid = Inr ()"
  by (simp add: own_scope_def Let_def sim_identity_def scope_covers_def)

lemma sim_world_standing: "standing env r 0 0 (sim_world r)"
  by (simp add: standing_def sim_world_def audit_ok_def fresh_chains_verify)

lemma sample_baseline_found:
  "get_baseline (ic_scope sim_identity) 11 (upsert_baseline sample_baseline empty_sim) = Some sample_baseline"
  by (simp add: get_baseline_def stored_def upsert_baseline_def sample_baseline_def baseline_visible_def
      scope_matches_def sim_identity_def)

theorem eligibility_fails_closed_witness:
  "\<exists>e w'. eligibility_assess sim_env sim_identity 9 11 None current_inputs ''r''
       (sim_world (upsert_baseline sample_baseline empty_sim)) = (Inr e, w') \<and>
     re_state e = ELIG_ELIGIBLE \<and>
     dict_get (sr_recommendation_eligibilities (w_repo w')) (re_eligibility_id e) = Some e"
proof -
  let ?w = "sim_world (upsert_baseline sample_baseline empty_sim)"
  have "er_state (assess_eligibility current_inputs) = ELIG_ELIGIBLE"
    by (simp add: assess_state gate_validities_def current_inputs_def)
  then have "runs sim_env (eligibility_assess sim_env sim_identity 9 11 None current_inputs ''r'')
      (upsert_baseline sample_baseline empty_sim) 0 0 (assessed sim_env sim_identity 9 sample_baseline current_inputs 0 0)
      (upsert_recommendation_eligibility (assessed sim_env sim_identity 9 sample_baseline current_inputs 0 0)
        (upsert_baseline sample_baseline empty_sim)) (0 + 1 + 1 + 1) (0 + 1 + 1)"
    by (intro runs_eligibility_assess sample_baseline_found) (simp_all add: sample_baseline_def)
  then obtain e w' where run: "eligibility_assess sim_env sim_identity 9 11 None current_inputs ''r'' ?w = (Inr e, w')"
    using sim_world_standing unfolding runs_def by blast
  show ?thesis using run eligibility_fails_closed [OF run] by blast
qed

section \<open>The referee\<close>

text \<open>Every turn of the referee loop succeeds with the same verdict.\<close>

definition recommended_output :: "referee_output \<Rightarrow> bool" where
  "recommended_output out \<longleftrightarrow>
     oc_feasible (ro_outcome out) \<and> sy_recommended (ro_assessment out) \<and>
     oc_expected_payoff (ro_outcome out) = oc_p_win (ro_outcome out) \<and> decimal_text (oc_p_win (ro_outcome out)) \<and>
     0 \<le> dec_rat (to_dec (oc_p_win (ro_outcome out))) \<and> dec_rat (to_dec (oc_p_win (ro_outcome out))) < 1"

lemma referee_turn_recommends:
  "\<exists>out w'. referee_turn env b h seed x w = (Inr out, w') \<and> recommended_output out"
proof -
  obtain m c where x: "x = (m, c)" by (cases x)
  let ?i = "\<lparr>ri_candidate_id = ca_candidate_id c, ri_scenario_id = sm_scenario_id m, ri_batch_id = sb_batch_id b,
              ri_baseline_manifest_hash = h, ri_scenario_kind = kind_value (sm_scenario_kind m),
              ri_feasibility_threshold = dec_nat 0, ri_pay_off_lower = dec_nat 0, ri_pay_off_upper = dec_nat 1,
              ri_seed = seed, ri_review_validity = REVIEW_CURRENT\<rparr>"
  let ?p = "\<lparr>pl_assessed_at = env_clock env (w_ticks w), pl_tenant_id = sb_tenant_id b, pl_data_domain_id = sb_data_domain_id b,
               pl_project_id = sb_project_id b, pl_decision_unit_id = sb_decision_unit_id b\<rparr>"
  let ?w = "w\<lparr>w_ticks := w_ticks w + 1\<rparr>"
  obtain out t where out: "evaluate_scenario env ?i ?p ?w = (Inr out, ?w\<lparr>w_uuids := w_uuids ?w + 2\<rparr>)"
      "oc_feasible (ro_outcome out)" "sy_recommended (ro_assessment out)" "oc_expected_payoff (ro_outcome out) = t"
      "oc_p_win (ro_outcome out) = t" "decimal_text t"
      "dec_rat (to_dec t) = of_nat (referee_ticket (env_sha env) ?i) / 10000"
    using unit_referee [of ?i env ?p ?w] by auto
  have "dec_rat (to_dec t) < 1"
  proof -
    have "(of_nat (referee_ticket (env_sha env) ?i) :: rat) < of_nat 10000"
      using ticket_bound [of "env_sha env" ?i] by (simp only: of_nat_less_iff)
    then show ?thesis unfolding out(7) by simp
  qed
  then show ?thesis
    using out by (simp add: x referee_turn_def clock_now_def bindS_apply put_repo_def recommended_output_def)
qed

lemma forS_total:
  assumes "\<And>x w. \<exists>y w'. f x w = (Inr y, w') \<and> P y"
  shows "\<exists>ys w'. forS xs f w = (Inr ys, w') \<and> length ys = length xs \<and> (\<forall>y \<in> set ys. P y)"
proof (induction xs arbitrary: w)
  case (Cons x xs)
  obtain y w1 where y: "f x w = (Inr y, w1)" "P y" using assms by blast
  obtain ys w2 where "forS xs f w1 = (Inr ys, w2)" "length ys = length xs" "\<forall>y \<in> set ys. P y"
    using Cons.IH by blast
  then show ?case using y by (auto simp: bindS_apply)
qed simp

lemma length_filtered_product:
  "length (filter (\<lambda>(m, c). P m) (List.product ms cs)) = length (filter P ms) * length cs"
  by (induction ms) (simp_all add: filter_map comp_def)

text \<open>
  The referees of a batch never fail and never reject: whatever the candidates, the scenarios
  and the seed, there is one outcome for each pair of a scenario that is no stress scenario and a
  candidate, and every one is feasible and recommended, with the same text for the pay-off and
  the winning probability, which lies between zero and one.
\<close>

theorem referees_always_recommend:
  "\<exists>outcomes assessments w'.
     run_scenario_referees env b s h cs seed w = (Inr (outcomes, assessments), w') \<and>
     length outcomes = length (filter (\<lambda>m. sm_scenario_kind m \<noteq> KIND_STRESS) (st_members s)) * length cs \<and>
     length assessments = length outcomes \<and> list_all sy_recommended assessments \<and>
     list_all (\<lambda>oc. oc_feasible oc \<and> oc_expected_payoff oc = oc_p_win oc \<and>
       0 \<le> dec_rat (to_dec (oc_p_win oc)) \<and> dec_rat (to_dec (oc_p_win oc)) < 1) outcomes"
proof -
  let ?xs = "filter (\<lambda>(m, c). sm_scenario_kind m \<noteq> KIND_STRESS) (List.product (st_members s) cs)"
  obtain outs w' where outs: "forS ?xs (referee_turn env b h seed) w = (Inr outs, w')"
      "length outs = length ?xs" "\<forall>out \<in> set outs. recommended_output out"
    using forS_total [of "referee_turn env b h seed" recommended_output ?xs w] referee_turn_recommends by blast
  have "length ?xs = length (filter (\<lambda>m. sm_scenario_kind m \<noteq> KIND_STRESS) (st_members s)) * length cs"
    by (rule length_filtered_product)
  then show ?thesis
    using outs by (auto simp: run_scenario_referees_def bindS_apply recommended_output_def list_all_iff)
qed

section \<open>Numbers as text\<close>

text \<open>
  C29. Every decimal number can be carried as text: \<open>from_decimal\<close> never fails, its text has the
  pattern of decimal fields, and reading the text gives the same number, with trailing zeros of
  the fraction removed.
\<close>

theorem decimal_text_roundtrip:
  "\<exists>t. from_decimal d = Inr t \<and> decimal_text t \<and> coerce_text t = Inr t \<and> dec_rat (to_dec t) = dec_rat d"
  using from_decimal_text [of d] by (auto simp: coerce_text_def)

section \<open>Ranking and selection\<close>

text \<open>
  C28. The loop of the selection is the reference: the first candidates of the ranking, one for a
  single award, four for several, all without a limit, among those whose margin reaches the
  threshold. With distinct identifiers the result does not depend on the order in which the
  candidates are given.
\<close>

theorem selection_is_first_of_ranking:
  assumes "set xs = set ys" and "distinct (map ca_candidate_id xs)" and "distinct (map ca_candidate_id ys)"
  shows "(\<exists>plan. select_objective_candidates (rank_candidates objective xs) threshold award objective = Inr plan \<and>
      pn_selected plan = take (award_limit award (length xs))
        (filter (\<lambda>c. dec_rat (to_dec threshold) \<le> dec_rat (to_dec (ca_expected_margin c)))
          (sort_key (rank_key objective) xs))) \<and>
    (select_objective_candidates (rank_candidates objective ys) threshold award objective =
      select_objective_candidates (rank_candidates objective xs) threshold award objective)"
proof (intro conjI)
  have "map fst (rank_candidates objective xs) = sort_key (rank_key objective) xs"
    by (simp add: rank_candidates_def comp_def)
  note fst_rank = this
  let ?sel = "select_loop award (to_dec threshold) 0 (sort_key (rank_key objective) xs)"
  obtain cost margin where sums:
      "from_decimal (foldl dec_add (dec_nat 0) (map (to_dec \<circ> ca_expected_cost) ?sel)) = Inr cost"
      "from_decimal (foldl dec_add (dec_nat 0) (map (to_dec \<circ> ca_expected_margin) ?sel)) = Inr margin"
    using from_decimal_text by metis
  have "?sel = take (award_limit award (length xs))
      (filter (\<lambda>c. dec_rat (to_dec threshold) \<le> dec_rat (to_dec (ca_expected_margin c))) (sort_key (rank_key objective) xs))"
    by (simp add: select_loop_take not_less)
  then show "\<exists>plan. select_objective_candidates (rank_candidates objective xs) threshold award objective = Inr plan \<and>
      pn_selected plan = take (award_limit award (length xs))
        (filter (\<lambda>c. dec_rat (to_dec threshold) \<le> dec_rat (to_dec (ca_expected_margin c)))
          (sort_key (rank_key objective) xs))"
    unfolding select_objective_candidates_def Let_def fst_rank sums bindE_Inr by simp
  show "select_objective_candidates (rank_candidates objective ys) threshold award objective =
      select_objective_candidates (rank_candidates objective xs) threshold award objective"
    using rank_candidates_perm [OF assms] by simp
qed

definition sample_candidate :: "uuid \<Rightarrow> string \<Rightarrow> simulation_candidate" where
  "sample_candidate k margin =
     \<lparr>ca_candidate_id = k, ca_batch_id = 5, ca_version_id = 6, ca_tenant_id = 1, ca_data_domain_id = 2,
      ca_project_id = None, ca_decision_unit_id = 9, ca_label = ''plan'', ca_parameters = [],
      ca_expected_cost = ''1'', ca_expected_margin = margin, ca_created_at = 0\<rparr>"

theorem selection_is_first_of_ranking_witness:
  "select_objective_candidates (rank_candidates OBJECTIVE_MARGIN_MAX [sample_candidate 2 ''2'', sample_candidate 1 ''1'']) ''0''
     AWARD_SINGLE OBJECTIVE_MARGIN_MAX =
   select_objective_candidates (rank_candidates OBJECTIVE_MARGIN_MAX [sample_candidate 1 ''1'', sample_candidate 2 ''2'']) ''0''
     AWARD_SINGLE OBJECTIVE_MARGIN_MAX"
  by (rule conjunct2 [OF selection_is_first_of_ranking]) (auto simp: sample_candidate_def)

section \<open>Manifests\<close>

lemma canonical_item_inject:
  assumes "inj f" and "json_canon (canonical_item f i) = json_canon (canonical_item f j)"
  shows "i = j"
proof -
  let ?fields = "\<lambda>i. [(''item_id'', JStr (uuid_str (mi_item_id i))), (''upstream_type'', JStr (mi_upstream_type i)),
     (''upstream_id'', JStr (uuid_str (mi_upstream_id i))),
     (''upstream_version_id'', JStr (uuid_str (mi_upstream_version_id i))),
     (''upstream_content_hash'', JStr (mi_upstream_content_hash i)),
     (''dependency_type'', JStr (mi_dependency_type i)), (''recorded_at'', JStr (f (mi_recorded_at i)))]"
  have c: "json_canon (canonical_item f i) = JObj (sort_key fst (?fields i))" for i
    by (simp only: canonical_item_def json_canon.simps list.map prod.case)
  have "sort_key fst (?fields i) = sort_key fst (?fields j)"
    using assms(2) by (simp only: c json.inject)
  then have "?fields i = ?fields j" by (rule sort_key_fst_inject) simp_all
  then show ?thesis using assms(1) by (simp add: inj_eq)
qed

text \<open>
  A manifest pins its items: two lists of items that verify against the same manifest are the
  same list, unless their canonical texts are two different texts with the same digest.
\<close>

theorem manifest_pins_items:
  assumes "inj (env_isofmt env)" and "verify_manifest env m xs" and "verify_manifest env m ys"
    and "env_sha env (manifest_text (env_isofmt env) xs) = env_sha env (manifest_text (env_isofmt env) ys) \<Longrightarrow>
      manifest_text (env_isofmt env) xs = manifest_text (env_isofmt env) ys"
  shows "xs = ys"
proof -
  have "manifest_text (env_isofmt env) xs = manifest_text (env_isofmt env) ys"
    using assms(2-4) by (simp add: verify_manifest_def compute_input_manifest_hash_def)
  then have "map (json_canon \<circ> canonical_item (env_isofmt env)) xs = map (json_canon \<circ> canonical_item (env_isofmt env)) ys"
    by (simp add: manifest_text_def dumps_inject)
  moreover have "inj (json_canon \<circ> canonical_item (env_isofmt env))"
    by (rule injI) (auto intro: canonical_item_inject [OF assms(1)])
  ultimately show ?thesis by (simp only: inj_map_eq_map)
qed

definition sample_item :: manifest_item where
  "sample_item = \<lparr>mi_item_id = 1, mi_upstream_type = ''rules'', mi_upstream_id = 2, mi_upstream_version_id = 3,
     mi_upstream_content_hash = ''h'', mi_dependency_type = ''HARD'', mi_recorded_at = 4\<rparr>"

theorem manifest_pins_items_witness:
  "verify_manifest sim_env \<lparr>mf_manifest_id = 1,
     mf_manifest_hash = compute_input_manifest_hash sim_env [sample_item], mf_items = [sample_item]\<rparr> [sample_item] \<and>
   [sample_item] = [sample_item]"
proof -
  let ?m = "\<lparr>mf_manifest_id = 1, mf_manifest_hash = compute_input_manifest_hash sim_env [sample_item],
     mf_items = [sample_item]\<rparr>"
  have v: "verify_manifest sim_env ?m [sample_item]" by (simp add: verify_manifest_def)
  have "inj (env_isofmt sim_env)" by (simp add: sim_env_def inj_print_int)
  from manifest_pins_items [OF this v v] v show ?thesis by simp
qed

section \<open>The audit sink\<close>

text \<open>The operations that write without asking for the audit writer.\<close>

definition unaudited :: "sim_call \<Rightarrow> bool" where
  "unaudited c =
     (case c of
        ValidateCandidates i b cs x q \<Rightarrow> True
      | RefereeScenarios b s h cs seed \<Rightarrow> True
      | WorkBatch k \<Rightarrow> True
      | WorkOptimization k \<Rightarrow> True
      | WorkSnapshot k \<Rightarrow> True
      | _ \<Rightarrow> False)"

lemma still_steps:
  "snd (get_repo f w) = w" "snd (found_or e g w) = w" "snd (unit_allowed i u w) = w" "snd (liftE r w) = w" "snd (ret x w) = w"
  by (simp_all add: get_repo_def found_or_def unit_allowed_def bindS_def split: option.split)

lemma still_bind: "snd (m w) = w \<Longrightarrow> (\<And>x. snd (f x w) = w) \<Longrightarrow> snd (bindS m f w) = w"
  by (auto simp: bindS_def split: prod.splits sum.splits)

lemma refused_state: "\<not> ms_available (w_audit w) \<Longrightarrow> snd (bindS require_writer f w) = w"
  by (simp add: require_writer_unavailable)

lemma still_case_option:
  "snd (m w) = w \<Longrightarrow> (\<And>y. snd (f y w) = w) \<Longrightarrow> snd ((case x of None \<Rightarrow> m | Some y \<Rightarrow> f y) w) = w"
  by (cases x) simp_all

text \<open>
  While the audit sink is unavailable, no call of the services changes anything, except the
  validation and refereeing of candidates and the tasks of the worker, which do not ask for it.
\<close>

theorem simulation_needs_audit:
  assumes "\<not> ms_available (w_audit w)" and "\<not> unaudited c"
  shows "snd (run_sim env c w) = w"
  by (insert assms(2), cases c; (simp add: unaudited_def; fail)?; simp only: run_sim.simps; rule as_unit_state;
      simp only: sim_operation_defs; intro refused_state [OF assms(1)] still_bind still_steps still_case_option)

theorem simulation_needs_audit_witness:
  "snd (run_sim sim_env (CancelBatch sim_identity 5 ''r'') (cancelled_world\<lparr>w_audit := \<lparr>ms_events = [], ms_available = False\<rparr>\<rparr>)) =
   cancelled_world\<lparr>w_audit := \<lparr>ms_events = [], ms_available = False\<rparr>\<rparr>"
  by (rule simulation_needs_audit) (simp_all add: unaudited_def)

end
