(* ===== verification/Approvals.thy ===== *)
theory Approvals
  imports Module_Base
begin

text \<open>
  Risk acceptances, \<open>modules/approvals_reports\<close>: the model with its validators, the store, and
  the service that creates, reads and revokes acceptances. Expiry is derived when an acceptance
  is read; what is stored is either active or revoked.
\<close>

section \<open>The model\<close>

datatype risk_state = RISK_ACTIVE | RISK_REVOKED | RISK_EXPIRED

datatype risk_validity = RISK_CURRENT | RISK_STALE | RISK_VALIDITY_EXPIRED | RISK_INVALIDATED

primrec risk_state_value :: "risk_state \<Rightarrow> string" where
  "risk_state_value RISK_ACTIVE = ''ACTIVE''"
| "risk_state_value RISK_REVOKED = ''REVOKED''"
| "risk_state_value RISK_EXPIRED = ''EXPIRED''"

primrec risk_validity_value :: "risk_validity \<Rightarrow> string" where
  "risk_validity_value RISK_CURRENT = ''CURRENT''"
| "risk_validity_value RISK_STALE = ''STALE''"
| "risk_validity_value RISK_VALIDITY_EXPIRED = ''EXPIRED''"
| "risk_validity_value RISK_INVALIDATED = ''INVALIDATED''"

record risk_acceptance =
  rk_risk_acceptance_id :: uuid
  rk_version_id :: uuid
  rk_tenant_id :: uuid
  rk_data_domain_id :: uuid
  rk_project_id :: "uuid option"
  rk_decision_unit_id :: uuid
  rk_state :: risk_state
  rk_validity :: risk_validity
  rk_risk :: string
  rk_metric :: string
  rk_acceptance_scope :: string
  rk_rationale :: string
  rk_independent_approver_id :: uuid
  rk_valid_from :: timestamp
  rk_valid_until :: timestamp
  rk_created_at :: timestamp
  rk_created_by :: uuid
  rk_accepted_at :: timestamp
  rk_accepted_by :: uuid
  rk_revoked_at :: "timestamp option"
  rk_revoked_by :: "uuid option"
  rk_revocation_reason :: "string option"

text \<open>The three validators of the model, and the field checks.\<close>

definition maker_and_checker_independent :: "risk_acceptance \<Rightarrow> bool" where
  "maker_and_checker_independent x \<longleftrightarrow>
     rk_created_by x \<noteq> rk_independent_approver_id x \<and> rk_accepted_by x = rk_independent_approver_id x"

definition validity_period_ordered :: "risk_acceptance \<Rightarrow> bool" where
  "validity_period_ordered x \<longleftrightarrow> rk_valid_from x < rk_valid_until x"

definition state_and_validity_agree :: "risk_acceptance \<Rightarrow> bool" where
  "state_and_validity_agree x =
     (case rk_state x of
        RISK_ACTIVE \<Rightarrow> rk_validity x = RISK_CURRENT
      | RISK_REVOKED \<Rightarrow>
          rk_validity x = RISK_INVALIDATED \<and> rk_revoked_at x \<noteq> None \<and> rk_revoked_by x \<noteq> None \<and>
          rk_revocation_reason x \<noteq> None \<and> rk_revocation_reason x \<noteq> Some []
      | RISK_EXPIRED \<Rightarrow> rk_validity x = RISK_VALIDITY_EXPIRED)"

definition risk_acceptance_valid :: "risk_acceptance \<Rightarrow> bool" where
  "risk_acceptance_valid x \<longleftrightarrow>
     text_between 1 200 (rk_risk x) \<and> text_between 1 200 (rk_metric x) \<and>
     text_between 1 400 (rk_acceptance_scope x) \<and> text_between 1 2000 (rk_rationale x) \<and>
     optional (text_between 0 1000) (rk_revocation_reason x) \<and>
     maker_and_checker_independent x \<and> validity_period_ordered x \<and> state_and_validity_agree x"

definition effective_risk_acceptance :: "risk_acceptance \<Rightarrow> timestamp \<Rightarrow> risk_acceptance" where
  "effective_risk_acceptance x now =
     (if rk_state x = RISK_ACTIVE \<and> rk_valid_until x \<le> now
      then x\<lparr>rk_state := RISK_EXPIRED, rk_validity := RISK_VALIDITY_EXPIRED\<rparr>
      else x)"

section \<open>The store\<close>

record risk_repo =
  rr_risk_acceptances :: "(uuid, risk_acceptance) dict"

definition empty_risks :: risk_repo where
  "empty_risks = \<lparr>rr_risk_acceptances = []\<rparr>"

definition risk_visible :: "tenant_scope \<Rightarrow> risk_acceptance \<Rightarrow> bool" where
  "risk_visible scope x =
     (if rk_tenant_id x \<noteq> sc_tenant_id scope \<or> rk_data_domain_id x \<noteq> sc_data_domain_id scope then False
      else if rk_project_id x \<noteq> None \<and> \<not> sc_all_projects scope \<and> the (rk_project_id x) \<notin> set (sc_project_ids scope)
      then False
      else if \<not> sc_all_decision_units scope \<and> rk_decision_unit_id x \<notin> set (sc_decision_unit_ids scope) then False
      else True)"

definition upsert_risk_acceptance :: "risk_acceptance \<Rightarrow> risk_repo \<Rightarrow> risk_repo" where
  "upsert_risk_acceptance x r =
     r\<lparr>rr_risk_acceptances := dict_set (rk_risk_acceptance_id x) x (rr_risk_acceptances r)\<rparr>"

definition get_risk_acceptance :: "tenant_scope \<Rightarrow> uuid \<Rightarrow> risk_repo \<Rightarrow> risk_acceptance option" where
  "get_risk_acceptance scope k r = stored (rr_risk_acceptances r) risk_visible scope k"

definition list_risk_acceptances :: "tenant_scope \<Rightarrow> uuid \<Rightarrow> risk_repo \<Rightarrow> risk_acceptance list" where
  "list_risk_acceptances scope unit_id r =
     sort_key (\<lambda>x. (rk_created_at x, rk_version_id x))
       (filter (\<lambda>x. rk_decision_unit_id x = unit_id) (visible_values (rr_risk_acceptances r) risk_visible scope))"

definition risk_store_ok :: "risk_repo \<Rightarrow> bool" where
  "risk_store_ok r \<longleftrightarrow> keyed rk_risk_acceptance_id (rr_risk_acceptances r)"

interpretation risks: listed_store rk_risk_acceptance_id risk_visible upsert_risk_acceptance get_risk_acceptance
  risk_store_ok "\<lambda>scope r. visible_values (rr_risk_acceptances r) risk_visible scope"
  by unfold_locales
    (auto simp: get_risk_acceptance_def upsert_risk_acceptance_def risk_store_ok_def stored_put visible_values_read
       keyed_set dest: stored_sound)

section \<open>The service\<close>

type_synonym 'a risk_svc = "(risk_repo world, 'a) svc"

record risk_request =
  rq_decision_unit_id :: uuid
  rq_risk :: string
  rq_metric :: string
  rq_acceptance_scope :: string
  rq_rationale :: string
  rq_independent_approver_id :: uuid
  rq_valid_from :: timestamp
  rq_valid_until :: timestamp

definition new_risk_acceptance ::
  "identity_context \<Rightarrow> risk_request \<Rightarrow> timestamp \<Rightarrow> uuid \<Rightarrow> uuid \<Rightarrow> risk_acceptance" where
  "new_risk_acceptance identity q now risk_id version_id =
     \<lparr>rk_risk_acceptance_id = risk_id, rk_version_id = version_id,
      rk_tenant_id = sc_tenant_id (ic_scope identity), rk_data_domain_id = sc_data_domain_id (ic_scope identity),
      rk_project_id = own_project identity, rk_decision_unit_id = rq_decision_unit_id q,
      rk_state = RISK_ACTIVE, rk_validity = RISK_CURRENT, rk_risk = rq_risk q, rk_metric = rq_metric q,
      rk_acceptance_scope = rq_acceptance_scope q, rk_rationale = rq_rationale q,
      rk_independent_approver_id = rq_independent_approver_id q, rk_valid_from = rq_valid_from q,
      rk_valid_until = rq_valid_until q, rk_created_at = now, rk_created_by = ic_subject_id identity,
      rk_accepted_at = now, rk_accepted_by = rq_independent_approver_id q,
      rk_revoked_at = None, rk_revoked_by = None, rk_revocation_reason = None\<rparr>"

definition risk_create :: "env \<Rightarrow> identity_context \<Rightarrow> risk_request \<Rightarrow> string \<Rightarrow> risk_acceptance risk_svc" where
  "risk_create env identity q request_id =
     bindS require_writer (\<lambda>_.
     bindS (unit_allowed identity (rq_decision_unit_id q)) (\<lambda>_.
     bindS (checkS (ic_subject_id identity \<noteq> rq_independent_approver_id q) (BiaiceError ''MAKER_CHECKER_REQUIRED'')) (\<lambda>_.
     bindS (checkS (rq_valid_from q < rq_valid_until q) (BiaiceError ''RISK_ACCEPTANCE_INVALID_PERIOD'')) (\<lambda>_.
     bindS (clock_now env) (\<lambda>now.
     bindS (uuid4 env) (\<lambda>risk_id.
     bindS (uuid4 env) (\<lambda>version_id.
     let x = new_risk_acceptance identity q now risk_id version_id in
     bindS (checkS (risk_acceptance_valid x) ValidationError) (\<lambda>_.
     bindS (put_repo (upsert_risk_acceptance x)) (\<lambda>_.
     bindS (noted env identity ''approvals_reports.risk_acceptance.create'' ''RiskAcceptance'' risk_id request_id
              ''RISK_ACCEPTED'' (risk_state_value (rk_state x)) (Some version_id)) (\<lambda>_.
     bindS (module_emit env identity ''approvals_reports.risk_accepted.v1'' ''RiskAcceptance'' risk_id
              [(''risk_acceptance_id'', JStr (uuid_str risk_id)), (''version_id'', JStr (uuid_str version_id)),
               (''decision_unit_id'', JStr (uuid_str (rq_decision_unit_id q))),
               (''state'', JStr (risk_state_value (rk_state x))),
               (''validity'', JStr (risk_validity_value (rk_validity x))),
               (''valid_from'', JStr (env_isofmt env (rk_valid_from x))),
               (''valid_until'', JStr (env_isofmt env (rk_valid_until x)))] request_id) (\<lambda>_.
     ret x)))))))))))"

definition risk_list :: "env \<Rightarrow> identity_context \<Rightarrow> uuid \<Rightarrow> risk_acceptance list risk_svc" where
  "risk_list env identity unit_id =
     bindS (unit_allowed identity unit_id) (\<lambda>_.
     bindS (clock_now env) (\<lambda>now.
     bindS (get_repo (list_risk_acceptances (ic_scope identity) unit_id)) (\<lambda>xs.
     ret (map (\<lambda>x. effective_risk_acceptance x now) xs))))"

definition risk_get :: "env \<Rightarrow> identity_context \<Rightarrow> uuid \<Rightarrow> risk_acceptance risk_svc" where
  "risk_get env identity k =
     bindS (found_or missing (get_risk_acceptance (ic_scope identity) k)) (\<lambda>x.
     bindS (clock_now env) (\<lambda>now.
     ret (effective_risk_acceptance x now)))"

definition revoked_risk :: "identity_context \<Rightarrow> string \<Rightarrow> timestamp \<Rightarrow> risk_acceptance \<Rightarrow> risk_acceptance" where
  "revoked_risk identity reason now x =
     x\<lparr>rk_state := RISK_REVOKED, rk_validity := RISK_INVALIDATED, rk_revoked_at := Some now,
       rk_revoked_by := Some (ic_subject_id identity), rk_revocation_reason := Some reason\<rparr>"

definition risk_revoke :: "env \<Rightarrow> identity_context \<Rightarrow> uuid \<Rightarrow> string \<Rightarrow> string \<Rightarrow> risk_acceptance risk_svc" where
  "risk_revoke env identity k reason request_id =
     bindS require_writer (\<lambda>_.
     bindS (found_or missing (get_risk_acceptance (ic_scope identity) k)) (\<lambda>x.
     bindS (clock_now env) (\<lambda>checked_at.
     let effective = effective_risk_acceptance x checked_at in
     bindS (checkS (rk_state effective \<noteq> RISK_REVOKED) (BiaiceError ''RISK_ACCEPTANCE_ALREADY_REVOKED'')) (\<lambda>_.
     bindS (checkS (rk_state effective \<noteq> RISK_EXPIRED) (BiaiceError ''RISK_ACCEPTANCE_EXPIRED'')) (\<lambda>_.
     bindS (clock_now env) (\<lambda>now.
     let y = revoked_risk identity reason now x in
     bindS (put_repo (upsert_risk_acceptance y)) (\<lambda>_.
     bindS (noted env identity ''approvals_reports.risk_acceptance.revoke'' ''RiskAcceptance''
              (rk_risk_acceptance_id y) request_id ''RISK_REVOKED'' (risk_state_value (rk_state y))
              (Some (rk_version_id y))) (\<lambda>_.
     bindS (module_emit env identity ''approvals_reports.risk_revoked.v1'' ''RiskAcceptance'' (rk_risk_acceptance_id y)
              [(''risk_acceptance_id'', JStr (uuid_str (rk_risk_acceptance_id y))),
               (''version_id'', JStr (uuid_str (rk_version_id y))),
               (''decision_unit_id'', JStr (uuid_str (rk_decision_unit_id y))),
               (''state'', JStr (risk_state_value (rk_state y))),
               (''validity'', JStr (risk_validity_value (rk_validity y))),
               (''revoked_by'', JStr (uuid_str (ic_subject_id identity))),
               (''revocation_reason'', JStr reason)] request_id) (\<lambda>_.
     ret y)))))))))"

section \<open>Histories\<close>

datatype risk_call =
    CreateRisk identity_context risk_request string
  | ListRisks identity_context uuid
  | GetRisk identity_context uuid
  | RevokeRisk identity_context uuid string string

primrec run_risk :: "env \<Rightarrow> risk_call \<Rightarrow> unit risk_svc" where
  "run_risk env (CreateRisk i q rid) = as_unit (risk_create env i q rid)"
| "run_risk env (ListRisks i u) = as_unit (risk_list env i u)"
| "run_risk env (GetRisk i k) = as_unit (risk_get env i k)"
| "run_risk env (RevokeRisk i k reason rid) = as_unit (risk_revoke env i k reason rid)"

definition risks_after :: "env \<Rightarrow> risk_call list \<Rightarrow> risk_repo world \<Rightarrow> risk_repo world" where
  "risks_after env cs w = history (run_risk env) cs (w\<lparr>w_repo := empty_risks\<rparr>)"

section \<open>What is stored\<close>

definition risk_sound :: "risk_acceptance \<Rightarrow> bool" where
  "risk_sound x \<longleftrightarrow>
     maker_and_checker_independent x \<and> validity_period_ordered x \<and>
     text_between 1 200 (rk_risk x) \<and> text_between 1 200 (rk_metric x) \<and>
     text_between 1 400 (rk_acceptance_scope x) \<and> text_between 1 2000 (rk_rationale x) \<and>
     (case rk_state x of
        RISK_ACTIVE \<Rightarrow> rk_validity x = RISK_CURRENT \<and> rk_revoked_at x = None \<and> rk_revoked_by x = None
      | RISK_REVOKED \<Rightarrow> rk_validity x = RISK_INVALIDATED \<and> rk_revoked_at x \<noteq> None \<and> rk_revoked_by x \<noteq> None
      | RISK_EXPIRED \<Rightarrow> False)"

definition risks_sound :: "risk_repo \<Rightarrow> bool" where
  "risks_sound r \<longleftrightarrow> risk_store_ok r \<and> all_values risk_sound (rr_risk_acceptances r)"

lemma risks_sound_empty [simp]: "risks_sound empty_risks"
  by (simp add: risks_sound_def risk_store_ok_def empty_risks_def)

lemma risks_sound_put: "risks_sound r \<Longrightarrow> risk_sound x \<Longrightarrow> risks_sound (upsert_risk_acceptance x r)"
  using risks.put_ok [of r x] by (simp add: risks_sound_def upsert_risk_acceptance_def all_values_set)

lemma risks_sound_get: "risks_sound r \<Longrightarrow> get_risk_acceptance scope k r = Some x \<Longrightarrow> risk_sound x \<and> rk_risk_acceptance_id x = k"
  using risks.get_sound [of r scope k x] by (auto simp: risks_sound_def get_risk_acceptance_def dest: all_values_stored)

lemma new_risk_sound: "risk_acceptance_valid (new_risk_acceptance i q now k v) \<Longrightarrow> risk_sound (new_risk_acceptance i q now k v)"
  by (simp add: risk_acceptance_valid_def risk_sound_def new_risk_acceptance_def)

lemma revoked_risk_sound: "risk_sound x \<Longrightarrow> risk_sound (revoked_risk i reason now x)"
  by (simp add: risk_sound_def revoked_risk_def maker_and_checker_independent_def validity_period_ordered_def)

lemma sound_risk_operations:
  "keeps risks_sound (\<lambda>_. True) (risk_create env i q rid)" "keeps risks_sound (\<lambda>_. True) (risk_list env i u)"
  "keeps risks_sound (\<lambda>_. True) (risk_get env i k)" "keeps risks_sound (\<lambda>_. True) (risk_revoke env i k reason rid)"
  unfolding risk_create_def risk_list_def risk_get_def risk_revoke_def Let_def
  by (intro keeps_module_steps keeps_ret; simp add: risks_sound_put new_risk_sound)
    (intro keeps_module_steps keeps_ret; auto intro: risks_sound_put revoked_risk_sound dest: risks_sound_get)+

lemma sound_risk_call: "preserves (on_repo risks_sound) (run_risk env c)"
  by (cases c) (auto intro: sound_risk_operations [THEN preserves_as_unit])

lemma risks_after_sound: "risks_sound (w_repo (risks_after env cs w))"
  unfolding risks_after_def
  using history_keeps [where P = "on_repo risks_sound" and cs = cs, OF sound_risk_call, of "w\<lparr>w_repo := empty_risks\<rparr>"]
  by (simp add: on_repo_def)

text \<open>
  C36. After any history of calls on an empty store, whoever made them, every stored risk acceptance
  was accepted by an approver other than its author, has a period of validity that is not empty,
  satisfies the bounds of its texts, and is active and current without revocation data or revoked
  and invalidated with its time and author; what a reader is shown at a time is expired exactly
  when the stored acceptance is active and its period has ended.
\<close>

theorem stored_risks_are_sound:
  "all_values risk_sound (rr_risk_acceptances (w_repo (risks_after env cs w))) \<and>
   (\<forall>scope k x. get_risk_acceptance scope k (w_repo (risks_after env cs w)) = Some x \<longrightarrow>
      rk_risk_acceptance_id x = k \<and> risk_visible scope x \<and>
      (rk_state (effective_risk_acceptance x now) = RISK_EXPIRED \<longleftrightarrow> rk_state x = RISK_ACTIVE \<and> rk_valid_until x \<le> now) \<and>
      (rk_state (effective_risk_acceptance x now) = RISK_ACTIVE \<longleftrightarrow> rk_state x = RISK_ACTIVE \<and> now < rk_valid_until x))"
proof -
  have ok: "risks_sound (w_repo (risks_after env cs w))" by (rule risks_after_sound)
  then have "risk_store_ok (w_repo (risks_after env cs w))" by (simp add: risks_sound_def)
  then have "risk_visible scope x" if "get_risk_acceptance scope k (w_repo (risks_after env cs w)) = Some x" for scope k x
    using that by (rule risks.get_visible)
  moreover have "rk_state x \<noteq> RISK_EXPIRED" if "risk_sound x" for x
    using that by (auto simp: risk_sound_def)
  ultimately show ?thesis
    using ok by (auto simp: effective_risk_acceptance_def risks_sound_def dest: risks_sound_get [OF ok])
qed

section \<open>What can still happen to an acceptance\<close>

text \<open>
  \<open>risk_fate env n k x\<close>: the store holds \<open>x\<close> under \<open>k\<close>, or what a revocation made of
  it, and that happened at a reading of the clock, not before the \<open>n\<close>-th, within the period.
\<close>

definition risk_fate :: "env \<Rightarrow> nat \<Rightarrow> uuid \<Rightarrow> risk_acceptance \<Rightarrow> risk_repo \<Rightarrow> bool" where
  "risk_fate env n k x r \<longleftrightarrow>
     risk_store_ok r \<and>
     (\<exists>y. dict_get (rr_risk_acceptances r) k = Some y \<and>
        (y = x \<or> rk_state x = RISK_ACTIVE \<and> (\<exists>t \<ge> n. env_clock env t < rk_valid_until x) \<and>
          (\<exists>i reason now. y = revoked_risk i reason now x)))"

lemma risk_fate_put: "risk_fate env n k x r \<Longrightarrow> rk_risk_acceptance_id z \<noteq> k \<Longrightarrow> risk_fate env n k x (upsert_risk_acceptance z r)"
  using risks.put_ok [of r z] by (simp add: risk_fate_def upsert_risk_acceptance_def)

lemma risk_fate_revoke:
  assumes y: "get_risk_acceptance scope j s = Some y" and s: "risk_fate env n k x s"
    and active: "rk_state (effective_risk_acceptance y (env_clock env t)) \<noteq> RISK_REVOKED"
      "rk_state (effective_risk_acceptance y (env_clock env t)) \<noteq> RISK_EXPIRED" and t: "n \<le> t"
    and r: "risk_fate env n k x r"
  shows "risk_fate env n k x (upsert_risk_acceptance (revoked_risk i reason now y) r)"
proof (cases "rk_risk_acceptance_id y = k")
  case True
  have "rk_risk_acceptance_id y = j" using s y risks.get_sound by (auto simp: risk_fate_def)
  with True y have "dict_get (rr_risk_acceptances s) k = Some y"
    by (auto simp: get_risk_acceptance_def stored_def split: option.splits if_splits)
  moreover have now: "rk_state y = RISK_ACTIVE" "env_clock env t < rk_valid_until y"
    using active by (cases "rk_state y"; auto simp: effective_risk_acceptance_def split: if_splits)+
  ultimately have "y = x" using s by (auto simp: risk_fate_def revoked_risk_def)
  then show ?thesis
    using r t now True risks.put_ok [of r "revoked_risk i reason now y"]
    by (auto simp: risk_fate_def upsert_risk_acceptance_def revoked_risk_def)
next
  case False
  then show ?thesis by (intro risk_fate_put [OF r]) (simp add: revoked_risk_def)
qed

lemma fate_risk_operations:
  "stays (watch env k n (risk_fate env n k x)) (\<lambda>_. True) (risk_create env i q rid)"
  "stays (watch env k n (risk_fate env n k x)) (\<lambda>_. True) (risk_list env i u)"
  "stays (watch env k n (risk_fate env n k x)) (\<lambda>_. True) (risk_get env i j)"
  "stays (watch env k n (risk_fate env n k x)) (\<lambda>_. True) (risk_revoke env i j reason rid)"
  unfolding risk_create_def risk_list_def risk_get_def risk_revoke_def Let_def
  by (intro watch_steps stays_ret; auto simp: new_risk_acceptance_def intro: risk_fate_put risk_fate_revoke)+

lemma fate_risk_call: "preserves (watch env k n (risk_fate env n k x)) (run_risk env c)"
  by (cases c) (auto intro: fate_risk_operations [THEN stays_as_unit])

text \<open>
  C37. Once stored, a risk acceptance changes at most once, by a revocation taken at a reading of the
  clock before its period ends: whatever calls follow, by whomever, the store holds it unchanged
  or as that revocation left it. In particular a revoked one never changes, and neither does one
  whose period has ended for every later reading.
\<close>

theorem acceptances_change_only_by_timely_revocation:
  assumes "dict_get (rr_risk_acceptances (w_repo (risks_after env before w))) k = Some x"
    and "never_drawn env k (risks_after env before w)"
  shows "\<exists>y. dict_get (rr_risk_acceptances (w_repo (risks_after env (before @ cs) w))) k = Some y \<and>
    (y = x \<or> rk_state x = RISK_ACTIVE \<and>
       (\<exists>t \<ge> w_ticks (risks_after env before w). env_clock env t < rk_valid_until x) \<and>
       (\<exists>i reason now. y = revoked_risk i reason now x))"
proof -
  let ?w = "risks_after env before w"
  have "risk_store_ok (w_repo ?w)" using risks_after_sound by (simp add: risks_sound_def)
  with assms have "watch env k (w_ticks ?w) (risk_fate env (w_ticks ?w) k x) ?w"
    by (simp add: watch_def risk_fate_def)
  from history_keeps [where cs = cs, OF fate_risk_call this] show ?thesis
    by (simp add: watch_def risk_fate_def) (simp add: risks_after_def history_append)
qed

text \<open>A created acceptance, by symbolic execution, and its revocation.\<close>

lemma runs_risk_create:
  assumes "digest_ok (env_sha env)" and "own_scope i None (Some (rq_decision_unit_id q)) = Inr ()"
    and "ic_subject_id i \<noteq> rq_independent_approver_id q" and "rq_valid_from q < rq_valid_until q"
    and x: "x = new_risk_acceptance i q (env_clock env t) (env_uuid env n) (env_uuid env (n + 1))"
    and "risk_acceptance_valid x"
  shows "runs env (risk_create env i q rid) r n t x (upsert_risk_acceptance x r) (n + 1 + 1 + 1) (t + 1 + 1)"
  unfolding risk_create_def Let_def x
  by (intro runs_steps) (use assms in \<open>simp_all add: x\<close>)

definition sample_risk_request :: risk_request where
  "sample_risk_request = \<lparr>rq_decision_unit_id = 9, rq_risk = ''late'', rq_metric = ''days'', rq_acceptance_scope = ''lot 1'',
     rq_rationale = ''buffer'', rq_independent_approver_id = 8, rq_valid_from = 0, rq_valid_until = 30\<rparr>"

definition sample_risk :: risk_acceptance where
  "sample_risk = new_risk_acceptance (wide_user 5) sample_risk_request 0 100 101"

lemma sample_risk_created:
  "standing counting_env (upsert_risk_acceptance sample_risk empty_risks) 3 2
     (risks_after counting_env [CreateRisk (wide_user 5) sample_risk_request ''r''] (fresh_world empty_risks))"
proof -
  have "runs counting_env (risk_create counting_env (wide_user 5) sample_risk_request ''r'') empty_risks 0 0 sample_risk
      (upsert_risk_acceptance sample_risk empty_risks) (0 + 1 + 1 + 1) (0 + 1 + 1)"
    by (rule runs_risk_create)
      (simp_all add: sample_risk_def sample_risk_request_def risk_acceptance_valid_def new_risk_acceptance_def
         maker_and_checker_independent_def validity_period_ordered_def state_and_validity_agree_def
         text_between_def char_count_def optional_def)
  from runs_after [OF runs_as_unit [OF this], of "fresh_world empty_risks"] show ?thesis
    by (simp add: risks_after_def eval_nat_numeral)
qed

theorem stored_risks_are_sound_witness:
  "risk_sound sample_risk \<and> risk_visible (ic_scope (wide_user 5)) sample_risk \<and>
   rk_state (effective_risk_acceptance sample_risk 29) = RISK_ACTIVE \<and>
   rk_state (effective_risk_acceptance sample_risk 30) = RISK_EXPIRED"
proof -
  let ?w = "risks_after counting_env [CreateRisk (wide_user 5) sample_risk_request ''r''] (fresh_world empty_risks)"
  have repo: "w_repo ?w = upsert_risk_acceptance sample_risk empty_risks"
    using sample_risk_created by (simp add: standing_def)
  have got: "get_risk_acceptance (ic_scope (wide_user 5)) 100 (w_repo ?w) = Some sample_risk"
    unfolding repo
    by (simp add: get_risk_acceptance_def stored_def upsert_risk_acceptance_def empty_risks_def sample_risk_def new_risk_acceptance_def
      risk_visible_def scope_matches_def wide_user_def sample_risk_request_def)
  have "rk_state sample_risk = RISK_ACTIVE" "rk_valid_until sample_risk = 30"
    by (simp_all add: sample_risk_def new_risk_acceptance_def sample_risk_request_def)
  then show ?thesis
    using stored_risks_are_sound [where env = counting_env and w = "fresh_world empty_risks", THEN conjunct1,
        of "[CreateRisk (wide_user 5) sample_risk_request ''r'']", unfolded repo]
      stored_risks_are_sound [THEN conjunct2, rule_format, OF got, of 29]
      stored_risks_are_sound [THEN conjunct2, rule_format, OF got, of 30]
    by (simp add: upsert_risk_acceptance_def empty_risks_def all_values_def dict_values_def)
qed

theorem acceptances_change_only_by_timely_revocation_witness:
  "\<exists>y. dict_get (rr_risk_acceptances (w_repo (risks_after counting_env ([CreateRisk (wide_user 5) sample_risk_request ''r''] @
      [RevokeRisk (wide_user 8) 100 ''done'' ''r'']) (fresh_world empty_risks)))) 100 = Some y \<and>
    (y = sample_risk \<or> rk_state sample_risk = RISK_ACTIVE \<and>
       (\<exists>t \<ge> w_ticks (risks_after counting_env [CreateRisk (wide_user 5) sample_risk_request ''r''] (fresh_world empty_risks)).
          env_clock counting_env t < rk_valid_until sample_risk) \<and>
       (\<exists>i reason now. y = revoked_risk i reason now sample_risk))"
  using sample_risk_created
  by (intro acceptances_change_only_by_timely_revocation)
    (auto simp: standing_def upsert_risk_acceptance_def sample_risk_def new_risk_acceptance_def
       intro: counting_env_drawn [of 0, simplified])

end
