(* ===== verification/M4_Models.thy ===== *)
theory M4_Models
  imports Module_Base Http Py_Decimal
begin

text \<open>
  The data of the evidence and commercial modules (\<open>modules/evidence/domain/models.py\<close>,
  \<open>modules/commercial/domain/models.py\<close>): requirements, company evidence, matches, response
  profiles, prechecks and conditions; cost baselines, policies and readiness assessments. The
  validators of a model are one predicate each, and the views exchanged with other modules are
  records.
\<close>

section \<open>Enumerations\<close>

datatype m4_lifecycle = LC_DRAFT | LC_PUBLISHED | LC_ARCHIVED | LC_DELETED

datatype m4_review = RV_PENDING | RV_APPROVED | RV_NOT_REQUIRED | RV_REJECTED | RV_QUARANTINED

datatype m4_validity = VS_CURRENT | VS_STALE | VS_INVALIDATED

datatype m4_retention = RT_RETAIN | RT_DISPOSITION_DUE | RT_DISPOSITION_RUNNING | RT_DISPOSED

datatype match_state = MATCH_SATISFIED | MATCH_PARTIAL | MATCH_UNSATISFIED | MATCH_UNKNOWN

datatype evidence_category = CAT_QUALIFICATION | CAT_CASE | CAT_PERSONNEL | CAT_TECHNICAL | CAT_SERVICE | CAT_COMMITMENT

datatype precheck_decision = PRE_PASS | PRE_CONDITIONAL | PRE_BLOCKED | PRE_UNKNOWN

datatype condition_state = COND_OPEN | COND_SATISFIED | COND_WAIVED | COND_FAILED | COND_EXPIRED

datatype blocking_stage = STAGE_COMPUTE | STAGE_FREEZE | STAGE_APPROVAL | STAGE_AUTHORIZATION | STAGE_SUBMISSION

datatype tax_mode = TAX_INCLUSIVE | TAX_EXCLUSIVE

datatype readiness_decision = RD_READY | RD_CONDITIONAL | RD_NOT_READY | RD_UNKNOWN

primrec lifecycle_value :: "m4_lifecycle \<Rightarrow> string" where
  "lifecycle_value LC_DRAFT = ''DRAFT''"
| "lifecycle_value LC_PUBLISHED = ''PUBLISHED''"
| "lifecycle_value LC_ARCHIVED = ''ARCHIVED''"
| "lifecycle_value LC_DELETED = ''DELETED''"

primrec review_value :: "m4_review \<Rightarrow> string" where
  "review_value RV_PENDING = ''PENDING''"
| "review_value RV_APPROVED = ''APPROVED''"
| "review_value RV_NOT_REQUIRED = ''NOT_REQUIRED''"
| "review_value RV_REJECTED = ''REJECTED''"
| "review_value RV_QUARANTINED = ''QUARANTINED''"

primrec match_value :: "match_state \<Rightarrow> string" where
  "match_value MATCH_SATISFIED = ''SATISFIED''"
| "match_value MATCH_PARTIAL = ''PARTIAL''"
| "match_value MATCH_UNSATISFIED = ''UNSATISFIED''"
| "match_value MATCH_UNKNOWN = ''UNKNOWN''"

primrec category_value :: "evidence_category \<Rightarrow> string" where
  "category_value CAT_QUALIFICATION = ''QUALIFICATION''"
| "category_value CAT_CASE = ''CASE''"
| "category_value CAT_PERSONNEL = ''PERSONNEL''"
| "category_value CAT_TECHNICAL = ''TECHNICAL''"
| "category_value CAT_SERVICE = ''SERVICE''"
| "category_value CAT_COMMITMENT = ''COMMITMENT''"

primrec precheck_value :: "precheck_decision \<Rightarrow> string" where
  "precheck_value PRE_PASS = ''PASS''"
| "precheck_value PRE_CONDITIONAL = ''CONDITIONAL''"
| "precheck_value PRE_BLOCKED = ''BLOCKED''"
| "precheck_value PRE_UNKNOWN = ''UNKNOWN''"

primrec condition_value :: "condition_state \<Rightarrow> string" where
  "condition_value COND_OPEN = ''OPEN''"
| "condition_value COND_SATISFIED = ''SATISFIED''"
| "condition_value COND_WAIVED = ''WAIVED''"
| "condition_value COND_FAILED = ''FAILED''"
| "condition_value COND_EXPIRED = ''EXPIRED''"

primrec readiness_value :: "readiness_decision \<Rightarrow> string" where
  "readiness_value RD_READY = ''READY''"
| "readiness_value RD_CONDITIONAL = ''CONDITIONAL''"
| "readiness_value RD_NOT_READY = ''NOT_READY''"
| "readiness_value RD_UNKNOWN = ''UNKNOWN''"

section \<open>Orthogonal states\<close>

text \<open>
  The states every governed object carries; the models of the code inherit them or repeat them.
\<close>

record orthogonal =
  or_lifecycle :: m4_lifecycle
  or_review :: m4_review
  or_validity :: m4_validity
  or_retention :: m4_retention
  or_effective_from :: "timestamp option"
  or_effective_to :: "timestamp option"
  or_superseded_by :: "uuid option"

record formal_input =
  fi_allowed :: bool
  fi_failed :: "string list"

definition formal_input_allowed :: "'a orthogonal_scheme \<Rightarrow> timestamp \<Rightarrow> formal_input" where
  "formal_input_allowed x now =
     (let failed =
        (if or_lifecycle x \<noteq> LC_PUBLISHED then [''lifecycle_not_published''] else []) @
        (if or_review x \<notin> {RV_APPROVED, RV_NOT_REQUIRED} then [''review_not_approved''] else []) @
        (if or_validity x \<noteq> VS_CURRENT then [''validity_not_current''] else []) @
        (if or_retention x \<noteq> RT_RETAIN then [''retention_not_retain''] else []) @
        (case or_effective_from x of None \<Rightarrow> [] | Some t \<Rightarrow> if now < t then [''not_yet_effective''] else []) @
        (case or_effective_to x of None \<Rightarrow> [] | Some t \<Rightarrow> if t \<le> now then [''effective_window_ended''] else []) @
        (if or_superseded_by x \<noteq> None then [''superseded''] else [])
      in \<lparr>fi_allowed = (failed = []), fi_failed = failed\<rparr>)"

text \<open>Whether an object may be used as a formal input.\<close>

definition usable_input :: "'a orthogonal_scheme \<Rightarrow> timestamp \<Rightarrow> bool" where
  "usable_input x now \<longleftrightarrow> fi_allowed (formal_input_allowed x now)"

section \<open>Evidence\<close>

record requirement = orthogonal +
  qr_requirement_id :: uuid
  qr_version_id :: uuid
  qr_tenant_id :: uuid
  qr_data_domain_id :: uuid
  qr_project_id :: "uuid option"
  qr_decision_unit_id :: uuid
  qr_rule_clause_id :: "uuid option"
  qr_title :: string
  qr_statement :: string
  qr_mandatory :: bool
  qr_source_document_id :: "uuid option"
  qr_source_page :: "string option"
  qr_source_section :: "string option"
  qr_etag :: string
  qr_created_at :: timestamp
  qr_created_by :: uuid
  qr_published_at :: "timestamp option"
  qr_published_by :: "uuid option"

definition requirement_valid :: "requirement \<Rightarrow> bool" where
  "requirement_valid x \<longleftrightarrow>
     text_between 1 200 (qr_title x) \<and> text_between 1 4000 (qr_statement x) \<and>
     optional (text_between 0 40) (qr_source_page x) \<and> optional (text_between 0 120) (qr_source_section x) \<and>
     text_between 66 66 (qr_etag x)"

record company_evidence = orthogonal +
  ce_evidence_id :: uuid
  ce_version_id :: uuid
  ce_tenant_id :: uuid
  ce_data_domain_id :: uuid
  ce_project_id :: "uuid option"
  ce_decision_unit_id :: uuid
  ce_category :: evidence_category
  ce_subject :: string
  ce_summary :: string
  ce_source :: string
  ce_source_document_id :: "uuid option"
  ce_fragment_ref :: "string option"
  ce_content_hash :: "string option"
  ce_valid_from :: timestamp
  ce_valid_to :: timestamp
  ce_created_at :: timestamp
  ce_created_by :: uuid
  ce_reviewed_at :: "timestamp option"
  ce_reviewed_by :: "uuid option"
  ce_published_at :: "timestamp option"
  ce_published_by :: "uuid option"
  ce_revoked_at :: "timestamp option"
  ce_revoked_by :: "uuid option"
  ce_revocation_reason :: "string option"

definition company_evidence_valid :: "company_evidence \<Rightarrow> bool" where
  "company_evidence_valid x \<longleftrightarrow>
     text_between 1 200 (ce_subject x) \<and> text_between 1 2000 (ce_summary x) \<and> text_between 1 400 (ce_source x) \<and>
     optional (text_between 0 200) (ce_fragment_ref x) \<and> optional is_hash (ce_content_hash x) \<and>
     optional (text_between 0 1000) (ce_revocation_reason x) \<and> ce_valid_from x < ce_valid_to x"

record evidence_match =
  em_match_id :: uuid
  em_version_id :: uuid
  em_tenant_id :: uuid
  em_data_domain_id :: uuid
  em_project_id :: "uuid option"
  em_decision_unit_id :: uuid
  em_requirement_id :: uuid
  em_evidence_id :: "uuid option"
  em_state :: match_state
  em_rationale :: string
  em_original_etag :: "string option"
  em_reviewed_at :: "timestamp option"
  em_reviewed_by :: "uuid option"
  em_created_at :: timestamp
  em_created_by :: uuid
  em_validity :: m4_validity

definition evidence_match_valid :: "evidence_match \<Rightarrow> bool" where
  "evidence_match_valid x \<longleftrightarrow>
     text_between 1 2000 (em_rationale x) \<and> optional (text_between 0 66) (em_original_etag x)"

record response_profile = orthogonal +
  rp_profile_id :: uuid
  rp_version_id :: uuid
  rp_tenant_id :: uuid
  rp_data_domain_id :: uuid
  rp_project_id :: "uuid option"
  rp_decision_unit_id :: uuid
  rp_qualification_preparation :: string
  rp_technical_response :: string
  rp_service_response :: string
  rp_objective_non_price_inputs :: "(string, string) dict"
  rp_subjective_variable_intervals :: "(string, string) dict"
  rp_evidence_ids :: "uuid list"
  rp_valid_from :: timestamp
  rp_valid_to :: timestamp
  rp_created_at :: timestamp
  rp_created_by :: uuid
  rp_published_at :: "timestamp option"
  rp_published_by :: "uuid option"

definition response_profile_valid :: "response_profile \<Rightarrow> bool" where
  "response_profile_valid x \<longleftrightarrow>
     text_between 1 4000 (rp_qualification_preparation x) \<and> text_between 1 4000 (rp_technical_response x) \<and>
     text_between 1 4000 (rp_service_response x) \<and> rp_valid_from x < rp_valid_to x"

record precheck_check =
  pc_code :: string
  pc_passed :: "bool option"
  pc_reason_code :: string

record precheck =
  pk_precheck_id :: uuid
  pk_version_id :: uuid
  pk_tenant_id :: uuid
  pk_data_domain_id :: uuid
  pk_project_id :: "uuid option"
  pk_decision_unit_id :: uuid
  pk_decision :: precheck_decision
  pk_validity :: m4_validity
  pk_rules_available :: "bool option"
  pk_subject_qualification :: match_state
  pk_substantive_response :: match_state
  pk_evidence_coverage :: match_state
  pk_deadline_closure :: "bool option"
  pk_unmapped_mandatory_count :: nat
  pk_condition_ids :: "uuid list"
  pk_checks :: "precheck_check list"
  pk_created_at :: timestamp
  pk_created_by :: uuid

record condition =
  cd_condition_id :: uuid
  cd_version_id :: uuid
  cd_tenant_id :: uuid
  cd_data_domain_id :: uuid
  cd_project_id :: "uuid option"
  cd_decision_unit_id :: uuid
  cd_title :: string
  cd_statement :: string
  cd_state :: condition_state
  cd_owner_id :: uuid
  cd_independent_reviewer_id :: uuid
  cd_evidence_id :: "uuid option"
  cd_due_at :: timestamp
  cd_blocking_stage :: blocking_stage
  cd_created_at :: timestamp
  cd_created_by :: uuid
  cd_closed_at :: "timestamp option"
  cd_closed_by :: "uuid option"
  cd_close_reason :: "string option"

definition condition_valid :: "condition \<Rightarrow> bool" where
  "condition_valid x \<longleftrightarrow>
     text_between 1 200 (cd_title x) \<and> text_between 1 2000 (cd_statement x) \<and>
     optional (text_between 0 1000) (cd_close_reason x) \<and> cd_owner_id x \<noteq> cd_independent_reviewer_id x"

definition condition_is_blocking :: "condition \<Rightarrow> timestamp \<Rightarrow> bool" where
  "condition_is_blocking x now =
     (if cd_state x = COND_EXPIRED then True
      else if cd_state x = COND_FAILED then True
      else if cd_state x = COND_OPEN \<and> cd_due_at x \<le> now then True
      else cd_state x = COND_OPEN)"

definition evidence_usable :: "company_evidence \<Rightarrow> timestamp \<Rightarrow> bool" where
  "evidence_usable x now =
     (if \<not> usable_input x now then False
      else if now < ce_valid_from x \<or> ce_valid_to x \<le> now then False
      else True)"

section \<open>Cost, policy and readiness\<close>

record cost_baseline = orthogonal +
  cb_cost_baseline_id :: uuid
  cb_version_id :: uuid
  cb_tenant_id :: uuid
  cb_data_domain_id :: uuid
  cb_project_id :: "uuid option"
  cb_decision_unit_id :: uuid
  cb_currency :: string
  cb_tax_mode :: tax_mode
  cb_input_vat :: money
  cb_cycle :: string
  cb_delivery_cost :: money
  cb_post_award_cost :: money
  cb_bid_preparation_cost :: money
  cb_cashflow_in :: money
  cb_cashflow_out :: money
  cb_created_at :: timestamp
  cb_created_by :: uuid
  cb_approved_at :: "timestamp option"
  cb_approved_by :: "uuid option"
  cb_published_at :: "timestamp option"
  cb_published_by :: "uuid option"
  cb_exploration_only :: bool

definition currencies_align :: "cost_baseline \<Rightarrow> bool" where
  "currencies_align x \<longleftrightarrow>
     list_all (\<lambda>m. mo_currency m = cb_currency x)
       [cb_input_vat x, cb_delivery_cost x, cb_post_award_cost x, cb_bid_preparation_cost x, cb_cashflow_in x,
        cb_cashflow_out x]"

definition cost_maker_checker :: "cost_baseline \<Rightarrow> bool" where
  "cost_maker_checker x \<longleftrightarrow> cb_approved_by x = None \<or> cb_approved_by x \<noteq> Some (cb_created_by x)"

definition cost_baseline_valid :: "cost_baseline \<Rightarrow> bool" where
  "cost_baseline_valid x \<longleftrightarrow>
     length (cb_currency x) = 3 \<and> list_all (\<lambda>c. CHR ''A'' \<le> c \<and> c \<le> CHR ''Z'') (cb_currency x) \<and>
     text_between 1 40 (cb_cycle x) \<and> currencies_align x \<and> cost_maker_checker x"

record commercial_policy = orthogonal +
  cp_policy_id :: uuid
  cp_version_id :: uuid
  cp_tenant_id :: uuid
  cp_data_domain_id :: uuid
  cp_project_id :: "uuid option"
  cp_decision_unit_id :: uuid
  cp_profit_floor :: string
  cp_cashflow_constraint :: string
  cp_capacity_constraint :: string
  cp_risk_threshold :: string
  cp_coverage_ratio :: string
  cp_min_award_quality :: string
  cp_objective_weights :: "(string, string) dict"
  cp_merge_tolerance :: string
  cp_exception_authority :: string
  cp_created_at :: timestamp
  cp_created_by :: uuid
  cp_published_at :: "timestamp option"
  cp_published_by :: "uuid option"

definition commercial_policy_valid :: "commercial_policy \<Rightarrow> bool" where
  "commercial_policy_valid x \<longleftrightarrow>
     text_between 1 40 (cp_profit_floor x) \<and> text_between 1 200 (cp_cashflow_constraint x) \<and>
     text_between 1 200 (cp_capacity_constraint x) \<and> text_between 1 200 (cp_risk_threshold x) \<and>
     text_between 1 40 (cp_coverage_ratio x) \<and> text_between 1 80 (cp_min_award_quality x) \<and>
     text_between 1 40 (cp_merge_tolerance x) \<and> text_between 1 200 (cp_exception_authority x)"

record readiness_item =
  rt_code :: string
  rt_decision :: readiness_decision
  rt_reason_code :: string
  rt_commercial_not_procurement :: bool

record readiness =
  rd_readiness_id :: uuid
  rd_version_id :: uuid
  rd_tenant_id :: uuid
  rd_data_domain_id :: uuid
  rd_project_id :: "uuid option"
  rd_decision_unit_id :: uuid
  rd_decision :: readiness_decision
  rd_validity :: m4_validity
  rd_items :: "readiness_item list"
  rd_created_at :: timestamp
  rd_created_by :: uuid
  rd_exploration_watermark :: bool

section \<open>Views of other modules\<close>

text \<open>
  What a port hands over. A released document is any object with these attributes; an attribute
  that is missing is \<open>None\<close>.
\<close>

record document_view =
  dv_document_id :: "uuid option"
  dv_content_hash :: "string option"
  dv_status :: "string option"
  dv_parse_status :: "string option"
  dv_fragment_refs :: "string list"

record released_ref =
  lr_document_id :: uuid
  lr_content_hash :: string
  lr_status :: string
  lr_parse_status :: "string option"
  lr_fragment_refs :: "string list"

definition as_released_ref :: "document_view \<Rightarrow> released_ref option" where
  "as_released_ref v =
     (if dv_status v \<noteq> Some ''RELEASED'' then None
      else
        case (dv_document_id v, dv_content_hash v) of
          (Some d, Some h) \<Rightarrow>
            if is_hash h
            then Some \<lparr>lr_document_id = d, lr_content_hash = h, lr_status = ''RELEASED'',
              lr_parse_status = dv_parse_status v, lr_fragment_refs = dv_fragment_refs v\<rparr>
            else None
        | _ \<Rightarrow> None)"

record rule_set_ref =
  rs_rule_set_id :: uuid
  rs_supported :: bool
  rs_current :: bool

record evidence_view =
  vw_precheck_decision :: "precheck_decision option"
  vw_precheck_validity :: "m4_validity option"
  vw_response_profile_current :: bool
  vw_subject_qualification :: "match_state option"
  vw_unmapped_mandatory_count :: nat
  vw_open_blocking_condition_count :: nat

record market_view =
  mk_prior_current :: bool
  mk_pressure_only :: bool
  mk_model_protocol_current :: bool
  mk_data_use_authorized :: bool

text \<open>
  The ports of the two services to modules outside. Their answers change over time: each takes
  the number of clock readings taken when it is asked.
\<close>

record m4_ports =
  pt_document :: "nat \<Rightarrow> tenant_scope \<Rightarrow> uuid \<Rightarrow> document_view option"
  pt_rules :: "nat \<Rightarrow> tenant_scope \<Rightarrow> uuid \<Rightarrow> rule_set_ref option"
  pt_market :: "nat \<Rightarrow> tenant_scope \<Rightarrow> uuid \<Rightarrow> market_view option"

text \<open>The adapters used until a module is wired: nothing is known.\<close>

definition unavailable_ports :: m4_ports where
  "unavailable_ports = \<lparr>pt_document = (\<lambda>_ _ _. None), pt_rules = (\<lambda>_ _ _. None), pt_market = (\<lambda>_ _ _. None)\<rparr>"

section \<open>When an input may be used\<close>

lemma usable_input_iff:
  "usable_input x now \<longleftrightarrow>
     or_lifecycle x = LC_PUBLISHED \<and> or_review x \<in> {RV_APPROVED, RV_NOT_REQUIRED} \<and> or_validity x = VS_CURRENT \<and>
     or_retention x = RT_RETAIN \<and> (\<forall>t. or_effective_from x = Some t \<longrightarrow> t \<le> now) \<and>
     (\<forall>t. or_effective_to x = Some t \<longrightarrow> now < t) \<and> or_superseded_by x = None"
  by (auto simp: usable_input_def formal_input_allowed_def Let_def split: option.split)

lemma condition_is_blocking_iff: "condition_is_blocking x now \<longleftrightarrow> cd_state x \<in> {COND_OPEN, COND_FAILED, COND_EXPIRED}"
  by (auto simp: condition_is_blocking_def)

lemma evidence_usable_iff:
  "evidence_usable x now \<longleftrightarrow> usable_input x now \<and> ce_valid_from x \<le> now \<and> now < ce_valid_to x"
  by (auto simp: evidence_usable_def)

end
