(* ===== verification/M4_Repository.thy ===== *)
theory M4_Repository
  imports M4_Models
begin

text \<open>
  The in-memory stores of the evidence and commercial modules
  (\<open>modules/evidence/application/repository.py\<close>, \<open>modules/commercial/application/repository.py\<close>).
  The two repositories live in one process and are kept in one record, the evidence stores first;
  every store is an instance of the interface of \<open>Store\<close>.
\<close>

record m4_repo =
  m4_requirements :: "(uuid, requirement) dict"
  m4_evidence :: "(uuid, company_evidence) dict"
  m4_matches :: "(uuid, evidence_match) dict"
  m4_profiles :: "(uuid, response_profile) dict"
  m4_prechecks :: "(uuid, precheck) dict"
  m4_conditions :: "(uuid, condition) dict"
  m4_costs :: "(uuid, cost_baseline) dict"
  m4_policies :: "(uuid, commercial_policy) dict"
  m4_readiness :: "(uuid, readiness) dict"

definition empty_m4 :: m4_repo where
  "empty_m4 = \<lparr>m4_requirements = [], m4_evidence = [], m4_matches = [], m4_profiles = [], m4_prechecks = [], m4_conditions = [], m4_costs = [], m4_policies = [], m4_readiness = []\<rparr>"

definition requirement_seen :: "tenant_scope \<Rightarrow> requirement \<Rightarrow> bool" where
  "requirement_seen scope x = scope_matches (qr_tenant_id x) (qr_data_domain_id x) (qr_project_id x) (qr_decision_unit_id x) scope"

definition upsert_requirement :: "requirement \<Rightarrow> m4_repo \<Rightarrow> m4_repo" where
  "upsert_requirement x r = r\<lparr>m4_requirements := dict_set (qr_requirement_id x) x (m4_requirements r)\<rparr>"

definition get_requirement :: "tenant_scope \<Rightarrow> uuid \<Rightarrow> m4_repo \<Rightarrow> requirement option" where
  "get_requirement scope k r = stored (m4_requirements r) requirement_seen scope k"

definition list_requirements :: "tenant_scope \<Rightarrow> uuid \<Rightarrow> m4_repo \<Rightarrow> requirement list" where
  "list_requirements scope unit_id r =
     sort_key (\<lambda>x. (qr_created_at x, qr_requirement_id x))
       (filter (\<lambda>x. qr_decision_unit_id x = unit_id) (visible_values (m4_requirements r) requirement_seen scope))"

definition requirement_keyed :: "m4_repo \<Rightarrow> bool" where
  "requirement_keyed r \<longleftrightarrow> keyed qr_requirement_id (m4_requirements r)"

definition evidence_seen :: "tenant_scope \<Rightarrow> company_evidence \<Rightarrow> bool" where
  "evidence_seen scope x = scope_matches (ce_tenant_id x) (ce_data_domain_id x) (ce_project_id x) (ce_decision_unit_id x) scope"

definition upsert_evidence :: "company_evidence \<Rightarrow> m4_repo \<Rightarrow> m4_repo" where
  "upsert_evidence x r = r\<lparr>m4_evidence := dict_set (ce_evidence_id x) x (m4_evidence r)\<rparr>"

definition get_evidence :: "tenant_scope \<Rightarrow> uuid \<Rightarrow> m4_repo \<Rightarrow> company_evidence option" where
  "get_evidence scope k r = stored (m4_evidence r) evidence_seen scope k"

definition list_evidence :: "tenant_scope \<Rightarrow> uuid \<Rightarrow> m4_repo \<Rightarrow> company_evidence list" where
  "list_evidence scope unit_id r =
     sort_key (\<lambda>x. (ce_created_at x, ce_evidence_id x))
       (filter (\<lambda>x. ce_decision_unit_id x = unit_id) (visible_values (m4_evidence r) evidence_seen scope))"

definition evidence_keyed :: "m4_repo \<Rightarrow> bool" where
  "evidence_keyed r \<longleftrightarrow> keyed ce_evidence_id (m4_evidence r)"

definition match_seen :: "tenant_scope \<Rightarrow> evidence_match \<Rightarrow> bool" where
  "match_seen scope x = scope_matches (em_tenant_id x) (em_data_domain_id x) (em_project_id x) (em_decision_unit_id x) scope"

definition upsert_match :: "evidence_match \<Rightarrow> m4_repo \<Rightarrow> m4_repo" where
  "upsert_match x r = r\<lparr>m4_matches := dict_set (em_match_id x) x (m4_matches r)\<rparr>"

definition get_match :: "tenant_scope \<Rightarrow> uuid \<Rightarrow> m4_repo \<Rightarrow> evidence_match option" where
  "get_match scope k r = stored (m4_matches r) match_seen scope k"

definition list_matches :: "tenant_scope \<Rightarrow> uuid \<Rightarrow> m4_repo \<Rightarrow> evidence_match list" where
  "list_matches scope unit_id r =
     sort_key (\<lambda>x. (em_created_at x, em_match_id x))
       (filter (\<lambda>x. em_decision_unit_id x = unit_id) (visible_values (m4_matches r) match_seen scope))"

definition match_keyed :: "m4_repo \<Rightarrow> bool" where
  "match_keyed r \<longleftrightarrow> keyed em_match_id (m4_matches r)"

definition profile_seen :: "tenant_scope \<Rightarrow> response_profile \<Rightarrow> bool" where
  "profile_seen scope x = scope_matches (rp_tenant_id x) (rp_data_domain_id x) (rp_project_id x) (rp_decision_unit_id x) scope"

definition upsert_profile :: "response_profile \<Rightarrow> m4_repo \<Rightarrow> m4_repo" where
  "upsert_profile x r = r\<lparr>m4_profiles := dict_set (rp_profile_id x) x (m4_profiles r)\<rparr>"

definition get_profile :: "tenant_scope \<Rightarrow> uuid \<Rightarrow> m4_repo \<Rightarrow> response_profile option" where
  "get_profile scope k r = stored (m4_profiles r) profile_seen scope k"

definition list_profiles :: "tenant_scope \<Rightarrow> uuid \<Rightarrow> m4_repo \<Rightarrow> response_profile list" where
  "list_profiles scope unit_id r =
     sort_key (\<lambda>x. (rp_created_at x, rp_profile_id x))
       (filter (\<lambda>x. rp_decision_unit_id x = unit_id) (visible_values (m4_profiles r) profile_seen scope))"

definition profile_keyed :: "m4_repo \<Rightarrow> bool" where
  "profile_keyed r \<longleftrightarrow> keyed rp_profile_id (m4_profiles r)"

definition precheck_seen :: "tenant_scope \<Rightarrow> precheck \<Rightarrow> bool" where
  "precheck_seen scope x = scope_matches (pk_tenant_id x) (pk_data_domain_id x) (pk_project_id x) (pk_decision_unit_id x) scope"

definition upsert_precheck :: "precheck \<Rightarrow> m4_repo \<Rightarrow> m4_repo" where
  "upsert_precheck x r = r\<lparr>m4_prechecks := dict_set (pk_precheck_id x) x (m4_prechecks r)\<rparr>"

definition get_precheck :: "tenant_scope \<Rightarrow> uuid \<Rightarrow> m4_repo \<Rightarrow> precheck option" where
  "get_precheck scope k r = stored (m4_prechecks r) precheck_seen scope k"

definition list_prechecks :: "tenant_scope \<Rightarrow> uuid \<Rightarrow> m4_repo \<Rightarrow> precheck list" where
  "list_prechecks scope unit_id r =
     sort_key (\<lambda>x. (pk_created_at x, pk_precheck_id x))
       (filter (\<lambda>x. pk_decision_unit_id x = unit_id) (visible_values (m4_prechecks r) precheck_seen scope))"

definition precheck_keyed :: "m4_repo \<Rightarrow> bool" where
  "precheck_keyed r \<longleftrightarrow> keyed pk_precheck_id (m4_prechecks r)"

definition condition_seen :: "tenant_scope \<Rightarrow> condition \<Rightarrow> bool" where
  "condition_seen scope x = scope_matches (cd_tenant_id x) (cd_data_domain_id x) (cd_project_id x) (cd_decision_unit_id x) scope"

definition upsert_condition :: "condition \<Rightarrow> m4_repo \<Rightarrow> m4_repo" where
  "upsert_condition x r = r\<lparr>m4_conditions := dict_set (cd_condition_id x) x (m4_conditions r)\<rparr>"

definition get_condition :: "tenant_scope \<Rightarrow> uuid \<Rightarrow> m4_repo \<Rightarrow> condition option" where
  "get_condition scope k r = stored (m4_conditions r) condition_seen scope k"

definition list_conditions :: "tenant_scope \<Rightarrow> uuid \<Rightarrow> m4_repo \<Rightarrow> condition list" where
  "list_conditions scope unit_id r =
     sort_key (\<lambda>x. (cd_created_at x, cd_condition_id x))
       (filter (\<lambda>x. cd_decision_unit_id x = unit_id) (visible_values (m4_conditions r) condition_seen scope))"

definition condition_keyed :: "m4_repo \<Rightarrow> bool" where
  "condition_keyed r \<longleftrightarrow> keyed cd_condition_id (m4_conditions r)"

definition cost_seen :: "tenant_scope \<Rightarrow> cost_baseline \<Rightarrow> bool" where
  "cost_seen scope x = scope_matches (cb_tenant_id x) (cb_data_domain_id x) (cb_project_id x) (cb_decision_unit_id x) scope"

definition upsert_cost :: "cost_baseline \<Rightarrow> m4_repo \<Rightarrow> m4_repo" where
  "upsert_cost x r = r\<lparr>m4_costs := dict_set (cb_cost_baseline_id x) x (m4_costs r)\<rparr>"

definition get_cost :: "tenant_scope \<Rightarrow> uuid \<Rightarrow> m4_repo \<Rightarrow> cost_baseline option" where
  "get_cost scope k r = stored (m4_costs r) cost_seen scope k"

definition list_costs :: "tenant_scope \<Rightarrow> uuid \<Rightarrow> m4_repo \<Rightarrow> cost_baseline list" where
  "list_costs scope unit_id r =
     sort_key (\<lambda>x. (cb_created_at x, cb_cost_baseline_id x))
       (filter (\<lambda>x. cb_decision_unit_id x = unit_id) (visible_values (m4_costs r) cost_seen scope))"

definition cost_keyed :: "m4_repo \<Rightarrow> bool" where
  "cost_keyed r \<longleftrightarrow> keyed cb_cost_baseline_id (m4_costs r)"

definition policy_seen :: "tenant_scope \<Rightarrow> commercial_policy \<Rightarrow> bool" where
  "policy_seen scope x = scope_matches (cp_tenant_id x) (cp_data_domain_id x) (cp_project_id x) (cp_decision_unit_id x) scope"

definition upsert_policy :: "commercial_policy \<Rightarrow> m4_repo \<Rightarrow> m4_repo" where
  "upsert_policy x r = r\<lparr>m4_policies := dict_set (cp_policy_id x) x (m4_policies r)\<rparr>"

definition get_policy :: "tenant_scope \<Rightarrow> uuid \<Rightarrow> m4_repo \<Rightarrow> commercial_policy option" where
  "get_policy scope k r = stored (m4_policies r) policy_seen scope k"

definition list_policies :: "tenant_scope \<Rightarrow> uuid \<Rightarrow> m4_repo \<Rightarrow> commercial_policy list" where
  "list_policies scope unit_id r =
     sort_key (\<lambda>x. (cp_created_at x, cp_policy_id x))
       (filter (\<lambda>x. cp_decision_unit_id x = unit_id) (visible_values (m4_policies r) policy_seen scope))"

definition policy_keyed :: "m4_repo \<Rightarrow> bool" where
  "policy_keyed r \<longleftrightarrow> keyed cp_policy_id (m4_policies r)"

definition readiness_seen :: "tenant_scope \<Rightarrow> readiness \<Rightarrow> bool" where
  "readiness_seen scope x = scope_matches (rd_tenant_id x) (rd_data_domain_id x) (rd_project_id x) (rd_decision_unit_id x) scope"

definition upsert_readiness :: "readiness \<Rightarrow> m4_repo \<Rightarrow> m4_repo" where
  "upsert_readiness x r = r\<lparr>m4_readiness := dict_set (rd_readiness_id x) x (m4_readiness r)\<rparr>"

definition get_readiness :: "tenant_scope \<Rightarrow> uuid \<Rightarrow> m4_repo \<Rightarrow> readiness option" where
  "get_readiness scope k r = stored (m4_readiness r) readiness_seen scope k"

definition list_readiness :: "tenant_scope \<Rightarrow> uuid \<Rightarrow> m4_repo \<Rightarrow> readiness list" where
  "list_readiness scope unit_id r =
     sort_key (\<lambda>x. (rd_created_at x, rd_readiness_id x))
       (filter (\<lambda>x. rd_decision_unit_id x = unit_id) (visible_values (m4_readiness r) readiness_seen scope))"

definition readiness_keyed :: "m4_repo \<Rightarrow> bool" where
  "readiness_keyed r \<longleftrightarrow> keyed rd_readiness_id (m4_readiness r)"

lemmas m4_upsert_defs =
  upsert_requirement_def upsert_evidence_def upsert_match_def upsert_profile_def upsert_precheck_def upsert_condition_def upsert_cost_def upsert_policy_def upsert_readiness_def

lemmas m4_get_defs =
  get_requirement_def get_evidence_def get_match_def get_profile_def get_precheck_def get_condition_def get_cost_def get_policy_def get_readiness_def

lemmas m4_seen_defs =
  requirement_seen_def evidence_seen_def match_seen_def profile_seen_def precheck_seen_def condition_seen_def cost_seen_def policy_seen_def readiness_seen_def

lemmas m4_keyed_defs =
  requirement_keyed_def evidence_keyed_def match_keyed_def profile_keyed_def precheck_keyed_def condition_keyed_def cost_keyed_def policy_keyed_def readiness_keyed_def

interpretation m4_requirement_store: listed_store qr_requirement_id requirement_seen upsert_requirement get_requirement requirement_keyed
  "\<lambda>scope r. visible_values (m4_requirements r) requirement_seen scope"
  by unfold_locales
    (auto simp: get_requirement_def upsert_requirement_def requirement_keyed_def stored_put visible_values_read keyed_set dest: stored_sound)

interpretation m4_evidence_store: listed_store ce_evidence_id evidence_seen upsert_evidence get_evidence evidence_keyed
  "\<lambda>scope r. visible_values (m4_evidence r) evidence_seen scope"
  by unfold_locales
    (auto simp: get_evidence_def upsert_evidence_def evidence_keyed_def stored_put visible_values_read keyed_set dest: stored_sound)

interpretation m4_match_store: listed_store em_match_id match_seen upsert_match get_match match_keyed
  "\<lambda>scope r. visible_values (m4_matches r) match_seen scope"
  by unfold_locales
    (auto simp: get_match_def upsert_match_def match_keyed_def stored_put visible_values_read keyed_set dest: stored_sound)

interpretation m4_profile_store: listed_store rp_profile_id profile_seen upsert_profile get_profile profile_keyed
  "\<lambda>scope r. visible_values (m4_profiles r) profile_seen scope"
  by unfold_locales
    (auto simp: get_profile_def upsert_profile_def profile_keyed_def stored_put visible_values_read keyed_set dest: stored_sound)

interpretation m4_precheck_store: listed_store pk_precheck_id precheck_seen upsert_precheck get_precheck precheck_keyed
  "\<lambda>scope r. visible_values (m4_prechecks r) precheck_seen scope"
  by unfold_locales
    (auto simp: get_precheck_def upsert_precheck_def precheck_keyed_def stored_put visible_values_read keyed_set dest: stored_sound)

interpretation m4_condition_store: listed_store cd_condition_id condition_seen upsert_condition get_condition condition_keyed
  "\<lambda>scope r. visible_values (m4_conditions r) condition_seen scope"
  by unfold_locales
    (auto simp: get_condition_def upsert_condition_def condition_keyed_def stored_put visible_values_read keyed_set dest: stored_sound)

interpretation m4_cost_store: listed_store cb_cost_baseline_id cost_seen upsert_cost get_cost cost_keyed
  "\<lambda>scope r. visible_values (m4_costs r) cost_seen scope"
  by unfold_locales
    (auto simp: get_cost_def upsert_cost_def cost_keyed_def stored_put visible_values_read keyed_set dest: stored_sound)

interpretation m4_policy_store: listed_store cp_policy_id policy_seen upsert_policy get_policy policy_keyed
  "\<lambda>scope r. visible_values (m4_policies r) policy_seen scope"
  by unfold_locales
    (auto simp: get_policy_def upsert_policy_def policy_keyed_def stored_put visible_values_read keyed_set dest: stored_sound)

interpretation m4_readiness_store: listed_store rd_readiness_id readiness_seen upsert_readiness get_readiness readiness_keyed
  "\<lambda>scope r. visible_values (m4_readiness r) readiness_seen scope"
  by unfold_locales
    (auto simp: get_readiness_def upsert_readiness_def readiness_keyed_def stored_put visible_values_read keyed_set dest: stored_sound)

text \<open>A listing returns what the caller's scope covers of the decision unit.\<close>

lemma m4_listed:
  "x1 \<in> set (list_requirements scope u r) \<longleftrightarrow> x1 \<in> set (dict_values (m4_requirements r)) \<and> requirement_seen scope x1 \<and> qr_decision_unit_id x1 = u"
  "x2 \<in> set (list_evidence scope u r) \<longleftrightarrow> x2 \<in> set (dict_values (m4_evidence r)) \<and> evidence_seen scope x2 \<and> ce_decision_unit_id x2 = u"
  "x3 \<in> set (list_matches scope u r) \<longleftrightarrow> x3 \<in> set (dict_values (m4_matches r)) \<and> match_seen scope x3 \<and> em_decision_unit_id x3 = u"
  "x4 \<in> set (list_profiles scope u r) \<longleftrightarrow> x4 \<in> set (dict_values (m4_profiles r)) \<and> profile_seen scope x4 \<and> rp_decision_unit_id x4 = u"
  "x5 \<in> set (list_prechecks scope u r) \<longleftrightarrow> x5 \<in> set (dict_values (m4_prechecks r)) \<and> precheck_seen scope x5 \<and> pk_decision_unit_id x5 = u"
  "x6 \<in> set (list_conditions scope u r) \<longleftrightarrow> x6 \<in> set (dict_values (m4_conditions r)) \<and> condition_seen scope x6 \<and> cd_decision_unit_id x6 = u"
  "x7 \<in> set (list_costs scope u r) \<longleftrightarrow> x7 \<in> set (dict_values (m4_costs r)) \<and> cost_seen scope x7 \<and> cb_decision_unit_id x7 = u"
  "x8 \<in> set (list_policies scope u r) \<longleftrightarrow> x8 \<in> set (dict_values (m4_policies r)) \<and> policy_seen scope x8 \<and> cp_decision_unit_id x8 = u"
  "x9 \<in> set (list_readiness scope u r) \<longleftrightarrow> x9 \<in> set (dict_values (m4_readiness r)) \<and> readiness_seen scope x9 \<and> rd_decision_unit_id x9 = u"
  by (auto simp: list_requirements_def list_evidence_def list_matches_def list_profiles_def list_prechecks_def list_conditions_def list_costs_def list_policies_def list_readiness_def visible_values_def)

end
