(* ===== verification/Evidence_Services.thy ===== *)
theory Evidence_Services
  imports M4_Repository
begin

text \<open>
  The service of \<open>modules/evidence/application/services.py\<close>: requirements, company evidence,
  matches, response profiles, conditions and prechecks, and the readiness view that the
  commercial module reads. Every operation is a handler on an \<open>m4_repo world\<close>, in the order of
  the code; the document, rule and market ports are parameters.
\<close>

type_synonym 'a m4 = "(m4_repo world, 'a) svc"

section \<open>Shared helpers\<close>

text \<open>\<open>_audit\<close>: the writer is asked whether it is available, then the event is written.\<close>

definition m4_audit ::
  "env \<Rightarrow> identity_context \<Rightarrow> string \<Rightarrow> string \<Rightarrow> uuid \<Rightarrow> string \<Rightarrow> string \<Rightarrow> string \<Rightarrow> uuid \<Rightarrow>
   ('r world, audit_event) svc" where
  "m4_audit env identity action object_type object_id request_id reason_code outcome version_id =
     bindS require_writer (\<lambda>_.
     noted env identity action object_type object_id request_id reason_code outcome (Some version_id))"

definition m4_error :: "string \<Rightarrow> exc" where
  "m4_error code = BiaiceError code"

definition maker_checker_required :: exc where
  "maker_checker_required = BiaiceError ''MAKER_CHECKER_REQUIRED''"

text \<open>A question to a port.\<close>

definition asked :: "(nat \<Rightarrow> tenant_scope \<Rightarrow> uuid \<Rightarrow> 'a) \<Rightarrow> tenant_scope \<Rightarrow> uuid \<Rightarrow> ('r world, 'a) svc" where
  "asked port scope k = gets (\<lambda>w. port (w_ticks w) scope k)"

definition released_document :: "m4_ports \<Rightarrow> identity_context \<Rightarrow> uuid option \<Rightarrow> ('r world, released_ref option) svc" where
  "released_document ports identity document_id =
     (case document_id of
        None \<Rightarrow> ret None
      | Some d \<Rightarrow>
          bindS (asked (pt_document ports) (ic_scope identity) d) (\<lambda>view.
          ret (case view of None \<Rightarrow> None | Some v \<Rightarrow> as_released_ref v)))"

section \<open>Requirements\<close>

record requirement_input =
  qi_title :: string
  qi_statement :: string
  qi_mandatory :: bool
  qi_rule_clause_id :: "uuid option"
  qi_source_document_id :: "uuid option"
  qi_source_page :: "string option"
  qi_source_section :: "string option"

definition new_requirement ::
  "env \<Rightarrow> identity_context \<Rightarrow> uuid \<Rightarrow> requirement_input \<Rightarrow> timestamp \<Rightarrow> uuid \<Rightarrow> uuid \<Rightarrow> requirement" where
  "new_requirement env identity unit_id q now requirement_id version_id =
     \<lparr>or_lifecycle = LC_DRAFT, or_review = RV_PENDING, or_validity = VS_CURRENT, or_retention = RT_RETAIN,
      or_effective_from = None, or_effective_to = None, or_superseded_by = None,
      qr_requirement_id = requirement_id, qr_version_id = version_id,
      qr_tenant_id = sc_tenant_id (ic_scope identity), qr_data_domain_id = sc_data_domain_id (ic_scope identity),
      qr_project_id = own_project identity, qr_decision_unit_id = unit_id, qr_rule_clause_id = qi_rule_clause_id q,
      qr_title = qi_title q, qr_statement = qi_statement q, qr_mandatory = qi_mandatory q,
      qr_source_document_id = qi_source_document_id q, qr_source_page = qi_source_page q,
      qr_source_section = qi_source_section q,
      qr_etag = compute_etag (env_sha env) (JObj [(''requirement_id'', JStr (uuid_str requirement_id)),
        (''version_id'', JStr (uuid_str version_id))]),
      qr_created_at = now, qr_created_by = ic_subject_id identity, qr_published_at = None, qr_published_by = None\<rparr>"

definition requirement_create ::
  "env \<Rightarrow> m4_ports \<Rightarrow> identity_context \<Rightarrow> uuid \<Rightarrow> requirement_input \<Rightarrow> string \<Rightarrow> requirement m4" where
  "requirement_create env ports identity unit_id q request_id =
     bindS (unit_allowed identity unit_id) (\<lambda>_.
     bindS (released_document ports identity (qi_source_document_id q)) (\<lambda>released.
     bindS (checkS (qi_source_document_id q = None \<or> released \<noteq> None) (m4_error ''EVIDENCE_DOCUMENT_NOT_RELEASED'')) (\<lambda>_.
     bindS (clock_now env) (\<lambda>now.
     bindS (uuid4 env) (\<lambda>requirement_id.
     bindS (uuid4 env) (\<lambda>version_id.
     let x = new_requirement env identity unit_id q now requirement_id version_id in
     bindS (checkS (requirement_valid x) ValidationError) (\<lambda>_.
     bindS (put_repo (upsert_requirement x)) (\<lambda>_.
     bindS (m4_audit env identity ''evidence.requirement.create'' ''Requirement'' (qr_requirement_id x) request_id
              ''REQUIREMENT_DRAFT_CREATED'' (lifecycle_value (or_lifecycle x)) (qr_version_id x)) (\<lambda>_.
     ret x)))))))))"

definition requirement_list :: "identity_context \<Rightarrow> uuid \<Rightarrow> requirement list m4" where
  "requirement_list identity unit_id =
     bindS (unit_allowed identity unit_id) (\<lambda>_. get_repo (list_requirements (ic_scope identity) unit_id))"

definition requirement_get :: "identity_context \<Rightarrow> uuid \<Rightarrow> requirement m4" where
  "requirement_get identity k = found_or missing (get_requirement (ic_scope identity) k)"

definition updated_requirement :: "env \<Rightarrow> string \<Rightarrow> string \<Rightarrow> bool \<Rightarrow> requirement \<Rightarrow> requirement" where
  "updated_requirement env title statement mandatory x =
     x\<lparr>qr_title := title, qr_statement := statement, qr_mandatory := mandatory,
       qr_etag := compute_etag (env_sha env) (JObj [(''requirement_id'', JStr (uuid_str (qr_requirement_id x))),
         (''title'', JStr title), (''statement'', JStr statement)])\<rparr>"

definition requirement_update_draft ::
  "env \<Rightarrow> identity_context \<Rightarrow> uuid \<Rightarrow> string \<Rightarrow> string \<Rightarrow> bool \<Rightarrow> string \<Rightarrow> string \<Rightarrow> requirement m4" where
  "requirement_update_draft env identity k title statement mandatory if_match request_id =
     bindS (requirement_get identity k) (\<lambda>x.
     bindS (checkS (or_lifecycle x = LC_DRAFT) (m4_error ''PUBLISHED_VERSION_IMMUTABLE'')) (\<lambda>_.
     bindS (liftE (assert_etag (qr_etag x) if_match)) (\<lambda>_.
     let y = updated_requirement env title statement mandatory x in
     bindS (put_repo (upsert_requirement y)) (\<lambda>_.
     bindS (m4_audit env identity ''evidence.requirement.update_draft'' ''Requirement'' (qr_requirement_id y) request_id
              ''REQUIREMENT_DRAFT_UPDATED'' (lifecycle_value (or_lifecycle y)) (qr_version_id y)) (\<lambda>_.
     ret y)))))"

definition published_requirement :: "env \<Rightarrow> identity_context \<Rightarrow> timestamp \<Rightarrow> requirement \<Rightarrow> requirement" where
  "published_requirement env identity now x =
     x\<lparr>or_lifecycle := LC_PUBLISHED, or_review := RV_APPROVED, or_validity := VS_CURRENT, or_effective_from := Some now,
       qr_published_at := Some now, qr_published_by := Some (ic_subject_id identity),
       qr_etag := compute_etag (env_sha env) (JObj [(''requirement_id'', JStr (uuid_str (qr_requirement_id x))),
         (''published'', JBool True)])\<rparr>"

definition requirement_publish :: "env \<Rightarrow> identity_context \<Rightarrow> uuid \<Rightarrow> string \<Rightarrow> requirement m4" where
  "requirement_publish env identity k request_id =
     bindS (requirement_get identity k) (\<lambda>x.
     bindS (checkS (or_lifecycle x = LC_DRAFT) (m4_error ''PUBLISHED_VERSION_IMMUTABLE'')) (\<lambda>_.
     bindS (clock_now env) (\<lambda>now.
     let y = published_requirement env identity now x in
     bindS (put_repo (upsert_requirement y)) (\<lambda>_.
     bindS (m4_audit env identity ''evidence.requirement.publish'' ''Requirement'' (qr_requirement_id y) request_id
              ''REQUIREMENT_PUBLISHED'' (lifecycle_value (or_lifecycle y)) (qr_version_id y)) (\<lambda>_.
     ret y)))))"

text \<open>The successor copies the superseded version, its own successor included.\<close>

definition successor_requirement ::
  "env \<Rightarrow> identity_context \<Rightarrow> timestamp \<Rightarrow> uuid \<Rightarrow> uuid \<Rightarrow> requirement \<Rightarrow> requirement" where
  "successor_requirement env identity now successor_id version_id x =
     x\<lparr>qr_requirement_id := successor_id, qr_version_id := version_id, or_lifecycle := LC_DRAFT, or_review := RV_PENDING,
       or_validity := VS_CURRENT, or_effective_from := None, qr_published_at := None, qr_published_by := None,
       qr_created_at := now, qr_created_by := ic_subject_id identity,
       qr_etag := compute_etag (env_sha env) (JObj [(''requirement_id'', JStr (uuid_str successor_id)),
         (''supersedes'', JStr (uuid_str (qr_requirement_id x)))])\<rparr>"

definition stale_requirement :: "uuid \<Rightarrow> requirement \<Rightarrow> requirement" where
  "stale_requirement successor_id x = x\<lparr>or_validity := VS_STALE, or_superseded_by := Some successor_id\<rparr>"

definition requirement_supersede :: "env \<Rightarrow> identity_context \<Rightarrow> uuid \<Rightarrow> string \<Rightarrow> requirement m4" where
  "requirement_supersede env identity k request_id =
     bindS (requirement_get identity k) (\<lambda>x.
     bindS (checkS (or_lifecycle x = LC_PUBLISHED) (m4_error ''REQUIREMENT_NOT_PUBLISHED'')) (\<lambda>_.
     bindS (clock_now env) (\<lambda>now.
     bindS (uuid4 env) (\<lambda>successor_id.
     bindS (uuid4 env) (\<lambda>version_id.
     let y = successor_requirement env identity now successor_id version_id x in
     bindS (put_repo (upsert_requirement (stale_requirement successor_id x))) (\<lambda>_.
     bindS (put_repo (upsert_requirement y)) (\<lambda>_.
     bindS (m4_audit env identity ''evidence.requirement.supersede'' ''Requirement'' (qr_requirement_id y) request_id
              ''REQUIREMENT_SUPERSEDED'' (lifecycle_value (or_lifecycle y)) (qr_version_id y)) (\<lambda>_.
     ret y))))))))"

section \<open>Company evidence\<close>

record evidence_input =
  ei_category :: evidence_category
  ei_subject :: string
  ei_summary :: string
  ei_source :: string
  ei_source_document_id :: "uuid option"
  ei_fragment_ref :: "string option"
  ei_valid_from :: timestamp
  ei_valid_to :: timestamp

definition new_evidence ::
  "identity_context \<Rightarrow> uuid \<Rightarrow> evidence_input \<Rightarrow> released_ref option \<Rightarrow> uuid \<Rightarrow> uuid \<Rightarrow> timestamp \<Rightarrow> company_evidence" where
  "new_evidence identity unit_id q released evidence_id version_id now =
     \<lparr>or_lifecycle = LC_DRAFT, or_review = RV_PENDING, or_validity = VS_CURRENT, or_retention = RT_RETAIN,
      or_effective_from = None, or_effective_to = None, or_superseded_by = None,
      ce_evidence_id = evidence_id, ce_version_id = version_id,
      ce_tenant_id = sc_tenant_id (ic_scope identity), ce_data_domain_id = sc_data_domain_id (ic_scope identity),
      ce_project_id = own_project identity, ce_decision_unit_id = unit_id, ce_category = ei_category q,
      ce_subject = ei_subject q, ce_summary = ei_summary q, ce_source = ei_source q,
      ce_source_document_id = ei_source_document_id q, ce_fragment_ref = ei_fragment_ref q,
      ce_content_hash = map_option lr_content_hash released, ce_valid_from = ei_valid_from q, ce_valid_to = ei_valid_to q,
      ce_created_at = now, ce_created_by = ic_subject_id identity, ce_reviewed_at = None, ce_reviewed_by = None,
      ce_published_at = None, ce_published_by = None, ce_revoked_at = None, ce_revoked_by = None,
      ce_revocation_reason = None\<rparr>"

definition evidence_create ::
  "env \<Rightarrow> m4_ports \<Rightarrow> identity_context \<Rightarrow> uuid \<Rightarrow> evidence_input \<Rightarrow> string \<Rightarrow> company_evidence m4" where
  "evidence_create env ports identity unit_id q request_id =
     bindS (unit_allowed identity unit_id) (\<lambda>_.
     bindS (released_document ports identity (ei_source_document_id q)) (\<lambda>released.
     bindS (checkS (ei_source_document_id q = None \<or> released \<noteq> None) (m4_error ''EVIDENCE_DOCUMENT_NOT_RELEASED'')) (\<lambda>_.
     bindS (uuid4 env) (\<lambda>evidence_id.
     bindS (uuid4 env) (\<lambda>version_id.
     bindS (clock_now env) (\<lambda>now.
     let x = new_evidence identity unit_id q released evidence_id version_id now in
     bindS (checkS (company_evidence_valid x) ValidationError) (\<lambda>_.
     bindS (put_repo (upsert_evidence x)) (\<lambda>_.
     bindS (m4_audit env identity ''evidence.evidence.create'' ''CompanyEvidence'' (ce_evidence_id x) request_id
              ''EVIDENCE_DRAFT_CREATED'' (lifecycle_value (or_lifecycle x)) (ce_version_id x)) (\<lambda>_.
     ret x)))))))))"

definition evidence_list :: "identity_context \<Rightarrow> uuid \<Rightarrow> company_evidence list m4" where
  "evidence_list identity unit_id =
     bindS (unit_allowed identity unit_id) (\<lambda>_. get_repo (list_evidence (ic_scope identity) unit_id))"

definition evidence_get :: "identity_context \<Rightarrow> uuid \<Rightarrow> company_evidence m4" where
  "evidence_get identity k = found_or missing (get_evidence (ic_scope identity) k)"

definition reviewed_evidence :: "identity_context \<Rightarrow> timestamp \<Rightarrow> company_evidence \<Rightarrow> company_evidence" where
  "reviewed_evidence identity now x =
     x\<lparr>or_review := RV_APPROVED, ce_reviewed_at := Some now, ce_reviewed_by := Some (ic_subject_id identity)\<rparr>"

definition evidence_review :: "env \<Rightarrow> identity_context \<Rightarrow> uuid \<Rightarrow> string \<Rightarrow> company_evidence m4" where
  "evidence_review env identity k request_id =
     bindS (evidence_get identity k) (\<lambda>x.
     bindS (checkS (ic_subject_id identity \<noteq> ce_created_by x) maker_checker_required) (\<lambda>_.
     bindS (clock_now env) (\<lambda>now.
     let y = reviewed_evidence identity now x in
     bindS (put_repo (upsert_evidence y)) (\<lambda>_.
     bindS (m4_audit env identity ''evidence.evidence.review'' ''CompanyEvidence'' (ce_evidence_id y) request_id
              ''EVIDENCE_REVIEWED'' (review_value (or_review y)) (ce_version_id y)) (\<lambda>_.
     ret y)))))"

definition published_evidence :: "identity_context \<Rightarrow> timestamp \<Rightarrow> company_evidence \<Rightarrow> company_evidence" where
  "published_evidence identity now x =
     x\<lparr>or_lifecycle := LC_PUBLISHED, or_validity := VS_CURRENT, or_effective_from := Some now,
       ce_published_at := Some now, ce_published_by := Some (ic_subject_id identity)\<rparr>"

definition evidence_publish :: "env \<Rightarrow> identity_context \<Rightarrow> uuid \<Rightarrow> string \<Rightarrow> company_evidence m4" where
  "evidence_publish env identity k request_id =
     bindS (evidence_get identity k) (\<lambda>x.
     bindS (checkS (or_lifecycle x = LC_DRAFT) (m4_error ''PUBLISHED_VERSION_IMMUTABLE'')) (\<lambda>_.
     bindS (checkS (or_review x = RV_APPROVED) (m4_error ''EVIDENCE_REVIEW_REQUIRED'')) (\<lambda>_.
     bindS (clock_now env) (\<lambda>now.
     let y = published_evidence identity now x in
     bindS (put_repo (upsert_evidence y)) (\<lambda>_.
     bindS (m4_audit env identity ''evidence.evidence.publish'' ''CompanyEvidence'' (ce_evidence_id y) request_id
              ''EVIDENCE_PUBLISHED'' (lifecycle_value (or_lifecycle y)) (ce_version_id y)) (\<lambda>_.
     bindS (module_emit env identity ''evidence_commercial.evidence_published.v1'' ''CompanyEvidence'' (ce_evidence_id y)
              [(''evidence_id'', JStr (uuid_str (ce_evidence_id y))),
               (''decision_unit_id'', JStr (uuid_str (ce_decision_unit_id y))),
               (''category'', JStr (category_value (ce_category y)))] request_id) (\<lambda>_.
     ret y)))))))"

definition revoked_evidence :: "identity_context \<Rightarrow> string \<Rightarrow> timestamp \<Rightarrow> company_evidence \<Rightarrow> company_evidence" where
  "revoked_evidence identity reason now x =
     x\<lparr>or_lifecycle := LC_ARCHIVED, or_validity := VS_INVALIDATED, ce_revoked_at := Some now,
       ce_revoked_by := Some (ic_subject_id identity), ce_revocation_reason := Some reason\<rparr>"

definition stale_match :: "evidence_match \<Rightarrow> evidence_match" where
  "stale_match m = m\<lparr>em_state := MATCH_UNKNOWN, em_validity := VS_STALE\<rparr>"

definition evidence_revoke :: "env \<Rightarrow> identity_context \<Rightarrow> uuid \<Rightarrow> string \<Rightarrow> string \<Rightarrow> company_evidence m4" where
  "evidence_revoke env identity k reason request_id =
     bindS (evidence_get identity k) (\<lambda>x.
     bindS (clock_now env) (\<lambda>now.
     let y = revoked_evidence identity reason now x in
     bindS (put_repo (upsert_evidence y)) (\<lambda>_.
     bindS (get_repo (list_matches (ic_scope identity) (ce_decision_unit_id x))) (\<lambda>matches.
     bindS (forS (filter (\<lambda>m. em_evidence_id m = Some k \<and> em_validity m = VS_CURRENT) matches)
              (\<lambda>m. put_repo (upsert_match (stale_match m)))) (\<lambda>_.
     bindS (m4_audit env identity ''evidence.evidence.revoke'' ''CompanyEvidence'' (ce_evidence_id y) request_id
              ''EVIDENCE_REVOKED'' (lifecycle_value (or_lifecycle y)) (ce_version_id y)) (\<lambda>_.
     bindS (module_emit env identity ''evidence_commercial.evidence_revoked.v1'' ''CompanyEvidence'' (ce_evidence_id y)
              [(''evidence_id'', JStr (uuid_str (ce_evidence_id y))),
               (''decision_unit_id'', JStr (uuid_str (ce_decision_unit_id y)))] request_id) (\<lambda>_.
     ret y)))))))"

section \<open>Matches\<close>

text \<open>The evidence a match cites: it must be there when the match is created.\<close>

definition evidence_proves :: "company_evidence option \<Rightarrow> timestamp \<Rightarrow> bool" where
  "evidence_proves e now \<longleftrightarrow> (case e of None \<Rightarrow> False | Some x \<Rightarrow> evidence_usable x now)"

definition new_match ::
  "identity_context \<Rightarrow> uuid \<Rightarrow> requirement \<Rightarrow> uuid \<Rightarrow> uuid option \<Rightarrow> match_state \<Rightarrow> string \<Rightarrow> uuid \<Rightarrow> uuid \<Rightarrow> timestamp \<Rightarrow>
   evidence_match" where
  "new_match identity unit_id requirement requirement_id evidence_id state rationale match_id version_id now =
     \<lparr>em_match_id = match_id, em_version_id = version_id, em_tenant_id = sc_tenant_id (ic_scope identity),
      em_data_domain_id = sc_data_domain_id (ic_scope identity), em_project_id = own_project identity,
      em_decision_unit_id = unit_id, em_requirement_id = requirement_id, em_evidence_id = evidence_id,
      em_state = state, em_rationale = rationale, em_original_etag = Some (qr_etag requirement),
      em_reviewed_at = None, em_reviewed_by = None, em_created_at = now, em_created_by = ic_subject_id identity,
      em_validity = VS_CURRENT\<rparr>"

definition match_create ::
  "env \<Rightarrow> identity_context \<Rightarrow> uuid \<Rightarrow> uuid \<Rightarrow> uuid option \<Rightarrow> match_state \<Rightarrow> string \<Rightarrow> string \<Rightarrow> evidence_match m4" where
  "match_create env identity unit_id requirement_id evidence_id requested rationale request_id =
     bindS (unit_allowed identity unit_id) (\<lambda>_.
     bindS (requirement_get identity requirement_id) (\<lambda>requirement.
     bindS (checkS (qr_decision_unit_id requirement = unit_id) missing) (\<lambda>_.
     bindS (clock_now env) (\<lambda>now.
     bindS (case evidence_id of
              None \<Rightarrow> ret None
            | Some k \<Rightarrow> bindS (evidence_get identity k) (\<lambda>e. ret (Some e))) (\<lambda>evidence.
     bindS (checkS (requested \<noteq> MATCH_SATISFIED \<or> evidence_proves evidence now)
              (m4_error ''EVIDENCE_SATISFIED_WITHOUT_PROOF'')) (\<lambda>_.
     let state = (if evidence_proves evidence now then requested else MATCH_UNKNOWN) in
     bindS (uuid4 env) (\<lambda>match_id.
     bindS (uuid4 env) (\<lambda>version_id.
     let x = new_match identity unit_id requirement requirement_id evidence_id state rationale match_id version_id now in
     bindS (checkS (evidence_match_valid x) ValidationError) (\<lambda>_.
     bindS (put_repo (upsert_match x)) (\<lambda>_.
     bindS (m4_audit env identity ''evidence.match.create'' ''EvidenceMatch'' (em_match_id x) request_id
              ''EVIDENCE_MATCH_CREATED'' (match_value (em_state x)) (em_version_id x)) (\<lambda>_.
     ret x)))))))))))"

definition match_list :: "identity_context \<Rightarrow> uuid \<Rightarrow> evidence_match list m4" where
  "match_list identity unit_id =
     bindS (unit_allowed identity unit_id) (\<lambda>_. get_repo (list_matches (ic_scope identity) unit_id))"

definition match_get :: "identity_context \<Rightarrow> uuid \<Rightarrow> evidence_match m4" where
  "match_get identity k = found_or missing (get_match (ic_scope identity) k)"

definition reviewed_match ::
  "identity_context \<Rightarrow> match_state \<Rightarrow> string \<Rightarrow> timestamp \<Rightarrow> evidence_match \<Rightarrow> evidence_match" where
  "reviewed_match identity state rationale now x =
     x\<lparr>em_state := state, em_rationale := rationale, em_reviewed_at := Some now,
       em_reviewed_by := Some (ic_subject_id identity), em_validity := VS_CURRENT\<rparr>"

definition match_review ::
  "env \<Rightarrow> identity_context \<Rightarrow> uuid \<Rightarrow> match_state \<Rightarrow> string \<Rightarrow> string \<Rightarrow> evidence_match m4" where
  "match_review env identity k state rationale request_id =
     bindS (match_get identity k) (\<lambda>x.
     bindS (checkS (ic_subject_id identity \<noteq> em_created_by x) maker_checker_required) (\<lambda>_.
     bindS (case em_evidence_id x of
              None \<Rightarrow> ret None
            | Some e \<Rightarrow> get_repo (get_evidence (ic_scope identity) e)) (\<lambda>evidence.
     bindS (clock_now env) (\<lambda>now.
     bindS (checkS (state \<noteq> MATCH_SATISFIED \<or> evidence_proves evidence now)
              (m4_error ''EVIDENCE_SATISFIED_WITHOUT_PROOF'')) (\<lambda>_.
     let y = reviewed_match identity state rationale now x in
     bindS (put_repo (upsert_match y)) (\<lambda>_.
     bindS (m4_audit env identity ''evidence.match.review'' ''EvidenceMatch'' (em_match_id y) request_id
              ''EVIDENCE_MATCH_REVIEWED'' (match_value (em_state y)) (em_version_id y)) (\<lambda>_.
     bindS (module_emit env identity ''evidence_commercial.evidence_match_reviewed.v1'' ''EvidenceMatch'' (em_match_id y)
              [(''match_id'', JStr (uuid_str (em_match_id y))), (''state'', JStr (match_value (em_state y)))] request_id) (\<lambda>_.
     ret y))))))))"

section \<open>Response profiles\<close>

record profile_input =
  pi_qualification_preparation :: string
  pi_technical_response :: string
  pi_service_response :: string
  pi_objective_non_price_inputs :: "(string, string) dict"
  pi_subjective_variable_intervals :: "(string, string) dict"
  pi_evidence_ids :: "uuid list"
  pi_valid_from :: timestamp
  pi_valid_to :: timestamp

definition new_profile ::
  "identity_context \<Rightarrow> uuid \<Rightarrow> profile_input \<Rightarrow> timestamp \<Rightarrow> uuid \<Rightarrow> uuid \<Rightarrow> response_profile" where
  "new_profile identity unit_id q now profile_id version_id =
     \<lparr>or_lifecycle = LC_DRAFT, or_review = RV_NOT_REQUIRED, or_validity = VS_CURRENT, or_retention = RT_RETAIN,
      or_effective_from = None, or_effective_to = None, or_superseded_by = None,
      rp_profile_id = profile_id, rp_version_id = version_id, rp_tenant_id = sc_tenant_id (ic_scope identity),
      rp_data_domain_id = sc_data_domain_id (ic_scope identity), rp_project_id = own_project identity,
      rp_decision_unit_id = unit_id, rp_qualification_preparation = pi_qualification_preparation q,
      rp_technical_response = pi_technical_response q, rp_service_response = pi_service_response q,
      rp_objective_non_price_inputs = pi_objective_non_price_inputs q,
      rp_subjective_variable_intervals = pi_subjective_variable_intervals q, rp_evidence_ids = pi_evidence_ids q,
      rp_valid_from = pi_valid_from q, rp_valid_to = pi_valid_to q, rp_created_at = now,
      rp_created_by = ic_subject_id identity, rp_published_at = None, rp_published_by = None\<rparr>"

definition profile_create :: "env \<Rightarrow> identity_context \<Rightarrow> uuid \<Rightarrow> profile_input \<Rightarrow> string \<Rightarrow> response_profile m4" where
  "profile_create env identity unit_id q request_id =
     bindS (unit_allowed identity unit_id) (\<lambda>_.
     bindS (clock_now env) (\<lambda>now.
     bindS (forS (pi_evidence_ids q) (\<lambda>k.
              bindS (evidence_get identity k) (\<lambda>e.
              checkS (evidence_usable e now) (m4_error ''RESPONSE_PROFILE_EVIDENCE_NOT_CURRENT'')))) (\<lambda>_.
     bindS (uuid4 env) (\<lambda>profile_id.
     bindS (uuid4 env) (\<lambda>version_id.
     let x = new_profile identity unit_id q now profile_id version_id in
     bindS (checkS (response_profile_valid x) ValidationError) (\<lambda>_.
     bindS (put_repo (upsert_profile x)) (\<lambda>_.
     bindS (m4_audit env identity ''evidence.profile.create'' ''CompanyResponseProfile'' (rp_profile_id x) request_id
              ''RESPONSE_PROFILE_DRAFT_CREATED'' (lifecycle_value (or_lifecycle x)) (rp_version_id x)) (\<lambda>_.
     ret x))))))))"

definition profile_list :: "identity_context \<Rightarrow> uuid \<Rightarrow> response_profile list m4" where
  "profile_list identity unit_id =
     bindS (unit_allowed identity unit_id) (\<lambda>_. get_repo (list_profiles (ic_scope identity) unit_id))"

definition profile_get :: "identity_context \<Rightarrow> uuid \<Rightarrow> response_profile m4" where
  "profile_get identity k = found_or missing (get_profile (ic_scope identity) k)"

definition published_profile :: "identity_context \<Rightarrow> timestamp \<Rightarrow> response_profile \<Rightarrow> response_profile" where
  "published_profile identity now x =
     x\<lparr>or_lifecycle := LC_PUBLISHED, or_review := RV_APPROVED, or_effective_from := Some now,
       rp_published_at := Some now, rp_published_by := Some (ic_subject_id identity)\<rparr>"

definition profile_publish :: "env \<Rightarrow> identity_context \<Rightarrow> uuid \<Rightarrow> string \<Rightarrow> response_profile m4" where
  "profile_publish env identity k request_id =
     bindS (profile_get identity k) (\<lambda>x.
     bindS (checkS (or_lifecycle x = LC_DRAFT) (m4_error ''PUBLISHED_VERSION_IMMUTABLE'')) (\<lambda>_.
     bindS (clock_now env) (\<lambda>now.
     let y = published_profile identity now x in
     bindS (put_repo (upsert_profile y)) (\<lambda>_.
     bindS (m4_audit env identity ''evidence.profile.publish'' ''CompanyResponseProfile'' (rp_profile_id y) request_id
              ''RESPONSE_PROFILE_PUBLISHED'' (lifecycle_value (or_lifecycle y)) (rp_version_id y)) (\<lambda>_.
     bindS (module_emit env identity ''evidence_commercial.response_profile_published.v1'' ''CompanyResponseProfile''
              (rp_profile_id y)
              [(''profile_id'', JStr (uuid_str (rp_profile_id y))),
               (''decision_unit_id'', JStr (uuid_str (rp_decision_unit_id y)))] request_id) (\<lambda>_.
     ret y))))))"

end
