(* ===== verification/Evidence_Prechecks.thy ===== *)
theory Evidence_Prechecks
  imports Evidence_Services
begin

text \<open>
  The conditions and the prechecks of \<open>modules/evidence/application/services.py\<close>, with the
  readiness view the commercial module reads.
\<close>

section \<open>Conditions\<close>

record condition_input =
  ci_title :: string
  ci_statement :: string
  ci_owner_id :: uuid
  ci_independent_reviewer_id :: uuid
  ci_evidence_id :: "uuid option"
  ci_due_at :: timestamp
  ci_blocking_stage :: blocking_stage

definition new_condition ::
  "identity_context \<Rightarrow> uuid \<Rightarrow> condition_input \<Rightarrow> uuid \<Rightarrow> uuid \<Rightarrow> timestamp \<Rightarrow> condition" where
  "new_condition identity unit_id q condition_id version_id now =
     \<lparr>cd_condition_id = condition_id, cd_version_id = version_id, cd_tenant_id = sc_tenant_id (ic_scope identity),
      cd_data_domain_id = sc_data_domain_id (ic_scope identity), cd_project_id = own_project identity,
      cd_decision_unit_id = unit_id, cd_title = ci_title q, cd_statement = ci_statement q, cd_state = COND_OPEN,
      cd_owner_id = ci_owner_id q, cd_independent_reviewer_id = ci_independent_reviewer_id q,
      cd_evidence_id = ci_evidence_id q, cd_due_at = ci_due_at q, cd_blocking_stage = ci_blocking_stage q,
      cd_created_at = now, cd_created_by = ic_subject_id identity, cd_closed_at = None, cd_closed_by = None,
      cd_close_reason = None\<rparr>"

definition condition_changed :: "env \<Rightarrow> identity_context \<Rightarrow> condition \<Rightarrow> string \<Rightarrow> unit m4" where
  "condition_changed env identity x request_id =
     module_emit env identity ''evidence_commercial.condition_changed.v1'' ''ConditionRequirement'' (cd_condition_id x)
       [(''condition_id'', JStr (uuid_str (cd_condition_id x))), (''state'', JStr (condition_value (cd_state x)))] request_id"

definition condition_create :: "env \<Rightarrow> identity_context \<Rightarrow> uuid \<Rightarrow> condition_input \<Rightarrow> string \<Rightarrow> condition m4" where
  "condition_create env identity unit_id q request_id =
     bindS (unit_allowed identity unit_id) (\<lambda>_.
     bindS (checkS (ci_owner_id q \<noteq> ci_independent_reviewer_id q) maker_checker_required) (\<lambda>_.
     bindS (case ci_evidence_id q of
              None \<Rightarrow> ret ()
            | Some k \<Rightarrow> bindS (evidence_get identity k) (\<lambda>_. ret ())) (\<lambda>_.
     bindS (uuid4 env) (\<lambda>condition_id.
     bindS (uuid4 env) (\<lambda>version_id.
     bindS (clock_now env) (\<lambda>now.
     let x = new_condition identity unit_id q condition_id version_id now in
     bindS (checkS (condition_valid x) ValidationError) (\<lambda>_.
     bindS (put_repo (upsert_condition x)) (\<lambda>_.
     bindS (m4_audit env identity ''evidence.condition.create'' ''ConditionRequirement'' (cd_condition_id x) request_id
              ''CONDITION_OPENED'' (condition_value (cd_state x)) (cd_version_id x)) (\<lambda>_.
     bindS (condition_changed env identity x request_id) (\<lambda>_.
     ret x))))))))))"

definition condition_list :: "identity_context \<Rightarrow> uuid \<Rightarrow> condition list m4" where
  "condition_list identity unit_id =
     bindS (unit_allowed identity unit_id) (\<lambda>_. get_repo (list_conditions (ic_scope identity) unit_id))"

text \<open>What a reader is shown: an open condition past its time is shown as expired.\<close>

definition shown_condition :: "condition \<Rightarrow> timestamp \<Rightarrow> condition" where
  "shown_condition x now =
     (if cd_state x = COND_OPEN \<and> cd_due_at x \<le> now then x\<lparr>cd_state := COND_EXPIRED\<rparr> else x)"

definition condition_get :: "env \<Rightarrow> identity_context \<Rightarrow> uuid \<Rightarrow> condition m4" where
  "condition_get env identity k =
     bindS (found_or missing (get_condition (ic_scope identity) k)) (\<lambda>x.
     bindS (clock_now env) (\<lambda>now.
     ret (shown_condition x now)))"

definition closed_condition ::
  "identity_context \<Rightarrow> condition_state \<Rightarrow> string \<Rightarrow> timestamp \<Rightarrow> condition \<Rightarrow> condition" where
  "closed_condition identity state reason now x =
     x\<lparr>cd_state := state, cd_closed_at := Some now, cd_closed_by := Some (ic_subject_id identity),
       cd_close_reason := Some reason\<rparr>"

definition transition_condition ::
  "env \<Rightarrow> identity_context \<Rightarrow> uuid \<Rightarrow> condition_state \<Rightarrow> string \<Rightarrow> string \<Rightarrow> string \<Rightarrow> condition m4" where
  "transition_condition env identity k new_state reason request_id action =
     bindS (found_or missing (get_condition (ic_scope identity) k)) (\<lambda>x.
     bindS (condition_get env identity k) (\<lambda>current.
     bindS (checkS (cd_state current = COND_OPEN) (m4_error ''CONDITION_NOT_OPEN'')) (\<lambda>_.
     bindS (clock_now env) (\<lambda>now.
     let y = closed_condition identity new_state reason now x in
     bindS (put_repo (upsert_condition y)) (\<lambda>_.
     bindS (m4_audit env identity action ''ConditionRequirement'' (cd_condition_id y) request_id
              (''CONDITION_'' @ condition_value new_state) (condition_value (cd_state y)) (cd_version_id y)) (\<lambda>_.
     bindS (condition_changed env identity y request_id) (\<lambda>_.
     ret y)))))))"

definition satisfy_condition :: "env \<Rightarrow> identity_context \<Rightarrow> uuid \<Rightarrow> string \<Rightarrow> string \<Rightarrow> condition m4" where
  "satisfy_condition env identity k reason request_id =
     transition_condition env identity k COND_SATISFIED reason request_id ''evidence.condition.satisfy''"

definition waive_condition :: "env \<Rightarrow> identity_context \<Rightarrow> uuid \<Rightarrow> string \<Rightarrow> string \<Rightarrow> condition m4" where
  "waive_condition env identity k reason request_id =
     transition_condition env identity k COND_WAIVED reason request_id ''evidence.condition.waive''"

definition fail_condition :: "env \<Rightarrow> identity_context \<Rightarrow> uuid \<Rightarrow> string \<Rightarrow> string \<Rightarrow> condition m4" where
  "fail_condition env identity k reason request_id =
     transition_condition env identity k COND_FAILED reason request_id ''evidence.condition.fail''"

definition expire_condition :: "env \<Rightarrow> identity_context \<Rightarrow> uuid \<Rightarrow> string \<Rightarrow> string \<Rightarrow> condition m4" where
  "expire_condition env identity k reason request_id =
     transition_condition env identity k COND_EXPIRED reason request_id ''evidence.condition.expire''"

section \<open>Prechecks\<close>

text \<open>
  The current matches by their requirement: of two for one requirement the later in the listing
  wins. The mandatory requirements in force, those without a match, and the states of the others.
\<close>

definition match_by_requirement :: "evidence_match list \<Rightarrow> (uuid, evidence_match) dict" where
  "match_by_requirement matches =
     dict_of em_requirement_id (\<lambda>m. m) (filter (\<lambda>m. em_validity m = VS_CURRENT) matches)"

definition published_mandatory :: "requirement list \<Rightarrow> timestamp \<Rightarrow> requirement list" where
  "published_mandatory requirements now = filter (\<lambda>x. qr_mandatory x \<and> usable_input x now) requirements"

definition unmapped :: "(uuid, evidence_match) dict \<Rightarrow> requirement list \<Rightarrow> requirement list" where
  "unmapped d mandatory = filter (\<lambda>x. dict_get d (qr_requirement_id x) = None) mandatory"

definition mapped_states :: "(uuid, evidence_match) dict \<Rightarrow> requirement list \<Rightarrow> match_state list" where
  "mapped_states d mandatory =
     map (\<lambda>x. em_state (the (dict_get d (qr_requirement_id x))))
       (filter (\<lambda>x. dict_get d (qr_requirement_id x) \<noteq> None) mandatory)"

definition evidence_coverage :: "requirement list \<Rightarrow> requirement list \<Rightarrow> match_state list \<Rightarrow> match_state" where
  "evidence_coverage unmapped_requirements mandatory states =
     (if unmapped_requirements \<noteq> [] then MATCH_UNKNOWN
      else if mandatory = [] then MATCH_UNKNOWN
      else if list_ex (\<lambda>s. s = MATCH_UNSATISFIED) states then MATCH_UNSATISFIED
      else if list_ex (\<lambda>s. s \<in> {MATCH_UNKNOWN, MATCH_PARTIAL}) states
      then (if MATCH_PARTIAL \<in> set states then MATCH_PARTIAL else MATCH_UNKNOWN)
      else MATCH_SATISFIED)"

definition profile_current :: "response_profile \<Rightarrow> timestamp \<Rightarrow> bool" where
  "profile_current x now \<longleftrightarrow> usable_input x now \<and> rp_valid_from x \<le> now \<and> now < rp_valid_to x"

definition precheck_outcome ::
  "bool option \<Rightarrow> match_state \<Rightarrow> match_state \<Rightarrow> bool \<Rightarrow> requirement list \<Rightarrow> precheck_decision" where
  "precheck_outcome rules_available coverage substantive deadline_closure mandatory =
     (if rules_available = None \<or> coverage = MATCH_UNKNOWN \<or> mandatory = [] then PRE_UNKNOWN
      else if coverage = MATCH_UNSATISFIED \<or> rules_available = Some False \<or> \<not> deadline_closure then PRE_BLOCKED
      else if coverage = MATCH_PARTIAL \<or> substantive \<noteq> MATCH_SATISFIED then PRE_CONDITIONAL
      else PRE_PASS)"

definition precheck_checks ::
  "bool option \<Rightarrow> match_state \<Rightarrow> match_state \<Rightarrow> match_state \<Rightarrow> bool \<Rightarrow> precheck_check list" where
  "precheck_checks rules_available subject substantive coverage deadline_closure =
     [\<lparr>pc_code = ''rules_available'', pc_passed = rules_available,
       pc_reason_code = (if rules_available = None then ''RULES_PORT'' else ''OK'')\<rparr>,
      \<lparr>pc_code = ''subject_qualification'', pc_passed = Some (subject = MATCH_SATISFIED),
       pc_reason_code = match_value subject\<rparr>,
      \<lparr>pc_code = ''substantive_response'', pc_passed = Some (substantive = MATCH_SATISFIED),
       pc_reason_code = match_value substantive\<rparr>,
      \<lparr>pc_code = ''evidence_coverage'', pc_passed = Some (coverage = MATCH_SATISFIED),
       pc_reason_code = match_value coverage\<rparr>,
      \<lparr>pc_code = ''deadline_closure'', pc_passed = Some deadline_closure,
       pc_reason_code = (if deadline_closure then ''OK'' else ''OPEN_CONDITIONS'')\<rparr>]"

text \<open>The assessment of one moment, from the listings of the stores and the answer of the rules port.\<close>

definition assess_precheck ::
  "identity_context \<Rightarrow> uuid \<Rightarrow> requirement list \<Rightarrow> evidence_match list \<Rightarrow> response_profile list \<Rightarrow> condition list \<Rightarrow>
   rule_set_ref option \<Rightarrow> timestamp \<Rightarrow> uuid \<Rightarrow> uuid \<Rightarrow> precheck" where
  "assess_precheck identity unit_id requirements matches profiles conditions rule_set now precheck_id version_id =
     (let d = match_by_requirement matches;
          mandatory = published_mandatory requirements now;
          open_requirements = unmapped d mandatory;
          states = mapped_states d mandatory;
          coverage = evidence_coverage open_requirements mandatory states;
          substantive = (if list_ex (\<lambda>p. profile_current p now) profiles then MATCH_SATISFIED else MATCH_UNKNOWN);
          subject = (if states \<noteq> [] \<and> list_all (\<lambda>s. s = MATCH_SATISFIED) states then MATCH_SATISFIED else coverage);
          rules_available = map_option (\<lambda>r. rs_supported r \<and> rs_current r) rule_set;
          open_blocking = map cd_condition_id (filter (\<lambda>c. condition_is_blocking c now) conditions);
          deadline_closure = (open_blocking = [])
      in \<lparr>pk_precheck_id = precheck_id, pk_version_id = version_id, pk_tenant_id = sc_tenant_id (ic_scope identity),
          pk_data_domain_id = sc_data_domain_id (ic_scope identity), pk_project_id = own_project identity,
          pk_decision_unit_id = unit_id,
          pk_decision = precheck_outcome rules_available coverage substantive deadline_closure mandatory,
          pk_validity = VS_CURRENT, pk_rules_available = rules_available, pk_subject_qualification = subject,
          pk_substantive_response = substantive, pk_evidence_coverage = coverage,
          pk_deadline_closure = Some deadline_closure, pk_unmapped_mandatory_count = length open_requirements,
          pk_condition_ids = open_blocking,
          pk_checks = precheck_checks rules_available subject substantive coverage deadline_closure,
          pk_created_at = now, pk_created_by = ic_subject_id identity\<rparr>)"

definition precheck_create :: "env \<Rightarrow> m4_ports \<Rightarrow> identity_context \<Rightarrow> uuid \<Rightarrow> string \<Rightarrow> precheck m4" where
  "precheck_create env ports identity unit_id request_id =
     bindS (unit_allowed identity unit_id) (\<lambda>_.
     bindS (clock_now env) (\<lambda>now.
     bindS (get_repo (list_requirements (ic_scope identity) unit_id)) (\<lambda>requirements.
     bindS (get_repo (list_matches (ic_scope identity) unit_id)) (\<lambda>matches.
     bindS (get_repo (list_profiles (ic_scope identity) unit_id)) (\<lambda>profiles.
     bindS (get_repo (list_conditions (ic_scope identity) unit_id)) (\<lambda>conditions.
     bindS (asked (pt_rules ports) (ic_scope identity) unit_id) (\<lambda>rule_set.
     bindS (uuid4 env) (\<lambda>precheck_id.
     bindS (uuid4 env) (\<lambda>version_id.
     let x = assess_precheck identity unit_id requirements matches profiles conditions rule_set now precheck_id version_id in
     bindS (put_repo (upsert_precheck x)) (\<lambda>_.
     bindS (m4_audit env identity ''evidence.precheck.create'' ''PrecheckAssessment'' (pk_precheck_id x) request_id
              ''PRECHECK_ASSESSED'' (precheck_value (pk_decision x)) (pk_version_id x)) (\<lambda>_.
     bindS (module_emit env identity ''evidence_commercial.precheck_assessed.v1'' ''PrecheckAssessment'' (pk_precheck_id x)
              [(''precheck_id'', JStr (uuid_str (pk_precheck_id x))), (''decision'', JStr (precheck_value (pk_decision x))),
               (''unmapped_mandatory_count'', JInt (int (pk_unmapped_mandatory_count x)))] request_id) (\<lambda>_.
     ret x))))))))))))"

definition precheck_list :: "identity_context \<Rightarrow> uuid \<Rightarrow> precheck list m4" where
  "precheck_list identity unit_id =
     bindS (unit_allowed identity unit_id) (\<lambda>_. get_repo (list_prechecks (ic_scope identity) unit_id))"

definition precheck_get :: "identity_context \<Rightarrow> uuid \<Rightarrow> precheck m4" where
  "precheck_get identity k = found_or missing (get_precheck (ic_scope identity) k)"

section \<open>The readiness view\<close>

text \<open>The last current precheck of the listing.\<close>

definition current_precheck :: "precheck list \<Rightarrow> precheck option" where
  "current_precheck prechecks = first_of (filter (\<lambda>x. pk_validity x = VS_CURRENT) (rev prechecks))"

definition evidence_view_of ::
  "precheck list \<Rightarrow> response_profile list \<Rightarrow> condition list \<Rightarrow> timestamp \<Rightarrow> evidence_view" where
  "evidence_view_of prechecks profiles conditions now =
     (let current = current_precheck prechecks
      in \<lparr>vw_precheck_decision = map_option pk_decision current, vw_precheck_validity = map_option pk_validity current,
          vw_response_profile_current = list_ex (\<lambda>p. profile_current p now) profiles,
          vw_subject_qualification = map_option pk_subject_qualification current,
          vw_unmapped_mandatory_count = (case current of None \<Rightarrow> 0 | Some x \<Rightarrow> pk_unmapped_mandatory_count x),
          vw_open_blocking_condition_count = length (filter (\<lambda>c. condition_is_blocking c now) conditions)\<rparr>)"

definition readiness_view :: "env \<Rightarrow> tenant_scope \<Rightarrow> uuid \<Rightarrow> evidence_view m4" where
  "readiness_view env scope unit_id =
     bindS (clock_now env) (\<lambda>now.
     bindS (get_repo (list_prechecks scope unit_id)) (\<lambda>prechecks.
     bindS (get_repo (list_profiles scope unit_id)) (\<lambda>profiles.
     bindS (get_repo (list_conditions scope unit_id)) (\<lambda>conditions.
     ret (evidence_view_of prechecks profiles conditions now)))))"

text \<open>The view used when no evidence module is wired.\<close>

definition empty_evidence_readiness :: "tenant_scope \<Rightarrow> uuid \<Rightarrow> evidence_view m4" where
  "empty_evidence_readiness scope unit_id =
     ret \<lparr>vw_precheck_decision = None, vw_precheck_validity = None, vw_response_profile_current = False,
       vw_subject_qualification = None, vw_unmapped_mandatory_count = 0, vw_open_blocking_condition_count = 0\<rparr>"

end
