(* ===== verification/Commercial_Services.thy ===== *)
theory Commercial_Services
  imports Evidence_Prechecks
begin

text \<open>
  The service of \<open>modules/commercial/application/services.py\<close>: cost baselines, commercial
  policies, and the readiness assessment, which asks the evidence module and the market port.
\<close>

section \<open>Cost baselines\<close>

record cost_input =
  co_currency :: string
  co_tax_mode :: tax_mode
  co_input_vat :: money
  co_cycle :: string
  co_delivery_cost :: money
  co_post_award_cost :: money
  co_bid_preparation_cost :: money
  co_cashflow_in :: money
  co_cashflow_out :: money

definition new_cost :: "identity_context \<Rightarrow> uuid \<Rightarrow> cost_input \<Rightarrow> uuid \<Rightarrow> uuid \<Rightarrow> timestamp \<Rightarrow> cost_baseline" where
  "new_cost identity unit_id q cost_id version_id now =
     \<lparr>or_lifecycle = LC_DRAFT, or_review = RV_PENDING, or_validity = VS_CURRENT, or_retention = RT_RETAIN,
      or_effective_from = None, or_effective_to = None, or_superseded_by = None,
      cb_cost_baseline_id = cost_id, cb_version_id = version_id, cb_tenant_id = sc_tenant_id (ic_scope identity),
      cb_data_domain_id = sc_data_domain_id (ic_scope identity), cb_project_id = own_project identity,
      cb_decision_unit_id = unit_id, cb_currency = co_currency q, cb_tax_mode = co_tax_mode q,
      cb_input_vat = co_input_vat q, cb_cycle = co_cycle q, cb_delivery_cost = co_delivery_cost q,
      cb_post_award_cost = co_post_award_cost q, cb_bid_preparation_cost = co_bid_preparation_cost q,
      cb_cashflow_in = co_cashflow_in q, cb_cashflow_out = co_cashflow_out q, cb_created_at = now,
      cb_created_by = ic_subject_id identity, cb_approved_at = None, cb_approved_by = None, cb_published_at = None,
      cb_published_by = None, cb_exploration_only = True\<rparr>"

definition cost_create :: "env \<Rightarrow> identity_context \<Rightarrow> uuid \<Rightarrow> cost_input \<Rightarrow> string \<Rightarrow> cost_baseline m4" where
  "cost_create env identity unit_id q request_id =
     bindS (unit_allowed identity unit_id) (\<lambda>_.
     bindS (uuid4 env) (\<lambda>cost_id.
     bindS (uuid4 env) (\<lambda>version_id.
     bindS (clock_now env) (\<lambda>now.
     let x = new_cost identity unit_id q cost_id version_id now in
     bindS (checkS (cost_baseline_valid x) ValidationError) (\<lambda>_.
     bindS (put_repo (upsert_cost x)) (\<lambda>_.
     bindS (m4_audit env identity ''commercial.cost.create'' ''CostBaseline'' (cb_cost_baseline_id x) request_id
              ''COST_DRAFT_CREATED'' ''EXPLORATION_ONLY'' (cb_version_id x)) (\<lambda>_.
     ret x)))))))"

definition cost_list :: "identity_context \<Rightarrow> uuid \<Rightarrow> cost_baseline list m4" where
  "cost_list identity unit_id =
     bindS (unit_allowed identity unit_id) (\<lambda>_. get_repo (list_costs (ic_scope identity) unit_id))"

definition cost_get :: "identity_context \<Rightarrow> uuid \<Rightarrow> cost_baseline m4" where
  "cost_get identity k = found_or missing (get_cost (ic_scope identity) k)"

definition approved_cost :: "identity_context \<Rightarrow> timestamp \<Rightarrow> cost_baseline \<Rightarrow> cost_baseline" where
  "approved_cost identity now x =
     x\<lparr>or_review := RV_APPROVED, cb_approved_at := Some now, cb_approved_by := Some (ic_subject_id identity)\<rparr>"

definition cost_approve :: "env \<Rightarrow> identity_context \<Rightarrow> uuid \<Rightarrow> string \<Rightarrow> cost_baseline m4" where
  "cost_approve env identity k request_id =
     bindS (cost_get identity k) (\<lambda>x.
     bindS (checkS (ic_subject_id identity \<noteq> cb_created_by x) maker_checker_required) (\<lambda>_.
     bindS (checkS (cb_approved_by x = None) (m4_error ''COST_ALREADY_APPROVED'')) (\<lambda>_.
     bindS (clock_now env) (\<lambda>now.
     let y = approved_cost identity now x in
     bindS (put_repo (upsert_cost y)) (\<lambda>_.
     bindS (m4_audit env identity ''commercial.cost.approve'' ''CostBaseline'' (cb_cost_baseline_id y) request_id
              ''COST_APPROVED'' (review_value (or_review y)) (cb_version_id y)) (\<lambda>_.
     ret y))))))"

definition published_cost :: "identity_context \<Rightarrow> timestamp \<Rightarrow> cost_baseline \<Rightarrow> cost_baseline" where
  "published_cost identity now x =
     x\<lparr>or_lifecycle := LC_PUBLISHED, or_validity := VS_CURRENT, or_effective_from := Some now,
       cb_published_at := Some now, cb_published_by := Some (ic_subject_id identity), cb_exploration_only := False\<rparr>"

definition cost_publish :: "env \<Rightarrow> identity_context \<Rightarrow> uuid \<Rightarrow> string \<Rightarrow> cost_baseline m4" where
  "cost_publish env identity k request_id =
     bindS (cost_get identity k) (\<lambda>x.
     bindS (checkS (or_review x = RV_APPROVED \<and> cb_approved_by x \<noteq> None) (m4_error ''COST_NOT_APPROVED'')) (\<lambda>_.
     bindS (checkS (or_lifecycle x = LC_DRAFT) (m4_error ''PUBLISHED_VERSION_IMMUTABLE'')) (\<lambda>_.
     bindS (clock_now env) (\<lambda>now.
     let y = published_cost identity now x in
     bindS (put_repo (upsert_cost y)) (\<lambda>_.
     bindS (m4_audit env identity ''commercial.cost.publish'' ''CostBaseline'' (cb_cost_baseline_id y) request_id
              ''COST_PUBLISHED'' (lifecycle_value (or_lifecycle y)) (cb_version_id y)) (\<lambda>_.
     bindS (module_emit env identity ''evidence_commercial.cost_baseline_published.v1'' ''CostBaseline''
              (cb_cost_baseline_id y)
              [(''cost_baseline_id'', JStr (uuid_str (cb_cost_baseline_id y))),
               (''decision_unit_id'', JStr (uuid_str (cb_decision_unit_id y))),
               (''currency'', JStr (cb_currency y))] request_id) (\<lambda>_.
     ret y)))))))"

section \<open>Commercial policies\<close>

record policy_input =
  pl_profit_floor :: string
  pl_cashflow_constraint :: string
  pl_capacity_constraint :: string
  pl_risk_threshold :: string
  pl_coverage_ratio :: string
  pl_min_award_quality :: string
  pl_objective_weights :: "(string, string) dict"
  pl_merge_tolerance :: string
  pl_exception_authority :: string

definition new_policy :: "identity_context \<Rightarrow> uuid \<Rightarrow> policy_input \<Rightarrow> uuid \<Rightarrow> uuid \<Rightarrow> timestamp \<Rightarrow> commercial_policy" where
  "new_policy identity unit_id q policy_id version_id now =
     \<lparr>or_lifecycle = LC_DRAFT, or_review = RV_PENDING, or_validity = VS_CURRENT, or_retention = RT_RETAIN,
      or_effective_from = None, or_effective_to = None, or_superseded_by = None,
      cp_policy_id = policy_id, cp_version_id = version_id, cp_tenant_id = sc_tenant_id (ic_scope identity),
      cp_data_domain_id = sc_data_domain_id (ic_scope identity), cp_project_id = own_project identity,
      cp_decision_unit_id = unit_id, cp_profit_floor = pl_profit_floor q,
      cp_cashflow_constraint = pl_cashflow_constraint q, cp_capacity_constraint = pl_capacity_constraint q,
      cp_risk_threshold = pl_risk_threshold q, cp_coverage_ratio = pl_coverage_ratio q,
      cp_min_award_quality = pl_min_award_quality q, cp_objective_weights = pl_objective_weights q,
      cp_merge_tolerance = pl_merge_tolerance q, cp_exception_authority = pl_exception_authority q,
      cp_created_at = now, cp_created_by = ic_subject_id identity, cp_published_at = None, cp_published_by = None\<rparr>"

definition policy_create :: "env \<Rightarrow> identity_context \<Rightarrow> uuid \<Rightarrow> policy_input \<Rightarrow> string \<Rightarrow> commercial_policy m4" where
  "policy_create env identity unit_id q request_id =
     bindS (unit_allowed identity unit_id) (\<lambda>_.
     bindS (uuid4 env) (\<lambda>policy_id.
     bindS (uuid4 env) (\<lambda>version_id.
     bindS (clock_now env) (\<lambda>now.
     let x = new_policy identity unit_id q policy_id version_id now in
     bindS (checkS (commercial_policy_valid x) ValidationError) (\<lambda>_.
     bindS (put_repo (upsert_policy x)) (\<lambda>_.
     bindS (m4_audit env identity ''commercial.policy.create'' ''CommercialPolicy'' (cp_policy_id x) request_id
              ''POLICY_DRAFT_CREATED'' (lifecycle_value (or_lifecycle x)) (cp_version_id x)) (\<lambda>_.
     ret x)))))))"

definition policy_list :: "identity_context \<Rightarrow> uuid \<Rightarrow> commercial_policy list m4" where
  "policy_list identity unit_id =
     bindS (unit_allowed identity unit_id) (\<lambda>_. get_repo (list_policies (ic_scope identity) unit_id))"

definition policy_get :: "identity_context \<Rightarrow> uuid \<Rightarrow> commercial_policy m4" where
  "policy_get identity k = found_or missing (get_policy (ic_scope identity) k)"

definition published_policy :: "identity_context \<Rightarrow> timestamp \<Rightarrow> commercial_policy \<Rightarrow> commercial_policy" where
  "published_policy identity now x =
     x\<lparr>or_lifecycle := LC_PUBLISHED, or_review := RV_APPROVED, or_effective_from := Some now,
       cp_published_at := Some now, cp_published_by := Some (ic_subject_id identity)\<rparr>"

definition policy_publish :: "env \<Rightarrow> identity_context \<Rightarrow> uuid \<Rightarrow> string \<Rightarrow> commercial_policy m4" where
  "policy_publish env identity k request_id =
     bindS (policy_get identity k) (\<lambda>x.
     bindS (checkS (or_lifecycle x = LC_DRAFT) (m4_error ''PUBLISHED_VERSION_IMMUTABLE'')) (\<lambda>_.
     bindS (clock_now env) (\<lambda>now.
     let y = published_policy identity now x in
     bindS (put_repo (upsert_policy y)) (\<lambda>_.
     bindS (m4_audit env identity ''commercial.policy.publish'' ''CommercialPolicy'' (cp_policy_id y) request_id
              ''POLICY_PUBLISHED'' (lifecycle_value (or_lifecycle y)) (cp_version_id y)) (\<lambda>_.
     bindS (module_emit env identity ''evidence_commercial.commercial_policy_published.v1'' ''CommercialPolicy''
              (cp_policy_id y)
              [(''policy_id'', JStr (uuid_str (cp_policy_id y))),
               (''decision_unit_id'', JStr (uuid_str (cp_decision_unit_id y)))] request_id) (\<lambda>_.
     ret y))))))"

section \<open>Readiness\<close>

definition ready_item :: "string \<Rightarrow> readiness_decision \<Rightarrow> string \<Rightarrow> bool \<Rightarrow> readiness_item" where
  "ready_item code decision reason commercial =
     \<lparr>rt_code = code, rt_decision = decision, rt_reason_code = reason, rt_commercial_not_procurement = commercial\<rparr>"

definition precheck_items :: "precheck_decision option \<Rightarrow> readiness_item list" where
  "precheck_items d =
     (let both = (\<lambda>decision reason. [ready_item ''rules'' decision reason False, ready_item ''precheck'' decision reason False])
      in case d of
           None \<Rightarrow> both RD_UNKNOWN ''PRECHECK_MISSING''
         | Some PRE_PASS \<Rightarrow> both RD_READY ''PRECHECK_PASS''
         | Some PRE_CONDITIONAL \<Rightarrow> both RD_CONDITIONAL ''PRECHECK_CONDITIONAL''
         | Some PRE_BLOCKED \<Rightarrow> both RD_NOT_READY ''PRECHECK_BLOCKED''
         | Some PRE_UNKNOWN \<Rightarrow> both RD_UNKNOWN ''PRECHECK_UNKNOWN'')"

definition response_item :: "bool \<Rightarrow> readiness_item" where
  "response_item current =
     ready_item ''response'' (if current then RD_READY else RD_NOT_READY)
       (if current then ''RESPONSE_CURRENT'' else ''RESPONSE_MISSING'') False"

definition cost_item :: "cost_baseline list \<Rightarrow> timestamp \<Rightarrow> readiness_item" where
  "cost_item costs now =
     (if list_ex (\<lambda>x. usable_input x now) (rev costs) then ready_item ''cost'' RD_READY ''COST_PUBLISHED'' True
      else if list_ex cb_exploration_only (rev costs) then ready_item ''cost'' RD_NOT_READY ''COST_EXPLORATION_ONLY'' True
      else ready_item ''cost'' RD_UNKNOWN ''COST_MISSING'' True)"

definition policy_item :: "commercial_policy list \<Rightarrow> timestamp \<Rightarrow> readiness_item" where
  "policy_item policies now =
     (let current = list_ex (\<lambda>x. usable_input x now) (rev policies)
      in ready_item ''policy'' (if current then RD_READY else RD_NOT_READY)
           (if current then ''POLICY_PUBLISHED'' else ''POLICY_MISSING'') True)"

definition market_items :: "market_view option \<Rightarrow> readiness_item list" where
  "market_items view =
     (case view of
        None \<Rightarrow>
          map (\<lambda>code. ready_item code RD_UNKNOWN ''MARKET_PORT_UNAVAILABLE'' False) [''market'', ''data_use'', ''model'']
      | Some m \<Rightarrow>
          [ready_item ''market'' (if mk_prior_current m then RD_READY else RD_NOT_READY)
             (if mk_pressure_only m then ''PRESSURE_ONLY'' else ''MARKET_PRIOR_CURRENT'') False,
           ready_item ''data_use'' (if mk_data_use_authorized m then RD_READY else RD_NOT_READY)
             (if mk_data_use_authorized m then ''DATA_USE_OK'' else ''DATA_USE_BLOCKED'') False,
           ready_item ''model'' (if mk_model_protocol_current m then RD_READY else RD_NOT_READY)
             (if mk_model_protocol_current m then ''MODEL_PROTOCOL_CURRENT'' else ''MODEL_PROTOCOL_MISSING'') False])"

definition readiness_items ::
  "evidence_view \<Rightarrow> market_view option \<Rightarrow> cost_baseline list \<Rightarrow> commercial_policy list \<Rightarrow> timestamp \<Rightarrow> readiness_item list" where
  "readiness_items evidence market costs policies now =
     precheck_items (vw_precheck_decision evidence) @
     [response_item (vw_response_profile_current evidence), cost_item costs now, policy_item policies now] @
     market_items market @
     [ready_item ''scenario_protocol'' RD_UNKNOWN ''SCENARIO_PORT_MEMBER_6'' False]"

definition readiness_outcome :: "readiness_item list \<Rightarrow> readiness_decision" where
  "readiness_outcome items =
     (let decisions = set (map rt_decision items)
      in if RD_UNKNOWN \<in> decisions \<and> RD_NOT_READY \<notin> decisions then RD_UNKNOWN
         else if RD_NOT_READY \<in> decisions then RD_NOT_READY
         else if RD_CONDITIONAL \<in> decisions then RD_CONDITIONAL
         else RD_READY)"

definition new_readiness ::
  "identity_context \<Rightarrow> uuid \<Rightarrow> readiness_item list \<Rightarrow> timestamp \<Rightarrow> uuid \<Rightarrow> uuid \<Rightarrow> readiness" where
  "new_readiness identity unit_id items now readiness_id version_id =
     (let overall = readiness_outcome items
      in \<lparr>rd_readiness_id = readiness_id, rd_version_id = version_id, rd_tenant_id = sc_tenant_id (ic_scope identity),
          rd_data_domain_id = sc_data_domain_id (ic_scope identity), rd_project_id = own_project identity,
          rd_decision_unit_id = unit_id, rd_decision = overall, rd_validity = VS_CURRENT, rd_items = items,
          rd_created_at = now, rd_created_by = ic_subject_id identity,
          rd_exploration_watermark = (overall \<noteq> RD_READY)\<rparr>)"

text \<open>The evidence port is an argument: \<open>readiness_view env\<close> when the evidence module is wired.\<close>

definition readiness_create ::
  "env \<Rightarrow> m4_ports \<Rightarrow> (tenant_scope \<Rightarrow> uuid \<Rightarrow> evidence_view m4) \<Rightarrow> identity_context \<Rightarrow> uuid \<Rightarrow> string \<Rightarrow> readiness m4" where
  "readiness_create env ports evidence_port identity unit_id request_id =
     bindS (unit_allowed identity unit_id) (\<lambda>_.
     bindS (clock_now env) (\<lambda>now.
     bindS (evidence_port (ic_scope identity) unit_id) (\<lambda>evidence.
     bindS (asked (pt_market ports) (ic_scope identity) unit_id) (\<lambda>market.
     bindS (get_repo (list_costs (ic_scope identity) unit_id)) (\<lambda>costs.
     bindS (get_repo (list_policies (ic_scope identity) unit_id)) (\<lambda>policies.
     bindS (uuid4 env) (\<lambda>readiness_id.
     bindS (uuid4 env) (\<lambda>version_id.
     let x = new_readiness identity unit_id (readiness_items evidence market costs policies now) now readiness_id version_id in
     bindS (put_repo (upsert_readiness x)) (\<lambda>_.
     bindS (m4_audit env identity ''commercial.readiness.create'' ''StrategyReadinessAssessment'' (rd_readiness_id x)
              request_id ''READINESS_ASSESSED'' (readiness_value (rd_decision x)) (rd_version_id x)) (\<lambda>_.
     bindS (module_emit env identity ''evidence_commercial.readiness_assessed.v1'' ''StrategyReadinessAssessment''
              (rd_readiness_id x)
              [(''readiness_id'', JStr (uuid_str (rd_readiness_id x))),
               (''decision'', JStr (readiness_value (rd_decision x))),
               (''exploration_watermark'', JBool (rd_exploration_watermark x))] request_id) (\<lambda>_.
     ret x)))))))))))"

definition readiness_list :: "identity_context \<Rightarrow> uuid \<Rightarrow> readiness list m4" where
  "readiness_list identity unit_id =
     bindS (unit_allowed identity unit_id) (\<lambda>_. get_repo (list_readiness (ic_scope identity) unit_id))"

definition readiness_get :: "identity_context \<Rightarrow> uuid \<Rightarrow> readiness m4" where
  "readiness_get identity k = found_or missing (get_readiness (ic_scope identity) k)"

section \<open>Histories\<close>

text \<open>One call of either service, as it is wired in the process.\<close>

datatype m4_call =
    CreateRequirement identity_context uuid requirement_input string
  | UpdateRequirement identity_context uuid string string bool string string
  | PublishRequirement identity_context uuid string
  | SupersedeRequirement identity_context uuid string
  | CreateEvidence identity_context uuid evidence_input string
  | ReviewEvidence identity_context uuid string
  | PublishEvidence identity_context uuid string
  | RevokeEvidence identity_context uuid string string
  | CreateMatch identity_context uuid uuid "uuid option" match_state string string
  | ReviewMatch identity_context uuid match_state string string
  | CreateProfile identity_context uuid profile_input string
  | PublishProfile identity_context uuid string
  | CreateCondition identity_context uuid condition_input string
  | GetCondition identity_context uuid
  | SatisfyCondition identity_context uuid string string
  | WaiveCondition identity_context uuid string string
  | FailCondition identity_context uuid string string
  | ExpireCondition identity_context uuid string string
  | CreatePrecheck identity_context uuid string
  | CreateCost identity_context uuid cost_input string
  | ApproveCost identity_context uuid string
  | PublishCost identity_context uuid string
  | CreatePolicy identity_context uuid policy_input string
  | PublishPolicy identity_context uuid string
  | CreateReadiness identity_context uuid string

primrec run_m4 :: "env \<Rightarrow> m4_ports \<Rightarrow> m4_call \<Rightarrow> unit m4" where
  "run_m4 env p (CreateRequirement i u q rid) = as_unit (requirement_create env p i u q rid)"
| "run_m4 env p (UpdateRequirement i k t s m tag rid) = as_unit (requirement_update_draft env i k t s m tag rid)"
| "run_m4 env p (PublishRequirement i k rid) = as_unit (requirement_publish env i k rid)"
| "run_m4 env p (SupersedeRequirement i k rid) = as_unit (requirement_supersede env i k rid)"
| "run_m4 env p (CreateEvidence i u q rid) = as_unit (evidence_create env p i u q rid)"
| "run_m4 env p (ReviewEvidence i k rid) = as_unit (evidence_review env i k rid)"
| "run_m4 env p (PublishEvidence i k rid) = as_unit (evidence_publish env i k rid)"
| "run_m4 env p (RevokeEvidence i k reason rid) = as_unit (evidence_revoke env i k reason rid)"
| "run_m4 env p (CreateMatch i u r e s t rid) = as_unit (match_create env i u r e s t rid)"
| "run_m4 env p (ReviewMatch i k s t rid) = as_unit (match_review env i k s t rid)"
| "run_m4 env p (CreateProfile i u q rid) = as_unit (profile_create env i u q rid)"
| "run_m4 env p (PublishProfile i k rid) = as_unit (profile_publish env i k rid)"
| "run_m4 env p (CreateCondition i u q rid) = as_unit (condition_create env i u q rid)"
| "run_m4 env p (GetCondition i k) = as_unit (condition_get env i k)"
| "run_m4 env p (SatisfyCondition i k reason rid) = as_unit (satisfy_condition env i k reason rid)"
| "run_m4 env p (WaiveCondition i k reason rid) = as_unit (waive_condition env i k reason rid)"
| "run_m4 env p (FailCondition i k reason rid) = as_unit (fail_condition env i k reason rid)"
| "run_m4 env p (ExpireCondition i k reason rid) = as_unit (expire_condition env i k reason rid)"
| "run_m4 env p (CreatePrecheck i u rid) = as_unit (precheck_create env p i u rid)"
| "run_m4 env p (CreateCost i u q rid) = as_unit (cost_create env i u q rid)"
| "run_m4 env p (ApproveCost i k rid) = as_unit (cost_approve env i k rid)"
| "run_m4 env p (PublishCost i k rid) = as_unit (cost_publish env i k rid)"
| "run_m4 env p (CreatePolicy i u q rid) = as_unit (policy_create env i u q rid)"
| "run_m4 env p (PublishPolicy i k rid) = as_unit (policy_publish env i k rid)"
| "run_m4 env p (CreateReadiness i u rid) = as_unit (readiness_create env p (readiness_view env) i u rid)"

definition m4_after :: "env \<Rightarrow> m4_ports \<Rightarrow> m4_call list \<Rightarrow> m4_repo world \<Rightarrow> m4_repo world" where
  "m4_after env p cs w = history (run_m4 env p) cs (w\<lparr>w_repo := empty_m4\<rparr>)"

end
