(* ===== verification/M4_Invariants.thy ===== *)
theory M4_Invariants
  imports Commercial_Services
begin

text \<open>
  What every stored object of the evidence and commercial modules satisfies, and that every
  operation of the two services keeps it.
\<close>

section \<open>The shared helpers\<close>

lemma quiet_m4_helpers [simp]:
  "quiet (m4_audit env i a b k q rc oc v)" "quiet (asked port scope k)" "quiet (released_document ports i d)"
  "quiet (condition_changed env i x q)" "quiet (requirement_get i k)" "quiet (evidence_get i k)" "quiet (match_get i k)"
  "quiet (profile_get i k)" "quiet (condition_get env i k)" "quiet (cost_get i k)" "quiet (policy_get i k)"
  "quiet (readiness_view env scope u)"
  by (auto simp: m4_audit_def asked_def released_document_def condition_changed_def requirement_get_def evidence_get_def
      match_get_def profile_get_def condition_get_def cost_get_def policy_get_def readiness_view_def split: option.split)

lemma quiet_keeps: "quiet m \<Longrightarrow> keeps I (\<lambda>_. True) m"
  by (auto simp: keeps_def later_def intro: wp_quiet)

lemmas keeps_m4_helpers =
  quiet_keeps [OF quiet_m4_helpers(1)] quiet_keeps [OF quiet_m4_helpers(2)] quiet_keeps [OF quiet_m4_helpers(4)]

lemma keeps_asked: "keeps I (\<lambda>_. True) (asked port scope k)"
  by (rule quiet_keeps) simp

lemma quiet_forS: "(\<And>x. quiet (f x)) \<Longrightarrow> quiet (forS xs f)"
  by (induction xs) (auto intro: quiet_bindS)

lemma keeps_for_puts:
  assumes "\<And>x r. x \<in> set xs \<Longrightarrow> I r \<Longrightarrow> I (g x r)" and "\<And>u. keeps I Q (f u)"
  shows "keeps I Q (bindS (forS xs (\<lambda>x. put_repo (g x))) f)"
  by (rule keeps_bindS [OF keeps_forS [where P = "\<lambda>_. True"]]) (use assms in \<open>auto intro: keeps_put\<close>)

text \<open>A document that a port released has a content hash.\<close>

lemma keeps_released: "keeps I (\<lambda>r. optional (\<lambda>x. is_hash (lr_content_hash x)) r \<and> (d = None \<longrightarrow> r = None)) (released_document ports i d)"
proof (cases d)
  case (Some k)
  have "optional (\<lambda>x. is_hash (lr_content_hash x)) (as_released_ref v)" for v
    by (auto simp: optional_def as_released_ref_def split: option.splits prod.splits if_splits)
  then have "optional (\<lambda>x. is_hash (lr_content_hash x)) (case v of None \<Rightarrow> None | Some v \<Rightarrow> as_released_ref v)" for v
    by (cases v) (simp_all add: optional_def)
  with Some show ?thesis
    by (simp add: released_document_def) (intro keeps_bindS [OF keeps_asked] keeps_ret; simp)
qed (simp add: released_document_def optional_def keeps_ret)

lemmas keeps_m4_steps =
  keeps_module_steps keeps_m4_helpers [THEN keeps_bindS] keeps_released [THEN keeps_bindS]

section \<open>What is stored\<close>

text \<open>
  The checks of a model are repeated whenever an object is built, but not when a stored one is
  copied with changes: the title and the statement of an updated requirement, the rationale of a
  reviewed match, and the reasons given with a revocation or for closing a condition are written
  as they come. What is left of the checks is part of what follows.
\<close>

definition requirement_sound :: "requirement \<Rightarrow> bool" where
  "requirement_sound x \<longleftrightarrow>
     or_lifecycle x \<in> {LC_DRAFT, LC_PUBLISHED} \<and> or_retention x = RT_RETAIN \<and> or_effective_to x = None \<and>
     (or_lifecycle x = LC_DRAFT \<longrightarrow> or_review x = RV_PENDING \<and> qr_published_by x = None) \<and>
     (or_lifecycle x = LC_PUBLISHED \<longrightarrow> or_review x = RV_APPROVED \<and> qr_published_by x \<noteq> None) \<and>
     (or_validity x = VS_CURRENT \<or> or_validity x = VS_STALE \<and> or_superseded_by x \<noteq> None) \<and>
     optional (text_between 0 40) (qr_source_page x) \<and> optional (text_between 0 120) (qr_source_section x)"

definition evidence_sound :: "company_evidence \<Rightarrow> bool" where
  "evidence_sound x \<longleftrightarrow>
     company_evidence_valid (x\<lparr>ce_revocation_reason := None\<rparr>) \<and>
     (ce_source_document_id x = None \<longleftrightarrow> ce_content_hash x = None) \<and>
     or_lifecycle x \<in> {LC_DRAFT, LC_PUBLISHED, LC_ARCHIVED} \<and>
     (or_review x = RV_PENDING \<and> ce_reviewed_by x = None \<or>
      or_review x = RV_APPROVED \<and> (\<exists>r. ce_reviewed_by x = Some r \<and> r \<noteq> ce_created_by x)) \<and>
     (or_lifecycle x = LC_PUBLISHED \<longrightarrow> or_review x = RV_APPROVED) \<and>
     (if or_lifecycle x = LC_ARCHIVED then or_validity x = VS_INVALIDATED \<and> ce_revoked_by x \<noteq> None
      else or_validity x = VS_CURRENT \<and> ce_revoked_by x = None)"

definition match_sound :: "evidence_match \<Rightarrow> bool" where
  "match_sound x \<longleftrightarrow>
     (em_validity x = VS_CURRENT \<or> em_validity x = VS_STALE \<and> em_state x = MATCH_UNKNOWN) \<and>
     (em_state x = MATCH_SATISFIED \<longrightarrow> em_evidence_id x \<noteq> None) \<and>
     optional (text_between 0 66) (em_original_etag x) \<and>
     em_reviewed_by x \<noteq> Some (em_created_by x)"

definition profile_sound :: "response_profile \<Rightarrow> bool" where
  "profile_sound x \<longleftrightarrow>
     response_profile_valid x \<and>
     (or_lifecycle x = LC_DRAFT \<and> or_review x = RV_NOT_REQUIRED \<and> rp_published_by x = None \<or>
      or_lifecycle x = LC_PUBLISHED \<and> or_review x = RV_APPROVED \<and> rp_published_by x \<noteq> None)"

definition precheck_sound :: "precheck \<Rightarrow> bool" where
  "precheck_sound x \<longleftrightarrow>
     (pk_decision x = PRE_PASS \<longleftrightarrow>
        pk_rules_available x = Some True \<and> pk_evidence_coverage x = MATCH_SATISFIED \<and>
        pk_substantive_response x = MATCH_SATISFIED \<and> pk_deadline_closure x = Some True) \<and>
     (pk_deadline_closure x = Some True \<longleftrightarrow> pk_condition_ids x = []) \<and>
     (pk_unmapped_mandatory_count x \<noteq> 0 \<longrightarrow> pk_decision x = PRE_UNKNOWN) \<and>
     (pk_rules_available x = None \<longrightarrow> pk_decision x = PRE_UNKNOWN) \<and> pk_validity x = VS_CURRENT"

definition condition_sound :: "condition \<Rightarrow> bool" where
  "condition_sound x \<longleftrightarrow>
     condition_valid (x\<lparr>cd_close_reason := None\<rparr>) \<and>
     (cd_state x = COND_OPEN \<longleftrightarrow> cd_closed_at x = None) \<and> (cd_state x = COND_OPEN \<longleftrightarrow> cd_closed_by x = None)"

definition cost_sound :: "cost_baseline \<Rightarrow> bool" where
  "cost_sound x \<longleftrightarrow>
     cost_baseline_valid x \<and>
     (or_review x = RV_PENDING \<and> cb_approved_by x = None \<or> or_review x = RV_APPROVED \<and> cb_approved_by x \<noteq> None) \<and>
     (or_lifecycle x = LC_DRAFT \<and> cb_exploration_only x \<and> cb_published_by x = None \<or>
      or_lifecycle x = LC_PUBLISHED \<and> or_review x = RV_APPROVED \<and> \<not> cb_exploration_only x \<and> cb_published_by x \<noteq> None)"

definition policy_sound :: "commercial_policy \<Rightarrow> bool" where
  "policy_sound x \<longleftrightarrow>
     commercial_policy_valid x \<and>
     (or_lifecycle x = LC_DRAFT \<and> or_review x = RV_PENDING \<and> cp_published_by x = None \<or>
      or_lifecycle x = LC_PUBLISHED \<and> or_review x = RV_APPROVED \<and> cp_published_by x \<noteq> None)"

definition readiness_sound :: "readiness \<Rightarrow> bool" where
  "readiness_sound x \<longleftrightarrow>
     length (rd_items x) = 9 \<and> rd_exploration_watermark x \<and>
     rd_decision x = (if RD_NOT_READY \<in> rt_decision ` set (rd_items x) then RD_NOT_READY else RD_UNKNOWN)"

definition m4_sound :: "m4_repo \<Rightarrow> bool" where
  "m4_sound r \<longleftrightarrow>
     requirement_keyed r \<and> all_values requirement_sound (m4_requirements r) \<and>
     evidence_keyed r \<and> all_values evidence_sound (m4_evidence r) \<and>
     match_keyed r \<and> all_values match_sound (m4_matches r) \<and>
     profile_keyed r \<and> all_values profile_sound (m4_profiles r) \<and>
     precheck_keyed r \<and> all_values precheck_sound (m4_prechecks r) \<and>
     condition_keyed r \<and> all_values condition_sound (m4_conditions r) \<and>
     cost_keyed r \<and> all_values cost_sound (m4_costs r) \<and>
     policy_keyed r \<and> all_values policy_sound (m4_policies r) \<and>
     readiness_keyed r \<and> all_values readiness_sound (m4_readiness r)"

lemma m4_sound_empty [simp]: "m4_sound empty_m4"
  by (simp add: m4_sound_def m4_keyed_defs empty_m4_def)

lemma m4_sound_puts:
  "m4_sound r \<Longrightarrow> requirement_sound x1 \<Longrightarrow> m4_sound (upsert_requirement x1 r)"
  "m4_sound r \<Longrightarrow> evidence_sound x2 \<Longrightarrow> m4_sound (upsert_evidence x2 r)"
  "m4_sound r \<Longrightarrow> match_sound x3 \<Longrightarrow> m4_sound (upsert_match x3 r)"
  "m4_sound r \<Longrightarrow> profile_sound x4 \<Longrightarrow> m4_sound (upsert_profile x4 r)"
  "m4_sound r \<Longrightarrow> precheck_sound x5 \<Longrightarrow> m4_sound (upsert_precheck x5 r)"
  "m4_sound r \<Longrightarrow> condition_sound x6 \<Longrightarrow> m4_sound (upsert_condition x6 r)"
  "m4_sound r \<Longrightarrow> cost_sound x7 \<Longrightarrow> m4_sound (upsert_cost x7 r)"
  "m4_sound r \<Longrightarrow> policy_sound x8 \<Longrightarrow> m4_sound (upsert_policy x8 r)"
  "m4_sound r \<Longrightarrow> readiness_sound x9 \<Longrightarrow> m4_sound (upsert_readiness x9 r)"
  by (simp_all add: m4_sound_def m4_keyed_defs m4_upsert_defs keyed_set all_values_set)

lemma m4_sound_gets:
  "m4_sound r \<Longrightarrow> get_requirement scope k r = Some x1 \<Longrightarrow> requirement_sound x1 \<and> qr_requirement_id x1 = k"
  "m4_sound r \<Longrightarrow> get_evidence scope k r = Some x2 \<Longrightarrow> evidence_sound x2 \<and> ce_evidence_id x2 = k"
  "m4_sound r \<Longrightarrow> get_match scope k r = Some x3 \<Longrightarrow> match_sound x3 \<and> em_match_id x3 = k"
  "m4_sound r \<Longrightarrow> get_profile scope k r = Some x4 \<Longrightarrow> profile_sound x4 \<and> rp_profile_id x4 = k"
  "m4_sound r \<Longrightarrow> get_precheck scope k r = Some x5 \<Longrightarrow> precheck_sound x5 \<and> pk_precheck_id x5 = k"
  "m4_sound r \<Longrightarrow> get_condition scope k r = Some x6 \<Longrightarrow> condition_sound x6 \<and> cd_condition_id x6 = k"
  "m4_sound r \<Longrightarrow> get_cost scope k r = Some x7 \<Longrightarrow> cost_sound x7 \<and> cb_cost_baseline_id x7 = k"
  "m4_sound r \<Longrightarrow> get_policy scope k r = Some x8 \<Longrightarrow> policy_sound x8 \<and> cp_policy_id x8 = k"
  "m4_sound r \<Longrightarrow> get_readiness scope k r = Some x9 \<Longrightarrow> readiness_sound x9 \<and> rd_readiness_id x9 = k"
  by (auto simp: m4_sound_def m4_keyed_defs m4_get_defs stored_def dest: keyed_get all_values_get split: option.splits if_splits)

lemma m4_sound_lists:
  "m4_sound r \<Longrightarrow> x1 \<in> set (list_requirements scope u r) \<Longrightarrow> requirement_sound x1"
  "m4_sound r \<Longrightarrow> x2 \<in> set (list_evidence scope u r) \<Longrightarrow> evidence_sound x2"
  "m4_sound r \<Longrightarrow> x3 \<in> set (list_matches scope u r) \<Longrightarrow> match_sound x3"
  "m4_sound r \<Longrightarrow> x4 \<in> set (list_profiles scope u r) \<Longrightarrow> profile_sound x4"
  "m4_sound r \<Longrightarrow> x5 \<in> set (list_prechecks scope u r) \<Longrightarrow> precheck_sound x5"
  "m4_sound r \<Longrightarrow> x6 \<in> set (list_conditions scope u r) \<Longrightarrow> condition_sound x6"
  "m4_sound r \<Longrightarrow> x7 \<in> set (list_costs scope u r) \<Longrightarrow> cost_sound x7"
  "m4_sound r \<Longrightarrow> x8 \<in> set (list_policies scope u r) \<Longrightarrow> policy_sound x8"
  "m4_sound r \<Longrightarrow> x9 \<in> set (list_readiness scope u r) \<Longrightarrow> readiness_sound x9"
  by (auto simp: m4_sound_def m4_listed all_values_def)

section \<open>Every operation keeps it\<close>

lemma requirement_updates_sound:
  "requirement_valid (new_requirement env i u q now k v) \<Longrightarrow> requirement_sound (new_requirement env i u q now k v)"
  "requirement_sound x \<Longrightarrow> requirement_sound (updated_requirement env t s m x)"
  "requirement_sound x \<Longrightarrow> or_lifecycle x = LC_DRAFT \<Longrightarrow> requirement_sound (published_requirement env i now x)"
  "requirement_sound x \<Longrightarrow> requirement_sound (successor_requirement env i now k v x)"
  "requirement_sound x \<Longrightarrow> requirement_sound (stale_requirement k x)"
  by (auto simp: requirement_sound_def new_requirement_def updated_requirement_def published_requirement_def
      successor_requirement_def stale_requirement_def requirement_valid_def)

lemma evidence_updates_sound:
  "company_evidence_valid (new_evidence i u q r k v now) \<Longrightarrow> (ei_source_document_id q = None \<longleftrightarrow> r = None) \<Longrightarrow>
     evidence_sound (new_evidence i u q r k v now)"
  "evidence_sound x \<Longrightarrow> ic_subject_id i \<noteq> ce_created_by x \<Longrightarrow> evidence_sound (reviewed_evidence i now x)"
  "evidence_sound x \<Longrightarrow> or_lifecycle x = LC_DRAFT \<Longrightarrow> or_review x = RV_APPROVED \<Longrightarrow> evidence_sound (published_evidence i now x)"
  "evidence_sound x \<Longrightarrow> evidence_sound (revoked_evidence i reason now x)"
  by (auto simp: evidence_sound_def new_evidence_def company_evidence_valid_def reviewed_evidence_def published_evidence_def
      revoked_evidence_def)

lemma match_updates_sound:
  "evidence_match_valid (new_match i u r k e s t m v now) \<Longrightarrow> (s = MATCH_SATISFIED \<Longrightarrow> e \<noteq> None) \<Longrightarrow>
     match_sound (new_match i u r k e s t m v now)"
  "match_sound x \<Longrightarrow> match_sound (stale_match x)"
  "match_sound x \<Longrightarrow> ic_subject_id i \<noteq> em_created_by x \<Longrightarrow> (s = MATCH_SATISFIED \<Longrightarrow> em_evidence_id x \<noteq> None) \<Longrightarrow>
     match_sound (reviewed_match i s t now x)"
  by (auto simp: match_sound_def new_match_def stale_match_def reviewed_match_def evidence_match_valid_def)

lemma other_updates_sound:
  "response_profile_valid (new_profile i u pq now k v) \<Longrightarrow> profile_sound (new_profile i u pq now k v)"
  "profile_sound p \<Longrightarrow> or_lifecycle p = LC_DRAFT \<Longrightarrow> profile_sound (published_profile i now p)"
  "condition_valid (new_condition i u cq k v now) \<Longrightarrow> condition_sound (new_condition i u cq k v now)"
  "condition_sound c \<Longrightarrow> s \<noteq> COND_OPEN \<Longrightarrow> condition_sound (closed_condition i s reason now c)"
  "cost_baseline_valid (new_cost i u coq k v now) \<Longrightarrow> cost_sound (new_cost i u coq k v now)"
  "cost_sound b \<Longrightarrow> ic_subject_id i \<noteq> cb_created_by b \<Longrightarrow> cost_sound (approved_cost i now b)"
  "cost_sound b \<Longrightarrow> or_review b = RV_APPROVED \<Longrightarrow> or_lifecycle b = LC_DRAFT \<Longrightarrow> cost_sound (published_cost i now b)"
  "commercial_policy_valid (new_policy i u plq k v now) \<Longrightarrow> policy_sound (new_policy i u plq k v now)"
  "policy_sound y \<Longrightarrow> or_lifecycle y = LC_DRAFT \<Longrightarrow> policy_sound (published_policy i now y)"
  by (auto simp: profile_sound_def new_profile_def response_profile_valid_def published_profile_def condition_sound_def
      new_condition_def condition_valid_def closed_condition_def cost_sound_def new_cost_def cost_baseline_valid_def
      approved_cost_def published_cost_def policy_sound_def new_policy_def published_policy_def currencies_align_def
      cost_maker_checker_def commercial_policy_valid_def)

text \<open>The decision of a precheck, and the decision of a readiness assessment.\<close>

lemma evidence_coverage_iff:
  "evidence_coverage u m s = MATCH_SATISFIED \<longleftrightarrow> u = [] \<and> m \<noteq> [] \<and> set s \<subseteq> {MATCH_SATISFIED}"
proof -
  have "set s \<subseteq> {MATCH_SATISFIED} \<longleftrightarrow> MATCH_UNSATISFIED \<notin> set s \<and> MATCH_UNKNOWN \<notin> set s \<and> MATCH_PARTIAL \<notin> set s"
    by (auto intro: match_state.exhaust)
  then show ?thesis by (auto simp: evidence_coverage_def list_ex_iff)
qed

lemma precheck_outcome_pass:
  "precheck_outcome r c s d m = PRE_PASS \<longleftrightarrow>
     r = Some True \<and> c = MATCH_SATISFIED \<and> s = MATCH_SATISFIED \<and> d \<and> m \<noteq> []"
  by (cases r; cases c) (auto simp: precheck_outcome_def)

lemma assess_precheck_sound: "precheck_sound (assess_precheck i u rs ms ps cs rule now k v)"
  by (auto simp: assess_precheck_def Let_def precheck_sound_def precheck_outcome_pass evidence_coverage_iff)
    (auto simp: precheck_outcome_def evidence_coverage_def)

lemma new_readiness_sound: "readiness_sound (new_readiness i u (readiness_items e m cs ps now) now k v)"
proof -
  let ?items = "readiness_items e m cs ps now"
  have "RD_UNKNOWN \<in> rt_decision ` set ?items"
    by (simp add: readiness_items_def ready_item_def)
  then have "readiness_outcome ?items = (if RD_NOT_READY \<in> rt_decision ` set ?items then RD_NOT_READY else RD_UNKNOWN)"
    by (auto simp: readiness_outcome_def Let_def)
  moreover have "length ?items = 9"
    by (auto simp: readiness_items_def precheck_items_def market_items_def Let_def split: option.split precheck_decision.split)
  ultimately show ?thesis
    by (simp add: readiness_sound_def new_readiness_def Let_def)
qed

lemma sound_requirements:
  "keeps m4_sound (\<lambda>_. True) (requirement_create env p i u rq rid)"
  "keeps m4_sound (\<lambda>_. True) (requirement_update_draft env i k t s m tag rid)"
  "keeps m4_sound (\<lambda>_. True) (requirement_publish env i k rid)"
  "keeps m4_sound (\<lambda>_. True) (requirement_supersede env i k rid)"
  unfolding requirement_create_def requirement_update_draft_def requirement_publish_def requirement_supersede_def
    requirement_get_def Let_def
  by (intro keeps_m4_steps keeps_ret; auto intro: m4_sound_puts requirement_updates_sound dest: m4_sound_gets; fail)+

lemma sound_evidence:
  "keeps m4_sound (\<lambda>_. True) (evidence_review env i k rid)"
  "keeps m4_sound (\<lambda>_. True) (evidence_publish env i k rid)"
  unfolding evidence_review_def evidence_publish_def evidence_get_def Let_def
  by (intro keeps_m4_steps keeps_ret; auto intro: m4_sound_puts evidence_updates_sound dest: m4_sound_gets; fail)+

lemma sound_evidence_create: "keeps m4_sound (\<lambda>_. True) (evidence_create env p i u q rid)"
  unfolding evidence_create_def Let_def
  by (intro keeps_m4_steps keeps_ret) (auto intro!: m4_sound_puts evidence_updates_sound)

lemma sound_evidence_revoke: "keeps m4_sound (\<lambda>_. True) (evidence_revoke env i k reason rid)"
  unfolding evidence_revoke_def evidence_get_def Let_def
  by (intro keeps_for_puts keeps_m4_steps keeps_ret)
    (auto intro: m4_sound_puts evidence_updates_sound match_updates_sound m4_sound_lists
       m4_sound_gets [THEN conjunct1])

lemma sound_match_create: "keeps m4_sound (\<lambda>_. True) (match_create env i u r e s t rid)"
  unfolding match_create_def requirement_get_def evidence_get_def Let_def
  by (intro keeps_m4_steps keeps_ret; auto intro!: m4_sound_puts match_updates_sound simp: evidence_proves_def)

lemma sound_match_review: "keeps m4_sound (\<lambda>_. True) (match_review env i k s t rid)"
  unfolding match_review_def match_get_def Let_def
  by (intro keeps_m4_steps keeps_ret; auto intro!: m4_sound_puts match_updates_sound dest: m4_sound_gets simp: evidence_proves_def)

lemma sound_profiles:
  "keeps m4_sound (\<lambda>_. True) (profile_create env i u pq rid)" "keeps m4_sound (\<lambda>_. True) (profile_publish env i k rid)"
proof -
  have usable: "quiet (forS ks (\<lambda>k. bindS (evidence_get i k) (\<lambda>e. checkS (evidence_usable e now) ex)))" for ks now ex
    by (intro quiet_forS quiet_bindS) simp_all
  show "keeps m4_sound (\<lambda>_. True) (profile_create env i u pq rid)"
    unfolding profile_create_def Let_def
    by (intro quiet_keeps [OF usable, THEN keeps_bindS] keeps_m4_steps keeps_ret) (auto intro: m4_sound_puts other_updates_sound)
  show "keeps m4_sound (\<lambda>_. True) (profile_publish env i k rid)"
    unfolding profile_publish_def profile_get_def Let_def
    by (intro keeps_m4_steps keeps_ret) (auto intro: m4_sound_puts other_updates_sound dest: m4_sound_gets)
qed

lemma sound_conditions:
  "keeps m4_sound (\<lambda>_. True) (condition_create env i u cq rid)" "keeps m4_sound (\<lambda>_. True) (condition_get env i k)"
  "s \<noteq> COND_OPEN \<Longrightarrow> keeps m4_sound (\<lambda>_. True) (transition_condition env i k s reason rid action)"
proof -
  show get: "keeps m4_sound (\<lambda>_. True) (condition_get env i k)" for k by (rule quiet_keeps) simp
  show "keeps m4_sound (\<lambda>_. True) (condition_create env i u cq rid)"
    unfolding condition_create_def evidence_get_def Let_def
    by (intro keeps_m4_steps keeps_ret quiet_keeps [THEN keeps_bindS] quiet_m4_helpers(4))
      (auto intro: m4_sound_puts other_updates_sound)
  show "keeps m4_sound (\<lambda>_. True) (transition_condition env i k s reason rid action)" if "s \<noteq> COND_OPEN"
    unfolding transition_condition_def Let_def
    by (intro get [THEN keeps_bindS] keeps_m4_steps keeps_ret quiet_keeps [THEN keeps_bindS] quiet_m4_helpers(4))
      (use that in \<open>auto intro: m4_sound_puts other_updates_sound dest: m4_sound_gets\<close>)
qed

lemma sound_precheck: "keeps m4_sound (\<lambda>_. True) (precheck_create env p i u rid)"
  unfolding precheck_create_def Let_def
  by (intro keeps_m4_steps keeps_ret) (auto intro: m4_sound_puts assess_precheck_sound)

lemma sound_commercial:
  "keeps m4_sound (\<lambda>_. True) (cost_create env i u coq rid)" "keeps m4_sound (\<lambda>_. True) (cost_approve env i k rid)"
  "keeps m4_sound (\<lambda>_. True) (cost_publish env i k rid)" "keeps m4_sound (\<lambda>_. True) (policy_create env i u plq rid)"
  "keeps m4_sound (\<lambda>_. True) (policy_publish env i k rid)"
  unfolding cost_create_def cost_approve_def cost_publish_def policy_create_def policy_publish_def cost_get_def policy_get_def Let_def
  by (intro keeps_m4_steps keeps_ret; auto intro: m4_sound_puts other_updates_sound dest: m4_sound_gets; fail)+

lemma sound_readiness:
  assumes "\<And>s u. keeps m4_sound (\<lambda>_. True) (port s u)"
  shows "keeps m4_sound (\<lambda>_. True) (readiness_create env p port i u rid)"
  unfolding readiness_create_def Let_def
  by (intro assms [THEN keeps_bindS] keeps_m4_steps keeps_ret) (auto intro: m4_sound_puts new_readiness_sound)

lemmas sound_m4_operations =
  sound_requirements sound_evidence sound_evidence_create sound_evidence_revoke sound_match_create sound_match_review
  sound_profiles sound_conditions sound_precheck sound_commercial sound_readiness

lemma sound_m4_call: "preserves (on_repo m4_sound) (run_m4 env p c)"
  by (cases c)
    (auto simp: satisfy_condition_def waive_condition_def fail_condition_def expire_condition_def quiet_keeps
       intro: sound_m4_operations [THEN preserves_as_unit])

lemma m4_after_sound: "m4_sound (w_repo (m4_after env p cs w))"
  unfolding m4_after_def
  using history_keeps [where P = "on_repo m4_sound" and cs = cs, OF sound_m4_call, of "w\<lparr>w_repo := empty_m4\<rparr>"]
  by (simp add: on_repo_def)

end
