(* ===== verification/M4_Results.thy ===== *)
theory M4_Results
  imports M4_Invariants
begin

text \<open>
  What the evidence and commercial services guarantee, and where they fail: the stored objects,
  the exact meaning of a passing precheck, conditions past their time, the readiness that never
  comes, and changes kept without an audit event.
\<close>

section \<open>Stored objects\<close>

text \<open>
  C30. After any history of calls of both services on empty stores, whoever made them and whatever
  the ports answered. Every stored response profile, cost baseline and policy passes all checks of
  its model, and so do evidence and conditions apart from the reason of their revocation or closing;
  the title and statement of a requirement and the rationale of a match are not claimed, since they
  are not checked when they are changed. Evidence and cost baselines are approved only by somebody
  other than their author and published only when approved, and evidence has a hash exactly when it
  has a source document; a match that is satisfied cites evidence and was not reviewed by its
  author; a cost baseline is for exploration only until it is published. A requirement, a profile
  and a policy are approved exactly when published, publishing being all the approval there is. A
  precheck passes exactly when its rules, coverage, response and conditions do; a condition is open
  exactly when nobody closed it.
\<close>

theorem stored_m4_objects_are_sound:
  "all_values requirement_sound (m4_requirements (w_repo (m4_after env p cs w))) \<and>
   all_values evidence_sound (m4_evidence (w_repo (m4_after env p cs w))) \<and>
   all_values match_sound (m4_matches (w_repo (m4_after env p cs w))) \<and>
   all_values profile_sound (m4_profiles (w_repo (m4_after env p cs w))) \<and>
   all_values precheck_sound (m4_prechecks (w_repo (m4_after env p cs w))) \<and>
   all_values condition_sound (m4_conditions (w_repo (m4_after env p cs w))) \<and>
   all_values cost_sound (m4_costs (w_repo (m4_after env p cs w))) \<and>
   all_values policy_sound (m4_policies (w_repo (m4_after env p cs w)))"
  using m4_after_sound [of env p cs w] by (simp add: m4_sound_def)

section \<open>Prechecks\<close>

text \<open>A reference reading of the matches: the last current match of a requirement.\<close>

definition latest_match :: "evidence_match list \<Rightarrow> uuid \<Rightarrow> evidence_match option" where
  "latest_match ms k = first_of (rev (filter (\<lambda>m. em_requirement_id m = k \<and> em_validity m = VS_CURRENT) ms))"

lemma match_by_requirement_latest: "dict_get (match_by_requirement ms) k = latest_match ms k"
proof (induction ms rule: rev_induct)
  case Nil
  then show ?case by (simp add: match_by_requirement_def latest_match_def first_of_def)
next
  case (snoc m ms)
  then show ?case
    by (auto simp: match_by_requirement_def latest_match_def first_of_def dict_of_snoc)
qed

lemma assess_precheck_passes:
  "pk_decision (assess_precheck i u rs ms ps cs rule now k v) = PRE_PASS \<longleftrightarrow>
     (\<exists>r. rule = Some r \<and> rs_supported r \<and> rs_current r) \<and>
     (\<exists>q \<in> set rs. qr_mandatory q \<and> usable_input q now) \<and>
     (\<forall>q \<in> set rs. qr_mandatory q \<and> usable_input q now \<longrightarrow>
        (\<exists>m. latest_match ms (qr_requirement_id q) = Some m \<and> em_state m = MATCH_SATISFIED)) \<and>
     (\<exists>f \<in> set ps. profile_current f now) \<and>
     (\<forall>c \<in> set cs. cd_state c \<notin> {COND_OPEN, COND_FAILED, COND_EXPIRED})"
proof -
  have states: "set (mapped_states d qs) \<subseteq> {MATCH_SATISFIED} \<and> unmapped d qs = [] \<longleftrightarrow>
      (\<forall>q \<in> set qs. \<exists>m. dict_get d (qr_requirement_id q) = Some m \<and> em_state m = MATCH_SATISFIED)" for d qs
    by (fastforce simp: mapped_states_def unmapped_def filter_empty_conv)
  show ?thesis
    using states [of "match_by_requirement ms" "published_mandatory rs now"]
    by (auto simp: assess_precheck_def Let_def precheck_outcome_pass evidence_coverage_iff match_by_requirement_latest
        published_mandatory_def filter_empty_conv list_ex_iff condition_is_blocking_iff)
qed

lemma precheck_create_result:
  "wp (precheck_create env p i u rid)
     (\<lambda>x w'. \<exists>k v. x = assess_precheck i u (list_requirements (ic_scope i) u (w_repo w)) (list_matches (ic_scope i) u (w_repo w))
          (list_profiles (ic_scope i) u (w_repo w)) (list_conditions (ic_scope i) u (w_repo w))
          (pt_rules p (w_ticks w + 1) (ic_scope i) u) (env_clock env (w_ticks w)) k v \<and>
        dict_get (m4_prechecks (w_repo w')) k = Some x)
     (\<lambda>_. True) w"
  unfolding precheck_create_def Let_def asked_def
  by (intro module_wp wp_quiet [OF quiet_m4_helpers(1)])
    (auto simp: later_def upsert_precheck_def assess_precheck_def Let_def)

text \<open>
  C31. A precheck that is returned passes exactly when the rules port answered with a supported and
  current rule set; there is a mandatory requirement in force in the decision unit, and the last
  current match of every such requirement is satisfied; some response profile is in force; and no
  condition of the unit is open, failed or expired. It is stored under its identifier. Neither the
  evidence behind the matches nor cost or market data are read.
\<close>

theorem precheck_passes_exactly:
  assumes "precheck_create env p i u rid w = (Inr x, w')"
  shows "(pk_decision x = PRE_PASS \<longleftrightarrow>
      (\<exists>r. pt_rules p (w_ticks w + 1) (ic_scope i) u = Some r \<and> rs_supported r \<and> rs_current r) \<and>
      (\<exists>q \<in> set (list_requirements (ic_scope i) u (w_repo w)). qr_mandatory q \<and> usable_input q (env_clock env (w_ticks w))) \<and>
      (\<forall>q \<in> set (list_requirements (ic_scope i) u (w_repo w)).
         qr_mandatory q \<and> usable_input q (env_clock env (w_ticks w)) \<longrightarrow>
         (\<exists>m. latest_match (list_matches (ic_scope i) u (w_repo w)) (qr_requirement_id q) = Some m \<and>
            em_state m = MATCH_SATISFIED)) \<and>
      (\<exists>f \<in> set (list_profiles (ic_scope i) u (w_repo w)). profile_current f (env_clock env (w_ticks w))) \<and>
      (\<forall>c \<in> set (list_conditions (ic_scope i) u (w_repo w)). cd_state c \<notin> {COND_OPEN, COND_FAILED, COND_EXPIRED})) \<and>
    dict_get (m4_prechecks (w_repo w')) (pk_precheck_id x) = Some x"
proof -
  from wp_success [OF precheck_create_result assms] obtain k v where
    x: "x = assess_precheck i u (list_requirements (ic_scope i) u (w_repo w)) (list_matches (ic_scope i) u (w_repo w))
          (list_profiles (ic_scope i) u (w_repo w)) (list_conditions (ic_scope i) u (w_repo w))
          (pt_rules p (w_ticks w + 1) (ic_scope i) u) (env_clock env (w_ticks w)) k v"
    and k: "dict_get (m4_prechecks (w_repo w')) k = Some x" by blast
  have "pk_precheck_id x = k" by (simp add: x assess_precheck_def Let_def)
  with k show ?thesis by (auto simp only: x assess_precheck_passes)
qed

text \<open>A decision unit that passes, by symbolic execution.\<close>

lemma runs_asked: "runs env (asked port s k) r n t (port t s k) r n t"
  by (simp add: runs_def asked_def standing_def)

lemma runs_m4_audit:
  "digest_ok (env_sha env) \<Longrightarrow> runs env m r (n + 1) (t + 1) x r' n' t' \<Longrightarrow>
   runs env (bindS (m4_audit env i a ty k q rc oc v) (\<lambda>_. m)) r n t x r' n' t'"
  unfolding m4_audit_def by (intro runs_bind_assoc runs_bind [OF runs_require_writer] runs_noted)

lemmas runs_m4_steps = runs_steps runs_bind [OF runs_asked] runs_m4_audit

lemma runs_precheck_create:
  assumes "digest_ok (env_sha env)" and "own_scope i None (Some u) = Inr ()"
    and x: "x = assess_precheck i u (list_requirements (ic_scope i) u r) (list_matches (ic_scope i) u r)
          (list_profiles (ic_scope i) u r) (list_conditions (ic_scope i) u r)
          (pt_rules p (t + 1) (ic_scope i) u) (env_clock env t) (env_uuid env n) (env_uuid env (n + 1))"
  shows "runs env (precheck_create env p i u rid) r n t x (upsert_precheck x r) (n + 1 + 1 + 1) (t + 1 + 1)"
  unfolding precheck_create_def Let_def x
  by (intro runs_m4_steps assms)

definition sample_requirement :: requirement where
  "sample_requirement = published_requirement counting_env (wide_user 5) 0
     (new_requirement counting_env (wide_user 5) 9
       \<lparr>qi_title = ''licence'', qi_statement = ''holds a licence'', qi_mandatory = True, qi_rule_clause_id = None,
        qi_source_document_id = None, qi_source_page = None, qi_source_section = None\<rparr> 0 30 31)"

definition sample_match :: evidence_match where
  "sample_match = new_match (wide_user 5) 9 sample_requirement 30 (Some 40) MATCH_SATISFIED ''licence attached'' 50 51 0"

definition sample_profile :: response_profile where
  "sample_profile = published_profile (wide_user 5) 0
     (new_profile (wide_user 5) 9
       \<lparr>pi_qualification_preparation = ''a'', pi_technical_response = ''b'', pi_service_response = ''c'',
        pi_objective_non_price_inputs = [], pi_subjective_variable_intervals = [], pi_evidence_ids = [],
        pi_valid_from = 0, pi_valid_to = 100\<rparr> 0 60 61)"

definition sample_m4 :: m4_repo where
  "sample_m4 = upsert_requirement sample_requirement (upsert_match sample_match (upsert_profile sample_profile empty_m4))"

definition sample_ports :: m4_ports where
  "sample_ports = unavailable_ports
     \<lparr>pt_rules := (\<lambda>_ _ _. Some \<lparr>rs_rule_set_id = 70, rs_supported = True, rs_current = True\<rparr>)\<rparr>"

lemma sample_listings:
  "list_requirements (ic_scope (wide_user 5)) 9 sample_m4 = [sample_requirement]"
  "list_matches (ic_scope (wide_user 5)) 9 sample_m4 = [sample_match]"
  "list_profiles (ic_scope (wide_user 5)) 9 sample_m4 = [sample_profile]"
  "list_conditions (ic_scope (wide_user 5)) 9 sample_m4 = []"
  by (simp_all add: list_requirements_def list_matches_def list_profiles_def list_conditions_def visible_values_def
      dict_values_def sample_m4_def m4_upsert_defs empty_m4_def m4_seen_defs scope_matches_def sample_requirement_def
      new_requirement_def published_requirement_def sample_match_def new_match_def sample_profile_def new_profile_def
      published_profile_def)

theorem precheck_passes_exactly_witness:
  "\<exists>x w'. precheck_create counting_env sample_ports (wide_user 5) 9 ''r'' (fresh_world sample_m4) = (Inr x, w') \<and>
     pk_decision x = PRE_PASS"
proof -
  have facts: "digest_ok (env_sha counting_env)" "own_scope (wide_user 5) None (Some 9) = Inr ()"
    "standing counting_env sample_m4 0 0 (fresh_world sample_m4)" by simp_all
  obtain x w' where run: "precheck_create counting_env sample_ports (wide_user 5) 9 ''r'' (fresh_world sample_m4) = (Inr x, w')"
    using runs_precheck_create [where p = sample_ports and rid = "''r''", OF facts(1,2) refl] facts(3) unfolding runs_def by blast
  have "pk_decision x = PRE_PASS"
    by (rule conjunct1 [OF precheck_passes_exactly [OF run], THEN iffD2])
      (simp add: sample_listings fresh_world_def sample_ports_def usable_input_iff sample_requirement_def
        published_requirement_def new_requirement_def latest_match_def first_of_def sample_match_def new_match_def
        profile_current_def sample_profile_def new_profile_def published_profile_def)
  with run show ?thesis by blast
qed

end
