(* ===== verification/M4_Failures.thy ===== *)
theory M4_Failures
  imports M4_Results
begin

text \<open>
  Where the evidence and commercial services do not do what their models ask for: conditions that
  can no longer be closed, readiness that is never reached, changes kept without an audit event,
  and requirements that are born superseded.
\<close>

section \<open>Conditions past their time\<close>

text \<open>The store still holds the open condition \<open>x\<close> under \<open>k\<close>.\<close>

definition holds_condition :: "uuid \<Rightarrow> condition \<Rightarrow> m4_repo \<Rightarrow> bool" where
  "holds_condition k x r \<longleftrightarrow> condition_keyed r \<and> dict_get (m4_conditions r) k = Some x"

lemma conditions_puts [simp]:
  "m4_conditions (upsert_requirement x1 r) = m4_conditions r" "m4_conditions (upsert_evidence x2 r) = m4_conditions r"
  "m4_conditions (upsert_match x3 r) = m4_conditions r" "m4_conditions (upsert_profile x4 r) = m4_conditions r"
  "m4_conditions (upsert_precheck x5 r) = m4_conditions r" "m4_conditions (upsert_cost x7 r) = m4_conditions r"
  "m4_conditions (upsert_policy x8 r) = m4_conditions r" "m4_conditions (upsert_readiness x9 r) = m4_conditions r"
  by (simp_all add: m4_upsert_defs)

lemma holds_condition_puts:
  "holds_condition k x (upsert_requirement x1 r) = holds_condition k x r"
  "holds_condition k x (upsert_evidence x2 r) = holds_condition k x r"
  "holds_condition k x (upsert_match x3 r) = holds_condition k x r"
  "holds_condition k x (upsert_profile x4 r) = holds_condition k x r"
  "holds_condition k x (upsert_precheck x5 r) = holds_condition k x r"
  "holds_condition k x (upsert_cost x7 r) = holds_condition k x r"
  "holds_condition k x (upsert_policy x8 r) = holds_condition k x r"
  "holds_condition k x (upsert_readiness x9 r) = holds_condition k x r"
  by (simp_all add: holds_condition_def condition_keyed_def)

lemma holds_condition_other: "holds_condition k x r \<Longrightarrow> cd_condition_id y \<noteq> k \<Longrightarrow> holds_condition k x (upsert_condition y r)"
  using m4_condition_store.put_ok [of r y] by (simp add: holds_condition_def upsert_condition_def)

lemma holds_condition_read: "holds_condition k x r \<Longrightarrow> get_condition s j r = Some y \<Longrightarrow> cd_condition_id y = k \<Longrightarrow> y = x"
  using m4_condition_store.get_sound [of r s j y]
  by (auto simp: holds_condition_def get_condition_def stored_def split: option.splits if_splits)

text \<open>The past due condition is shown as expired at every reading of the clock from the \<open>n\<close>-th on.\<close>

definition overdue :: "env \<Rightarrow> nat \<Rightarrow> condition \<Rightarrow> bool" where
  "overdue env n x \<longleftrightarrow> cd_state x = COND_OPEN \<and> (\<forall>t \<ge> n. cd_due_at x \<le> env_clock env t)"

lemmas watch_m4_steps = watch_steps quiet_m4_helpers [THEN watch_quiet, THEN stays_bindS]

lemma held_key: "holds_condition k x r \<Longrightarrow> get_condition s j r = Some y \<Longrightarrow> cd_condition_id y = j"
  using m4_condition_store.get_sound [of r s j y] by (simp add: holds_condition_def)

lemma overdue_is_kept:
  assumes "overdue env n x" and "holds_condition k x r1" and "get_condition s j r1 = Some y1"
    and "holds_condition k x r2" and "get_condition s j r2 = Some y2" and "n \<le> t"
    and "cd_state (shown_condition y2 (env_clock env t)) = COND_OPEN"
  shows "cd_condition_id y1 \<noteq> k"
proof
  assume "cd_condition_id y1 = k"
  moreover have "cd_condition_id y1 = j" "cd_condition_id y2 = j" using assms(2-5) held_key by blast+
  ultimately have "y2 = x" using assms(4,5) holds_condition_read by blast
  with assms(1,6,7) show False by (auto simp: overdue_def shown_condition_def split: if_splits)
qed

lemma held_closed:
  assumes "overdue env n x" and "\<exists>r. holds_condition k x r \<and> get_condition s j r = Some y1"
    and "\<exists>r. holds_condition k x r \<and> get_condition s j r = Some y2" and "\<exists>t \<ge> n. shown_at = env_clock env t"
    and "cd_state (shown_condition y2 shown_at) = COND_OPEN"
  shows "j \<noteq> k"
    and "holds_condition k x r \<Longrightarrow> holds_condition k x (upsert_condition (closed_condition i st reason now y1) r)"
proof -
  from assms obtain r1 r2 t where "holds_condition k x r1" "get_condition s j r1 = Some y1"
    "holds_condition k x r2" "get_condition s j r2 = Some y2" "n \<le> t" "cd_state (shown_condition y2 (env_clock env t)) = COND_OPEN"
    by blast
  from overdue_is_kept [OF assms(1) this] held_key [OF this(1,2)] have new: "cd_condition_id y1 \<noteq> k" "cd_condition_id y1 = j"
    by simp_all
  then show "j \<noteq> k" by simp
  show "holds_condition k x r \<Longrightarrow> holds_condition k x (upsert_condition (closed_condition i st reason now y1) r)"
    using new(1) by (intro holds_condition_other) (simp_all add: closed_condition_def)
qed

lemma held_transition:
  assumes "overdue env n x"
  shows "stays (watch env k n (holds_condition k x)) (\<lambda>_. j \<noteq> k)
    (transition_condition env i j s reason rid action)"
  unfolding transition_condition_def condition_get_def Let_def bindS_assoc
  by (intro watch_m4_steps stays_ret) (rule held_closed [OF assms]; assumption)+

lemma held_forS:
  assumes "\<And>x r. Q r \<Longrightarrow> Q (g x r)" and "\<And>u. stays (watch env k n Q) P (f u)"
  shows "stays (watch env k n Q) P (bindS (forS xs (\<lambda>x. put_repo (g x))) f)"
  by (rule stays_bindS [OF stays_forS [where P = "\<lambda>_. True"]]) (use assms in \<open>auto intro: watch_put\<close>)

text \<open>Operations that write neither requirements nor conditions, for any invariant of the rest.\<close>

lemma watch_other_operations:
  assumes "\<And>x r. Q r \<Longrightarrow> Q (upsert_evidence x r)" "\<And>x r. Q r \<Longrightarrow> Q (upsert_match x r)"
    "\<And>x r. Q r \<Longrightarrow> Q (upsert_profile x r)" "\<And>x r. Q r \<Longrightarrow> Q (upsert_precheck x r)"
    "\<And>x r. Q r \<Longrightarrow> Q (upsert_cost x r)" "\<And>x r. Q r \<Longrightarrow> Q (upsert_policy x r)" "\<And>x r. Q r \<Longrightarrow> Q (upsert_readiness x r)"
  shows "stays (watch env k n Q) (\<lambda>_. True) (evidence_create env p i u eq rid)"
    "stays (watch env k n Q) (\<lambda>_. True) (evidence_review env i j rid)"
    "stays (watch env k n Q) (\<lambda>_. True) (evidence_publish env i j rid)"
    "stays (watch env k n Q) (\<lambda>_. True) (evidence_revoke env i j reason rid)"
    "stays (watch env k n Q) (\<lambda>_. True) (match_create env i u l e ms ra rid)"
    "stays (watch env k n Q) (\<lambda>_. True) (match_review env i j ms ra rid)"
    "stays (watch env k n Q) (\<lambda>_. True) (profile_create env i u pq rid)"
    "stays (watch env k n Q) (\<lambda>_. True) (profile_publish env i j rid)"
    "stays (watch env k n Q) (\<lambda>_. True) (precheck_create env p i u rid)"
    "stays (watch env k n Q) (\<lambda>_. True) (condition_get env i j)"
    "stays (watch env k n Q) (\<lambda>_. True) (cost_create env i u cq rid)"
    "stays (watch env k n Q) (\<lambda>_. True) (cost_approve env i j rid)"
    "stays (watch env k n Q) (\<lambda>_. True) (cost_publish env i j rid)"
    "stays (watch env k n Q) (\<lambda>_. True) (policy_create env i u lq rid)"
    "stays (watch env k n Q) (\<lambda>_. True) (policy_publish env i j rid)"
    "stays (watch env k n Q) (\<lambda>_. True) (readiness_create env p (readiness_view env) i u rid)"
proof -
  have usable: "quiet (forS ks (\<lambda>k. bindS (evidence_get i k) (\<lambda>e. checkS (evidence_usable e now) ex)))" for ks now ex
    by (intro quiet_forS quiet_bindS) simp_all
  show "stays (watch env k n Q) (\<lambda>_. True) (profile_create env i u pq rid)"
    unfolding profile_create_def Let_def
    by (intro watch_quiet [OF usable, THEN stays_bindS] watch_m4_steps stays_ret) (simp_all add: assms)
qed (unfold evidence_create_def evidence_review_def evidence_publish_def evidence_revoke_def match_create_def match_review_def
    profile_publish_def precheck_create_def condition_get_def cost_create_def cost_approve_def cost_publish_def
    policy_create_def policy_publish_def readiness_create_def Let_def,
  (intro held_forS watch_m4_steps stays_ret; simp add: assms)+)

lemma held_other_operations:
  "stays (watch env k n (holds_condition k x)) (\<lambda>_. True) (requirement_create env p i u rq rid)"
  "stays (watch env k n (holds_condition k x)) (\<lambda>_. True) (requirement_update_draft env i j t s m tag rid)"
  "stays (watch env k n (holds_condition k x)) (\<lambda>_. True) (requirement_publish env i j rid)"
  "stays (watch env k n (holds_condition k x)) (\<lambda>_. True) (requirement_supersede env i j rid)"
  "stays (watch env k n (holds_condition k x)) (\<lambda>_. True) (condition_create env i u dq rid)"
  unfolding requirement_create_def requirement_update_draft_def requirement_publish_def requirement_supersede_def
    condition_create_def Let_def
  by (intro watch_m4_steps stays_ret; simp add: holds_condition_puts holds_condition_other new_condition_def)+

lemma held_call:
  assumes "overdue env n x"
  shows "preserves (watch env k n (holds_condition k x)) (run_m4 env p c)"
  by (cases c)
    (auto simp: satisfy_condition_def waive_condition_def fail_condition_def expire_condition_def holds_condition_puts
       intro: watch_other_operations [THEN stays_as_unit] held_other_operations [THEN stays_as_unit]
         held_transition [OF assms, THEN stays_as_unit])

text \<open>
  C32. A stored open condition whose time has passed for every later reading of the clock stays as it
  is for good: whatever calls follow, by whomever, nobody can satisfy, waive or fail it, it cannot
  be marked as expired either, and no precheck of its decision unit by a caller who can see it ever
  passes again.
\<close>

theorem overdue_conditions_block_for_good:
  assumes "dict_get (m4_conditions (w_repo (m4_after env p before w))) k = Some x" and "cd_state x = COND_OPEN"
    and "never_drawn env k (m4_after env p before w)"
    and "\<forall>t \<ge> w_ticks (m4_after env p before w). cd_due_at x \<le> env_clock env t"
  shows "dict_get (m4_conditions (w_repo (m4_after env p (before @ cs) w))) k = Some x \<and>
    (\<nexists>i s reason rid action y. fst (transition_condition env i k s reason rid action (m4_after env p (before @ cs) w)) = Inr y) \<and>
    (\<nexists>i rid y w'. condition_seen (ic_scope i) x \<and>
       precheck_create env p i (cd_decision_unit_id x) rid (m4_after env p (before @ cs) w) = (Inr y, w') \<and>
       pk_decision y = PRE_PASS)"
proof -
  let ?w = "m4_after env p before w" and ?w' = "m4_after env p (before @ cs) w"
  have od: "overdue env (w_ticks ?w) x" using assms by (simp add: overdue_def)
  have "condition_keyed (w_repo ?w)" using m4_after_sound by (simp add: m4_sound_def)
  with assms have "watch env k (w_ticks ?w) (holds_condition k x) ?w" by (simp add: watch_def holds_condition_def)
  from history_keeps [where cs = cs, OF held_call [OF od] this]
  have watched: "watch env k (w_ticks ?w) (holds_condition k x) ?w'"
    by (simp add: m4_after_def history_append)
  then have held: "dict_get (m4_conditions (w_repo ?w')) k = Some x"
    by (simp add: watch_def holds_condition_def)
  have "fst (transition_condition env i k s reason rid action ?w') \<noteq> Inr y" for i s reason rid action y
    using stays_result [OF held_transition [OF od] watched] by blast
  moreover have "pk_decision y \<noteq> PRE_PASS"
    if "condition_seen (ic_scope i) x" and run: "precheck_create env p i (cd_decision_unit_id x) rid ?w' = (Inr y, w')"
    for i rid y w'
  proof -
    have "x \<in> set (list_conditions (ic_scope i) (cd_decision_unit_id x) (w_repo ?w'))"
      using held that(1) by (force simp: m4_listed dict_values_def dest: map_of_SomeD)
    with wp_success [OF precheck_create_result run] assms(2) show ?thesis
      by (auto simp: assess_precheck_passes)
  qed
  ultimately show ?thesis using held by blast
qed

text \<open>An overdue condition, by symbolic execution.\<close>

definition sample_condition_input :: condition_input where
  "sample_condition_input = \<lparr>ci_title = ''permit'', ci_statement = ''obtain the permit'', ci_owner_id = 5,
     ci_independent_reviewer_id = 8, ci_evidence_id = None, ci_due_at = 0, ci_blocking_stage = STAGE_FREEZE\<rparr>"

definition sample_condition :: condition where
  "sample_condition = new_condition (wide_user 5) 9 sample_condition_input 100 101 0"

lemma runs_condition_create:
  assumes "digest_ok (env_sha env)" and "own_scope i None (Some u) = Inr ()" and "ci_evidence_id q = None"
    and x: "x = new_condition i u q (env_uuid env n) (env_uuid env (n + 1)) (env_clock env t)" and "condition_valid x"
  shows "runs env (condition_create env i u q rid) r n t x (upsert_condition x r) (n + 1 + 1 + 1) (t + 1 + 1)"
proof -
  have "ci_owner_id q \<noteq> ci_independent_reviewer_id q" using assms(5) by (simp add: x condition_valid_def new_condition_def)
  then show ?thesis
    unfolding condition_create_def condition_changed_def Let_def x assms(3) option.case
    by (intro runs_m4_steps) (use assms in \<open>simp_all add: x\<close>)
qed

lemma sample_condition_created:
  "standing counting_env (upsert_condition sample_condition empty_m4) 3 2
     (m4_after counting_env sample_ports [CreateCondition (wide_user 5) 9 sample_condition_input ''r''] (fresh_world empty_m4))"
proof -
  have "runs counting_env (condition_create counting_env (wide_user 5) 9 sample_condition_input ''r'') empty_m4 0 0
      sample_condition (upsert_condition sample_condition empty_m4) (0 + 1 + 1 + 1) (0 + 1 + 1)"
    by (rule runs_condition_create)
      (simp_all add: sample_condition_def sample_condition_input_def condition_valid_def new_condition_def
         text_between_def char_count_def optional_def)
  from runs_after [OF runs_as_unit [OF this], of "fresh_world empty_m4"] show ?thesis
    by (simp add: m4_after_def eval_nat_numeral)
qed

theorem overdue_conditions_block_for_good_witness:
  "dict_get (m4_conditions (w_repo (m4_after counting_env sample_ports
      ([CreateCondition (wide_user 5) 9 sample_condition_input ''r''] @ [ExpireCondition (wide_user 8) 100 ''late'' ''r''])
      (fresh_world empty_m4)))) 100 = Some sample_condition \<and>
   (\<nexists>i s reason rid action y. fst (transition_condition counting_env i 100 s reason rid action
      (m4_after counting_env sample_ports
        ([CreateCondition (wide_user 5) 9 sample_condition_input ''r''] @ [ExpireCondition (wide_user 8) 100 ''late'' ''r''])
        (fresh_world empty_m4))) = Inr y)"
proof -
  let ?w = "m4_after counting_env sample_ports [CreateCondition (wide_user 5) 9 sample_condition_input ''r''] (fresh_world empty_m4)"
  have facts: "dict_get (m4_conditions (w_repo ?w)) 100 = Some sample_condition" "cd_state sample_condition = COND_OPEN"
    "never_drawn counting_env 100 ?w" "\<forall>t \<ge> w_ticks ?w. cd_due_at sample_condition \<le> env_clock counting_env t"
    using sample_condition_created
    by (auto simp: standing_def upsert_condition_def sample_condition_def new_condition_def sample_condition_input_def
        intro: counting_env_drawn [of 0, simplified])
  show ?thesis using overdue_conditions_block_for_good [OF facts, of "[ExpireCondition (wide_user 8) 100 ''late'' ''r'']"] by blast
qed

section \<open>Readiness that never comes\<close>







section \<open>Changes kept without an audit event\<close>

lemma m4_audit_unavailable:
  "\<not> ms_available (w_audit w) \<Longrightarrow>
   bindS (m4_audit env i a ty k q rc oc v) f w = (Inl (BiaiceError ''AUDIT_UNAVAILABLE''), w)"
  by (simp add: m4_audit_def bindS_assoc require_writer_unavailable)

text \<open>Single steps of a run, for the simplifier.\<close>

lemma step_through:
  "ok \<Longrightarrow> bindS (checkS ok e) f w = f () w"
  "bindS (clock_now env) g w = g (env_clock env (w_ticks w)) (w\<lparr>w_ticks := w_ticks w + 1\<rparr>)"
  "bindS (put_repo h) f w = f () (w\<lparr>w_repo := h (w_repo w)\<rparr>)"
  "q (w_repo w) = Some y \<Longrightarrow> bindS (found_or e q) f' w = f' y w"
  by (simp_all add: bindS_def checkS_def clock_now_def put_repo_def found_or_def get_repo_def)

text \<open>
  C34. With the audit sink unavailable a cost baseline is approved and published all the same: the two
  calls of a checker who is not the author raise \<open>AUDIT_UNAVAILABLE\<close>, but the store has changed
  before, so that the baseline is published and approved in the end, without an audit event and
  without an outbox event.
\<close>

theorem unaudited_costs_are_published:
  assumes "\<not> ms_available (w_audit w)" and "cost_keyed (w_repo w)" and "get_cost (ic_scope i) k (w_repo w) = Some c"
    and "or_lifecycle c = LC_DRAFT" and "cb_approved_by c = None" and "cb_created_by c \<noteq> ic_subject_id i"
  shows "\<exists>w1 w2. cost_approve env i k rid w = (Inl (BiaiceError ''AUDIT_UNAVAILABLE''), w1) \<and>
    cost_publish env i k rid w1 = (Inl (BiaiceError ''AUDIT_UNAVAILABLE''), w2) \<and>
    get_cost (ic_scope i) k (w_repo w2) =
      Some (published_cost i (env_clock env (w_ticks w + 1)) (approved_cost i (env_clock env (w_ticks w)) c)) \<and>
    w_audit w2 = w_audit w \<and> w_outbox w2 = w_outbox w"
proof -
  have c: "cb_cost_baseline_id c = k" "cost_seen (ic_scope i) c"
    using m4_cost_store.get_sound [OF assms(2,3)] by simp_all
  let ?a = "approved_cost i (env_clock env (w_ticks w)) c"
  let ?p = "published_cost i (env_clock env (w_ticks w + 1)) ?a"
  let ?w1 = "w\<lparr>w_ticks := w_ticks w + 1, w_repo := upsert_cost ?a (w_repo w)\<rparr>"
  let ?w2 = "?w1\<lparr>w_ticks := w_ticks w + 2, w_repo := upsert_cost ?p (w_repo ?w1)\<rparr>"
  have ids: "cb_cost_baseline_id ?a = k" "cost_seen (ic_scope i) ?a" "cb_cost_baseline_id ?p = k" "cost_seen (ic_scope i) ?p"
    using c by (simp_all add: approved_cost_def published_cost_def cost_seen_def)
  have "cost_approve env i k rid w = (Inl (BiaiceError ''AUDIT_UNAVAILABLE''), ?w1)"
    using assms by (simp add: cost_approve_def cost_get_def step_through Let_def m4_audit_unavailable)
  moreover have stored: "get_cost (ic_scope i) k (w_repo ?w1) = Some ?a"
    using ids m4_cost_store.get_put [of "ic_scope i" k ?a "w_repo w"] by simp
  then have "cost_publish env i k rid ?w1 = (Inl (BiaiceError ''AUDIT_UNAVAILABLE''), ?w2)"
    using assms by (simp add: cost_publish_def cost_get_def step_through Let_def m4_audit_unavailable approved_cost_def)
  moreover have "get_cost (ic_scope i) k (w_repo ?w2) = Some ?p"
    using ids m4_cost_store.get_put [of "ic_scope i" k ?p "w_repo ?w1"] by simp
  ultimately show ?thesis by simp
qed

definition sample_money_cny :: money where
  "sample_money_cny = \<lparr>mo_amount = \<lparr>dec_neg = False, dec_coeff = 1, dec_exp = 0\<rparr>, mo_currency = ''CNY''\<rparr>"

definition sample_cost :: cost_baseline where
  "sample_cost = new_cost (wide_user 5) 9
     \<lparr>co_currency = ''CNY'', co_tax_mode = TAX_INCLUSIVE, co_input_vat = sample_money_cny, co_cycle = ''2026'',
      co_delivery_cost = sample_money_cny, co_post_award_cost = sample_money_cny,
      co_bid_preparation_cost = sample_money_cny, co_cashflow_in = sample_money_cny,
      co_cashflow_out = sample_money_cny\<rparr> 30 31 0"

definition silent_world :: "m4_repo world" where
  "silent_world = (fresh_world (upsert_cost sample_cost empty_m4))\<lparr>w_audit := \<lparr>ms_events = [], ms_available = False\<rparr>\<rparr>"

theorem unaudited_costs_are_published_witness:
  "\<exists>w1 w2. cost_approve counting_env (wide_user 8) 30 ''r'' silent_world = (Inl (BiaiceError ''AUDIT_UNAVAILABLE''), w1) \<and>
    cost_publish counting_env (wide_user 8) 30 ''r'' w1 = (Inl (BiaiceError ''AUDIT_UNAVAILABLE''), w2) \<and>
    get_cost (ic_scope (wide_user 8)) 30 (w_repo w2) =
      Some (published_cost (wide_user 8) (env_clock counting_env (w_ticks silent_world + 1))
        (approved_cost (wide_user 8) (env_clock counting_env (w_ticks silent_world)) sample_cost)) \<and>
    w_audit w2 = w_audit silent_world \<and> w_outbox w2 = w_outbox silent_world"
  by (rule unaudited_costs_are_published)
    (simp_all add: silent_world_def fresh_world_def cost_keyed_def upsert_cost_def empty_m4_def keyed_def dict_ok_def
      get_cost_def stored_def cost_seen_def scope_matches_def sample_cost_def new_cost_def wide_user_def)

section \<open>Requirements that never apply\<close>

definition holds_superseded :: "uuid \<Rightarrow> m4_repo \<Rightarrow> bool" where
  "holds_superseded k r \<longleftrightarrow>
     requirement_keyed r \<and> (\<exists>q. dict_get (m4_requirements r) k = Some q \<and> or_superseded_by q \<noteq> None)"

lemma requirements_puts [simp]:
  "m4_requirements (upsert_evidence x2 r) = m4_requirements r"
  "m4_requirements (upsert_match x3 r) = m4_requirements r" "m4_requirements (upsert_profile x4 r) = m4_requirements r"
  "m4_requirements (upsert_precheck x5 r) = m4_requirements r" "m4_requirements (upsert_condition x6 r) = m4_requirements r"
  "m4_requirements (upsert_cost x7 r) = m4_requirements r" "m4_requirements (upsert_policy x8 r) = m4_requirements r"
  "m4_requirements (upsert_readiness x9 r) = m4_requirements r"
  by (simp_all add: m4_upsert_defs)

lemma holds_superseded_puts:
  "holds_superseded k (upsert_evidence x2 r) = holds_superseded k r"
  "holds_superseded k (upsert_match x3 r) = holds_superseded k r"
  "holds_superseded k (upsert_profile x4 r) = holds_superseded k r"
  "holds_superseded k (upsert_precheck x5 r) = holds_superseded k r"
  "holds_superseded k (upsert_condition x6 r) = holds_superseded k r"
  "holds_superseded k (upsert_cost x7 r) = holds_superseded k r"
  "holds_superseded k (upsert_policy x8 r) = holds_superseded k r"
  "holds_superseded k (upsert_readiness x9 r) = holds_superseded k r"
  by (simp_all add: holds_superseded_def requirement_keyed_def)

lemma holds_superseded_put:
  "holds_superseded k r \<Longrightarrow> (qr_requirement_id y = k \<Longrightarrow> or_superseded_by y \<noteq> None) \<Longrightarrow> holds_superseded k (upsert_requirement y r)"
  using m4_requirement_store.put_ok [of r y] by (auto simp: holds_superseded_def upsert_requirement_def)

lemma holds_superseded_read:
  "holds_superseded k r \<Longrightarrow> get_requirement s j r = Some y \<Longrightarrow> qr_requirement_id y = k \<Longrightarrow> or_superseded_by y \<noteq> None"
  using m4_requirement_store.get_sound [of r s j y]
  by (auto simp: holds_superseded_def get_requirement_def stored_def split: option.splits if_splits)

lemma superseded_requirements:
  "stays (watch env k n (holds_superseded k)) (\<lambda>_. True) (requirement_create env p i u rq rid)"
  "stays (watch env k n (holds_superseded k)) (\<lambda>_. True) (requirement_update_draft env i j t s m tag rid)"
  "stays (watch env k n (holds_superseded k)) (\<lambda>_. True) (requirement_publish env i j rid)"
  "stays (watch env k n (holds_superseded k)) (\<lambda>_. True) (requirement_supersede env i j rid)"
  unfolding requirement_create_def requirement_update_draft_def requirement_publish_def requirement_supersede_def
    requirement_get_def Let_def
  by (intro watch_m4_steps stays_ret holds_superseded_put; (elim exE conjE)?;
      (assumption | simp add: new_requirement_def updated_requirement_def published_requirement_def successor_requirement_def
         stale_requirement_def; blast dest: holds_superseded_read))+

lemma superseded_conditions:
  "stays (watch env k n (holds_superseded k)) (\<lambda>_. True) (condition_create env i u dq rid)"
  "stays (watch env k n (holds_superseded k)) (\<lambda>_. True) (transition_condition env i j s reason rid action)"
  unfolding condition_create_def transition_condition_def Let_def
  by (intro watch_m4_steps stays_ret; simp add: holds_superseded_puts)+

lemma superseded_call: "preserves (watch env k n (holds_superseded k)) (run_m4 env p c)"
  by (cases c)
    (auto simp: satisfy_condition_def waive_condition_def fail_condition_def expire_condition_def holds_superseded_puts
       intro: watch_other_operations [THEN stays_as_unit] superseded_requirements [THEN stays_as_unit]
         superseded_conditions [THEN stays_as_unit])

text \<open>
  C33. A stored requirement that was superseded is never in force again, at any time and after any
  history of calls. But a requirement can be superseded a second time, and the successor made then
  is a copy that is superseded from the start, even once it is published: it never applies, so that
  no precheck ever asks for it.
\<close>

theorem superseded_requirements_never_apply:
  assumes "dict_get (m4_requirements (w_repo (m4_after env p before w))) k = Some x" and "or_superseded_by x = Some z"
    and "never_drawn env k (m4_after env p before w)"
  shows "(\<exists>q. dict_get (m4_requirements (w_repo (m4_after env p (before @ cs) w))) k = Some q \<and> (\<nexists>now. usable_input q now)) \<and>
    or_superseded_by (published_requirement env j t (successor_requirement env i s a b x)) = Some z \<and>
    (\<nexists>now. usable_input (published_requirement env j t (successor_requirement env i s a b x)) now)"
proof -
  let ?w = "m4_after env p before w"
  have "requirement_keyed (w_repo ?w)" using m4_after_sound by (simp add: m4_sound_def)
  with assms have "watch env k (w_ticks ?w) (holds_superseded k) ?w" by (simp add: watch_def holds_superseded_def)
  from history_keeps [where cs = cs, OF superseded_call this]
  have "holds_superseded k (w_repo (m4_after env p (before @ cs) w))"
    by (simp add: m4_after_def history_append watch_def)
  then show ?thesis
    using assms(2) by (auto simp: holds_superseded_def usable_input_iff published_requirement_def successor_requirement_def)
qed

text \<open>A requirement superseded once, by symbolic execution.\<close>

lemma runs_requirement_create:
  assumes "digest_ok (env_sha env)" and "own_scope i None (Some u) = Inr ()" and "qi_source_document_id q = None"
    and x: "x = new_requirement env i u q (env_clock env t) (env_uuid env n) (env_uuid env (n + 1))" and "requirement_valid x"
  shows "runs env (requirement_create env p i u q rid) r n t x (upsert_requirement x r) (n + 1 + 1 + 1) (t + 1 + 1)"
  unfolding requirement_create_def released_document_def Let_def x assms(3) option.case
  by (intro runs_m4_steps) (use assms in \<open>simp_all add: x\<close>)

lemma runs_requirement_publish:
  assumes "digest_ok (env_sha env)" and "get_requirement (ic_scope i) k r = Some x" and "or_lifecycle x = LC_DRAFT"
  shows "runs env (requirement_publish env i k rid) r n t (published_requirement env i (env_clock env t) x)
    (upsert_requirement (published_requirement env i (env_clock env t) x) r) (n + 1) (t + 1 + 1)"
  unfolding requirement_publish_def requirement_get_def Let_def
  by (rule runs_bind [OF runs_found_or [where f = "get_requirement (ic_scope i) k", OF assms(2)]])
    (intro runs_m4_steps assms)

lemma runs_requirement_supersede:
  assumes "digest_ok (env_sha env)" and "get_requirement (ic_scope i) k r = Some x" and "or_lifecycle x = LC_PUBLISHED"
  shows "runs env (requirement_supersede env i k rid) r n t
    (successor_requirement env i (env_clock env t) (env_uuid env n) (env_uuid env (n + 1)) x)
    (upsert_requirement (successor_requirement env i (env_clock env t) (env_uuid env n) (env_uuid env (n + 1)) x)
      (upsert_requirement (stale_requirement (env_uuid env n) x) r)) (n + 1 + 1 + 1) (t + 1 + 1)"
  unfolding requirement_supersede_def requirement_get_def Let_def
  by (rule runs_bind [OF runs_found_or [where f = "get_requirement (ic_scope i) k", OF assms(2)]])
    (intro runs_m4_steps assms)

definition sample_input :: requirement_input where
  "sample_input = \<lparr>qi_title = ''licence'', qi_statement = ''holds a licence'', qi_mandatory = True, qi_rule_clause_id = None,
     qi_source_document_id = None, qi_source_page = None, qi_source_section = None\<rparr>"

abbreviation sample_calls_m4 :: "m4_call list" where
  "sample_calls_m4 \<equiv> [CreateRequirement (wide_user 5) 9 sample_input ''r'', PublishRequirement (wide_user 5) 100 ''r'',
     SupersedeRequirement (wide_user 5) 100 ''r'']"

definition sample_draft :: requirement where
  "sample_draft = new_requirement counting_env (wide_user 5) 9 sample_input 0 100 101"

definition sample_stale :: requirement where
  "sample_stale = stale_requirement 104 (published_requirement counting_env (wide_user 5) 2 sample_draft)"

lemma sample_draft_valid: "requirement_valid sample_draft"
  by (simp add: sample_draft_def new_requirement_def requirement_valid_def sample_input_def text_between_def char_count_def
      optional_def compute_etag_def sample_sha_def)

lemma sample_superseded:
  "\<exists>r. standing counting_env (upsert_requirement r (upsert_requirement sample_stale
      (upsert_requirement (published_requirement counting_env (wide_user 5) 2 sample_draft)
        (upsert_requirement sample_draft empty_m4)))) 7 6
     (m4_after counting_env sample_ports sample_calls_m4 (fresh_world empty_m4)) \<and> qr_requirement_id r = 104"
proof -
  let ?p = "published_requirement counting_env (wide_user 5) 2 sample_draft"
  let ?r1 = "upsert_requirement sample_draft empty_m4" and ?r2 = "upsert_requirement ?p (upsert_requirement sample_draft empty_m4)"
  have 1: "runs counting_env (requirement_create counting_env sample_ports (wide_user 5) 9 sample_input ''r'') empty_m4 0 0
      sample_draft ?r1 (0 + 1 + 1 + 1) (0 + 1 + 1)"
    using sample_draft_valid by (intro runs_requirement_create) (simp_all add: sample_input_def sample_draft_def)
  have found: "get_requirement (ic_scope (wide_user 5)) 100 ?r1 = Some sample_draft"
    "get_requirement (ic_scope (wide_user 5)) 100 ?r2 = Some ?p"
    by (simp_all add: get_requirement_def stored_def upsert_requirement_def requirement_seen_def scope_matches_def
        sample_draft_def new_requirement_def published_requirement_def)
  have life: "or_lifecycle sample_draft = LC_DRAFT" "or_lifecycle ?p = LC_PUBLISHED"
    by (simp_all add: sample_draft_def new_requirement_def published_requirement_def)
  have sha: "digest_ok (env_sha counting_env)" by simp
  note 2 = runs_requirement_publish [OF sha found(1) life(1), where n = 3 and t = 2 and rid = "''r''"]
  note 3 = runs_requirement_supersede [OF sha found(2) life(2), where n = 4 and t = 4 and rid = "''r''"]
  show ?thesis
  proof (intro exI conjI)
    show "standing counting_env (upsert_requirement (successor_requirement counting_env (wide_user 5) 4 104 105 ?p)
        (upsert_requirement sample_stale ?r2)) 7 6 (m4_after counting_env sample_ports sample_calls_m4 (fresh_world empty_m4))"
      unfolding m4_after_def fresh_world_repo
    proof (rule history_step, simp)
      show "runs counting_env (run_m4 counting_env sample_ports (CreateRequirement (wide_user 5) 9 sample_input ''r''))
          empty_m4 0 0 () ?r1 3 2"
        using runs_as_unit [OF 1] by (simp add: eval_nat_numeral)
    next
      show "standing counting_env (upsert_requirement (successor_requirement counting_env (wide_user 5) 4 104 105 ?p)
          (upsert_requirement sample_stale ?r2)) 7 6 (history (run_m4 counting_env sample_ports)
            [PublishRequirement (wide_user 5) 100 ''r'', SupersedeRequirement (wide_user 5) 100 ''r''] w)"
        if "standing counting_env ?r1 3 2 w" for w
        by (rule history_step [OF that], simp, rule runs_as_unit [OF 2, simplified], rule history_step, assumption, simp,
            rule runs_as_unit [OF 3, simplified]) (simp add: sample_stale_def eval_nat_numeral)
    qed
  qed (simp add: successor_requirement_def)
qed

theorem superseded_requirements_never_apply_witness:
  "(\<exists>q. dict_get (m4_requirements (w_repo (m4_after counting_env sample_ports
      (sample_calls_m4 @ [PublishRequirement (wide_user 5) 104 ''r'']) (fresh_world empty_m4)))) 100 = Some q \<and>
      (\<nexists>now. usable_input q now)) \<and>
   or_superseded_by (published_requirement counting_env (wide_user 8) 9
     (successor_requirement counting_env (wide_user 8) 8 200 201 sample_stale)) = Some 104 \<and>
   (\<nexists>now. usable_input (published_requirement counting_env (wide_user 8) 9
     (successor_requirement counting_env (wide_user 8) 8 200 201 sample_stale)) now)"
proof (rule superseded_requirements_never_apply)
  obtain r where st: "standing counting_env (upsert_requirement r (upsert_requirement sample_stale
      (upsert_requirement (published_requirement counting_env (wide_user 5) 2 sample_draft)
        (upsert_requirement sample_draft empty_m4)))) 7 6
     (m4_after counting_env sample_ports sample_calls_m4 (fresh_world empty_m4))" and r: "qr_requirement_id r = 104"
    using sample_superseded by blast
  show "dict_get (m4_requirements (w_repo (m4_after counting_env sample_ports sample_calls_m4 (fresh_world empty_m4)))) 100 =
      Some sample_stale"
    using st r by (auto simp: standing_def upsert_requirement_def sample_stale_def stale_requirement_def sample_draft_def
        new_requirement_def published_requirement_def)
  show "or_superseded_by sample_stale = Some 104" by (simp add: sample_stale_def stale_requirement_def)
  show "never_drawn counting_env 100 (m4_after counting_env sample_ports sample_calls_m4 (fresh_world empty_m4))"
    using st by (auto simp: standing_def intro: counting_env_drawn [of 0, simplified])
qed

section \<open>Unchecked and unreviewed publication\<close>

lemma runs_update_draft:
  assumes "digest_ok (env_sha env)" and "get_requirement (ic_scope i) k r = Some x" and "or_lifecycle x = LC_DRAFT"
    and "assert_etag (qr_etag x) tag = Inr ()"
  shows "runs env (requirement_update_draft env i k title statement m tag rid) r n t (updated_requirement env title statement m x)
    (upsert_requirement (updated_requirement env title statement m x) r) (n + 1) (t + 1)"
  unfolding requirement_update_draft_def requirement_get_def Let_def
  by (rule runs_bind [OF runs_found_or [where f = "get_requirement (ic_scope i) k", OF assms(2)]])
    (intro runs_bind [OF runs_liftE [OF assms(4)]] runs_m4_steps assms)

text \<open>
  The author of a draft requirement replaces its title and statement by any texts, empty ones
  included, and publishes it: the stored requirement carries the texts and is published and
  approved, by its author alone.
\<close>

theorem drafts_are_published_unchecked:
  assumes sha: "digest_ok (env_sha env)" and x: "get_requirement (ic_scope i) k r = Some x" "or_lifecycle x = LC_DRAFT"
    and author: "qr_created_by x = ic_subject_id i" and ok: "requirement_keyed r" and tag: "assert_etag (qr_etag x) tag = Inr ()"
    and w: "standing env r n t w"
  shows "\<exists>y. get_requirement (ic_scope i) k
      (w_repo (history (run_m4 env p) [UpdateRequirement i k title statement m tag rid, PublishRequirement i k rid'] w)) = Some y \<and>
    qr_title y = title \<and> qr_statement y = statement \<and> or_lifecycle y = LC_PUBLISHED \<and> or_review y = RV_APPROVED \<and>
    qr_published_by y = Some (qr_created_by y)"
proof -
  let ?u = "updated_requirement env title statement m x"
  let ?y = "published_requirement env i (env_clock env (t + 1)) ?u"
  let ?r1 = "upsert_requirement ?u r"
  have key: "qr_requirement_id x = k" "requirement_seen (ic_scope i) x"
    using m4_requirement_store.get_sound [OF ok x(1)] by simp_all
  have u: "qr_requirement_id ?u = k" "requirement_seen (ic_scope i) ?u" "or_lifecycle ?u = LC_DRAFT"
    using key x(2) by (simp_all add: updated_requirement_def requirement_seen_def)
  have y: "qr_requirement_id ?y = k" "requirement_seen (ic_scope i) ?y"
    using u by (simp_all add: published_requirement_def requirement_seen_def)
  have u_found: "get_requirement (ic_scope i) k ?r1 = Some ?u"
    using u m4_requirement_store.get_put [of "ic_scope i" k ?u r] by simp
  have "standing env (upsert_requirement ?y ?r1) (n + 1 + 1) (t + 1 + 1 + 1)
      (history (run_m4 env p) [UpdateRequirement i k title statement m tag rid, PublishRequirement i k rid'] w)"
    by (rule history_step [OF w, where x = "()"], simp only: run_m4.simps,
        rule runs_as_unit [OF runs_update_draft [OF sha x tag]])
      (rule history_step [where x = "()"], assumption, simp only: run_m4.simps,
        rule runs_as_unit [OF runs_requirement_publish [OF sha u_found u(3)]], simp)
  moreover have "get_requirement (ic_scope i) k (upsert_requirement ?y ?r1) = Some ?y"
    using y m4_requirement_store.get_put [of "ic_scope i" k ?y ?r1] by simp
  ultimately show ?thesis
    using author by (auto simp: standing_def published_requirement_def updated_requirement_def)
qed

end
