(* ===== verification/Privacy.thy ===== *)
theory Privacy
  imports Module_Base Http
begin

text \<open>
  The FR-12 privacy records (\<open>modules/market/privacy\<close> and its routes in
  \<open>api/market_privacy.py\<close>): records whose state follows fixed and dynamic transition tables, a
  journal that replays the response of a repeated command, and the roles the routes demand.
\<close>

section \<open>Models\<close>

text \<open>States are texts: the tables below name every one that occurs.\<close>

record privacy_record =
  pv_resource_id :: uuid
  pv_resource_type :: string
  pv_tenant_id :: uuid
  pv_data_domain_id :: uuid
  pv_state :: string
  pv_state_version :: int
  pv_payload :: "(string \<times> json) list"
  pv_status_reason :: "string option"
  pv_created_at :: timestamp
  pv_created_by :: uuid
  pv_updated_at :: timestamp
  pv_updated_by :: uuid

text \<open>The patterns \<open>^[a-z][a-z0-9_]{1,79}$\<close> and \<open>^[A-Z][A-Z0-9_]{1,63}$\<close> of the fields.\<close>

definition is_lower_letter :: "char \<Rightarrow> bool" where
  "is_lower_letter c \<longleftrightarrow> 97 \<le> (of_char c :: nat) \<and> (of_char c :: nat) \<le> 122"

definition is_upper_letter :: "char \<Rightarrow> bool" where
  "is_upper_letter c \<longleftrightarrow> 65 \<le> (of_char c :: nat) \<and> (of_char c :: nat) \<le> 90"

definition resource_type_pattern :: "string \<Rightarrow> bool" where
  "resource_type_pattern s \<longleftrightarrow>
     s \<noteq> [] \<and> is_lower_letter (hd s) \<and> 1 \<le> length (tl s) \<and> length (tl s) \<le> 79 \<and>
     list_all (\<lambda>c. is_lower_letter c \<or> is_digit c \<or> c = CHR ''_'') (tl s)"

definition state_pattern :: "string \<Rightarrow> bool" where
  "state_pattern s \<longleftrightarrow>
     s \<noteq> [] \<and> is_upper_letter (hd s) \<and> 1 \<le> length (tl s) \<and> length (tl s) \<le> 63 \<and>
     list_all (\<lambda>c. is_upper_letter c \<or> is_digit c \<or> c = CHR ''_'') (tl s)"

definition privacy_record_valid :: "privacy_record \<Rightarrow> bool" where
  "privacy_record_valid x \<longleftrightarrow>
     resource_type_pattern (pv_resource_type x) \<and> state_pattern (pv_state x) \<and> 1 \<le> pv_state_version x \<and>
     (case pv_status_reason x of None \<Rightarrow> True | Some s \<Rightarrow> char_count s \<le> 120)"

text \<open>The body of a create request: metadata, each field optional.\<close>

record resource_command =
  rc_subject_scope :: "string option"
  rc_justification_ref :: "string option"
  rc_legal_basis_ref :: "string option"
  rc_notice_ref :: "string option"
  rc_policy_ref :: "string option"
  rc_source_ref :: "string option"
  rc_provider_ref :: "string option"
  rc_evidence_refs :: "string list option"
  rc_purpose :: "string option"
  rc_region :: "string option"
  rc_retention_days :: "int option"
  rc_delete_plan :: "string option"
  rc_risk_level :: "string option"
  rc_reviewer :: "string option"
  rc_description :: "string option"

definition text_field :: "string \<Rightarrow> string option \<Rightarrow> (string \<times> json) list" where
  "text_field name x = (case x of None \<Rightarrow> [] | Some s \<Rightarrow> [(name, JStr s)])"

text \<open>\<open>body.model_dump(mode="json", exclude_none=True, exclude_unset=True)\<close>.\<close>

definition command_payload :: "resource_command \<Rightarrow> (string \<times> json) list" where
  "command_payload c =
     text_field ''subject_scope'' (rc_subject_scope c) @
     text_field ''justification_ref'' (rc_justification_ref c) @
     text_field ''legal_basis_ref'' (rc_legal_basis_ref c) @
     text_field ''notice_ref'' (rc_notice_ref c) @
     text_field ''policy_ref'' (rc_policy_ref c) @
     text_field ''source_ref'' (rc_source_ref c) @
     text_field ''provider_ref'' (rc_provider_ref c) @
     (case rc_evidence_refs c of None \<Rightarrow> [] | Some rs \<Rightarrow> [(''evidence_refs'', JArr (map JStr rs))]) @
     text_field ''purpose'' (rc_purpose c) @
     text_field ''region'' (rc_region c) @
     (case rc_retention_days c of None \<Rightarrow> [] | Some n \<Rightarrow> [(''retention_days'', JInt n)]) @
     text_field ''delete_plan'' (rc_delete_plan c) @
     text_field ''risk_level'' (rc_risk_level c) @
     text_field ''reviewer'' (rc_reviewer c) @
     text_field ''description'' (rc_description c)"

record action_command =
  ac_reason_code :: "string option"
  ac_comment :: "string option"
  ac_target_state :: "string option"
  ac_effective_at :: "timestamp option"
  ac_correlation_id :: "uuid option"

text \<open>\<open>MarketActionCommand()\<close>, and \<open>command.model_dump(mode="json")\<close>.\<close>

definition empty_action :: action_command where
  "empty_action = \<lparr>ac_reason_code = None, ac_comment = None, ac_target_state = None, ac_effective_at = None,
     ac_correlation_id = None\<rparr>"

definition action_fields :: "(timestamp \<Rightarrow> string) \<Rightarrow> action_command \<Rightarrow> (string \<times> json) list" where
  "action_fields isofmt c =
     [(''reason_code'', jopt JStr (ac_reason_code c)), (''comment'', jopt JStr (ac_comment c)),
      (''target_state'', jopt JStr (ac_target_state c)),
      (''effective_at'', jopt (\<lambda>t. JStr (isofmt t)) (ac_effective_at c)),
      (''correlation_id'', jopt (\<lambda>k. JStr (uuid_str k)) (ac_correlation_id c))]"

section \<open>Transition tables\<close>

definition INITIAL_STATES :: "(string, string) dict" where
  "INITIAL_STATES =
     [(''processing_record'', ''DRAFT''), (''legal_basis_evidence'', ''CURRENT''),
      (''notice_consent_record'', ''CURRENT''), (''pia_record'', ''DRAFT''),
      (''cross_border_assessment'', ''DRAFT''), (''provider_policy'', ''DRAFT''), (''dsr_policy'', ''DRAFT''),
      (''load_profile'', ''DRAFT''), (''data_subject_request'', ''RECEIVED''), (''incident_policy'', ''DRAFT''),
      (''incident'', ''OPEN''), (''consent_withdrawal'', ''RECORDED'')]"

definition FIXED_TRANSITIONS :: "(string \<times> string, (string, string) dict) dict" where
  "FIXED_TRANSITIONS =
     [((''pia_record'', ''approve''), [(''DRAFT'', ''APPROVED'')]),
      ((''pia_record'', ''revoke''), [(''APPROVED'', ''REVOKED'')]),
      ((''cross_border_assessment'', ''approve''), [(''DRAFT'', ''APPROVED'')]),
      ((''cross_border_assessment'', ''mark-not-required''), [(''DRAFT'', ''NOT_REQUIRED'')]),
      ((''cross_border_assessment'', ''revoke''), [(''APPROVED'', ''REVOKED''), (''NOT_REQUIRED'', ''REVOKED'')]),
      ((''cross_border_assessment'', ''expire''), [(''APPROVED'', ''EXPIRED''), (''NOT_REQUIRED'', ''EXPIRED'')]),
      ((''provider_policy'', ''approve''), [(''DRAFT'', ''APPROVED'')]),
      ((''provider_policy'', ''mark-not-required''), [(''DRAFT'', ''NOT_REQUIRED'')]),
      ((''provider_policy'', ''revoke''), [(''APPROVED'', ''REVOKED''), (''NOT_REQUIRED'', ''REVOKED'')]),
      ((''provider_policy'', ''expire''), [(''APPROVED'', ''EXPIRED''), (''NOT_REQUIRED'', ''EXPIRED'')]),
      ((''dsr_policy'', ''publish''), [(''DRAFT'', ''PUBLISHED'')]),
      ((''dsr_policy'', ''archive''), [(''PUBLISHED'', ''ARCHIVED'')]),
      ((''load_profile'', ''freeze''), [(''DRAFT'', ''FROZEN'')]),
      ((''data_subject_request'', ''verify-identity''), [(''RECEIVED'', ''IDENTITY_VERIFIED'')]),
      ((''data_subject_request'', ''complete''), [(''IN_PROGRESS'', ''COMPLETED''), (''READY_TO_COMPLETE'', ''COMPLETED'')]),
      ((''incident_policy'', ''approve''), [(''DRAFT'', ''APPROVED'')]),
      ((''incident'', ''close''), [(''RESOLVED'', ''CLOSED'')])]"

definition DYNAMIC_TRANSITIONS :: "(string, (string, string list) dict) dict" where
  "DYNAMIC_TRANSITIONS =
     [(''data_subject_request'',
        [(''IDENTITY_VERIFIED'', [''IN_PROGRESS'', ''REJECTED'']),
         (''IN_PROGRESS'', [''WAITING_FOR_INFORMATION'', ''READY_TO_COMPLETE'', ''REJECTED'']),
         (''WAITING_FOR_INFORMATION'', [''IN_PROGRESS'', ''REJECTED'']),
         (''READY_TO_COMPLETE'', [''IN_PROGRESS''])]),
      (''incident'',
        [(''OPEN'', [''TRIAGED'', ''CONTAINED'']), (''TRIAGED'', [''CONTAINED'', ''REMEDIATING'']),
         (''CONTAINED'', [''REMEDIATING'']), (''REMEDIATING'', [''RESOLVED''])])]"

definition INDEPENDENT_CHECKER_ACTIONS :: "string list" where
  "INDEPENDENT_CHECKER_ACTIONS = [''approve'', ''mark-not-required'', ''publish'', ''freeze'']"

definition next_state :: "string \<Rightarrow> string \<Rightarrow> string \<Rightarrow> action_command \<Rightarrow> string res" where
  "next_state resource_type current_state action command =
     (if action = ''mark-not-required'' \<and> ac_reason_code command = None
      then Inl (BiaiceError ''REQUEST_VALIDATION_FAILED'')
      else if action = ''transition''
      then
        (let allowed =
           (case dict_get DYNAMIC_TRANSITIONS resource_type of None \<Rightarrow> []
            | Some table \<Rightarrow> (case dict_get table current_state of None \<Rightarrow> [] | Some ts \<Rightarrow> ts))
         in case ac_target_state command of
              None \<Rightarrow> Inl (BiaiceError ''INVALID_STATE_TRANSITION'')
            | Some target \<Rightarrow>
                if target \<in> set allowed then Inr target else Inl (BiaiceError ''INVALID_STATE_TRANSITION''))
      else
        (let transition = (case dict_get FIXED_TRANSITIONS (resource_type, action) of None \<Rightarrow> [] | Some t \<Rightarrow> t)
         in case dict_get transition current_state of
              None \<Rightarrow> Inl (BiaiceError ''INVALID_STATE_TRANSITION'')
            | Some s \<Rightarrow> Inr s))"

section \<open>Repository and journal\<close>

type_synonym privacy_key = "uuid \<times> uuid \<times> string \<times> uuid"
type_synonym journal_key = "uuid \<times> uuid \<times> string"

record privacy_repo =
  pp_records :: "(privacy_key, privacy_record) dict"
  pp_journal :: "(journal_key, string \<times> privacy_record) dict"

definition empty_privacy :: privacy_repo where
  "empty_privacy = \<lparr>pp_records = [], pp_journal = []\<rparr>"

definition record_key :: "tenant_scope \<Rightarrow> string \<Rightarrow> uuid \<Rightarrow> privacy_key" where
  "record_key scope resource_type resource_id =
     (sc_tenant_id scope, sc_data_domain_id scope, resource_type, resource_id)"

definition save_record :: "tenant_scope \<Rightarrow> privacy_record \<Rightarrow> (privacy_repo world, privacy_record) svc" where
  "save_record scope x =
     bindS (liftE (assert_allows scope (pv_tenant_id x) (pv_data_domain_id x) None None)) (\<lambda>_.
     bindS (put_repo (\<lambda>r. r\<lparr>pp_records :=
              dict_set (record_key scope (pv_resource_type x) (pv_resource_id x)) x (pp_records r)\<rparr>)) (\<lambda>_.
     ret x))"

definition find_record :: "tenant_scope \<Rightarrow> string \<Rightarrow> uuid \<Rightarrow> privacy_repo \<Rightarrow> privacy_record option" where
  "find_record scope resource_type resource_id r = dict_get (pp_records r) (record_key scope resource_type resource_id)"

text \<open>Newest first; \<open>reverse=True\<close> keeps the order of equal keys.\<close>

definition list_records :: "tenant_scope \<Rightarrow> string \<Rightarrow> string option \<Rightarrow> privacy_repo \<Rightarrow> privacy_record list" where
  "list_records scope resource_type state r =
     (let matches = map snd (filter (\<lambda>((tid, did, kind, _), x).
            tid = sc_tenant_id scope \<and> did = sc_data_domain_id scope \<and> kind = resource_type \<and>
            (state = None \<or> state = Some (pv_state x))) (pp_records r))
      in rev (sort_key (\<lambda>x. (pv_created_at x, pv_resource_id x)) (rev matches)))"

definition journal_key :: "tenant_scope \<Rightarrow> string \<Rightarrow> journal_key" where
  "journal_key scope key = (sc_tenant_id scope, sc_data_domain_id scope, key)"

definition journal_replay :: "tenant_scope \<Rightarrow> string \<Rightarrow> string \<Rightarrow> privacy_repo \<Rightarrow> privacy_record option res" where
  "journal_replay scope key fingerprint r =
     (case dict_get (pp_journal r) (journal_key scope key) of
        None \<Rightarrow> Inr None
      | Some (stored_fingerprint, response) \<Rightarrow>
          if stored_fingerprint \<noteq> fingerprint then Inl (BiaiceError ''IDEMPOTENCY_CONFLICT'')
          else Inr (Some response))"

definition journal_record :: "tenant_scope \<Rightarrow> string \<Rightarrow> string \<Rightarrow> privacy_record \<Rightarrow> privacy_repo \<Rightarrow> privacy_repo" where
  "journal_record scope key fingerprint response r =
     r\<lparr>pp_journal := dict_set (journal_key scope key) (fingerprint, response) (pp_journal r)\<rparr>"

section \<open>Service\<close>

type_synonym 'a privacy_svc = "(privacy_repo world, 'a) svc"

definition privacy_fingerprint :: "env \<Rightarrow> string \<Rightarrow> (string \<times> json) list \<Rightarrow> string" where
  "privacy_fingerprint env operation_id body =
     env_sha env (dumps (JObj [(''operation_id'', JStr operation_id), (''body'', JObj body)]))"

text \<open>A command that was answered before is answered again; otherwise it is carried out and journaled.\<close>

definition replayed :: "tenant_scope \<Rightarrow> string \<Rightarrow> string \<Rightarrow> privacy_record privacy_svc \<Rightarrow> privacy_record privacy_svc" where
  "replayed scope key fingerprint command =
     bindS (get_repo (journal_replay scope key fingerprint)) (\<lambda>r.
     bindS (liftE r) (\<lambda>replay.
     case replay of Some x \<Rightarrow> ret x | None \<Rightarrow> command))"

definition privacy_create ::
  "env \<Rightarrow> identity_context \<Rightarrow> string \<Rightarrow> (string \<times> json) list \<Rightarrow> string \<Rightarrow> string \<Rightarrow> string \<Rightarrow> privacy_record privacy_svc" where
  "privacy_create env identity resource_type payload operation_id idempotency_key request_id =
     (case dict_get INITIAL_STATES resource_type of
        None \<Rightarrow> throw (BiaiceError ''NOT_IMPLEMENTED'')
      | Some initial \<Rightarrow>
     (let fingerprint = privacy_fingerprint env operation_id payload in
     replayed (ic_scope identity) idempotency_key fingerprint (
     bindS require_writer (\<lambda>_.
     bindS (clock_now env) (\<lambda>now.
     bindS (uuid4 env) (\<lambda>resource_id.
     let x = \<lparr>pv_resource_id = resource_id, pv_resource_type = resource_type,
              pv_tenant_id = sc_tenant_id (ic_scope identity), pv_data_domain_id = sc_data_domain_id (ic_scope identity),
              pv_state = initial, pv_state_version = 1, pv_payload = payload, pv_status_reason = Some ''CREATED'',
              pv_created_at = now, pv_created_by = ic_subject_id identity,
              pv_updated_at = now, pv_updated_by = ic_subject_id identity\<rparr> in
     bindS (checkS (privacy_record_valid x) ValidationError) (\<lambda>_.
     bindS (save_record (ic_scope identity) x) (\<lambda>_.
     bindS (noted env identity operation_id resource_type (pv_resource_id x) request_id
              ''FR12_RESOURCE_CREATED'' (pv_state x) None) (\<lambda>_.
     bindS (put_repo (journal_record (ic_scope identity) idempotency_key fingerprint x)) (\<lambda>_.
     ret x))))))))))"

definition privacy_get :: "identity_context \<Rightarrow> string \<Rightarrow> uuid \<Rightarrow> privacy_record privacy_svc" where
  "privacy_get identity resource_type resource_id =
     found_or missing (find_record (ic_scope identity) resource_type resource_id)"

text \<open>\<open>reason or default\<close>: an empty text counts as missing.\<close>

definition or_text :: "string option \<Rightarrow> string \<Rightarrow> string" where
  "or_text x fallback = (case x of None \<Rightarrow> fallback | Some s \<Rightarrow> if s = [] then fallback else s)"

definition moved_record ::
  "identity_context \<Rightarrow> string \<Rightarrow> string \<Rightarrow> action_command \<Rightarrow> timestamp \<Rightarrow> privacy_record \<Rightarrow> privacy_record" where
  "moved_record identity state operation_id command now x =
     x\<lparr>pv_state := state, pv_state_version := pv_state_version x + 1,
       pv_status_reason := Some (or_text (ac_reason_code command) (upper operation_id)),
       pv_updated_at := now, pv_updated_by := ic_subject_id identity\<rparr>"

definition privacy_action ::
  "env \<Rightarrow> identity_context \<Rightarrow> string \<Rightarrow> uuid \<Rightarrow> string \<Rightarrow> action_command \<Rightarrow> string \<Rightarrow> string \<Rightarrow> string \<Rightarrow>
   privacy_record privacy_svc" where
  "privacy_action env identity resource_type resource_id action command operation_id idempotency_key request_id =
     (let fingerprint = privacy_fingerprint env operation_id
            ((''resource_id'', JStr (uuid_str resource_id)) # action_fields (env_isofmt env) command) in
     replayed (ic_scope identity) idempotency_key fingerprint (
     bindS (privacy_get identity resource_type resource_id) (\<lambda>current.
     bindS (checkS (\<not> (action \<in> set INDEPENDENT_CHECKER_ACTIONS \<and> pv_created_by current = ic_subject_id identity))
              (BiaiceError ''MAKER_CHECKER_REQUIRED'')) (\<lambda>_.
     bindS (liftE (next_state resource_type (pv_state current) action command)) (\<lambda>state.
     bindS require_writer (\<lambda>_.
     bindS (clock_now env) (\<lambda>now.
     let x = moved_record identity state operation_id command now current in
     bindS (save_record (ic_scope identity) x) (\<lambda>_.
     bindS (noted env identity operation_id resource_type (pv_resource_id x) request_id
              (or_text (ac_reason_code command) ''FR12_STATE_TRANSITION'') (pv_state x) None) (\<lambda>_.
     bindS (put_repo (journal_record (ic_scope identity) idempotency_key fingerprint x)) (\<lambda>_.
     ret x))))))))))"

section \<open>Routes\<close>

record resource_spec =
  sp_path :: string
  sp_list_stem :: string
  sp_resource_type :: string
  sp_id_parameter :: string
  sp_action_id_parameter :: "string option"
  sp_operation_resource_type :: "string option"

definition create_get_resource_type :: "resource_spec \<Rightarrow> string" where
  "create_get_resource_type spec = or_text (sp_operation_resource_type spec) (sp_resource_type spec)"

definition action_resource_parameter :: "resource_spec \<Rightarrow> string" where
  "action_resource_parameter spec = or_text (sp_action_id_parameter spec) (sp_id_parameter spec)"

record action_spec =
  ap_resource :: resource_spec
  ap_action :: string

definition operation_id_of :: "action_spec \<Rightarrow> string" where
  "operation_id_of spec =
     map (\<lambda>c. if c = CHR ''-'' then CHR ''_'' else c) (ap_action spec) @ ''_'' @ sp_resource_type (ap_resource spec)"

text \<open>A spec whose parameters and operation names follow from its type.\<close>

definition plain_spec :: "string \<Rightarrow> string \<Rightarrow> string \<Rightarrow> resource_spec" where
  "plain_spec path stem ty = \<lparr>sp_path = path, sp_list_stem = stem, sp_resource_type = ty, sp_id_parameter = ty @ ''_id'',
     sp_action_id_parameter = None, sp_operation_resource_type = None\<rparr>"

definition policy_spec :: "string \<Rightarrow> string \<Rightarrow> string \<Rightarrow> string \<Rightarrow> resource_spec" where
  "policy_spec path stem ty clipped = \<lparr>sp_path = path, sp_list_stem = stem, sp_resource_type = ty,
     sp_id_parameter = clipped @ ''_id'', sp_action_id_parameter = Some (ty @ ''_id''),
     sp_operation_resource_type = Some clipped\<rparr>"

definition RESOURCE_SPECS :: "resource_spec list" where
  "RESOURCE_SPECS =
     [plain_spec ''processing-records'' ''processing_records'' ''processing_record'',
      plain_spec ''legal-basis-evidence'' ''legal_basis_evidence'' ''legal_basis_evidence'',
      plain_spec ''notice-consent-records'' ''notice_consent_records'' ''notice_consent_record'',
      plain_spec ''pia-records'' ''pia_records'' ''pia_record'',
      plain_spec ''cross-border-assessments'' ''cross_border_assessments'' ''cross_border_assessment'',
      policy_spec ''provider-policies'' ''provider_policies'' ''provider_policy'' ''provider_policie'',
      policy_spec ''dsr-policies'' ''dsr_policies'' ''dsr_policy'' ''dsr_policie'',
      plain_spec ''load-profiles'' ''load_profiles'' ''load_profile'',
      plain_spec ''data-subject-requests'' ''data_subject_requests'' ''data_subject_request'',
      policy_spec ''incident-policies'' ''incident_policies'' ''incident_policy'' ''incident_policie'',
      plain_spec ''incidents'' ''incidents'' ''incident'']"

definition ROUTE_ACTIONS :: "(string \<times> string list) list" where
  "ROUTE_ACTIONS =
     [(''pia_record'', [''approve'', ''revoke'']),
      (''cross_border_assessment'', [''approve'', ''mark-not-required'', ''revoke'', ''expire'']),
      (''provider_policy'', [''approve'', ''mark-not-required'', ''revoke'', ''expire'']),
      (''dsr_policy'', [''publish'', ''archive'']), (''load_profile'', [''freeze'']),
      (''data_subject_request'', [''verify-identity'', ''transition'', ''complete'']),
      (''incident_policy'', [''approve'']), (''incident'', [''transition'', ''close''])]"

definition ACTION_SPECS :: "action_spec list" where
  "ACTION_SPECS =
     concat (map (\<lambda>(ty, actions).
       map (\<lambda>a. \<lparr>ap_resource = the (dict_get (dict_of sp_resource_type (\<lambda>s. s) RESOURCE_SPECS) ty), ap_action = a\<rparr>) actions)
       ROUTE_ACTIONS)"

definition PRIVACY_READ_ROLES :: "role list" where
  "PRIVACY_READ_ROLES = [AUDITOR, GOVERNANCE_ADMIN, LEGAL_PRIVACY, PRIVACY_OFFICER, TENANT_ADMIN, TENANT_AI_ADMIN]"

definition PRIVACY_WRITE_ROLES :: "role list" where
  "PRIVACY_WRITE_ROLES = [GOVERNANCE_ADMIN, LEGAL_PRIVACY, PRIVACY_OFFICER]"

definition privacy_authorize :: "identity_context \<Rightarrow> bool \<Rightarrow> bool \<Rightarrow> unit res" where
  "privacy_authorize identity write require_mfa =
     (let allowed = if write then PRIVACY_WRITE_ROLES else PRIVACY_READ_ROLES
      in if \<not> list_ex (\<lambda>role. role \<in> set allowed) (ic_roles identity) then Inl (BiaiceError ''PERMISSION_DENIED'')
         else if require_mfa \<and> \<not> ic_mfa_verified identity then Inl (BiaiceError ''MFA_REQUIRED'')
         else Inr ())"

definition create_endpoint ::
  "env \<Rightarrow> resource_spec \<Rightarrow> identity_context \<Rightarrow> resource_command \<Rightarrow> string option \<Rightarrow> string \<Rightarrow> privacy_record privacy_svc" where
  "create_endpoint env spec identity body key_header request_id =
     bindS (liftE (require_idempotency_key key_header)) (\<lambda>key.
     bindS (liftE (privacy_authorize identity True False)) (\<lambda>_.
     privacy_create env identity (sp_resource_type spec) (command_payload body)
       (''create_'' @ create_get_resource_type spec) key request_id))"

definition get_endpoint :: "resource_spec \<Rightarrow> identity_context \<Rightarrow> uuid \<Rightarrow> privacy_record privacy_svc" where
  "get_endpoint spec identity resource_id =
     bindS (liftE (privacy_authorize identity False False)) (\<lambda>_.
     privacy_get identity (sp_resource_type spec) resource_id)"

definition action_endpoint ::
  "env \<Rightarrow> action_spec \<Rightarrow> identity_context \<Rightarrow> uuid \<Rightarrow> action_command option \<Rightarrow> string option \<Rightarrow> string \<Rightarrow> privacy_record privacy_svc" where
  "action_endpoint env spec identity resource_id body key_header request_id =
     bindS (liftE (require_idempotency_key key_header)) (\<lambda>key.
     bindS (liftE (privacy_authorize identity True True)) (\<lambda>_.
     privacy_action env identity (sp_resource_type (ap_resource spec)) resource_id (ap_action spec)
       (case body of None \<Rightarrow> empty_action | Some c \<Rightarrow> c) (operation_id_of spec) key request_id))"

definition append_consent_withdrawal ::
  "env \<Rightarrow> identity_context \<Rightarrow> resource_command \<Rightarrow> string option \<Rightarrow> string \<Rightarrow> privacy_record privacy_svc" where
  "append_consent_withdrawal env identity body key_header request_id =
     bindS (liftE (require_idempotency_key key_header)) (\<lambda>key.
     bindS (liftE (privacy_authorize identity True False)) (\<lambda>_.
     privacy_create env identity ''consent_withdrawal'' (command_payload body) ''append_consent_withdrawal'' key request_id))"

section \<open>Histories\<close>

datatype privacy_call =
    CreatePrivacy resource_spec identity_context resource_command "string option" string
  | ActOnPrivacy action_spec identity_context uuid "action_command option" "string option" string
  | WithdrawConsent identity_context resource_command "string option" string

primrec run_privacy :: "env \<Rightarrow> privacy_call \<Rightarrow> privacy_record privacy_svc" where
  "run_privacy env (CreatePrivacy spec i body key rid) = create_endpoint env spec i body key rid"
| "run_privacy env (ActOnPrivacy spec i k body key rid) = action_endpoint env spec i k body key rid"
| "run_privacy env (WithdrawConsent i body key rid) = append_consent_withdrawal env i body key rid"

definition privacy_after :: "env \<Rightarrow> privacy_call list \<Rightarrow> privacy_repo world \<Rightarrow> privacy_repo world" where
  "privacy_after env cs w = history (\<lambda>c. as_unit (run_privacy env c)) cs (w\<lparr>w_repo := empty_privacy\<rparr>)"

end
