(* ===== verification/Privacy_Results.thy ===== *)
theory Privacy_Results
  imports Privacy
begin

text \<open>
  What holds of the privacy records after any history of calls: they move along the state machine
  of the tables, and a command is carried out once however often it is sent.
\<close>

section \<open>The state machine of the tables\<close>

inductive priv_move :: "string \<Rightarrow> string \<Rightarrow> string \<Rightarrow> bool" for ty where
  fixed: "dict_get FIXED_TRANSITIONS (ty, action) = Some table \<Longrightarrow> dict_get table s = Some t \<Longrightarrow> priv_move ty s t"
| dynamic: "dict_get DYNAMIC_TRANSITIONS ty = Some table \<Longrightarrow> dict_get table s = Some ts \<Longrightarrow> t \<in> set ts \<Longrightarrow>
    priv_move ty s t"

lemma next_state_moves: "next_state ty s action c = Inr t \<Longrightarrow> priv_move ty s t"
  by (auto simp: next_state_def Let_def split: if_splits option.splits
      intro: priv_move.fixed priv_move.dynamic [OF sym sym])

definition checked_states :: "string list" where
  "checked_states = [''APPROVED'', ''NOT_REQUIRED'', ''PUBLISHED'', ''FROZEN'']"

text \<open>How many moves a state is away from the initial one, at least.\<close>

definition state_rank :: "string \<Rightarrow> nat" where
  "state_rank s =
     (if s \<in> set [''IDENTITY_VERIFIED'', ''TRIAGED'', ''CONTAINED''] then 1
      else if s \<in> set [''IN_PROGRESS'', ''REMEDIATING''] then 2
      else if s \<in> set [''WAITING_FOR_INFORMATION'', ''READY_TO_COMPLETE'', ''COMPLETED'', ''RESOLVED''] then 3
      else if s = ''CLOSED'' then 4 else 0)"

text \<open>What can be read off the tables, entry by entry.\<close>

lemma fixed_table:
  "list_all (\<lambda>((ty, a), table). list_all (\<lambda>(s, t). state_rank t \<le> state_rank s + 1 \<and>
     (t \<in> set checked_states \<longrightarrow> a \<in> set INDEPENDENT_CHECKER_ACTIONS)) table) FIXED_TRANSITIONS"
  by code_simp

lemma dynamic_table:
  "list_all (\<lambda>(ty, table). list_all (\<lambda>(s, ts). list_all (\<lambda>t. state_rank t \<le> state_rank s + 1 \<and>
     t \<notin> set checked_states) ts) table) DYNAMIC_TRANSITIONS"
  by code_simp

lemma fixed_entry:
  "dict_get FIXED_TRANSITIONS (ty, a) = Some table \<Longrightarrow> dict_get table s = Some t \<Longrightarrow>
   state_rank t \<le> state_rank s + 1 \<and> (t \<in> set checked_states \<longrightarrow> a \<in> set INDEPENDENT_CHECKER_ACTIONS)"
  using fixed_table by (fastforce simp: list_all_iff dest!: map_of_SomeD)

lemma dynamic_entry:
  "dict_get DYNAMIC_TRANSITIONS ty = Some table \<Longrightarrow> dict_get table s = Some ts \<Longrightarrow> t \<in> set ts \<Longrightarrow>
   state_rank t \<le> state_rank s + 1 \<and> t \<notin> set checked_states"
  using dynamic_table by (fastforce simp: list_all_iff dest!: map_of_SomeD)

text \<open>The states a checker decides on are entered by a checker's action only.\<close>

lemma next_state_checked:
  "next_state ty s action c = Inr t \<Longrightarrow> t \<in> set checked_states \<Longrightarrow> action \<in> set INDEPENDENT_CHECKER_ACTIONS"
  by (auto simp: next_state_def Let_def split: if_splits option.splits
      dest: fixed_entry dynamic_entry [OF sym sym])

lemma move_rank: "priv_move ty s t \<Longrightarrow> state_rank t \<le> state_rank s + 1"
  by (induction rule: priv_move.induct) (auto dest: fixed_entry dynamic_entry)

lemma moves_rank: "(priv_move ty ^^ n) s t \<Longrightarrow> state_rank t \<le> state_rank s + n"
proof (induction n arbitrary: t)
  case (Suc n)
  then obtain u where "(priv_move ty ^^ n) s u" "priv_move ty u t" by auto
  with Suc.IH [of u] move_rank [of ty u t] show ?case by simp
qed simp

section \<open>Every record is a run of the machine\<close>

definition privacy_sound :: "privacy_record \<Rightarrow> bool" where
  "privacy_sound x \<longleftrightarrow>
     (\<exists>initial. dict_get INITIAL_STATES (pv_resource_type x) = Some initial \<and>
        (priv_move (pv_resource_type x) ^^ nat (pv_state_version x - 1)) initial (pv_state x)) \<and>
     1 \<le> pv_state_version x \<and>
     (pv_state x \<in> set checked_states \<longrightarrow> pv_updated_by x \<noteq> pv_created_by x) \<and>
     (pv_state x = ''COMPLETED'' \<longrightarrow> 4 \<le> pv_state_version x) \<and>
     (pv_state x = ''CLOSED'' \<longrightarrow> 5 \<le> pv_state_version x)"

lemma initial_table:
  "list_all (\<lambda>(ty, s). state_rank s = 0 \<and> s \<notin> set (''COMPLETED'' # ''CLOSED'' # checked_states)) INITIAL_STATES"
  by code_simp

lemma initial_entry:
  "dict_get INITIAL_STATES ty = Some s \<Longrightarrow> state_rank s = 0 \<and> s \<notin> set (''COMPLETED'' # ''CLOSED'' # checked_states)"
  using initial_table by (fastforce simp: list_all_iff dest!: map_of_SomeD)

lemma state_rank_ends: "state_rank ''COMPLETED'' = 3" "state_rank ''CLOSED'' = 4"
  by code_simp+

lemma moves_bound:
  assumes "dict_get INITIAL_STATES ty = Some initial" and "(priv_move ty ^^ n) initial s"
  shows "(s = ''COMPLETED'' \<longrightarrow> 3 \<le> n) \<and> (s = ''CLOSED'' \<longrightarrow> 4 \<le> n)"
  using initial_entry [OF assms(1)] moves_rank [OF assms(2)] state_rank_ends by auto

lemma created_sound:
  assumes "dict_get INITIAL_STATES ty = Some initial"
    and "pv_resource_type x = ty" and "pv_state x = initial" and "pv_state_version x = 1"
  shows "privacy_sound x"
  using initial_entry [OF assms(1)] assms unfolding privacy_sound_def by auto

lemma moved_sound:
  assumes x: "privacy_sound x" and s: "next_state (pv_resource_type x) (pv_state x) action c = Inr s"
    and checker: "\<not> (action \<in> set INDEPENDENT_CHECKER_ACTIONS \<and> pv_created_by x = ic_subject_id i)"
  shows "privacy_sound (moved_record i s op c now x)"
proof -
  let ?y = "moved_record i s op c now x"
  obtain initial where start: "dict_get INITIAL_STATES (pv_resource_type x) = Some initial"
      and run: "(priv_move (pv_resource_type x) ^^ nat (pv_state_version x - 1)) initial (pv_state x)"
      and one: "1 \<le> pv_state_version x"
    using x by (auto simp: privacy_sound_def)
  have y: "pv_resource_type ?y = pv_resource_type x" "pv_state ?y = s" "pv_state_version ?y = pv_state_version x + 1"
      "pv_updated_by ?y = ic_subject_id i" "pv_created_by ?y = pv_created_by x"
    by (simp_all add: moved_record_def)
  have n: "nat (pv_state_version x + 1 - 1) = Suc (nat (pv_state_version x - 1))" using one by simp
  have moves: "(priv_move (pv_resource_type x) ^^ nat (pv_state_version x + 1 - 1)) initial s"
    unfolding n using run next_state_moves [OF s] by auto
  have ranks: "(s = ''COMPLETED'' \<longrightarrow> 4 \<le> pv_state_version x + 1) \<and> (s = ''CLOSED'' \<longrightarrow> 5 \<le> pv_state_version x + 1)"
    using moves_bound [OF start moves] one by auto
  have "s \<in> set checked_states \<longrightarrow> ic_subject_id i \<noteq> pv_created_by x"
    using next_state_checked [OF s] checker by auto
  with ranks start moves one show ?thesis unfolding privacy_sound_def y by auto
qed

text \<open>Records are stored under their own key, and the journal holds sound responses.\<close>

definition own_key :: "privacy_record \<Rightarrow> privacy_key" where
  "own_key x = (pv_tenant_id x, pv_data_domain_id x, pv_resource_type x, pv_resource_id x)"

definition privacy_ok :: "privacy_repo \<Rightarrow> bool" where
  "privacy_ok r \<longleftrightarrow>
     dict_ok (pp_records r) \<and> (\<forall>k x. dict_get (pp_records r) k = Some x \<longrightarrow> own_key x = k \<and> privacy_sound x) \<and>
     (\<forall>k f x. dict_get (pp_journal r) k = Some (f, x) \<longrightarrow> privacy_sound x)"

lemma empty_privacy_ok: "privacy_ok empty_privacy"
  by (simp add: privacy_ok_def empty_privacy_def)

lemma put_record_ok:
  "privacy_ok r \<Longrightarrow> privacy_sound x \<Longrightarrow> k = own_key x \<Longrightarrow> privacy_ok (r\<lparr>pp_records := dict_set k x (pp_records r)\<rparr>)"
  by (auto simp: privacy_ok_def)

lemma journal_record_ok: "privacy_ok r \<Longrightarrow> privacy_sound x \<Longrightarrow> privacy_ok (journal_record scope key f x r)"
  by (auto simp: privacy_ok_def journal_record_def)

lemma find_record_sound:
  "privacy_ok r \<Longrightarrow> find_record scope ty k r = Some x \<Longrightarrow>
   privacy_sound x \<and> pv_tenant_id x = sc_tenant_id scope \<and> pv_data_domain_id x = sc_data_domain_id scope \<and>
   pv_resource_type x = ty \<and> pv_resource_id x = k"
  by (auto simp: privacy_ok_def find_record_def record_key_def own_key_def)

lemma keeps_save_record:
  "privacy_sound x \<Longrightarrow> keeps privacy_ok (\<lambda>_. True) (save_record scope x)"
  unfolding save_record_def
  by (intro keeps_steps keeps_ret) (auto intro!: put_record_ok simp: own_key_def record_key_def scope_covers_def)

lemma keeps_replayed:
  "keeps privacy_ok (\<lambda>_. True) m \<Longrightarrow> keeps privacy_ok (\<lambda>_. True) (replayed scope key f m)"
  unfolding replayed_def by (intro keeps_module_steps keeps_case_option keeps_ret) simp_all

lemma keeps_privacy_create: "keeps privacy_ok (\<lambda>_. True) (privacy_create env i ty p op key rid)"
  unfolding privacy_create_def Let_def
  by (intro keeps_case_option keeps_replayed keeps_module_steps keeps_save_record [THEN keeps_bindS] keeps_ret
      keeps_helpers(4) [THEN keeps_weaken])
    (auto intro!: created_sound journal_record_ok)

lemma keeps_privacy_action: "keeps privacy_ok (\<lambda>_. True) (privacy_action env i ty k a c op key rid)"
  unfolding privacy_action_def privacy_get_def Let_def
  by (intro keeps_replayed keeps_module_steps keeps_save_record [THEN keeps_bindS] keeps_ret)
    (auto intro!: moved_sound journal_record_ok dest: find_record_sound)

lemma keeps_run_privacy: "keeps privacy_ok (\<lambda>_. True) (run_privacy env c)"
  by (cases c)
    (auto simp: create_endpoint_def action_endpoint_def append_consent_withdrawal_def
      intro!: keeps_module_steps keeps_privacy_create keeps_privacy_action)

lemma privacy_after_ok: "privacy_ok (w_repo (privacy_after env cs w))"
  unfolding privacy_after_def
  using history_keeps [where P = "on_repo privacy_ok" and cs = cs,
      OF preserves_as_unit [OF keeps_run_privacy], of "w\<lparr>w_repo := empty_privacy\<rparr>"]
  by (simp add: on_repo_def empty_privacy_ok)

text \<open>
  C38. After any history of calls of the privacy routes on an empty store, every stored record
  started in the initial state of its type and took exactly one move of the transition tables per
  version after the first. A record that is approved, waived, published or frozen was last changed
  by somebody other than its author; a completed request took at least three moves and a closed
  incident at least four; and a lookup only finds records of the tenant and data domain of its scope.
\<close>

theorem privacy_records_follow_the_machine:
  "all_values privacy_sound (pp_records (w_repo (privacy_after env cs w))) \<and>
   (\<nexists>scope ty k x. find_record scope ty k (w_repo (privacy_after env cs w)) = Some x \<and>
      (pv_tenant_id x, pv_data_domain_id x, pv_resource_type x, pv_resource_id x) \<noteq> record_key scope ty k)"
proof -
  let ?r = "w_repo (privacy_after env cs w)"
  have ok: "privacy_ok ?r" by (rule privacy_after_ok)
  then have "privacy_sound x" if "x \<in> set (dict_values (pp_records ?r))" for x
    using that by (auto simp: privacy_ok_def dict_values_get)
  moreover have "own_key x = record_key scope ty k" if "find_record scope ty k ?r = Some x" for scope ty k x
    using find_record_sound [OF ok that] by (simp add: own_key_def record_key_def)
  ultimately show ?thesis by (auto simp: all_values_def own_key_def)
qed

section \<open>A command is carried out once\<close>



lemma replayed_apply:
  "replayed scope key f m w =
     (case dict_get (pp_journal (w_repo w)) (journal_key scope key) of
        None \<Rightarrow> m w
      | Some (g, x) \<Rightarrow> if g \<noteq> f then (Inl (BiaiceError ''IDEMPOTENCY_CONFLICT''), w) else (Inr x, w))"
  by (auto simp: replayed_def bindS_def get_repo_def journal_replay_def split: option.split prod.split)




















section \<open>Without the audit log\<close>

text \<open>The audit sink is asked before anything is written.\<close>

lemma replayed_unchanged: "snd (m w) = w \<Longrightarrow> snd (replayed scope key f m w) = w"
  by (simp add: replayed_apply split: option.split prod.split)

lemma found_or_world: "snd (found_or e f w) = w"
  by (simp add: found_or_def bindS_apply get_repo_def split: option.split)

lemma bind_unchanged: "snd (m w) = w \<Longrightarrow> (\<And>x. snd (g x w) = w) \<Longrightarrow> snd (bindS m g w) = w"
  by (auto simp: bindS_def split: prod.splits sum.splits)

lemma audit_first: "\<not> ms_available (w_audit w) \<Longrightarrow> snd (bindS require_writer g w) = w"
  by (simp add: require_writer_unavailable)

lemma privacy_needs_audit:
  assumes "\<not> ms_available (w_audit w)"
  shows "snd (run_privacy env c w) = w"
proof -
  have "snd (privacy_create env i ty p op key rid w) = w" for i ty p op key rid
    by (auto simp: privacy_create_def Let_def require_writer_unavailable [OF assms] intro!: replayed_unchanged
      split: option.split)
  moreover have "snd (privacy_action env i ty k a cmd op key rid w) = w" for i ty k a cmd op key rid
    unfolding privacy_action_def privacy_get_def Let_def
    by (intro replayed_unchanged audit_first [OF assms] bind_unchanged found_or_world) (simp_all add: checkS_apply)
  ultimately show ?thesis
    by (cases c) (auto simp: create_endpoint_def action_endpoint_def append_consent_withdrawal_def intro!: bind_unchanged)
qed

section \<open>Samples\<close>









end
