(* ===== verification/Market_Models.thy ===== *)
theory Market_Models
  imports Module_Base Http
begin

text \<open>
  The models of \<open>modules/market/domain/models.py\<close> that the market governance service keeps, and
  its in-process state. A floating-point number is carried as the 64 bits of its binary
  representation: the service compares and stores such numbers but does not calculate with them;
  the validators that sum a distribution are not modelled.
\<close>

section \<open>States\<close>

datatype data_classification =
  DC_PUBLIC | DC_INTERNAL | DC_CONFIDENTIAL | DC_PERSONAL | DC_SENSITIVE_PERSONAL

datatype source_review_state = SR_DRAFT | SR_REVIEWED | SR_QUARANTINED | SR_EXPIRED

datatype publication_state = PB_DRAFT | PB_REVIEWED | PB_PUBLISHED | PB_EXPIRED | PB_REVOKED | PB_QUARANTINED

datatype market_readiness = PROBABILISTIC | PRESSURE_ONLY

primrec source_review_value :: "source_review_state \<Rightarrow> string" where
  "source_review_value SR_DRAFT = ''DRAFT''"
| "source_review_value SR_REVIEWED = ''REVIEWED''"
| "source_review_value SR_QUARANTINED = ''QUARANTINED''"
| "source_review_value SR_EXPIRED = ''EXPIRED''"

primrec publication_value :: "publication_state \<Rightarrow> string" where
  "publication_value PB_DRAFT = ''DRAFT''"
| "publication_value PB_REVIEWED = ''REVIEWED''"
| "publication_value PB_PUBLISHED = ''PUBLISHED''"
| "publication_value PB_EXPIRED = ''EXPIRED''"
| "publication_value PB_REVOKED = ''REVOKED''"
| "publication_value PB_QUARANTINED = ''QUARANTINED''"

type_synonym float_bits = "64 word"

section \<open>Subjects\<close>

text \<open>\<open>"".join(value.casefold().split())\<close>: lower case and without white space.\<close>

definition squeezed :: "string \<Rightarrow> string" where
  "squeezed s = filter (\<lambda>c. \<not> is_space c) (lower s)"

definition canonical_subject_key :: "string \<Rightarrow> string res" where
  "canonical_subject_key s =
     (if char_count (squeezed s) < 3 then Inl (BiaiceError ''REQUEST_VALIDATION_FAILED'') else Inr (squeezed s))"

section \<open>Aggregates\<close>

record competitor =
  cm_competitor_id :: uuid
  cm_version_id :: uuid
  cm_tenant_id :: uuid
  cm_data_domain_id :: uuid
  cm_subject_key :: string
  cm_legal_name :: string
  cm_aliases :: "string list"
  cm_actor_id :: uuid
  cm_created_at :: timestamp
  cm_updated_at :: timestamp
  cm_archived_at :: "timestamp option"
  cm_archive_reason :: "string option"

text \<open>
  The checks of the constructor; the subject key is normalised by its validator, so the key that
  is stored is \<open>squeezed\<close>.
\<close>

definition competitor_valid :: "string \<Rightarrow> competitor \<Rightarrow> bool" where
  "competitor_valid given_key x \<longleftrightarrow>
     text_between 3 200 given_key \<and> 3 \<le> char_count (squeezed given_key) \<and> cm_subject_key x = squeezed given_key \<and>
     text_between 1 300 (cm_legal_name x) \<and>
     (case cm_archive_reason x of None \<Rightarrow> True | Some s \<Rightarrow> char_count s \<le> 1000)"

record competitor_source =
  so_source_id :: uuid
  so_version_id :: uuid
  so_competitor_id :: "uuid option"
  so_tenant_id :: uuid
  so_data_domain_id :: uuid
  so_source_uri :: string
  so_source_type :: string
  so_purpose :: string
  so_legal_basis_ref :: string
  so_retention_expires_at :: timestamp
  so_data_classification :: data_classification
  so_evidence_refs :: "string list"
  so_notes :: "string option"
  so_subject_resolved :: bool
  so_review_state :: source_review_state
  so_reviewed_by :: "uuid option"
  so_reviewed_at :: "timestamp option"
  so_quarantine_reason :: "string option"
  so_actor_id :: "uuid option"
  so_created_at :: timestamp
  so_updated_at :: "timestamp option"

definition review_is_evidence_bound :: "competitor_source \<Rightarrow> bool" where
  "review_is_evidence_bound x \<longleftrightarrow>
     (so_review_state x = SR_REVIEWED \<longrightarrow>
        so_subject_resolved x \<and> so_competitor_id x \<noteq> None \<and> so_reviewed_by x \<noteq> None \<and> so_reviewed_at x \<noteq> None) \<and>
     (so_review_state x = SR_QUARANTINED \<longrightarrow> so_quarantine_reason x \<noteq> None \<and> so_quarantine_reason x \<noteq> Some [])"

definition source_valid :: "competitor_source \<Rightarrow> bool" where
  "source_valid x \<longleftrightarrow>
     text_between 1 1024 (so_source_uri x) \<and> text_between 1 80 (so_source_type x) \<and>
     text_between 1 120 (so_purpose x) \<and> text_between 1 200 (so_legal_basis_ref x) \<and>
     (case so_notes x of None \<Rightarrow> True | Some s \<Rightarrow> char_count s \<le> 2000) \<and> review_is_evidence_bound x"

definition formally_usable :: "competitor_source \<Rightarrow> timestamp \<Rightarrow> bool" where
  "formally_usable x now \<longleftrightarrow>
     so_review_state x = SR_REVIEWED \<and> so_subject_resolved x \<and> now < so_retention_expires_at x"

record competitor_profile =
  pf_profile_id :: uuid
  pf_version_id :: uuid
  pf_competitor_id :: uuid
  pf_tenant_id :: uuid
  pf_data_domain_id :: uuid
  pf_source_ids :: "uuid list"
  pf_participation_assumptions :: "(string \<times> float_bits) list"
  pf_bid_assumptions :: "(string \<times> float_bits) list"
  pf_potential_response_states :: "string list"
  pf_subjective_variables :: "(string \<times> float_bits) list"
  pf_validity_assumptions :: "string list"
  pf_coverage_notes :: string
  pf_bias_notes :: string
  pf_drift_notes :: string
  pf_data_quality :: string
  pf_state :: publication_state
  pf_actor_id :: "uuid option"
  pf_created_at :: timestamp
  pf_updated_at :: "timestamp option"
  pf_published_at :: "timestamp option"

definition profile_valid :: "competitor_profile \<Rightarrow> bool" where
  "profile_valid x \<longleftrightarrow>
     pf_source_ids x \<noteq> [] \<and> text_between 1 2000 (pf_coverage_notes x) \<and> text_between 1 2000 (pf_bias_notes x) \<and>
     text_between 1 2000 (pf_drift_notes x) \<and> text_between 1 120 (pf_data_quality x)"

record market_prior =
  mp_market_prior_id :: uuid
  mp_version_id :: uuid
  mp_decision_unit_id :: uuid
  mp_tenant_id :: uuid
  mp_data_domain_id :: uuid
  mp_evidence_refs :: "string list"
  mp_purpose :: string
  mp_legal_basis_ref :: string
  mp_valid_from :: timestamp
  mp_expires_at :: timestamp
  mp_state :: publication_state
  mp_distribution :: "(string \<times> float_bits) list"
  mp_reviewed_by :: "uuid option"
  mp_reviewed_at :: "timestamp option"
  mp_actor_id :: "uuid option"
  mp_created_at :: timestamp
  mp_updated_at :: "timestamp option"
  mp_published_at :: "timestamp option"

definition validity_period_is_ordered :: "market_prior \<Rightarrow> bool" where
  "validity_period_is_ordered x \<longleftrightarrow> \<not> mp_expires_at x \<le> mp_valid_from x"

definition prior_valid :: "market_prior \<Rightarrow> bool" where
  "prior_valid x \<longleftrightarrow>
     mp_evidence_refs x \<noteq> [] \<and> text_between 1 120 (mp_purpose x) \<and> text_between 1 200 (mp_legal_basis_ref x) \<and>
     mp_distribution x \<noteq> [] \<and> validity_period_is_ordered x"

record unknown_profile =
  uk_profile_id :: uuid
  uk_version_id :: uuid
  uk_decision_unit_id :: uuid
  uk_tenant_id :: uuid
  uk_data_domain_id :: uuid
  uk_excluded_subject_keys :: "string list"
  uk_count_distribution :: "(int \<times> float_bits) list"
  uk_evidence_refs :: "string list"
  uk_expires_at :: timestamp
  uk_state :: publication_state
  uk_actor_id :: "uuid option"
  uk_created_at :: timestamp
  uk_updated_at :: "timestamp option"
  uk_published_at :: "timestamp option"

definition unknown_profile_valid :: "unknown_profile \<Rightarrow> bool" where
  "unknown_profile_valid x \<longleftrightarrow>
     uk_evidence_refs x \<noteq> [] \<and> uk_count_distribution x \<noteq> [] \<and> list_all (\<lambda>(n, _). 0 \<le> n) (uk_count_distribution x)"

datatype deduplication_state = DEDUP_SUCCEEDED

record deduplication_run =
  dd_run_id :: uuid
  dd_decision_unit_id :: uuid
  dd_tenant_id :: uuid
  dd_data_domain_id :: uuid
  dd_state :: deduplication_state
  dd_input_subject_keys :: "string list"
  dd_canonical_subject_keys :: "string list"
  dd_duplicate_groups :: "(string, string list) dict"
  dd_named_subject_matches :: "string list"
  dd_actor_id :: uuid
  dd_created_at :: timestamp
  dd_completed_at :: timestamp

definition deduplication_run_valid :: "deduplication_run \<Rightarrow> bool" where
  "deduplication_run_valid x \<longleftrightarrow> dd_input_subject_keys x \<noteq> [] \<and> dd_canonical_subject_keys x \<noteq> []"

record joint_scenario =
  js_named_competitor_ids :: "uuid list"
  js_unknown_entrant_count :: int
  js_probability :: float_bits

definition scenario_has_market_competition :: "joint_scenario \<Rightarrow> bool" where
  "scenario_has_market_competition x \<longleftrightarrow> \<not> (js_named_competitor_ids x = [] \<and> js_unknown_entrant_count x = 0)"

record joint_distribution =
  jd_version_id :: uuid
  jd_decision_unit_id :: uuid
  jd_tenant_id :: uuid
  jd_data_domain_id :: uuid
  jd_scenarios :: "joint_scenario list"
  jd_subject_deduplication_run_id :: uuid
  jd_created_at :: timestamp

section \<open>The state of the service\<close>

text \<open>What a command may have answered, for the replay of a repeated one.\<close>

datatype market_result =
    R_Competitor competitor
  | R_Source competitor_source
  | R_Profile competitor_profile
  | R_Prior market_prior
  | R_Unknown unknown_profile
  | R_Run deduplication_run

type_synonym subject_index_key = "uuid \<times> uuid \<times> string"
type_synonym idempotency_index_key = "uuid \<times> uuid \<times> string"

record market_state =
  ms_competitors :: "(uuid, competitor) dict"
  ms_subject_index :: "(subject_index_key, uuid) dict"
  ms_sources :: "(uuid, competitor_source) dict"
  ms_profiles :: "(uuid, competitor_profile) dict"
  ms_priors :: "(uuid, market_prior) dict"
  ms_unknown_profiles :: "(uuid, unknown_profile) dict"
  ms_deduplication_runs :: "(uuid, deduplication_run) dict"
  ms_idempotency_results :: "(idempotency_index_key, string \<times> market_result) dict"

definition empty_market :: market_state where
  "empty_market = \<lparr>ms_competitors = [], ms_subject_index = [], ms_sources = [], ms_profiles = [], ms_priors = [],
     ms_unknown_profiles = [], ms_deduplication_runs = [], ms_idempotency_results = []\<rparr>"

type_synonym 'a market = "(market_state world, 'a) svc"

text \<open>Writes of one dictionary.\<close>

definition set_competitor :: "uuid \<Rightarrow> competitor \<Rightarrow> market_state \<Rightarrow> market_state" where
  "set_competitor k x s = s\<lparr>ms_competitors := dict_set k x (ms_competitors s)\<rparr>"

definition set_source :: "uuid \<Rightarrow> competitor_source \<Rightarrow> market_state \<Rightarrow> market_state" where
  "set_source k x s = s\<lparr>ms_sources := dict_set k x (ms_sources s)\<rparr>"

definition set_profile :: "uuid \<Rightarrow> competitor_profile \<Rightarrow> market_state \<Rightarrow> market_state" where
  "set_profile k x s = s\<lparr>ms_profiles := dict_set k x (ms_profiles s)\<rparr>"

definition set_prior :: "uuid \<Rightarrow> market_prior \<Rightarrow> market_state \<Rightarrow> market_state" where
  "set_prior k x s = s\<lparr>ms_priors := dict_set k x (ms_priors s)\<rparr>"

definition set_unknown :: "uuid \<Rightarrow> unknown_profile \<Rightarrow> market_state \<Rightarrow> market_state" where
  "set_unknown k x s = s\<lparr>ms_unknown_profiles := dict_set k x (ms_unknown_profiles s)\<rparr>"

definition set_run :: "uuid \<Rightarrow> deduplication_run \<Rightarrow> market_state \<Rightarrow> market_state" where
  "set_run k x s = s\<lparr>ms_deduplication_runs := dict_set k x (ms_deduplication_runs s)\<rparr>"

definition index_subject :: "subject_index_key \<Rightarrow> uuid \<Rightarrow> market_state \<Rightarrow> market_state" where
  "index_subject k v s = s\<lparr>ms_subject_index := dict_set k v (ms_subject_index s)\<rparr>"

text \<open>\<open>del d[k]\<close>; the caller has to know that the key is there.\<close>

definition dict_del :: "'k \<Rightarrow> ('k, 'v) dict \<Rightarrow> ('k, 'v) dict" where
  "dict_del k d = filter (\<lambda>(k', _). k' \<noteq> k) d"

definition unindex_subject :: "subject_index_key \<Rightarrow> market_state \<Rightarrow> market_state" where
  "unindex_subject k s = s\<lparr>ms_subject_index := dict_del k (ms_subject_index s)\<rparr>"

lemma dict_get_del: "dict_get (dict_del k d) k' = (if k' = k then None else dict_get d k')"
  by (induction d) (auto simp: dict_del_def)

end
