(* ===== verification/Market_Service.thy ===== *)
theory Market_Service
  imports Market_Models
begin

text \<open>
  \<open>MarketGovernanceService\<close> of \<open>modules/market/application/governance.py\<close>: named competitors
  with their index of subjects, competitor sources and profiles, market priors, unknown-entrant
  profiles, subject deduplication and market readiness. An operation holds the lock of the service
  while it changes the state, so it is one step; its audit events follow.
\<close>

section \<open>Helpers\<close>

definition state_conflict :: exc where
  "state_conflict = BiaiceError ''IDEMPOTENCY_CONFLICT''"

definition market_allowed :: "identity_context \<Rightarrow> uuid \<Rightarrow> uuid \<Rightarrow> uuid option \<Rightarrow> ('r world, unit) svc" where
  "market_allowed identity tid did uid = liftE (assert_allows (ic_scope identity) tid did None uid)"

definition own_unit_allowed :: "identity_context \<Rightarrow> uuid \<Rightarrow> ('r world, unit) svc" where
  "own_unit_allowed identity unit_id =
     market_allowed identity (sc_tenant_id (ic_scope identity)) (sc_data_domain_id (ic_scope identity)) (Some unit_id)"

text \<open>\<open>_audit\<close>, with a writer bound.\<close>

definition market_audit ::
  "env \<Rightarrow> identity_context \<Rightarrow> string \<Rightarrow> string \<Rightarrow> uuid \<Rightarrow> uuid option \<Rightarrow> string option \<Rightarrow> string \<Rightarrow> string \<Rightarrow> unit market" where
  "market_audit env identity action object_type object_id version_id request_id reason_code outcome =
     bindS require_writer (\<lambda>_.
     case request_id of
       None \<Rightarrow> throw (BiaiceError ''INTERNAL_ERROR'')
     | Some rid \<Rightarrow>
         bindS (noted env identity action object_type object_id rid reason_code outcome version_id) (\<lambda>_. ret ()))"

text \<open>The roles that review material about competitors.\<close>

definition privacy_role :: "identity_context \<Rightarrow> bool" where
  "privacy_role identity \<longleftrightarrow> PRIVACY_OFFICER \<in> set (ic_roles identity) \<or> LEGAL_PRIVACY \<in> set (ic_roles identity)"

definition same_place :: "uuid \<Rightarrow> uuid \<Rightarrow> competitor \<Rightarrow> bool" where
  "same_place tid did c \<longleftrightarrow> cm_tenant_id c = tid \<and> cm_data_domain_id c = did"

text \<open>The subjects of the competitors of a tenant that are not archived.\<close>

definition named_subjects :: "uuid \<Rightarrow> uuid \<Rightarrow> market_state \<Rightarrow> string list" where
  "named_subjects tid did s =
     map cm_subject_key (filter (\<lambda>c. same_place tid did c \<and> cm_archived_at c = None) (dict_values (ms_competitors s)))"

text \<open>Repeating a command: the same key with the same fingerprint gives the first answer.\<close>

definition execute_idempotent ::
  "identity_context \<Rightarrow> string \<Rightarrow> string \<Rightarrow> market_result market \<Rightarrow> market_result market" where
  "execute_idempotent identity key fingerprint command =
     (let k = (sc_tenant_id (ic_scope identity), sc_data_domain_id (ic_scope identity), key) in
     bindS (get_repo (\<lambda>s. dict_get (ms_idempotency_results s) k)) (\<lambda>existing.
     case existing of
       Some (previous_fingerprint, previous_result) \<Rightarrow>
         bindS (checkS (previous_fingerprint = fingerprint) (BiaiceError ''IDEMPOTENCY_CONFLICT'')) (\<lambda>_.
         ret previous_result)
     | None \<Rightarrow>
         bindS command (\<lambda>result.
         bindS (put_repo (\<lambda>s. s\<lparr>ms_idempotency_results := dict_set k (fingerprint, result) (ms_idempotency_results s)\<rparr>)) (\<lambda>_.
         ret result))))"

section \<open>Competitors\<close>

text \<open>
  A new or renamed competitor takes the published unknown-entrant profiles of its tenant that do
  not exclude it out of use.
\<close>

definition quarantined_unknown :: "identity_context \<Rightarrow> uuid \<Rightarrow> timestamp \<Rightarrow> unknown_profile \<Rightarrow> unknown_profile" where
  "quarantined_unknown identity version_id now p =
     p\<lparr>uk_version_id := version_id, uk_state := PB_QUARANTINED, uk_actor_id := Some (ic_subject_id identity),
       uk_updated_at := Some now\<rparr>"

definition overlooks :: "uuid \<Rightarrow> uuid \<Rightarrow> string \<Rightarrow> unknown_profile \<Rightarrow> bool" where
  "overlooks tid did key p \<longleftrightarrow>
     \<not> (uk_tenant_id p \<noteq> tid \<or> uk_data_domain_id p \<noteq> did \<or> key \<in> set (uk_excluded_subject_keys p) \<or> uk_state p \<noteq> PB_PUBLISHED)"

definition quarantine_unknown_profiles ::
  "env \<Rightarrow> identity_context \<Rightarrow> uuid \<Rightarrow> uuid \<Rightarrow> string \<Rightarrow> timestamp \<Rightarrow> unknown_profile list market" where
  "quarantine_unknown_profiles env identity tid did key now =
     bindS (get_repo (\<lambda>s. filter (\<lambda>(_, p). overlooks tid did key p) (ms_unknown_profiles s))) (\<lambda>entries.
     forS entries (\<lambda>(k, p).
       bindS (uuid4 env) (\<lambda>version_id.
       let q = quarantined_unknown identity version_id now p in
       bindS (put_repo (set_unknown k q)) (\<lambda>_. ret q))))"

definition audit_unknown_quarantines ::
  "env \<Rightarrow> identity_context \<Rightarrow> string option \<Rightarrow> string \<Rightarrow> unknown_profile list \<Rightarrow> unit list market" where
  "audit_unknown_quarantines env identity request_id reason_code profiles =
     forS profiles (\<lambda>p.
       market_audit env identity ''market.unknown_entrant_profile.quarantine'' ''UnknownEntrantProfileVersion''
         (uk_profile_id p) (Some (uk_version_id p)) request_id reason_code (publication_value (uk_state p)))"

definition subject_key_of :: "competitor \<Rightarrow> subject_index_key" where
  "subject_key_of c = (cm_tenant_id c, cm_data_domain_id c, cm_subject_key c)"

definition add_competitor :: "env \<Rightarrow> identity_context \<Rightarrow> competitor \<Rightarrow> string option \<Rightarrow> competitor market" where
  "add_competitor env identity x request_id =
     bindS (market_allowed identity (cm_tenant_id x) (cm_data_domain_id x) None) (\<lambda>_.
     bindS (get_repo (\<lambda>s. dict_get (ms_subject_index s) (subject_key_of x))) (\<lambda>existing.
     bindS (checkS (\<not> (existing \<noteq> None \<and> existing \<noteq> Some (cm_competitor_id x))) state_conflict) (\<lambda>_.
     bindS (put_repo (set_competitor (cm_competitor_id x) x)) (\<lambda>_.
     bindS (put_repo (index_subject (subject_key_of x) (cm_competitor_id x))) (\<lambda>_.
     bindS (quarantine_unknown_profiles env identity (cm_tenant_id x) (cm_data_domain_id x) (cm_subject_key x) (cm_updated_at x)) (\<lambda>profiles.
     bindS (market_audit env identity ''market.competitor.create'' ''Competitor'' (cm_competitor_id x)
              (Some (cm_version_id x)) request_id ''COMPETITOR_CREATED'' ''DRAFT'') (\<lambda>_.
     bindS (audit_unknown_quarantines env identity request_id ''NAMED_COMPETITOR_CREATED'' profiles) (\<lambda>_.
     ret x))))))))"

definition competitor_list :: "identity_context \<Rightarrow> competitor list market" where
  "competitor_list identity =
     get_repo (\<lambda>s. sort_key cm_created_at
       (filter (same_place (sc_tenant_id (ic_scope identity)) (sc_data_domain_id (ic_scope identity)))
         (dict_values (ms_competitors s))))"

definition competitor_get :: "identity_context \<Rightarrow> uuid \<Rightarrow> competitor market" where
  "competitor_get identity k =
     bindS (found_or missing (\<lambda>s. dict_get (ms_competitors s) k)) (\<lambda>x.
     bindS (market_allowed identity (cm_tenant_id x) (cm_data_domain_id x) None) (\<lambda>_.
     ret x))"

text \<open>\<open>item.model_dump(mode="json")\<close>, of which the ETag is made.\<close>

definition competitor_json :: "(timestamp \<Rightarrow> string) \<Rightarrow> competitor \<Rightarrow> json" where
  "competitor_json isofmt c =
     JObj [(''competitor_id'', JStr (uuid_str (cm_competitor_id c))), (''version_id'', JStr (uuid_str (cm_version_id c))),
       (''tenant_id'', JStr (uuid_str (cm_tenant_id c))), (''data_domain_id'', JStr (uuid_str (cm_data_domain_id c))),
       (''canonical_subject_key'', JStr (cm_subject_key c)), (''legal_name'', JStr (cm_legal_name c)),
       (''aliases'', JArr (map JStr (cm_aliases c))), (''actor_id'', JStr (uuid_str (cm_actor_id c))),
       (''created_at'', JStr (isofmt (cm_created_at c))), (''updated_at'', JStr (isofmt (cm_updated_at c))),
       (''archived_at'', jopt (\<lambda>t. JStr (isofmt t)) (cm_archived_at c)),
       (''archive_reason'', jopt JStr (cm_archive_reason c))]"

definition competitor_etag :: "env \<Rightarrow> competitor \<Rightarrow> string" where
  "competitor_etag env c = compute_etag (env_sha env) (competitor_json (env_isofmt env) c)"

definition updated_competitor ::
  "identity_context \<Rightarrow> string option \<Rightarrow> string \<Rightarrow> string list option \<Rightarrow> uuid \<Rightarrow> timestamp \<Rightarrow> competitor \<Rightarrow> competitor" where
  "updated_competitor identity legal_name next_key aliases version_id now x =
     x\<lparr>cm_version_id := version_id,
       cm_legal_name := (case legal_name of None \<Rightarrow> cm_legal_name x | Some n \<Rightarrow> n),
       cm_subject_key := next_key,
       cm_aliases := (case aliases of None \<Rightarrow> cm_aliases x | Some a \<Rightarrow> a),
       cm_actor_id := ic_subject_id identity, cm_updated_at := now\<rparr>"

definition competitor_update_draft ::
  "env \<Rightarrow> identity_context \<Rightarrow> uuid \<Rightarrow> string \<Rightarrow> string option \<Rightarrow> string option \<Rightarrow> string list option \<Rightarrow> string \<Rightarrow>
   competitor market" where
  "competitor_update_draft env identity k if_match legal_name subject_key aliases request_id =
     bindS (competitor_get identity k) (\<lambda>x.
     bindS (checkS (cm_archived_at x = None) state_conflict) (\<lambda>_.
     bindS (liftE (assert_etag (competitor_etag env x) if_match)) (\<lambda>_.
     bindS (liftE (case subject_key of None \<Rightarrow> Inr (cm_subject_key x) | Some t \<Rightarrow> canonical_subject_key t)) (\<lambda>next_key.
     let index_key = (cm_tenant_id x, cm_data_domain_id x, next_key) in
     bindS (get_repo (\<lambda>s. dict_get (ms_subject_index s) index_key)) (\<lambda>existing.
     bindS (checkS (\<not> (existing \<noteq> None \<and> existing \<noteq> Some k)) state_conflict) (\<lambda>_.
     bindS (uuid4 env) (\<lambda>version_id.
     bindS (clock_now env) (\<lambda>now.
     let y = updated_competitor identity legal_name next_key aliases version_id now x in
     bindS (if next_key \<noteq> cm_subject_key x
            then bindS (found_or KeyError (\<lambda>s. dict_get (ms_subject_index s) (subject_key_of x))) (\<lambda>_.
                 put_repo (unindex_subject (subject_key_of x)))
            else ret ()) (\<lambda>_.
     bindS (put_repo (index_subject index_key k)) (\<lambda>_.
     bindS (put_repo (set_competitor k y)) (\<lambda>_.
     bindS (if next_key \<noteq> cm_subject_key x
            then quarantine_unknown_profiles env identity (cm_tenant_id x) (cm_data_domain_id x) next_key (cm_updated_at y)
            else ret []) (\<lambda>profiles.
     bindS (market_audit env identity ''market.competitor.update_draft'' ''Competitor'' (cm_competitor_id y)
              (Some (cm_version_id y)) (Some request_id) ''COMPETITOR_DRAFT_UPDATED'' ''DRAFT'') (\<lambda>_.
     bindS (audit_unknown_quarantines env identity (Some request_id) ''NAMED_COMPETITOR_SUBJECT_CHANGED'' profiles) (\<lambda>_.
     ret y))))))))))))))"

definition archived_competitor :: "identity_context \<Rightarrow> string \<Rightarrow> uuid \<Rightarrow> timestamp \<Rightarrow> timestamp \<Rightarrow> competitor \<Rightarrow> competitor" where
  "archived_competitor identity reason version_id updated_at archived_at x =
     x\<lparr>cm_version_id := version_id, cm_actor_id := ic_subject_id identity, cm_updated_at := updated_at,
       cm_archived_at := Some archived_at, cm_archive_reason := Some (strip reason)\<rparr>"

definition competitor_archive :: "env \<Rightarrow> identity_context \<Rightarrow> uuid \<Rightarrow> string \<Rightarrow> string \<Rightarrow> competitor market" where
  "competitor_archive env identity k reason request_id =
     bindS (competitor_get identity k) (\<lambda>x.
     bindS (checkS (cm_archived_at x = None) state_conflict) (\<lambda>_.
     bindS (uuid4 env) (\<lambda>version_id.
     bindS (clock_now env) (\<lambda>updated_at.
     bindS (clock_now env) (\<lambda>archived_at.
     let y = archived_competitor identity reason version_id updated_at archived_at x in
     bindS (put_repo (set_competitor k y)) (\<lambda>_.
     bindS (market_audit env identity ''market.competitor.archive'' ''Competitor'' (cm_competitor_id y)
              (Some (cm_version_id y)) (Some request_id) ''COMPETITOR_ARCHIVED'' ''ARCHIVED'') (\<lambda>_.
     ret y)))))))"

section \<open>Sources\<close>

definition add_source :: "env \<Rightarrow> identity_context \<Rightarrow> competitor_source \<Rightarrow> string option \<Rightarrow> competitor_source market" where
  "add_source env identity x request_id =
     bindS (market_allowed identity (so_tenant_id x) (so_data_domain_id x) None) (\<lambda>_.
     bindS (case so_competitor_id x of
              None \<Rightarrow> ret ()
            | Some c \<Rightarrow>
                bindS (found_or missing (\<lambda>s. dict_get (ms_competitors s) c)) (\<lambda>competitor.
                checkS (same_place (so_tenant_id x) (so_data_domain_id x) competitor \<and> cm_archived_at competitor = None) missing)) (\<lambda>_.
     bindS (clock_now env) (\<lambda>now.
     bindS (checkS (\<not> so_retention_expires_at x \<le> now) (BiaiceError ''RETENTION_EXPIRED'')) (\<lambda>_.
     bindS (put_repo (set_source (so_source_id x) x)) (\<lambda>_.
     bindS (market_audit env identity ''market.competitor_source.create'' ''CompetitorSource'' (so_source_id x)
              (Some (so_version_id x)) request_id ''COMPETITOR_SOURCE_CREATED'' (source_review_value (so_review_state x))) (\<lambda>_.
     ret x))))))"

definition source_list :: "identity_context \<Rightarrow> uuid \<Rightarrow> competitor_source list market" where
  "source_list identity k =
     bindS (competitor_get identity k) (\<lambda>_.
     get_repo (\<lambda>s. sort_key so_created_at
       (filter (\<lambda>x. so_competitor_id x = Some k \<and> so_tenant_id x = sc_tenant_id (ic_scope identity) \<and>
          so_data_domain_id x = sc_data_domain_id (ic_scope identity)) (dict_values (ms_sources s)))))"

definition source_get :: "identity_context \<Rightarrow> uuid \<Rightarrow> competitor_source market" where
  "source_get identity k =
     bindS (found_or missing (\<lambda>s. dict_get (ms_sources s) k)) (\<lambda>x.
     bindS (market_allowed identity (so_tenant_id x) (so_data_domain_id x) None) (\<lambda>_.
     ret x))"

definition reviewed_source ::
  "identity_context \<Rightarrow> uuid \<Rightarrow> timestamp \<Rightarrow> uuid \<Rightarrow> competitor_source \<Rightarrow> competitor_source" where
  "reviewed_source identity competitor_id reviewed_at version_id x =
     x\<lparr>so_version_id := version_id, so_competitor_id := Some competitor_id, so_subject_resolved := True,
       so_review_state := SR_REVIEWED, so_reviewed_by := Some (ic_subject_id identity),
       so_reviewed_at := Some reviewed_at, so_quarantine_reason := None,
       so_actor_id := Some (ic_subject_id identity), so_updated_at := Some reviewed_at\<rparr>"

definition review_source ::
  "env \<Rightarrow> identity_context \<Rightarrow> uuid \<Rightarrow> uuid \<Rightarrow> timestamp \<Rightarrow> string option \<Rightarrow> competitor_source market" where
  "review_source env identity k competitor_id reviewed_at request_id =
     bindS (checkS (privacy_role identity) (BiaiceError ''PERMISSION_DENIED'')) (\<lambda>_.
     bindS (found_or missing (\<lambda>s. dict_get (ms_sources s) k)) (\<lambda>x.
     bindS (found_or missing (\<lambda>s. dict_get (ms_competitors s) competitor_id)) (\<lambda>c.
     bindS (market_allowed identity (so_tenant_id x) (so_data_domain_id x) None) (\<lambda>_.
     bindS (checkS (same_place (so_tenant_id x) (so_data_domain_id x) c) missing) (\<lambda>_.
     bindS (checkS (\<not> so_retention_expires_at x \<le> reviewed_at) (BiaiceError ''RETENTION_EXPIRED'')) (\<lambda>_.
     bindS (checkS (so_review_state x = SR_DRAFT) state_conflict) (\<lambda>_.
     bindS (uuid4 env) (\<lambda>version_id.
     let y = reviewed_source identity (cm_competitor_id c) reviewed_at version_id x in
     bindS (put_repo (set_source k y)) (\<lambda>_.
     bindS (market_audit env identity ''market.competitor_source.review'' ''CompetitorSource'' (so_source_id y)
              (Some (so_version_id y)) request_id ''COMPETITOR_SOURCE_REVIEWED'' (source_review_value (so_review_state y))) (\<lambda>_.
     ret y))))))))))"

definition quarantined_source :: "identity_context \<Rightarrow> string \<Rightarrow> uuid \<Rightarrow> timestamp \<Rightarrow> competitor_source \<Rightarrow> competitor_source" where
  "quarantined_source identity reason version_id now x =
     x\<lparr>so_version_id := version_id, so_review_state := SR_QUARANTINED, so_quarantine_reason := Some (strip reason),
       so_actor_id := Some (ic_subject_id identity), so_updated_at := Some now\<rparr>"

definition quarantined_profile :: "identity_context \<Rightarrow> uuid \<Rightarrow> timestamp \<Rightarrow> competitor_profile \<Rightarrow> competitor_profile" where
  "quarantined_profile identity version_id now p =
     p\<lparr>pf_version_id := version_id, pf_state := PB_QUARANTINED, pf_actor_id := Some (ic_subject_id identity),
       pf_updated_at := Some now\<rparr>"

definition quarantine_profiles :: "env \<Rightarrow> identity_context \<Rightarrow> uuid \<Rightarrow> timestamp \<Rightarrow> competitor_profile list market" where
  "quarantine_profiles env identity source_id now =
     bindS (get_repo (\<lambda>s. filter (\<lambda>(_, p). \<not> (source_id \<notin> set (pf_source_ids p) \<or> pf_state p = PB_QUARANTINED)) (ms_profiles s))) (\<lambda>entries.
     forS entries (\<lambda>(k, p).
       bindS (uuid4 env) (\<lambda>version_id.
       let q = quarantined_profile identity version_id now p in
       bindS (put_repo (set_profile k q)) (\<lambda>_. ret q))))"

definition quarantine_source :: "env \<Rightarrow> identity_context \<Rightarrow> uuid \<Rightarrow> string \<Rightarrow> string option \<Rightarrow> competitor_source market" where
  "quarantine_source env identity k reason request_id =
     bindS (checkS (privacy_role identity) (BiaiceError ''PERMISSION_DENIED'')) (\<lambda>_.
     bindS (checkS (strip reason \<noteq> []) (BiaiceError ''REQUEST_VALIDATION_FAILED'')) (\<lambda>_.
     bindS (found_or missing (\<lambda>s. dict_get (ms_sources s) k)) (\<lambda>x.
     bindS (market_allowed identity (so_tenant_id x) (so_data_domain_id x) None) (\<lambda>_.
     bindS (checkS (so_review_state x \<noteq> SR_QUARANTINED) state_conflict) (\<lambda>_.
     bindS (clock_now env) (\<lambda>now.
     bindS (uuid4 env) (\<lambda>version_id.
     let y = quarantined_source identity reason version_id now x in
     bindS (put_repo (set_source k y)) (\<lambda>_.
     bindS (quarantine_profiles env identity k now) (\<lambda>profiles.
     bindS (market_audit env identity ''market.competitor_source.quarantine'' ''CompetitorSource'' (so_source_id y)
              (Some (so_version_id y)) request_id ''COMPETITOR_SOURCE_QUARANTINED'' (source_review_value (so_review_state y))) (\<lambda>_.
     bindS (forS profiles (\<lambda>p.
              market_audit env identity ''market.competitor_profile.quarantine'' ''CompetitorProfile'' (pf_profile_id p)
                (Some (pf_version_id p)) request_id ''COMPETITOR_SOURCE_QUARANTINED'' (publication_value (pf_state p)))) (\<lambda>_.
     ret y)))))))))))"

end
