(* ===== verification/Market_Offers.thy ===== *)
theory Market_Offers
  imports Market_Service
begin

text \<open>
  The second half of \<open>MarketGovernanceService\<close>: competitor profiles, market priors, profiles of
  unknown entrants, subject deduplication, readiness and joint distributions.
\<close>

section \<open>Competitor profiles\<close>

definition profile_sources :: "competitor_profile \<Rightarrow> market_state \<Rightarrow> competitor_source option list" where
  "profile_sources p s = map (dict_get (ms_sources s)) (pf_source_ids p)"

definition unusable_at :: "timestamp \<Rightarrow> competitor_source option \<Rightarrow> bool" where
  "unusable_at now source \<longleftrightarrow>
     (case source of None \<Rightarrow> True | Some x \<Rightarrow> so_review_state x \<noteq> SR_REVIEWED \<or> \<not> so_subject_resolved x \<or> so_retention_expires_at x \<le> now)"

definition add_profile :: "env \<Rightarrow> identity_context \<Rightarrow> competitor_profile \<Rightarrow> string option \<Rightarrow> competitor_profile market" where
  "add_profile env identity p request_id =
     bindS (market_allowed identity (pf_tenant_id p) (pf_data_domain_id p) None) (\<lambda>_.
     bindS (found_or missing (\<lambda>s. dict_get (ms_competitors s) (pf_competitor_id p))) (\<lambda>c.
     bindS (checkS (same_place (pf_tenant_id p) (pf_data_domain_id p) c \<and> cm_archived_at c = None) missing) (\<lambda>_.
     bindS (get_repo (profile_sources p)) (\<lambda>sources.
     bindS (clock_now env) (\<lambda>now.
     bindS (checkS (\<not> list_ex (unusable_at now) sources) (BiaiceError ''GATE_NOT_CURRENT'')) (\<lambda>_.
     bindS (checkS (\<not> list_ex (\<lambda>x. case x of None \<Rightarrow> False | Some y \<Rightarrow> so_competitor_id y \<noteq> Some (pf_competitor_id p)) sources)
              (BiaiceError ''REQUEST_VALIDATION_FAILED'')) (\<lambda>_.
     bindS (put_repo (set_profile (pf_profile_id p) p)) (\<lambda>_.
     bindS (market_audit env identity ''market.competitor_profile.build'' ''CompetitorProfile'' (pf_profile_id p)
              (Some (pf_version_id p)) request_id ''COMPETITOR_PROFILE_BUILT'' (publication_value (pf_state p))) (\<lambda>_.
     ret p)))))))))"

definition competitor_profile_list :: "identity_context \<Rightarrow> uuid \<Rightarrow> competitor_profile list market" where
  "competitor_profile_list identity k =
     bindS (competitor_get identity k) (\<lambda>_.
     get_repo (\<lambda>s. sort_key pf_created_at
       (filter (\<lambda>p. pf_competitor_id p = k \<and> pf_tenant_id p = sc_tenant_id (ic_scope identity) \<and>
          pf_data_domain_id p = sc_data_domain_id (ic_scope identity)) (dict_values (ms_profiles s)))))"

definition competitor_profile_get :: "identity_context \<Rightarrow> uuid \<Rightarrow> competitor_profile market" where
  "competitor_profile_get identity k =
     bindS (found_or missing (\<lambda>s. dict_get (ms_profiles s) k)) (\<lambda>p.
     bindS (market_allowed identity (pf_tenant_id p) (pf_data_domain_id p) None) (\<lambda>_.
     ret p))"

definition released_profile :: "identity_context \<Rightarrow> timestamp \<Rightarrow> uuid \<Rightarrow> competitor_profile \<Rightarrow> competitor_profile" where
  "released_profile identity published_at version_id p =
     p\<lparr>pf_version_id := version_id, pf_state := PB_PUBLISHED, pf_actor_id := Some (ic_subject_id identity),
       pf_updated_at := Some published_at, pf_published_at := Some published_at\<rparr>"

definition publish_profile :: "env \<Rightarrow> identity_context \<Rightarrow> uuid \<Rightarrow> timestamp \<Rightarrow> string option \<Rightarrow> competitor_profile market" where
  "publish_profile env identity k published_at request_id =
     bindS (competitor_profile_get identity k) (\<lambda>p.
     bindS (checkS (pf_state p = PB_DRAFT) state_conflict) (\<lambda>_.
     bindS (get_repo (profile_sources p)) (\<lambda>sources.
     bindS (checkS (\<not> list_ex (unusable_at published_at) sources) (BiaiceError ''GATE_NOT_CURRENT'')) (\<lambda>_.
     bindS (uuid4 env) (\<lambda>version_id.
     let q = released_profile identity published_at version_id p in
     bindS (put_repo (set_profile k q)) (\<lambda>_.
     bindS (market_audit env identity ''market.competitor_profile.publish'' ''CompetitorProfile'' (pf_profile_id q)
              (Some (pf_version_id q)) request_id ''COMPETITOR_PROFILE_PUBLISHED'' (publication_value (pf_state q))) (\<lambda>_.
     ret q)))))))"

section \<open>Market priors\<close>

definition add_market_prior :: "env \<Rightarrow> identity_context \<Rightarrow> market_prior \<Rightarrow> string option \<Rightarrow> market_prior market" where
  "add_market_prior env identity x request_id =
     bindS (market_allowed identity (mp_tenant_id x) (mp_data_domain_id x) (Some (mp_decision_unit_id x))) (\<lambda>_.
     bindS (clock_now env) (\<lambda>now.
     bindS (checkS (\<not> mp_expires_at x \<le> now) (BiaiceError ''RETENTION_EXPIRED'')) (\<lambda>_.
     bindS (put_repo (set_prior (mp_market_prior_id x) x)) (\<lambda>_.
     bindS (market_audit env identity ''market.market_prior.create'' ''MarketPriorVersion'' (mp_market_prior_id x)
              (Some (mp_version_id x)) request_id ''MARKET_PRIOR_CREATED'' (publication_value (mp_state x))) (\<lambda>_.
     ret x)))))"

definition prior_list :: "identity_context \<Rightarrow> uuid \<Rightarrow> market_prior list market" where
  "prior_list identity unit_id =
     bindS (own_unit_allowed identity unit_id) (\<lambda>_.
     get_repo (\<lambda>s. sort_key mp_created_at
       (filter (\<lambda>x. mp_decision_unit_id x = unit_id \<and> mp_tenant_id x = sc_tenant_id (ic_scope identity) \<and>
          mp_data_domain_id x = sc_data_domain_id (ic_scope identity)) (dict_values (ms_priors s)))))"

definition prior_get :: "identity_context \<Rightarrow> uuid \<Rightarrow> market_prior market" where
  "prior_get identity k =
     bindS (found_or missing (\<lambda>s. dict_get (ms_priors s) k)) (\<lambda>x.
     bindS (market_allowed identity (mp_tenant_id x) (mp_data_domain_id x) (Some (mp_decision_unit_id x))) (\<lambda>_.
     ret x))"

definition reviewed_prior :: "identity_context \<Rightarrow> uuid \<Rightarrow> timestamp \<Rightarrow> market_prior \<Rightarrow> market_prior" where
  "reviewed_prior identity version_id now x =
     x\<lparr>mp_version_id := version_id, mp_state := PB_REVIEWED, mp_reviewed_by := Some (ic_subject_id identity),
       mp_reviewed_at := Some now, mp_actor_id := Some (ic_subject_id identity), mp_updated_at := Some now\<rparr>"

definition review_market_prior :: "env \<Rightarrow> identity_context \<Rightarrow> uuid \<Rightarrow> string \<Rightarrow> market_prior market" where
  "review_market_prior env identity k request_id =
     bindS (checkS (privacy_role identity) (BiaiceError ''PERMISSION_DENIED'')) (\<lambda>_.
     bindS (prior_get identity k) (\<lambda>x.
     bindS (checkS (mp_state x = PB_DRAFT) state_conflict) (\<lambda>_.
     bindS (clock_now env) (\<lambda>now.
     bindS (uuid4 env) (\<lambda>version_id.
     let y = reviewed_prior identity version_id now x in
     bindS (put_repo (set_prior k y)) (\<lambda>_.
     bindS (market_audit env identity ''market.market_prior.review'' ''MarketPriorVersion'' (mp_market_prior_id y)
              (Some (mp_version_id y)) (Some request_id) ''MARKET_PRIOR_REVIEWED'' (publication_value (mp_state y))) (\<lambda>_.
     ret y)))))))"

definition published_prior :: "identity_context \<Rightarrow> uuid \<Rightarrow> timestamp \<Rightarrow> market_prior \<Rightarrow> market_prior" where
  "published_prior identity version_id now x =
     x\<lparr>mp_version_id := version_id, mp_state := PB_PUBLISHED, mp_actor_id := Some (ic_subject_id identity),
       mp_updated_at := Some now, mp_published_at := Some now\<rparr>"

definition publish_market_prior :: "env \<Rightarrow> identity_context \<Rightarrow> uuid \<Rightarrow> string \<Rightarrow> market_prior market" where
  "publish_market_prior env identity k request_id =
     bindS (prior_get identity k) (\<lambda>x.
     bindS (checkS (mp_state x = PB_REVIEWED) state_conflict) (\<lambda>_.
     bindS (clock_now env) (\<lambda>now.
     bindS (checkS (\<not> mp_expires_at x \<le> now) (BiaiceError ''RETENTION_EXPIRED'')) (\<lambda>_.
     bindS (uuid4 env) (\<lambda>version_id.
     let y = published_prior identity version_id now x in
     bindS (put_repo (set_prior k y)) (\<lambda>_.
     bindS (market_audit env identity ''market.market_prior.publish'' ''MarketPriorVersion'' (mp_market_prior_id y)
              (Some (mp_version_id y)) (Some request_id) ''MARKET_PRIOR_PUBLISHED'' (publication_value (mp_state y))) (\<lambda>_.
     ret y)))))))"

section \<open>Unknown entrants\<close>

definition names_excluded :: "unknown_profile \<Rightarrow> market_state \<Rightarrow> bool" where
  "names_excluded p s \<longleftrightarrow>
     list_all (\<lambda>key. key \<in> set (uk_excluded_subject_keys p)) (named_subjects (uk_tenant_id p) (uk_data_domain_id p) s)"

definition add_unknown_profile :: "env \<Rightarrow> identity_context \<Rightarrow> unknown_profile \<Rightarrow> string option \<Rightarrow> unknown_profile market" where
  "add_unknown_profile env identity p request_id =
     bindS (market_allowed identity (uk_tenant_id p) (uk_data_domain_id p) (Some (uk_decision_unit_id p))) (\<lambda>_.
     bindS (clock_now env) (\<lambda>now.
     bindS (checkS (\<not> uk_expires_at p \<le> now) (BiaiceError ''RETENTION_EXPIRED'')) (\<lambda>_.
     bindS (get_repo (names_excluded p)) (\<lambda>excluded.
     bindS (checkS excluded (BiaiceError ''REQUEST_VALIDATION_FAILED'')) (\<lambda>_.
     bindS (put_repo (set_unknown (uk_profile_id p) p)) (\<lambda>_.
     bindS (market_audit env identity ''market.unknown_entrant_profile.create'' ''UnknownEntrantProfileVersion''
              (uk_profile_id p) (Some (uk_version_id p)) request_id ''UNKNOWN_ENTRANT_PROFILE_CREATED'' (publication_value (uk_state p))) (\<lambda>_.
     ret p)))))))"

definition unknown_list :: "identity_context \<Rightarrow> uuid \<Rightarrow> unknown_profile list market" where
  "unknown_list identity unit_id =
     bindS (own_unit_allowed identity unit_id) (\<lambda>_.
     get_repo (\<lambda>s. sort_key uk_created_at
       (filter (\<lambda>p. uk_decision_unit_id p = unit_id \<and> uk_tenant_id p = sc_tenant_id (ic_scope identity) \<and>
          uk_data_domain_id p = sc_data_domain_id (ic_scope identity)) (dict_values (ms_unknown_profiles s)))))"

definition unknown_get :: "identity_context \<Rightarrow> uuid \<Rightarrow> unknown_profile market" where
  "unknown_get identity k =
     bindS (found_or missing (\<lambda>s. dict_get (ms_unknown_profiles s) k)) (\<lambda>p.
     bindS (market_allowed identity (uk_tenant_id p) (uk_data_domain_id p) (Some (uk_decision_unit_id p))) (\<lambda>_.
     ret p))"

definition published_unknown :: "identity_context \<Rightarrow> uuid \<Rightarrow> timestamp \<Rightarrow> unknown_profile \<Rightarrow> unknown_profile" where
  "published_unknown identity version_id now p =
     p\<lparr>uk_version_id := version_id, uk_state := PB_PUBLISHED, uk_actor_id := Some (ic_subject_id identity),
       uk_updated_at := Some now, uk_published_at := Some now\<rparr>"

definition publish_unknown_profile :: "env \<Rightarrow> identity_context \<Rightarrow> uuid \<Rightarrow> string \<Rightarrow> unknown_profile market" where
  "publish_unknown_profile env identity k request_id =
     bindS (unknown_get identity k) (\<lambda>p.
     bindS (checkS (uk_state p = PB_DRAFT) state_conflict) (\<lambda>_.
     bindS (clock_now env) (\<lambda>now.
     bindS (checkS (\<not> uk_expires_at p \<le> now) (BiaiceError ''RETENTION_EXPIRED'')) (\<lambda>_.
     bindS (get_repo (names_excluded p)) (\<lambda>excluded.
     bindS (checkS excluded (BiaiceError ''REQUEST_VALIDATION_FAILED'')) (\<lambda>_.
     bindS (uuid4 env) (\<lambda>version_id.
     let q = published_unknown identity version_id now p in
     bindS (put_repo (set_unknown k q)) (\<lambda>_.
     bindS (market_audit env identity ''market.unknown_entrant_profile.publish'' ''UnknownEntrantProfileVersion''
              (uk_profile_id q) (Some (uk_version_id q)) (Some request_id) ''UNKNOWN_ENTRANT_PROFILE_PUBLISHED'' (publication_value (uk_state q))) (\<lambda>_.
     ret q)))))))))"

section \<open>Deduplication\<close>

text \<open>\<open>grouped.setdefault(canonical, []).append(subject_key)\<close> for each key in turn.\<close>

definition add_to_group :: "string \<Rightarrow> string \<Rightarrow> (string, string list) dict \<Rightarrow> (string, string list) dict" where
  "add_to_group canonical given d =
     dict_set canonical ((case dict_get d canonical of None \<Rightarrow> [] | Some xs \<Rightarrow> xs) @ [given]) d"

fun group_subjects :: "string list \<Rightarrow> (string, string list) dict \<Rightarrow> (string, string list) dict res" where
  "group_subjects [] d = Inr d"
| "group_subjects (k # ks) d = bindE (canonical_subject_key k) (\<lambda>c. group_subjects ks (add_to_group c k d))"

definition new_deduplication_run ::
  "identity_context \<Rightarrow> uuid \<Rightarrow> string list \<Rightarrow> (string, string list) dict \<Rightarrow> string list \<Rightarrow> timestamp \<Rightarrow> uuid \<Rightarrow> deduplication_run" where
  "new_deduplication_run identity unit_id keys grouped named now run_id =
     \<lparr>dd_run_id = run_id, dd_decision_unit_id = unit_id, dd_tenant_id = sc_tenant_id (ic_scope identity),
      dd_data_domain_id = sc_data_domain_id (ic_scope identity), dd_state = DEDUP_SUCCEEDED,
      dd_input_subject_keys = keys, dd_canonical_subject_keys = map fst grouped,
      dd_duplicate_groups = filter (\<lambda>(_, vs). length vs > 1) grouped,
      dd_named_subject_matches = filter (\<lambda>k. k \<in> set named) (map fst grouped),
      dd_actor_id = ic_subject_id identity, dd_created_at = now, dd_completed_at = now\<rparr>"

definition create_deduplication_run :: "env \<Rightarrow> identity_context \<Rightarrow> uuid \<Rightarrow> string list \<Rightarrow> string \<Rightarrow> deduplication_run market" where
  "create_deduplication_run env identity unit_id keys request_id =
     bindS (own_unit_allowed identity unit_id) (\<lambda>_.
     bindS (liftE (group_subjects keys [])) (\<lambda>grouped.
     bindS (get_repo (named_subjects (sc_tenant_id (ic_scope identity)) (sc_data_domain_id (ic_scope identity)))) (\<lambda>named.
     bindS (clock_now env) (\<lambda>now.
     bindS (uuid4 env) (\<lambda>run_id.
     let x = new_deduplication_run identity unit_id keys grouped named now run_id in
     bindS (checkS (deduplication_run_valid x) ValidationError) (\<lambda>_.
     bindS (put_repo (set_run (dd_run_id x) x)) (\<lambda>_.
     bindS (market_audit env identity ''market.subject_deduplication_run.create'' ''SubjectDeduplicationRun''
              (dd_run_id x) None (Some request_id) ''SUBJECT_DEDUPLICATION_SUCCEEDED'' ''SUCCEEDED'') (\<lambda>_.
     ret x))))))))"

definition deduplication_run_get :: "identity_context \<Rightarrow> uuid \<Rightarrow> deduplication_run market" where
  "deduplication_run_get identity k =
     bindS (found_or missing (\<lambda>s. dict_get (ms_deduplication_runs s) k)) (\<lambda>x.
     bindS (market_allowed identity (dd_tenant_id x) (dd_data_domain_id x) (Some (dd_decision_unit_id x))) (\<lambda>_.
     ret x))"

section \<open>Readiness and joint distributions\<close>

definition profile_in_use :: "tenant_scope \<Rightarrow> timestamp \<Rightarrow> market_state \<Rightarrow> bool" where
  "profile_in_use scope now s \<longleftrightarrow>
     list_ex (\<lambda>p. pf_state p = PB_PUBLISHED \<and> list_all (\<lambda>x. \<not> unusable_at now x) (profile_sources p s))
       (filter (\<lambda>p. pf_tenant_id p = sc_tenant_id scope \<and> pf_data_domain_id p = sc_data_domain_id scope)
         (dict_values (ms_profiles s)))"

definition prior_in_use :: "tenant_scope \<Rightarrow> uuid \<Rightarrow> timestamp \<Rightarrow> market_state \<Rightarrow> bool" where
  "prior_in_use scope unit_id now s \<longleftrightarrow>
     list_ex (\<lambda>x. mp_decision_unit_id x = unit_id \<and> mp_tenant_id x = sc_tenant_id scope \<and>
         mp_data_domain_id x = sc_data_domain_id scope \<and> mp_state x = PB_PUBLISHED \<and>
         mp_valid_from x \<le> now \<and> now < mp_expires_at x)
       (dict_values (ms_priors s))"

definition market_readiness_at :: "env \<Rightarrow> identity_context \<Rightarrow> uuid \<Rightarrow> timestamp option \<Rightarrow> market_readiness market" where
  "market_readiness_at env identity unit_id at =
     bindS (own_unit_allowed identity unit_id) (\<lambda>_.
     bindS (case at of None \<Rightarrow> clock_now env | Some t \<Rightarrow> ret t) (\<lambda>now.
     bindS (get_repo (profile_in_use (ic_scope identity) now)) (\<lambda>profile.
     bindS (get_repo (prior_in_use (ic_scope identity) unit_id now)) (\<lambda>prior.
     ret (if profile \<or> prior then PROBABILISTIC else PRESSURE_ONLY)))))"

definition validate_joint_distribution :: "identity_context \<Rightarrow> joint_distribution \<Rightarrow> joint_distribution market" where
  "validate_joint_distribution identity x =
     bindS (market_allowed identity (jd_tenant_id x) (jd_data_domain_id x) (Some (jd_decision_unit_id x))) (\<lambda>_.
     bindS (get_repo (\<lambda>s. map cm_competitor_id
              (filter (\<lambda>c. same_place (jd_tenant_id x) (jd_data_domain_id x) c \<and> cm_archived_at c = None)
                (dict_values (ms_competitors s))))) (\<lambda>visible_ids.
     bindS (checkS (list_all (\<lambda>k. k \<in> set visible_ids) (concat (map js_named_competitor_ids (jd_scenarios x))))
              (BiaiceError ''TENANT_SCOPE_VIOLATION'')) (\<lambda>_.
     ret x)))"

definition new_competitor ::
  "identity_context \<Rightarrow> string \<Rightarrow> string \<Rightarrow> string list \<Rightarrow> timestamp \<Rightarrow> uuid \<Rightarrow> uuid \<Rightarrow> competitor res" where
  "new_competitor identity legal_name subject_key aliases now competitor_id version_id =
     (let x = \<lparr>cm_competitor_id = competitor_id, cm_version_id = version_id,
              cm_tenant_id = sc_tenant_id (ic_scope identity), cm_data_domain_id = sc_data_domain_id (ic_scope identity),
              cm_subject_key = squeezed subject_key, cm_legal_name = legal_name, cm_aliases = aliases,
              cm_actor_id = ic_subject_id identity, cm_created_at = now, cm_updated_at = now,
              cm_archived_at = None, cm_archive_reason = None\<rparr>
      in bindE (guardE (competitor_valid subject_key x) ValidationError) (\<lambda>_. Inr x))"

end
