(* ===== verification/Market_Routes.thy ===== *)
theory Market_Routes
  imports Market_Offers
begin

text \<open>
  The FR-05 routes of \<open>api/fr05.py\<close> that change something: each checks the permission of the
  identity and the idempotency key, builds the item with fresh identifiers and runs the service
  command under the key. A body has passed the checks of its model; the text \<open>json.dumps\<close> prints for
  it, over which the fingerprint is made, is an argument (it may hold floating-point numbers). The
  reading routes only call the service.
\<close>

section \<open>Requests\<close>

record source_request =
  sq_source_uri :: string
  sq_source_type :: string
  sq_purpose :: string
  sq_legal_basis_ref :: string
  sq_retention_expires_at :: timestamp
  sq_data_classification :: data_classification
  sq_evidence_refs :: "string list"
  sq_notes :: "string option"

record profile_request =
  fq_source_ids :: "uuid list"
  fq_participation_assumptions :: "(string \<times> float_bits) list"
  fq_bid_assumptions :: "(string \<times> float_bits) list"
  fq_potential_response_states :: "string list"
  fq_subjective_variables :: "(string \<times> float_bits) list"
  fq_validity_assumptions :: "string list"
  fq_coverage_notes :: string
  fq_bias_notes :: string
  fq_drift_notes :: string
  fq_data_quality :: string

record prior_request =
  oq_evidence_refs :: "string list"
  oq_purpose :: string
  oq_legal_basis_ref :: string
  oq_valid_from :: timestamp
  oq_expires_at :: timestamp
  oq_distribution :: "(string \<times> float_bits) list"

record unknown_request =
  uq_excluded_subject_keys :: "string list"
  uq_count_distribution :: "(int \<times> float_bits) list"
  uq_evidence_refs :: "string list"
  uq_expires_at :: timestamp

section \<open>Helpers\<close>

definition fr05_write :: "identity_context \<Rightarrow> (market_state world, identity_context) svc" where
  "fr05_write identity = liftE (permission_guard {GOVERNANCE_WRITE} False identity)"

definition fr05_read :: "identity_context \<Rightarrow> (market_state world, identity_context) svc" where
  "fr05_read identity = liftE (permission_guard {GOVERNANCE_READ} False identity)"

definition as_result :: "('a \<Rightarrow> market_result) \<Rightarrow> 'a market \<Rightarrow> market_result market" where
  "as_result f m = bindS m (\<lambda>x. ret (f x))"

definition fr05_execute ::
  "env \<Rightarrow> identity_context \<Rightarrow> string \<Rightarrow> string \<Rightarrow> string list \<Rightarrow> market_result market \<Rightarrow> market_result market" where
  "fr05_execute env identity key operation_id values command =
     execute_idempotent identity key (env_sha env (''['' @ join '','' (dumps (JStr operation_id) # values) @ '']'')) command"

text \<open>A UUID as \<open>json.dumps(..., default=str)\<close> prints it.\<close>

definition jid :: "uuid \<Rightarrow> string" where
  "jid k = dumps (JStr (uuid_str k))"

section \<open>Competitors and their sources\<close>

definition route_create_competitor ::
  "env \<Rightarrow> identity_context \<Rightarrow> string option \<Rightarrow> string \<Rightarrow> string \<Rightarrow> string list \<Rightarrow> string \<Rightarrow> string \<Rightarrow> market_result market" where
  "route_create_competitor env identity key_header legal_name subject_key aliases body request_id =
     bindS (fr05_write identity) (\<lambda>_.
     bindS (liftE (require_idempotency_key key_header)) (\<lambda>key.
     bindS (clock_now env) (\<lambda>now.
     bindS (uuid4 env) (\<lambda>competitor_id.
     bindS (uuid4 env) (\<lambda>version_id.
     bindS (liftE (new_competitor identity legal_name subject_key aliases now competitor_id version_id)) (\<lambda>x.
     fr05_execute env identity key ''create_competitor'' [body]
       (as_result R_Competitor (add_competitor env identity x (Some request_id)))))))))"

definition route_update_competitor ::
  "env \<Rightarrow> identity_context \<Rightarrow> string option \<Rightarrow> uuid \<Rightarrow> string option \<Rightarrow> string option \<Rightarrow> string list option \<Rightarrow> string \<Rightarrow>
   market_result market" where
  "route_update_competitor env identity if_match_header k legal_name subject_key aliases request_id =
     bindS (fr05_write identity) (\<lambda>_.
     bindS (liftE (require_if_match if_match_header)) (\<lambda>if_match.
     as_result R_Competitor (competitor_update_draft env identity k if_match legal_name subject_key aliases request_id)))"

definition route_archive_competitor ::
  "env \<Rightarrow> identity_context \<Rightarrow> string option \<Rightarrow> uuid \<Rightarrow> string \<Rightarrow> string \<Rightarrow> string \<Rightarrow> market_result market" where
  "route_archive_competitor env identity key_header k reason body request_id =
     bindS (fr05_write identity) (\<lambda>_.
     bindS (liftE (require_idempotency_key key_header)) (\<lambda>key.
     fr05_execute env identity key ''archive_competitor'' [jid k, body]
       (as_result R_Competitor (competitor_archive env identity k reason request_id))))"

definition new_source :: "identity_context \<Rightarrow> uuid \<Rightarrow> source_request \<Rightarrow> timestamp \<Rightarrow> uuid \<Rightarrow> uuid \<Rightarrow> competitor_source" where
  "new_source identity competitor_id q now source_id version_id =
     \<lparr>so_source_id = source_id, so_version_id = version_id, so_competitor_id = Some competitor_id,
      so_tenant_id = sc_tenant_id (ic_scope identity), so_data_domain_id = sc_data_domain_id (ic_scope identity),
      so_source_uri = sq_source_uri q, so_source_type = sq_source_type q, so_purpose = sq_purpose q,
      so_legal_basis_ref = sq_legal_basis_ref q, so_retention_expires_at = sq_retention_expires_at q,
      so_data_classification = sq_data_classification q, so_evidence_refs = sq_evidence_refs q, so_notes = sq_notes q,
      so_subject_resolved = False, so_review_state = SR_DRAFT, so_reviewed_by = None, so_reviewed_at = None,
      so_quarantine_reason = None, so_actor_id = Some (ic_subject_id identity), so_created_at = now,
      so_updated_at = Some now\<rparr>"

definition route_create_source ::
  "env \<Rightarrow> identity_context \<Rightarrow> string option \<Rightarrow> uuid \<Rightarrow> source_request \<Rightarrow> string \<Rightarrow> string \<Rightarrow> market_result market" where
  "route_create_source env identity key_header competitor_id q body request_id =
     bindS (fr05_write identity) (\<lambda>_.
     bindS (liftE (require_idempotency_key key_header)) (\<lambda>key.
     bindS (clock_now env) (\<lambda>now.
     bindS (uuid4 env) (\<lambda>source_id.
     bindS (uuid4 env) (\<lambda>version_id.
     let x = new_source identity competitor_id q now source_id version_id in
     bindS (checkS (source_valid x) ValidationError) (\<lambda>_.
     fr05_execute env identity key ''create_competitor_source'' [jid competitor_id, body]
       (as_result R_Source (add_source env identity x (Some request_id)))))))))"

definition route_review_source ::
  "env \<Rightarrow> identity_context \<Rightarrow> string option \<Rightarrow> uuid \<Rightarrow> uuid option \<Rightarrow> string \<Rightarrow> string \<Rightarrow> market_result market" where
  "route_review_source env identity key_header k resolved body request_id =
     bindS (fr05_read identity) (\<lambda>_.
     bindS (liftE (require_idempotency_key key_header)) (\<lambda>key.
     bindS (source_get identity k) (\<lambda>source.
     case (case resolved of Some c \<Rightarrow> Some c | None \<Rightarrow> so_competitor_id source) of
       None \<Rightarrow> throw (BiaiceError ''REQUEST_VALIDATION_FAILED'')
     | Some c \<Rightarrow>
         fr05_execute env identity key ''review_competitor_source'' [jid k, body]
           (bindS (clock_now env) (\<lambda>now.
            as_result R_Source (review_source env identity k c now (Some request_id)))))))"

definition route_quarantine_source ::
  "env \<Rightarrow> identity_context \<Rightarrow> string option \<Rightarrow> uuid \<Rightarrow> string \<Rightarrow> string \<Rightarrow> string \<Rightarrow> market_result market" where
  "route_quarantine_source env identity key_header k reason body request_id =
     bindS (fr05_read identity) (\<lambda>_.
     bindS (liftE (require_idempotency_key key_header)) (\<lambda>key.
     fr05_execute env identity key ''quarantine_competitor_source'' [jid k, body]
       (as_result R_Source (quarantine_source env identity k reason (Some request_id)))))"

section \<open>Profiles, priors and unknown entrants\<close>

definition new_profile_of :: "identity_context \<Rightarrow> uuid \<Rightarrow> profile_request \<Rightarrow> timestamp \<Rightarrow> uuid \<Rightarrow> uuid \<Rightarrow> competitor_profile" where
  "new_profile_of identity competitor_id q now profile_id version_id =
     \<lparr>pf_profile_id = profile_id, pf_version_id = version_id, pf_competitor_id = competitor_id,
      pf_tenant_id = sc_tenant_id (ic_scope identity), pf_data_domain_id = sc_data_domain_id (ic_scope identity),
      pf_source_ids = fq_source_ids q, pf_participation_assumptions = fq_participation_assumptions q,
      pf_bid_assumptions = fq_bid_assumptions q, pf_potential_response_states = fq_potential_response_states q,
      pf_subjective_variables = fq_subjective_variables q, pf_validity_assumptions = fq_validity_assumptions q,
      pf_coverage_notes = fq_coverage_notes q, pf_bias_notes = fq_bias_notes q, pf_drift_notes = fq_drift_notes q,
      pf_data_quality = fq_data_quality q, pf_state = PB_DRAFT, pf_actor_id = Some (ic_subject_id identity),
      pf_created_at = now, pf_updated_at = Some now, pf_published_at = None\<rparr>"

definition route_build_profile ::
  "env \<Rightarrow> identity_context \<Rightarrow> string option \<Rightarrow> uuid \<Rightarrow> profile_request \<Rightarrow> string \<Rightarrow> string \<Rightarrow> market_result market" where
  "route_build_profile env identity key_header competitor_id q body request_id =
     bindS (fr05_write identity) (\<lambda>_.
     bindS (liftE (require_idempotency_key key_header)) (\<lambda>key.
     bindS (clock_now env) (\<lambda>now.
     bindS (uuid4 env) (\<lambda>profile_id.
     bindS (uuid4 env) (\<lambda>version_id.
     let p = new_profile_of identity competitor_id q now profile_id version_id in
     bindS (checkS (profile_valid p) ValidationError) (\<lambda>_.
     fr05_execute env identity key ''build_competitor_profile'' [jid competitor_id, body]
       (as_result R_Profile (add_profile env identity p (Some request_id)))))))))"

definition route_publish_profile ::
  "env \<Rightarrow> identity_context \<Rightarrow> string option \<Rightarrow> uuid \<Rightarrow> string \<Rightarrow> string \<Rightarrow> market_result market" where
  "route_publish_profile env identity key_header k body request_id =
     bindS (fr05_write identity) (\<lambda>_.
     bindS (liftE (require_idempotency_key key_header)) (\<lambda>key.
     fr05_execute env identity key ''publish_competitor_profile'' [jid k, body]
       (bindS (clock_now env) (\<lambda>now.
        as_result R_Profile (publish_profile env identity k now (Some request_id))))))"

definition new_prior :: "identity_context \<Rightarrow> uuid \<Rightarrow> prior_request \<Rightarrow> timestamp \<Rightarrow> uuid \<Rightarrow> uuid \<Rightarrow> market_prior" where
  "new_prior identity unit_id q now prior_id version_id =
     \<lparr>mp_market_prior_id = prior_id, mp_version_id = version_id, mp_decision_unit_id = unit_id,
      mp_tenant_id = sc_tenant_id (ic_scope identity), mp_data_domain_id = sc_data_domain_id (ic_scope identity),
      mp_evidence_refs = oq_evidence_refs q, mp_purpose = oq_purpose q, mp_legal_basis_ref = oq_legal_basis_ref q,
      mp_valid_from = oq_valid_from q, mp_expires_at = oq_expires_at q, mp_state = PB_DRAFT,
      mp_distribution = oq_distribution q, mp_reviewed_by = None, mp_reviewed_at = None,
      mp_actor_id = Some (ic_subject_id identity), mp_created_at = now, mp_updated_at = Some now,
      mp_published_at = None\<rparr>"

definition route_create_prior ::
  "env \<Rightarrow> identity_context \<Rightarrow> string option \<Rightarrow> uuid \<Rightarrow> prior_request \<Rightarrow> string \<Rightarrow> string \<Rightarrow> market_result market" where
  "route_create_prior env identity key_header unit_id q body request_id =
     bindS (fr05_write identity) (\<lambda>_.
     bindS (liftE (require_idempotency_key key_header)) (\<lambda>key.
     bindS (clock_now env) (\<lambda>now.
     bindS (uuid4 env) (\<lambda>prior_id.
     bindS (uuid4 env) (\<lambda>version_id.
     let x = new_prior identity unit_id q now prior_id version_id in
     bindS (checkS (prior_valid x) ValidationError) (\<lambda>_.
     fr05_execute env identity key ''create_market_prior'' [jid unit_id, body]
       (as_result R_Prior (add_market_prior env identity x (Some request_id)))))))))"

definition route_review_prior ::
  "env \<Rightarrow> identity_context \<Rightarrow> string option \<Rightarrow> uuid \<Rightarrow> string \<Rightarrow> string \<Rightarrow> market_result market" where
  "route_review_prior env identity key_header k body request_id =
     bindS (fr05_read identity) (\<lambda>_.
     bindS (liftE (require_idempotency_key key_header)) (\<lambda>key.
     fr05_execute env identity key ''review_market_prior'' [jid k, body]
       (as_result R_Prior (review_market_prior env identity k request_id))))"

definition route_publish_prior ::
  "env \<Rightarrow> identity_context \<Rightarrow> string option \<Rightarrow> uuid \<Rightarrow> string \<Rightarrow> string \<Rightarrow> market_result market" where
  "route_publish_prior env identity key_header k body request_id =
     bindS (fr05_write identity) (\<lambda>_.
     bindS (liftE (require_idempotency_key key_header)) (\<lambda>key.
     fr05_execute env identity key ''publish_market_prior'' [jid k, body]
       (as_result R_Prior (publish_market_prior env identity k request_id))))"

definition new_unknown :: "identity_context \<Rightarrow> uuid \<Rightarrow> unknown_request \<Rightarrow> timestamp \<Rightarrow> uuid \<Rightarrow> uuid \<Rightarrow> unknown_profile" where
  "new_unknown identity unit_id q now profile_id version_id =
     \<lparr>uk_profile_id = profile_id, uk_version_id = version_id, uk_decision_unit_id = unit_id,
      uk_tenant_id = sc_tenant_id (ic_scope identity), uk_data_domain_id = sc_data_domain_id (ic_scope identity),
      uk_excluded_subject_keys = uq_excluded_subject_keys q, uk_count_distribution = uq_count_distribution q,
      uk_evidence_refs = uq_evidence_refs q, uk_expires_at = uq_expires_at q, uk_state = PB_DRAFT,
      uk_actor_id = Some (ic_subject_id identity), uk_created_at = now, uk_updated_at = Some now,
      uk_published_at = None\<rparr>"

definition route_create_unknown ::
  "env \<Rightarrow> identity_context \<Rightarrow> string option \<Rightarrow> uuid \<Rightarrow> unknown_request \<Rightarrow> string \<Rightarrow> string \<Rightarrow> market_result market" where
  "route_create_unknown env identity key_header unit_id q body request_id =
     bindS (fr05_write identity) (\<lambda>_.
     bindS (liftE (require_idempotency_key key_header)) (\<lambda>key.
     bindS (clock_now env) (\<lambda>now.
     bindS (uuid4 env) (\<lambda>profile_id.
     bindS (uuid4 env) (\<lambda>version_id.
     let p = new_unknown identity unit_id q now profile_id version_id in
     bindS (checkS (unknown_profile_valid p) ValidationError) (\<lambda>_.
     fr05_execute env identity key ''create_unknown_entrant_profile'' [jid unit_id, body]
       (as_result R_Unknown (add_unknown_profile env identity p (Some request_id)))))))))"

definition route_publish_unknown ::
  "env \<Rightarrow> identity_context \<Rightarrow> string option \<Rightarrow> uuid \<Rightarrow> string \<Rightarrow> string \<Rightarrow> market_result market" where
  "route_publish_unknown env identity key_header k body request_id =
     bindS (fr05_write identity) (\<lambda>_.
     bindS (liftE (require_idempotency_key key_header)) (\<lambda>key.
     fr05_execute env identity key ''publish_unknown_entrant_profile'' [jid k, body]
       (as_result R_Unknown (publish_unknown_profile env identity k request_id))))"

definition route_deduplicate ::
  "env \<Rightarrow> identity_context \<Rightarrow> string option \<Rightarrow> uuid \<Rightarrow> string list \<Rightarrow> string \<Rightarrow> string \<Rightarrow> market_result market" where
  "route_deduplicate env identity key_header unit_id keys body request_id =
     bindS (fr05_write identity) (\<lambda>_.
     bindS (liftE (require_idempotency_key key_header)) (\<lambda>key.
     fr05_execute env identity key ''create_subject_deduplication_run'' [jid unit_id, body]
       (as_result R_Run (create_deduplication_run env identity unit_id keys request_id))))"

section \<open>Histories\<close>

datatype market_call =
    CreateCompetitor identity_context "string option" string string "string list" string string
  | UpdateCompetitor identity_context "string option" uuid "string option" "string option" "string list option" string
  | ArchiveCompetitor identity_context "string option" uuid string string string
  | CreateSource identity_context "string option" uuid source_request string string
  | ReviewSource identity_context "string option" uuid "uuid option" string string
  | QuarantineSource identity_context "string option" uuid string string string
  | BuildProfile identity_context "string option" uuid profile_request string string
  | PublishCompetitorProfile identity_context "string option" uuid string string
  | CreatePrior identity_context "string option" uuid prior_request string string
  | ReviewPrior identity_context "string option" uuid string string
  | PublishPrior identity_context "string option" uuid string string
  | CreateUnknown identity_context "string option" uuid unknown_request string string
  | PublishUnknown identity_context "string option" uuid string string
  | Deduplicate identity_context "string option" uuid "string list" string string

primrec run_market :: "env \<Rightarrow> market_call \<Rightarrow> market_result market" where
  "run_market env (CreateCompetitor i h n s a b rid) = route_create_competitor env i h n s a b rid"
| "run_market env (UpdateCompetitor i h k n s a rid) = route_update_competitor env i h k n s a rid"
| "run_market env (ArchiveCompetitor i h k reason b rid) = route_archive_competitor env i h k reason b rid"
| "run_market env (CreateSource i h c q b rid) = route_create_source env i h c q b rid"
| "run_market env (ReviewSource i h k c b rid) = route_review_source env i h k c b rid"
| "run_market env (QuarantineSource i h k reason b rid) = route_quarantine_source env i h k reason b rid"
| "run_market env (BuildProfile i h c q b rid) = route_build_profile env i h c q b rid"
| "run_market env (PublishCompetitorProfile i h k b rid) = route_publish_profile env i h k b rid"
| "run_market env (CreatePrior i h u q b rid) = route_create_prior env i h u q b rid"
| "run_market env (ReviewPrior i h k b rid) = route_review_prior env i h k b rid"
| "run_market env (PublishPrior i h k b rid) = route_publish_prior env i h k b rid"
| "run_market env (CreateUnknown i h u q b rid) = route_create_unknown env i h u q b rid"
| "run_market env (PublishUnknown i h k b rid) = route_publish_unknown env i h k b rid"
| "run_market env (Deduplicate i h u ks b rid) = route_deduplicate env i h u ks b rid"

definition market_after :: "env \<Rightarrow> market_call list \<Rightarrow> market_state world \<Rightarrow> market_state world" where
  "market_after env cs w = history (\<lambda>c. as_unit (run_market env c)) cs (w\<lparr>w_repo := empty_market\<rparr>)"

end
