(* ===== verification/Market_Sweep.thy ===== *)
theory Market_Sweep
  imports Market_Routes
begin

text \<open>
  The loops of the market service that replace the entries of one dictionary: an interface for a
  dictionary that is a field of the state, what such a loop leaves, and the two fields it is used
  for.
\<close>

section \<open>Loops in the weakest-precondition calculus\<close>

lemma wp_forS:
  assumes "\<And>x xs w. R (x # xs) w \<Longrightarrow> wp (f x) (\<lambda>_ w'. R xs w') E w" and "R xs w"
  shows "wp (forS xs f) (\<lambda>_ w'. R [] w') E w"
  using assms(2)
proof (induction xs arbitrary: w)
  case Nil
  then show ?case by (simp add: wp_def)
next
  case (Cons x xs)
  have "wp (f x) (\<lambda>y. wp (bindS (forS xs f) (\<lambda>ys. ret (y # ys))) (\<lambda>_ w'. R [] w') E) E w"
    by (rule wp_weaken [OF assms(1) [OF Cons.prems]])
      (rule wp_bindS, rule wp_weaken [OF Cons.IH], assumption, simp_all add: wp_def)
  then show ?case by (auto intro: wp_bindS)
qed

lemma quiet_over_list: "(\<And>x. x \<in> set xs \<Longrightarrow> quiet (f x)) \<Longrightarrow> quiet (forS xs f)"
  by (induction xs) auto

section \<open>Dictionaries inside a state\<close>

text \<open>What a sweep leaves: every bad entry is changed, with some new version identifier.\<close>

definition swept :: "('a \<Rightarrow> bool) \<Rightarrow> (uuid \<Rightarrow> 'a \<Rightarrow> 'a) \<Rightarrow> (uuid, 'a) dict \<Rightarrow> (uuid, 'a) dict \<Rightarrow> bool" where
  "swept bad change d d' \<longleftrightarrow> dict_ok d' \<and>
     (\<forall>k. case dict_get d k of None \<Rightarrow> dict_get d' k = None
        | Some p \<Rightarrow> if bad p then \<exists>v. dict_get d' k = Some (change v p) else dict_get d' k = Some p)"

lemma swept_get: "swept bad change d d' \<Longrightarrow> dict_get d' k = Some q \<Longrightarrow>
    \<exists>p. dict_get d k = Some p \<and> (\<not> bad p \<and> q = p \<or> bad p \<and> (\<exists>v. q = change v p))"
  unfolding swept_def by (auto dest!: spec [of _ k] split: option.splits if_splits)

locale dict_field =
  fixes rd :: "'s \<Rightarrow> (uuid, 'a) dict" and up :: "(uuid, 'a) dict \<Rightarrow> 's \<Rightarrow> 's"
  assumes rd_up [simp]: "rd (up d s) = d"
    and up_up [simp]: "up d (up d' s) = up d s"
    and up_rd [simp]: "up (rd s) s = s"
begin

text \<open>A sweep in progress: the entries still to come are as they were.\<close>

definition partly :: "('a \<Rightarrow> bool) \<Rightarrow> (uuid \<Rightarrow> 'a \<Rightarrow> 'a) \<Rightarrow> 's \<Rightarrow> (uuid \<times> 'a) list \<Rightarrow> 's world \<Rightarrow> bool" where
  "partly bad change s todo w \<longleftrightarrow>
     (\<exists>d. w_repo w = up d s \<and> dict_ok d \<and> (\<forall>(k, p) \<in> set todo. bad p \<and> dict_get (rd s) k = Some p) \<and>
        distinct (map fst todo) \<and>
        (\<forall>k. case dict_get (rd s) k of None \<Rightarrow> dict_get d k = None
           | Some p \<Rightarrow> if bad p \<and> k \<notin> fst ` set todo then \<exists>v. dict_get d k = Some (change v p)
                      else dict_get d k = Some p))"

lemma sweep_step:
  assumes "partly bad change s ((k, p) # todo) w"
  shows "wp (bindS (uuid4 env) (\<lambda>v. bindS (put_repo (\<lambda>s. up (dict_set k (change v p) (rd s)) s)) (\<lambda>_. ret (change v p))))
    (\<lambda>_ w'. partly bad change s todo w') E w"
proof -
  obtain d where d: "w_repo w = up d s" "dict_ok d" "bad p" "dict_get (rd s) k = Some p" "k \<notin> fst ` set todo"
      "\<forall>(k, p) \<in> set todo. bad p \<and> dict_get (rd s) k = Some p" "distinct (map fst todo)"
    and at: "\<And>l. case dict_get (rd s) l of None \<Rightarrow> dict_get d l = None
           | Some q \<Rightarrow> if bad q \<and> l \<notin> fst ` set ((k, p) # todo) then \<exists>v. dict_get d l = Some (change v q)
                      else dict_get d l = Some q"
    using assms unfolding partly_def by auto
  have "case dict_get (rd s) l of None \<Rightarrow> dict_get (dict_set k (change v p) d) l = None
      | Some q \<Rightarrow> if bad q \<and> l \<notin> fst ` set todo then \<exists>v'. dict_get (dict_set k (change v p) d) l = Some (change v' q)
                 else dict_get (dict_set k (change v p) d) l = Some q" for l v
    using at [of l] d by (cases "l = k") (auto split: option.splits if_splits)
  then have "partly bad change s todo (w\<lparr>w_uuids := n, w_repo := up (dict_set k (change v p) d) s\<rparr>)" for n v
    unfolding partly_def using d by (intro exI [of _ "dict_set k (change v p) d"]) simp
  then show ?thesis
    by (intro wp_rules) (simp add: d(1))
qed

lemma partly_done: "partly bad change s [] w \<Longrightarrow> \<exists>d. w_repo w = up d s \<and> swept bad change (rd s) d"
  by (simp add: partly_def swept_def cong: option.case_cong if_cong)

lemma sweep:
  assumes "dict_ok (rd (w_repo w))"
    and "\<And>vs w' d. w_repo w' = up d (w_repo w) \<Longrightarrow> swept bad change (rd (w_repo w)) d \<Longrightarrow> Q vs w'"
  shows "wp (forS (filter (\<lambda>(k, p). bad p) (rd (w_repo w))) (\<lambda>(k, p). bindS (uuid4 env) (\<lambda>v.
      bindS (put_repo (\<lambda>s. up (dict_set k (change v p) (rd s)) s)) (\<lambda>_. ret (change v p))))) Q E w"
proof -
  let ?s = "w_repo w" and ?todo = "filter (\<lambda>(k, p). bad p) (rd (w_repo w))"
  have in_todo: "k \<in> fst ` set ?todo" if "dict_get (rd ?s) k = Some p" "bad p" for k p
    using map_of_SomeD [OF that(1)] that(2) by force
  have "distinct (map fst ?todo)"
    using assms(1) unfolding dict_ok_def by (rule distinct_map_filter)
  moreover have "dict_get (rd ?s) k = Some p" if "(k, p) \<in> set (rd ?s)" for k p
    using that assms(1) by (simp add: dict_ok_def)
  ultimately have start: "partly bad change ?s ?todo w"
    unfolding partly_def using in_todo assms(1)
    by (intro exI [of _ "rd ?s"]) (auto split: option.split)
  have "wp (forS ?todo (\<lambda>(k, p). bindS (uuid4 env) (\<lambda>v.
      bindS (put_repo (\<lambda>s. up (dict_set k (change v p) (rd s)) s)) (\<lambda>_. ret (change v p)))))
      (\<lambda>_ w'. partly bad change ?s [] w') E w"
  proof (rule wp_forS [where R = "partly bad change ?s"])
    fix x xs v assume "partly bad change ?s (x # xs) v"
    then show "wp (case x of (k, p) \<Rightarrow> bindS (uuid4 env) (\<lambda>v.
        bindS (put_repo (\<lambda>s. up (dict_set k (change v p) (rd s)) s)) (\<lambda>_. ret (change v p))))
        (\<lambda>_ w'. partly bad change ?s xs w') E v"
      by (cases x) (simp add: sweep_step)
  qed (rule start)
  then show ?thesis
    by (rule wp_weaken) (use assms(2) in \<open>auto dest: partly_done\<close>)
qed

end

interpretation unknown_field: dict_field ms_unknown_profiles "\<lambda>d s. s\<lparr>ms_unknown_profiles := d\<rparr>"
  by unfold_locales simp_all

interpretation profile_field: dict_field ms_profiles "\<lambda>d s. s\<lparr>ms_profiles := d\<rparr>"
  by unfold_locales simp_all

lemma wp_quarantine_unknown:
  assumes "dict_ok (ms_unknown_profiles (w_repo w))"
    and "\<And>ps w' d. w_repo w' = (w_repo w)\<lparr>ms_unknown_profiles := d\<rparr> \<Longrightarrow>
      swept (overlooks tid did key) (\<lambda>v. quarantined_unknown i v now) (ms_unknown_profiles (w_repo w)) d \<Longrightarrow> Q ps w'"
  shows "wp (quarantine_unknown_profiles env i tid did key now) Q E w"
  unfolding quarantine_unknown_profiles_def Let_def set_unknown_def
  by (intro wp_bindS wp_get_repo unknown_field.sweep) (use assms in auto)

lemma wp_quarantine_profiles:
  assumes "dict_ok (ms_profiles (w_repo w))"
    and "\<And>ps w' d. w_repo w' = (w_repo w)\<lparr>ms_profiles := d\<rparr> \<Longrightarrow>
      swept (\<lambda>p. \<not> (k \<notin> set (pf_source_ids p) \<or> pf_state p = PB_QUARANTINED))
        (\<lambda>v. quarantined_profile i v now) (ms_profiles (w_repo w)) d \<Longrightarrow> Q ps w'"
  shows "wp (quarantine_profiles env i k now) Q E w"
  unfolding quarantine_profiles_def Let_def set_profile_def
  by (intro wp_bindS wp_get_repo profile_field.sweep) (use assms in auto)

lemma quiet_market_audit [simp]: "quiet (market_audit env i a ty k v rid rc oc)"
  unfolding market_audit_def by (intro quiet_bindS) (auto split: option.split)

lemma quiet_audit_unknown [simp]: "quiet (audit_unknown_quarantines env i rid rc ps)"
  unfolding audit_unknown_quarantines_def by (intro quiet_over_list) simp

lemma quiet_allowed [simp]: "quiet (market_allowed i tid did uid)"
  unfolding market_allowed_def by simp

end
