(* ===== verification/Market_Invariants.thy ===== *)
theory Market_Invariants
  imports Market_Sweep
begin

text \<open>
  The invariant of the market governance service, kept by every route: the subject index finds
  every named competitor, published unknown-entrant profiles exclude every named subject, no
  profile in use rests on a quarantined source, and reviewed and published objects carry the
  evidence of their review.
\<close>

section \<open>The invariant\<close>

definition source_sound :: "competitor_source \<Rightarrow> bool" where
  "source_sound x \<longleftrightarrow> review_is_evidence_bound x \<and>
     (so_review_state x = SR_REVIEWED \<longrightarrow> (\<exists>t. so_reviewed_at x = Some t \<and> t < so_retention_expires_at x))"

definition prior_sound :: "market_prior \<Rightarrow> bool" where
  "prior_sound x \<longleftrightarrow> validity_period_is_ordered x \<and> mp_state x \<in> {PB_DRAFT, PB_REVIEWED, PB_PUBLISHED} \<and>
     (mp_state x \<noteq> PB_DRAFT \<longrightarrow> mp_reviewed_by x \<noteq> None \<and> mp_reviewed_at x \<noteq> None) \<and>
     (mp_state x = PB_PUBLISHED \<longrightarrow> (\<exists>t. mp_published_at x = Some t \<and> t < mp_expires_at x))"

definition market_keyed :: "market_state \<Rightarrow> bool" where
  "market_keyed s \<longleftrightarrow> keyed cm_competitor_id (ms_competitors s) \<and> keyed so_source_id (ms_sources s) \<and>
     keyed pf_profile_id (ms_profiles s) \<and> keyed mp_market_prior_id (ms_priors s) \<and>
     keyed uk_profile_id (ms_unknown_profiles s)"

definition subjects_indexed :: "market_state \<Rightarrow> bool" where
  "subjects_indexed s \<longleftrightarrow>
     (\<forall>k c. dict_get (ms_competitors s) k = Some c \<longrightarrow> dict_get (ms_subject_index s) (subject_key_of c) = Some k)"

definition names_kept_out :: "market_state \<Rightarrow> bool" where
  "names_kept_out s \<longleftrightarrow>
     (\<forall>k p j c. dict_get (ms_unknown_profiles s) k = Some p \<longrightarrow> uk_state p = PB_PUBLISHED \<longrightarrow>
        dict_get (ms_competitors s) j = Some c \<longrightarrow> same_place (uk_tenant_id p) (uk_data_domain_id p) c \<longrightarrow>
        cm_archived_at c = None \<longrightarrow> cm_subject_key c \<in> set (uk_excluded_subject_keys p))"

definition clean_source :: "market_state \<Rightarrow> uuid \<Rightarrow> bool" where
  "clean_source s k \<longleftrightarrow> (\<exists>x. dict_get (ms_sources s) k = Some x \<and> so_review_state x \<noteq> SR_QUARANTINED)"

definition profiles_clean :: "market_state \<Rightarrow> bool" where
  "profiles_clean s \<longleftrightarrow>
     (\<forall>k p. dict_get (ms_profiles s) k = Some p \<longrightarrow> pf_state p \<noteq> PB_QUARANTINED \<longrightarrow>
        (\<forall>j \<in> set (pf_source_ids p). clean_source s j))"

definition market_ok :: "market_state \<Rightarrow> bool" where
  "market_ok s \<longleftrightarrow> market_keyed s \<and> subjects_indexed s \<and> names_kept_out s \<and> profiles_clean s \<and>
     all_values source_sound (ms_sources s) \<and> all_values prior_sound (ms_priors s)"

lemma empty_market_ok: "market_ok empty_market"
  by (simp add: market_ok_def market_keyed_def subjects_indexed_def names_kept_out_def profiles_clean_def empty_market_def)

lemmas market_parts = market_keyed_def subjects_indexed_def names_kept_out_def profiles_clean_def clean_source_def

lemma keyed_at: "keyed key d \<Longrightarrow> key x = k \<Longrightarrow> keyed key (dict_set k x d)"
  using keyed_set [of key d x] by simp

lemma keyed_swept:
  assumes "keyed key d" and "swept bad change d d'" and "\<And>v p. key (change v p) = key p"
  shows "keyed key d'"
proof -
  have "key q = k" if "(k, q) \<in> set d'" for k q
  proof -
    have "dict_get d' k = Some q" using that assms(2) by (simp add: swept_def dict_ok_def)
    from swept_get [OF assms(2) this] keyed_get [OF assms(1), of k] show ?thesis using assms(3) by auto
  qed
  with assms(2) show ?thesis by (auto simp: keyed_def swept_def)
qed

section \<open>Writes that keep it\<close>

lemma ok_results: "market_ok s \<Longrightarrow> market_ok (s\<lparr>ms_idempotency_results := d\<rparr>)"
  by (simp add: market_ok_def market_parts)

lemma ok_set_run: "market_ok s \<Longrightarrow> market_ok (set_run k x s)"
  by (simp add: market_ok_def market_parts set_run_def)

lemma ok_set_prior: "market_ok s \<Longrightarrow> mp_market_prior_id x = k \<Longrightarrow> prior_sound x \<Longrightarrow> market_ok (set_prior k x s)"
  by (simp add: market_ok_def market_parts set_prior_def keyed_at all_values_set)

lemma ok_set_unknown:
  assumes "market_ok s" and "uk_profile_id p = k" and "uk_state p = PB_PUBLISHED \<Longrightarrow> names_excluded p s"
  shows "market_ok (set_unknown k p s)"
proof -
  have "cm_subject_key c \<in> set (uk_excluded_subject_keys p)"
    if "uk_state p = PB_PUBLISHED" "dict_get (ms_competitors s) j = Some c"
      "same_place (uk_tenant_id p) (uk_data_domain_id p) c" "cm_archived_at c = None" for j c
  proof -
    have "dict_ok (ms_competitors s)" using assms(1) by (simp add: market_ok_def market_keyed_def keyed_def)
    then have "c \<in> set (dict_values (ms_competitors s))" using that(2) by (auto simp: dict_values_get)
    with that assms(3) show ?thesis by (auto simp: names_excluded_def named_subjects_def list_all_iff)
  qed
  with assms show ?thesis
    by (auto simp: market_ok_def market_parts set_unknown_def keyed_at split: if_splits)
qed

lemma ok_set_profile:
  "market_ok s \<Longrightarrow> pf_profile_id p = k \<Longrightarrow> (\<And>j. j \<in> set (pf_source_ids p) \<Longrightarrow> clean_source s j) \<Longrightarrow>
   market_ok (set_profile k p s)"
  by (auto simp: market_ok_def market_parts set_profile_def keyed_at split: if_splits)

lemma ok_set_source:
  "market_ok s \<Longrightarrow> so_source_id x = k \<Longrightarrow> source_sound x \<Longrightarrow> so_review_state x \<noteq> SR_QUARANTINED \<Longrightarrow>
   market_ok (set_source k x s)"
  by (fastforce simp: market_ok_def market_parts set_source_def keyed_at all_values_set)

lemma ok_archive:
  assumes s: "market_ok s" and x: "dict_get (ms_competitors s) k = Some x"
  shows "market_ok (set_competitor k (archived_competitor i reason v t t' x) s)"
proof -
  have "subject_key_of (archived_competitor i reason v t t' x) = subject_key_of x"
    by (simp add: archived_competitor_def subject_key_of_def)
  moreover have "cm_competitor_id (archived_competitor i reason v t t' x) = k"
    using s x keyed_get by (fastforce simp: market_ok_def market_keyed_def archived_competitor_def)
  moreover have "cm_archived_at (archived_competitor i reason v t t' x) \<noteq> None" by (simp add: archived_competitor_def)
  ultimately show ?thesis
    using s x by (auto simp: market_ok_def market_parts set_competitor_def keyed_at split: if_splits)
qed

text \<open>
  A competitor is stored under a name: the index may have lost names nobody else bears, and no
  published profile that is left overlooks the name.
\<close>

lemma ok_competitor:
  assumes s: "market_ok s" and k: "cm_competitor_id y = k" and d: "keyed uk_profile_id d"
    and own: "dict_get index (subject_key_of y) = Some k"
    and others: "\<And>j c. j \<noteq> k \<Longrightarrow> dict_get (ms_competitors s) j = Some c \<Longrightarrow>
        dict_get index (subject_key_of c) = dict_get (ms_subject_index s) (subject_key_of c)"
    and kept: "\<And>l q. dict_get d l = Some q \<Longrightarrow> uk_state q = PB_PUBLISHED \<Longrightarrow>
        dict_get (ms_unknown_profiles s) l = Some q \<and>
        (same_place (uk_tenant_id q) (uk_data_domain_id q) y \<longrightarrow> cm_archived_at y = None \<longrightarrow>
           cm_subject_key y \<in> set (uk_excluded_subject_keys q))"
  shows "market_ok (s\<lparr>ms_competitors := dict_set k y (ms_competitors s), ms_subject_index := index, ms_unknown_profiles := d\<rparr>)"
    (is "market_ok ?s")
proof -
  have "market_keyed ?s" using s k d by (simp add: market_ok_def market_keyed_def keyed_at)
  moreover have "subjects_indexed ?s"
    using s own others by (simp add: market_ok_def subjects_indexed_def)
  moreover have "names_kept_out ?s"
    unfolding names_kept_out_def
  proof (intro allI impI)
    fix l q j c
    assume "dict_get (ms_unknown_profiles ?s) l = Some q" and q: "uk_state q = PB_PUBLISHED"
      and c: "dict_get (ms_competitors ?s) j = Some c" "same_place (uk_tenant_id q) (uk_data_domain_id q) c" "cm_archived_at c = None"
    then have "dict_get d l = Some q" by simp
    note old = kept [OF this q]
    show "cm_subject_key c \<in> set (uk_excluded_subject_keys q)"
    proof (cases "j = k")
      case True
      with old c show ?thesis by simp
    next
      case False
      with c have "dict_get (ms_competitors s) j = Some c" by simp
      with s old q c show ?thesis unfolding market_ok_def names_kept_out_def by blast
    qed
  qed
  ultimately show ?thesis using s by (simp add: market_ok_def profiles_clean_def clean_source_def)
qed

lemma competitor_writes:
  "set_competitor k y (index_subject key l s) = s\<lparr>ms_competitors := dict_set k y (ms_competitors s),
     ms_subject_index := dict_set key l (ms_subject_index s), ms_unknown_profiles := ms_unknown_profiles s\<rparr>"
  "set_competitor k y (index_subject key l (unindex_subject old s))\<lparr>ms_unknown_profiles := d\<rparr> =
     s\<lparr>ms_competitors := dict_set k y (ms_competitors s),
       ms_subject_index := dict_set key l (dict_del old (ms_subject_index s)), ms_unknown_profiles := d\<rparr>"
  by (cases s; simp add: set_competitor_def index_subject_def unindex_subject_def)+

lemma indexed_key:
  "market_ok s \<Longrightarrow> dict_get (ms_competitors s) j = Some c \<Longrightarrow> dict_get (ms_subject_index s) (subject_key_of c) = Some j"
  by (simp add: market_ok_def subjects_indexed_def)

lemma swept_unknown:
  assumes "market_ok s" and "swept (overlooks tid did key) (\<lambda>v. quarantined_unknown i v now) (ms_unknown_profiles s) d"
  shows "keyed uk_profile_id d"
    and "dict_get d l = Some q \<Longrightarrow> uk_state q = PB_PUBLISHED \<Longrightarrow>
      dict_get (ms_unknown_profiles s) l = Some q \<and> \<not> overlooks tid did key q"
proof -
  show "keyed uk_profile_id d"
    using assms(1) by (intro keyed_swept [OF _ assms(2)]) (auto simp: market_ok_def market_keyed_def quarantined_unknown_def)
  assume "dict_get d l = Some q" "uk_state q = PB_PUBLISHED"
  with swept_get [OF assms(2)] show "dict_get (ms_unknown_profiles s) l = Some q \<and> \<not> overlooks tid did key q"
    by (fastforce simp: quarantined_unknown_def)
qed

lemma ok_add_competitor:
  assumes s: "market_ok s" and free: "\<not> (dict_get (ms_subject_index s) (subject_key_of x) \<noteq> None \<and>
        dict_get (ms_subject_index s) (subject_key_of x) \<noteq> Some (cm_competitor_id x))"
    and d: "swept (overlooks (cm_tenant_id x) (cm_data_domain_id x) (cm_subject_key x)) (\<lambda>v. quarantined_unknown i v now)
        (ms_unknown_profiles s) d"
  shows "market_ok (index_subject (subject_key_of x) (cm_competitor_id x) (set_competitor (cm_competitor_id x) x s)\<lparr>ms_unknown_profiles := d\<rparr>)"
proof -
  have "market_ok (s\<lparr>ms_competitors := dict_set (cm_competitor_id x) x (ms_competitors s),
      ms_subject_index := dict_set (subject_key_of x) (cm_competitor_id x) (ms_subject_index s), ms_unknown_profiles := d\<rparr>)"
  proof (rule ok_competitor [OF s refl swept_unknown(1) [OF s d]])
    fix j c assume "j \<noteq> cm_competitor_id x" "dict_get (ms_competitors s) j = Some c"
    with indexed_key [OF s, of j c] free
    show "dict_get (dict_set (subject_key_of x) (cm_competitor_id x) (ms_subject_index s)) (subject_key_of c) =
        dict_get (ms_subject_index s) (subject_key_of c)" by auto
  next
    fix l q assume "dict_get d l = Some q" "uk_state q = PB_PUBLISHED"
    with swept_unknown(2) [OF s d] show "dict_get (ms_unknown_profiles s) l = Some q \<and>
        (same_place (uk_tenant_id q) (uk_data_domain_id q) x \<longrightarrow> cm_archived_at x = None \<longrightarrow>
           cm_subject_key x \<in> set (uk_excluded_subject_keys q))"
      by (fastforce simp: overlooks_def same_place_def)
  qed simp
  then show ?thesis by (simp add: index_subject_def set_competitor_def)
qed

text \<open>The two cases of an update: the name stays, or it changes.\<close>

lemma ok_update_same:
  assumes s: "market_ok s" and x: "dict_get (ms_competitors s) k = Some x"
    and y: "y = updated_competitor i n (cm_subject_key x) a v now x"
  shows "market_ok (set_competitor k y (index_subject (subject_key_of x) k s))"
proof -
  have yx: "subject_key_of y = subject_key_of x" "cm_competitor_id y = cm_competitor_id x"
      "cm_archived_at y = cm_archived_at x" "same_place t d y = same_place t d x" "cm_subject_key y = cm_subject_key x" for t d
    by (simp_all add: y updated_competitor_def subject_key_of_def same_place_def)
  have id: "cm_competitor_id x = k" using s x by (auto simp: market_ok_def market_keyed_def intro: keyed_get)
  have "market_ok (s\<lparr>ms_competitors := dict_set k y (ms_competitors s),
      ms_subject_index := dict_set (subject_key_of x) k (ms_subject_index s), ms_unknown_profiles := ms_unknown_profiles s\<rparr>)"
  proof (rule ok_competitor [OF s])
    fix j c assume "j \<noteq> k" "dict_get (ms_competitors s) j = Some c"
    with indexed_key [OF s, of j c] indexed_key [OF s x]
    show "dict_get (dict_set (subject_key_of x) k (ms_subject_index s)) (subject_key_of c) =
        dict_get (ms_subject_index s) (subject_key_of c)" by auto
  next
    fix l q assume "dict_get (ms_unknown_profiles s) l = Some q" "uk_state q = PB_PUBLISHED"
    with s x show "dict_get (ms_unknown_profiles s) l = Some q \<and>
        (same_place (uk_tenant_id q) (uk_data_domain_id q) y \<longrightarrow> cm_archived_at y = None \<longrightarrow>
           cm_subject_key y \<in> set (uk_excluded_subject_keys q))"
      unfolding yx market_ok_def names_kept_out_def by blast
  qed (use s id yx in \<open>simp_all add: market_ok_def market_keyed_def\<close>)
  then show ?thesis unfolding competitor_writes .
qed

lemma ok_update_renamed:
  assumes s: "market_ok s" and x: "dict_get (ms_competitors s) k = Some x" and new: "next \<noteq> cm_subject_key x"
    and y: "y = updated_competitor i n next a v now x"
    and free: "\<not> (dict_get (ms_subject_index s) (cm_tenant_id x, cm_data_domain_id x, next) \<noteq> None \<and>
        dict_get (ms_subject_index s) (cm_tenant_id x, cm_data_domain_id x, next) \<noteq> Some k)"
    and d: "swept (overlooks (cm_tenant_id x) (cm_data_domain_id x) next) (\<lambda>v. quarantined_unknown i v t)
        (ms_unknown_profiles s) d"
  shows "market_ok (set_competitor k y (index_subject (cm_tenant_id x, cm_data_domain_id x, next) k
      (unindex_subject (subject_key_of x) s))\<lparr>ms_unknown_profiles := d\<rparr>)"
proof -
  let ?nk = "(cm_tenant_id x, cm_data_domain_id x, next)"
  have yx: "subject_key_of y = ?nk" "cm_competitor_id y = cm_competitor_id x" "cm_tenant_id y = cm_tenant_id x"
      "cm_data_domain_id y = cm_data_domain_id x" "cm_subject_key y = next"
    by (simp_all add: y updated_competitor_def subject_key_of_def)
  have id: "cm_competitor_id x = k" using s x by (auto simp: market_ok_def market_keyed_def intro: keyed_get)
  have "market_ok (s\<lparr>ms_competitors := dict_set k y (ms_competitors s),
      ms_subject_index := dict_set ?nk k (dict_del (subject_key_of x) (ms_subject_index s)), ms_unknown_profiles := d\<rparr>)"
  proof (rule ok_competitor [OF s _ swept_unknown(1) [OF s d]])
    fix j c assume "j \<noteq> k" "dict_get (ms_competitors s) j = Some c"
    with indexed_key [OF s, of j c] indexed_key [OF s x] free
    show "dict_get (dict_set ?nk k (dict_del (subject_key_of x) (ms_subject_index s))) (subject_key_of c) =
        dict_get (ms_subject_index s) (subject_key_of c)" by (auto simp: dict_get_del)
  next
    fix l q assume "dict_get d l = Some q" "uk_state q = PB_PUBLISHED"
    with swept_unknown(2) [OF s d] show "dict_get (ms_unknown_profiles s) l = Some q \<and>
        (same_place (uk_tenant_id q) (uk_data_domain_id q) y \<longrightarrow> cm_archived_at y = None \<longrightarrow>
           cm_subject_key y \<in> set (uk_excluded_subject_keys q))"
      using yx by (fastforce simp: overlooks_def same_place_def)
  qed (use id yx in simp_all)
  then show ?thesis unfolding competitor_writes(2) .
qed

text \<open>A source goes into quarantine, and every profile that cites it follows.\<close>

lemma ok_quarantine_source:
  assumes s: "market_ok s" and x: "dict_get (ms_sources s) k = Some x" and reason: "strip reason \<noteq> []"
    and d: "swept (\<lambda>p. \<not> (k \<notin> set (pf_source_ids p) \<or> pf_state p = PB_QUARANTINED))
        (\<lambda>v. quarantined_profile i v now) (ms_profiles s) d"
  shows "market_ok (set_source k (quarantined_source i reason u t x) s\<lparr>ms_profiles := d\<rparr>)" (is "market_ok ?s")
proof -
  let ?y = "quarantined_source i reason u t x"
  have id: "so_source_id ?y = k"
    using s x by (auto simp: market_ok_def market_keyed_def quarantined_source_def intro: keyed_get)
  have y: "source_sound ?y" using reason by (simp add: source_sound_def review_is_evidence_bound_def quarantined_source_def)
  have "keyed pf_profile_id d"
    using s by (intro keyed_swept [OF _ d]) (auto simp: market_ok_def market_keyed_def quarantined_profile_def)
  then have "market_keyed ?s"
    using s id by (simp add: market_ok_def market_keyed_def set_source_def keyed_at)
  moreover have "profiles_clean ?s"
    unfolding profiles_clean_def
  proof (intro allI impI ballI)
    fix l q j assume "dict_get (ms_profiles ?s) l = Some q" and q: "pf_state q \<noteq> PB_QUARANTINED" "j \<in> set (pf_source_ids q)"
    then have "dict_get d l = Some q" by (simp add: set_source_def)
    from swept_get [OF d this] q have "dict_get (ms_profiles s) l = Some q" "k \<notin> set (pf_source_ids q)"
      by (auto simp: quarantined_profile_def)
    with s q show "clean_source ?s j"
      by (auto simp: market_ok_def profiles_clean_def clean_source_def set_source_def)
  qed
  ultimately show ?thesis
    using s y by (simp add: market_ok_def subjects_indexed_def names_kept_out_def set_source_def all_values_set)
qed

end
