(* ===== verification/Market_Histories.thy ===== *)
theory Market_Histories
  imports Market_Invariants
begin

text \<open>
  Every operation and every route of the market governance service keeps the invariant, so it
  holds after every history of calls.
\<close>

section \<open>Rules\<close>

lemmas market_wp =
  module_wp wp_quiet [OF quiet_market_audit] wp_quiet [OF quiet_audit_unknown] wp_quiet [OF quiet_allowed]
  wp_quarantine_unknown wp_quarantine_profiles wp_quiet [OF quiet_over_list [OF quiet_market_audit]]

lemma market_ok_dicts: "market_ok s \<Longrightarrow> dict_ok (ms_unknown_profiles s)" "market_ok s \<Longrightarrow> dict_ok (ms_profiles s)"
  by (simp_all add: market_ok_def market_keyed_def keyed_def)

lemma stored_keys:
  "market_ok s \<Longrightarrow> dict_get (ms_competitors s) k = Some c \<Longrightarrow> cm_competitor_id c = k"
  "market_ok s \<Longrightarrow> dict_get (ms_sources s) k = Some x \<Longrightarrow> so_source_id x = k"
  "market_ok s \<Longrightarrow> dict_get (ms_profiles s) k = Some p \<Longrightarrow> pf_profile_id p = k"
  "market_ok s \<Longrightarrow> dict_get (ms_priors s) k = Some y \<Longrightarrow> mp_market_prior_id y = k"
  "market_ok s \<Longrightarrow> dict_get (ms_unknown_profiles s) k = Some u \<Longrightarrow> uk_profile_id u = k"
  by (auto simp: market_ok_def market_keyed_def intro: keyed_get)

lemma other_fields [simp]:
  "ms_unknown_profiles (set_competitor k c s) = ms_unknown_profiles s"
  "ms_unknown_profiles (index_subject key k s) = ms_unknown_profiles s"
  "ms_unknown_profiles (unindex_subject key s) = ms_unknown_profiles s"
  "ms_profiles (set_source k x s) = ms_profiles s"
  by (simp_all add: set_competitor_def index_subject_def unindex_subject_def set_source_def)

section \<open>The objects the operations store\<close>

lemma ok_reviewed:
  assumes "market_ok s" and "dict_get (ms_sources s) k = Some x" and "\<not> so_retention_expires_at x \<le> t"
  shows "market_ok (set_source k (reviewed_source i c t v x) s)"
  using assms stored_keys(2) [OF assms(1,2)]
  by (intro ok_set_source) (auto simp: reviewed_source_def source_sound_def review_is_evidence_bound_def)

lemma usable_clean:
  "\<not> list_ex (unusable_at t) (profile_sources p s) \<Longrightarrow> j \<in> set (pf_source_ids p) \<Longrightarrow> clean_source s j"
  by (auto simp: list_ex_iff profile_sources_def unusable_at_def clean_source_def split: option.splits)

lemma ok_built:
  "market_ok s \<Longrightarrow> \<not> list_ex (unusable_at t) (profile_sources p s) \<Longrightarrow> market_ok (set_profile (pf_profile_id p) p s)"
  by (rule ok_set_profile) (auto intro: usable_clean)

lemma ok_released:
  assumes "market_ok s" and "dict_get (ms_profiles s) k = Some p" and "\<not> list_ex (unusable_at t) (profile_sources p s)"
  shows "market_ok (set_profile k (released_profile i t v p) s)"
  using assms stored_keys(3) [OF assms(1,2)]
  by (intro ok_set_profile) (auto simp: released_profile_def intro: usable_clean)

lemma stored_prior: "market_ok s \<Longrightarrow> dict_get (ms_priors s) k = Some x \<Longrightarrow> prior_sound x"
  by (auto simp: market_ok_def intro: all_values_get)

lemma ok_reviewed_prior:
  assumes "market_ok s" and "dict_get (ms_priors s) k = Some x"
  shows "market_ok (set_prior k (reviewed_prior i v t x) s)"
  using assms stored_keys(4) [OF assms] stored_prior [OF assms]
  by (intro ok_set_prior) (auto simp: reviewed_prior_def prior_sound_def validity_period_is_ordered_def)

lemma ok_published_prior:
  assumes "market_ok s" and "dict_get (ms_priors s) k = Some x" and "mp_state x = PB_REVIEWED" and "\<not> mp_expires_at x \<le> t"
  shows "market_ok (set_prior k (published_prior i v t x) s)"
  using assms stored_keys(4) [OF assms(1,2)] stored_prior [OF assms(1,2)]
  by (intro ok_set_prior) (auto simp: published_prior_def prior_sound_def validity_period_is_ordered_def)

lemma ok_published_unknown:
  assumes "market_ok s" and "dict_get (ms_unknown_profiles s) k = Some p" and "names_excluded p s"
  shows "market_ok (set_unknown k (published_unknown i v t p) s)"
  using assms stored_keys(5) [OF assms(1,2)]
  by (intro ok_set_unknown) (auto simp: published_unknown_def names_excluded_def)

lemmas ok_writes =
  ok_archive ok_set_source ok_reviewed ok_built ok_released ok_set_prior ok_reviewed_prior ok_published_prior
  ok_set_unknown ok_published_unknown ok_set_run ok_results

section \<open>Competitors\<close>


lemma keeps_add_competitor: "keeps market_ok (\<lambda>_. True) (add_competitor env i x rid)"
  unfolding add_competitor_def
  by (rule keepsI, intro market_wp, simp_all add: later_def market_ok_dicts)
    (rule ok_add_competitor; simp)+

lemma keeps_update: "keeps market_ok (\<lambda>_. True) (competitor_update_draft env i k m n s a rid)"
  unfolding competitor_update_draft_def competitor_get_def Let_def
  by (rule keepsI, intro market_wp, simp_all add: later_def market_ok_dicts)
    (rule ok_update_renamed [OF _ _ _ refl] ok_update_same [OF _ _ refl, unfolded subject_key_of_def]; simp)+

lemma keeps_archive: "keeps market_ok (\<lambda>_. True) (competitor_archive env i k reason rid)"
  unfolding competitor_archive_def competitor_get_def Let_def
  by (rule keepsI, intro market_wp) (auto simp: later_def intro: ok_writes)

section \<open>Sources\<close>

lemma keeps_add_source: "source_sound x \<Longrightarrow> so_review_state x \<noteq> SR_QUARANTINED \<Longrightarrow> keeps market_ok (\<lambda>_. True) (add_source env i x rid)"
  unfolding add_source_def
  by (rule keepsI, intro market_wp) (auto simp: later_def intro: ok_writes)

lemma keeps_review: "keeps market_ok (\<lambda>_. True) (review_source env i k c t rid)"
  unfolding review_source_def Let_def
  by (rule keepsI, intro market_wp) (auto simp: later_def intro: ok_writes)

lemma keeps_quarantine: "keeps market_ok (\<lambda>_. True) (quarantine_source env i k reason rid)"
  unfolding quarantine_source_def Let_def
  by (rule keepsI, intro market_wp, simp_all add: later_def market_ok_dicts)
    (rule ok_quarantine_source; simp)+

section \<open>Profiles and priors\<close>

lemma keeps_add_profile: "keeps market_ok (\<lambda>_. True) (add_profile env i p rid)"
  unfolding add_profile_def
  by (rule keepsI, intro market_wp) (auto simp: later_def intro: ok_writes)

lemma keeps_publish_profile: "keeps market_ok (\<lambda>_. True) (publish_profile env i k t rid)"
  unfolding publish_profile_def competitor_profile_get_def Let_def
  by (rule keepsI, intro market_wp) (auto simp: later_def intro: ok_writes)

lemma keeps_add_prior: "prior_sound x \<Longrightarrow> keeps market_ok (\<lambda>_. True) (add_market_prior env i x rid)"
  unfolding add_market_prior_def
  by (rule keepsI, intro market_wp) (auto simp: later_def intro: ok_writes)

lemma keeps_review_prior: "keeps market_ok (\<lambda>_. True) (review_market_prior env i k rid)"
  unfolding review_market_prior_def prior_get_def Let_def
  by (rule keepsI, intro market_wp) (auto simp: later_def intro: ok_writes)

lemma keeps_publish_prior: "keeps market_ok (\<lambda>_. True) (publish_market_prior env i k rid)"
  unfolding publish_market_prior_def prior_get_def Let_def
  by (rule keepsI, intro market_wp) (auto simp: later_def intro: ok_writes)

section \<open>Unknown entrants and deduplication\<close>

lemma keeps_add_unknown: "keeps market_ok (\<lambda>_. True) (add_unknown_profile env i p rid)"
  unfolding add_unknown_profile_def
  by (rule keepsI, intro market_wp) (auto simp: later_def intro: ok_writes)

lemma keeps_publish_unknown: "keeps market_ok (\<lambda>_. True) (publish_unknown_profile env i k rid)"
  unfolding publish_unknown_profile_def unknown_get_def Let_def
  by (rule keepsI, intro market_wp) (auto simp: later_def intro: ok_writes)

lemma keeps_deduplicate: "keeps market_ok (\<lambda>_. True) (create_deduplication_run env i u ks rid)"
  unfolding create_deduplication_run_def own_unit_allowed_def Let_def
  by (rule keepsI, intro market_wp) (auto simp: later_def intro: ok_writes)

section \<open>Commands under a key\<close>

lemma keeps_execute: "keeps market_ok (\<lambda>_. True) m \<Longrightarrow> keeps market_ok (\<lambda>_. True) (fr05_execute env i key op vs m)"
  unfolding fr05_execute_def execute_idempotent_def Let_def
  apply (rule keeps_get [THEN keeps_bindS])
  subgoal for x
    by (cases x) (auto intro!: keeps_bindS [OF keeps_checkS] keeps_bindS [where P = "\<lambda>_. True"] keeps_ret
      keeps_put ok_results)
  done

lemma keeps_as_result: "keeps market_ok (\<lambda>_. True) m \<Longrightarrow> keeps market_ok (\<lambda>_. True) (as_result f m)"
  unfolding as_result_def by (auto intro!: keeps_bindS [where P = "\<lambda>_. True"] keeps_ret)

lemma keeps_quiet: "quiet m \<Longrightarrow> keeps I (\<lambda>_. True) m"
  by (rule keepsI) (auto intro: wp_quiet simp: later_def)

lemma keeps_throw: "keeps I P (throw e)"
  by (simp add: keeps_def wp_def)

lemma new_objects_sound:
  "source_sound (new_source i c q now k v)" "so_review_state (new_source i c q now k v) = SR_DRAFT"
  "prior_valid (new_prior i u oq now k v) \<Longrightarrow> prior_sound (new_prior i u oq now k v)"
  by (auto simp: source_sound_def review_is_evidence_bound_def new_source_def prior_valid_def prior_sound_def new_prior_def)

lemmas keeps_operations =
  keeps_add_competitor keeps_update keeps_archive keeps_add_source keeps_review keeps_quarantine keeps_add_profile
  keeps_publish_profile keeps_add_prior keeps_review_prior keeps_publish_prior keeps_add_unknown
  keeps_publish_unknown keeps_deduplicate

lemmas route_defs =
  route_create_competitor_def route_update_competitor_def route_archive_competitor_def route_create_source_def
  route_review_source_def route_quarantine_source_def route_build_profile_def route_publish_profile_def
  route_create_prior_def route_review_prior_def route_publish_prior_def route_create_unknown_def
  route_publish_unknown_def route_deduplicate_def fr05_write_def fr05_read_def source_get_def

lemma routes_keep: "keeps market_ok (\<lambda>_. True) (run_market env c)"
  by (cases c; simp add: route_defs Let_def;
      (intro keeps_module_steps keeps_quiet [OF quiet_allowed, THEN keeps_bindS] keeps_execute keeps_as_result
        keeps_operations keeps_ret keeps_if keeps_case_option keeps_throw)?;
      simp add: new_objects_sound)

lemma market_after_ok: "market_ok (w_repo (market_after env cs w))"
  unfolding market_after_def
  using history_keeps [of cs "on_repo market_ok" "\<lambda>c. as_unit (run_market env c)" "w\<lparr>w_repo := empty_market\<rparr>"]
  by (simp add: on_repo_def preserves_as_unit [OF routes_keep] empty_market_ok)

end
