(* ===== verification/Market_Results.thy ===== *)
theory Market_Results
  imports Market_Histories
begin

text \<open>
  What the market governance service guarantees after any history of its routes: named competitors
  and unknown entrants, sources in quarantine, and commands under an idempotency key. And what it
  does when the audit sink is unavailable.
\<close>

section \<open>Subjects and sources\<close>

text \<open>
  C40. After any history of calls of the FR-05 routes on an empty service: the index of subjects finds
  every competitor, two competitors of one tenant and data domain never have the same subject, and a
  published profile of unknown entrants excludes the subject of every competitor of its place that is
  not archived, also of competitors named or renamed after it was published.
\<close>

theorem named_subjects_are_protected:
  "(\<nexists>j c. dict_get (ms_competitors (w_repo (market_after env cs w))) j = Some c \<and>
      dict_get (ms_subject_index (w_repo (market_after env cs w))) (subject_key_of c) \<noteq> Some j) \<and>
   (\<nexists>j k c d. j \<noteq> k \<and> dict_get (ms_competitors (w_repo (market_after env cs w))) j = Some c \<and>
      dict_get (ms_competitors (w_repo (market_after env cs w))) k = Some d \<and>
      cm_tenant_id c = cm_tenant_id d \<and> cm_data_domain_id c = cm_data_domain_id d \<and> cm_subject_key c = cm_subject_key d) \<and>
   (\<nexists>k p j c. dict_get (ms_unknown_profiles (w_repo (market_after env cs w))) k = Some p \<and> uk_state p = PB_PUBLISHED \<and>
      dict_get (ms_competitors (w_repo (market_after env cs w))) j = Some c \<and>
      cm_tenant_id c = uk_tenant_id p \<and> cm_data_domain_id c = uk_data_domain_id p \<and> cm_archived_at c = None \<and>
      cm_subject_key c \<notin> set (uk_excluded_subject_keys p))"
proof -
  have ok: "market_ok (w_repo (market_after env cs w))" by (rule market_after_ok)
  note found = indexed_key [OF ok]
  have "j = k" if "dict_get (ms_competitors (w_repo (market_after env cs w))) j = Some c"
      "dict_get (ms_competitors (w_repo (market_after env cs w))) k = Some d" "cm_tenant_id c = cm_tenant_id d"
      "cm_data_domain_id c = cm_data_domain_id d" "cm_subject_key c = cm_subject_key d" for j k c d
    using found [OF that(1)] found [OF that(2)] that(3-5) by (simp add: subject_key_of_def)
  moreover have "names_kept_out (w_repo (market_after env cs w))" using ok by (simp add: market_ok_def)
  ultimately show ?thesis using found unfolding names_kept_out_def same_place_def by blast
qed

text \<open>
  After any history: a profile that is not in quarantine cites only sources the service holds and
  that are not in quarantine; a reviewed source names its subject, its reviewer and a time of review
  before the end of its retention, and a source in quarantine names a reason; a prior beyond its
  draft was reviewed, and one that is published was published before it expires.
\<close>

theorem quarantined_sources_are_out_of_use:
  "(\<nexists>k p j. dict_get (ms_profiles (w_repo (market_after env cs w))) k = Some p \<and> pf_state p \<noteq> PB_QUARANTINED \<and>
      j \<in> set (pf_source_ids p) \<and> \<not> clean_source (w_repo (market_after env cs w)) j) \<and>
   all_values source_sound (ms_sources (w_repo (market_after env cs w))) \<and>
   all_values prior_sound (ms_priors (w_repo (market_after env cs w)))"
  using market_after_ok [of env cs w] by (auto simp: market_ok_def profiles_clean_def)

section \<open>Commands under a key\<close>

text \<open>The answer kept under an idempotency key.\<close>

definition answered :: "idempotency_index_key \<Rightarrow> string \<times> market_result \<Rightarrow> market_state \<Rightarrow> bool" where
  "answered k v s \<longleftrightarrow> dict_get (ms_idempotency_results s) k = Some v"

lemma answered_writes [simp]:
  "answered k v (set_competitor j c s) = answered k v s" "answered k v (set_source j x s) = answered k v s"
  "answered k v (set_profile j p s) = answered k v s" "answered k v (set_prior j y s) = answered k v s"
  "answered k v (set_unknown j u s) = answered k v s" "answered k v (set_run j r s) = answered k v s"
  "answered k v (index_subject key j s) = answered k v s" "answered k v (unindex_subject key s) = answered k v s"
  by (simp_all add: answered_def set_competitor_def set_source_def set_profile_def set_prior_def set_unknown_def set_run_def
      index_subject_def unindex_subject_def)

lemmas market_operation_defs =
  add_competitor_def competitor_update_draft_def competitor_archive_def add_source_def review_source_def
  quarantine_source_def add_profile_def publish_profile_def add_market_prior_def review_market_prior_def
  publish_market_prior_def add_unknown_profile_def publish_unknown_profile_def create_deduplication_run_def
  competitor_get_def competitor_profile_get_def prior_get_def unknown_get_def own_unit_allowed_def
  quarantine_unknown_profiles_def quarantine_profiles_def

lemma preserves_market_helpers [intro!, simp]:
  "preserves P (market_allowed i tid did uid)"
  "preserves (on_repo Q) (market_audit env i a ty j ver rid rc oc)"
  "preserves (on_repo Q) (audit_unknown_quarantines env i rid rc ps)"
  unfolding audit_unknown_quarantines_def market_audit_def market_allowed_def
  by (simp_all add: preserves_bindS preserves_forS split: option.split)

lemmas preserves_market_steps =
  preserves_bindS preserves_if preserves_case_option preserves_case_prod preserves_forS preserves_put_repo

lemma answered_operations [intro!, simp]:
  "preserves (on_repo (answered k v)) (add_competitor env i x rid)"
  "preserves (on_repo (answered k v)) (competitor_update_draft env i j m n s a rid')"
  "preserves (on_repo (answered k v)) (competitor_archive env i j reason rid')"
  "preserves (on_repo (answered k v)) (add_source env i y rid)"
  "preserves (on_repo (answered k v)) (review_source env i j c t rid)"
  "preserves (on_repo (answered k v)) (quarantine_source env i j reason rid)"
  "preserves (on_repo (answered k v)) (add_profile env i p rid)"
  "preserves (on_repo (answered k v)) (publish_profile env i j t rid)"
  "preserves (on_repo (answered k v)) (add_market_prior env i z rid)"
  "preserves (on_repo (answered k v)) (review_market_prior env i j rid')"
  "preserves (on_repo (answered k v)) (publish_market_prior env i j rid')"
  "preserves (on_repo (answered k v)) (add_unknown_profile env i u rid)"
  "preserves (on_repo (answered k v)) (publish_unknown_profile env i j rid')"
  "preserves (on_repo (answered k v)) (create_deduplication_run env i d ks rid')"
  unfolding market_operation_defs Let_def
  by (intro preserves_market_steps; simp)+

lemma answered_execute:
  assumes "preserves (on_repo (answered k v)) m"
  shows "preserves (on_repo (answered k v)) (execute_idempotent i key fp m)"
  unfolding preserves_wp
proof (intro allI impI)
  fix w :: "market_state world" assume w: "on_repo (answered k v) w"
  let ?k = "(sc_tenant_id (ic_scope i), sc_data_domain_id (ic_scope i), key)"
  show "wp (execute_idempotent i key fp m) (\<lambda>_. on_repo (answered k v)) (on_repo (answered k v)) w"
  proof (cases "dict_get (ms_idempotency_results (w_repo w)) ?k")
    case (Some z)
    then show ?thesis
      using w by (cases z) (auto simp: execute_idempotent_def Let_def intro!: wp_rules split: prod.split)
  next
    case None
    with w have other: "k \<noteq> ?k" by (auto simp: on_repo_def answered_def)
    have "wp m (\<lambda>_. on_repo (answered k v)) (on_repo (answered k v)) w" using assms w by (simp add: preserves_wp)
    then have "wp m (\<lambda>x. wp (bindS (put_repo (\<lambda>s. s\<lparr>ms_idempotency_results := dict_set ?k (fp, x) (ms_idempotency_results s)\<rparr>))
        (\<lambda>_. ret x)) (\<lambda>_. on_repo (answered k v)) (on_repo (answered k v))) (on_repo (answered k v)) w"
      by (rule wp_weaken) (use other in \<open>auto intro!: wp_rules simp: on_repo_def answered_def\<close>)
    with None show ?thesis
      unfolding execute_idempotent_def Let_def by (intro wp_bindS wp_get_repo) (simp add: wp_bindS)
  qed
qed

lemma answered_wrappers:
  "preserves (on_repo (answered k v)) m \<Longrightarrow> preserves (on_repo (answered k v)) (fr05_execute env i key op vs m)"
  "preserves Q n \<Longrightarrow> preserves Q (as_result f n)"
  unfolding fr05_execute_def as_result_def by (intro answered_execute, assumption) (intro preserves_bindS; simp)

lemma answered_call: "preserves (on_repo (answered k v)) (as_unit (run_market env c))"
  by (cases c; simp add: route_defs Let_def as_unit_def;
      intro preserves_market_steps answered_wrappers; simp)

text \<open>
  Once a command under an idempotency key has been carried out, it is not carried out again,
  whatever calls follow and whoever repeats it within the tenant and data domain: the same
  fingerprint gives the first answer and another one a conflict, and in both cases nothing is read
  or changed beyond the kept answer. The rights of the caller are not among what is compared: the
  command, which holds the checks of role and scope, is not entered.
\<close>

theorem market_commands_run_once:
  assumes "execute_idempotent i key fp command w = (Inr x, w')"
    and "sc_tenant_id (ic_scope i') = sc_tenant_id (ic_scope i)" and "sc_data_domain_id (ic_scope i') = sc_data_domain_id (ic_scope i)"
  shows "execute_idempotent i' key fp command' (history (\<lambda>c. as_unit (run_market env c)) cs w') =
      (Inr x, history (\<lambda>c. as_unit (run_market env c)) cs w') \<and>
    (fp' \<noteq> fp \<longrightarrow> execute_idempotent i' key fp' command' (history (\<lambda>c. as_unit (run_market env c)) cs w') =
      (Inl (BiaiceError ''IDEMPOTENCY_CONFLICT''), history (\<lambda>c. as_unit (run_market env c)) cs w'))"
proof -
  let ?k = "(sc_tenant_id (ic_scope i), sc_data_domain_id (ic_scope i), key)"
  let ?w = "history (\<lambda>c. as_unit (run_market env c)) cs w'"
  have "answered ?k (fp, x) (w_repo w')"
    using assms(1)
    by (auto simp: execute_idempotent_def Let_def answered_def bindS_def get_repo_def put_repo_def checkS_def
        split: option.splits prod.splits sum.splits if_splits)
  then have "on_repo (answered ?k (fp, x)) ?w"
    by (intro history_keeps [where P = "on_repo (answered ?k (fp, x))"] answered_call) (simp add: on_repo_def)
  then show ?thesis
    using assms(2,3)
    by (auto simp: execute_idempotent_def Let_def on_repo_def answered_def bindS_def get_repo_def checkS_def)
qed

text \<open>A competitor created through its route, by symbolic execution.\<close>

lemma runs_market_audit:
  "digest_ok (env_sha env) \<Longrightarrow> runs env m r (n + 1) (t + 1) x r' n' t' \<Longrightarrow>
   runs env (bindS (market_audit env i a ty k v (Some q) rc oc) (\<lambda>_. m)) r n t x r' n' t'"
  unfolding market_audit_def option.case bindS_assoc
  by (intro runs_bind [OF runs_require_writer] runs_noted runs_bind [OF runs_ret])

lemma runs_add_competitor:
  assumes "digest_ok (env_sha env)" and "assert_allows (ic_scope i) (cm_tenant_id x) (cm_data_domain_id x) None None = Inr ()"
    and "dict_get (ms_subject_index r) (subject_key_of x) = None" and "ms_unknown_profiles r = []"
  shows "runs env (add_competitor env i x (Some q)) r n t x
    (index_subject (subject_key_of x) (cm_competitor_id x) (set_competitor (cm_competitor_id x) x r)) (n + 1) (t + 1)"
proof -
  let ?s = "index_subject (subject_key_of x) (cm_competitor_id x) (set_competitor (cm_competitor_id x) x r)"
  have "runs env (quarantine_unknown_profiles env i (cm_tenant_id x) (cm_data_domain_id x) (cm_subject_key x) (cm_updated_at x))
      ?s n t [] ?s n t"
    unfolding quarantine_unknown_profiles_def
    by (rule runs_bind [OF runs_get]) (simp add: assms(4) runs_ret)
  note none = runs_bind [OF this]
  have "runs env (market_allowed i (cm_tenant_id x) (cm_data_domain_id x) None) r n t () r n t"
    unfolding market_allowed_def by (rule runs_liftE [OF assms(2)])
  note allowed = runs_bind [OF this]
  show ?thesis
    unfolding add_competitor_def
    by (rule allowed, rule runs_bind [OF runs_get], rule runs_bind [OF runs_checkS], simp add: assms(3),
        rule runs_bind [OF runs_put], rule runs_bind [OF runs_put], rule none, rule runs_market_audit [OF assms(1)])
      (simp add: audit_unknown_quarantines_def runs_bind [OF runs_ret] runs_ret)
qed

definition sample_competitor :: "uuid \<Rightarrow> competitor" where
  "sample_competitor k =
     \<lparr>cm_competitor_id = k, cm_version_id = 41, cm_tenant_id = sc_tenant_id sample_scope,
      cm_data_domain_id = sc_data_domain_id sample_scope, cm_subject_key = ''acme'', cm_legal_name = ''Acme'',
      cm_aliases = [], cm_actor_id = 5, cm_created_at = 0, cm_updated_at = 0, cm_archived_at = None,
      cm_archive_reason = None\<rparr>"

lemma sample_competitor_allowed:
  "assert_allows (ic_scope (wide_user 5)) (cm_tenant_id (sample_competitor k)) (cm_data_domain_id (sample_competitor k)) None None = Inr ()"
  by (simp add: wide_user_def sample_competitor_def assert_allows_def)

theorem market_commands_run_once_witness:
  "\<exists>x w'. execute_idempotent (wide_user 5) ''key'' ''fp''
       (as_result R_Competitor (add_competitor counting_env (wide_user 5) (sample_competitor 40) (Some ''r'')))
       (fresh_world empty_market) = (Inr x, w') \<and>
     execute_idempotent (wide_user 8) ''key'' ''fp'' (throw TypeError) w' = (Inr x, w') \<and>
     execute_idempotent (wide_user 8) ''key'' ''other'' (throw TypeError) w' = (Inl (BiaiceError ''IDEMPOTENCY_CONFLICT''), w')"
proof -
  let ?m = "execute_idempotent (wide_user 5) ''key'' ''fp''
       (as_result R_Competitor (add_competitor counting_env (wide_user 5) (sample_competitor 40) (Some ''r'')))"
  have free: "dict_get (ms_subject_index empty_market) (subject_key_of (sample_competitor 40)) = None"
    "ms_unknown_profiles empty_market = []" by (simp_all add: empty_market_def)
  note add = runs_add_competitor [OF _ sample_competitor_allowed free, where env = counting_env and q = "''r''"]
  have start: "standing counting_env empty_market 0 0 (fresh_world empty_market)" by simp
  have new: "dict_get (ms_idempotency_results empty_market) k = None" for k by (simp add: empty_market_def)
  have "\<exists>r n t. runs counting_env ?m empty_market 0 0 (R_Competitor (sample_competitor 40)) r n t"
    unfolding execute_idempotent_def Let_def as_result_def
    by (intro exI, rule runs_bind [OF runs_get], unfold new option.case, rule runs_bind_assoc, rule runs_bind [OF add],
        simp, rule runs_bind [OF runs_ret], rule runs_bind [OF runs_put], rule runs_ret)
  then obtain w' where run: "?m (fresh_world empty_market) = (Inr (R_Competitor (sample_competitor 40)), w')"
    using start unfolding runs_def by blast
  from market_commands_run_once [OF this, of "wide_user 8", where cs = "[]" and fp' = "''other''"] run show ?thesis
    by (auto simp: wide_user_def)
qed

section \<open>Without the audit sink\<close>

lemma market_steps:
  "ok \<Longrightarrow> bindS (checkS ok e) f w = f () w" "bindS (ret z) g' w = g' z w"
  "bindS (get_repo q) g w = g (q (w_repo w)) w"
  "bindS (put_repo h) f w = f () (w\<lparr>w_repo := h (w_repo w)\<rparr>)"
  "assert_allows (ic_scope i) tid did None uid = Inr () \<Longrightarrow> bindS (market_allowed i tid did uid) f w = f () w"
  "\<not> ms_available (w_audit w) \<Longrightarrow>
     bindS (market_audit env i a ty k v rid rc oc) f w = (Inl (BiaiceError ''AUDIT_UNAVAILABLE''), w)"
  by (simp_all add: bindS_def checkS_def get_repo_def put_repo_def market_allowed_def market_audit_def
      require_writer_def require_audit_def guardE_def del: assert_allows_Inr)

lemma failed_command:
  "m w = (Inl e, w') \<Longrightarrow>
   dict_get (ms_idempotency_results (w_repo w)) (sc_tenant_id (ic_scope i), sc_data_domain_id (ic_scope i), key) = None \<Longrightarrow>
   execute_idempotent i key fp (as_result f m) w = (Inl e, w')"
  by (simp add: execute_idempotent_def Let_def as_result_def bindS_def get_repo_def)

text \<open>
  A competitor that is created while the audit sink is unavailable stays: the caller gets an error,
  but the competitor is registered without an audit event and the answer is not kept under the key.
  When the caller repeats the request, which draws another identifier, a conflict is reported
  whether the sink is back or not.
\<close>

theorem unaudited_competitors_stay:
  assumes "\<not> ms_available (w_audit w)"
    and "assert_allows (ic_scope i) (cm_tenant_id x) (cm_data_domain_id x) None None = Inr ()"
    and "dict_get (ms_subject_index (w_repo w)) (subject_key_of x) = None"
    and "filter (\<lambda>(_, p). overlooks (cm_tenant_id x) (cm_data_domain_id x) (cm_subject_key x) p) (ms_unknown_profiles (w_repo w)) = []"
    and "dict_get (ms_idempotency_results (w_repo w)) (sc_tenant_id (ic_scope i), sc_data_domain_id (ic_scope i), key) = None"
    and "subject_key_of y = subject_key_of x" and "cm_competitor_id y \<noteq> cm_competitor_id x"
  shows "\<exists>w'. execute_idempotent i key fp (as_result R_Competitor (add_competitor env i x rid)) w =
      (Inl (BiaiceError ''AUDIT_UNAVAILABLE''), w') \<and>
    dict_get (ms_competitors (w_repo w')) (cm_competitor_id x) = Some x \<and> w_audit w' = w_audit w \<and>
    execute_idempotent i key fp (as_result R_Competitor (add_competitor env i y rid)) (w'\<lparr>w_audit := a\<rparr>) =
      (Inl (BiaiceError ''IDEMPOTENCY_CONFLICT''), w'\<lparr>w_audit := a\<rparr>)"
proof -
  let ?w = "w\<lparr>w_repo := index_subject (subject_key_of x) (cm_competitor_id x) (set_competitor (cm_competitor_id x) x (w_repo w))\<rparr>"
  have fields: "ms_subject_index (set_competitor k c s) = ms_subject_index s"
    "ms_idempotency_results (index_subject key' k s) = ms_idempotency_results s"
    "ms_idempotency_results (set_competitor k c s) = ms_idempotency_results s"
    "ms_subject_index (index_subject key' k s) = dict_set key' k (ms_subject_index s)"
    "ms_competitors (index_subject key' k s) = ms_competitors s"
    "ms_competitors (set_competitor k c s) = dict_set k c (ms_competitors s)" for k c s key'
    by (simp_all add: set_competitor_def index_subject_def)
  have place: "cm_tenant_id y = cm_tenant_id x" "cm_data_domain_id y = cm_data_domain_id x"
    using assms(6) by (simp_all add: subject_key_of_def)
  have "add_competitor env i x rid w = (Inl (BiaiceError ''AUDIT_UNAVAILABLE''), ?w)"
    using assms(1-4)
    by (simp add: add_competitor_def quarantine_unknown_profiles_def market_steps bindS_assoc fields)
  then have "execute_idempotent i key fp (as_result R_Competitor (add_competitor env i x rid)) w =
      (Inl (BiaiceError ''AUDIT_UNAVAILABLE''), ?w)"
    using assms(5) by (rule failed_command)
  moreover have "add_competitor env i y rid (?w\<lparr>w_audit := a\<rparr>) = (Inl (BiaiceError ''IDEMPOTENCY_CONFLICT''), ?w\<lparr>w_audit := a\<rparr>)"
    using assms(2,6,7)
    by (simp add: add_competitor_def market_steps place fields state_conflict_def) (simp add: bindS_def checkS_def)
  then have "execute_idempotent i key fp (as_result R_Competitor (add_competitor env i y rid)) (?w\<lparr>w_audit := a\<rparr>) =
      (Inl (BiaiceError ''IDEMPOTENCY_CONFLICT''), ?w\<lparr>w_audit := a\<rparr>)"
    using assms(5) by (intro failed_command) (simp_all add: fields)
  ultimately show ?thesis by (intro exI [of _ ?w]) (simp add: fields)
qed

theorem unaudited_competitors_stay_witness:
  "\<exists>w'. execute_idempotent (wide_user 5) ''key'' ''fp''
       (as_result R_Competitor (add_competitor counting_env (wide_user 5) (sample_competitor 40) (Some ''r'')))
       ((fresh_world empty_market)\<lparr>w_audit := \<lparr>ms_events = [], ms_available = False\<rparr>\<rparr>) =
      (Inl (BiaiceError ''AUDIT_UNAVAILABLE''), w') \<and>
    dict_get (ms_competitors (w_repo w')) 40 = Some (sample_competitor 40)"
proof -
  have keys: "subject_key_of (sample_competitor 42) = subject_key_of (sample_competitor 40)"
    "cm_competitor_id (sample_competitor 42) \<noteq> cm_competitor_id (sample_competitor 40)" "cm_competitor_id (sample_competitor 40) = 40"
    by (simp_all add: sample_competitor_def subject_key_of_def)
  show ?thesis
    using unaudited_competitors_stay
      [OF _ sample_competitor_allowed _ _ _ keys(1,2),
        of "(fresh_world empty_market)\<lparr>w_audit := \<lparr>ms_events = [], ms_available = False\<rparr>\<rparr>" "''key''" "''fp''" counting_env "Some ''r''"]
    unfolding keys(3) by (auto simp: fresh_world_def empty_market_def)
qed

end
