(* ===== verification/Spec2Isabelle.thy ===== *)
theory Spec2Isabelle
  imports Audit_Log Deletion Gates World Lifecycle Py_Decimal Errors Resolution Fr01_Limits Sim_Results Approvals M4_Failures
    Privacy_Results Market_Results
begin

text \<open>
  A verification library of the biaice backend (\<open>src/apps/backend/src/biaice\<close>): a service
  that keeps procurement projects and their decision units, resolves the rules that apply to
  them, simulates bids, and records everything in hash-chained audit logs under strict tenant
  scopes. Around the bids it judges the company's evidence and commercial inputs and keeps the
  risks somebody has accepted; beside them it governs data about competitors and the records of
  privacy law.

  The parts and how they interact. Every service method runs for an \<open>IdentityContext\<close>, asks the
  audit writer before it starts (\<open>require_audit\<close>), checks the scope, reads and writes an
  in-memory repository, writes an audit event and may append an event to the outbox. This shape
  is the state monad \<open>('s, 'a) svc\<close> of \<open>Prelude\<close> over the record \<open>'r world\<close> of \<open>World\<close>: the
  repository \<open>'r\<close> of the module, the audit sink, the outbox port, and how many identifiers and
  clock readings were drawn. An exception is a value of \<open>exc\<close> and keeps what was written before
  it. The digest, \<open>isoformat\<close>, \<open>uuid4\<close> and the clock are the fields of \<open>env\<close>; nothing is
  assumed of them but what a theorem states.

  Which theory models what:
  \<^item> \<open>Auth\<close>: \<open>core/auth.py\<close>. \<open>Canonical_Json\<close>, \<open>Audit_Log\<close>: canonical JSON and \<open>core/audit.py\<close>.
    \<open>Governance\<close>, \<open>Deletion\<close>: \<open>modules/governance\<close>. \<open>Gates\<close>: \<open>core/security/gates.py\<close>.
    \<open>Errors\<close>, \<open>Outbox\<close>: \<open>core/errors.py\<close>, \<open>core/outbox.py\<close>. \<open>Http\<close>: \<open>core/http.py\<close>,
    \<open>core/idempotency.py\<close> and pagination.
  \<^item> \<open>Py_Decimal\<close> and \<open>Decimal_Arith\<close>: Python's decimal numbers, their text and the arithmetic of
    the default context (28 digits, half even).
  \<^item> \<open>Lifecycle\<close>, \<open>Fr01_Models\<close>, \<open>Resolution\<close>, \<open>Fr01_Repository\<close>, \<open>Fr01_Services\<close>,
    \<open>Rules_Services\<close>: \<open>modules/projects\<close> and \<open>modules/rules\<close>. \<open>Fr01_Log\<close>,
    \<open>Fr01_Guarantees\<close>, \<open>Fr01_Trail\<close>, \<open>Fr01_Limits\<close>: what holds of any history of their calls.
  \<^item> \<open>Sim_Models\<close>, \<open>Sim_Domain\<close>, \<open>Sim_Numbers\<close>, \<open>Sim_Repository\<close>, \<open>Sim_Services\<close>,
    \<open>Sim_Decisions\<close>: \<open>modules/simulation\<close> and \<open>workers/simulation/runtime.py\<close>.
    \<open>Sim_Invariants\<close>, \<open>Sim_Guarantees\<close>, \<open>Sim_Types\<close>: calls, the invariant and the types of the
    stored data. \<open>Sim_Machine\<close>: the batch state machine and its refinement. \<open>Sim_Results\<close>: the
    guarantees, and what never happens.
  \<^item> \<open>Approvals\<close>: \<open>modules/approvals_reports\<close>, whose only object so far is the risk acceptance,
    with what can happen to a stored acceptance.
  \<^item> \<open>M4_Models\<close>, \<open>M4_Repository\<close>, \<open>Evidence_Services\<close>, \<open>Evidence_Prechecks\<close>,
    \<open>Commercial_Services\<close>: \<open>modules/evidence\<close> and \<open>modules/commercial\<close>. Both stores are one
    record \<open>m4_repo\<close>; the ports to documents, rules and the market are a parameter \<open>m4_ports\<close>
    whose answers may change with every reading of the clock. \<open>M4_Invariants\<close>, \<open>M4_Results\<close>:
    what holds of the stored objects and of prechecks. \<open>M4_Failures\<close>: overdue conditions,
    superseded requirements, readiness, drafts that are published unchecked and commands without
    the audit sink.
  \<^item> \<open>Privacy\<close>: \<open>modules/market/privacy\<close> and \<open>api/market_privacy.py\<close>, records that move along
    tables of transitions and a journal of answered commands; \<open>Privacy_Results\<close>: every record is
    a run of the tables, and a command is carried out once.
  \<^item> \<open>Market_Models\<close>, \<open>Market_Service\<close>, \<open>Market_Offers\<close>, \<open>Market_Routes\<close>:
    \<open>modules/market/domain/models.py\<close>, \<open>modules/market/application/governance.py\<close> and the
    writing routes of \<open>api/fr05.py\<close>. \<open>Market_Sweep\<close>: the loops that take every affected profile out
    of use. \<open>Market_Invariants\<close>, \<open>Market_Histories\<close>: the invariant and that every route keeps it.
    \<open>Market_Results\<close>: named competitors, quarantine, repeated commands and the missing audit sink.
  \<^item> \<open>Module_Base\<close>: what the services of the modules repeat: the scope test of the stores, lookups,
    event emission, histories of calls, and the sample worlds of the witnesses.

  The interfaces are locales: \<open>scoped_store\<close> and \<open>listed_store\<close> of \<open>Store\<close> (what a read returns
  after a write, and that nothing outside the scope is returned), interpreted for every
  dictionary of the repositories, and the audit sink of \<open>Audit_Log\<close>, interpreted for the
  in-memory sink.

  The proof methods are shared: \<open>preserves\<close> and \<open>wp\<close> in \<open>Prelude\<close>, \<open>quiet\<close> in \<open>World\<close> for
  operations that leave the repository alone, \<open>keeps\<close> in \<open>Keeps\<close> for invariants together with
  what values satisfy, \<open>runs\<close> in \<open>Runs\<close> for the symbolic execution of calls that succeed,
  \<open>stays\<close> and \<open>watch\<close> in \<open>Module_Base\<close> for what a call does to one stored object.

  Bounds and choices. Identifiers are 128-bit words; a theorem that needs fresh identifiers says
  which must not be drawn (\<open>distinct_ids\<close>, \<open>never_drawn\<close>). Times are microseconds since the
  epoch. Texts are their UTF-8 bytes; case mapping and digits are ASCII. A dictionary is an
  association list in insertion order. Every function is total: no fuel is used. Decimal
  exponents are unbounded (the context's limits of a million are not modelled). A repository
  operation is atomic: the locks are not modelled. A history is a list of calls that write, each
  by any identity; listings and readings only appear in it where they read the clock.

  Not modelled: human-readable details of errors; FastAPI routes, which parse requests and call
  the services (those of FR-05 and FR-12 that write are modelled after parsing); the page of the
  privacy listing with its signed cursor; the sums of floating-point distributions in the market
  models and the generic market resources of \<open>modules/market/application/services.py\<close>; the
  SQL adapters and migrations; Celery and telemetry glue; parsers, virus scanner, storage and
  cryptography, which are external; the web client; and the modules listed in the manifest as
  not modelled.
\<close>

end
